(* ===== verification/Spotalis_Prelude.thy ===== *)
theory Spotalis_Prelude
  imports Main "HOL-Library.Word"
begin

text \<open>
  Shared vocabulary of the development: Go's fixed-width integers, truncating division,
  the functions of Go's \<^verbatim>\<open>strings\<close> and \<^verbatim>\<open>strconv\<close> packages that the
  sources call, times and durations, and the error-or-value results.

  \<^item> An \<^verbatim>\<open>int32\<close> or \<^verbatim>\<open>int64\<close> of the source is an \<open>int\<close>; every
    addition, subtraction and multiplication of the source is followed by \<open>i32\<close> or
    \<open>i64\<close>, which reduce to the two's complement range, so that overflow is visible.
    \<open>i32_eq_sint\<close> ties \<open>i32\<close> to HOL's 32-bit words.
  \<^item> A \<^verbatim>\<open>string\<close> is a list of bytes.
  \<^item> A \<^verbatim>\<open>time.Time\<close> is the number of nanoseconds since Go's zero time, so that
    \<^verbatim>\<open>IsZero\<close> is \<open>t = 0\<close>; a \<^verbatim>\<open>time.Duration\<close> is an \<^verbatim>\<open>int64\<close>.
\<close>

named_theorems go_int "facts about the fixed-width integers of Go"
named_theorems go_str "facts about Go's string functions"

section \<open>Fixed-width integers\<close>

definition i32 :: "int \<Rightarrow> int" where
  "i32 x = (x + 2147483648) mod 4294967296 - 2147483648"

definition i64 :: "int \<Rightarrow> int" where
  "i64 x = (x + 9223372036854775808) mod 18446744073709551616 - 9223372036854775808"

definition in_i32 :: "int \<Rightarrow> bool" where
  "in_i32 x \<longleftrightarrow> - 2147483648 \<le> x \<and> x < 2147483648"

definition in_i64 :: "int \<Rightarrow> bool" where
  "in_i64 x \<longleftrightarrow> - 9223372036854775808 \<le> x \<and> x < 9223372036854775808"

lemma i32_id [go_int]: "in_i32 x \<Longrightarrow> i32 x = x"
  by (simp add: in_i32_def i32_def)

lemma i64_id [go_int]: "in_i64 x \<Longrightarrow> i64 x = x"
  by (simp add: in_i64_def i64_def)

lemma i32_range [go_int]: "in_i32 (i32 x)"
  by (simp add: in_i32_def i32_def)

lemma i64_range [go_int]: "in_i64 (i64 x)"
  by (simp add: in_i64_def i64_def)

lemma i32_0 [simp]: "i32 0 = 0" and i64_0 [simp]: "i64 0 = 0"
  by (simp_all add: i32_def i64_def)

lemma i32_eq_sint: "i32 x = sint (word_of_int x :: 32 word)"
  by (simp add: i32_def sint_sbintrunc' signed_take_bit_eq_take_bit_shift take_bit_eq_mod)

lemma i64_eq_sint: "i64 x = sint (word_of_int x :: 64 word)"
  by (simp add: i64_def sint_sbintrunc' signed_take_bit_eq_take_bit_shift take_bit_eq_mod)

lemma in_i32_in_i64: "in_i32 x \<Longrightarrow> in_i64 x"
  by (simp add: in_i32_def in_i64_def)

lemma in_i32_bound: "0 \<le> x \<Longrightarrow> x \<le> y \<Longrightarrow> in_i32 y \<Longrightarrow> in_i32 x"
  by (simp add: in_i32_def)

lemma i32_sub_nonneg: "0 \<le> a \<Longrightarrow> 0 \<le> b \<Longrightarrow> in_i32 a \<Longrightarrow> in_i32 b \<Longrightarrow> i32 (a - b) = a - b"
  by (simp add: i32_id in_i32_def)

text \<open>Go's integer division truncates towards zero.\<close>

definition go_div :: "int \<Rightarrow> int \<Rightarrow> int" where
  "go_div a b = sgn a * sgn b * (\<bar>a\<bar> div \<bar>b\<bar>)"

lemma go_div_nonneg [go_int]: "0 \<le> a \<Longrightarrow> 0 < b \<Longrightarrow> go_div a b = a div b"
  by (cases "a = 0") (simp_all add: go_div_def)

section \<open>Times and durations\<close>

type_synonym time = int
type_synonym duration = int

text \<open>
  \<^verbatim>\<open>t.Sub(u)\<close> and \<^verbatim>\<open>time.Since(u)\<close> saturate at the ends of the
  \<^verbatim>\<open>Duration\<close> range.
\<close>

definition time_sub :: "time \<Rightarrow> time \<Rightarrow> duration" where
  "time_sub t u = max (- 9223372036854775808) (min 9223372036854775807 (t - u))"

abbreviation IsZero :: "time \<Rightarrow> bool" where
  "IsZero t \<equiv> t = 0"

definition Second :: duration where "Second = 1000000000"
definition Minute :: duration where "Minute = 60000000000"

lemmas duration_units = Second_def Minute_def

lemma time_sub_exact [go_int]: "in_i64 (t - u) \<Longrightarrow> time_sub t u = t - u"
  by (auto simp: time_sub_def in_i64_def)

lemma time_sub_less: "in_i64 d \<Longrightarrow> - 9223372036854775808 < d \<Longrightarrow> time_sub t u < d \<longleftrightarrow> t - u < d"
  by (auto simp: time_sub_def in_i64_def)

lemma time_sub_le: "in_i64 d \<Longrightarrow> d < 9223372036854775807 \<Longrightarrow> time_sub t u \<le> d \<longleftrightarrow> t - u \<le> d"
  by (auto simp: time_sub_def in_i64_def)

section \<open>Strings\<close>

definition HasPrefix :: "string \<Rightarrow> string \<Rightarrow> bool" where
  "HasPrefix s p \<longleftrightarrow> take (length p) s = p"

definition HasSuffix :: "string \<Rightarrow> string \<Rightarrow> bool" where
  "HasSuffix s p \<longleftrightarrow> length p \<le> length s \<and> drop (length s - length p) s = p"

definition TrimSuffix :: "string \<Rightarrow> string \<Rightarrow> string" where
  "TrimSuffix s p = (if HasSuffix s p then take (length s - length p) s else s)"

fun Contains :: "string \<Rightarrow> string \<Rightarrow> bool" where
  "Contains [] p = (p = [])"
| "Contains (c # s) p = (HasPrefix (c # s) p \<or> Contains s p)"

definition lower_char :: "char \<Rightarrow> char" where
  "lower_char c = (let n = of_char c :: nat in if 65 \<le> n \<and> n \<le> 90 then char_of (n + 32) else c)"

text \<open>
  \<^verbatim>\<open>strings.ToLower\<close> on the ASCII letters. Bytes outside ASCII are kept; no
  other code point has a lower case among the letters the sources compare with.
\<close>

definition ToLower :: "string \<Rightarrow> string" where
  "ToLower s = map lower_char s"

lemma HasPrefix_append [simp, go_str]: "HasPrefix (p @ s) p"
  by (simp add: HasPrefix_def)

lemma HasPrefixD: "HasPrefix s p \<Longrightarrow> s = p @ drop (length p) s"
  unfolding HasPrefix_def by (metis append_take_drop_id)

lemma HasSuffix_append [simp, go_str]: "HasSuffix (s @ p) p"
  by (simp add: HasSuffix_def)

lemma TrimSuffix_append [simp, go_str]: "TrimSuffix (s @ p) p = s"
  by (simp add: TrimSuffix_def)

lemma TrimSuffix_id: "\<not> HasSuffix s p \<Longrightarrow> TrimSuffix s p = s"
  by (simp add: TrimSuffix_def)

section \<open>Decimal numbers as strings\<close>

definition digit_value :: "char \<Rightarrow> int option" where
  "digit_value c = (let n = of_char c :: int in if 48 \<le> n \<and> n \<le> 57 then Some (n - 48) else None)"

fun digits_value :: "int \<Rightarrow> string \<Rightarrow> int option" where
  "digits_value acc [] = Some acc"
| "digits_value acc (c # cs) =
     (case digit_value c of None \<Rightarrow> None | Some d \<Rightarrow> digits_value (10 * acc + d) cs)"

datatype num_error = ErrSyntax | ErrRange

text \<open>
  \<^verbatim>\<open>strconv.ParseInt(s, 10, bits)\<close>: an optional sign, at least one digit, digits
  only, and a value in the range of the width. Base 10 admits no underscore.
  \<^verbatim>\<open>strconv.Atoi\<close> is the 64-bit case.
\<close>

definition parse_digits :: "string \<Rightarrow> num_error + int" where
  "parse_digits s =
     (if s = [] then Inl ErrSyntax
      else case digits_value 0 s of None \<Rightarrow> Inl ErrSyntax | Some v \<Rightarrow> Inr v)"

definition check_range :: "int \<Rightarrow> int \<Rightarrow> num_error + int" where
  "check_range bound v = (if - bound \<le> v \<and> v < bound then Inr v else Inl ErrRange)"

definition ParseInt :: "int \<Rightarrow> string \<Rightarrow> num_error + int" where
  "ParseInt bound s =
     (case s of
        [] \<Rightarrow> Inl ErrSyntax
      | c # cs \<Rightarrow>
          (let neg = (c = CHR ''-'');
               body = (if c = CHR ''-'' \<or> c = CHR ''+'' then cs else s)
           in case parse_digits body of
                Inl e \<Rightarrow> Inl e
              | Inr v \<Rightarrow> check_range bound (if neg then - v else v)))"

abbreviation ParseInt32 :: "string \<Rightarrow> num_error + int" where
  "ParseInt32 \<equiv> ParseInt 2147483648"

abbreviation Atoi :: "string \<Rightarrow> num_error + int" where
  "Atoi \<equiv> ParseInt 9223372036854775808"

definition digit_char :: "int \<Rightarrow> char" where
  "digit_char d = char_of (48 + d)"

function nat_digits :: "int \<Rightarrow> string" where
  "nat_digits n = (if n < 10 then [digit_char n] else nat_digits (n div 10) @ [digit_char (n mod 10)])"
  by pat_completeness auto
termination by (relation "measure nat") auto

declare nat_digits.simps [simp del]

text \<open>\<^verbatim>\<open>strconv.FormatInt(n, 10)\<close> and \<^verbatim>\<open>strconv.Itoa\<close>.\<close>

definition FormatInt :: "int \<Rightarrow> string" where
  "FormatInt n = (if n < 0 then CHR ''-'' # nat_digits (- n) else nat_digits n)"

lemma ParseInt_range: "ParseInt bound s = Inr v \<Longrightarrow> - bound \<le> v \<and> v < bound"
  by (auto simp: ParseInt_def check_range_def Let_def split: list.splits sum.splits if_splits)

lemma digit_value_char: "0 \<le> d \<Longrightarrow> d < 10 \<Longrightarrow> digit_value (digit_char d) = Some d"
  by (simp add: digit_value_def digit_char_def Let_def)

lemma digits_value_append:
  "digits_value acc (xs @ ys) = Option.bind (digits_value acc xs) (\<lambda>a. digits_value a ys)"
  by (induction xs arbitrary: acc) (auto split: option.splits)

lemma digits_value_nat_digits: "0 \<le> n \<Longrightarrow> digits_value 0 (nat_digits n) = Some n"
proof (induction n rule: nat_digits.induct)
  case (1 n)
  show ?case
  proof (cases "n < 10")
    case True
    with "1.prems" show ?thesis by (simp add: nat_digits.simps [of n] digit_value_char)
  next
    case False
    with "1.IH" have "digits_value 0 (nat_digits (n div 10)) = Some (n div 10)" by simp
    with False "1.prems" show ?thesis
      by (simp add: nat_digits.simps [of n] digits_value_append digit_value_char)
  qed
qed

lemma nat_digits_Nil [simp]: "nat_digits n \<noteq> []"
  by (subst nat_digits.simps) simp

lemma digit_char_sign: "0 \<le> d \<Longrightarrow> d < 10 \<Longrightarrow> digit_char d \<notin> {CHR ''-'', CHR ''+'', CHR ''%''}"
  using digit_value_char [of d] by (auto simp: digit_value_def Let_def split: if_splits)

lemma set_nat_digits: "0 \<le> n \<Longrightarrow> c \<in> set (nat_digits n) \<Longrightarrow> c \<notin> {CHR ''-'', CHR ''+'', CHR ''%''}"
proof (induction n rule: nat_digits.induct)
  case (1 n)
  show ?case
  proof (cases "n < 10")
    case True
    with "1.prems" show ?thesis
      by (simp add: nat_digits.simps [of n] digit_char_sign [simplified])
  next
    case False
    have last: "digit_char (n mod 10) \<notin> {CHR ''-'', CHR ''+'', CHR ''%''}"
      by (rule digit_char_sign) simp_all
    have "0 \<le> n div 10" using False by linarith
    with False "1.IH" have "c \<in> set (nat_digits (n div 10)) \<Longrightarrow> c \<notin> {CHR ''-'', CHR ''+'', CHR ''%''}"
      by blast
    moreover from False "1.prems"(2) have "c \<in> set (nat_digits (n div 10)) \<or> c = digit_char (n mod 10)"
      by (auto simp: nat_digits.simps [of n])
    ultimately show ?thesis using last by (elim disjE) simp_all
  qed
qed

text \<open>Printing a number and parsing it back gives the number, at every width it fits.\<close>

lemma ParseInt_FormatInt:
  assumes "- bound \<le> n" and "n < bound"
  shows "ParseInt bound (FormatInt n) = Inr n"
proof (cases "n < 0")
  case True
  with assms show ?thesis
    by (simp add: FormatInt_def ParseInt_def parse_digits_def digits_value_nat_digits check_range_def)
next
  case False
  then have n: "0 \<le> n" by simp
  obtain c cs where cs: "nat_digits n = c # cs"
    by (cases "nat_digits n") auto
  with set_nat_digits [OF n, of c] have "c \<noteq> CHR ''-''" and "c \<noteq> CHR ''+''" by auto
  moreover from digits_value_nat_digits [OF n] cs have "digits_value 0 (c # cs) = Some n" by simp
  ultimately show ?thesis using False assms cs
    by (simp add: FormatInt_def ParseInt_def parse_digits_def check_range_def del: digits_value.simps)
qed

lemma FormatInt_no_percent: "0 \<le> n \<Longrightarrow> CHR ''%'' \<notin> set (FormatInt n)"
  using set_nat_digits [of n "CHR ''%''"] by (auto simp: FormatInt_def)

lemma TrimSuffix_percent: "TrimSuffix (FormatInt n @ ''%'') ''%'' = FormatInt n"
  by (rule TrimSuffix_append)

section \<open>Lists\<close>

text \<open>The first \<open>n\<close> elements, \<open>n\<close> an integer count that may be negative.\<close>

definition take_int :: "int \<Rightarrow> 'a list \<Rightarrow> 'a list" where
  "take_int n xs = take (nat n) xs"

lemma length_take_int [simp]: "length (take_int n xs) = min (length xs) (nat n)"
  by (simp add: take_int_def)

lemma set_take_int: "x \<in> set (take_int n xs) \<Longrightarrow> x \<in> set xs"
  unfolding take_int_def by (rule in_set_takeD)

lemma find_NoneD: "find P xs = None \<Longrightarrow> \<forall>x\<in>set xs. \<not> P x"
  by (auto simp: find_None_iff)

lemma find_SomeD: "find P xs = Some x \<Longrightarrow> P x \<and> x \<in> set xs"
  by (auto simp: find_Some_iff)

lemma find_split:
  "find P xs = Some x \<Longrightarrow> \<exists>ys zs. xs = ys @ x # zs \<and> P x \<and> (\<forall>y\<in>set ys. \<not> P y)"
proof (induction xs)
  case (Cons a xs)
  show ?case
  proof (cases "P a")
    case True
    with Cons.prems have "a # xs = [] @ x # xs \<and> P x \<and> (\<forall>y\<in>set []. \<not> P y)" by simp
    then show ?thesis by blast
  next
    case False
    with Cons obtain ys zs where "xs = ys @ x # zs" "P x" "\<forall>y\<in>set ys. \<not> P y" by auto
    with False have "a # xs = (a # ys) @ x # zs \<and> P x \<and> (\<forall>y\<in>set (a # ys). \<not> P y)" by simp
    then show ?thesis by blast
  qed
qed simp

end
