(* ===== verification/Policy.thy ===== *)
theory Policy
  imports Spotalis_Prelude
begin

text \<open>
  The allocation engine of \<^verbatim>\<open>pkg/apis/policy.go\<close>: the resolved placement policy,
  the policy a workload supplies itself, their merge, the validation of inputs and
  \<^verbatim>\<open>AllocateReplicaDistribution\<close>, the only place where desired targets are
  computed. The lemmas tie the engine to its contract: the spot target is the greatest
  count that respects both the percentage and the on-demand floor.
\<close>

record ReplicaAllocationPolicy =
  pol_MinOnDemand :: int
  pol_SpotPercentage :: int

text \<open>A nil pointer of the source is \<open>None\<close>; a pointer to a value is \<open>Some\<close>.\<close>

record WorkloadPolicy =
  wp_MinOnDemand :: "int option"
  wp_SpotPercentage :: "int option"

definition Resolve :: "WorkloadPolicy \<Rightarrow> ReplicaAllocationPolicy \<Rightarrow> ReplicaAllocationPolicy" where
  "Resolve p defaults =
     (let resolved = defaults;
          resolved = (case wp_MinOnDemand p of
             None \<Rightarrow> resolved | Some m \<Rightarrow> resolved\<lparr>pol_MinOnDemand := m\<rparr>);
          resolved = (case wp_SpotPercentage p of
             None \<Rightarrow> resolved | Some q \<Rightarrow> resolved\<lparr>pol_SpotPercentage := q\<rparr>)
      in resolved)"

record ReplicaAllocation =
  al_TotalReplicas :: int
  al_EffectiveOnDemandFloor :: int
  al_TargetOnDemand :: int
  al_TargetSpot :: int

datatype policy_error =
    TotalReplicasNegative int
  | MinOnDemandNegative int
  | SpotPercentageOutOfRange int
  | SpotTargetOutOfRange int

definition ValidateReplicaAllocationPolicy ::
  "int \<Rightarrow> ReplicaAllocationPolicy \<Rightarrow> policy_error option" where
  "ValidateReplicaAllocationPolicy totalReplicas policy =
     (if totalReplicas < 0 then Some (TotalReplicasNegative totalReplicas)
      else if pol_MinOnDemand policy < 0 then Some (MinOnDemandNegative (pol_MinOnDemand policy))
      else if pol_SpotPercentage policy < 0 \<or> pol_SpotPercentage policy > 100
        then Some (SpotPercentageOutOfRange (pol_SpotPercentage policy))
      else None)"

definition minInt32 :: "int \<Rightarrow> int \<Rightarrow> int" where
  "minInt32 a b = (if a < b then a else b)"

definition AllocateReplicaDistribution ::
  "int \<Rightarrow> ReplicaAllocationPolicy \<Rightarrow> policy_error + ReplicaAllocation" where
  "AllocateReplicaDistribution totalReplicas policy =
     (case ValidateReplicaAllocationPolicy totalReplicas policy of
        Some err \<Rightarrow> Inl err
      | None \<Rightarrow>
         (let effectiveFloor = minInt32 (pol_MinOnDemand policy) totalReplicas;
              percentageTarget64 = go_div (i64 (totalReplicas * pol_SpotPercentage policy)) 100
          in if percentageTarget64 < 0 \<or> percentageTarget64 > 2147483647
             then Inl (SpotTargetOutOfRange percentageTarget64)
             else
               (let percentageTarget = i32 percentageTarget64;
                    targetSpot = minInt32 percentageTarget (i32 (totalReplicas - effectiveFloor))
                in Inr \<lparr>al_TotalReplicas = totalReplicas,
                        al_EffectiveOnDemandFloor = effectiveFloor,
                        al_TargetOnDemand = i32 (totalReplicas - targetSpot),
                        al_TargetSpot = targetSpot\<rparr>)))"

section \<open>The engine computes the documented formula\<close>

definition wf_policy :: "ReplicaAllocationPolicy \<Rightarrow> bool" where
  "wf_policy p \<longleftrightarrow> in_i32 (pol_MinOnDemand p) \<and> in_i32 (pol_SpotPercentage p)"

lemma minInt32_min [simp]: "minInt32 a b = min a b"
  by (simp add: minInt32_def)

lemma Validate_None_iff:
  "ValidateReplicaAllocationPolicy t p = None \<longleftrightarrow>
   0 \<le> t \<and> 0 \<le> pol_MinOnDemand p \<and> 0 \<le> pol_SpotPercentage p \<and> pol_SpotPercentage p \<le> 100"
  by (auto simp: ValidateReplicaAllocationPolicy_def)

lemma percentage_product_bounds:
  assumes "0 \<le> t" "in_i32 t" "0 \<le> q" "q \<le> (100::int)"
  shows "0 \<le> t * q" and "t * q \<le> t * 100" and "in_i64 (t * q)"
proof -
  show "0 \<le> t * q" using assms by simp
  show le: "t * q \<le> t * 100" using assms by (simp add: mult_left_mono)
  have "t * 100 < 9223372036854775808" using assms by (simp add: in_i32_def)
  with le have "t * q < 9223372036854775808" by linarith
  then show "in_i64 (t * q)" using \<open>0 \<le> t * q\<close> by (simp add: in_i64_def)
qed

lemma percentage_target:
  assumes "0 \<le> t" "in_i32 t" "0 \<le> q" "q \<le> (100::int)"
  shows "go_div (i64 (t * q)) 100 = t * q div 100" and "0 \<le> t * q div 100" and "t * q div 100 \<le> t"
proof -
  note b = percentage_product_bounds [OF assms]
  show "go_div (i64 (t * q)) 100 = t * q div 100"
    using b by (simp add: i64_id go_div_nonneg)
  show "0 \<le> t * q div 100" using b(1) by (rule pos_imp_zdiv_nonneg_iff [THEN iffD2, rotated]) simp
  show "t * q div 100 \<le> t" using b(2) by linarith
qed

lemma Allocate_valid:
  assumes "ValidateReplicaAllocationPolicy t p = None" and "in_i32 t"
  defines "f \<equiv> min (pol_MinOnDemand p) t"
  defines "s \<equiv> min (t * pol_SpotPercentage p div 100) (t - f)"
  shows "AllocateReplicaDistribution t p =
    Inr \<lparr>al_TotalReplicas = t, al_EffectiveOnDemandFloor = f,
         al_TargetOnDemand = t - s, al_TargetSpot = s\<rparr>"
proof -
  from assms(1) have v: "0 \<le> t" "0 \<le> pol_MinOnDemand p"
    "0 \<le> pol_SpotPercentage p" "pol_SpotPercentage p \<le> 100"
    by (auto simp: Validate_None_iff)
  note pt = percentage_target [OF v(1) assms(2) v(3,4)]
  have f: "0 \<le> f" "f \<le> t" using v by (simp_all add: f_def)
  have s: "0 \<le> s" "s \<le> t" using pt f by (simp_all add: s_def)
  have r: "in_i32 (t * pol_SpotPercentage p div 100)" "in_i32 (t - f)" "in_i32 (t - s)"
    using pt f s assms(2) unfolding in_i32_def by linarith+
  show ?thesis
    using pt r assms(1,2) unfolding AllocateReplicaDistribution_def
    by (simp add: i32_id f_def [symmetric] s_def [symmetric] Let_def in_i32_def)
qed

lemma Allocate_Inl_iff:
  assumes "in_i32 t"
  shows "AllocateReplicaDistribution t p = Inl e \<longleftrightarrow> ValidateReplicaAllocationPolicy t p = Some e"
proof (cases "ValidateReplicaAllocationPolicy t p")
  case None
  with Allocate_valid [OF this assms] show ?thesis by simp
next
  case (Some e')
  then show ?thesis by (simp add: AllocateReplicaDistribution_def)
qed

lemma Allocate_InrE:
  assumes "AllocateReplicaDistribution t p = Inr a" and "in_i32 t"
  obtains "ValidateReplicaAllocationPolicy t p = None"
    and "al_TotalReplicas a = t"
    and "al_EffectiveOnDemandFloor a = min (pol_MinOnDemand p) t"
    and "al_TargetSpot a = min (t * pol_SpotPercentage p div 100) (t - min (pol_MinOnDemand p) t)"
    and "al_TargetOnDemand a = t - al_TargetSpot a"
proof -
  from assms(1) have "ValidateReplicaAllocationPolicy t p = None"
    by (cases "ValidateReplicaAllocationPolicy t p")
      (simp_all add: AllocateReplicaDistribution_def)
  with Allocate_valid [OF this assms(2)] assms(1) show thesis by (intro that) auto
qed

section \<open>What the engine promises\<close>

text \<open>
  The abstract specification: a spot count is admissible when it respects the floor and
  does not exceed the percentage. The engine returns the greatest admissible count.
\<close>

definition admissible_spot :: "int \<Rightarrow> ReplicaAllocationPolicy \<Rightarrow> int \<Rightarrow> bool" where
  "admissible_spot t p s \<longleftrightarrow>
     0 \<le> s \<and> s \<le> t \<and> 100 * s \<le> t * pol_SpotPercentage p \<and> min (pol_MinOnDemand p) t \<le> t - s"

lemma Allocate_admissible:
  assumes "AllocateReplicaDistribution t p = Inr a" and "in_i32 t"
  shows "admissible_spot t p (al_TargetSpot a)"
proof -
  from assms obtain v: "ValidateReplicaAllocationPolicy t p = None"
    and s: "al_TargetSpot a = min (t * pol_SpotPercentage p div 100) (t - min (pol_MinOnDemand p) t)"
    by (rule Allocate_InrE)
  from v assms(2) have "0 \<le> t * pol_SpotPercentage p div 100" "t * pol_SpotPercentage p div 100 \<le> t"
    by (auto simp: Validate_None_iff intro: percentage_target)
  moreover have "100 * (t * pol_SpotPercentage p div 100) \<le> t * pol_SpotPercentage p" by simp
  ultimately show ?thesis using v unfolding admissible_spot_def s Validate_None_iff
    by (auto simp: min_def)
qed

lemma Allocate_greatest:
  assumes "AllocateReplicaDistribution t p = Inr a" and "in_i32 t" and "admissible_spot t p s"
  shows "s \<le> al_TargetSpot a"
proof -
  from assms(1,2) have "al_TargetSpot a = min (t * pol_SpotPercentage p div 100) (t - min (pol_MinOnDemand p) t)"
    by (rule Allocate_InrE)
  moreover from assms(3) have "s \<le> t * pol_SpotPercentage p div 100"
    unfolding admissible_spot_def by linarith
  moreover from assms(3) have "s \<le> t - min (pol_MinOnDemand p) t"
    unfolding admissible_spot_def by linarith
  ultimately show ?thesis by simp
qed

lemma Allocate_bounds:
  assumes "AllocateReplicaDistribution t p = Inr a" and "in_i32 t"
  shows "0 \<le> al_TargetSpot a" "0 \<le> al_TargetOnDemand a"
    "al_TargetSpot a + al_TargetOnDemand a = t"
    "in_i32 (al_TargetSpot a)" "in_i32 (al_TargetOnDemand a)"
proof -
  have od: "al_TargetOnDemand a = t - al_TargetSpot a"
    using assms by (rule Allocate_InrE)
  have "0 \<le> al_TargetSpot a" "al_TargetSpot a \<le> t"
    using Allocate_admissible [OF assms] by (simp_all add: admissible_spot_def)
  with od assms(2) show "0 \<le> al_TargetSpot a" "0 \<le> al_TargetOnDemand a"
    "al_TargetSpot a + al_TargetOnDemand a = t"
    "in_i32 (al_TargetSpot a)" "in_i32 (al_TargetOnDemand a)"
    by (auto simp: in_i32_def)
qed

lemmas Allocate_simps = Allocate_valid Allocate_Inl_iff Validate_None_iff

lemma percentage_mono: "t \<le> t' \<Longrightarrow> 0 \<le> q \<Longrightarrow> t * q div 100 \<le> t' * q div (100::int)"
  by (intro zdiv_mono1 mult_right_mono) simp_all

lemma percentage_step:
  assumes "0 \<le> q" "q \<le> (100::int)" "t \<le> t'"
  shows "t' * q div 100 \<le> t * q div 100 + (t' - t)"
proof -
  have "(t' - t) * q \<le> (t' - t) * 100" using assms by (intro mult_left_mono) simp_all
  then have "t' * q \<le> t * q + (t' - t) * 100" by (simp add: left_diff_distrib)
  from zdiv_mono1 [OF this, of 100] have "t' * q div 100 \<le> (t * q + (t' - t) * 100) div 100" by simp
  then show ?thesis by simp
qed

lemma Allocate_scale_up:
  assumes "AllocateReplicaDistribution t p = Inr a" and "AllocateReplicaDistribution t' p = Inr a'"
    and "in_i32 t" "in_i32 t'" "t \<le> t'"
  shows "al_TargetSpot a \<le> al_TargetSpot a'" "al_TargetOnDemand a \<le> al_TargetOnDemand a'"
proof -
  let ?q = "pol_SpotPercentage p" and ?m = "pol_MinOnDemand p"
  from assms(1,3) obtain v: "ValidateReplicaAllocationPolicy t p = None"
    and s: "al_TargetSpot a = min (t * ?q div 100) (t - min ?m t)"
    and o: "al_TargetOnDemand a = t - al_TargetSpot a" by (rule Allocate_InrE)
  from assms(2,4) obtain s': "al_TargetSpot a' = min (t' * ?q div 100) (t' - min ?m t')"
    and o': "al_TargetOnDemand a' = t' - al_TargetSpot a'" by (rule Allocate_InrE)
  from v have q: "0 \<le> ?q" "?q \<le> 100" by (auto simp: Validate_None_iff)
  note m = percentage_mono [OF assms(5) q(1)] and st = percentage_step [OF q assms(5)]
  show "al_TargetSpot a \<le> al_TargetSpot a'" using m assms(5) unfolding s s' by linarith
  show "al_TargetOnDemand a \<le> al_TargetOnDemand a'"
    using st assms(5) unfolding o o' s s' by linarith
qed

section \<open>The allocation interface\<close>

text \<open>
  What every consumer of the engine relies on: an allocation is produced exactly for valid
  inputs, it splits the total, and its spot part is the greatest admissible one. The
  consumers (the desired state of a workload, the admission tracker, the controllers) use
  only these laws.
\<close>

locale allocator =
  fixes alloc :: "int \<Rightarrow> ReplicaAllocationPolicy \<Rightarrow> 'e + ReplicaAllocation"
  assumes alloc_total: "in_i32 t \<Longrightarrow> 0 \<le> t \<Longrightarrow> 0 \<le> pol_MinOnDemand p \<Longrightarrow> 0 \<le> pol_SpotPercentage p \<Longrightarrow>
      pol_SpotPercentage p \<le> 100 \<Longrightarrow> \<exists>a. alloc t p = Inr a"
    and alloc_admissible: "in_i32 t \<Longrightarrow> alloc t p = Inr a \<Longrightarrow> admissible_spot t p (al_TargetSpot a)"
    and alloc_greatest: "in_i32 t \<Longrightarrow> alloc t p = Inr a \<Longrightarrow> admissible_spot t p s \<Longrightarrow> s \<le> al_TargetSpot a"
    and alloc_split: "in_i32 t \<Longrightarrow> alloc t p = Inr a \<Longrightarrow> al_TargetSpot a + al_TargetOnDemand a = t"
begin

lemma spot_unique:
  assumes "in_i32 t" "alloc t p = Inr a" "admissible_spot t p s" "\<And>s'. admissible_spot t p s' \<Longrightarrow> s' \<le> s"
  shows "al_TargetSpot a = s"
  using alloc_greatest [OF assms(1-3)] assms(4) [OF alloc_admissible [OF assms(1,2)]] by simp

lemma bounds:
  assumes "in_i32 t" "alloc t p = Inr a"
  shows "0 \<le> al_TargetSpot a" "al_TargetSpot a \<le> t" "0 \<le> al_TargetOnDemand a" "al_TargetOnDemand a \<le> t"
  using alloc_admissible [OF assms] alloc_split [OF assms] by (auto simp: admissible_spot_def)

lemma floor_kept:
  assumes "in_i32 t" "alloc t p = Inr a"
  shows "min (pol_MinOnDemand p) t \<le> al_TargetOnDemand a"
  using alloc_admissible [OF assms] alloc_split [OF assms] by (auto simp: admissible_spot_def)

lemma no_spot_without_percentage:
  assumes "in_i32 t" "alloc t p = Inr a" "pol_SpotPercentage p = 0"
  shows "al_TargetSpot a = 0" "al_TargetOnDemand a = t"
  using alloc_admissible [OF assms(1,2)] alloc_split [OF assms(1,2)] assms(3)
  by (auto simp: admissible_spot_def)

lemma no_spot_below_floor:
  assumes "in_i32 t" "alloc t p = Inr a" "t \<le> pol_MinOnDemand p"
  shows "al_TargetSpot a = 0" "al_TargetOnDemand a = t"
  using alloc_admissible [OF assms(1,2)] alloc_split [OF assms(1,2)] assms(3)
  by (auto simp: admissible_spot_def)

end

interpretation engine: allocator AllocateReplicaDistribution
proof unfold_locales
  fix t :: int and p :: ReplicaAllocationPolicy
  assume "in_i32 t" "0 \<le> t" "0 \<le> pol_MinOnDemand p" "0 \<le> pol_SpotPercentage p" "pol_SpotPercentage p \<le> 100"
  then show "\<exists>a. AllocateReplicaDistribution t p = Inr a"
    by (auto simp: Validate_None_iff intro!: exI Allocate_valid)
qed (simp_all add: Allocate_admissible Allocate_greatest Allocate_bounds)

section \<open>Properties\<close>

text \<open>C9: For a total in the 32-bit range the engine's spot target is the greatest spot count
  that leaves the on-demand floor (clamped to the total) untouched and does not exceed the
  percentage, and its two targets add up to the total.\<close>

theorem allocation_optimal:
  assumes "in_i32 t" and "AllocateReplicaDistribution t p = Inr a"
  shows "admissible_spot t p (al_TargetSpot a) \<and> (\<forall>s. admissible_spot t p s \<longrightarrow> s \<le> al_TargetSpot a) \<and>
    al_TargetSpot a + al_TargetOnDemand a = t \<and> al_EffectiveOnDemandFloor a \<le> al_TargetOnDemand a"
proof -
  from assms(2,1) have f: "al_EffectiveOnDemandFloor a = min (pol_MinOnDemand p) t" by (rule Allocate_InrE)
  show ?thesis unfolding f
    using engine.alloc_admissible [OF assms] engine.alloc_greatest [OF assms] engine.alloc_split [OF assms]
      engine.floor_kept [OF assms] by blast
qed

theorem allocation_optimal_witness:
  "admissible_spot 10 \<lparr>pol_MinOnDemand = 4, pol_SpotPercentage = 75\<rparr> 6 \<and>
   \<not> admissible_spot 10 \<lparr>pol_MinOnDemand = 4, pol_SpotPercentage = 75\<rparr> 7"
  using allocation_optimal [of 10 "\<lparr>pol_MinOnDemand = 4, pol_SpotPercentage = 75\<rparr>"
      "\<lparr>al_TotalReplicas = 10, al_EffectiveOnDemandFloor = 4, al_TargetOnDemand = 4, al_TargetSpot = 6\<rparr>"]
  by (auto simp: in_i32_def AllocateReplicaDistribution_def ValidateReplicaAllocationPolicy_def
      go_div_def i64_def i32_def Let_def)

text \<open>C32: On 32-bit inputs the engine fails exactly when the total is negative, the floor is
  negative or the percentage is outside 0 to 100, with the error of the first failing test in
  that order; the conversion check after the 64-bit product is unreachable.\<close>

theorem allocation_errors:
  assumes "in_i32 t"
  shows "(AllocateReplicaDistribution t p = Inl e) =
    (if t < 0 then e = TotalReplicasNegative t
     else if pol_MinOnDemand p < 0 then e = MinOnDemandNegative (pol_MinOnDemand p)
     else if pol_SpotPercentage p < 0 \<or> 100 < pol_SpotPercentage p
       then e = SpotPercentageOutOfRange (pol_SpotPercentage p)
     else False)"
  unfolding Allocate_Inl_iff [OF assms] by (auto simp: ValidateReplicaAllocationPolicy_def)

theorem allocation_errors_witness:
  "AllocateReplicaDistribution 5 \<lparr>pol_MinOnDemand = 0, pol_SpotPercentage = 101\<rparr> = Inl (SpotPercentageOutOfRange 101)"
  using allocation_errors [of 5 "\<lparr>pol_MinOnDemand = 0, pol_SpotPercentage = 101\<rparr>" "SpotPercentageOutOfRange 101"]
  by (simp add: in_i32_def)

text \<open>Scaling a workload up under an unchanged policy never lowers its spot target nor its
  on-demand target, so a scale-up never asks for an eviction.\<close>

theorem allocation_scale_up:
  assumes "AllocateReplicaDistribution t p = Inr a" and "AllocateReplicaDistribution t' p = Inr a'"
    and "in_i32 t" and "in_i32 t'" and "t \<le> t'"
  shows "al_TargetSpot a \<le> al_TargetSpot a' \<and> al_TargetOnDemand a \<le> al_TargetOnDemand a'"
  using Allocate_scale_up [OF assms] by blast

theorem allocation_scale_up_witness:
  "al_TargetSpot \<lparr>al_TotalReplicas = 3, al_EffectiveOnDemandFloor = 1, al_TargetOnDemand = 2, al_TargetSpot = 1\<rparr>
   \<le> al_TargetSpot \<lparr>al_TotalReplicas = 10, al_EffectiveOnDemandFloor = 1, al_TargetOnDemand = 5, al_TargetSpot = 5\<rparr>"
  using allocation_scale_up [of 3 "\<lparr>pol_MinOnDemand = 1, pol_SpotPercentage = 50\<rparr>"
      "\<lparr>al_TotalReplicas = 3, al_EffectiveOnDemandFloor = 1, al_TargetOnDemand = 2, al_TargetSpot = 1\<rparr>" 10
      "\<lparr>al_TotalReplicas = 10, al_EffectiveOnDemandFloor = 1, al_TargetOnDemand = 5, al_TargetSpot = 5\<rparr>"]
  by (simp add: in_i32_def AllocateReplicaDistribution_def ValidateReplicaAllocationPolicy_def
      go_div_def i64_def i32_def Let_def)

end
