(* ===== verification/Workload_Configuration.thy ===== *)
theory Workload_Configuration
  imports Policy
begin

text \<open>
  \<^verbatim>\<open>pkg/apis/configuration.go\<close>: the configuration read from a workload's
  annotations, its validation, and the conversion to and from annotations.
  A map of the source that is only looked up is a partial function; a nil map is
  \<open>None\<close> where the code tests for it.
\<close>

type_synonym string_map = "string \<rightharpoonup> string"

record WorkloadConfiguration =
  wc_Enabled :: bool
  wc_MinOnDemand :: int
  wc_SpotPercentage :: int
  wc_Policy :: WorkloadPolicy

definition no_policy :: WorkloadPolicy where
  "no_policy = \<lparr>wp_MinOnDemand = None, wp_SpotPercentage = None\<rparr>"

definition zero_config :: "bool \<Rightarrow> WorkloadConfiguration" where
  "zero_config enabled =
     \<lparr>wc_Enabled = enabled, wc_MinOnDemand = 0, wc_SpotPercentage = 0, wc_Policy = no_policy\<rparr>"

definition AllocationPolicy :: "WorkloadConfiguration \<Rightarrow> ReplicaAllocationPolicy" where
  "AllocationPolicy w =
     \<lparr>pol_MinOnDemand = wc_MinOnDemand w, pol_SpotPercentage = wc_SpotPercentage w\<rparr>"

definition wc_Validate :: "WorkloadConfiguration \<Rightarrow> int \<Rightarrow> policy_error option" where
  "wc_Validate w totalReplicas =
     (if \<not> wc_Enabled w then None
      else ValidateReplicaAllocationPolicy totalReplicas (AllocationPolicy w))"

definition IsSpotOptimized :: "WorkloadConfiguration \<Rightarrow> bool" where
  "IsSpotOptimized w \<longleftrightarrow> wc_SpotPercentage w > 50"

definition IsOnDemandOnly :: "WorkloadConfiguration \<Rightarrow> bool" where
  "IsOnDemandOnly w \<longleftrightarrow> wc_SpotPercentage w = 0"

definition MinOnDemandKey :: string where "MinOnDemandKey = ''spotalis.io/min-on-demand''"
definition SpotPercentageKey :: string where "SpotPercentageKey = ''spotalis.io/spot-percentage''"

lemma keys_distinct [simp]: "MinOnDemandKey \<noteq> SpotPercentageKey" "SpotPercentageKey \<noteq> MinOnDemandKey"
  by (simp_all add: MinOnDemandKey_def SpotPercentageKey_def)

datatype config_error =
    InvalidMinOnDemand num_error
  | InvalidSpotPercentage num_error
  | PolicyInvalid policy_error

definition set_MinOnDemand :: "int \<Rightarrow> WorkloadConfiguration \<Rightarrow> WorkloadConfiguration" where
  "set_MinOnDemand n c =
     c\<lparr>wc_MinOnDemand := n, wc_Policy := (wc_Policy c)\<lparr>wp_MinOnDemand := Some n\<rparr>\<rparr>"

definition set_SpotPercentage :: "int \<Rightarrow> WorkloadConfiguration \<Rightarrow> WorkloadConfiguration" where
  "set_SpotPercentage n c =
     c\<lparr>wc_SpotPercentage := n, wc_Policy := (wc_Policy c)\<lparr>wp_SpotPercentage := Some n\<rparr>\<rparr>"

definition parse_min_field ::
  "string_map \<Rightarrow> WorkloadConfiguration \<Rightarrow> config_error + WorkloadConfiguration" where
  "parse_min_field annotations config =
     (case annotations MinOnDemandKey of
        None \<Rightarrow> Inr config
      | Some minOnDemand \<Rightarrow>
         (case ParseInt32 minOnDemand of
            Inl err \<Rightarrow> Inl (InvalidMinOnDemand err)
          | Inr parsed \<Rightarrow> Inr (set_MinOnDemand (i32 parsed) config)))"

definition parse_spot_field ::
  "string_map \<Rightarrow> WorkloadConfiguration \<Rightarrow> config_error + WorkloadConfiguration" where
  "parse_spot_field annotations config =
     (case annotations SpotPercentageKey of
        None \<Rightarrow> Inr config
      | Some spotPercentage \<Rightarrow>
         (case ParseInt32 (TrimSuffix spotPercentage ''%'') of
            Inl err \<Rightarrow> Inl (InvalidSpotPercentage err)
          | Inr parsed \<Rightarrow> Inr (set_SpotPercentage (i32 parsed) config)))"

definition ParseFromAnnotations ::
  "string_map option \<Rightarrow> bool \<Rightarrow> config_error + WorkloadConfiguration" where
  "ParseFromAnnotations annotations enabled =
     (let config = zero_config enabled
      in if \<not> wc_Enabled config then Inr config
         else case annotations of
           None \<Rightarrow> Inr config
         | Some m \<Rightarrow>
            (case parse_min_field m config of
               Inl e \<Rightarrow> Inl e
             | Inr config \<Rightarrow>
                (case parse_spot_field m config of
                   Inl e \<Rightarrow> Inl e
                 | Inr config \<Rightarrow>
                    (case ValidateReplicaAllocationPolicy 0 (AllocationPolicy config) of
                       Some err \<Rightarrow> Inl (PolicyInvalid err)
                     | None \<Rightarrow> Inr config))))"

definition ToAnnotations :: "WorkloadConfiguration \<Rightarrow> string_map" where
  "ToAnnotations w =
     (let annotations = Map.empty
      in if \<not> wc_Enabled w then annotations
         else
          (let neither = (wp_MinOnDemand (wc_Policy w) = None \<and> wp_SpotPercentage (wc_Policy w) = None);
               annotations =
                 (if wp_MinOnDemand (wc_Policy w) \<noteq> None \<or> neither
                  then annotations(MinOnDemandKey \<mapsto> FormatInt (wc_MinOnDemand w)) else annotations);
               annotations =
                 (if wp_SpotPercentage (wc_Policy w) \<noteq> None \<or> neither
                  then annotations(SpotPercentageKey \<mapsto> FormatInt (wc_SpotPercentage w) @ ''%'')
                  else annotations)
           in annotations))"

section \<open>Parsed configurations are well formed, and printing is inverse to parsing\<close>

text \<open>
  A configuration is consistent when the policy view agrees with the resolved fields: a
  field that was supplied carries the resolved value, one that was omitted resolves to 0.
\<close>

definition consistent :: "WorkloadConfiguration \<Rightarrow> bool" where
  "consistent w \<longleftrightarrow>
     (case wp_MinOnDemand (wc_Policy w) of None \<Rightarrow> wc_MinOnDemand w = 0 | Some n \<Rightarrow> n = wc_MinOnDemand w) \<and>
     (case wp_SpotPercentage (wc_Policy w) of None \<Rightarrow> wc_SpotPercentage w = 0 | Some n \<Rightarrow> n = wc_SpotPercentage w)"

definition valid_config :: "WorkloadConfiguration \<Rightarrow> bool" where
  "valid_config w \<longleftrightarrow> 0 \<le> wc_MinOnDemand w \<and> in_i32 (wc_MinOnDemand w) \<and>
     0 \<le> wc_SpotPercentage w \<and> wc_SpotPercentage w \<le> 100"

lemma zero_config_simps [simp]:
  "wc_Enabled (zero_config b) = b" "wc_MinOnDemand (zero_config b) = 0"
  "wc_SpotPercentage (zero_config b) = 0" "wc_Policy (zero_config b) = no_policy"
  by (simp_all add: zero_config_def)

lemma no_policy_simps [simp]: "wp_MinOnDemand no_policy = None" "wp_SpotPercentage no_policy = None"
  by (simp_all add: no_policy_def)

lemma set_fields_simps [simp]:
  "wc_MinOnDemand (set_MinOnDemand n c) = n" "wc_SpotPercentage (set_MinOnDemand n c) = wc_SpotPercentage c"
  "wc_Enabled (set_MinOnDemand n c) = wc_Enabled c"
  "wp_MinOnDemand (wc_Policy (set_MinOnDemand n c)) = Some n"
  "wp_SpotPercentage (wc_Policy (set_MinOnDemand n c)) = wp_SpotPercentage (wc_Policy c)"
  "wc_MinOnDemand (set_SpotPercentage n c) = wc_MinOnDemand c" "wc_SpotPercentage (set_SpotPercentage n c) = n"
  "wc_Enabled (set_SpotPercentage n c) = wc_Enabled c"
  "wp_MinOnDemand (wc_Policy (set_SpotPercentage n c)) = wp_MinOnDemand (wc_Policy c)"
  "wp_SpotPercentage (wc_Policy (set_SpotPercentage n c)) = Some n"
  by (simp_all add: set_MinOnDemand_def set_SpotPercentage_def)

lemma zero_config_consistent [simp]: "consistent (zero_config b)" "valid_config (zero_config b)"
  by (simp_all add: consistent_def valid_config_def in_i32_def)

lemma set_consistent [simp]:
  "consistent c \<Longrightarrow> consistent (set_MinOnDemand n c)" "consistent c \<Longrightarrow> consistent (set_SpotPercentage n c)"
  by (auto simp: consistent_def split: option.splits)

lemma parse_fields_invariant:
  "parse_min_field m c = Inr c' \<Longrightarrow> consistent c \<Longrightarrow> consistent c' \<and> wc_Enabled c' = wc_Enabled c \<and>
     (in_i32 (wc_MinOnDemand c) \<longrightarrow> in_i32 (wc_MinOnDemand c'))"
  "parse_spot_field m c = Inr c' \<Longrightarrow> consistent c \<Longrightarrow> consistent c' \<and> wc_Enabled c' = wc_Enabled c \<and>
     wc_MinOnDemand c' = wc_MinOnDemand c"
  by (auto simp: parse_min_field_def parse_spot_field_def i32_range split: option.splits sum.splits)

lemma ParseFromAnnotations_valid:
  assumes "ParseFromAnnotations m b = Inr c"
  shows "valid_config c" and "consistent c" and "wc_Enabled c = b"
proof -
  have "valid_config c \<and> consistent c \<and> wc_Enabled c = b"
  proof (cases "b \<and> m \<noteq> None")
    case False
    with assms show ?thesis
      by (auto simp: ParseFromAnnotations_def Let_def split: if_splits option.splits sum.splits)
  next
    case True
    then obtain m' where m: "m = Some m'" and b: "b" by auto
    with assms obtain c1 where c1: "parse_min_field m' (zero_config b) = Inr c1"
      and c: "parse_spot_field m' c1 = Inr c"
      and v: "ValidateReplicaAllocationPolicy 0 (AllocationPolicy c) = None"
      by (auto simp: ParseFromAnnotations_def Let_def split: sum.splits option.splits)
    from parse_fields_invariant(1) [OF c1]
    have i1: "consistent c1" "wc_Enabled c1 = b" "in_i32 (wc_MinOnDemand c1)"
      by (auto simp: in_i32_def)
    from parse_fields_invariant(2) [OF c i1(1)] i1 v show ?thesis
      by (auto simp: valid_config_def Validate_None_iff AllocationPolicy_def)
  qed
  then show "valid_config c" and "consistent c" and "wc_Enabled c = b" by simp_all
qed

lemma valid_config_i32: "valid_config w \<Longrightarrow> i32 (wc_MinOnDemand w) = wc_MinOnDemand w"
  "valid_config w \<Longrightarrow> i32 (wc_SpotPercentage w) = wc_SpotPercentage w"
  by (auto simp: valid_config_def in_i32_def intro!: i32_id)

lemma valid_config_print:
  assumes "valid_config w"
  shows "ParseInt32 (FormatInt (wc_MinOnDemand w)) = Inr (wc_MinOnDemand w)"
    and "ParseInt32 (FormatInt (wc_SpotPercentage w)) = Inr (wc_SpotPercentage w)"
  using assms by (auto simp: valid_config_def in_i32_def intro!: ParseInt_FormatInt)

text \<open>
  The configuration that comes back from the annotations is the one that was written,
  except that a configuration built without a policy comes back with both fields supplied.
\<close>

definition supplied :: "WorkloadConfiguration \<Rightarrow> WorkloadConfiguration" where
  "supplied w =
     (if wc_Policy w = no_policy
      then w\<lparr>wc_Policy := \<lparr>wp_MinOnDemand = Some (wc_MinOnDemand w),
                          wp_SpotPercentage = Some (wc_SpotPercentage w)\<rparr>\<rparr>
      else w)"

lemma no_policy_iff: "p = no_policy \<longleftrightarrow> wp_MinOnDemand p = None \<and> wp_SpotPercentage p = None"
  by (cases p) (simp add: no_policy_def)

lemma ParseFromAnnotations_ToAnnotations:
  assumes "wc_Enabled w" and "valid_config w" and "consistent w \<or> wc_Policy w = no_policy"
  shows "ParseFromAnnotations (Some (ToAnnotations w)) True = Inr (supplied w)"
proof -
  obtain e m s p where w: "w = \<lparr>wc_Enabled = e, wc_MinOnDemand = m, wc_SpotPercentage = s, wc_Policy = p\<rparr>"
    by (cases w)
  obtain pm ps where p: "p = \<lparr>wp_MinOnDemand = pm, wp_SpotPercentage = ps\<rparr>" by (cases p)
  have pr: "ParseInt32 (FormatInt m) = Inr m" "ParseInt32 (FormatInt s) = Inr s" "i32 m = m" "i32 s = s"
    using valid_config_print [OF assms(2)] valid_config_i32 [OF assms(2)] by (simp_all add: w)
  have v: "0 \<le> m" "0 \<le> s" "s \<le> 100" using assms(2) by (simp_all add: valid_config_def w)
  show ?thesis using assms(1,3) pr v
    by (cases pm; cases ps)
      (auto simp: w p ParseFromAnnotations_def ToAnnotations_def parse_min_field_def parse_spot_field_def
        Let_def supplied_def no_policy_def set_MinOnDemand_def set_SpotPercentage_def zero_config_def
        consistent_def ValidateReplicaAllocationPolicy_def AllocationPolicy_def)
qed

section \<open>Properties\<close>

text \<open>C14: Writing a valid configuration to annotations and parsing them back returns it; a
  configuration that was built without a policy comes back with both fields supplied.\<close>

theorem annotations_roundtrip:
  assumes "wc_Enabled w" and "valid_config w" and "consistent w \<or> wc_Policy w = no_policy"
  shows "ParseFromAnnotations (Some (ToAnnotations w)) True = Inr (supplied w)"
  using assms by (rule ParseFromAnnotations_ToAnnotations)

theorem annotations_roundtrip_witness:
  "let w = \<lparr>wc_Enabled = True, wc_MinOnDemand = 2, wc_SpotPercentage = 70,
            wc_Policy = \<lparr>wp_MinOnDemand = Some 2, wp_SpotPercentage = Some 70\<rparr>\<rparr>
   in ParseFromAnnotations (Some (ToAnnotations w)) True = Inr w"
  using annotations_roundtrip [of "\<lparr>wc_Enabled = True, wc_MinOnDemand = 2, wc_SpotPercentage = 70,
            wc_Policy = \<lparr>wp_MinOnDemand = Some 2, wp_SpotPercentage = Some 70\<rparr>\<rparr>"]
  by (simp add: valid_config_def consistent_def in_i32_def supplied_def no_policy_def)

text \<open>C40: A configuration that parses is one the allocation engine accepts: for every total a
  workload can have, its resolved policy yields an allocation, and an omitted annotation
  counts as zero.\<close>

theorem parsed_config_allocates:
  assumes "ParseFromAnnotations m b = Inr c" and "0 \<le> t" and "in_i32 t"
  shows "consistent c \<and> wc_Enabled c = b \<and> (\<exists>a. AllocateReplicaDistribution t (AllocationPolicy c) = Inr a)"
  using ParseFromAnnotations_valid [OF assms(1)] engine.alloc_total [OF assms(3,2), of "AllocationPolicy c"]
  by (auto simp: valid_config_def AllocationPolicy_def)

theorem parsed_config_allocates_witness:
  "\<exists>a. AllocateReplicaDistribution 10 (AllocationPolicy
     \<lparr>wc_Enabled = True, wc_MinOnDemand = 0, wc_SpotPercentage = 70,
      wc_Policy = \<lparr>wp_MinOnDemand = None, wp_SpotPercentage = Some 70\<rparr>\<rparr>) = Inr a"
  using parsed_config_allocates [of "Some [SpotPercentageKey \<mapsto> ''70%'']" True
      "\<lparr>wc_Enabled = True, wc_MinOnDemand = 0, wc_SpotPercentage = 70,
        wc_Policy = \<lparr>wp_MinOnDemand = None, wp_SpotPercentage = Some 70\<rparr>\<rparr>" 10]
  by (simp add: in_i32_def ParseFromAnnotations_def parse_min_field_def parse_spot_field_def Let_def
      MinOnDemandKey_def SpotPercentageKey_def TrimSuffix_def HasSuffix_def ParseInt_def parse_digits_def
      digit_value_def check_range_def i32_def set_SpotPercentage_def zero_config_def no_policy_def
      ValidateReplicaAllocationPolicy_def AllocationPolicy_def)

end
