(* ===== verification/Replica_State.thy ===== *)
theory Replica_State
  imports Workload_Configuration
begin

text \<open>
  \<^verbatim>\<open>pkg/apis/replica_state.go\<close>: the observed and desired distribution of one
  workload, and the action that brings it closer to its target. The lemmas show that the
  recommended action is always applicable, that it reduces the drift, and that repeating
  it reaches the target.
\<close>

record ObjectReference =
  ref_APIVersion :: string
  ref_Kind :: string
  ref_Namespace :: string
  ref_Name :: string
  ref_UID :: string

record ReplicaState =
  rs_WorkloadRef :: ObjectReference
  rs_TotalReplicas :: int
  rs_CurrentOnDemand :: int
  rs_CurrentSpot :: int
  rs_DesiredOnDemand :: int
  rs_DesiredSpot :: int
  rs_LastReconciled :: time
  rs_PendingOnDemand :: int
  rs_PendingSpot :: int
  rs_FailedSpot :: int

datatype ReplicaAction =
    ReplicaActionNone
  | ReplicaActionScaleUpOnDemand
  | ReplicaActionScaleUpSpot
  | ReplicaActionScaleDownOnDemand
  | ReplicaActionScaleDownSpot
  | ReplicaActionMigrateToSpot
  | ReplicaActionMigrateToOnDemand

fun ReplicaAction_string :: "ReplicaAction \<Rightarrow> string" where
  "ReplicaAction_string ReplicaActionNone = ''none''"
| "ReplicaAction_string ReplicaActionScaleUpOnDemand = ''scale-up-on-demand''"
| "ReplicaAction_string ReplicaActionScaleUpSpot = ''scale-up-spot''"
| "ReplicaAction_string ReplicaActionScaleDownOnDemand = ''scale-down-on-demand''"
| "ReplicaAction_string ReplicaActionScaleDownSpot = ''scale-down-spot''"
| "ReplicaAction_string ReplicaActionMigrateToSpot = ''migrate-to-spot''"
| "ReplicaAction_string ReplicaActionMigrateToOnDemand = ''migrate-to-on-demand''"

definition CalculateDesiredDistribution :: "ReplicaState \<Rightarrow> WorkloadConfiguration \<Rightarrow> ReplicaState" where
  "CalculateDesiredDistribution r config =
     (if \<not> wc_Enabled config
      then r\<lparr>rs_DesiredOnDemand := rs_TotalReplicas r, rs_DesiredSpot := 0\<rparr>
      else case AllocateReplicaDistribution (rs_TotalReplicas r) (AllocationPolicy config) of
        Inl err \<Rightarrow> r\<lparr>rs_DesiredOnDemand := rs_TotalReplicas r, rs_DesiredSpot := 0\<rparr>
      | Inr allocation \<Rightarrow>
          r\<lparr>rs_DesiredOnDemand := al_TargetOnDemand allocation,
            rs_DesiredSpot := al_TargetSpot allocation\<rparr>)"

definition GetCurrentTotal :: "ReplicaState \<Rightarrow> int" where
  "GetCurrentTotal r = i32 (rs_CurrentOnDemand r + rs_CurrentSpot r)"

definition GetDesiredTotal :: "ReplicaState \<Rightarrow> int" where
  "GetDesiredTotal r = i32 (rs_DesiredOnDemand r + rs_DesiredSpot r)"

definition NeedsReconciliation :: "ReplicaState \<Rightarrow> bool" where
  "NeedsReconciliation r \<longleftrightarrow>
     rs_CurrentOnDemand r \<noteq> rs_DesiredOnDemand r \<or> rs_CurrentSpot r \<noteq> rs_DesiredSpot r"

definition GetOnDemandDrift :: "ReplicaState \<Rightarrow> int" where
  "GetOnDemandDrift r = i32 (rs_CurrentOnDemand r - rs_DesiredOnDemand r)"

definition GetSpotDrift :: "ReplicaState \<Rightarrow> int" where
  "GetSpotDrift r = i32 (rs_CurrentSpot r - rs_DesiredSpot r)"

definition RequiresScaleUp :: "ReplicaState \<Rightarrow> bool" where
  "RequiresScaleUp r \<longleftrightarrow> GetCurrentTotal r < rs_TotalReplicas r"

definition RequiresScaleDown :: "ReplicaState \<Rightarrow> bool" where
  "RequiresScaleDown r \<longleftrightarrow> GetCurrentTotal r > rs_TotalReplicas r"

text \<open>
  The three blocks of \<^verbatim>\<open>GetNextAction\<close> after its first test; each returns from the
  function or falls through to the next, so a block is an optional action.
\<close>

definition scale_up_block :: "ReplicaState \<Rightarrow> ReplicaAction option" where
  "scale_up_block r =
     (if GetCurrentTotal r < rs_TotalReplicas r then
        if rs_CurrentOnDemand r < rs_DesiredOnDemand r then Some ReplicaActionScaleUpOnDemand
        else if rs_CurrentSpot r < rs_DesiredSpot r then Some ReplicaActionScaleUpSpot
        else None
      else None)"

definition scale_down_block :: "ReplicaState \<Rightarrow> ReplicaAction option" where
  "scale_down_block r =
     (if GetCurrentTotal r > rs_TotalReplicas r then
        if rs_CurrentSpot r > rs_DesiredSpot r then Some ReplicaActionScaleDownSpot
        else if rs_CurrentOnDemand r > rs_DesiredOnDemand r then Some ReplicaActionScaleDownOnDemand
        else None
      else None)"

definition migrate_block :: "ReplicaState \<Rightarrow> ReplicaAction" where
  "migrate_block r =
     (if rs_CurrentOnDemand r > rs_DesiredOnDemand r \<and> rs_CurrentSpot r < rs_DesiredSpot r
      then ReplicaActionMigrateToSpot
      else if rs_CurrentSpot r > rs_DesiredSpot r \<and> rs_CurrentOnDemand r < rs_DesiredOnDemand r
      then ReplicaActionMigrateToOnDemand
      else ReplicaActionNone)"

definition GetNextAction :: "ReplicaState \<Rightarrow> ReplicaAction" where
  "GetNextAction r =
     (if \<not> NeedsReconciliation r then ReplicaActionNone
      else case scale_up_block r of
        Some a \<Rightarrow> a
      | None \<Rightarrow> (case scale_down_block r of Some a \<Rightarrow> a | None \<Rightarrow> migrate_block r))"

definition UpdateCurrentState :: "ReplicaState \<Rightarrow> int \<Rightarrow> int \<Rightarrow> ReplicaState" where
  "UpdateCurrentState r onDemandCount spotCount =
     r\<lparr>rs_CurrentOnDemand := onDemandCount, rs_CurrentSpot := spotCount\<rparr>"

definition MarkReconciled :: "time \<Rightarrow> ReplicaState \<Rightarrow> ReplicaState" where
  "MarkReconciled now r = r\<lparr>rs_LastReconciled := now\<rparr>"

definition GetReconciliationAge :: "time \<Rightarrow> ReplicaState \<Rightarrow> duration" where
  "GetReconciliationAge now r =
     (if IsZero (rs_LastReconciled r) then 0 else time_sub now (rs_LastReconciled r))"

definition rs_IsStale :: "time \<Rightarrow> ReplicaState \<Rightarrow> duration \<Rightarrow> bool" where
  "rs_IsStale now r maxAge \<longleftrightarrow>
     (if IsZero (rs_LastReconciled r) then True else GetReconciliationAge now r > maxAge)"

definition GetSpotPercentage :: "ReplicaState \<Rightarrow> int" where
  "GetSpotPercentage r =
     (let total = GetCurrentTotal r
      in if total = 0 then 0 else i32 (go_div (i32 (rs_CurrentSpot r * 100)) total))"

definition GetDesiredSpotPercentage :: "ReplicaState \<Rightarrow> int" where
  "GetDesiredSpotPercentage r =
     (if rs_TotalReplicas r = 0 then 0
      else i32 (go_div (i32 (rs_DesiredSpot r * 100)) (rs_TotalReplicas r)))"

section \<open>Well-formed states\<close>

text \<open>
  Counts of pods are never negative and their sum stays in the range of an
  \<^verbatim>\<open>int32\<close>; the desired counts are a distribution of the total.
\<close>

definition wf_current :: "ReplicaState \<Rightarrow> bool" where
  "wf_current r \<longleftrightarrow> 0 \<le> rs_CurrentOnDemand r \<and> 0 \<le> rs_CurrentSpot r \<and>
     in_i32 (rs_CurrentOnDemand r + rs_CurrentSpot r)"

definition wf_desired :: "ReplicaState \<Rightarrow> bool" where
  "wf_desired r \<longleftrightarrow> 0 \<le> rs_DesiredOnDemand r \<and> 0 \<le> rs_DesiredSpot r \<and>
     rs_DesiredOnDemand r + rs_DesiredSpot r = rs_TotalReplicas r"

lemma wf_current_total: "wf_current r \<Longrightarrow> GetCurrentTotal r = rs_CurrentOnDemand r + rs_CurrentSpot r"
  by (simp add: wf_current_def GetCurrentTotal_def i32_id)

lemma CalculateDesiredDistribution_frame [simp]:
  "rs_TotalReplicas (CalculateDesiredDistribution r c) = rs_TotalReplicas r"
  "rs_CurrentOnDemand (CalculateDesiredDistribution r c) = rs_CurrentOnDemand r"
  "rs_CurrentSpot (CalculateDesiredDistribution r c) = rs_CurrentSpot r"
  "rs_WorkloadRef (CalculateDesiredDistribution r c) = rs_WorkloadRef r"
  by (auto simp: CalculateDesiredDistribution_def split: sum.splits)

lemma CalculateDesiredDistribution_wf:
  assumes "0 \<le> rs_TotalReplicas r" and "in_i32 (rs_TotalReplicas r)"
  shows "wf_desired (CalculateDesiredDistribution r c)"
  using assms Allocate_bounds [of "rs_TotalReplicas r" "AllocationPolicy c"]
  by (auto simp: CalculateDesiredDistribution_def wf_desired_def split: sum.splits)

section \<open>The next action is never missing, and it makes progress\<close>

text \<open>What carrying an action out does to the observed counts.\<close>

fun apply_action :: "ReplicaAction \<Rightarrow> ReplicaState \<Rightarrow> ReplicaState" where
  "apply_action ReplicaActionNone r = r"
| "apply_action ReplicaActionScaleUpOnDemand r = r\<lparr>rs_CurrentOnDemand := rs_CurrentOnDemand r + 1\<rparr>"
| "apply_action ReplicaActionScaleUpSpot r = r\<lparr>rs_CurrentSpot := rs_CurrentSpot r + 1\<rparr>"
| "apply_action ReplicaActionScaleDownOnDemand r = r\<lparr>rs_CurrentOnDemand := rs_CurrentOnDemand r - 1\<rparr>"
| "apply_action ReplicaActionScaleDownSpot r = r\<lparr>rs_CurrentSpot := rs_CurrentSpot r - 1\<rparr>"
| "apply_action ReplicaActionMigrateToSpot r =
     r\<lparr>rs_CurrentOnDemand := rs_CurrentOnDemand r - 1, rs_CurrentSpot := rs_CurrentSpot r + 1\<rparr>"
| "apply_action ReplicaActionMigrateToOnDemand r =
     r\<lparr>rs_CurrentOnDemand := rs_CurrentOnDemand r + 1, rs_CurrentSpot := rs_CurrentSpot r - 1\<rparr>"

definition reconcile_once :: "ReplicaState \<Rightarrow> ReplicaState" where
  "reconcile_once r = apply_action (GetNextAction r) r"

definition drift :: "ReplicaState \<Rightarrow> nat" where
  "drift r = nat (\<bar>rs_CurrentOnDemand r - rs_DesiredOnDemand r\<bar> + \<bar>rs_CurrentSpot r - rs_DesiredSpot r\<bar>)"

lemmas next_action_defs =
  GetNextAction_def NeedsReconciliation_def scale_up_block_def scale_down_block_def migrate_block_def

lemma drift_0_iff: "drift r = 0 \<longleftrightarrow> \<not> NeedsReconciliation r"
  by (auto simp: drift_def NeedsReconciliation_def)

lemma GetNextAction_None_iff:
  assumes "wf_current r" and "wf_desired r"
  shows "GetNextAction r = ReplicaActionNone \<longleftrightarrow> \<not> NeedsReconciliation r"
  using assms(2) unfolding next_action_defs wf_current_total [OF assms(1)]
  by (auto simp: wf_desired_def)

lemma reconcile_once_drift:
  assumes "wf_current r" and "wf_desired r" and "NeedsReconciliation r"
  shows "drift (reconcile_once r) < drift r"
  using assms(2,3) unfolding reconcile_once_def next_action_defs wf_current_total [OF assms(1)]
  by (auto simp: wf_desired_def drift_def)

lemma reconcile_once_wf:
  assumes "wf_current r" and "wf_desired r" and "in_i32 (rs_TotalReplicas r)"
  shows "wf_current (reconcile_once r)" and "wf_desired (reconcile_once r)"
    and "rs_TotalReplicas (reconcile_once r) = rs_TotalReplicas r"
proof -
  show "rs_TotalReplicas (reconcile_once r) = rs_TotalReplicas r"
    unfolding reconcile_once_def by (cases "GetNextAction r") simp_all
  show "wf_desired (reconcile_once r)"
    using assms(2) unfolding reconcile_once_def by (cases "GetNextAction r") (simp_all add: wf_desired_def)
  show "wf_current (reconcile_once r)"
    using assms unfolding reconcile_once_def next_action_defs wf_current_total [OF assms(1)]
    by (auto simp: wf_desired_def wf_current_def in_i32_def)
qed

lemma reconcile_converges:
  assumes "wf_current r" and "wf_desired r" and "in_i32 (rs_TotalReplicas r)" and "drift r \<le> n"
  shows "\<not> NeedsReconciliation ((reconcile_once ^^ n) r)"
  using assms
proof (induction n arbitrary: r)
  case 0
  then show ?case by (simp add: drift_0_iff [symmetric])
next
  case (Suc n)
  let ?r = "reconcile_once r"
  have "drift ?r \<le> n"
  proof (cases "NeedsReconciliation r")
    case True
    with reconcile_once_drift [OF Suc.prems(1,2)] Suc.prems(4) show ?thesis by linarith
  next
    case False
    then have "?r = r" by (simp add: reconcile_once_def GetNextAction_def)
    moreover from False have "drift r = 0" by (simp add: drift_0_iff)
    ultimately show ?thesis by simp
  qed
  with reconcile_once_wf [OF Suc.prems(1-3)] Suc.prems(3)
  have "\<not> NeedsReconciliation ((reconcile_once ^^ n) ?r)" by (intro Suc.IH) simp_all
  then show ?case by (simp add: funpow_swap1)
qed

text \<open>The total is repaired before the mix: the precedence documented for the actions.\<close>

lemma GetNextAction_total_first:
  assumes "wf_current r" and "wf_desired r"
  shows "GetNextAction r \<in> {ReplicaActionScaleUpOnDemand, ReplicaActionScaleUpSpot} \<longleftrightarrow> RequiresScaleUp r"
    and "GetNextAction r \<in> {ReplicaActionScaleDownOnDemand, ReplicaActionScaleDownSpot} \<longleftrightarrow> RequiresScaleDown r"
  using assms(2) unfolding next_action_defs RequiresScaleUp_def RequiresScaleDown_def
    wf_current_total [OF assms(1)]
  by (auto simp: wf_desired_def)

lemma GetNextAction_migrates:
  assumes "wf_current r" and "wf_desired r"
  shows "GetNextAction r \<in> {ReplicaActionMigrateToSpot, ReplicaActionMigrateToOnDemand} \<longleftrightarrow>
    \<not> RequiresScaleUp r \<and> \<not> RequiresScaleDown r \<and> NeedsReconciliation r"
  using assms(2) unfolding next_action_defs RequiresScaleUp_def RequiresScaleDown_def
    wf_current_total [OF assms(1)]
  by (auto simp: wf_desired_def)

lemma reconcile_once_drift_exact:
  assumes "wf_current r" and "wf_desired r"
  shows "drift (reconcile_once r) = drift r -
    (if GetNextAction r \<in> {ReplicaActionMigrateToSpot, ReplicaActionMigrateToOnDemand} then 2
     else if NeedsReconciliation r then 1 else 0)"
  using assms(2) unfolding reconcile_once_def next_action_defs wf_current_total [OF assms(1)]
  by (auto simp: wf_desired_def drift_def)

text \<open>
  The percentage is computed in 32 bits: it is exact as long as a hundred times the spot
  count fits, that is up to 21474836 spot replicas.
\<close>

lemma GetSpotPercentage_exact:
  assumes "wf_current r" and "rs_CurrentSpot r \<le> 21474836"
  shows "GetSpotPercentage r =
    (if GetCurrentTotal r = 0 then 0 else rs_CurrentSpot r * 100 div (rs_CurrentOnDemand r + rs_CurrentSpot r))"
proof (cases "GetCurrentTotal r = 0")
  case True
  then show ?thesis by (simp add: GetSpotPercentage_def)
next
  case False
  let ?t = "rs_CurrentOnDemand r + rs_CurrentSpot r"
  have t: "GetCurrentTotal r = ?t" by (rule wf_current_total [OF assms(1)])
  have pos: "0 < ?t" using False assms(1) t by (auto simp: wf_current_def)
  have p: "0 \<le> rs_CurrentSpot r * 100" "in_i32 (rs_CurrentSpot r * 100)"
    using assms by (auto simp: wf_current_def in_i32_def)
  have "rs_CurrentSpot r * 100 div ?t \<le> rs_CurrentSpot r * 100 div 1"
    using pos p by (intro zdiv_mono2) auto
  moreover have "0 \<le> rs_CurrentSpot r * 100 div ?t" using pos p(1) by (simp add: pos_imp_zdiv_nonneg_iff)
  ultimately have "in_i32 (rs_CurrentSpot r * 100 div ?t)"
    using p by (intro in_i32_bound [OF _ _ p(2)]) auto
  with False pos p t show ?thesis
    by (simp add: GetSpotPercentage_def Let_def i32_id go_div_nonneg)
qed

section \<open>Properties\<close>

text \<open>C29: From any observed counts, repeating the recommended action as often as the drift
  (the sum of the two distances) brings the workload to its desired distribution, under any
  configuration; it stops exactly there.\<close>

theorem next_action_converges:
  assumes "wf_current r" and "0 \<le> rs_TotalReplicas r" and "in_i32 (rs_TotalReplicas r)"
    and r'_def: "r' = CalculateDesiredDistribution r config"
  shows "GetNextAction ((reconcile_once ^^ drift r') r') = ReplicaActionNone \<and>
    \<not> NeedsReconciliation ((reconcile_once ^^ drift r') r')"
proof -
  have "wf_current r'" using assms(1) by (simp add: r'_def wf_current_def)
  moreover have "wf_desired r'" unfolding r'_def using assms(2,3) by (rule CalculateDesiredDistribution_wf)
  moreover have "in_i32 (rs_TotalReplicas r')" using assms(3) by (simp add: r'_def)
  ultimately have "\<not> NeedsReconciliation ((reconcile_once ^^ drift r') r')"
    by (rule reconcile_converges) simp
  then show ?thesis by (simp add: GetNextAction_def)
qed

definition sample_state :: ReplicaState where
  "sample_state = \<lparr>rs_WorkloadRef = \<lparr>ref_APIVersion = [], ref_Kind = [], ref_Namespace = [], ref_Name = [], ref_UID = []\<rparr>,
     rs_TotalReplicas = 3, rs_CurrentOnDemand = 3, rs_CurrentSpot = 1, rs_DesiredOnDemand = 0, rs_DesiredSpot = 0,
     rs_LastReconciled = 0, rs_PendingOnDemand = 0, rs_PendingSpot = 0, rs_FailedSpot = 0\<rparr>"

definition sample_config :: WorkloadConfiguration where
  "sample_config = \<lparr>wc_Enabled = True, wc_MinOnDemand = 1, wc_SpotPercentage = 70,
     wc_Policy = \<lparr>wp_MinOnDemand = Some 1, wp_SpotPercentage = Some 70\<rparr>\<rparr>"

theorem next_action_converges_witness:
  "let r' = CalculateDesiredDistribution sample_state sample_config
   in \<not> NeedsReconciliation ((reconcile_once ^^ drift r') r') \<and> NeedsReconciliation r'"
proof -
  have "NeedsReconciliation (CalculateDesiredDistribution sample_state sample_config)"
    by code_simp
  moreover have "wf_current sample_state" "0 \<le> rs_TotalReplicas sample_state" "in_i32 (rs_TotalReplicas sample_state)"
    by code_simp+
  note next_action_converges [OF this refl, of sample_config]
  ultimately show ?thesis by (simp add: Let_def)
qed

text \<open>The action repairs the total before the mix: it scales up exactly when pods are
  missing, scales down exactly when there are too many, migrates exactly when only the mix is
  wrong, and a scale-up or scale-down never touches a class that is already on target.\<close>

theorem next_action_precedence:
  assumes "wf_current r" and "wf_desired r"
  shows "(GetNextAction r \<in> {ReplicaActionScaleUpOnDemand, ReplicaActionScaleUpSpot} \<longleftrightarrow> RequiresScaleUp r) \<and>
    (GetNextAction r \<in> {ReplicaActionScaleDownOnDemand, ReplicaActionScaleDownSpot} \<longleftrightarrow> RequiresScaleDown r) \<and>
    (GetNextAction r \<in> {ReplicaActionMigrateToSpot, ReplicaActionMigrateToOnDemand} \<longleftrightarrow>
       \<not> RequiresScaleUp r \<and> \<not> RequiresScaleDown r \<and> NeedsReconciliation r) \<and>
    drift (reconcile_once r) = drift r -
      (if GetNextAction r \<in> {ReplicaActionMigrateToSpot, ReplicaActionMigrateToOnDemand} then 2
       else if NeedsReconciliation r then 1 else 0)"
  using GetNextAction_total_first [OF assms] GetNextAction_migrates [OF assms] reconcile_once_drift_exact [OF assms]
  by blast

theorem next_action_precedence_witness:
  "let r = CalculateDesiredDistribution sample_state sample_config
   in GetNextAction r \<in> {ReplicaActionScaleDownOnDemand, ReplicaActionScaleDownSpot} \<longleftrightarrow> RequiresScaleDown r"
proof -
  have "wf_current (CalculateDesiredDistribution sample_state sample_config)"
    "wf_desired (CalculateDesiredDistribution sample_state sample_config)"
    by code_simp+
  from next_action_precedence [OF this] show ?thesis by (simp only: Let_def)
qed

text \<open>The reported spot percentage is the rounded-down share of spot pods as long as a
  hundred times the spot count fits 32 bits, that is up to 21474836 spot pods.\<close>

theorem spot_percentage_exact:
  assumes "wf_current r" and "rs_CurrentSpot r \<le> 21474836"
  shows "GetSpotPercentage r =
    (if GetCurrentTotal r = 0 then 0 else rs_CurrentSpot r * 100 div (rs_CurrentOnDemand r + rs_CurrentSpot r))"
  using assms by (rule GetSpotPercentage_exact)

theorem spot_percentage_exact_witness: "GetSpotPercentage sample_state = 25"
proof -
  have "wf_current sample_state" "rs_CurrentSpot sample_state \<le> 21474836" by code_simp+
  from spot_percentage_exact [OF this] show ?thesis by (simp add: sample_state_def GetCurrentTotal_def i32_def)
qed

end
