(* ===== verification/Annotation_Parser.thy ===== *)
theory Annotation_Parser
  imports Replica_State
begin

text \<open>
  \<^verbatim>\<open>internal/annotations/parser.go\<close>: the label that opts a workload in and the
  annotations that configure it, as the controllers and the webhook read them. The lemmas
  compare the parser with the validation of the same annotations and with
  \<^verbatim>\<open>apis.ParseFromAnnotations\<close>.
\<close>

definition EnabledLabel :: string where "EnabledLabel = ''spotalis.io/enabled''"
definition SpotPercentageAnnotation :: string where
  "SpotPercentageAnnotation = ''spotalis.io/spot-percentage''"
definition MinOnDemandAnnotation :: string where
  "MinOnDemandAnnotation = ''spotalis.io/min-on-demand''"
definition DisruptionScheduleAnnotation :: string where
  "DisruptionScheduleAnnotation = ''spotalis.io/disruption-schedule''"
definition DisruptionDurationAnnotation :: string where
  "DisruptionDurationAnnotation = ''spotalis.io/disruption-duration''"
definition BooleanTrue :: string where "BooleanTrue = ''true''"
definition MaxMinOnDemand :: int where "MaxMinOnDemand = 10000"

text \<open>
  The part of a \<^verbatim>\<open>metav1.Object\<close> the parser reads. A nil map is \<open>None\<close>.
\<close>

record k8s_object =
  obj_labels :: "string_map option"
  obj_annotations :: "string_map option"

definition map_lookup :: "string_map option \<Rightarrow> string \<Rightarrow> string option" where
  "map_lookup m k = (case m of None \<Rightarrow> None | Some m' \<Rightarrow> m' k)"

text \<open>Indexing a Go map with an absent key (or a nil map) gives the empty string.\<close>

definition map_index :: "string_map option \<Rightarrow> string \<Rightarrow> string" where
  "map_index m k = (case map_lookup m k of None \<Rightarrow> [] | Some v \<Rightarrow> v)"

datatype annotation_error =
    InvalidSpotAnnotation num_error
  | SpotAnnotationRange int
  | InvalidMinAnnotation num_error
  | MinAnnotationRange int

definition parse_spot_annotation ::
  "string_map \<Rightarrow> WorkloadConfiguration \<Rightarrow> annotation_error + WorkloadConfiguration" where
  "parse_spot_annotation annotations config =
     (case annotations SpotPercentageAnnotation of
        None \<Rightarrow> Inr config
      | Some spotPerc \<Rightarrow>
         (case Atoi (TrimSuffix spotPerc ''%'') of
            Inl err \<Rightarrow> Inl (InvalidSpotAnnotation err)
          | Inr percentage \<Rightarrow>
              if percentage < 0 \<or> percentage > 100 then Inl (SpotAnnotationRange percentage)
              else Inr (set_SpotPercentage (i32 percentage) config)))"

definition parse_min_annotation ::
  "string_map \<Rightarrow> WorkloadConfiguration \<Rightarrow> annotation_error + WorkloadConfiguration" where
  "parse_min_annotation annotations config =
     (case annotations MinOnDemandAnnotation of
        None \<Rightarrow> Inr config
      | Some minOnDemand \<Rightarrow>
         (case Atoi minOnDemand of
            Inl err \<Rightarrow> Inl (InvalidMinAnnotation err)
          | Inr count \<Rightarrow>
              if count < 0 \<or> count > MaxMinOnDemand then Inl (MinAnnotationRange count)
              else Inr (set_MinOnDemand (i32 count) config)))"

definition ParseWorkloadConfiguration :: "k8s_object \<Rightarrow> annotation_error + WorkloadConfiguration" where
  "ParseWorkloadConfiguration obj =
     (let config = zero_config False;
          config = (case obj_labels obj of
             None \<Rightarrow> config
           | Some labels \<Rightarrow>
              (case labels EnabledLabel of
                 None \<Rightarrow> config
               | Some enabled \<Rightarrow> config\<lparr>wc_Enabled := (enabled = BooleanTrue)\<rparr>))
      in if \<not> wc_Enabled config then Inr config
         else case obj_annotations obj of
           None \<Rightarrow> Inr config
         | Some annotations \<Rightarrow>
            (case parse_spot_annotation annotations config of
               Inl e \<Rightarrow> Inl e
             | Inr config \<Rightarrow> parse_min_annotation annotations config))"

definition HasSpotalisAnnotations :: "k8s_object \<Rightarrow> bool" where
  "HasSpotalisAnnotations obj =
     (case obj_annotations obj of
        None \<Rightarrow> False
      | Some annotations \<Rightarrow>
          list_ex (\<lambda>a. annotations a \<noteq> None) [SpotPercentageAnnotation, MinOnDemandAnnotation])"

definition IsSpotalisEnabled :: "k8s_object \<Rightarrow> bool" where
  "IsSpotalisEnabled obj =
     (case obj_labels obj of
        None \<Rightarrow> False
      | Some labels \<Rightarrow>
         (case labels EnabledLabel of
            None \<Rightarrow> False
          | Some enabled \<Rightarrow> ToLower enabled = BooleanTrue))"

definition GetAnnotationValue :: "k8s_object \<Rightarrow> string \<Rightarrow> string \<times> bool" where
  "GetAnnotationValue obj key =
     (case obj_annotations obj of
        None \<Rightarrow> ([], False)
      | Some annotations \<Rightarrow> (case annotations key of None \<Rightarrow> ([], False) | Some value \<Rightarrow> (value, True)))"

definition SetAnnotationValue :: "k8s_object \<Rightarrow> string \<Rightarrow> string \<Rightarrow> k8s_object" where
  "SetAnnotationValue obj key value =
     (let annotations = (case obj_annotations obj of None \<Rightarrow> Map.empty | Some a \<Rightarrow> a)
      in obj\<lparr>obj_annotations := Some (annotations(key \<mapsto> value))\<rparr>)"

definition RemoveAnnotation :: "k8s_object \<Rightarrow> string \<Rightarrow> k8s_object" where
  "RemoveAnnotation obj key =
     (case obj_annotations obj of
        None \<Rightarrow> obj
      | Some annotations \<Rightarrow> obj\<lparr>obj_annotations := Some (annotations(key := None))\<rparr>)"

datatype value_error = MustBeInteger num_error | MustBeBetween int

definition validateSpotPercentage :: "string \<Rightarrow> value_error option" where
  "validateSpotPercentage value =
     (case Atoi (TrimSuffix value ''%'') of
        Inl err \<Rightarrow> Some (MustBeInteger err)
      | Inr percentage \<Rightarrow>
          if percentage < 0 \<or> percentage > 100 then Some (MustBeBetween percentage) else None)"

definition validateMinOnDemand :: "string \<Rightarrow> value_error option" where
  "validateMinOnDemand value =
     (case Atoi value of
        Inl err \<Rightarrow> Some (MustBeInteger err)
      | Inr count \<Rightarrow>
          if count < 0 \<or> count > MaxMinOnDemand then Some (MustBeBetween count) else None)"

text \<open>Each error carries the annotation it is about.\<close>

definition ValidateAnnotations :: "k8s_object \<Rightarrow> (string \<times> value_error) list" where
  "ValidateAnnotations obj =
     (case obj_annotations obj of
        None \<Rightarrow> []
      | Some annotations \<Rightarrow>
         (case annotations SpotPercentageAnnotation of
            None \<Rightarrow> []
          | Some value \<Rightarrow>
             (case validateSpotPercentage value of
                None \<Rightarrow> [] | Some err \<Rightarrow> [(SpotPercentageAnnotation, err)])) @
         (case annotations MinOnDemandAnnotation of
            None \<Rightarrow> []
          | Some value \<Rightarrow>
             (case validateMinOnDemand value of
                None \<Rightarrow> [] | Some err \<Rightarrow> [(MinOnDemandAnnotation, err)])))"

section \<open>What the parser accepts\<close>

lemma annotation_keys: "SpotPercentageAnnotation = SpotPercentageKey" "MinOnDemandAnnotation = MinOnDemandKey"
  by (simp_all add: SpotPercentageAnnotation_def SpotPercentageKey_def MinOnDemandAnnotation_def MinOnDemandKey_def)

definition label_true :: "k8s_object \<Rightarrow> bool" where
  "label_true obj \<longleftrightarrow> map_lookup (obj_labels obj) EnabledLabel = Some BooleanTrue"

lemma zero_config_enable: "(zero_config b)\<lparr>wc_Enabled := c\<rparr> = zero_config c"
  by (simp add: zero_config_def)

lemma ParseWorkloadConfiguration_unfold:
  "ParseWorkloadConfiguration obj =
     (if \<not> label_true obj then Inr (zero_config False)
      else case obj_annotations obj of
        None \<Rightarrow> Inr (zero_config True)
      | Some annotations \<Rightarrow>
         (case parse_spot_annotation annotations (zero_config True) of
            Inl e \<Rightarrow> Inl e
          | Inr config \<Rightarrow> parse_min_annotation annotations config))"
  by (auto simp: ParseWorkloadConfiguration_def label_true_def map_lookup_def Let_def zero_config_enable
      split: option.splits)

lemma ToLower_true: "ToLower BooleanTrue = BooleanTrue"
  by code_simp

lemma label_true_enabled: "label_true obj \<Longrightarrow> IsSpotalisEnabled obj"
  by (auto simp: label_true_def map_lookup_def IsSpotalisEnabled_def ToLower_true split: option.splits)

lemma parse_spot_annotation_ok:
  "(\<exists>c'. parse_spot_annotation m c = Inr c') \<longleftrightarrow>
     (case m SpotPercentageAnnotation of None \<Rightarrow> True | Some v \<Rightarrow> validateSpotPercentage v = None)"
  by (auto simp: parse_spot_annotation_def validateSpotPercentage_def split: option.splits sum.splits)

lemma parse_min_annotation_ok:
  "(\<exists>c'. parse_min_annotation m c = Inr c') \<longleftrightarrow>
     (case m MinOnDemandAnnotation of None \<Rightarrow> True | Some v \<Rightarrow> validateMinOnDemand v = None)"
  by (auto simp: parse_min_annotation_def validateMinOnDemand_def split: option.splits sum.splits)

lemma ValidateAnnotations_Nil_iff:
  "obj_annotations obj = Some m \<Longrightarrow> ValidateAnnotations obj = [] \<longleftrightarrow>
     (case m SpotPercentageAnnotation of None \<Rightarrow> True | Some v \<Rightarrow> validateSpotPercentage v = None) \<and>
     (case m MinOnDemandAnnotation of None \<Rightarrow> True | Some v \<Rightarrow> validateMinOnDemand v = None)"
  by (auto simp: ValidateAnnotations_def split: option.splits)

lemma parse_accepts_iff:
  assumes "label_true obj"
  shows "(\<exists>c. ParseWorkloadConfiguration obj = Inr c) \<longleftrightarrow> ValidateAnnotations obj = []"
proof (cases "obj_annotations obj")
  case None
  with assms show ?thesis by (simp add: ParseWorkloadConfiguration_unfold ValidateAnnotations_def)
next
  case (Some m)
  have "(\<exists>c. ParseWorkloadConfiguration obj = Inr c) \<longleftrightarrow>
    (\<exists>c1. parse_spot_annotation m (zero_config True) = Inr c1 \<and> (\<exists>c. parse_min_annotation m c1 = Inr c))"
    using assms Some by (auto simp: ParseWorkloadConfiguration_unfold split: sum.splits)
  then show ?thesis
    unfolding ValidateAnnotations_Nil_iff [OF Some] parse_min_annotation_ok
    using parse_spot_annotation_ok [of m "zero_config True"] by blast
qed

text \<open>
  \<^verbatim>\<open>Atoi\<close> and the 32-bit \<^verbatim>\<open>ParseInt\<close> agree on every value of the
  smaller range, so the parser and \<^verbatim>\<open>apis.ParseFromAnnotations\<close> compute the same
  configuration whenever the parser accepts.
\<close>

lemma ParseInt_narrow:
  assumes "ParseInt b s = Inr v" and "- b' \<le> v" and "v < b'"
  shows "ParseInt b' s = Inr v"
  using assms by (auto simp: ParseInt_def check_range_def Let_def split: list.splits sum.splits if_splits)

lemma Atoi_ParseInt32: "Atoi s = Inr v \<Longrightarrow> 0 \<le> v \<Longrightarrow> v \<le> 10000 \<Longrightarrow> ParseInt32 s = Inr v"
  by (rule ParseInt_narrow) simp_all

lemma parse_spot_annotation_field:
  assumes "parse_spot_annotation m c = Inr c'"
  shows "parse_spot_field m c = Inr c'"
  using assms
  by (auto simp: parse_spot_annotation_def parse_spot_field_def annotation_keys Atoi_ParseInt32
      split: option.splits sum.splits if_splits)

lemma parse_min_annotation_field:
  assumes "parse_min_annotation m c = Inr c'"
  shows "parse_min_field m c = Inr c'"
  using assms
  by (auto simp: parse_min_annotation_def parse_min_field_def annotation_keys MaxMinOnDemand_def Atoi_ParseInt32
      split: option.splits sum.splits if_splits)

text \<open>The two fields are set independently, so the order in which they are read is irrelevant.\<close>

lemma parse_fields_commute:
  assumes "parse_spot_field m c = Inr c1" and "parse_min_field m c1 = Inr c2"
  shows "\<exists>c1'. parse_min_field m c = Inr c1' \<and> parse_spot_field m c1' = Inr c2"
  using assms
  by (auto simp: parse_spot_field_def parse_min_field_def set_MinOnDemand_def set_SpotPercentage_def
      split: option.splits sum.splits)

lemma parse_annotation_bounds:
  assumes "parse_spot_annotation m (zero_config b) = Inr c1" and "parse_min_annotation m c1 = Inr c"
  shows "0 \<le> wc_SpotPercentage c" "wc_SpotPercentage c \<le> 100"
    "0 \<le> wc_MinOnDemand c" "wc_MinOnDemand c \<le> MaxMinOnDemand" "wc_Enabled c = b"
proof -
  have c1: "0 \<le> wc_SpotPercentage c1 \<and> wc_SpotPercentage c1 \<le> 100 \<and> wc_MinOnDemand c1 = 0 \<and> wc_Enabled c1 = b"
    using assms(1) by (auto simp: parse_spot_annotation_def i32_id in_i32_def split: option.splits sum.splits if_splits)
  with assms(2) have "0 \<le> wc_SpotPercentage c \<and> wc_SpotPercentage c \<le> 100 \<and> 0 \<le> wc_MinOnDemand c \<and>
      wc_MinOnDemand c \<le> MaxMinOnDemand \<and> wc_Enabled c = b"
    by (auto simp: parse_min_annotation_def MaxMinOnDemand_def i32_id in_i32_def
        split: option.splits sum.splits if_splits)
  then show "0 \<le> wc_SpotPercentage c" "wc_SpotPercentage c \<le> 100"
    "0 \<le> wc_MinOnDemand c" "wc_MinOnDemand c \<le> MaxMinOnDemand" "wc_Enabled c = b" by simp_all
qed

lemma ParseWorkloadConfiguration_bounds:
  assumes "ParseWorkloadConfiguration obj = Inr c"
  shows "0 \<le> wc_SpotPercentage c" "wc_SpotPercentage c \<le> 100"
    "0 \<le> wc_MinOnDemand c" "wc_MinOnDemand c \<le> MaxMinOnDemand" "wc_Enabled c = label_true obj"
proof -
  consider "\<not> label_true obj" "c = zero_config False"
    | "label_true obj" "c = zero_config True"
    | m c1 where "label_true obj" "parse_spot_annotation m (zero_config True) = Inr c1" "parse_min_annotation m c1 = Inr c"
    using assms unfolding ParseWorkloadConfiguration_unfold
    by (auto split: if_splits option.splits sum.splits)
  then have "0 \<le> wc_SpotPercentage c \<and> wc_SpotPercentage c \<le> 100 \<and> 0 \<le> wc_MinOnDemand c \<and>
      wc_MinOnDemand c \<le> MaxMinOnDemand \<and> wc_Enabled c = label_true obj"
    by cases (auto simp: MaxMinOnDemand_def parse_annotation_bounds [unfolded MaxMinOnDemand_def])
  then show "0 \<le> wc_SpotPercentage c" "wc_SpotPercentage c \<le> 100"
    "0 \<le> wc_MinOnDemand c" "wc_MinOnDemand c \<le> MaxMinOnDemand" "wc_Enabled c = label_true obj" by simp_all
qed

lemma ParseWorkloadConfiguration_apis:
  assumes "ParseWorkloadConfiguration obj = Inr c"
  shows "ParseFromAnnotations (obj_annotations obj) (label_true obj) = Inr c"
proof (cases "label_true obj")
  case False
  with assms show ?thesis by (auto simp: ParseWorkloadConfiguration_unfold ParseFromAnnotations_def)
next
  case l: True
  show ?thesis
  proof (cases "obj_annotations obj")
    case None
    with assms l show ?thesis by (simp add: ParseWorkloadConfiguration_unfold ParseFromAnnotations_def)
  next
    case (Some m)
    with assms l obtain c1 where c1: "parse_spot_annotation m (zero_config True) = Inr c1"
      and c: "parse_min_annotation m c1 = Inr c"
      by (auto simp: ParseWorkloadConfiguration_unfold split: sum.splits)
    from parse_fields_commute [OF parse_spot_annotation_field [OF c1] parse_min_annotation_field [OF c]]
    obtain c1' where "parse_min_field m (zero_config True) = Inr c1'" "parse_spot_field m c1' = Inr c" by blast
    moreover have "ValidateReplicaAllocationPolicy 0 (AllocationPolicy c) = None"
      using ParseWorkloadConfiguration_bounds [OF assms] by (simp add: Validate_None_iff AllocationPolicy_def)
    ultimately show ?thesis using l Some by (simp add: ParseFromAnnotations_def Let_def)
  qed
qed

lemma annotation_store [simp]:
  "GetAnnotationValue (SetAnnotationValue obj k v) k' = (if k' = k then (v, True) else GetAnnotationValue obj k')"
  "GetAnnotationValue (RemoveAnnotation obj k) k' = (if k' = k then ([], False) else GetAnnotationValue obj k')"
  "obj_labels (SetAnnotationValue obj k v) = obj_labels obj" "obj_labels (RemoveAnnotation obj k) = obj_labels obj"
  by (auto simp: GetAnnotationValue_def SetAnnotationValue_def RemoveAnnotation_def Let_def split: option.splits)

section \<open>Properties\<close>

text \<open>On an opted-in object the parser succeeds exactly when the validation of the same
  annotations finds no error; then it yields the configuration
  \<^verbatim>\<open>apis.ParseFromAnnotations\<close> computes, with the percentage in 0 to 100 and the floor
  in 0 to 10000.\<close>

theorem parser_matches_validation:
  assumes "map_lookup (obj_labels obj) EnabledLabel = Some BooleanTrue"
  shows "((\<exists>c. ParseWorkloadConfiguration obj = Inr c) = (ValidateAnnotations obj = [])) \<and>
    (ParseWorkloadConfiguration obj = Inr c \<longrightarrow>
       ParseFromAnnotations (obj_annotations obj) True = Inr c \<and>
       0 \<le> wc_SpotPercentage c \<and> wc_SpotPercentage c \<le> 100 \<and>
       0 \<le> wc_MinOnDemand c \<and> wc_MinOnDemand c \<le> MaxMinOnDemand)"
proof -
  have l: "label_true obj" using assms by (simp add: label_true_def)
  show ?thesis
    using parse_accepts_iff [OF l] ParseWorkloadConfiguration_apis [of obj c]
      ParseWorkloadConfiguration_bounds [of obj c] l by auto
qed

definition sample_object :: "string \<Rightarrow> k8s_object" where
  "sample_object label = \<lparr>obj_labels = Some [EnabledLabel \<mapsto> label],
     obj_annotations = Some [SpotPercentageAnnotation \<mapsto> ''70%'', MinOnDemandAnnotation \<mapsto> ''1'']\<rparr>"

lemma sample_object_parses: "ParseWorkloadConfiguration (sample_object ''true'') = Inr sample_config"
  unfolding sample_object_def sample_config_def by code_simp

theorem parser_matches_validation_witness:
  "ValidateAnnotations (sample_object ''true'') = [] \<and>
   ParseFromAnnotations (obj_annotations (sample_object ''true'')) True = Inr sample_config"
proof -
  have "map_lookup (obj_labels (sample_object ''true'')) EnabledLabel = Some BooleanTrue"
    by (simp add: sample_object_def map_lookup_def BooleanTrue_def)
  from parser_matches_validation [OF this, of sample_config] sample_object_parses show ?thesis by blast
qed

text \<open>A label that differs from \<^verbatim>\<open>true\<close> only in case makes the object managed
  (\<^verbatim>\<open>IsSpotalisEnabled\<close>) with a disabled configuration, whose desired distribution is all
  on-demand: the annotations of such a workload are ignored.\<close>

theorem label_case_mismatch:
  assumes "map_lookup (obj_labels obj) EnabledLabel = Some l" and "l \<noteq> BooleanTrue" and "ToLower l = BooleanTrue"
  shows "IsSpotalisEnabled obj \<and> ParseWorkloadConfiguration obj = Inr (zero_config False) \<and>
    rs_DesiredSpot (CalculateDesiredDistribution r (zero_config False)) = 0 \<and>
    rs_DesiredOnDemand (CalculateDesiredDistribution r (zero_config False)) = rs_TotalReplicas r"
proof -
  from assms have "\<not> label_true obj" by (simp add: label_true_def)
  moreover from assms(1,3) have "IsSpotalisEnabled obj"
    by (auto simp: IsSpotalisEnabled_def map_lookup_def split: option.splits)
  ultimately show ?thesis by (simp add: ParseWorkloadConfiguration_unfold CalculateDesiredDistribution_def)
qed

theorem label_case_mismatch_witness:
  "IsSpotalisEnabled (sample_object ''True'') \<and>
   ParseWorkloadConfiguration (sample_object ''True'') = Inr (zero_config False)"
proof -
  have "map_lookup (obj_labels (sample_object ''True'')) EnabledLabel = Some ''True''"
    "''True'' \<noteq> BooleanTrue" "ToLower ''True'' = BooleanTrue"
    by (simp add: sample_object_def map_lookup_def, simp add: BooleanTrue_def, code_simp)
  from label_case_mismatch [OF this] show ?thesis by blast
qed

end
