(* ===== verification/Kube_Objects.thy ===== *)
theory Kube_Objects
  imports Annotation_Parser
begin

text \<open>
  The Kubernetes objects the components exchange, with the fields the sources read, and the
  API client.

  The API server is not part of the program: \<open>k8s_client\<close> is a parameter of every
  definition that calls it. One value of it is one view of the cluster; a function that calls
  the API again later takes a later view, so that two reads in one reconciliation may differ.
  \<open>go_error\<close> is an error value with the chain \<^verbatim>\<open>%w\<close> builds: the
  helper functions of \<^verbatim>\<open>apierrors\<close> look through the chain.
\<close>

datatype status_reason = ReasonNotFound | ReasonTooManyRequests | ReasonOther string

datatype go_error =
    StatusError status_reason
  | Errorf string
  | Wrapped string go_error
  | EvictionBlocked string string "go_error option"

fun ReasonForError :: "go_error \<Rightarrow> status_reason option" where
  "ReasonForError (StatusError r) = Some r"
| "ReasonForError (Errorf s) = None"
| "ReasonForError (Wrapped s e) = ReasonForError e"
| "ReasonForError (EvictionBlocked p r (Some e)) = ReasonForError e"
| "ReasonForError (EvictionBlocked p r None) = None"

definition IsNotFound :: "go_error \<Rightarrow> bool" where
  "IsNotFound e \<longleftrightarrow> ReasonForError e = Some ReasonNotFound"

definition IsTooManyRequests :: "go_error \<Rightarrow> bool" where
  "IsTooManyRequests e \<longleftrightarrow> ReasonForError e = Some ReasonTooManyRequests"

section \<open>Objects\<close>

record owner_reference =
  or_Kind :: string
  or_Name :: string
  or_UID :: string
  or_Controller :: "bool option"

record selector_term =
  st_Key :: string
  st_Values :: "string list"

record preferred_term =
  pt_Weight :: int
  pt_MatchExpressions :: "selector_term list"

text \<open>A nil pointer or list is \<open>None\<close>; a term is its match expressions.\<close>

record node_affinity =
  na_Required :: "selector_term list list option"
  na_Preferred :: "preferred_term list option"

record pod =
  pod_Name :: string
  pod_Namespace :: string
  pod_UID :: string
  pod_Labels :: "string_map option"
  pod_OwnerReferences :: "owner_reference list"
  pod_DeletionTimestamp :: "time option"
  pod_NodeName :: string
  pod_NodeSelector :: "string_map option"
  pod_Affinity :: "node_affinity option option"
  pod_TerminationGracePeriodSeconds :: "int option"
  pod_Phase :: string
  pod_Conditions :: "(string \<times> string) list"

definition PodPending :: string where "PodPending = ''Pending''"
definition PodRunning :: string where "PodRunning = ''Running''"
definition PodSucceeded :: string where "PodSucceeded = ''Succeeded''"
definition PodFailed :: string where "PodFailed = ''Failed''"
definition ReadyCondition :: string where "ReadyCondition = ''Ready''"
definition ConditionTrue :: string where "ConditionTrue = ''True''"

lemmas phase_defs = PodPending_def PodRunning_def PodSucceeded_def PodFailed_def

record node =
  node_Name :: string
  node_Labels :: "string_map option"
  node_Unschedulable :: bool
  node_ProviderID :: string
  node_Capacity :: "(string \<times> string) list"
  node_Conditions :: "(string \<times> string) list"

text \<open>
  \<^verbatim>\<open>LabelSelector\<close>: the entries of \<^verbatim>\<open>MatchLabels\<close> in the
  order of one iteration over the Go map, and the match expressions (key, operator, values).
\<close>

record label_selector =
  ls_MatchLabels :: "(string \<times> string) list"
  ls_MatchExpressions :: "(string \<times> string \<times> string list) list"

text \<open>
  \<^verbatim>\<open>metav1.LabelSelectorAsSelector\<close> followed by
  \<^verbatim>\<open>Matches\<close> is library code and a parameter: an error, or the predicate on
  the labels.
\<close>

type_synonym as_selector = "label_selector \<Rightarrow> go_error + (string_map option \<Rightarrow> bool)"

record pod_disruption_budget =
  pdb_Name :: string
  pdb_Namespace :: string
  pdb_Selector :: "label_selector option"
  pdb_DisruptionsAllowed :: int
  pdb_CurrentHealthy :: int
  pdb_DesiredHealthy :: int
  pdb_ExpectedPods :: int

record toleration =
  tol_Key :: string
  tol_Operator :: string
  tol_Value :: string
  tol_Effect :: string

record namespace_object =
  ns_Name :: string
  ns_Labels :: "string_map option"
  ns_Annotations :: "string_map option"

record replica_set =
  rset_Name :: string
  rset_UID :: string
  rset_OwnerReferences :: "owner_reference list"

text \<open>What Deployments and StatefulSets have in common: metadata, desired size, selector.\<close>

record workload =
  wl_APIVersion :: string
  wl_Kind :: string
  wl_Name :: string
  wl_Namespace :: string
  wl_UID :: string
  wl_Generation :: int
  wl_Object :: k8s_object
  wl_Replicas :: "int option"
  wl_Selector :: "label_selector option"
  wl_StatusReplicas :: int
  wl_ReadyReplicas :: int
  wl_UpdatedReplicas :: int

record deployment = workload +
  dep_AvailableReplicas :: int
  dep_UnavailableReplicas :: int

record statefulset = workload +
  sts_CurrentReplicas :: int
  sts_PodManagementPolicy :: string
  sts_TemplateAnnotations :: "string_map option"
  sts_TemplateTolerations :: "toleration list"

section \<open>The API client\<close>

record k8s_client =
  cl_GetDeployment :: "string \<Rightarrow> string \<Rightarrow> go_error + deployment"
  cl_GetStatefulSet :: "string \<Rightarrow> string \<Rightarrow> go_error + statefulset"
  cl_GetReplicaSet :: "string \<Rightarrow> string \<Rightarrow> go_error + replica_set"
  cl_GetNamespace :: "string \<Rightarrow> go_error + namespace_object"
  cl_GetNode :: "string \<Rightarrow> go_error + node"
  cl_ListNamespaces :: "go_error + namespace_object list"
  cl_ListNodes :: "go_error + node list"
  cl_ListPods :: "string \<Rightarrow> (string \<times> string) list \<Rightarrow> go_error + pod list"
  cl_ListPodsRV :: "string \<Rightarrow> go_error + pod list \<times> string"
  cl_ListOwnedPods :: "string \<Rightarrow> string \<Rightarrow> go_error + pod list"
  cl_ListOwnedReplicaSets :: "string \<Rightarrow> string \<Rightarrow> go_error + replica_set list"
  cl_ListPDBs :: "string \<Rightarrow> go_error + pod_disruption_budget list"
  cl_Evict :: "pod \<Rightarrow> bool \<Rightarrow> go_error option"
  cl_UpdateStatefulSet :: "statefulset \<Rightarrow> go_error option"

text \<open>A cluster with nothing in it, from which concrete clusters are built by updates.\<close>

definition empty_cluster :: k8s_client where
  "empty_cluster = \<lparr>
     cl_GetDeployment = (\<lambda>_ _. Inl (StatusError ReasonNotFound)),
     cl_GetStatefulSet = (\<lambda>_ _. Inl (StatusError ReasonNotFound)),
     cl_GetReplicaSet = (\<lambda>_ _. Inl (StatusError ReasonNotFound)),
     cl_GetNamespace = (\<lambda>_. Inl (StatusError ReasonNotFound)),
     cl_GetNode = (\<lambda>_. Inl (StatusError ReasonNotFound)),
     cl_ListNamespaces = Inr [],
     cl_ListNodes = Inr [],
     cl_ListPods = (\<lambda>_ _. Inr []),
     cl_ListPodsRV = (\<lambda>_. Inr ([], [])),
     cl_ListOwnedPods = (\<lambda>_ _. Inr []),
     cl_ListOwnedReplicaSets = (\<lambda>_ _. Inr []),
     cl_ListPDBs = (\<lambda>_. Inr []),
     cl_Evict = (\<lambda>_ _. Some (StatusError ReasonNotFound)),
     cl_UpdateStatefulSet = (\<lambda>_. Some (StatusError ReasonNotFound))\<rparr>"

text \<open>A selector that only has \<^verbatim>\<open>MatchLabels\<close> matches the labels that contain them.\<close>

definition match_labels :: as_selector where
  "match_labels s = Inr (\<lambda>labels. list_all (\<lambda>(k, v). map_lookup labels k = Some v) (ls_MatchLabels s))"

definition sample_pod :: "string \<Rightarrow> string \<Rightarrow> pod" where
  "sample_pod name nodeName = \<lparr>pod_Name = name, pod_Namespace = ''shop'', pod_UID = name, pod_Labels = None,
     pod_OwnerReferences = [], pod_DeletionTimestamp = None, pod_NodeName = nodeName, pod_NodeSelector = None,
     pod_Affinity = None, pod_TerminationGracePeriodSeconds = None, pod_Phase = PodRunning,
     pod_Conditions = [(ReadyCondition, ConditionTrue)]\<rparr>"

section \<open>Conditions\<close>

text \<open>
  The loop shared by the readiness tests of pods and nodes: the first condition of the type
  decides.
\<close>

fun condition_true :: "string \<Rightarrow> (string \<times> string) list \<Rightarrow> bool" where
  "condition_true t [] = False"
| "condition_true t ((ty, st) # cs) = (if ty = t then st = ConditionTrue else condition_true t cs)"

end
