(* ===== verification/Go_Duration.thy ===== *)
theory Go_Duration
  imports Spotalis_Prelude
begin

text \<open>
  \<^verbatim>\<open>time.ParseDuration\<close> of Go's standard library, which reads every duration of the
  configuration: a sign, then one or more decimal numbers with an optional fraction and a
  unit. The only deviation is the fractional part, which Go scales in
  \<^verbatim>\<open>float64\<close> and this definition exactly (a difference below one nanosecond).
  An error of the source is \<open>None\<close>.
\<close>

definition two63 :: int where "two63 = 9223372036854775808"

fun leading_int :: "int \<Rightarrow> string \<Rightarrow> (int \<times> string) option" where
  "leading_int x [] = Some (x, [])"
| "leading_int x (c # cs) =
     (case digit_value c of
        None \<Rightarrow> Some (x, c # cs)
      | Some d \<Rightarrow>
          if x > two63 div 10 then None
          else if 10 * x + d > two63 then None
          else leading_int (10 * x + d) cs)"

fun leading_fraction :: "int \<Rightarrow> int \<Rightarrow> bool \<Rightarrow> string \<Rightarrow> int \<times> int \<times> string" where
  "leading_fraction x scale overflow [] = (x, scale, [])"
| "leading_fraction x scale overflow (c # cs) =
     (case digit_value c of
        None \<Rightarrow> (x, scale, c # cs)
      | Some d \<Rightarrow>
          if overflow \<or> x > (two63 - 1) div 10 \<or> x * 10 + d > two63 then leading_fraction x scale True cs
          else leading_fraction (x * 10 + d) (scale * 10) False cs)"

definition unit_char :: "char \<Rightarrow> bool" where
  "unit_char c \<longleftrightarrow> c \<noteq> CHR ''.'' \<and> digit_value c = None"

text \<open>The two spellings of the micro sign are two-byte UTF-8 sequences.\<close>

definition unit_value :: "string \<Rightarrow> int option" where
  "unit_value u =
     (if u = ''ns'' then Some 1
      else if u = ''us'' \<or> u = [CHR 0xC2, CHR 0xB5, CHR ''s''] \<or> u = [CHR 0xCE, CHR 0xBC, CHR ''s''] then Some 1000
      else if u = ''ms'' then Some 1000000
      else if u = ''s'' then Some 1000000000
      else if u = ''m'' then Some 60000000000
      else if u = ''h'' then Some 3600000000000
      else None)"

definition duration_unit :: "int \<Rightarrow> int \<Rightarrow> int \<Rightarrow> string \<Rightarrow> (int \<times> string) option" where
  "duration_unit v f scale s =
     (let u = takeWhile unit_char s; rest = dropWhile unit_char s
      in if u = [] then None
         else case unit_value u of
           None \<Rightarrow> None
         | Some unit \<Rightarrow>
             if v > two63 div unit then None
             else if f > 0
               then (let v' = v * unit + f * unit div scale in if v' > two63 then None else Some (v', rest))
               else Some (v * unit, rest))"

definition duration_term :: "string \<Rightarrow> (int \<times> string) option" where
  "duration_term s =
     (case s of
        [] \<Rightarrow> None
      | c # cs \<Rightarrow>
         if \<not> (c = CHR ''.'' \<or> digit_value c \<noteq> None) then None
         else case leading_int 0 s of
           None \<Rightarrow> None
         | Some (v, s1) \<Rightarrow>
            (let pre = (length s \<noteq> length s1) in
             case s1 of
               CHR ''.'' # s2 \<Rightarrow>
                 (case leading_fraction 0 1 False s2 of
                    (f, scale, s3) \<Rightarrow>
                      if \<not> pre \<and> length s2 = length s3 then None else duration_unit v f scale s3)
             | _ \<Rightarrow> if \<not> pre then None else duration_unit v 0 1 s1))"

lemma leading_int_length: "leading_int x s = Some (v, r) \<Longrightarrow> length r \<le> length s"
  by (induction s arbitrary: x) (fastforce split: option.splits if_splits)+

lemma leading_fraction_length: "leading_fraction x sc b s = (f, sc', r) \<Longrightarrow> length r \<le> length s"
  by (induction s arbitrary: x sc b) (fastforce split: option.splits if_splits)+

lemma duration_unit_length: "duration_unit v f sc s = Some (w, r) \<Longrightarrow> length r < length s"
proof -
  assume a: "duration_unit v f sc s = Some (w, r)"
  then have r: "r = dropWhile unit_char s" and ne: "takeWhile unit_char s \<noteq> []"
    by (auto simp: duration_unit_def Let_def split: if_splits option.splits)
  have "length (takeWhile unit_char s) + length r = length s"
    unfolding r by (metis length_append takeWhile_dropWhile_id)
  moreover from ne have "0 < length (takeWhile unit_char s)" by (cases s) auto
  ultimately show ?thesis by linarith
qed

lemma duration_term_length: "duration_term s = Some (w, r) \<Longrightarrow> length r < length s"
proof -
  assume a: "duration_term s = Some (w, r)"
  then obtain v s1 where l: "leading_int 0 s = Some (v, s1)"
    by (auto simp: duration_term_def split: list.splits if_splits option.splits)
  from leading_int_length [OF l] have le: "length s1 \<le> length s" .
  from a l consider s2 f sc s3 where "s1 = CHR ''.'' # s2" "leading_fraction 0 1 False s2 = (f, sc, s3)"
      "duration_unit v f sc s3 = Some (w, r)"
    | "duration_unit v 0 1 s1 = Some (w, r)"
    unfolding duration_term_def
    by (cases "leading_fraction 0 1 False (tl s1)")
      (auto simp: Let_def split: list.splits if_splits option.splits char.splits bool.splits)
  then show ?thesis
  proof cases
    case 1
    with leading_fraction_length [OF 1(2)] duration_unit_length [OF 1(3)] le show ?thesis by simp
  next
    case 2
    with duration_unit_length [OF 2] le show ?thesis by simp
  qed
qed

function duration_terms :: "int \<Rightarrow> string \<Rightarrow> int option" where
  "duration_terms d s =
     (if s = [] then Some d
      else case duration_term s of
        None \<Rightarrow> None
      | Some (v, rest) \<Rightarrow>
         (let d' = (d + v) mod 18446744073709551616
          in if d' > two63 then None else duration_terms d' rest))"
  by pat_completeness auto
termination by (relation "measure (length \<circ> snd)") (auto dest: duration_term_length)

declare duration_terms.simps [simp del]

definition ParseDuration :: "string \<Rightarrow> duration option" where
  "ParseDuration s =
     (let neg = (s \<noteq> [] \<and> hd s = CHR ''-'');
          body = (case s of c # cs \<Rightarrow> if c = CHR ''-'' \<or> c = CHR ''+'' then cs else s | [] \<Rightarrow> s)
      in if body = ''0'' then Some 0
         else if body = [] then None
         else case duration_terms 0 body of
           None \<Rightarrow> None
         | Some d \<Rightarrow> if neg then Some (- d) else if d > two63 - 1 then None else Some d)"

lemma duration_terms_range: "duration_terms d s = Some v \<Longrightarrow> 0 \<le> d \<Longrightarrow> d \<le> two63 \<Longrightarrow> 0 \<le> v \<and> v \<le> two63"
proof (induction d s rule: duration_terms.induct)
  case (1 d s)
  show ?case
  proof (cases "s = []")
    case True
    with "1.prems" show ?thesis by (simp add: duration_terms.simps)
  next
    case False
    with "1.prems"(1) obtain w r where t: "duration_term s = Some (w, r)"
      by (subst (asm) duration_terms.simps) (auto split: option.splits)
    let ?d = "(d + w) mod 18446744073709551616"
    from False t "1.prems"(1) have "\<not> two63 < ?d \<and> duration_terms ?d r = Some v"
      by (subst (asm) duration_terms.simps) (auto simp: Let_def split: if_splits)
    moreover have "0 \<le> ?d" by simp
    ultimately show ?thesis using "1.IH" [OF False t refl refl] by simp
  qed
qed

lemma ParseDuration_range:
  assumes "ParseDuration s = Some v"
  shows "in_i64 v"
proof -
  from assms consider "v = 0" | d body where "duration_terms 0 body = Some d" "v = - d \<or> v = d \<and> d \<le> two63 - 1"
    by (auto simp: ParseDuration_def Let_def split: if_splits option.splits)
  then show ?thesis
  proof cases
    case 2
    from duration_terms_range [OF 2(1)] have "0 \<le> d" "d \<le> two63" by (simp_all add: two63_def)
    with 2(2) show ?thesis by (auto simp: in_i64_def two63_def)
  qed (simp add: in_i64_def)
qed

lemma ParseDuration_examples:
  "ParseDuration ''4h'' = Some (240 * Minute)" "ParseDuration ''2h30m'' = Some (150 * Minute)"
  "ParseDuration ''1.5s'' = Some 1500000000" "ParseDuration ''5'' = None" "ParseDuration [] = None"
  by code_simp+

end
