(* ===== verification/Disruption_Window.thy ===== *)
theory Disruption_Window
  imports Annotation_Parser Go_Duration
begin

text \<open>
  \<^verbatim>\<open>internal/annotations/disruption_window.go\<close> and the lookup of the window that
  applies to a workload (\<^verbatim>\<open>resolveDisruptionWindow\<close> of both controllers).

  The cron library is a parameter: \<open>parse\<close> is its \<^verbatim>\<open>Parser.Parse\<close> for the
  five-field format and yields the \<^verbatim>\<open>Next\<close> function of the schedule. What the code
  relies on is \<open>cron_schedule\<close>: \<^verbatim>\<open>Next t\<close> is the first occurrence
  strictly after \<open>t\<close>, or the zero time when there is none within the library's horizon.
\<close>

type_synonym schedule = "time \<Rightarrow> time"

record DisruptionWindow =
  dw_Schedule :: schedule
  dw_Duration :: duration

datatype window_error = BothRequired | InvalidSchedule string | InvalidDuration string

definition ParseDisruptionWindow ::
  "(string \<Rightarrow> schedule option) \<Rightarrow> string_map option \<Rightarrow> window_error + DisruptionWindow option" where
  "ParseDisruptionWindow parse annotations =
     (let scheduleStr = map_index annotations DisruptionScheduleAnnotation;
          durationStr = map_index annotations DisruptionDurationAnnotation
      in if (scheduleStr = []) \<noteq> (durationStr = []) then Inl BothRequired
         else if scheduleStr = [] then Inr None
         else case parse scheduleStr of
           None \<Rightarrow> Inl (InvalidSchedule scheduleStr)
         | Some schedule \<Rightarrow>
            (case ParseDuration durationStr of
               None \<Rightarrow> Inl (InvalidDuration durationStr)
             | Some duration \<Rightarrow> Inr (Some \<lparr>dw_Schedule = schedule, dw_Duration = duration\<rparr>)))"

definition IsWithinWindow :: "DisruptionWindow option \<Rightarrow> time \<Rightarrow> bool" where
  "IsWithinWindow dw t =
     (case dw of
        None \<Rightarrow> True
      | Some w \<Rightarrow>
         (let lastSchedule = dw_Schedule w (t + i64 (- dw_Duration w));
              windowEnd = lastSchedule + dw_Duration w
          in \<not> t < lastSchedule \<and> t < windowEnd))"

text \<open>The global window of \<^verbatim>\<open>pkg/config/consolidated.go\<close> and its validation.\<close>

record DisruptionWindowConfig =
  dwc_Schedule :: string
  dwc_Duration :: string

definition dwc_Validate :: "(string \<Rightarrow> schedule option) \<Rightarrow> DisruptionWindowConfig \<Rightarrow> window_error option" where
  "dwc_Validate parse c =
     (if dwc_Schedule c = [] \<and> dwc_Duration c = [] then None
      else if dwc_Schedule c = [] \<or> dwc_Duration c = [] then Some BothRequired
      else if parse (dwc_Schedule c) = None then Some (InvalidSchedule (dwc_Schedule c))
      else if ParseDuration (dwc_Duration c) = None then Some (InvalidDuration (dwc_Duration c))
      else None)"

datatype 'e resolve_error =
    WorkloadWindow window_error
  | GettingNamespace 'e
  | NamespaceWindow window_error
  | GlobalWindow window_error

text \<open>
  \<open>getNamespace\<close> is the API call for the workload's namespace: its labels or the error
  of the client. It is reached only when the workload has no window of its own.
  \<open>config\<close> is the window of the global configuration, \<open>None\<close> when the
  controller has no configuration.
\<close>

definition resolveDisruptionWindow ::
  "(string \<Rightarrow> schedule option) \<Rightarrow> string_map option \<Rightarrow> 'e + string_map option \<Rightarrow>
   DisruptionWindowConfig option \<Rightarrow> 'e resolve_error + DisruptionWindow option" where
  "resolveDisruptionWindow parse workloadAnnotations getNamespace config =
     (case ParseDisruptionWindow parse workloadAnnotations of
        Inl err \<Rightarrow> Inl (WorkloadWindow err)
      | Inr (Some window) \<Rightarrow> Inr (Some window)
      | Inr None \<Rightarrow>
         (case getNamespace of
            Inl err \<Rightarrow> Inl (GettingNamespace err)
          | Inr nsLabels \<Rightarrow>
             (case ParseDisruptionWindow parse nsLabels of
                Inl err \<Rightarrow> Inl (NamespaceWindow err)
              | Inr (Some window) \<Rightarrow> Inr (Some window)
              | Inr None \<Rightarrow>
                 (case config of
                    None \<Rightarrow> Inr None
                  | Some c \<Rightarrow>
                     if dwc_Schedule c = [] then Inr None
                     else case ParseDisruptionWindow parse
                         (Some [DisruptionScheduleAnnotation \<mapsto> dwc_Schedule c,
                                DisruptionDurationAnnotation \<mapsto> dwc_Duration c]) of
                       Inl err \<Rightarrow> Inl (GlobalWindow err)
                     | Inr window \<Rightarrow> Inr window))))"

section \<open>A window is open exactly after an occurrence\<close>

definition cron_schedule :: "(time \<Rightarrow> bool) \<Rightarrow> duration \<Rightarrow> schedule \<Rightarrow> bool" where
  "cron_schedule occurs horizon next_time \<longleftrightarrow>
     (\<forall>t. if next_time t = 0
          then \<forall>o'. occurs o' \<longrightarrow> t < o' \<longrightarrow> t + horizon < o'
          else occurs (next_time t) \<and> t < next_time t \<and> (\<forall>o'. occurs o' \<longrightarrow> t < o' \<longrightarrow> next_time t \<le> o'))"

lemma IsWithinWindow_occurrence:
  assumes cron: "cron_schedule occurs horizon (dw_Schedule w)"
    and d: "0 \<le> dw_Duration w" "in_i64 (dw_Duration w)" "dw_Duration w \<le> horizon"
    and t: "dw_Duration w \<le> t"
  shows "IsWithinWindow (Some w) t \<longleftrightarrow> (\<exists>o'. occurs o' \<and> o' \<le> t \<and> t < o' + dw_Duration w)"
proof -
  let ?d = "dw_Duration w"
  let ?n = "dw_Schedule w (t - ?d)"
  have neg: "i64 (- ?d) = - ?d" using d by (intro i64_id) (auto simp: in_i64_def)
  have win: "IsWithinWindow (Some w) t \<longleftrightarrow> ?n \<le> t \<and> t < ?n + ?d"
    by (auto simp: IsWithinWindow_def neg Let_def)
  show ?thesis
  proof (cases "?n = 0")
    case True
    with cron have none: "occurs o' \<Longrightarrow> t - ?d < o' \<Longrightarrow> t - ?d + horizon < o'" for o'
      unfolding cron_schedule_def by metis
    have "\<not> (occurs o' \<and> o' \<le> t \<and> t < o' + ?d)" for o'
      using none [of o'] d(3) by linarith
    moreover have "\<not> IsWithinWindow (Some w) t" unfolding win True using t by simp
    ultimately show ?thesis by blast
  next
    case False
    with cron have n: "occurs ?n" "t - ?d < ?n" "\<And>o'. occurs o' \<Longrightarrow> t - ?d < o' \<Longrightarrow> ?n \<le> o'"
      unfolding cron_schedule_def by metis+
    show ?thesis
    proof
      assume "IsWithinWindow (Some w) t"
      with win n(1) show "\<exists>o'. occurs o' \<and> o' \<le> t \<and> t < o' + ?d" by blast
    next
      assume "\<exists>o'. occurs o' \<and> o' \<le> t \<and> t < o' + ?d"
      then obtain o' where o': "occurs o'" "o' \<le> t" "t < o' + ?d" by blast
      have "?n \<le> o'" using o' by (intro n(3)) simp_all
      with win n(2) o'(2) show "IsWithinWindow (Some w) t" by linarith
    qed
  qed
qed

lemma IsWithinWindow_nonpositive:
  assumes "dw_Duration w \<le> 0"
  shows "\<not> IsWithinWindow (Some w) t"
  using assms by (auto simp: IsWithinWindow_def Let_def)

text \<open>A schedule that fires every \<open>period\<close>, the first time at \<open>offset\<close>.\<close>

definition every :: "duration \<Rightarrow> time \<Rightarrow> schedule" where
  "every period offset t = ((t - offset) div period + 1) * period + offset"

lemma every_cron:
  assumes "0 < p" and "0 < off" and "off < p"
  shows "cron_schedule (\<lambda>t. t mod p = off) h (every p off)"
proof -
  have nz: "every p off t \<noteq> 0" for t
  proof
    assume "every p off t = 0"
    then have "off = - ((t - off) div p + 1) * p" by (simp add: every_def algebra_simps)
    then have "off mod p = 0" by (metis mod_mult_self2_is_0)
    with assms show False by simp
  qed
  have occ: "every p off t mod p = off" for t
    using assms by (simp add: every_def)
  have less: "t < every p off t" for t
  proof -
    define q r where "q = (t - off) div p" and "r = (t - off) mod p"
    have "t - off = q * p + r" by (simp add: q_def r_def)
    moreover have "r < p" using assms(1) by (simp add: r_def)
    ultimately have "t < q * p + p + off" by linarith
    moreover have "every p off t = q * p + p + off" by (simp add: every_def q_def distrib_right)
    ultimately show ?thesis by simp
  qed
  have least: "every p off t \<le> o'" if "o' mod p = off" "t < o'" for t o'
  proof -
    define k where "k = o' div p"
    have o': "o' = k * p + off" using that(1) unfolding k_def by (metis div_mult_mod_eq)
    with that(2) have "t - off < k * p" by simp
    moreover have "(t - off) div p * p \<le> t - off"
      using minus_mod_eq_div_mult [of "t - off" p] assms(1) by (simp add: minus_mod_eq_div_mult [symmetric])
    ultimately have "(t - off) div p * p < k * p" by linarith
    then have "(t - off) div p + 1 \<le> k" using assms(1) by (simp add: mult_less_cancel_right)
    then have "((t - off) div p + 1) * p \<le> k * p" using assms(1) by (intro mult_right_mono) simp_all
    then show ?thesis by (simp add: every_def o')
  qed
  show ?thesis unfolding cron_schedule_def using nz occ less least by auto
qed

section \<open>Window annotations come in pairs\<close>

lemma ParseDisruptionWindow_Some:
  assumes "ParseDisruptionWindow parse m = Inr (Some w)"
  shows "parse (map_index m DisruptionScheduleAnnotation) = Some (dw_Schedule w)"
    and "ParseDuration (map_index m DisruptionDurationAnnotation) = Some (dw_Duration w)"
    and "map_index m DisruptionScheduleAnnotation \<noteq> []"
  using assms by (auto simp: ParseDisruptionWindow_def Let_def split: if_splits option.splits)

lemma ParseDisruptionWindow_None_iff:
  "ParseDisruptionWindow parse m = Inr None \<longleftrightarrow>
     map_index m DisruptionScheduleAnnotation = [] \<and> map_index m DisruptionDurationAnnotation = []"
  by (auto simp: ParseDisruptionWindow_def Let_def split: option.splits)

lemma global_annotations:
  "map_index (Some [DisruptionScheduleAnnotation \<mapsto> s, DisruptionDurationAnnotation \<mapsto> d]) DisruptionScheduleAnnotation = s"
  "map_index (Some [DisruptionScheduleAnnotation \<mapsto> s, DisruptionDurationAnnotation \<mapsto> d]) DisruptionDurationAnnotation = d"
  by (simp_all add: map_index_def map_lookup_def DisruptionScheduleAnnotation_def DisruptionDurationAnnotation_def)

lemma global_window:
  assumes "dwc_Validate parse c = None" and "dwc_Schedule c \<noteq> []"
  shows "\<exists>w. ParseDisruptionWindow parse (Some [DisruptionScheduleAnnotation \<mapsto> dwc_Schedule c,
       DisruptionDurationAnnotation \<mapsto> dwc_Duration c]) = Inr (Some w) \<and>
     parse (dwc_Schedule c) = Some (dw_Schedule w) \<and> ParseDuration (dwc_Duration c) = Some (dw_Duration w)"
  using assms
  by (auto simp: ParseDisruptionWindow_def global_annotations Let_def dwc_Validate_def split: if_splits)

text \<open>The values a Kubernetes label can have: they contain no space.\<close>

definition label_value_char :: "char \<Rightarrow> bool" where
  "label_value_char c = (let n = of_char c :: nat in (48 \<le> n \<and> n \<le> 57) \<or> (65 \<le> n \<and> n \<le> 90) \<or>
     (97 \<le> n \<and> n \<le> 122) \<or> c = CHR ''-'' \<or> c = CHR ''_'' \<or> c = CHR ''.'')"

definition valid_label_value :: "string \<Rightarrow> bool" where
  "valid_label_value s \<longleftrightarrow> length s \<le> 63 \<and> list_all label_value_char s"

text \<open>The five-field format: a schedule that parses has its fields separated by blanks.\<close>

definition five_fields :: "(string \<Rightarrow> schedule option) \<Rightarrow> bool" where
  "five_fields parse \<longleftrightarrow> (\<forall>s. parse s \<noteq> None \<longrightarrow> CHR '' '' \<in> set s \<or> CHR 0x09 \<in> set s)"

lemma valid_label_no_blank: "valid_label_value s \<Longrightarrow> CHR '' '' \<notin> set s \<and> CHR 0x09 \<notin> set s"
  by (auto simp: valid_label_value_def list_all_iff label_value_char_def Let_def)

lemma namespace_label_never_a_window:
  assumes "five_fields parse" and "\<And>k v. map_lookup m k = Some v \<Longrightarrow> valid_label_value v"
  shows "ParseDisruptionWindow parse m \<noteq> Inr (Some w)"
proof
  assume w: "ParseDisruptionWindow parse m = Inr (Some w)"
  let ?s = "map_index m DisruptionScheduleAnnotation"
  from ParseDisruptionWindow_Some(1) [OF w] assms(1)
  have blank: "CHR '' '' \<in> set ?s \<or> CHR 0x09 \<in> set ?s" by (auto simp: five_fields_def)
  have "valid_label_value ?s"
    using assms(2) by (auto simp: map_index_def valid_label_value_def split: option.splits)
  with valid_label_no_blank blank show False by blast
qed

section \<open>Properties\<close>

text \<open>C21: With a schedule whose \<^verbatim>\<open>Next\<close> is the first occurrence strictly after its
  argument, a window is open at \<open>t\<close> exactly when some occurrence lies at most one duration
  back: the window is the half-open interval from an occurrence to its end.\<close>

theorem window_is_after_occurrence:
  assumes "cron_schedule occurs horizon (dw_Schedule w)"
    and "0 \<le> dw_Duration w" and "in_i64 (dw_Duration w)" and "dw_Duration w \<le> horizon" and "dw_Duration w \<le> t"
  shows "IsWithinWindow (Some w) t = (\<exists>o'. occurs o' \<and> o' \<le> t \<and> t < o' + dw_Duration w)"
  using assms by (rule IsWithinWindow_occurrence)

text \<open>Daily at two, four hours long, in minutes: open at 2:00 and 5:59, closed at 6:00.\<close>

theorem window_is_after_occurrence_witness:
  "IsWithinWindow (Some \<lparr>dw_Schedule = every 1440 120, dw_Duration = 240\<rparr>) (2 * 1440 + 359) =
     (\<exists>o'::int. o' mod 1440 = 120 \<and> o' \<le> 2 * 1440 + 359 \<and> 2 * 1440 + 359 < o' + 240) \<and>
   \<not> IsWithinWindow (Some \<lparr>dw_Schedule = every 1440 120, dw_Duration = 240\<rparr>) (2 * 1440 + 360)"
proof -
  let ?w = "\<lparr>dw_Schedule = every 1440 120, dw_Duration = 240\<rparr>"
  have "cron_schedule (\<lambda>t. t mod 1440 = 120) 1000 (dw_Schedule ?w)" by (simp add: every_cron)
  from window_is_after_occurrence [OF this, of "2 * 1440 + 359"]
  show ?thesis by (simp add: in_i64_def IsWithinWindow_def every_def i64_def Let_def)
qed

text \<open>The window that applies to a workload is the one of its own annotations when it has
  one; otherwise the namespace is read and its window applies; otherwise the validated global
  window; otherwise none. A half-specified or unparsable pair is an error, never a fallback to
  a lower level.\<close>

theorem window_hierarchy:
  assumes "config = None \<or> (\<exists>c. config = Some c \<and> dwc_Validate parse c = None)"
  shows "resolveDisruptionWindow parse m ns config =
    (case ParseDisruptionWindow parse m of
       Inl e \<Rightarrow> Inl (WorkloadWindow e) | Inr (Some w) \<Rightarrow> Inr (Some w)
     | Inr None \<Rightarrow> (case ns of Inl e \<Rightarrow> Inl (GettingNamespace e) | Inr labels \<Rightarrow>
         (case ParseDisruptionWindow parse labels of
            Inl e \<Rightarrow> Inl (NamespaceWindow e) | Inr (Some w) \<Rightarrow> Inr (Some w)
          | Inr None \<Rightarrow> Inr (case config of None \<Rightarrow> None | Some c \<Rightarrow>
              if dwc_Schedule c = [] then None
              else Some \<lparr>dw_Schedule = the (parse (dwc_Schedule c)), dw_Duration = the (ParseDuration (dwc_Duration c))\<rparr>))))"
proof (cases config)
  case None
  then show ?thesis by (auto simp: resolveDisruptionWindow_def split: sum.splits option.splits)
next
  case (Some c)
  with assms have "dwc_Validate parse c = None" by simp
  from global_window [OF this] Some show ?thesis
    by (cases "dwc_Schedule c = []")
      (auto simp: resolveDisruptionWindow_def split: sum.splits option.splits)
qed

theorem window_hierarchy_witness:
  "resolveDisruptionWindow (\<lambda>_. Some (every 1440 120)) None (Inr None :: unit + string_map option)
     (Some \<lparr>dwc_Schedule = ''0 2 * * *'', dwc_Duration = ''4h''\<rparr>) =
   Inr (Some \<lparr>dw_Schedule = every 1440 120, dw_Duration = 240 * Minute\<rparr>)"
proof -
  let ?c = "\<lparr>dwc_Schedule = ''0 2 * * *'', dwc_Duration = ''4h''\<rparr>"
  have "dwc_Validate (\<lambda>_. Some (every 1440 120)) ?c = None"
    by (simp add: dwc_Validate_def ParseDuration_examples)
  then have "Some ?c = None \<or> (\<exists>c. Some ?c = Some c \<and> dwc_Validate (\<lambda>_. Some (every 1440 120)) c = None)" by simp
  from window_hierarchy [OF this, of None "Inr None"] show ?thesis
    by (simp add: ParseDisruptionWindow_def map_index_def map_lookup_def ParseDuration_examples)
qed

text \<open>A namespace can never provide a window: the controllers read it from labels, label
  values contain no blank, and a five-field schedule does. A namespace with the schedule label
  makes the lookup fail or yields no window.\<close>

theorem namespace_window_unreachable:
  assumes "five_fields parse" and "\<And>k v. map_lookup labels k = Some v \<Longrightarrow> valid_label_value v"
    and "ParseDisruptionWindow parse m = Inr None"
  shows "resolveDisruptionWindow parse m (Inr labels) None = Inr None \<or>
    (\<exists>e. resolveDisruptionWindow parse m (Inr labels :: 'e + string_map option) None = Inl (NamespaceWindow e))"
  using namespace_label_never_a_window [OF assms(1,2)] assms(3)
  by (auto simp: resolveDisruptionWindow_def split: sum.splits option.splits)

theorem namespace_window_unreachable_witness:
  "let parse = (\<lambda>s. if s = ''0 2 * * *'' then Some (every 1440 120) else None);
       labels = Some [DisruptionScheduleAnnotation \<mapsto> ''daily'', DisruptionDurationAnnotation \<mapsto> ''4h'']
   in resolveDisruptionWindow parse None (Inr labels :: unit + string_map option) None = Inr None \<or>
      (\<exists>e. resolveDisruptionWindow parse None (Inr labels :: unit + string_map option) None = Inl (NamespaceWindow e))"
proof -
  let ?parse = "\<lambda>s. if s = ''0 2 * * *'' then Some (every 1440 120) else None"
  let ?labels = "Some [DisruptionScheduleAnnotation \<mapsto> ''daily'', DisruptionDurationAnnotation \<mapsto> ''4h'']"
  have "five_fields ?parse" by (simp add: five_fields_def)
  moreover have "map_lookup ?labels k = Some v \<Longrightarrow> valid_label_value v" for k v
    by (auto simp: map_lookup_def valid_label_value_def label_value_char_def split: if_splits)
  moreover have "ParseDisruptionWindow ?parse None = Inr None"
    by (simp add: ParseDisruptionWindow_def map_index_def map_lookup_def)
  ultimately show ?thesis unfolding Let_def by (rule namespace_window_unreachable)
qed

end
