(* ===== verification/Disruption_Policy.thy ===== *)
theory Disruption_Policy
  imports Kube_Objects Disruption_Window
begin

text \<open>
  \<^verbatim>\<open>pkg/apis/disruption_policy.go\<close>: the budget of one workload, whether one
  more pod may be disrupted, how many may be, and why not. Every read of the clock is an
  argument, in the order the code reads it.
\<close>

text \<open>\<^verbatim>\<open>intstr.IntOrString\<close>; the last constructor is a type tag the source's switch does not know.\<close>

datatype int_or_string = IntVal int | StrVal string | OtherType

text \<open>
  \<^verbatim>\<open>DisruptionWindow\<close> is an untyped interface value: nil, a value with the
  method \<^verbatim>\<open>IsWithinWindow\<close>, or any other value.
\<close>

datatype window_value = NilWindow | WindowChecker "time \<Rightarrow> bool" | OtherValue

record budget_spec =
  bud_Name :: string
  bud_Namespace :: string
  bud_MinAvailable :: "int_or_string option"
  bud_MaxUnavailable :: "int_or_string option"

record DisruptionPolicy =
  dp_WorkloadRef :: ObjectReference
  dp_PDBRef :: "ObjectReference option"
  dp_MinAvailable :: "int_or_string option"
  dp_MaxUnavailable :: "int_or_string option"
  dp_TotalReplicas :: int
  dp_CurrentlyDisrupted :: int
  dp_CanDisrupt :: bool
  dp_LastChecked :: time
  dp_DisruptionWindow :: window_value

definition isWithinDisruptionWindow :: "time \<Rightarrow> DisruptionPolicy \<Rightarrow> bool" where
  "isWithinDisruptionWindow now d =
     (case dp_DisruptionWindow d of
        NilWindow \<Rightarrow> True
      | WindowChecker isWithin \<Rightarrow> isWithin now
      | OtherValue \<Rightarrow> True)"

definition resolveIntOrString :: "int_or_string option \<Rightarrow> int \<Rightarrow> int" where
  "resolveIntOrString val totalReplicas =
     (case val of
        None \<Rightarrow> 0
      | Some (IntVal n) \<Rightarrow> n
      | Some (StrVal s) \<Rightarrow> if s = [] then 0 else go_div totalReplicas 2
      | Some OtherType \<Rightarrow> 0)"

definition calculateCanDisrupt :: "time \<Rightarrow> DisruptionPolicy \<Rightarrow> bool" where
  "calculateCanDisrupt now d =
     (if \<not> isWithinDisruptionWindow now d then False
      else if dp_PDBRef d = None then True
      else
        (let availablePods = i32 (dp_TotalReplicas d - dp_CurrentlyDisrupted d)
         in if dp_MinAvailable d \<noteq> None \<and> availablePods \<le> resolveIntOrString (dp_MinAvailable d) (dp_TotalReplicas d)
            then False
            else if dp_MaxUnavailable d \<noteq> None \<and>
                dp_CurrentlyDisrupted d \<ge> resolveIntOrString (dp_MaxUnavailable d) (dp_TotalReplicas d)
            then False
            else True))"

definition NewDisruptionPolicy ::
  "time \<Rightarrow> time \<Rightarrow> ObjectReference \<Rightarrow> budget_spec option \<Rightarrow> int \<Rightarrow> DisruptionPolicy" where
  "NewDisruptionPolicy now1 now2 workloadRef pdb totalReplicas =
     (let policy = \<lparr>dp_WorkloadRef = workloadRef, dp_PDBRef = None, dp_MinAvailable = None,
            dp_MaxUnavailable = None, dp_TotalReplicas = totalReplicas, dp_CurrentlyDisrupted = 0,
            dp_CanDisrupt = False, dp_LastChecked = now1, dp_DisruptionWindow = NilWindow\<rparr>;
          policy = (case pdb of
             None \<Rightarrow> policy
           | Some b \<Rightarrow> policy\<lparr>
               dp_PDBRef := Some \<lparr>ref_APIVersion = ''policy/v1'', ref_Kind = ''PodDisruptionBudget'',
                 ref_Namespace = bud_Namespace b, ref_Name = bud_Name b, ref_UID = []\<rparr>,
               dp_MinAvailable := bud_MinAvailable b,
               dp_MaxUnavailable := bud_MaxUnavailable b\<rparr>)
      in policy\<lparr>dp_CanDisrupt := calculateCanDisrupt now2 policy\<rparr>)"

definition CanDisruptPod :: "time \<Rightarrow> time \<Rightarrow> DisruptionPolicy \<Rightarrow> bool \<times> DisruptionPolicy" where
  "CanDisruptPod now1 now2 d =
     (let d = d\<lparr>dp_LastChecked := now1\<rparr>; d = d\<lparr>dp_CanDisrupt := calculateCanDisrupt now2 d\<rparr>
      in (dp_CanDisrupt d, d))"

definition RecordDisruption :: "time \<Rightarrow> time \<Rightarrow> int \<Rightarrow> DisruptionPolicy \<Rightarrow> DisruptionPolicy" where
  "RecordDisruption now1 now2 delta d =
     (let d = d\<lparr>dp_CurrentlyDisrupted := i32 (dp_CurrentlyDisrupted d + delta)\<rparr>;
          d = (if dp_CurrentlyDisrupted d < 0 then d\<lparr>dp_CurrentlyDisrupted := 0\<rparr> else d);
          d = d\<lparr>dp_LastChecked := now1\<rparr>
      in d\<lparr>dp_CanDisrupt := calculateCanDisrupt now2 d\<rparr>)"

definition GetAvailablePods :: "DisruptionPolicy \<Rightarrow> int" where
  "GetAvailablePods d = i32 (dp_TotalReplicas d - dp_CurrentlyDisrupted d)"

definition GetMaxAllowedDisruptions :: "DisruptionPolicy \<Rightarrow> int" where
  "GetMaxAllowedDisruptions d =
     (if dp_PDBRef d = None then dp_TotalReplicas d
      else
       (let maxDisruptions = dp_TotalReplicas d;
            maxDisruptions = (if dp_MinAvailable d = None then maxDisruptions
              else let maxFromMinAvailable =
                  i32 (dp_TotalReplicas d - resolveIntOrString (dp_MinAvailable d) (dp_TotalReplicas d))
                in if maxFromMinAvailable < maxDisruptions then maxFromMinAvailable else maxDisruptions);
            maxDisruptions = (if dp_MaxUnavailable d = None then maxDisruptions
              else let maxUnavailable = resolveIntOrString (dp_MaxUnavailable d) (dp_TotalReplicas d)
                in if maxUnavailable < maxDisruptions then maxUnavailable else maxDisruptions);
            remainingDisruptions = i32 (maxDisruptions - dp_CurrentlyDisrupted d)
        in if remainingDisruptions < 0 then 0 else remainingDisruptions))"

definition dp_IsHealthy :: "DisruptionPolicy \<Rightarrow> bool" where
  "dp_IsHealthy d =
     (if dp_PDBRef d = None then True
      else
        (let availablePods = i32 (dp_TotalReplicas d - dp_CurrentlyDisrupted d)
         in if dp_MinAvailable d \<noteq> None \<and> availablePods < resolveIntOrString (dp_MinAvailable d) (dp_TotalReplicas d)
            then False
            else if dp_MaxUnavailable d \<noteq> None \<and>
                dp_CurrentlyDisrupted d > resolveIntOrString (dp_MaxUnavailable d) (dp_TotalReplicas d)
            then False
            else True))"

definition UpdateTotalReplicas :: "time \<Rightarrow> time \<Rightarrow> int \<Rightarrow> DisruptionPolicy \<Rightarrow> DisruptionPolicy" where
  "UpdateTotalReplicas now1 now2 newTotal d =
     (let d = d\<lparr>dp_TotalReplicas := newTotal, dp_LastChecked := now1\<rparr>
      in d\<lparr>dp_CanDisrupt := calculateCanDisrupt now2 d\<rparr>)"

record DisruptionPolicyStatus =
  dps_TotalReplicas :: int
  dps_AvailablePods :: int
  dps_DisruptedPods :: int
  dps_MaxDisruptions :: int
  dps_CanDisrupt :: bool
  dps_HasPDB :: bool
  dps_LastChecked :: time
  dps_WithinWindow :: bool

definition GetPolicyStatus :: "time \<Rightarrow> time \<Rightarrow> DisruptionPolicy \<Rightarrow> DisruptionPolicyStatus" where
  "GetPolicyStatus now1 now2 d =
     \<lparr>dps_TotalReplicas = dp_TotalReplicas d, dps_AvailablePods = GetAvailablePods d,
      dps_DisruptedPods = dp_CurrentlyDisrupted d, dps_MaxDisruptions = GetMaxAllowedDisruptions d,
      dps_CanDisrupt = calculateCanDisrupt now1 d, dps_HasPDB = (dp_PDBRef d \<noteq> None),
      dps_LastChecked = dp_LastChecked d, dps_WithinWindow = isWithinDisruptionWindow now2 d\<rparr>"

datatype DisruptionReason =
    DisruptionReasonAllowed
  | DisruptionReasonNoPDB
  | DisruptionReasonMinAvailable
  | DisruptionReasonMaxUnavailable
  | DisruptionReasonOutsideWindow
  | DisruptionReasonTooManyDisrupted

definition GetDisruptionReason :: "time \<Rightarrow> DisruptionPolicy \<Rightarrow> DisruptionReason" where
  "GetDisruptionReason now d =
     (if \<not> isWithinDisruptionWindow now d then DisruptionReasonOutsideWindow
      else if dp_PDBRef d = None then DisruptionReasonNoPDB
      else if dp_MinAvailable d \<noteq> None \<and>
          GetAvailablePods d \<le> resolveIntOrString (dp_MinAvailable d) (dp_TotalReplicas d)
        then DisruptionReasonMinAvailable
      else if dp_MaxUnavailable d \<noteq> None \<and>
          dp_CurrentlyDisrupted d \<ge> resolveIntOrString (dp_MaxUnavailable d) (dp_TotalReplicas d)
        then DisruptionReasonMaxUnavailable
      else DisruptionReasonAllowed)"

section \<open>The budget is respected\<close>

text \<open>Counts of pods fit 32 bits with room for their differences.\<close>

definition wf_budget :: "DisruptionPolicy \<Rightarrow> bool" where
  "wf_budget d \<longleftrightarrow> 0 \<le> dp_TotalReplicas d \<and> in_i32 (dp_TotalReplicas d) \<and>
     0 \<le> dp_CurrentlyDisrupted d \<and> in_i32 (dp_CurrentlyDisrupted d) \<and>
     (\<forall>n\<in>set_option (dp_MinAvailable d) \<union> set_option (dp_MaxUnavailable d).
        0 \<le> resolveIntOrString (Some n) (dp_TotalReplicas d) \<and> in_i32 (resolveIntOrString (Some n) (dp_TotalReplicas d)))"

lemma wf_budget_available: "wf_budget d \<Longrightarrow> i32 (dp_TotalReplicas d - dp_CurrentlyDisrupted d) = dp_TotalReplicas d - dp_CurrentlyDisrupted d"
  by (intro i32_sub_nonneg) (simp_all add: wf_budget_def)

text \<open>
  The abstract budget: with \<open>n\<close> pods disrupted the available pods reach the minimum
  and the disrupted ones do not exceed the maximum.
\<close>

definition within_budget :: "DisruptionPolicy \<Rightarrow> int \<Rightarrow> bool" where
  "within_budget d n \<longleftrightarrow>
     (dp_PDBRef d = None \<or>
      (dp_MinAvailable d \<noteq> None \<longrightarrow> resolveIntOrString (dp_MinAvailable d) (dp_TotalReplicas d) \<le> dp_TotalReplicas d - n) \<and>
      (dp_MaxUnavailable d \<noteq> None \<longrightarrow> n \<le> resolveIntOrString (dp_MaxUnavailable d) (dp_TotalReplicas d)))"

lemma calculateCanDisrupt_iff:
  assumes "wf_budget d"
  shows "calculateCanDisrupt now d \<longleftrightarrow>
    isWithinDisruptionWindow now d \<and> within_budget d (dp_CurrentlyDisrupted d + 1)"
  by (auto simp: calculateCanDisrupt_def within_budget_def wf_budget_available [OF assms] Let_def)

lemma dp_IsHealthy_iff: "wf_budget d \<Longrightarrow> dp_IsHealthy d \<longleftrightarrow> within_budget d (dp_CurrentlyDisrupted d)"
  by (auto simp: dp_IsHealthy_def within_budget_def wf_budget_available Let_def)

lemma GetDisruptionReason_iff:
  "calculateCanDisrupt now d \<longleftrightarrow> GetDisruptionReason now d \<in> {DisruptionReasonAllowed, DisruptionReasonNoPDB}"
  by (auto simp: calculateCanDisrupt_def GetDisruptionReason_def GetAvailablePods_def Let_def)

lemma GetMaxAllowedDisruptions_exact:
  assumes "wf_budget d" and "dp_PDBRef d \<noteq> None" and "dp_CurrentlyDisrupted d \<le> dp_TotalReplicas d"
  shows "GetMaxAllowedDisruptions d =
    max 0 (min (dp_TotalReplicas d)
      (min (case dp_MinAvailable d of None \<Rightarrow> dp_TotalReplicas d
              | Some n \<Rightarrow> dp_TotalReplicas d - resolveIntOrString (Some n) (dp_TotalReplicas d))
           (case dp_MaxUnavailable d of None \<Rightarrow> dp_TotalReplicas d
              | Some n \<Rightarrow> resolveIntOrString (Some n) (dp_TotalReplicas d))) - dp_CurrentlyDisrupted d)"
proof -
  let ?T = "dp_TotalReplicas d" and ?c = "dp_CurrentlyDisrupted d"
  have sub: "i32 (?T - a) = ?T - a" "i32 (?T - a - ?c) = ?T - a - ?c" "i32 (a - ?c) = a - ?c"
    if "0 \<le> a" "in_i32 a" for a
    using that assms by (auto simp: wf_budget_def in_i32_def intro!: i32_id)
  have sub0: "i32 (?T - ?c) = ?T - ?c" by (rule wf_budget_available [OF assms(1)])
  show ?thesis
    using assms sub0 unfolding GetMaxAllowedDisruptions_def wf_budget_def Let_def
    by (cases "dp_MinAvailable d"; cases "dp_MaxUnavailable d") (auto simp: sub min_def max_def)
qed

text \<open>
  With a budget, the number of allowed disruptions is exactly how many more pods can be
  disrupted before the budget (and the workload) is exhausted.
\<close>

lemma GetMaxAllowedDisruptions_budget:
  assumes "wf_budget d" and "dp_PDBRef d \<noteq> None" and "0 < k" and "dp_CurrentlyDisrupted d + k \<le> dp_TotalReplicas d"
  shows "k \<le> GetMaxAllowedDisruptions d \<longleftrightarrow> within_budget d (dp_CurrentlyDisrupted d + k)"
proof -
  have le: "dp_CurrentlyDisrupted d \<le> dp_TotalReplicas d" using assms by simp
  show ?thesis
    unfolding GetMaxAllowedDisruptions_exact [OF assms(1,2) le] within_budget_def
    using assms by (auto simp: max_def min_def split: option.splits)
qed

lemma RecordDisruption_nonneg: "0 \<le> dp_CurrentlyDisrupted (RecordDisruption n1 n2 k d)"
  by (simp add: RecordDisruption_def Let_def)

lemma RecordDisruption_i32: "in_i32 (dp_CurrentlyDisrupted (RecordDisruption n1 n2 k d))"
  using i32_range by (simp add: RecordDisruption_def Let_def in_i32_def)

lemma RecordDisruption_refreshes:
  "dp_CanDisrupt (RecordDisruption n1 n2 k d) = calculateCanDisrupt n2 (RecordDisruption n1 n2 k d)"
  by (simp add: RecordDisruption_def Let_def calculateCanDisrupt_def isWithinDisruptionWindow_def
      split: window_value.splits)

section \<open>Properties\<close>

text \<open>With counts in range, a further disruption is allowed exactly when the window is open
  and the budget still holds with one more pod disrupted; the reported reason is allowed or
  no-pdb exactly then, and the number of further disruptions says how many more keep the
  budget.\<close>

theorem disruption_respects_budget:
  assumes "wf_budget d"
  shows "(calculateCanDisrupt now d =
      (isWithinDisruptionWindow now d \<and> within_budget d (dp_CurrentlyDisrupted d + 1))) \<and>
    (calculateCanDisrupt now d =
      (GetDisruptionReason now d \<in> {DisruptionReasonAllowed, DisruptionReasonNoPDB})) \<and>
    (dp_PDBRef d \<noteq> None \<longrightarrow> 0 < k \<longrightarrow> dp_CurrentlyDisrupted d + k \<le> dp_TotalReplicas d \<longrightarrow>
      (k \<le> GetMaxAllowedDisruptions d) = within_budget d (dp_CurrentlyDisrupted d + k))"
  using calculateCanDisrupt_iff [OF assms] GetDisruptionReason_iff GetMaxAllowedDisruptions_budget [OF assms]
  by blast

definition sample_budget :: "int_or_string \<Rightarrow> DisruptionPolicy" where
  "sample_budget minAvailable = NewDisruptionPolicy 1 1
     \<lparr>ref_APIVersion = [], ref_Kind = [], ref_Namespace = [], ref_Name = [], ref_UID = []\<rparr>
     (Some \<lparr>bud_Name = ''web'', bud_Namespace = ''shop'', bud_MinAvailable = Some minAvailable, bud_MaxUnavailable = None\<rparr>) 5"

lemma sample_budget_simps:
  "dp_TotalReplicas (sample_budget m) = 5" "dp_CurrentlyDisrupted (sample_budget m) = 0"
  "dp_MinAvailable (sample_budget m) = Some m" "dp_MaxUnavailable (sample_budget m) = None"
  "dp_PDBRef (sample_budget m) \<noteq> None" "dp_DisruptionWindow (sample_budget m) = NilWindow"
  by (simp_all add: sample_budget_def NewDisruptionPolicy_def Let_def)

theorem disruption_respects_budget_witness:
  "calculateCanDisrupt 7 (sample_budget (IntVal 3)) \<and>
   2 \<le> GetMaxAllowedDisruptions (sample_budget (IntVal 3)) \<and>
   \<not> 3 \<le> GetMaxAllowedDisruptions (sample_budget (IntVal 3))"
proof -
  have wf: "wf_budget (sample_budget (IntVal 3))"
    by (simp add: wf_budget_def sample_budget_simps resolveIntOrString_def in_i32_def)
  note p = disruption_respects_budget [OF wf]
  from p [of 7 1] p [of 7 2] p [of 7 3] show ?thesis
    by (simp add: sample_budget_simps within_budget_def isWithinDisruptionWindow_def resolveIntOrString_def)
qed

text \<open>A percentage budget is not read: any non-empty string counts as half of the replicas
  (rounded down), whatever number it holds.\<close>

theorem percentage_is_half:
  assumes "0 \<le> replicas" and "s \<noteq> []"
  shows "resolveIntOrString (Some (StrVal s)) replicas = replicas div 2"
  using assms by (simp add: resolveIntOrString_def go_div_nonneg)

text \<open>Of ten replicas, ninety percent is taken for five.\<close>

theorem percentage_is_half_witness: "resolveIntOrString (Some (StrVal ''90%'')) 10 = 5"
  using percentage_is_half [of 10 "''90%''"] by simp

text \<open>Recording disruptions never makes the count negative, whatever the deltas (a large
  negative one and a wrap-around included), keeps it in range and leaves the decision fresh.\<close>

theorem recorded_disruptions_invariant:
  shows "0 \<le> dp_CurrentlyDisrupted (foldl (\<lambda>d (n1, n2, k). RecordDisruption n1 n2 k d) (RecordDisruption n1 n2 k d) deltas) \<and>
    in_i32 (dp_CurrentlyDisrupted (foldl (\<lambda>d (n1, n2, k). RecordDisruption n1 n2 k d) (RecordDisruption n1 n2 k d) deltas)) \<and>
    (\<exists>now. dp_CanDisrupt (foldl (\<lambda>d (n1, n2, k). RecordDisruption n1 n2 k d) (RecordDisruption n1 n2 k d) deltas) =
       calculateCanDisrupt now (foldl (\<lambda>d (n1, n2, k). RecordDisruption n1 n2 k d) (RecordDisruption n1 n2 k d) deltas))"
proof (induction deltas arbitrary: n1 n2 k d)
  case Nil
  then show ?case
    using RecordDisruption_nonneg [of n1 n2 k d] RecordDisruption_i32 [of n1 n2 k d] RecordDisruption_refreshes [of n1 n2 k d]
    by auto
next
  case (Cons x xs)
  then show ?case by (cases x) simp
qed

end
