(* ===== verification/Node_Classification.thy ===== *)
theory Node_Classification
  imports Kube_Objects "HOL-Library.AList"
begin

text \<open>
  \<^verbatim>\<open>pkg/apis/node_classification.go\<close>: node types, the label-selector classifier
  and the cache of classifications. The cache's Go map is an association list in the order of
  one iteration over it; the classifier the cache calls is a parameter.
\<close>

datatype NodeType = NodeTypeSpot | NodeTypeOnDemand | NodeTypeUnknown

instantiation NodeType :: linorder
begin

fun rank_NodeType :: "NodeType \<Rightarrow> nat" where
  "rank_NodeType NodeTypeSpot = 0"
| "rank_NodeType NodeTypeOnDemand = 1"
| "rank_NodeType NodeTypeUnknown = 2"

definition less_eq_NodeType :: "NodeType \<Rightarrow> NodeType \<Rightarrow> bool" where
  "less_eq_NodeType a b \<longleftrightarrow> rank_NodeType a \<le> rank_NodeType b"

definition less_NodeType :: "NodeType \<Rightarrow> NodeType \<Rightarrow> bool" where
  "less_NodeType a b \<longleftrightarrow> rank_NodeType a < rank_NodeType b"

instance
proof
  fix a b :: NodeType
  show "a \<le> b \<Longrightarrow> b \<le> a \<Longrightarrow> a = b"
    by (cases a; cases b) (simp_all add: less_eq_NodeType_def)
qed (auto simp: less_eq_NodeType_def less_NodeType_def)

end

fun NodeType_string :: "NodeType \<Rightarrow> string" where
  "NodeType_string NodeTypeSpot = ''spot''"
| "NodeType_string NodeTypeOnDemand = ''on-demand''"
| "NodeType_string NodeTypeUnknown = ''unknown''"

lemma NodeType_string_inject: "NodeType_string a = NodeType_string b \<longleftrightarrow> a = b"
  by (cases a; cases b) simp_all

definition CapacityTypeLabel :: string where "CapacityTypeLabel = ''karpenter.sh/capacity-type''"
definition LabelTopologyRegion :: string where "LabelTopologyRegion = ''topology.kubernetes.io/region''"
definition LabelTopologyZone :: string where "LabelTopologyZone = ''topology.kubernetes.io/zone''"
definition LabelInstanceTypeStable :: string where "LabelInstanceTypeStable = ''node.kubernetes.io/instance-type''"

record NodeClassification =
  nc_NodeName :: string
  nc_NodeType :: "NodeType option"
  nc_Labels :: "string_map option"
  nc_Schedulable :: bool
  nc_LastUpdated :: time
  nc_Region :: string
  nc_Zone :: string
  nc_InstanceType :: string
  nc_Capacity :: "(string \<times> string) list"

text \<open>The node type of a classification that was never updated is the empty string: \<open>None\<close>.\<close>

definition nc_IsSpot :: "NodeClassification \<Rightarrow> bool" where
  "nc_IsSpot n \<longleftrightarrow> nc_NodeType n = Some NodeTypeSpot"

definition nc_IsOnDemand :: "NodeClassification \<Rightarrow> bool" where
  "nc_IsOnDemand n \<longleftrightarrow> nc_NodeType n = Some NodeTypeOnDemand"

definition nc_IsUnknown :: "NodeClassification \<Rightarrow> bool" where
  "nc_IsUnknown n \<longleftrightarrow> nc_NodeType n = Some NodeTypeUnknown"

definition nc_IsReady :: "NodeClassification \<Rightarrow> bool" where
  "nc_IsReady n \<longleftrightarrow> nc_Schedulable n"

definition nc_Age :: "time \<Rightarrow> NodeClassification \<Rightarrow> duration" where
  "nc_Age now n = time_sub now (nc_LastUpdated n)"

definition nc_IsStale :: "time \<Rightarrow> NodeClassification \<Rightarrow> duration \<Rightarrow> bool" where
  "nc_IsStale now n maxAge \<longleftrightarrow> nc_Age now n > maxAge"

definition nc_Update :: "time \<Rightarrow> (node \<Rightarrow> NodeType) \<Rightarrow> node \<Rightarrow> NodeClassification \<Rightarrow> NodeClassification" where
  "nc_Update now classify nd n =
     (let n = n\<lparr>nc_Labels := node_Labels nd, nc_Schedulable := (\<not> node_Unschedulable nd),
              nc_LastUpdated := now, nc_NodeType := Some (classify nd)\<rparr>;
          n = (case map_lookup (node_Labels nd) LabelTopologyRegion of
                 None \<Rightarrow> n | Some region \<Rightarrow> n\<lparr>nc_Region := region\<rparr>);
          n = (case map_lookup (node_Labels nd) LabelTopologyZone of
                 None \<Rightarrow> n | Some zone \<Rightarrow> n\<lparr>nc_Zone := zone\<rparr>);
          n = (case map_lookup (node_Labels nd) LabelInstanceTypeStable of
                 None \<Rightarrow> n | Some instanceType \<Rightarrow> n\<lparr>nc_InstanceType := instanceType\<rparr>)
      in n\<lparr>nc_Capacity := node_Capacity nd\<rparr>)"

section \<open>The label-selector classifier\<close>

record DefaultNodeClassifier =
  dnc_SpotLabels :: "label_selector list"
  dnc_OnDemandLabels :: "label_selector list"

definition capacity_selector :: "NodeType \<Rightarrow> label_selector" where
  "capacity_selector t =
     \<lparr>ls_MatchLabels = [(CapacityTypeLabel, NodeType_string t)], ls_MatchExpressions = []\<rparr>"

definition NewDefaultNodeClassifier :: DefaultNodeClassifier where
  "NewDefaultNodeClassifier =
     \<lparr>dnc_SpotLabels = [capacity_selector NodeTypeSpot],
      dnc_OnDemandLabels = [capacity_selector NodeTypeOnDemand]\<rparr>"

text \<open>A selector that does not convert is skipped.\<close>

definition selector_matches :: "as_selector \<Rightarrow> string_map option \<Rightarrow> label_selector \<Rightarrow> bool" where
  "selector_matches as_sel labels s =
     (case as_sel s of Inl err \<Rightarrow> False | Inr matches \<Rightarrow> matches labels)"

definition dnc_ClassifyNode :: "as_selector \<Rightarrow> DefaultNodeClassifier \<Rightarrow> node \<Rightarrow> NodeType" where
  "dnc_ClassifyNode as_sel d nd =
     (if list_ex (selector_matches as_sel (node_Labels nd)) (dnc_SpotLabels d) then NodeTypeSpot
      else if list_ex (selector_matches as_sel (node_Labels nd)) (dnc_OnDemandLabels d) then NodeTypeOnDemand
      else NodeTypeUnknown)"

definition first_selector :: "as_selector \<Rightarrow> label_selector list \<Rightarrow> string_map option \<Rightarrow> bool" where
  "first_selector as_sel ss =
     (case ss of
        [] \<Rightarrow> (\<lambda>_. False)
      | s # _ \<Rightarrow> (case as_sel s of Inl err \<Rightarrow> (\<lambda>_. False) | Inr matches \<Rightarrow> matches))"

definition GetSpotSelector :: "as_selector \<Rightarrow> DefaultNodeClassifier \<Rightarrow> string_map option \<Rightarrow> bool" where
  "GetSpotSelector as_sel d = first_selector as_sel (dnc_SpotLabels d)"

definition GetOnDemandSelector :: "as_selector \<Rightarrow> DefaultNodeClassifier \<Rightarrow> string_map option \<Rightarrow> bool" where
  "GetOnDemandSelector as_sel d = first_selector as_sel (dnc_OnDemandLabels d)"

section \<open>The cache of classifications\<close>

record ClassificationCache =
  cc_Classifications :: "(string \<times> NodeClassification) list"
  cc_LastFullRefresh :: time

definition NewNodeCache :: ClassificationCache where
  "NewNodeCache = \<lparr>cc_Classifications = [], cc_LastFullRefresh = 0\<rparr>"

definition cc_GetNodeType :: "ClassificationCache \<Rightarrow> string \<Rightarrow> NodeType option" where
  "cc_GetNodeType nc nodeName =
     (case map_of (cc_Classifications nc) nodeName of
        None \<Rightarrow> Some NodeTypeUnknown
      | Some classification \<Rightarrow> nc_NodeType classification)"

definition new_classification :: "string \<Rightarrow> NodeClassification" where
  "new_classification name = \<lparr>nc_NodeName = name, nc_NodeType = None, nc_Labels = None,
     nc_Schedulable = False, nc_LastUpdated = 0, nc_Region = [], nc_Zone = [], nc_InstanceType = [],
     nc_Capacity = []\<rparr>"

definition cc_UpdateNode ::
  "time \<Rightarrow> (node \<Rightarrow> NodeType) \<Rightarrow> node \<Rightarrow> ClassificationCache \<Rightarrow> ClassificationCache" where
  "cc_UpdateNode now classify nd nc =
     (let classification = (case map_of (cc_Classifications nc) (node_Name nd) of
            None \<Rightarrow> new_classification (node_Name nd) | Some c \<Rightarrow> c)
      in nc\<lparr>cc_Classifications :=
           AList.update (node_Name nd) (nc_Update now classify nd classification) (cc_Classifications nc)\<rparr>)"

definition cc_RemoveNode :: "string \<Rightarrow> ClassificationCache \<Rightarrow> ClassificationCache" where
  "cc_RemoveNode nodeName nc = nc\<lparr>cc_Classifications := AList.delete nodeName (cc_Classifications nc)\<rparr>"

definition cc_GetSpotNodes :: "ClassificationCache \<Rightarrow> string list" where
  "cc_GetSpotNodes nc =
     map nc_NodeName (filter (\<lambda>c. nc_IsSpot c \<and> nc_IsReady c) (map snd (cc_Classifications nc)))"

definition cc_GetOnDemandNodes :: "ClassificationCache \<Rightarrow> string list" where
  "cc_GetOnDemandNodes nc =
     map nc_NodeName (filter (\<lambda>c. nc_IsOnDemand c \<and> nc_IsReady c) (map snd (cc_Classifications nc)))"

definition cc_NeedsRefresh :: "time \<Rightarrow> ClassificationCache \<Rightarrow> duration \<Rightarrow> bool" where
  "cc_NeedsRefresh now nc maxAge \<longleftrightarrow> time_sub now (cc_LastFullRefresh nc) > maxAge"

definition cc_MarkRefreshed :: "time \<Rightarrow> ClassificationCache \<Rightarrow> ClassificationCache" where
  "cc_MarkRefreshed now nc = nc\<lparr>cc_LastFullRefresh := now\<rparr>"

section \<open>The default classifier reads the capacity label\<close>

text \<open>What the code relies on in the library: a selector of labels matches the sets that contain them.\<close>

definition matches_labels :: "as_selector \<Rightarrow> bool" where
  "matches_labels as_sel \<longleftrightarrow>
     (\<forall>ml. \<exists>m. as_sel \<lparr>ls_MatchLabels = ml, ls_MatchExpressions = []\<rparr> = Inr m \<and>
        (\<forall>labels. m labels \<longleftrightarrow> list_all (\<lambda>(k, v). map_lookup labels k = Some v) ml))"

lemma match_labels_matches: "matches_labels match_labels"
  by (simp add: matches_labels_def match_labels_def)

lemma capacity_selector_matches:
  assumes "matches_labels as_sel"
  shows "selector_matches as_sel labels (capacity_selector t) \<longleftrightarrow>
    map_lookup labels CapacityTypeLabel = Some (NodeType_string t)"
proof -
  from assms obtain m where "as_sel (capacity_selector t) = Inr m"
    "\<And>labels. m labels \<longleftrightarrow> list_all (\<lambda>(k, v). map_lookup labels k = Some v) [(CapacityTypeLabel, NodeType_string t)]"
    unfolding matches_labels_def capacity_selector_def by metis
  then show ?thesis by (simp add: selector_matches_def)
qed

lemma dnc_ClassifyNode_default:
  assumes "matches_labels as_sel"
  shows "dnc_ClassifyNode as_sel NewDefaultNodeClassifier nd =
    (if map_lookup (node_Labels nd) CapacityTypeLabel = Some ''spot'' then NodeTypeSpot
     else if map_lookup (node_Labels nd) CapacityTypeLabel = Some ''on-demand'' then NodeTypeOnDemand
     else NodeTypeUnknown)"
  by (simp add: dnc_ClassifyNode_def NewDefaultNodeClassifier_def capacity_selector_matches [OF assms])

section \<open>The cache remembers the last update of every node\<close>

text \<open>
  An event for a node and the abstract cache it acts on: the type and schedulability of the
  last update of every name that was not removed since.
\<close>

datatype node_event = NodeUpdated time node | NodeRemoved string

fun cache_step :: "(node \<Rightarrow> NodeType) \<Rightarrow> ClassificationCache \<Rightarrow> node_event \<Rightarrow> ClassificationCache" where
  "cache_step classify nc (NodeUpdated now nd) = cc_UpdateNode now classify nd nc"
| "cache_step classify nc (NodeRemoved n) = cc_RemoveNode n nc"

fun spec_step :: "(node \<Rightarrow> NodeType) \<Rightarrow> (string \<rightharpoonup> NodeType \<times> bool) \<Rightarrow> node_event \<Rightarrow> (string \<rightharpoonup> NodeType \<times> bool)" where
  "spec_step classify m (NodeUpdated now nd) = m(node_Name nd \<mapsto> (classify nd, \<not> node_Unschedulable nd))"
| "spec_step classify m (NodeRemoved n) = m(n := None)"

definition wf_cache :: "ClassificationCache \<Rightarrow> bool" where
  "wf_cache nc \<longleftrightarrow> distinct (map fst (cc_Classifications nc)) \<and>
     (\<forall>(k, c)\<in>set (cc_Classifications nc). nc_NodeName c = k \<and> nc_NodeType c \<noteq> None)"

definition cache_abs :: "ClassificationCache \<Rightarrow> (string \<rightharpoonup> NodeType \<times> bool)" where
  "cache_abs nc n = map_option (\<lambda>c. (the (nc_NodeType c), nc_Schedulable c)) (map_of (cc_Classifications nc) n)"

lemma nc_Update_simps [simp]:
  "nc_NodeName (nc_Update now f nd c) = nc_NodeName c"
  "nc_NodeType (nc_Update now f nd c) = Some (f nd)"
  "nc_Schedulable (nc_Update now f nd c) = (\<not> node_Unschedulable nd)"
  by (auto simp: nc_Update_def Let_def split: option.splits)

lemma wf_cache_lookup:
  assumes "wf_cache nc" and "map_of (cc_Classifications nc) n = Some c"
  shows "nc_NodeName c = n" and "nc_NodeType c \<noteq> None"
  using assms map_of_SomeD [OF assms(2)] by (auto simp: wf_cache_def)

lemma set_update_alist: "(k', v') \<in> set (AList.update k v al) \<Longrightarrow> (k' = k \<and> v' = v) \<or> (k', v') \<in> set al"
  by (induction al) (auto split: if_splits)

lemma wf_cache_update:
  assumes "wf_cache nc"
  shows "wf_cache (cc_UpdateNode now f nd nc)"
proof -
  define c where "c = (case map_of (cc_Classifications nc) (node_Name nd) of
      None \<Rightarrow> new_classification (node_Name nd) | Some c \<Rightarrow> c)"
  have "nc_NodeName c = node_Name nd"
    using wf_cache_lookup(1) [OF assms] by (auto simp: c_def new_classification_def split: option.splits)
  then show ?thesis
    using assms by (auto simp: wf_cache_def cc_UpdateNode_def c_def [symmetric] Let_def distinct_update
        dest!: set_update_alist)
qed

lemma wf_cache_remove: "wf_cache nc \<Longrightarrow> wf_cache (cc_RemoveNode n nc)"
  by (auto simp: wf_cache_def cc_RemoveNode_def AList.delete_eq intro: distinct_map_filter)

lemma wf_cache_step: "wf_cache nc \<Longrightarrow> wf_cache (cache_step f nc e)"
  by (cases e) (simp_all add: wf_cache_update wf_cache_remove)

lemma cache_abs_step: "cache_abs (cache_step f nc e) = spec_step f (cache_abs nc) e"
  by (cases e) (auto simp: cache_abs_def cc_UpdateNode_def cc_RemoveNode_def Let_def fun_eq_iff update_conv'
      delete_conv' split: option.splits)

lemma cache_run:
  "wf_cache nc \<Longrightarrow> wf_cache (foldl (cache_step f) nc es) \<and>
     cache_abs (foldl (cache_step f) nc es) = foldl (spec_step f) (cache_abs nc) es"
  by (induction es arbitrary: nc) (simp_all add: wf_cache_step cache_abs_step)

lemma names_with:
  assumes "wf_cache nc"
  shows "set (map nc_NodeName (filter P (map snd (cc_Classifications nc)))) =
    {n. \<exists>c. map_of (cc_Classifications nc) n = Some c \<and> P c}" (is "?L = ?R")
proof
  have d: "distinct (map fst (cc_Classifications nc))" using assms by (simp add: wf_cache_def)
  show "?L \<subseteq> ?R"
  proof
    fix n
    assume "n \<in> ?L"
    then obtain k c where kc: "(k, c) \<in> set (cc_Classifications nc)" "P c" "n = nc_NodeName c" by auto
    then have "nc_NodeName c = k" using assms by (auto simp: wf_cache_def)
    with kc d show "n \<in> ?R" by (auto simp: map_of_eq_Some_iff)
  qed
  show "?R \<subseteq> ?L"
  proof
    fix n
    assume "n \<in> ?R"
    then obtain c where c: "map_of (cc_Classifications nc) n = Some c" "P c" by blast
    then have "nc_NodeName c = n" using wf_cache_lookup [OF assms] by blast
    with map_of_SomeD [OF c(1)] c(2) show "n \<in> ?L" by force
  qed
qed

lemma spot_nodes_abs:
  assumes "wf_cache nc"
  shows "set (cc_GetSpotNodes nc) = {n. cache_abs nc n = Some (NodeTypeSpot, True)}"
    and "set (cc_GetOnDemandNodes nc) = {n. cache_abs nc n = Some (NodeTypeOnDemand, True)}"
    and "distinct (cc_GetSpotNodes nc)"
proof -
  have d: "distinct (map fst (cc_Classifications nc))" using assms by (simp add: wf_cache_def)
  have abs: "cache_abs nc n = Some (t, b) \<longleftrightarrow>
      (\<exists>c. map_of (cc_Classifications nc) n = Some c \<and> nc_NodeType c = Some t \<and> nc_Schedulable c = b)" for n t b
    using wf_cache_lookup(2) [OF assms, of n] by (auto simp: cache_abs_def)
  show "set (cc_GetSpotNodes nc) = {n. cache_abs nc n = Some (NodeTypeSpot, True)}"
    unfolding cc_GetSpotNodes_def names_with [OF assms] abs by (simp add: nc_IsSpot_def nc_IsReady_def)
  show "set (cc_GetOnDemandNodes nc) = {n. cache_abs nc n = Some (NodeTypeOnDemand, True)}"
    unfolding cc_GetOnDemandNodes_def names_with [OF assms] abs by (simp add: nc_IsOnDemand_def nc_IsReady_def)
  have "map nc_NodeName (map snd (cc_Classifications nc)) = map fst (cc_Classifications nc)"
    using assms by (auto simp: wf_cache_def)
  then have "distinct (map nc_NodeName (map snd (cc_Classifications nc)))" using d by (simp only:)
  then show "distinct (cc_GetSpotNodes nc)"
    unfolding cc_GetSpotNodes_def by (rule distinct_map_filter)
qed

definition cache_after :: "(node \<Rightarrow> NodeType) \<Rightarrow> node_event list \<Rightarrow> ClassificationCache" where
  "cache_after classify es = foldl (cache_step classify) NewNodeCache es"

definition spec_after :: "(node \<Rightarrow> NodeType) \<Rightarrow> node_event list \<Rightarrow> (string \<rightharpoonup> NodeType \<times> bool)" where
  "spec_after classify es = foldl (spec_step classify) Map.empty es"

section \<open>Properties\<close>

text \<open>C37: After any history of node updates and removals the cache holds, for every node, the
  type and schedulability of its last update unless it was removed since; the spot and the
  on-demand lists are exactly the schedulable nodes of their type, each once, and a node the
  cache does not know is of unknown type.\<close>

theorem node_cache_history:
  "cc_GetNodeType (cache_after f es) n = Some (case spec_after f es n of None \<Rightarrow> NodeTypeUnknown | Some (t, _) \<Rightarrow> t) \<and>
   set (cc_GetSpotNodes (cache_after f es)) = {n. spec_after f es n = Some (NodeTypeSpot, True)} \<and>
   set (cc_GetOnDemandNodes (cache_after f es)) = {n. spec_after f es n = Some (NodeTypeOnDemand, True)} \<and>
   distinct (cc_GetSpotNodes (cache_after f es))"
proof -
  have wf0: "wf_cache NewNodeCache" by (simp add: wf_cache_def NewNodeCache_def)
  have "cache_abs NewNodeCache = Map.empty" by (simp add: cache_abs_def NewNodeCache_def fun_eq_iff)
  with cache_run [OF wf0, of f es] have wf: "wf_cache (cache_after f es)"
    and abs: "cache_abs (cache_after f es) = spec_after f es"
    by (simp_all add: cache_after_def spec_after_def)
  have "cc_GetNodeType (cache_after f es) n =
      Some (case cache_abs (cache_after f es) n of None \<Rightarrow> NodeTypeUnknown | Some (t, _) \<Rightarrow> t)"
    using wf_cache_lookup(2) [OF wf, of n]
    by (auto simp: cc_GetNodeType_def cache_abs_def split: option.splits)
  with spot_nodes_abs [OF wf] show ?thesis by (simp add: abs)
qed

end
