(* ===== verification/Observation.thy ===== *)
theory Observation
  imports Node_Classification
begin

text \<open>
  \<^verbatim>\<open>pkg/observation/workload.go\<close>: the ownership-verified snapshot of a workload's
  pods, with the lifecycle and the proven capacity of each. The node classifier is an
  interface (\<open>node_classifier\<close>), whose state is threaded through the observation.
\<close>

datatype Lifecycle =
    LifecycleTerminal
  | LifecycleTerminating
  | LifecyclePendingUnscheduled
  | LifecycleScheduledNotReady
  | LifecycleReady

datatype PlacementIntent = PlacementIntentUnknown | PlacementIntentSpot | PlacementIntentOnDemand

record ObservedPod =
  op_Pod :: pod
  op_Lifecycle :: Lifecycle
  op_Capacity :: NodeType
  op_PlacementIntent :: PlacementIntent

record Snapshot =
  sn_WorkloadRef :: ObjectReference
  sn_Generation :: int
  sn_ObservedAt :: time
  sn_PodResourceVersion :: string
  sn_Pods :: "ObservedPod list"
  sn_ClassificationError :: "go_error option"

definition IsFresh :: "Snapshot option \<Rightarrow> time \<Rightarrow> duration \<Rightarrow> bool" where
  "IsFresh s now maxAge \<longleftrightarrow>
     (case s of None \<Rightarrow> False
      | Some s \<Rightarrow> \<not> IsZero (sn_ObservedAt s) \<and> time_sub now (sn_ObservedAt s) \<le> maxAge)"

definition count_pod :: "int \<times> int \<Rightarrow> ObservedPod \<Rightarrow> int \<times> int" where
  "count_pod = (\<lambda>(spot, onDemand) p.
     if op_Lifecycle p = LifecycleTerminal \<or> op_Lifecycle p = LifecycleTerminating then (spot, onDemand)
     else case op_Capacity p of
       NodeTypeSpot \<Rightarrow> (i32 (spot + 1), onDemand)
     | NodeTypeOnDemand \<Rightarrow> (spot, i32 (onDemand + 1))
     | NodeTypeUnknown \<Rightarrow> (spot, onDemand))"

definition ActualCounts :: "Snapshot \<Rightarrow> int \<times> int" where
  "ActualCounts s = foldl count_pod (0, 0) (sn_Pods s)"

definition add_eligible :: "pod list \<times> pod list \<Rightarrow> ObservedPod \<Rightarrow> pod list \<times> pod list" where
  "add_eligible = (\<lambda>(spot, onDemand) p.
     if op_Lifecycle p \<noteq> LifecycleReady then (spot, onDemand)
     else case op_Capacity p of
       NodeTypeSpot \<Rightarrow> (spot @ [op_Pod p], onDemand)
     | NodeTypeOnDemand \<Rightarrow> (spot, onDemand @ [op_Pod p])
     | NodeTypeUnknown \<Rightarrow> (spot, onDemand))"

definition EligiblePods :: "Snapshot \<Rightarrow> pod list \<times> pod list" where
  "EligiblePods s = foldl add_eligible ([], []) (sn_Pods s)"

section \<open>Reading one pod\<close>

definition isTerminal :: "pod \<Rightarrow> bool" where
  "isTerminal p \<longleftrightarrow> pod_Phase p = PodSucceeded \<or> pod_Phase p = PodFailed"

definition isReady :: "pod \<Rightarrow> bool" where
  "isReady p \<longleftrightarrow> condition_true ReadyCondition (pod_Conditions p)"

definition lifecycleFor :: "pod \<Rightarrow> Lifecycle" where
  "lifecycleFor p =
     (if isTerminal p then LifecycleTerminal
      else if pod_DeletionTimestamp p \<noteq> None then LifecycleTerminating
      else if pod_NodeName p = [] \<and> pod_Phase p = PodPending then LifecyclePendingUnscheduled
      else if isReady p then LifecycleReady
      else LifecycleScheduledNotReady)"

definition capacityFor :: "pod \<Rightarrow> (string \<rightharpoonup> NodeType) \<Rightarrow> NodeType" where
  "capacityFor p classifications =
     (if pod_NodeName p = [] \<or> pod_DeletionTimestamp p \<noteq> None \<or> isTerminal p then NodeTypeUnknown
      else case classifications (pod_NodeName p) of Some capacity \<Rightarrow> capacity | None \<Rightarrow> NodeTypeUnknown)"

definition intentFor :: "pod \<Rightarrow> PlacementIntent" where
  "intentFor p =
     (let value = map_index (pod_NodeSelector p) CapacityTypeLabel
      in if value = NodeType_string NodeTypeSpot then PlacementIntentSpot
         else if value = NodeType_string NodeTypeOnDemand then PlacementIntentOnDemand
         else PlacementIntentUnknown)"

definition controllerOwnerUID :: "owner_reference list \<Rightarrow> string" where
  "controllerOwnerUID owners =
     (case find (\<lambda>owner. or_Controller owner = Some True) owners of None \<Rightarrow> [] | Some owner \<Rightarrow> or_UID owner)"

definition IndexPodControllerOwnerUID :: "owner_reference list \<Rightarrow> string list" where
  "IndexPodControllerOwnerUID owners = (let uid = controllerOwnerUID owners in if uid = [] then [] else [uid])"

definition IndexReplicaSetControllerOwnerUID :: "owner_reference list \<Rightarrow> string list" where
  "IndexReplicaSetControllerOwnerUID owners = IndexPodControllerOwnerUID owners"

section \<open>Reading a workload\<close>

text \<open>A \<^verbatim>\<open>client.Object\<close>: the two supported types, or another one with its group version and kind.\<close>

datatype workload_object =
    Deployment deployment
  | StatefulSet statefulset
  | OtherObject string string

definition selectorFor :: "as_selector \<Rightarrow> workload_object \<Rightarrow> go_error + (string_map option \<Rightarrow> bool)" where
  "selectorFor as_sel w =
     (case w of
        Deployment d \<Rightarrow>
          (case wl_Selector d of None \<Rightarrow> Inl (Errorf ''deployment has no selector'') | Some s \<Rightarrow> as_sel s)
      | StatefulSet d \<Rightarrow>
          (case wl_Selector d of None \<Rightarrow> Inl (Errorf ''StatefulSet has no selector'') | Some s \<Rightarrow> as_sel s)
      | OtherObject gv kind \<Rightarrow> Inl (Errorf ''unsupported workload type''))"

definition workloadIdentity :: "workload_object \<Rightarrow> string \<times> string" where
  "workloadIdentity w =
     (case w of
        Deployment d \<Rightarrow> (''apps/v1'', ''Deployment'')
      | StatefulSet d \<Rightarrow> (''apps/v1'', ''StatefulSet'')
      | OtherObject gv kind \<Rightarrow> (gv, kind))"

definition matchingPods :: "(string_map option \<Rightarrow> bool) \<Rightarrow> pod list \<Rightarrow> pod list" where
  "matchingPods selector pods = filter (\<lambda>p. selector (pod_Labels p)) pods"

definition statefulSetPods ::
  "k8s_client \<Rightarrow> statefulset \<Rightarrow> (string_map option \<Rightarrow> bool) \<Rightarrow> go_error + pod list" where
  "statefulSetPods c sts selector =
     (case cl_ListOwnedPods c (wl_Namespace sts) (wl_UID sts) of
        Inl err \<Rightarrow> Inl (Wrapped ''list StatefulSet pods'' err)
      | Inr items \<Rightarrow> Inr (matchingPods selector items))"

fun replicaSetsPods ::
  "k8s_client \<Rightarrow> string \<Rightarrow> (string_map option \<Rightarrow> bool) \<Rightarrow> pod list \<Rightarrow> replica_set list \<Rightarrow> go_error + pod list" where
  "replicaSetsPods c ns selector result [] = Inr result"
| "replicaSetsPods c ns selector result (rs # rest) =
     (case cl_ListOwnedPods c ns (rset_UID rs) of
        Inl err \<Rightarrow> Inl (Wrapped ''list ReplicaSet pods'' err)
      | Inr items \<Rightarrow> replicaSetsPods c ns selector (result @ matchingPods selector items) rest)"

definition deploymentPods ::
  "k8s_client \<Rightarrow> deployment \<Rightarrow> (string_map option \<Rightarrow> bool) \<Rightarrow> go_error + pod list" where
  "deploymentPods c d selector =
     (case cl_ListOwnedReplicaSets c (wl_Namespace d) (wl_UID d) of
        Inl err \<Rightarrow> Inl (Wrapped ''list Deployment ReplicaSets'' err)
      | Inr replicaSets \<Rightarrow> replicaSetsPods c (wl_Namespace d) selector [] replicaSets)"

definition workload_meta :: "workload_object \<Rightarrow> string \<times> string \<times> string \<times> int" where
  "workload_meta w =
     (case w of
        Deployment d \<Rightarrow> (wl_Namespace d, wl_Name d, wl_UID d, wl_Generation d)
      | StatefulSet d \<Rightarrow> (wl_Namespace d, wl_Name d, wl_UID d, wl_Generation d)
      | OtherObject gv kind \<Rightarrow> ([], [], [], 0))"

definition observed_pods :: "as_selector \<Rightarrow> k8s_client \<Rightarrow> workload_object \<Rightarrow> go_error + pod list" where
  "observed_pods as_sel c w =
     (case selectorFor as_sel w of
        Inl err \<Rightarrow> Inl err
      | Inr selector \<Rightarrow>
         (case w of
            Deployment d \<Rightarrow> deploymentPods c d selector
          | StatefulSet d \<Rightarrow> statefulSetPods c d selector
          | OtherObject gv kind \<Rightarrow> Inl (Errorf ''unsupported workload type'')))"

definition assigned_nodes :: "pod list \<Rightarrow> string list" where
  "assigned_nodes pods =
     map pod_NodeName (filter (\<lambda>p. pod_NodeName p \<noteq> [] \<and> pod_DeletionTimestamp p = None \<and> \<not> isTerminal p) pods)"

type_synonym 'c classifier = "'c \<Rightarrow> string list \<Rightarrow> (go_error + (string \<rightharpoonup> NodeType)) \<times> 'c"

definition observe_pod :: "(string \<rightharpoonup> NodeType) \<Rightarrow> pod \<Rightarrow> ObservedPod" where
  "observe_pod classifications p =
     \<lparr>op_Pod = p, op_Lifecycle = lifecycleFor p, op_Capacity = capacityFor p classifications,
      op_PlacementIntent = intentFor p\<rparr>"

text \<open>
  \<^verbatim>\<open>Service.Observe\<close>: the classifier is optional (\<open>None\<close> is nil); an error of
  the classifier is recorded in the snapshot and leaves every capacity unknown.
\<close>

definition Observe ::
  "as_selector \<Rightarrow> k8s_client \<Rightarrow> 'c classifier option \<Rightarrow> time \<Rightarrow> workload_object \<Rightarrow> 'c \<Rightarrow>
   (go_error + Snapshot) \<times> 'c" where
  "Observe as_sel c classifier now w st =
     (case observed_pods as_sel c w of
        Inl err \<Rightarrow> (Inl err, st)
      | Inr pods \<Rightarrow>
         (case (workloadIdentity w, workload_meta w) of
            ((apiVersion, kind), (ns, name, uid, generation)) \<Rightarrow>
              (let nodeNames = assigned_nodes pods;
                   (classified, st') =
                     (case classifier of
                        None \<Rightarrow> (Inr Map.empty, st)
                      | Some classify \<Rightarrow>
                          if nodeNames = [] then (Inr Map.empty, st) else classify st nodeNames);
                   classifications = (case classified of Inl err \<Rightarrow> Map.empty | Inr m \<Rightarrow> m);
                   failure = (case classified of Inl err \<Rightarrow> Some err | Inr m \<Rightarrow> None)
               in (Inr \<lparr>sn_WorkloadRef = \<lparr>ref_APIVersion = apiVersion, ref_Kind = kind,
                          ref_Namespace = ns, ref_Name = name, ref_UID = uid\<rparr>,
                        sn_Generation = generation, sn_ObservedAt = now, sn_PodResourceVersion = [],
                        sn_Pods = map (observe_pod classifications) pods,
                        sn_ClassificationError = failure\<rparr>, st'))))"

section \<open>What a snapshot proves\<close>

definition counted :: "NodeType \<Rightarrow> ObservedPod \<Rightarrow> bool" where
  "counted t p \<longleftrightarrow> op_Lifecycle p \<noteq> LifecycleTerminal \<and> op_Lifecycle p \<noteq> LifecycleTerminating \<and> op_Capacity p = t"

definition eligible :: "NodeType \<Rightarrow> ObservedPod \<Rightarrow> bool" where
  "eligible t p \<longleftrightarrow> op_Lifecycle p = LifecycleReady \<and> op_Capacity p = t"

lemma eligible_counted: "eligible t p \<Longrightarrow> counted t p"
  by (simp add: eligible_def counted_def)

lemma foldl_count_pod:
  assumes "0 \<le> s" "0 \<le> d" "in_i32 (s + int (length ps))" "in_i32 (d + int (length ps))"
  shows "foldl count_pod (s, d) ps =
    (s + int (length (filter (counted NodeTypeSpot) ps)), d + int (length (filter (counted NodeTypeOnDemand) ps)))"
  using assms
proof (induction ps arbitrary: s d)
  case (Cons p ps)
  have r: "in_i32 (s + 1)" "in_i32 (d + 1)" "in_i32 (s + int (length ps))" "in_i32 (d + int (length ps))"
    "in_i32 (s + 1 + int (length ps))" "in_i32 (d + 1 + int (length ps))"
    using Cons.prems by (auto simp: in_i32_def)
  note ih = Cons.IH [of s d] Cons.IH [of "s + 1" d] Cons.IH [of s "d + 1"]
  show ?case using ih r Cons.prems(1,2)
    by (cases "op_Capacity p") (auto simp: count_pod_def counted_def i32_id)
qed simp

lemma ActualCounts_eq:
  assumes "in_i32 (int (length (sn_Pods s)))"
  shows "ActualCounts s =
    (int (length (filter (counted NodeTypeSpot) (sn_Pods s))), int (length (filter (counted NodeTypeOnDemand) (sn_Pods s))))"
  unfolding ActualCounts_def using foldl_count_pod [of 0 0 "sn_Pods s"] assms by simp

lemma foldl_add_eligible:
  "foldl add_eligible (a, b) ps =
    (a @ map op_Pod (filter (eligible NodeTypeSpot) ps), b @ map op_Pod (filter (eligible NodeTypeOnDemand) ps))"
proof (induction ps arbitrary: a b)
  case (Cons p ps)
  then show ?case by (cases "op_Capacity p") (auto simp: add_eligible_def eligible_def)
qed simp

lemma EligiblePods_eq:
  "EligiblePods s =
    (map op_Pod (filter (eligible NodeTypeSpot) (sn_Pods s)), map op_Pod (filter (eligible NodeTypeOnDemand) (sn_Pods s)))"
  by (simp add: EligiblePods_def foldl_add_eligible)

lemma length_filter_mono: "(\<And>x. x \<in> set xs \<Longrightarrow> P x \<Longrightarrow> Q x) \<Longrightarrow> length (filter P xs) \<le> length (filter Q xs)"
  by (induction xs) auto

lemma eligible_le_actual:
  assumes "in_i32 (int (length (sn_Pods s)))"
  shows "int (length (fst (EligiblePods s))) \<le> fst (ActualCounts s)"
    and "int (length (snd (EligiblePods s))) \<le> snd (ActualCounts s)"
  using length_filter_mono [of "sn_Pods s" "eligible NodeTypeSpot" "counted NodeTypeSpot"]
    length_filter_mono [of "sn_Pods s" "eligible NodeTypeOnDemand" "counted NodeTypeOnDemand"]
  by (simp_all add: EligiblePods_eq ActualCounts_eq [OF assms] eligible_counted)

lemma length_filter_disjoint:
  "(\<And>x. \<not> (P x \<and> Q x)) \<Longrightarrow> length (filter P xs) + length (filter Q xs) \<le> length xs"
proof (induction xs)
  case (Cons a xs)
  then show ?case using Cons.prems [of a] by auto
qed simp

lemma ActualCounts_bounds:
  assumes "in_i32 (int (length (sn_Pods s)))"
  shows "0 \<le> fst (ActualCounts s)" "0 \<le> snd (ActualCounts s)"
    "fst (ActualCounts s) + snd (ActualCounts s) \<le> int (length (sn_Pods s))"
  using length_filter_disjoint [of "counted NodeTypeSpot" "counted NodeTypeOnDemand" "sn_Pods s"]
  by (auto simp: ActualCounts_eq [OF assms] counted_def)

lemma ActualCounts_unknown:
  assumes "\<forall>p\<in>set (sn_Pods s). op_Capacity p = NodeTypeUnknown"
  shows "ActualCounts s = (0, 0)" and "EligiblePods s = ([], [])"
proof -
  have "foldl count_pod (0, 0) ps = (0, 0)" if "\<forall>p\<in>set ps. op_Capacity p = NodeTypeUnknown" for ps
    using that by (induction ps) (auto simp: count_pod_def)
  with assms show "ActualCounts s = (0, 0)" by (simp add: ActualCounts_def)
  have none: "filter (eligible t) (sn_Pods s) = []" if "t \<noteq> NodeTypeUnknown" for t
    using assms that by (auto simp: filter_empty_conv eligible_def)
  show "EligiblePods s = ([], [])"
    by (simp add: EligiblePods_eq none)
qed

lemma observe_pod_simps [simp]:
  "op_Pod (observe_pod m p) = p" "op_Lifecycle (observe_pod m p) = lifecycleFor p"
  "op_Capacity (observe_pod m p) = capacityFor p m"
  by (simp_all add: observe_pod_def)

lemma Observe_InrE:
  assumes "Observe as_sel c classifier now w st = (Inr s, st')"
  obtains pods m where "observed_pods as_sel c w = Inr pods" "sn_Pods s = map (observe_pod m) pods"
    "sn_ObservedAt s = now" "sn_PodResourceVersion s = []"
    "sn_ClassificationError s \<noteq> None \<Longrightarrow> m = Map.empty"
    "classifier = None \<or> assigned_nodes pods = [] \<Longrightarrow> m = Map.empty \<and> st' = st"
    "\<And>f. classifier = Some f \<Longrightarrow> assigned_nodes pods \<noteq> [] \<Longrightarrow>
      (case sn_ClassificationError s of None \<Rightarrow> f st (assigned_nodes pods) = (Inr m, st')
       | Some e \<Rightarrow> f st (assigned_nodes pods) = (Inl e, st'))"
proof -
  from assms obtain pods where p: "observed_pods as_sel c w = Inr pods"
    by (auto simp: Observe_def split: sum.splits)
  show thesis
  proof (cases "classifier = None \<or> assigned_nodes pods = []")
    case True
    with assms p show thesis
      by (intro that [of pods Map.empty]) (auto simp: Observe_def Let_def split: option.splits prod.splits)
  next
    case False
    then obtain f where f: "classifier = Some f" "assigned_nodes pods \<noteq> []" by auto
    obtain r st1 where r: "f st (assigned_nodes pods) = (r, st1)" by fastforce
    from assms p f r show thesis
      by (intro that [of pods "case r of Inl err \<Rightarrow> Map.empty | Inr m \<Rightarrow> m"])
        (auto simp: Observe_def Let_def split: sum.splits prod.splits)
  qed
qed

lemma Observe_unclassified:
  assumes "Observe as_sel c classifier now w st = (Inr s, st')"
    and "sn_ClassificationError s \<noteq> None \<or> classifier = None"
  shows "ActualCounts s = (0, 0)" and "EligiblePods s = ([], [])"
proof -
  from assms(1) obtain pods m where s: "sn_Pods s = map (observe_pod m) pods"
    and m: "sn_ClassificationError s \<noteq> None \<Longrightarrow> m = Map.empty" "classifier = None \<Longrightarrow> m = Map.empty"
    by (rule Observe_InrE) blast
  from assms(2) m have "m = Map.empty" by blast
  then have "\<forall>p\<in>set (sn_Pods s). op_Capacity p = NodeTypeUnknown"
    by (auto simp: s capacityFor_def)
  then show "ActualCounts s = (0, 0)" and "EligiblePods s = ([], [])"
    by (rule ActualCounts_unknown)+
qed

lemma Observe_eligible:
  assumes "Observe as_sel c classifier now w st = (Inr s, st')"
    and "p \<in> set (fst (EligiblePods s)) \<union> set (snd (EligiblePods s))"
  shows "isReady p" "\<not> isTerminal p" "pod_DeletionTimestamp p = None" "pod_NodeName p \<noteq> []"
    "\<exists>pods. observed_pods as_sel c w = Inr pods \<and> p \<in> set pods"
proof -
  from assms(1) obtain pods m where pods: "observed_pods as_sel c w = Inr pods" "sn_Pods s = map (observe_pod m) pods"
    by (rule Observe_InrE) blast
  with assms(2) obtain t where p: "p \<in> set pods" "lifecycleFor p = LifecycleReady" "capacityFor p m = t"
      "t \<noteq> NodeTypeUnknown"
    by (auto simp: EligiblePods_eq eligible_def)
  then show "isReady p" "\<not> isTerminal p" "pod_DeletionTimestamp p = None" "pod_NodeName p \<noteq> []"
    "\<exists>pods. observed_pods as_sel c w = Inr pods \<and> p \<in> set pods"
    using pods(1) by (auto simp: lifecycleFor_def capacityFor_def split: if_splits)
qed

section \<open>The classifier interface\<close>

text \<open>
  What the observation relies on: a successful answer covers exactly the non-empty names it
  was asked for. Then no capacity of an assigned pod is a default: each one is the
  classifier's answer for the pod's node.
\<close>

locale node_classifier =
  fixes classify :: "'c classifier"
  assumes classify_total: "classify st names = (Inr m, st') \<Longrightarrow> n \<in> set names \<Longrightarrow> n \<noteq> [] \<Longrightarrow> m n \<noteq> None"
    and classify_only: "classify st names = (Inr m, st') \<Longrightarrow> m n \<noteq> None \<Longrightarrow> n \<in> set names \<and> n \<noteq> []"
begin

lemma assigned_capacity:
  assumes "Observe as_sel c (Some classify) now w st = (Inr s, st')" and "sn_ClassificationError s = None"
    and "observed_pods as_sel c w = Inr pods" and "assigned_nodes pods \<noteq> []"
  obtains m where "classify st (assigned_nodes pods) = (Inr m, st')"
    "\<And>p. p \<in> set pods \<Longrightarrow> pod_NodeName p \<in> set (assigned_nodes pods) \<Longrightarrow> m (pod_NodeName p) \<noteq> None"
    "\<And>p. p \<in> set (sn_Pods s) \<Longrightarrow> pod_NodeName (op_Pod p) \<noteq> [] \<Longrightarrow> pod_DeletionTimestamp (op_Pod p) = None \<Longrightarrow>
      \<not> isTerminal (op_Pod p) \<Longrightarrow> m (pod_NodeName (op_Pod p)) = Some (op_Capacity p)"
proof -
  from assms(1) obtain pods' m where pods': "observed_pods as_sel c w = Inr pods'"
      and s: "sn_Pods s = map (observe_pod m) pods'"
      and cl: "assigned_nodes pods' \<noteq> [] \<Longrightarrow> (case sn_ClassificationError s of None \<Rightarrow> classify st (assigned_nodes pods') = (Inr m, st')
       | Some e \<Rightarrow> classify st (assigned_nodes pods') = (Inl e, st'))"
    by (rule Observe_InrE) blast
  have [simp]: "pods' = pods" using pods' assms(3) by simp
  have cl: "classify st (assigned_nodes pods) = (Inr m, st')" using cl assms(2,4) by simp
  have nonempty: "n \<noteq> []" if "n \<in> set (assigned_nodes pods)" for n
    using that by (auto simp: assigned_nodes_def)
  have dom: "m n \<noteq> None" if "n \<in> set (assigned_nodes pods)" for n
    using classify_total [OF cl that] nonempty [OF that] by blast
  show thesis
  proof (rule that [OF cl])
    fix p
    assume "p \<in> set (sn_Pods s)" and a: "pod_NodeName (op_Pod p) \<noteq> []" "pod_DeletionTimestamp (op_Pod p) = None"
      "\<not> isTerminal (op_Pod p)"
    then obtain q where q: "q \<in> set pods" "p = observe_pod m q" by (auto simp: s)
    with a have "pod_NodeName q \<in> set (assigned_nodes pods)" by (auto simp: assigned_nodes_def)
    from dom [OF this] a q show "m (pod_NodeName (op_Pod p)) = Some (op_Capacity p)"
      by (auto simp: capacityFor_def split: option.splits)
  qed (use dom in blast)
qed

lemma unassigned_not_classified:
  assumes "classify st names = (Inr m, st')" and "n \<notin> set names"
  shows "m n = None"
  using classify_only [OF assms(1), of n] assms(2) by blast

end

section \<open>Properties\<close>

text \<open>C19: The pods a snapshot offers for disruption are Ready, running and assigned pods of the
  workload, and there are never more of them in a class than the actual count of that class,
  so evicting the excess of the eligible pods over a target never goes below the target.\<close>

theorem eligible_pods_safe:
  assumes "Observe as_sel c classifier now w st = (Inr s, st')" and "in_i32 (int (length (sn_Pods s)))"
  shows "int (length (fst (EligiblePods s))) \<le> fst (ActualCounts s) \<and>
    int (length (snd (EligiblePods s))) \<le> snd (ActualCounts s) \<and>
    (\<forall>p\<in>set (fst (EligiblePods s)) \<union> set (snd (EligiblePods s)).
       isReady p \<and> \<not> isTerminal p \<and> pod_DeletionTimestamp p = None \<and> pod_NodeName p \<noteq> [] \<and>
       (\<exists>pods. observed_pods as_sel c w = Inr pods \<and> p \<in> set pods))"
  using eligible_le_actual [OF assms(2)] Observe_eligible [OF assms(1)] by blast

definition sample_workload :: workload where
  "sample_workload = \<lparr>wl_APIVersion = ''apps/v1'', wl_Kind = ''StatefulSet'', wl_Name = ''web'', wl_Namespace = ''shop'',
     wl_UID = ''u1'', wl_Generation = 1, wl_Object = sample_object ''true'', wl_Replicas = Some 3,
     wl_Selector = Some \<lparr>ls_MatchLabels = [], ls_MatchExpressions = []\<rparr>, wl_StatusReplicas = 3,
     wl_ReadyReplicas = 3, wl_UpdatedReplicas = 3\<rparr>"

definition sample_statefulset :: statefulset where
  "sample_statefulset = workload.extend sample_workload
     (statefulset.fields 3 [] None [])"

definition sample_cluster :: k8s_client where
  "sample_cluster = empty_cluster\<lparr>cl_ListOwnedPods :=
     \<lambda>_ _. Inr [sample_pod ''web-0'' ''n0'', sample_pod ''web-1'' ''n1'', sample_pod ''web-2'' ''n2'']\<rparr>"

definition sample_classifier :: "unit classifier" where
  "sample_classifier st names =
     (Inr (\<lambda>n. if n \<in> set names then Some (if n = ''n0'' then NodeTypeOnDemand else NodeTypeSpot) else None), ())"

theorem eligible_pods_safe_witness:
  "\<exists>s. Observe match_labels sample_cluster (Some sample_classifier) 9 (StatefulSet sample_statefulset) () = (Inr s, ()) \<and>
     ActualCounts s = (2, 1) \<and> int (length (fst (EligiblePods s))) \<le> fst (ActualCounts s)"
proof -
  let ?o = "Observe match_labels sample_cluster (Some sample_classifier) 9 (StatefulSet sample_statefulset) ()"
  define s where "s = (case fst ?o of Inr s \<Rightarrow> s | Inl _ \<Rightarrow> undefined)"
  note defs = sample_statefulset_def sample_workload_def sample_cluster_def sample_classifier_def sample_pod_def
    Observe_def observed_pods_def selectorFor_def statefulSetPods_def matchingPods_def workloadIdentity_def
    workload_meta_def assigned_nodes_def isTerminal_def match_labels_def Let_def workload.defs statefulset.defs
    phase_defs
  have o: "?o = (Inr s, ())" by (simp add: s_def defs)
  have "length (sn_Pods s) = 3" by (simp add: s_def defs)
  then have "in_i32 (int (length (sn_Pods s)))" by (simp add: in_i32_def)
  from eligible_pods_safe [OF o this]
  have "int (length (fst (EligiblePods s))) \<le> fst (ActualCounts s)" by blast
  moreover have "ActualCounts s = (2, 1)"
    by (simp add: s_def defs ActualCounts_def count_pod_def observe_pod_def lifecycleFor_def capacityFor_def
        isReady_def i32_def)
  ultimately show ?thesis using o by blast
qed

text \<open>When the nodes cannot be classified, a snapshot counts no pod and offers none for
  disruption: a failing node API stops evictions instead of guessing.\<close>

theorem classification_failure_is_inert:
  assumes "Observe as_sel c classifier now w st = (Inr s, st')"
    and "sn_ClassificationError s \<noteq> None \<or> classifier = None"
  shows "ActualCounts s = (0, 0) \<and> EligiblePods s = ([], [])"
  using Observe_unclassified [OF assms] by blast

theorem classification_failure_is_inert_witness:
  "\<exists>s. Observe match_labels sample_cluster None 9 (StatefulSet sample_statefulset) () = (Inr s, ()) \<and>
     length (sn_Pods s) = 3 \<and> ActualCounts s = (0, 0)"
proof -
  let ?o = "Observe match_labels sample_cluster None 9 (StatefulSet sample_statefulset) ()"
  define s where "s = (case fst ?o of Inr s \<Rightarrow> s | Inl _ \<Rightarrow> undefined)"
  note defs = sample_statefulset_def sample_workload_def sample_cluster_def sample_pod_def
    Observe_def observed_pods_def selectorFor_def statefulSetPods_def matchingPods_def workloadIdentity_def
    workload_meta_def match_labels_def Let_def workload.defs statefulset.defs
  have o: "?o = (Inr s, ())" by (simp add: s_def defs)
  have "length (sn_Pods s) = 3" by (simp add: s_def defs)
  with o classification_failure_is_inert [OF o] show ?thesis by blast
qed

end
