(* ===== verification/Node_Classifier.thy ===== *)
theory Node_Classifier
  imports Observation "HOL-Library.Multiset"
begin

text \<open>
  \<^verbatim>\<open>internal/config/node_classifier.go\<close>: the service that classifies nodes by
  labels and provider hints, with its cache. The label maps of the configuration are iterated
  by the code, so they are association lists in the order of one iteration; the lemmas show
  that the order does not matter. The two node maps of the cache are association lists as
  well, the map of types is only looked up. The mutexes are not modelled: each operation is
  one step.
\<close>

definition labelCapacityType :: string where "labelCapacityType = ''karpenter.sh/capacity-type''"
definition labelInstanceType :: string where "labelInstanceType = ''node.kubernetes.io/instance-type''"
definition labelGKEPreemptible :: string where "labelGKEPreemptible = ''cloud.google.com/gke-preemptible''"
definition labelAzureScalesetPrio :: string where "labelAzureScalesetPrio = ''kubernetes.azure.com/scalesetpriority''"
definition cloudAWSCapacityType :: string where "cloudAWSCapacityType = ''eks.amazonaws.com/capacityType''"

lemmas label_keys = labelCapacityType_def labelInstanceType_def labelGKEPreemptible_def
  labelAzureScalesetPrio_def cloudAWSCapacityType_def

record NodeClassifierConfig =
  nk_SpotLabels :: "(string \<times> string) list"
  nk_OnDemandLabels :: "(string \<times> string) list"
  nk_CacheRefreshInterval :: duration
  nk_CloudProvider :: string

record NodeCache =
  nk_SpotNodes :: "(string \<times> node) list"
  nk_OnDemandNodes :: "(string \<times> node) list"
  nk_NodeTypes :: "string \<rightharpoonup> NodeType"
  nk_LastRefresh :: time

record NodeClassifierService =
  nk_config :: NodeClassifierConfig
  nk_cache :: NodeCache

definition getDefaultNodeClassifierConfig :: NodeClassifierConfig where
  "getDefaultNodeClassifierConfig =
     \<lparr>nk_SpotLabels = [(labelCapacityType, ''spot''), (cloudAWSCapacityType, ''SPOT''), (labelInstanceType, ''*''),
                       (labelGKEPreemptible, ''true''), (labelAzureScalesetPrio, ''spot'')],
      nk_OnDemandLabels = [(labelCapacityType, ''on-demand''), (cloudAWSCapacityType, ''ON_DEMAND''),
                           (labelAzureScalesetPrio, ''regular'')],
      nk_CacheRefreshInterval = 5 * Minute, nk_CloudProvider = ''auto''\<rparr>"

definition empty_node_cache :: NodeCache where
  "empty_node_cache = \<lparr>nk_SpotNodes = [], nk_OnDemandNodes = [], nk_NodeTypes = Map.empty, nk_LastRefresh = 0\<rparr>"

definition NewNodeClassifierService :: "NodeClassifierConfig option \<Rightarrow> NodeClassifierService" where
  "NewNodeClassifierService config =
     \<lparr>nk_config = (case config of None \<Rightarrow> getDefaultNodeClassifierConfig | Some c \<Rightarrow> c),
      nk_cache = empty_node_cache\<rparr>"

section \<open>Classifying one node\<close>

definition label_hit :: "string_map option \<Rightarrow> string \<times> string \<Rightarrow> bool" where
  "label_hit labels = (\<lambda>(label, expectedValue).
     case map_lookup labels label of
       None \<Rightarrow> False
     | Some nodeValue \<Rightarrow> expectedValue = ''*'' \<or> nodeValue = expectedValue)"

definition classify_aws :: "string_map option \<Rightarrow> NodeType option" where
  "classify_aws labels =
     (case map_lookup labels labelInstanceType of
        None \<Rightarrow> None
      | Some instanceType \<Rightarrow>
          if map_lookup labels cloudAWSCapacityType = Some ''SPOT'' then Some NodeTypeSpot
          else if map_lookup labels cloudAWSCapacityType = Some ''ON_DEMAND'' then Some NodeTypeOnDemand
          else if map_lookup labels labelCapacityType = Some ''spot'' then Some NodeTypeSpot
          else if map_lookup labels labelCapacityType = Some ''on-demand'' then Some NodeTypeOnDemand
          else if Contains (ToLower instanceType) ''spot'' then Some NodeTypeSpot
          else None)"

definition classifyByCloudProvider :: "node \<Rightarrow> NodeType" where
  "classifyByCloudProvider nd =
     (let labels = node_Labels nd
      in case classify_aws labels of
           Some t \<Rightarrow> t
         | None \<Rightarrow>
             if map_lookup labels labelGKEPreemptible \<noteq> None then NodeTypeSpot
             else if map_lookup labels labelAzureScalesetPrio = Some ''spot'' then NodeTypeSpot
             else if map_lookup labels labelAzureScalesetPrio = Some ''regular'' then NodeTypeOnDemand
             else NodeTypeUnknown)"

definition ClassifyNode :: "NodeClassifierConfig \<Rightarrow> node \<Rightarrow> NodeType" where
  "ClassifyNode config nd =
     (if list_ex (label_hit (node_Labels nd)) (nk_SpotLabels config) then NodeTypeSpot
      else if list_ex (label_hit (node_Labels nd)) (nk_OnDemandLabels config) then NodeTypeOnDemand
      else classifyByCloudProvider nd)"

section \<open>The cache\<close>

definition storeNodeClassification :: "node \<Rightarrow> NodeType \<Rightarrow> NodeCache \<Rightarrow> NodeCache" where
  "storeNodeClassification nd nodeType c =
     (if node_Name nd = [] then c
      else
        (let c = (case nodeType of
              NodeTypeSpot \<Rightarrow> c\<lparr>nk_SpotNodes := AList.update (node_Name nd) nd (nk_SpotNodes c),
                                nk_OnDemandNodes := AList.delete (node_Name nd) (nk_OnDemandNodes c)\<rparr>
            | NodeTypeOnDemand \<Rightarrow> c\<lparr>nk_OnDemandNodes := AList.update (node_Name nd) nd (nk_OnDemandNodes c),
                                    nk_SpotNodes := AList.delete (node_Name nd) (nk_SpotNodes c)\<rparr>
            | NodeTypeUnknown \<Rightarrow> c\<lparr>nk_SpotNodes := AList.delete (node_Name nd) (nk_SpotNodes c),
                                   nk_OnDemandNodes := AList.delete (node_Name nd) (nk_OnDemandNodes c)\<rparr>)
         in c\<lparr>nk_NodeTypes := (nk_NodeTypes c)(node_Name nd \<mapsto> nodeType)\<rparr>))"

definition store_classified :: "NodeClassifierConfig \<Rightarrow> NodeCache \<Rightarrow> node \<Rightarrow> NodeCache" where
  "store_classified config c nd = storeNodeClassification nd (ClassifyNode config nd) c"

text \<open>
  \<open>now1\<close> is the time of the freshness test, \<open>now2\<close> the one recorded after the
  refresh. A failing list leaves the cache as it was.
\<close>

definition RefreshCache ::
  "k8s_client \<Rightarrow> time \<Rightarrow> time \<Rightarrow> NodeClassifierService \<Rightarrow> go_error option \<times> NodeClassifierService" where
  "RefreshCache api now1 now2 n =
     (if time_sub now1 (nk_LastRefresh (nk_cache n)) < nk_CacheRefreshInterval (nk_config n) then (None, n)
      else case cl_ListNodes api of
        Inl err \<Rightarrow> (Some (Wrapped ''failed to list nodes'' err), n)
      | Inr items \<Rightarrow>
          (let cleared = (nk_cache n)\<lparr>nk_SpotNodes := [], nk_OnDemandNodes := [], nk_NodeTypes := Map.empty\<rparr>;
               filled = foldl (store_classified (nk_config n)) cleared items
           in (None, n\<lparr>nk_cache := filled\<lparr>nk_LastRefresh := now2\<rparr>\<rparr>)))"

definition GetNodesOfType ::
  "k8s_client \<Rightarrow> time \<Rightarrow> time \<Rightarrow> NodeType \<Rightarrow> NodeClassifierService \<Rightarrow> (go_error + node list) \<times> NodeClassifierService" where
  "GetNodesOfType api now1 now2 nodeType n =
     (case RefreshCache api now1 now2 n of
        (Some err, n) \<Rightarrow> (Inl (Wrapped ''failed to refresh node cache'' err), n)
      | (None, n) \<Rightarrow>
          (Inr (case nodeType of
                  NodeTypeSpot \<Rightarrow> map snd (nk_SpotNodes (nk_cache n))
                | NodeTypeOnDemand \<Rightarrow> map snd (nk_OnDemandNodes (nk_cache n))
                | NodeTypeUnknown \<Rightarrow> []), n))"

definition GetNodeCount ::
  "k8s_client \<Rightarrow> time \<Rightarrow> time \<Rightarrow> NodeType \<Rightarrow> NodeClassifierService \<Rightarrow> (go_error + nat) \<times> NodeClassifierService" where
  "GetNodeCount api now1 now2 nodeType n =
     (case GetNodesOfType api now1 now2 nodeType n of
        (Inl err, n) \<Rightarrow> (Inl err, n)
      | (Inr nodes, n) \<Rightarrow> (Inr (length nodes), n))"

text \<open>
  The second half of \<^verbatim>\<open>ClassifyNodesByName\<close>: a name the refreshed cache does not
  know is fetched; a failing fetch is an unknown node and is not cached.
\<close>

definition fetch_missing ::
  "k8s_client \<Rightarrow> NodeClassifierService \<times> (string \<rightharpoonup> NodeType) \<Rightarrow> string \<Rightarrow>
   NodeClassifierService \<times> (string \<rightharpoonup> NodeType)" where
  "fetch_missing api = (\<lambda>(n, results) name.
     case cl_GetNode api name of
       Inl err \<Rightarrow> (n, results(name \<mapsto> NodeTypeUnknown))
     | Inr nd \<Rightarrow>
         (let nodeType = ClassifyNode (nk_config n) nd
          in (n\<lparr>nk_cache := storeNodeClassification nd nodeType (nk_cache n)\<rparr>, results(name \<mapsto> nodeType))))"

definition ClassifyNodesByName :: "k8s_client \<Rightarrow> time \<Rightarrow> time \<Rightarrow> NodeClassifierService classifier" where
  "ClassifyNodesByName api now1 now2 n nodeNames =
     (let uniqueNames = remdups (filter (\<lambda>name. name \<noteq> []) nodeNames)
      in if uniqueNames = [] then (Inr Map.empty, n)
         else case RefreshCache api now1 now2 n of
           (Some err, n) \<Rightarrow> (Inl (Wrapped ''failed to refresh node cache'' err), n)
         | (None, n) \<Rightarrow>
            (let types = nk_NodeTypes (nk_cache n);
                 results = (\<lambda>name. if name \<in> set uniqueNames then types name else None);
                 missing = filter (\<lambda>name. types name = None) uniqueNames;
                 (n, results) = foldl (fetch_missing api) (n, results) missing;
                 results = (\<lambda>name. if name \<in> set uniqueNames \<and> results name = None
                                   then Some NodeTypeUnknown else results name)
             in (Inr results, n)))"

definition IsNodeReady :: "node \<Rightarrow> bool" where
  "IsNodeReady nd \<longleftrightarrow> condition_true ReadyCondition (node_Conditions nd)"

definition GetReadyNodesOfType ::
  "k8s_client \<Rightarrow> time \<Rightarrow> time \<Rightarrow> NodeType \<Rightarrow> NodeClassifierService \<Rightarrow> (go_error + node list) \<times> NodeClassifierService" where
  "GetReadyNodesOfType api now1 now2 nodeType n =
     (case GetNodesOfType api now1 now2 nodeType n of
        (Inl err, n) \<Rightarrow> (Inl err, n)
      | (Inr allNodes, n) \<Rightarrow> (Inr (filter IsNodeReady allNodes), n))"

record NodeSummary =
  nsum_TotalSpotNodes :: nat
  nsum_TotalOnDemandNodes :: nat
  nsum_ReadySpotNodes :: nat
  nsum_ReadyOnDemandNodes :: nat
  nsum_LastCacheRefresh :: time
  nsum_CacheRefreshInterval :: duration
  nsum_CloudProvider :: string

definition GetNodeClassificationSummary ::
  "k8s_client \<Rightarrow> time \<Rightarrow> time \<Rightarrow> NodeClassifierService \<Rightarrow> (go_error + NodeSummary) \<times> NodeClassifierService" where
  "GetNodeClassificationSummary api now1 now2 n =
     (case RefreshCache api now1 now2 n of
        (Some err, n) \<Rightarrow> (Inl (Wrapped ''failed to refresh cache'' err), n)
      | (None, n) \<Rightarrow>
         (let c = nk_cache n
          in (Inr \<lparr>nsum_TotalSpotNodes = length (nk_SpotNodes c), nsum_TotalOnDemandNodes = length (nk_OnDemandNodes c),
                nsum_ReadySpotNodes = length (filter (IsNodeReady \<circ> snd) (nk_SpotNodes c)),
                nsum_ReadyOnDemandNodes = length (filter (IsNodeReady \<circ> snd) (nk_OnDemandNodes c)),
                nsum_LastCacheRefresh = nk_LastRefresh c,
                nsum_CacheRefreshInterval = nk_CacheRefreshInterval (nk_config n),
                nsum_CloudProvider = nk_CloudProvider (nk_config n)\<rparr>, n)))"

definition nk_UpdateConfig :: "NodeClassifierConfig \<Rightarrow> NodeClassifierService \<Rightarrow> NodeClassifierService" where
  "nk_UpdateConfig config n = n\<lparr>nk_config := config, nk_cache := (nk_cache n)\<lparr>nk_LastRefresh := 0\<rparr>\<rparr>"

definition provider_of :: "node \<Rightarrow> string" where
  "provider_of nd =
     (let labels = node_Labels nd; providerID = ToLower (node_ProviderID nd)
      in if map_lookup labels cloudAWSCapacityType \<noteq> None then ''aws''
         else if map_lookup labels labelCapacityType \<noteq> None then ''aws''
         else if map_lookup labels labelGKEPreemptible \<noteq> None then ''gcp''
         else if map_lookup labels labelAzureScalesetPrio \<noteq> None then ''azure''
         else if node_ProviderID nd \<noteq> [] \<and> Contains providerID ''aws'' then ''aws''
         else if node_ProviderID nd \<noteq> [] \<and> (Contains providerID ''gce'' \<or> Contains providerID ''gcp'') then ''gcp''
         else if node_ProviderID nd \<noteq> [] \<and> Contains providerID ''azure'' then ''azure''
         else ''unknown'')"

text \<open>\<open>listed\<close> is the answer to the list call limited to one node.\<close>

definition DetectCloudProvider :: "go_error + node list \<Rightarrow> go_error + string" where
  "DetectCloudProvider listed =
     (case listed of
        Inl err \<Rightarrow> Inl (Wrapped ''failed to list nodes for provider detection'' err)
      | Inr [] \<Rightarrow> Inr ''unknown''
      | Inr (nd # _) \<Rightarrow> Inr (provider_of nd))"

section \<open>The order of the label maps does not matter\<close>

lemma ClassifyNode_perm:
  assumes "set (nk_SpotLabels c) = set (nk_SpotLabels c')" and "set (nk_OnDemandLabels c) = set (nk_OnDemandLabels c')"
  shows "ClassifyNode c nd = ClassifyNode c' nd"
  using assms by (simp add: ClassifyNode_def list_ex_iff)

text \<open>
  Under the default configuration the wildcard entry makes every node that carries the
  standard instance-type label a spot node, whatever its other labels say.
\<close>

lemma default_config_wildcard:
  assumes "map_lookup (node_Labels nd) labelInstanceType \<noteq> None"
  shows "ClassifyNode getDefaultNodeClassifierConfig nd = NodeTypeSpot"
  using assms by (auto simp: ClassifyNode_def getDefaultNodeClassifierConfig_def label_hit_def)

section \<open>The cache invariant\<close>

definition node_ok :: "NodeCache \<Rightarrow> string \<Rightarrow> bool" where
  "node_ok c n \<longleftrightarrow>
     (map_of (nk_SpotNodes c) n \<noteq> None) = (nk_NodeTypes c n = Some NodeTypeSpot) \<and>
     (map_of (nk_OnDemandNodes c) n \<noteq> None) = (nk_NodeTypes c n = Some NodeTypeOnDemand) \<and>
     (\<forall>nd. map_of (nk_SpotNodes c) n = Some nd \<or> map_of (nk_OnDemandNodes c) n = Some nd \<longrightarrow> node_Name nd = n)"

definition wf_nodes :: "NodeCache \<Rightarrow> bool" where
  "wf_nodes c \<longleftrightarrow> (\<forall>n. node_ok c n) \<and>
     distinct (map fst (nk_SpotNodes c)) \<and> distinct (map fst (nk_OnDemandNodes c))"

text \<open>The cached nodes are classified as the configuration classifies them.\<close>

definition classified_by :: "NodeClassifierConfig \<Rightarrow> NodeCache \<Rightarrow> bool" where
  "classified_by config c \<longleftrightarrow>
     (\<forall>n nd. (map_of (nk_SpotNodes c) n = Some nd \<longrightarrow> ClassifyNode config nd = NodeTypeSpot) \<and>
             (map_of (nk_OnDemandNodes c) n = Some nd \<longrightarrow> ClassifyNode config nd = NodeTypeOnDemand))"

definition service_inv :: "NodeClassifierService \<Rightarrow> bool" where
  "service_inv n \<longleftrightarrow> wf_nodes (nk_cache n) \<and>
     (nk_LastRefresh (nk_cache n) \<noteq> 0 \<longrightarrow> classified_by (nk_config n) (nk_cache n))"

lemma store_types [simp]:
  "nk_NodeTypes (storeNodeClassification nd t c) =
    (if node_Name nd = [] then nk_NodeTypes c else (nk_NodeTypes c)(node_Name nd \<mapsto> t))"
  "nk_LastRefresh (storeNodeClassification nd t c) = nk_LastRefresh c"
  by (cases t; simp add: storeNodeClassification_def Let_def)+

lemma store_spot:
  "map_of (nk_SpotNodes (storeNodeClassification nd t c)) n =
    (if node_Name nd = [] \<or> n \<noteq> node_Name nd then map_of (nk_SpotNodes c) n
     else if t = NodeTypeSpot then Some nd else None)"
  "map_of (nk_OnDemandNodes (storeNodeClassification nd t c)) n =
    (if node_Name nd = [] \<or> n \<noteq> node_Name nd then map_of (nk_OnDemandNodes c) n
     else if t = NodeTypeOnDemand then Some nd else None)"
  by (cases t; simp add: storeNodeClassification_def Let_def update_conv' delete_conv')+

lemma store_distinct:
  "distinct (map fst (nk_SpotNodes c)) \<Longrightarrow> distinct (map fst (nk_SpotNodes (storeNodeClassification nd t c)))"
  "distinct (map fst (nk_OnDemandNodes c)) \<Longrightarrow> distinct (map fst (nk_OnDemandNodes (storeNodeClassification nd t c)))"
  by (cases t; simp add: storeNodeClassification_def Let_def distinct_update AList.delete_eq distinct_map_filter)+

lemma wf_store:
  assumes "wf_nodes c"
  shows "wf_nodes (storeNodeClassification nd t c)"
proof -
  have "node_ok (storeNodeClassification nd t c) n" for n
  proof (cases "node_Name nd = [] \<or> n \<noteq> node_Name nd")
    case True
    then have e: "map_of (nk_SpotNodes (storeNodeClassification nd t c)) n = map_of (nk_SpotNodes c) n"
      "map_of (nk_OnDemandNodes (storeNodeClassification nd t c)) n = map_of (nk_OnDemandNodes c) n"
      "nk_NodeTypes (storeNodeClassification nd t c) n = nk_NodeTypes c n"
      by (auto simp: store_spot)
    have "node_ok c n" using assms by (simp add: wf_nodes_def)
    then show ?thesis unfolding node_ok_def e .
  next
    case False
    then show ?thesis by (cases t) (simp_all add: node_ok_def store_spot)
  qed
  with assms show ?thesis by (simp add: wf_nodes_def store_distinct)
qed

lemma classified_store:
  assumes "classified_by config c"
  shows "classified_by config (store_classified config c nd)"
  using assms unfolding classified_by_def store_classified_def store_spot by auto

lemma wf_fill: "wf_nodes c \<Longrightarrow> wf_nodes (foldl (store_classified config) c items)"
  by (induction items arbitrary: c) (simp_all add: wf_store store_classified_def)

lemma classified_fill: "classified_by config c \<Longrightarrow> classified_by config (foldl (store_classified config) c items)"
  by (induction items arbitrary: c) (simp_all add: classified_store)

lemma cleared_cache:
  "wf_nodes (c\<lparr>nk_SpotNodes := [], nk_OnDemandNodes := [], nk_NodeTypes := Map.empty\<rparr>)"
  "classified_by config (c\<lparr>nk_SpotNodes := [], nk_OnDemandNodes := [], nk_NodeTypes := Map.empty\<rparr>)"
  by (simp_all add: wf_nodes_def node_ok_def classified_by_def)

lemma LastRefresh_irrelevant [simp]:
  "wf_nodes (c\<lparr>nk_LastRefresh := t\<rparr>) = wf_nodes c" "classified_by config (c\<lparr>nk_LastRefresh := t\<rparr>) = classified_by config c"
  by (simp_all add: wf_nodes_def node_ok_def classified_by_def)

lemma fill_LastRefresh [simp]:
  "nk_LastRefresh (foldl (store_classified config) c items) = nk_LastRefresh c"
  by (induction items arbitrary: c) (simp_all add: store_classified_def)

text \<open>
  After a refresh the cache is classified by the current configuration, even when the
  configuration was just replaced: the reset of the refresh time forces a reclassification.
\<close>

lemma RefreshCache_inv:
  assumes "service_inv n" and "RefreshCache api now1 now2 n = (r, n')"
  shows "service_inv n'" and "nk_config n' = nk_config n"
    and "r = None \<Longrightarrow> nk_CacheRefreshInterval (nk_config n) \<le> time_sub now1 0 \<Longrightarrow>
      classified_by (nk_config n') (nk_cache n')"
proof -
  have "service_inv n' \<and> nk_config n' = nk_config n \<and>
    (r = None \<longrightarrow> nk_CacheRefreshInterval (nk_config n) \<le> time_sub now1 0 \<longrightarrow> classified_by (nk_config n') (nk_cache n'))"
    using assms
    by (auto simp: RefreshCache_def Let_def service_inv_def wf_fill classified_fill cleared_cache
        split: if_splits sum.splits)
  then show "service_inv n'" and "nk_config n' = nk_config n"
    and "r = None \<Longrightarrow> nk_CacheRefreshInterval (nk_config n) \<le> time_sub now1 0 \<Longrightarrow>
      classified_by (nk_config n') (nk_cache n')" by blast+
qed

lemma UpdateConfig_inv: "service_inv n \<Longrightarrow> service_inv (nk_UpdateConfig config n)"
  by (simp add: service_inv_def nk_UpdateConfig_def)

lemma NewService_inv: "service_inv (NewNodeClassifierService config)"
  by (simp add: service_inv_def NewNodeClassifierService_def wf_nodes_def node_ok_def empty_node_cache_def)

section \<open>Classifying by name\<close>

lemma fetch_missing_dom:
  assumes "foldl (fetch_missing api) (n, results) names = (n', results')"
  shows "results' x \<noteq> None \<longleftrightarrow> results x \<noteq> None \<or> x \<in> set names"
    and "nk_config n' = nk_config n"
proof -
  have "(results' x \<noteq> None \<longleftrightarrow> results x \<noteq> None \<or> x \<in> set names) \<and> nk_config n' = nk_config n"
    using assms
  proof (induction names arbitrary: n results)
    case (Cons a names)
    obtain n1 r1 where f: "fetch_missing api (n, results) a = (n1, r1)" by fastforce
    then have "(r1 x \<noteq> None \<longleftrightarrow> results x \<noteq> None \<or> x = a) \<and> nk_config n1 = nk_config n"
      by (auto simp: fetch_missing_def Let_def split: sum.splits if_splits)
    with Cons.IH [of n1 r1] Cons.prems f show ?case by auto
  qed simp
  then show "results' x \<noteq> None \<longleftrightarrow> results x \<noteq> None \<or> x \<in> set names" and "nk_config n' = nk_config n" by blast+
qed

lemma ClassifyNodesByName_dom:
  assumes "ClassifyNodesByName api now1 now2 n names = (Inr m, n')"
  shows "m x \<noteq> None \<longleftrightarrow> x \<in> set names \<and> x \<noteq> []"
proof (cases "remdups (filter (\<lambda>name. name \<noteq> []) names) = []")
  case True
  with assms have "m = Map.empty" by (simp add: ClassifyNodesByName_def)
  moreover from True have "\<not> (x \<in> set names \<and> x \<noteq> [])" by (auto simp: filter_empty_conv)
  ultimately show ?thesis by simp
next
  case False
  let ?u = "remdups (filter (\<lambda>name. name \<noteq> []) names)"
  from assms False obtain n1 where r: "RefreshCache api now1 now2 n = (None, n1)"
    by (auto simp: ClassifyNodesByName_def Let_def split: prod.splits option.splits)
  define types where "types = nk_NodeTypes (nk_cache n1)"
  obtain n2 res where f: "foldl (fetch_missing api) (n1, \<lambda>name. if name \<in> set ?u then types name else None)
      (filter (\<lambda>name. types name = None) ?u) = (n2, res)" by fastforce
  have m: "m = (\<lambda>name. if name \<in> set ?u \<and> res name = None then Some NodeTypeUnknown else res name)"
    using assms False r f unfolding ClassifyNodesByName_def Let_def types_def by (simp add: Let_def)
  from fetch_missing_dom(1) [OF f, of x] show ?thesis unfolding m by (auto split: if_splits)
qed

text \<open>The service provides the interface the observation uses, at every view and time.\<close>

interpretation node_service: node_classifier "ClassifyNodesByName api now1 now2" for api now1 now2
proof unfold_locales
  fix st names m st' n
  assume c: "ClassifyNodesByName api now1 now2 st names = (Inr m, st')"
  show "n \<in> set names \<Longrightarrow> n \<noteq> [] \<Longrightarrow> m n \<noteq> None" using ClassifyNodesByName_dom [OF c] by blast
  show "m n \<noteq> None \<Longrightarrow> n \<in> set names \<and> n \<noteq> []" using ClassifyNodesByName_dom [OF c] by blast
qed

text \<open>
  What the answer for a name should be. \<open>known\<close> are the types the service knows by then;
  a name it does not know is asked for, and a node that cannot be read is unknown. After a
  refresh the service knows the nodes of the listing, the last one under each name.
\<close>

definition type_of_name :: "k8s_client \<Rightarrow> NodeClassifierConfig \<Rightarrow> (string \<rightharpoonup> NodeType) \<Rightarrow> string \<Rightarrow> NodeType" where
  "type_of_name api config known name =
     (case known name of
        Some t \<Rightarrow> t
      | None \<Rightarrow> (case cl_GetNode api name of Inl err \<Rightarrow> NodeTypeUnknown | Inr nd \<Rightarrow> ClassifyNode config nd))"

definition listed_types :: "NodeClassifierConfig \<Rightarrow> node list \<Rightarrow> string \<rightharpoonup> NodeType" where
  "listed_types config items name =
     (if name = [] then None
      else map_option (ClassifyNode config) (find (\<lambda>nd. node_Name nd = name) (rev items)))"

definition answer_for :: "string list \<Rightarrow> (string \<Rightarrow> NodeType) \<Rightarrow> string \<rightharpoonup> NodeType" where
  "answer_for names f = (\<lambda>x. if x \<in> set names \<and> x \<noteq> [] then Some (f x) else None)"

lemma find_append: "find P (xs @ ys) = (case find P xs of None \<Rightarrow> find P ys | Some x \<Rightarrow> Some x)"
  by (induction xs) simp_all

lemma filled_listing:
  "nk_NodeTypes (foldl (store_classified config) c items) name =
    (case listed_types config items name of None \<Rightarrow> nk_NodeTypes c name | Some t \<Rightarrow> Some t)"
  by (induction items arbitrary: c)
    (auto simp: listed_types_def store_classified_def find_append split: option.splits)

lemma fetch_missing_types:
  assumes "foldl (fetch_missing api) (n, results) names = (n', results')" and "distinct names"
  shows "results' = (\<lambda>x. if x \<in> set names then Some (type_of_name api (nk_config n) Map.empty x) else results x)"
  using assms
proof (induction names arbitrary: n results)
  case (Cons a names)
  obtain n1 r1 where f: "fetch_missing api (n, results) a = (n1, r1)" by fastforce
  then have r1: "r1 = results(a \<mapsto> type_of_name api (nk_config n) Map.empty a)" "nk_config n1 = nk_config n"
    by (auto simp: fetch_missing_def type_of_name_def Let_def split: sum.splits)
  from Cons.prems f have "foldl (fetch_missing api) (n1, r1) names = (n', results')" "distinct names" by simp_all
  from Cons.IH [OF this] Cons.prems(2) show ?case by (auto simp: r1 fun_eq_iff)
qed simp

lemma fetch_missing_inv:
  assumes "foldl (fetch_missing api) (n, results) names = (n', results')" and "service_inv n"
  shows "service_inv n'"
  using assms
proof (induction names arbitrary: n results)
  case (Cons a names)
  obtain n1 r1 where f: "fetch_missing api (n, results) a = (n1, r1)" by fastforce
  with Cons.prems(2) have "service_inv n1"
    using classified_store [of "nk_config n" "nk_cache n"]
    by (auto simp: fetch_missing_def service_inv_def Let_def wf_store store_classified_def split: sum.splits)
  with Cons.IH [of n1 r1] Cons.prems(1) f show ?case by simp
qed simp

section \<open>Properties\<close>

text \<open>C20: Classifying nodes by name answers for exactly the non-empty requested names, each with
  the classification of that node under the current configuration: of the last node the
  listing has under the name when the cache was due for a refresh, of what the cache kept when
  it was not, else of the node the API returns for the name; a node that cannot be read is
  unknown. The call fails exactly when a listing that is due fails, and the cache stays
  consistent: each node in the map of its type and in no other, and since the last refresh
  classified as configured.\<close>

theorem classify_by_name_sound:
  assumes "service_inv n"
  shows "fst (ClassifyNodesByName api now1 now2 n names) =
      (if \<forall>x \<in> set names. x = [] then Inr Map.empty
       else if time_sub now1 (nk_LastRefresh (nk_cache n)) < nk_CacheRefreshInterval (nk_config n)
       then Inr (answer_for names (type_of_name api (nk_config n) (nk_NodeTypes (nk_cache n))))
       else case cl_ListNodes api of
         Inl err \<Rightarrow> Inl (Wrapped ''failed to refresh node cache'' (Wrapped ''failed to list nodes'' err))
       | Inr items \<Rightarrow> Inr (answer_for names (type_of_name api (nk_config n) (listed_types (nk_config n) items)))) \<and>
    service_inv (snd (ClassifyNodesByName api now1 now2 n names))"
proof -
  let ?u = "remdups (filter (\<lambda>name. name \<noteq> []) names)"
  have none: "?u = [] \<longleftrightarrow> (\<forall>x \<in> set names. x = [])" by (simp add: filter_empty_conv)
  have known: "fst (ClassifyNodesByName api now1 now2 n names) =
      Inr (answer_for names (type_of_name api (nk_config n) (nk_NodeTypes (nk_cache n1)))) \<and>
      service_inv (snd (ClassifyNodesByName api now1 now2 n names))"
    if ne: "?u \<noteq> []" and r: "RefreshCache api now1 now2 n = (None, n1)" for n1
  proof -
    define types where "types = nk_NodeTypes (nk_cache n1)"
    define r0 where "r0 = (\<lambda>name. if name \<in> set ?u then types name else None)"
    obtain n2 res where f: "foldl (fetch_missing api) (n1, r0) (filter (\<lambda>name. types name = None) ?u) = (n2, res)"
      by fastforce
    note inv = RefreshCache_inv [OF assms r]
    have "res = (\<lambda>x. if x \<in> set ?u then Some (type_of_name api (nk_config n) types x) else None)"
      using fetch_missing_types [OF f] inv(2) by (auto simp: fun_eq_iff r0_def type_of_name_def split: option.splits)
    moreover have "ClassifyNodesByName api now1 now2 n names =
        (Inr (\<lambda>name. if name \<in> set ?u \<and> res name = None then Some NodeTypeUnknown else res name), n2)"
      using ne r f unfolding ClassifyNodesByName_def Let_def types_def r0_def by (simp add: Let_def)
    ultimately show ?thesis
      using fetch_missing_inv [OF f inv(1)] by (auto simp: fun_eq_iff answer_for_def types_def)
  qed
  show ?thesis
  proof (cases "?u = []")
    case True
    with none assms show ?thesis by (simp add: ClassifyNodesByName_def)
  next
    case ne: False
    with none have some: "\<not> (\<forall>x \<in> set names. x = [])" by blast
    show ?thesis
    proof (cases "time_sub now1 (nk_LastRefresh (nk_cache n)) < nk_CacheRefreshInterval (nk_config n)")
      case True
      then have "RefreshCache api now1 now2 n = (None, n)" by (simp add: RefreshCache_def)
      from known [OF ne this] show ?thesis unfolding if_not_P [OF some] if_P [OF True] by blast
    next
      case stale: False
      show ?thesis
      proof (cases "cl_ListNodes api")
        case (Inl err)
        with stale ne assms show ?thesis
          unfolding if_not_P [OF some] by (simp add: ClassifyNodesByName_def RefreshCache_def Let_def)
      next
        case (Inr items)
        then obtain n1 where r: "RefreshCache api now1 now2 n = (None, n1)"
            and t: "nk_NodeTypes (nk_cache n1) = listed_types (nk_config n) items"
          using stale by (auto simp: RefreshCache_def Let_def filled_listing fun_eq_iff split: option.splits)
        from known [OF ne r] show ?thesis
          unfolding if_not_P [OF some] if_not_P [OF stale] Inr sum.case t by blast
      qed
    qed
  qed
qed

definition sample_node :: "string \<Rightarrow> (string \<times> string) list \<Rightarrow> node" where
  "sample_node name labels = \<lparr>node_Name = name, node_Labels = Some (map_of labels), node_Unschedulable = False,
     node_ProviderID = [], node_Capacity = [], node_Conditions = [(ReadyCondition, ConditionTrue)]\<rparr>"

definition two_nodes :: k8s_client where
  "two_nodes = empty_cluster\<lparr>cl_ListNodes := Inr [sample_node ''n0'' [(labelCapacityType, ''on-demand'')]],
     cl_GetNode := \<lambda>name. if name = ''n1'' then Inr (sample_node ''n1'' [(labelCapacityType, ''spot'')])
       else Inl (StatusError ReasonNotFound)\<rparr>"

definition karpenter_config :: NodeClassifierConfig where
  "karpenter_config = \<lparr>nk_SpotLabels = [(labelCapacityType, ''spot'')], nk_OnDemandLabels = [(labelCapacityType, ''on-demand'')],
     nk_CacheRefreshInterval = Minute, nk_CloudProvider = ''auto''\<rparr>"

text \<open>Right after the configuration was replaced: a listed, a fetched and an unreadable node.\<close>

theorem classify_by_name_sound_witness:
  "\<exists>m. fst (ClassifyNodesByName two_nodes (9 * Minute) (9 * Minute)
       (nk_UpdateConfig karpenter_config (NewNodeClassifierService None)) [''n0'', ''n1'', ''n2'']) = Inr m \<and>
     m ''n0'' = Some NodeTypeOnDemand \<and> m ''n1'' = Some NodeTypeSpot \<and> m ''n2'' = Some NodeTypeUnknown \<and> m ''n3'' = None"
proof -
  note defs = two_nodes_def sample_node_def karpenter_config_def nk_UpdateConfig_def NewNodeClassifierService_def
    empty_node_cache_def Minute_def time_sub_def ClassifyNode_def label_hit_def map_lookup_def answer_for_def
    type_of_name_def listed_types_def
  show ?thesis
    using classify_by_name_sound [OF UpdateConfig_inv [OF NewService_inv], of two_nodes "9 * Minute" "9 * Minute"
        karpenter_config None "[''n0'', ''n1'', ''n2'']", THEN conjunct1]
    by (simp add: defs)
qed

text \<open>The classification of a node does not depend on the iteration order of the label
  maps. Under the default configuration, though, the wildcard on the instance-type label
  decides before the on-demand labels are read: a node that is labelled on-demand by its
  provider and carries the standard instance-type label is classified spot.\<close>

theorem default_classification_wildcard:
  assumes "map_lookup (node_Labels nd) labelInstanceType \<noteq> None"
    and "mset sl = mset (nk_SpotLabels getDefaultNodeClassifierConfig)"
    and "mset ol = mset (nk_OnDemandLabels getDefaultNodeClassifierConfig)"
  shows "ClassifyNode (getDefaultNodeClassifierConfig\<lparr>nk_SpotLabels := sl, nk_OnDemandLabels := ol\<rparr>) nd = NodeTypeSpot"
proof -
  have "ClassifyNode (getDefaultNodeClassifierConfig\<lparr>nk_SpotLabels := sl, nk_OnDemandLabels := ol\<rparr>) nd =
      ClassifyNode getDefaultNodeClassifierConfig nd"
    using assms(2,3) by (intro ClassifyNode_perm) (auto dest: mset_eq_setD)
  with default_config_wildcard [OF assms(1)] show ?thesis by simp
qed

theorem default_classification_wildcard_witness:
  "ClassifyNode getDefaultNodeClassifierConfig
     (sample_node ''n0'' [(labelCapacityType, ''on-demand''), (labelInstanceType, ''m5.large'')]) = NodeTypeSpot"
proof -
  have "map_lookup (node_Labels (sample_node ''n0'' [(labelCapacityType, ''on-demand''), (labelInstanceType, ''m5.large'')]))
      labelInstanceType \<noteq> None"
    by (simp add: sample_node_def map_lookup_def label_keys)
  from default_classification_wildcard [OF this refl refl] show ?thesis by simp
qed

section \<open>Selection by label\<close>

text \<open>\<open>list_nodes\<close> is the listing of the API restricted by a selector; its nodes are handed on in order.\<close>

definition GetNodesBySelector ::
  "('s \<Rightarrow> go_error + node list) \<Rightarrow> 's \<Rightarrow> go_error + node list" where
  "GetNodesBySelector list_nodes selector =
     (case list_nodes selector of
        Inl err \<Rightarrow> Inl (Wrapped ''failed to list nodes with selector'' err)
      | Inr items \<Rightarrow> Inr items)"


end
