(* ===== verification/Namespace_Filter.thy ===== *)
theory Namespace_Filter
  imports Kube_Objects Go_Duration "HOL-Library.AList"
begin

text \<open>
  \<^verbatim>\<open>pkg/controllers/namespace_filter.go\<close>: which namespaces are managed, the cache
  of decisions, tenants and the filter's metrics.

  Regular expressions are a parameter: \<open>compile\<close> is \<^verbatim>\<open>regexp.Compile\<close>
  and yields the match predicate; the three fixed patterns of
  \<^verbatim>\<open>isSystemNamespace\<close> are anchored literals, that is prefixes. Go maps that the
  code iterates are association lists; the cache is one too, so that its size is the number
  of its keys. Decisions are pointers in the source: the one returned when caching is on is
  the cached one, so writing its tenant changes the cache, which the model writes out.
\<close>

record NamespaceFilterConfig =
  nfc_IncludeNamespaces :: "string list"
  nfc_ExcludeNamespaces :: "string list"
  nfc_IncludePatterns :: "string list"
  nfc_ExcludePatterns :: "string list"
  nfc_RequiredLabels :: "(string \<times> string) list"
  nfc_ForbiddenLabels :: "(string \<times> string) list"
  nfc_RequiredAnnotations :: "(string \<times> string) list"
  nfc_ForbiddenAnnotations :: "(string \<times> string) list"
  nfc_TenantMode :: bool
  nfc_TenantLabelKey :: string
  nfc_TenantNamespaces :: "string \<rightharpoonup> string list"
  nfc_IncludeSystemNamespaces :: bool
  nfc_SystemNamespaces :: "string list"
  nfc_EnableDynamicFiltering :: bool
  nfc_RefreshInterval :: string
  nfc_CacheEnabled :: bool
  nfc_CacheSize :: int
  nfc_MetricsEnabled :: bool

definition DefaultNamespaceFilterConfig :: NamespaceFilterConfig where
  "DefaultNamespaceFilterConfig =
     \<lparr>nfc_IncludeNamespaces = [],
      nfc_ExcludeNamespaces = [''kube-system'', ''kube-public'', ''kube-node-lease''],
      nfc_IncludePatterns = [], nfc_ExcludePatterns = [''^kube-.*'', ''^openshift-.*''],
      nfc_RequiredLabels = [], nfc_ForbiddenLabels = [], nfc_RequiredAnnotations = [],
      nfc_ForbiddenAnnotations = [], nfc_TenantMode = False, nfc_TenantLabelKey = ''tenant'',
      nfc_TenantNamespaces = Map.empty, nfc_IncludeSystemNamespaces = False,
      nfc_SystemNamespaces = [''kube-system'', ''kube-public'', ''kube-node-lease'', ''default''],
      nfc_EnableDynamicFiltering = True, nfc_RefreshInterval = ''5m'', nfc_CacheEnabled = True,
      nfc_CacheSize = 1000, nfc_MetricsEnabled = True\<rparr>"

record FilterResult =
  fr_Allowed :: bool
  fr_Reason :: string
  fr_Tenant :: string
  fr_MatchedRule :: string
  fr_Timestamp :: int

section \<open>Metrics of the filter\<close>

record NamespaceResult =
  nr_Allowed :: int
  nr_Denied :: int
  nr_LastChecked :: int
  nr_LastReason :: string

record NamespaceFilterMetrics =
  nfm_totalChecks :: int
  nfm_allowedResults :: int
  nfm_deniedResults :: int
  nfm_cacheHits :: int
  nfm_cacheMisses :: int
  nfm_errors :: int
  nfm_namespaceResults :: "string \<rightharpoonup> NamespaceResult"

definition NewNamespaceFilterMetrics :: NamespaceFilterMetrics where
  "NewNamespaceFilterMetrics =
     \<lparr>nfm_totalChecks = 0, nfm_allowedResults = 0, nfm_deniedResults = 0, nfm_cacheHits = 0,
      nfm_cacheMisses = 0, nfm_errors = 0, nfm_namespaceResults = Map.empty\<rparr>"

definition RecordFilterResult ::
  "int \<Rightarrow> string \<Rightarrow> bool \<Rightarrow> string \<Rightarrow> NamespaceFilterMetrics \<Rightarrow> NamespaceFilterMetrics" where
  "RecordFilterResult now namespace allowed reason m =
     (let m = m\<lparr>nfm_totalChecks := i64 (nfm_totalChecks m + 1)\<rparr>;
          m = (if allowed then m\<lparr>nfm_allowedResults := i64 (nfm_allowedResults m + 1)\<rparr>
               else m\<lparr>nfm_deniedResults := i64 (nfm_deniedResults m + 1)\<rparr>);
          result = (case nfm_namespaceResults m namespace of
              None \<Rightarrow> \<lparr>nr_Allowed = 0, nr_Denied = 0, nr_LastChecked = 0, nr_LastReason = []\<rparr> | Some r \<Rightarrow> r);
          result = (if allowed then result\<lparr>nr_Allowed := i64 (nr_Allowed result + 1)\<rparr>
                    else result\<lparr>nr_Denied := i64 (nr_Denied result + 1)\<rparr>);
          result = result\<lparr>nr_LastChecked := now, nr_LastReason := reason\<rparr>
      in m\<lparr>nfm_namespaceResults := (nfm_namespaceResults m)(namespace \<mapsto> result)\<rparr>)"

definition RecordCacheHit :: "NamespaceFilterMetrics \<Rightarrow> NamespaceFilterMetrics" where
  "RecordCacheHit m = m\<lparr>nfm_cacheHits := i64 (nfm_cacheHits m + 1)\<rparr>"

definition RecordCacheMiss :: "NamespaceFilterMetrics \<Rightarrow> NamespaceFilterMetrics" where
  "RecordCacheMiss m = m\<lparr>nfm_cacheMisses := i64 (nfm_cacheMisses m + 1)\<rparr>"

definition RecordFilterError :: "NamespaceFilterMetrics \<Rightarrow> NamespaceFilterMetrics" where
  "RecordFilterError m = m\<lparr>nfm_errors := i64 (nfm_errors m + 1)\<rparr>"

text \<open>
  The two rates of \<^verbatim>\<open>GetSummary\<close>, as numerator and denominator of the
  floating-point quotient; a rate is absent when its denominator is not positive.
\<close>

definition cache_hit_rate :: "NamespaceFilterMetrics \<Rightarrow> (int \<times> int) option" where
  "cache_hit_rate m =
     (let totalCacheAccess = i64 (nfm_cacheHits m + nfm_cacheMisses m)
      in if totalCacheAccess > 0 then Some (nfm_cacheHits m, totalCacheAccess) else None)"

definition allow_rate :: "NamespaceFilterMetrics \<Rightarrow> (int \<times> int) option" where
  "allow_rate m = (if nfm_totalChecks m > 0 then Some (nfm_allowedResults m, nfm_totalChecks m) else None)"

section \<open>The filter\<close>

record NamespaceFilter =
  nf_config :: NamespaceFilterConfig
  nf_includeRegex :: "(string \<Rightarrow> bool) list"
  nf_excludeRegex :: "(string \<Rightarrow> bool) list"
  nf_cache :: "(string \<times> FilterResult) list"
  nf_metrics :: "NamespaceFilterMetrics option"

datatype filter_error = InvalidIncludePattern string | InvalidExcludePattern string | InvalidRefreshInterval

text \<open>The first pattern that does not compile is the error.\<close>

fun compile_all :: "(string \<Rightarrow> (string \<Rightarrow> bool) option) \<Rightarrow> string list \<Rightarrow> string + (string \<Rightarrow> bool) list" where
  "compile_all compile [] = Inr []"
| "compile_all compile (p # ps) =
     (case compile p of
        None \<Rightarrow> Inl p
      | Some r \<Rightarrow> (case compile_all compile ps of Inl q \<Rightarrow> Inl q | Inr rs \<Rightarrow> Inr (r # rs)))"

definition compilePatterns ::
  "(string \<Rightarrow> (string \<Rightarrow> bool) option) \<Rightarrow> NamespaceFilter \<Rightarrow> filter_error + NamespaceFilter" where
  "compilePatterns compile nf =
     (case compile_all compile (nfc_IncludePatterns (nf_config nf)) of
        Inl p \<Rightarrow> Inl (InvalidIncludePattern p)
      | Inr inc \<Rightarrow>
         (case compile_all compile (nfc_ExcludePatterns (nf_config nf)) of
            Inl p \<Rightarrow> Inl (InvalidExcludePattern p)
          | Inr exc \<Rightarrow> Inr (nf\<lparr>nf_includeRegex := inc, nf_excludeRegex := exc\<rparr>)))"

definition NewNamespaceFilter ::
  "(string \<Rightarrow> (string \<Rightarrow> bool) option) \<Rightarrow> NamespaceFilterConfig option \<Rightarrow> filter_error + NamespaceFilter" where
  "NewNamespaceFilter compile config =
     (let config = (case config of None \<Rightarrow> DefaultNamespaceFilterConfig | Some c \<Rightarrow> c);
          nf = \<lparr>nf_config = config, nf_includeRegex = [], nf_excludeRegex = [], nf_cache = [], nf_metrics = None\<rparr>
      in case compilePatterns compile nf of
           Inl e \<Rightarrow> Inl e
         | Inr nf \<Rightarrow>
            (let nf = (if nfc_MetricsEnabled config then nf\<lparr>nf_metrics := Some NewNamespaceFilterMetrics\<rparr> else nf)
             in if nfc_EnableDynamicFiltering config \<and> ParseDuration (nfc_RefreshInterval config) = None
                then Inl InvalidRefreshInterval
                else Inr nf))"

definition isSystemNamespace :: "NamespaceFilter \<Rightarrow> string \<Rightarrow> bool" where
  "isSystemNamespace nf namespace \<longleftrightarrow>
     namespace \<in> set (nfc_SystemNamespaces (nf_config nf)) \<or>
     list_ex (HasPrefix namespace) [''kube-'', ''openshift-'', ''istio-'']"

text \<open>Each stage yields whether the namespace is blocked and the result as it stands then.\<close>

type_synonym stage = "bool \<times> FilterResult"

definition deny :: "string \<Rightarrow> string \<Rightarrow> FilterResult \<Rightarrow> stage" where
  "deny reason rule result = (True, result\<lparr>fr_Allowed := False, fr_Reason := reason, fr_MatchedRule := rule\<rparr>)"

definition checkExplicitExclusion :: "NamespaceFilter \<Rightarrow> string \<Rightarrow> FilterResult \<Rightarrow> stage" where
  "checkExplicitExclusion nf namespace result =
     (if namespace \<in> set (nfc_ExcludeNamespaces (nf_config nf))
      then deny ''explicitly excluded'' (''exclude_namespace:'' @ namespace) result
      else (False, result))"

fun first_pattern :: "string \<Rightarrow> string list \<Rightarrow> (string \<Rightarrow> bool) list \<Rightarrow> string option" where
  "first_pattern namespace (p # ps) (r # rs) = (if r namespace then Some p else first_pattern namespace ps rs)"
| "first_pattern namespace _ _ = None"

definition checkExcludePatterns :: "NamespaceFilter \<Rightarrow> string \<Rightarrow> FilterResult \<Rightarrow> stage" where
  "checkExcludePatterns nf namespace result =
     (case first_pattern namespace (nfc_ExcludePatterns (nf_config nf)) (nf_excludeRegex nf) of
        Some p \<Rightarrow> deny ''matched exclude pattern'' (''exclude_pattern:'' @ p) result
      | None \<Rightarrow> (False, result))"

definition applyExclusionFilters :: "NamespaceFilter \<Rightarrow> string \<Rightarrow> FilterResult \<Rightarrow> stage" where
  "applyExclusionFilters nf namespace result =
     (if isSystemNamespace nf namespace \<and> \<not> nfc_IncludeSystemNamespaces (nf_config nf)
      then deny ''system namespace excluded'' ''system_namespace_exclusion'' result
      else case checkExplicitExclusion nf namespace result of
        (True, result) \<Rightarrow> (True, result)
      | (False, result) \<Rightarrow> checkExcludePatterns nf namespace result)"

definition checkExplicitInclusion :: "NamespaceFilter \<Rightarrow> string \<Rightarrow> FilterResult \<Rightarrow> stage" where
  "checkExplicitInclusion nf namespace result =
     (if nfc_IncludeNamespaces (nf_config nf) = [] then (False, result)
      else if namespace \<in> set (nfc_IncludeNamespaces (nf_config nf))
      then (False, result\<lparr>fr_MatchedRule := ''include_namespace:'' @ namespace\<rparr>)
      else deny ''not in include list'' ''include_namespace_check'' result)"

definition checkIncludePatterns :: "NamespaceFilter \<Rightarrow> string \<Rightarrow> FilterResult \<Rightarrow> stage" where
  "checkIncludePatterns nf namespace result =
     (if nf_includeRegex nf = [] then (False, result)
      else case first_pattern namespace (nfc_IncludePatterns (nf_config nf)) (nf_includeRegex nf) of
        Some p \<Rightarrow> (False, result\<lparr>fr_MatchedRule := ''include_pattern:'' @ p\<rparr>)
      | None \<Rightarrow> deny ''no include pattern matched'' ''include_pattern_check'' result)"

definition applyInclusionFilters :: "NamespaceFilter \<Rightarrow> string \<Rightarrow> FilterResult \<Rightarrow> stage" where
  "applyInclusionFilters nf namespace result =
     (case checkExplicitInclusion nf namespace result of
        (True, result) \<Rightarrow> (True, result)
      | (False, result) \<Rightarrow> checkIncludePatterns nf namespace result)"

definition checkRequiredLabels :: "NamespaceFilter \<Rightarrow> string_map option \<Rightarrow> bool" where
  "checkRequiredLabels nf nsLabels =
     list_all (\<lambda>(key, value). map_lookup nsLabels key = Some value) (nfc_RequiredLabels (nf_config nf))"

definition checkForbiddenLabels :: "NamespaceFilter \<Rightarrow> string_map option \<Rightarrow> bool" where
  "checkForbiddenLabels nf nsLabels =
     list_ex (\<lambda>(key, value). map_lookup nsLabels key = Some value) (nfc_ForbiddenLabels (nf_config nf))"

definition checkForbiddenAnnotations :: "NamespaceFilter \<Rightarrow> string_map option \<Rightarrow> bool" where
  "checkForbiddenAnnotations nf nsAnnotations =
     list_ex (\<lambda>(key, value). map_lookup nsAnnotations key = Some value) (nfc_ForbiddenAnnotations (nf_config nf))"

definition checkMetadataRequirements :: "NamespaceFilter \<Rightarrow> namespace_object \<Rightarrow> FilterResult \<Rightarrow> stage" where
  "checkMetadataRequirements nf ns result =
     (if \<not> checkRequiredLabels nf (ns_Labels ns) then deny ''missing required labels'' ''required_labels_check'' result
      else if checkForbiddenLabels nf (ns_Labels ns) then deny ''has forbidden labels'' ''forbidden_labels_check'' result
      else if checkForbiddenAnnotations nf (ns_Annotations ns)
        then deny ''has forbidden annotations'' ''forbidden_annotations_check'' result
      else (False, result))"

text \<open>The client is optional (\<open>None\<close> is nil).\<close>

definition applyMetadataFilters ::
  "k8s_client option \<Rightarrow> NamespaceFilter \<Rightarrow> string \<Rightarrow> FilterResult \<Rightarrow> stage" where
  "applyMetadataFilters client nf namespace result =
     (case client of
        None \<Rightarrow> (False, result)
      | Some c \<Rightarrow>
         (case cl_GetNamespace c namespace of
            Inl err \<Rightarrow> (False, result\<lparr>fr_Reason := ''namespace not found, allowing'',
                                     fr_MatchedRule := ''namespace_not_found''\<rparr>)
          | Inr ns \<Rightarrow> checkMetadataRequirements nf ns result))"

definition performFiltering :: "k8s_client option \<Rightarrow> int \<Rightarrow> NamespaceFilter \<Rightarrow> string \<Rightarrow> FilterResult" where
  "performFiltering client now nf namespace =
     (let result = \<lparr>fr_Allowed = True, fr_Reason = ''default'', fr_Tenant = [], fr_MatchedRule = [], fr_Timestamp = now\<rparr>
      in case applyExclusionFilters nf namespace result of
           (True, result) \<Rightarrow> result
         | (False, result) \<Rightarrow>
            (case applyInclusionFilters nf namespace result of
               (True, result) \<Rightarrow> result
             | (False, result) \<Rightarrow>
                (case applyMetadataFilters client nf namespace result of
                   (True, result) \<Rightarrow> result
                 | (False, result) \<Rightarrow> result\<lparr>fr_Reason := ''passed all filters''\<rparr>)))"

section \<open>The cache of decisions\<close>

definition getCachedResult :: "NamespaceFilter \<Rightarrow> string \<Rightarrow> FilterResult option" where
  "getCachedResult nf namespace = map_of (nf_cache nf) namespace"

definition setCachedResult :: "string \<Rightarrow> FilterResult \<Rightarrow> NamespaceFilter \<Rightarrow> NamespaceFilter" where
  "setCachedResult namespace result nf =
     (let cache = (if int (length (nf_cache nf)) \<ge> nfc_CacheSize (nf_config nf) then [] else nf_cache nf)
      in nf\<lparr>nf_cache := AList.update namespace result cache\<rparr>)"

definition clearCache :: "NamespaceFilter \<Rightarrow> NamespaceFilter" where
  "clearCache nf = nf\<lparr>nf_cache := []\<rparr>"

definition refreshCache :: "NamespaceFilter \<Rightarrow> NamespaceFilter" where
  "refreshCache nf = clearCache nf"

definition with_metrics :: "(NamespaceFilterMetrics \<Rightarrow> NamespaceFilterMetrics) \<Rightarrow> NamespaceFilter \<Rightarrow> NamespaceFilter" where
  "with_metrics f nf = nf\<lparr>nf_metrics := map_option f (nf_metrics nf)\<rparr>"

text \<open>\<open>now1\<close> is the timestamp of the decision, \<open>now2\<close> the one the metrics record.\<close>

definition IsNamespaceAllowed ::
  "k8s_client option \<Rightarrow> int \<Rightarrow> int \<Rightarrow> string \<Rightarrow> NamespaceFilter \<Rightarrow> FilterResult \<times> NamespaceFilter" where
  "IsNamespaceAllowed client now1 now2 namespace nf =
     (case (if nfc_CacheEnabled (nf_config nf) then getCachedResult nf namespace else None) of
        Some result \<Rightarrow> (result, with_metrics RecordCacheHit nf)
      | None \<Rightarrow>
         (let result = performFiltering client now1 nf namespace;
              nf = (if nfc_CacheEnabled (nf_config nf) then setCachedResult namespace result nf else nf);
              nf = with_metrics (RecordFilterResult now2 namespace (fr_Allowed result) (fr_Reason result)) nf
          in (result, nf)))"

definition checkTenantAccess :: "int \<Rightarrow> NamespaceFilter \<Rightarrow> string \<Rightarrow> string \<Rightarrow> FilterResult" where
  "checkTenantAccess now nf namespace tenant =
     (let result = \<lparr>fr_Allowed = True, fr_Reason = [], fr_Tenant = tenant, fr_MatchedRule = [], fr_Timestamp = now\<rparr>
      in case nfc_TenantNamespaces (nf_config nf) tenant of
           Some tenantNs \<Rightarrow>
             if namespace \<in> set tenantNs then result
             else result\<lparr>fr_Allowed := False, fr_Reason := ''namespace not assigned to tenant'',
                         fr_MatchedRule := ''tenant_namespace_assignment''\<rparr>
         | None \<Rightarrow> result\<lparr>fr_Reason := ''tenant access allowed''\<rparr>)"

definition IsNamespaceAllowedForTenant ::
  "k8s_client option \<Rightarrow> int \<Rightarrow> int \<Rightarrow> int \<Rightarrow> string \<Rightarrow> string \<Rightarrow> NamespaceFilter \<Rightarrow> FilterResult \<times> NamespaceFilter" where
  "IsNamespaceAllowedForTenant client now1 now2 now3 namespace tenant nf =
     (case IsNamespaceAllowed client now1 now2 namespace nf of
        (result, nf) \<Rightarrow>
          if \<not> fr_Allowed result then (result, nf)
          else if nfc_TenantMode (nf_config nf) then
            (let tenantResult = checkTenantAccess now3 nf namespace tenant
             in if \<not> fr_Allowed tenantResult then (tenantResult, nf)
                else
                  (let result = result\<lparr>fr_Tenant := tenant\<rparr>;
                       nf = (if nfc_CacheEnabled (nf_config nf)
                             then nf\<lparr>nf_cache := AList.update namespace result (nf_cache nf)\<rparr> else nf)
                   in (result, nf)))
          else (result, nf))"

text \<open>
  A failing update leaves the filter with the new configuration and partly compiled
  patterns (nil entries, whose use panics). The model ends there: the error is the result
  and no filter is returned.
\<close>

definition nf_UpdateConfig ::
  "(string \<Rightarrow> (string \<Rightarrow> bool) option) \<Rightarrow> NamespaceFilterConfig \<Rightarrow> NamespaceFilter \<Rightarrow> filter_error + NamespaceFilter" where
  "nf_UpdateConfig compile config nf =
     (let nf = nf\<lparr>nf_config := config\<rparr>
      in case compilePatterns compile nf of
           Inl e \<Rightarrow> Inl e
         | Inr nf \<Rightarrow> Inr (if nfc_CacheEnabled config then clearCache nf else nf))"

fun allowed_namespaces ::
  "k8s_client option \<Rightarrow> int \<Rightarrow> int \<Rightarrow> string list \<Rightarrow> string list \<Rightarrow> NamespaceFilter \<Rightarrow> string list \<times> NamespaceFilter" where
  "allowed_namespaces client now1 now2 acc [] nf = (acc, nf)"
| "allowed_namespaces client now1 now2 acc (ns # rest) nf =
     (case IsNamespaceAllowed client now1 now2 ns nf of
        (result, nf) \<Rightarrow> allowed_namespaces client now1 now2 (if fr_Allowed result then acc @ [ns] else acc) rest nf)"

definition GetFilteredNamespaces ::
  "k8s_client \<Rightarrow> int \<Rightarrow> int \<Rightarrow> NamespaceFilter \<Rightarrow> (go_error + string list) \<times> NamespaceFilter" where
  "GetFilteredNamespaces c now1 now2 nf =
     (case cl_ListNamespaces c of
        Inl err \<Rightarrow> (Inl (Wrapped ''failed to list namespaces'' err), nf)
      | Inr items \<Rightarrow>
         (case allowed_namespaces (Some c) now1 now2 [] (map ns_Name items) nf of (r, nf) \<Rightarrow> (Inr r, nf)))"

fun tenant_allowed_namespaces ::
  "k8s_client option \<Rightarrow> int \<Rightarrow> string \<Rightarrow> string list \<Rightarrow> string list \<Rightarrow> NamespaceFilter \<Rightarrow> string list \<times> NamespaceFilter" where
  "tenant_allowed_namespaces client now tenant acc [] nf = (acc, nf)"
| "tenant_allowed_namespaces client now tenant acc (ns # rest) nf =
     (case IsNamespaceAllowedForTenant client now now now ns tenant nf of
        (result, nf) \<Rightarrow> tenant_allowed_namespaces client now tenant (if fr_Allowed result then acc @ [ns] else acc) rest nf)"

text \<open>
  \<open>requirement\<close> is the validation of the label requirement by the library,
  \<open>listed\<close> the answer to the list call with that selector.
\<close>

definition GetTenantNamespaces ::
  "k8s_client \<Rightarrow> int \<Rightarrow> go_error option \<Rightarrow> go_error + namespace_object list \<Rightarrow> string \<Rightarrow>
   NamespaceFilter \<Rightarrow> (go_error + string list) \<times> NamespaceFilter" where
  "GetTenantNamespaces c now requirement listed tenant nf =
     (if \<not> nfc_TenantMode (nf_config nf) then GetFilteredNamespaces c now now nf
      else case nfc_TenantNamespaces (nf_config nf) tenant of
        Some tenantNs \<Rightarrow>
          (case tenant_allowed_namespaces (Some c) now tenant [] tenantNs nf of (r, nf) \<Rightarrow> (Inr r, nf))
      | None \<Rightarrow>
         (case requirement of
            Some err \<Rightarrow> (Inl (Wrapped ''failed to create tenant selector'' err), nf)
          | None \<Rightarrow>
             (case listed of
                Inl err \<Rightarrow> (Inl (Wrapped ''failed to list tenant namespaces'' err), nf)
              | Inr items \<Rightarrow>
                 (case tenant_allowed_namespaces (Some c) now tenant [] (map ns_Name items) nf of
                    (r, nf) \<Rightarrow> (Inr r, nf)))))"

definition namespace_predicate ::
  "k8s_client option \<Rightarrow> int \<Rightarrow> int \<Rightarrow> string \<Rightarrow> NamespaceFilter \<Rightarrow> bool \<times> NamespaceFilter" where
  "namespace_predicate client now1 now2 namespace nf =
     (case IsNamespaceAllowed client now1 now2 namespace nf of (result, nf) \<Rightarrow> (fr_Allowed result, nf))"

section \<open>The decision\<close>

text \<open>
  The decision as a predicate on the configuration and the namespace object (\<open>None\<close>
  when it cannot be read): exclusions win over inclusions, and metadata is looked at last.
\<close>

definition namespace_admitted :: "NamespaceFilter \<Rightarrow> string \<Rightarrow> namespace_object option \<Rightarrow> bool" where
  "namespace_admitted nf namespace obj \<longleftrightarrow>
     (isSystemNamespace nf namespace \<longrightarrow> nfc_IncludeSystemNamespaces (nf_config nf)) \<and>
     namespace \<notin> set (nfc_ExcludeNamespaces (nf_config nf)) \<and>
     first_pattern namespace (nfc_ExcludePatterns (nf_config nf)) (nf_excludeRegex nf) = None \<and>
     (nfc_IncludeNamespaces (nf_config nf) \<noteq> [] \<longrightarrow> namespace \<in> set (nfc_IncludeNamespaces (nf_config nf))) \<and>
     (nf_includeRegex nf \<noteq> [] \<longrightarrow>
        first_pattern namespace (nfc_IncludePatterns (nf_config nf)) (nf_includeRegex nf) \<noteq> None) \<and>
     (case obj of
        None \<Rightarrow> True
      | Some ns \<Rightarrow> checkRequiredLabels nf (ns_Labels ns) \<and> \<not> checkForbiddenLabels nf (ns_Labels ns) \<and>
          \<not> checkForbiddenAnnotations nf (ns_Annotations ns))"

definition namespace_read :: "k8s_client option \<Rightarrow> string \<Rightarrow> namespace_object option" where
  "namespace_read client namespace =
     (case client of None \<Rightarrow> None
      | Some c \<Rightarrow> (case cl_GetNamespace c namespace of Inl err \<Rightarrow> None | Inr ns \<Rightarrow> Some ns))"

lemmas filter_stage_defs = applyExclusionFilters_def checkExplicitExclusion_def checkExcludePatterns_def
  applyInclusionFilters_def checkExplicitInclusion_def checkIncludePatterns_def applyMetadataFilters_def
  checkMetadataRequirements_def deny_def

lemma exclusion_stage:
  "fst (applyExclusionFilters nf ns r) \<longleftrightarrow>
     \<not> ((isSystemNamespace nf ns \<longrightarrow> nfc_IncludeSystemNamespaces (nf_config nf)) \<and>
        ns \<notin> set (nfc_ExcludeNamespaces (nf_config nf)) \<and>
        first_pattern ns (nfc_ExcludePatterns (nf_config nf)) (nf_excludeRegex nf) = None)"
  "fr_Allowed r \<Longrightarrow> fr_Allowed (snd (applyExclusionFilters nf ns r)) = (\<not> fst (applyExclusionFilters nf ns r))"
  by (auto simp: filter_stage_defs split: option.splits)

lemma inclusion_stage:
  "fst (applyInclusionFilters nf ns r) \<longleftrightarrow>
     \<not> ((nfc_IncludeNamespaces (nf_config nf) \<noteq> [] \<longrightarrow> ns \<in> set (nfc_IncludeNamespaces (nf_config nf))) \<and>
        (nf_includeRegex nf \<noteq> [] \<longrightarrow> first_pattern ns (nfc_IncludePatterns (nf_config nf)) (nf_includeRegex nf) \<noteq> None))"
  "fr_Allowed r \<Longrightarrow> fr_Allowed (snd (applyInclusionFilters nf ns r)) = (\<not> fst (applyInclusionFilters nf ns r))"
  by (auto simp: filter_stage_defs split: option.splits)

lemma metadata_stage:
  "fst (applyMetadataFilters client nf ns r) \<longleftrightarrow>
     (case namespace_read client ns of None \<Rightarrow> False
      | Some obj \<Rightarrow> \<not> (checkRequiredLabels nf (ns_Labels obj) \<and> \<not> checkForbiddenLabels nf (ns_Labels obj) \<and>
          \<not> checkForbiddenAnnotations nf (ns_Annotations obj)))"
  "fr_Allowed r \<Longrightarrow> fr_Allowed (snd (applyMetadataFilters client nf ns r)) = (\<not> fst (applyMetadataFilters client nf ns r))"
  by (auto simp: filter_stage_defs namespace_read_def split: option.splits sum.splits)

lemma performFiltering_admitted:
  "fr_Allowed (performFiltering client now nf ns) = namespace_admitted nf ns (namespace_read client ns)"
proof -
  define r0 where "r0 = \<lparr>fr_Allowed = True, fr_Reason = ''default'', fr_Tenant = [], fr_MatchedRule = [], fr_Timestamp = now\<rparr>"
  obtain b1 r1 where e1: "applyExclusionFilters nf ns r0 = (b1, r1)" by fastforce
  obtain b2 r2 where e2: "applyInclusionFilters nf ns r1 = (b2, r2)" by fastforce
  obtain b3 r3 where e3: "applyMetadataFilters client nf ns r2 = (b3, r3)" by fastforce
  have p: "performFiltering client now nf ns =
      (if b1 then r1 else if b2 then r2 else if b3 then r3 else r3\<lparr>fr_Reason := ''passed all filters''\<rparr>)"
    by (simp add: performFiltering_def r0_def [symmetric] e1 e2 e3 split: bool.splits)
  have "fr_Allowed r0" by (simp add: r0_def)
  from exclusion_stage(2) [OF this, of nf ns] have a1: "fr_Allowed r1 = (\<not> b1)" by (simp add: e1)
  have a2: "fr_Allowed r1 \<Longrightarrow> fr_Allowed r2 = (\<not> b2)" using inclusion_stage(2) [of r1 nf ns] by (simp add: e2)
  have a3: "fr_Allowed r2 \<Longrightarrow> fr_Allowed r3 = (\<not> b3)" using metadata_stage(2) [of r2 client nf ns] by (simp add: e3)
  have "fr_Allowed (performFiltering client now nf ns) = (\<not> b1 \<and> \<not> b2 \<and> \<not> b3)"
    unfolding p using a1 a2 a3 by auto
  also have "\<dots> = namespace_admitted nf ns (namespace_read client ns)"
    using exclusion_stage(1) [of nf ns r0] inclusion_stage(1) [of nf ns r1] metadata_stage(1) [of client nf ns r2]
    unfolding namespace_admitted_def by (auto simp: e1 e2 e3 split: option.splits)
  finally show ?thesis .
qed

section \<open>Cached decisions are the computed ones\<close>

text \<open>
  The interface of a decision cache, as the filter uses it: what was stored is found, storing
  one key never invents or changes the entry of another, and clearing forgets everything. A
  cache filled only with computed decisions then only answers with computed decisions.
\<close>

locale decision_cache =
  fixes lookup :: "'s \<Rightarrow> 'k \<Rightarrow> 'v option" and store :: "'k \<Rightarrow> 'v \<Rightarrow> 's \<Rightarrow> 's" and clear :: "'s \<Rightarrow> 's"
  assumes lookup_store: "lookup (store k v s) k = Some v"
    and lookup_store_other: "k' \<noteq> k \<Longrightarrow> lookup (store k v s) k' = Some v' \<Longrightarrow> lookup s k' = Some v'"
    and lookup_clear: "lookup (clear s) k = None"
begin

lemma store_sound:
  assumes "\<And>k v. lookup s k = Some v \<Longrightarrow> P k v" and "P k0 v0"
    and "lookup (store k0 v0 s) k = Some v"
  shows "P k v"
proof (cases "k = k0")
  case True
  with assms(2,3) show ?thesis by (simp add: lookup_store)
next
  case False
  from assms(1) [OF lookup_store_other [OF this assms(3)]] show ?thesis .
qed

lemma clear_sound: "lookup (clear s) k = Some v \<Longrightarrow> P k v"
  by (simp add: lookup_clear)

lemma idempotent_answer:
  assumes "lookup s k = None"
  shows "lookup (store k v s) k = Some v"
  by (rule lookup_store)

end

interpretation decisions: decision_cache getCachedResult setCachedResult clearCache
proof unfold_locales
  fix k k' :: string and v v' :: FilterResult and s :: NamespaceFilter
  show "getCachedResult (setCachedResult k v s) k = Some v"
    by (simp add: getCachedResult_def setCachedResult_def Let_def update_conv')
  show "k' \<noteq> k \<Longrightarrow> getCachedResult (setCachedResult k v s) k' = Some v' \<Longrightarrow> getCachedResult s k' = Some v'"
    by (auto simp: getCachedResult_def setCachedResult_def Let_def update_conv' split: if_splits)
  show "getCachedResult (clearCache s) k = None"
    by (simp add: getCachedResult_def clearCache_def)
qed

lemma length_update_alist: "length (AList.update k v al) \<le> Suc (length al)"
  by (induction al) auto

text \<open>The part of a decision that does not depend on when and for whom it was taken.\<close>

definition verdict :: "FilterResult \<Rightarrow> bool \<times> string \<times> string" where
  "verdict r = (fr_Allowed r, fr_Reason r, fr_MatchedRule r)"

lemma stages_timestamp:
  "applyExclusionFilters nf ns (r\<lparr>fr_Timestamp := t\<rparr>) = apsnd (fr_Timestamp_update (\<lambda>_. t)) (applyExclusionFilters nf ns r)"
  "applyInclusionFilters nf ns (r\<lparr>fr_Timestamp := t\<rparr>) = apsnd (fr_Timestamp_update (\<lambda>_. t)) (applyInclusionFilters nf ns r)"
  "applyMetadataFilters client nf ns (r\<lparr>fr_Timestamp := t\<rparr>) = apsnd (fr_Timestamp_update (\<lambda>_. t)) (applyMetadataFilters client nf ns r)"
  by (auto simp: filter_stage_defs split: option.splits sum.splits)

lemma performFiltering_timestamp:
  "performFiltering client t nf ns = (performFiltering client now nf ns)\<lparr>fr_Timestamp := t\<rparr>"
proof -
  define r0 where "r0 = \<lparr>fr_Allowed = True, fr_Reason = ''default'', fr_Tenant = [], fr_MatchedRule = [], fr_Timestamp = now\<rparr>"
  obtain b1 r1 where e1: "applyExclusionFilters nf ns r0 = (b1, r1)" by fastforce
  obtain b2 r2 where e2: "applyInclusionFilters nf ns r1 = (b2, r2)" by fastforce
  obtain b3 r3 where e3: "applyMetadataFilters client nf ns r2 = (b3, r3)" by fastforce
  have t: "\<lparr>fr_Allowed = True, fr_Reason = ''default'', fr_Tenant = [], fr_MatchedRule = [], fr_Timestamp = t\<rparr> =
      r0\<lparr>fr_Timestamp := t\<rparr>" by (simp add: r0_def)
  show ?thesis
    unfolding performFiltering_def t r0_def [symmetric] stages_timestamp e1 Let_def
    by (cases b1; cases b2; cases b3) (simp_all add: stages_timestamp e2 e3)
qed

lemma performFiltering_verdict:
  "verdict (performFiltering client now nf ns) = verdict (performFiltering client now' nf ns)"
  unfolding performFiltering_timestamp [of client now nf ns now'] by (simp add: verdict_def)

definition same_settings :: "NamespaceFilter \<Rightarrow> NamespaceFilter \<Rightarrow> bool" where
  "same_settings nf nf' \<longleftrightarrow> nf_config nf = nf_config nf' \<and> nf_includeRegex nf = nf_includeRegex nf' \<and>
     nf_excludeRegex nf = nf_excludeRegex nf'"

lemma performFiltering_settings:
  assumes "same_settings nf nf'"
  shows "performFiltering client now nf ns = performFiltering client now nf' ns"
proof -
  have eqs: "nf_config nf = nf_config nf'" "nf_includeRegex nf = nf_includeRegex nf'"
    "nf_excludeRegex nf = nf_excludeRegex nf'" using assms by (simp_all add: same_settings_def)
  show ?thesis
    unfolding performFiltering_def filter_stage_defs isSystemNamespace_def checkRequiredLabels_def
      checkForbiddenLabels_def checkForbiddenAnnotations_def eqs ..
qed

definition cache_sound :: "k8s_client option \<Rightarrow> NamespaceFilter \<Rightarrow> bool" where
  "cache_sound client nf \<longleftrightarrow>
     (\<forall>ns r. getCachedResult nf ns = Some r \<longrightarrow> verdict r = verdict (performFiltering client 0 nf ns))"

lemma settings_simps [simp]:
  "same_settings nf nf" "same_settings (setCachedResult k v nf) nf" "same_settings (with_metrics f nf) nf"
  "same_settings (with_metrics f (setCachedResult k v nf)) nf"
  "getCachedResult (with_metrics f nf) k = getCachedResult nf k" "nf_cache (with_metrics f nf) = nf_cache nf"
  "nf_config (with_metrics f nf) = nf_config nf" "nf_config (setCachedResult k v nf) = nf_config nf"
  by (simp_all add: same_settings_def with_metrics_def setCachedResult_def getCachedResult_def)

lemma cache_sound_store:
  assumes "cache_sound client nf"
  shows "cache_sound client (setCachedResult ns (performFiltering client now nf ns) nf)"
  unfolding cache_sound_def
proof (intro allI impI)
  fix k r
  assume "getCachedResult (setCachedResult ns (performFiltering client now nf ns) nf) k = Some r"
  then have "verdict r = verdict (performFiltering client 0 nf k)"
    by (rule decisions.store_sound [where P = "\<lambda>k r. verdict r = verdict (performFiltering client 0 nf k)", rotated 2])
      (use assms performFiltering_verdict in \<open>auto simp: cache_sound_def\<close>)
  then show "verdict r = verdict (performFiltering client 0 (setCachedResult ns (performFiltering client now nf ns) nf) k)"
    by (simp add: performFiltering_settings [OF settings_simps(2)])
qed

lemma IsNamespaceAllowed_sound:
  assumes "cache_sound client nf" and "IsNamespaceAllowed client now1 now2 ns nf = (r, nf')"
  shows "verdict r = verdict (performFiltering client 0 nf ns)" and "cache_sound client nf'" and "same_settings nf' nf"
proof -
  have "verdict r = verdict (performFiltering client 0 nf ns) \<and> cache_sound client nf' \<and> same_settings nf' nf"
  proof (cases "if nfc_CacheEnabled (nf_config nf) then getCachedResult nf ns else None")
    case (Some c)
    with assms show ?thesis
      by (auto simp: IsNamespaceAllowed_def cache_sound_def performFiltering_settings [OF settings_simps(3)] split: if_splits)
  next
    case None
    define nf1 where "nf1 = (if nfc_CacheEnabled (nf_config nf) then setCachedResult ns (performFiltering client now1 nf ns) nf else nf)"
    define f where "f = RecordFilterResult now2 ns (fr_Allowed (performFiltering client now1 nf ns)) (fr_Reason (performFiltering client now1 nf ns))"
    have r: "r = performFiltering client now1 nf ns" "nf' = with_metrics f nf1"
      using assms(2) None by (auto simp: IsNamespaceAllowed_def Let_def nf1_def f_def)
    have "cache_sound client nf1" using assms(1) by (simp add: nf1_def cache_sound_store)
    moreover have "same_settings nf1 nf" by (simp add: nf1_def)
    ultimately show ?thesis
      by (simp add: r performFiltering_verdict [of client now1] cache_sound_def performFiltering_settings [OF settings_simps(3)])
        (simp add: same_settings_def with_metrics_def)
  qed
  then show "verdict r = verdict (performFiltering client 0 nf ns)" and "cache_sound client nf'" and "same_settings nf' nf"
    by blast+
qed

lemma IsNamespaceAllowed_size:
  assumes "IsNamespaceAllowed client now1 now2 ns nf = (r, nf')"
    and "int (length (nf_cache nf)) \<le> max 1 (nfc_CacheSize (nf_config nf))"
  shows "int (length (nf_cache nf')) \<le> max 1 (nfc_CacheSize (nf_config nf'))"
proof -
  have "int (length (nf_cache (setCachedResult ns v nf))) \<le> max 1 (nfc_CacheSize (nf_config nf))" for v
    using assms(2) length_update_alist [of ns v "nf_cache nf"] by (auto simp: setCachedResult_def Let_def)
  with assms show ?thesis
    by (auto simp: IsNamespaceAllowed_def Let_def split: option.splits if_splits)
qed

lemma allowed_namespaces_sound:
  assumes "cache_sound client nf" and "allowed_namespaces client now1 now2 acc names nf = (ns, nf')"
  shows "ns = acc @ filter (\<lambda>n. fr_Allowed (performFiltering client 0 nf n)) names \<and> cache_sound client nf' \<and> same_settings nf' nf"
  using assms
proof (induction names arbitrary: acc nf)
  case (Cons n names)
  obtain r nf1 where i: "IsNamespaceAllowed client now1 now2 n nf = (r, nf1)" by fastforce
  note s = IsNamespaceAllowed_sound [OF Cons.prems(1) i]
  have eq: "performFiltering client 0 nf1 = performFiltering client 0 nf"
    using performFiltering_settings [OF s(3)] by blast
  from Cons.IH [OF s(2)] Cons.prems(2) i
  have "ns = (if fr_Allowed r then acc @ [n] else acc) @ filter (\<lambda>n. fr_Allowed (performFiltering client 0 nf1 n)) names \<and>
      cache_sound client nf' \<and> same_settings nf' nf1" by simp
  with s(1,3) show ?case by (auto simp: verdict_def eq same_settings_def)
qed simp

lemma required_annotations_ignored:
  "performFiltering client now (nf\<lparr>nf_config := (nf_config nf)\<lparr>nfc_RequiredAnnotations := ra\<rparr>\<rparr>) ns =
   performFiltering client now nf ns" (is "performFiltering client now ?nf ns = _")
proof -
  have eqs: "nf_includeRegex ?nf = nf_includeRegex nf" "nf_excludeRegex ?nf = nf_excludeRegex nf"
    "nfc_SystemNamespaces (nf_config ?nf) = nfc_SystemNamespaces (nf_config nf)"
    "nfc_IncludeSystemNamespaces (nf_config ?nf) = nfc_IncludeSystemNamespaces (nf_config nf)"
    "nfc_ExcludeNamespaces (nf_config ?nf) = nfc_ExcludeNamespaces (nf_config nf)"
    "nfc_ExcludePatterns (nf_config ?nf) = nfc_ExcludePatterns (nf_config nf)"
    "nfc_IncludeNamespaces (nf_config ?nf) = nfc_IncludeNamespaces (nf_config nf)"
    "nfc_IncludePatterns (nf_config ?nf) = nfc_IncludePatterns (nf_config nf)"
    "nfc_RequiredLabels (nf_config ?nf) = nfc_RequiredLabels (nf_config nf)"
    "nfc_ForbiddenLabels (nf_config ?nf) = nfc_ForbiddenLabels (nf_config nf)"
    "nfc_ForbiddenAnnotations (nf_config ?nf) = nfc_ForbiddenAnnotations (nf_config nf)"
    by simp_all
  show ?thesis
    unfolding performFiltering_def filter_stage_defs isSystemNamespace_def checkRequiredLabels_def
      checkForbiddenLabels_def checkForbiddenAnnotations_def eqs ..
qed

lemma allowed_namespaces_size:
  assumes "allowed_namespaces client now1 now2 acc names nf = (ns, nf')"
    and "int (length (nf_cache nf)) \<le> max 1 (nfc_CacheSize (nf_config nf))"
  shows "int (length (nf_cache nf')) \<le> max 1 (nfc_CacheSize (nf_config nf'))"
  using assms
proof (induction names arbitrary: acc nf)
  case (Cons n names)
  obtain r nf1 where i: "IsNamespaceAllowed client now1 now2 n nf = (r, nf1)" by fastforce
  from Cons.IH [OF _ IsNamespaceAllowed_size [OF i Cons.prems(2)]] Cons.prems(1) i show ?case by simp
qed simp

section \<open>Properties\<close>

text \<open>C24: A namespace is allowed exactly when it is no system namespace (unless those are
  included), not excluded by name or pattern, named and matched by the include lists that are
  not empty, and, if its object can be read, carries the required labels and none of the
  forbidden labels and annotations. A namespace object that cannot be read, for whatever
  error, passes, and the required annotations of the configuration are never consulted.\<close>

theorem namespace_decision:
  "fr_Allowed (performFiltering client now nf ns) = namespace_admitted nf ns (namespace_read client ns) \<and>
   performFiltering client now (nf\<lparr>nf_config := (nf_config nf)\<lparr>nfc_RequiredAnnotations := ra\<rparr>\<rparr>) ns =
     performFiltering client now nf ns"
  using performFiltering_admitted required_annotations_ignored by blast

text \<open>From an empty cache, listing the namespaces through the cache gives exactly the
  namespaces a fresh decision admits, in order and with their duplicates, and the cache never
  holds more entries than its configured size (at least one), however often it overflows.\<close>

theorem filtered_namespaces_exact:
  assumes "cl_ListNamespaces c = Inr items" and "nf_cache nf = []"
  shows "\<exists>nf'. GetFilteredNamespaces c now1 now2 nf =
      (Inr (filter (\<lambda>n. namespace_admitted nf n (namespace_read (Some c) n)) (map ns_Name items)), nf') \<and>
    int (length (nf_cache nf')) \<le> max 1 (nfc_CacheSize (nf_config nf'))"
proof -
  obtain r nf' where a: "allowed_namespaces (Some c) now1 now2 [] (map ns_Name items) nf = (r, nf')" by fastforce
  have "cache_sound (Some c) nf" using assms(2) by (simp add: cache_sound_def getCachedResult_def)
  from allowed_namespaces_sound [OF this a] allowed_namespaces_size [OF a] assms a show ?thesis
    by (simp add: GetFilteredNamespaces_def performFiltering_admitted)
qed

definition sample_filter :: NamespaceFilter where
  "sample_filter = \<lparr>nf_config = DefaultNamespaceFilterConfig\<lparr>nfc_CacheSize := 1, nfc_TenantMode := True\<rparr>,
     nf_includeRegex = [], nf_excludeRegex = [\<lambda>s. HasPrefix s ''kube-'', \<lambda>s. HasPrefix s ''openshift-''],
     nf_cache = [], nf_metrics = None\<rparr>"

definition sample_namespaces :: k8s_client where
  "sample_namespaces = empty_cluster\<lparr>cl_ListNamespaces :=
     Inr (map (\<lambda>n. \<lparr>ns_Name = n, ns_Labels = None, ns_Annotations = None\<rparr>) [''shop'', ''kube-system'', ''pay'', ''shop''])\<rparr>"

theorem filtered_namespaces_exact_witness:
  "fst (GetFilteredNamespaces sample_namespaces 1 1 sample_filter) = Inr [''shop'', ''pay'', ''shop'']"
proof -
  let ?ok = "\<lambda>n. namespace_admitted sample_filter n (namespace_read (Some sample_namespaces) n)"
  have n: "cl_ListNamespaces sample_namespaces =
      Inr (map (\<lambda>n. \<lparr>ns_Name = n, ns_Labels = None, ns_Annotations = None\<rparr>) [''shop'', ''kube-system'', ''pay'', ''shop''])"
    by (simp add: sample_namespaces_def)
  have ok: "?ok ''shop''" "?ok ''pay''" "\<not> ?ok ''kube-system''"
    by (simp_all add: namespace_admitted_def sample_filter_def DefaultNamespaceFilterConfig_def isSystemNamespace_def
        HasPrefix_def namespace_read_def sample_namespaces_def empty_cluster_def)
  have "nf_cache sample_filter = []" by (simp add: sample_filter_def)
  from filtered_namespaces_exact [OF n this, of 1 1] show ?thesis by (auto simp: ok)
qed

text \<open>A tenant query writes its tenant into the cached decision: after it, a query that
  names no tenant, and one in a later reconciliation, returns that tenant.\<close>

theorem tenant_written_to_cache:
  assumes "nfc_CacheEnabled (nf_config nf)" and "nfc_TenantMode (nf_config nf)"
    and "fr_Allowed (fst (IsNamespaceAllowed client now1 now2 ns nf))"
    and "fr_Allowed (checkTenantAccess now3 nf ns tenant)"
  shows "fr_Tenant (fst (IsNamespaceAllowed client now4 now5 ns
    (snd (IsNamespaceAllowedForTenant client now1 now2 now3 ns tenant nf)))) = tenant"
proof -
  obtain r nf1 where i: "IsNamespaceAllowed client now1 now2 ns nf = (r, nf1)" by fastforce
  have c: "nf_config nf1 = nf_config nf"
    using i by (auto simp: IsNamespaceAllowed_def Let_def split: option.splits if_splits)
  have t: "checkTenantAccess now3 nf1 ns tenant = checkTenantAccess now3 nf ns tenant"
    by (simp add: checkTenantAccess_def c)
  show ?thesis using assms i
    by (simp add: IsNamespaceAllowedForTenant_def t c Let_def)
      (simp add: IsNamespaceAllowed_def getCachedResult_def update_conv' c)
qed

theorem tenant_written_to_cache_witness:
  "fr_Tenant (fst (IsNamespaceAllowed None 2 2 ''shop''
    (snd (IsNamespaceAllowedForTenant None 1 1 1 ''shop'' ''acme'' sample_filter)))) = ''acme''"
proof -
  have "nfc_CacheEnabled (nf_config sample_filter)" "nfc_TenantMode (nf_config sample_filter)"
    by (simp_all add: sample_filter_def DefaultNamespaceFilterConfig_def)
  moreover have "fr_Allowed (fst (IsNamespaceAllowed None 1 1 ''shop'' sample_filter))"
  proof -
    have "fst (IsNamespaceAllowed None 1 1 ''shop'' sample_filter) = performFiltering None 1 sample_filter ''shop''"
      by (simp add: IsNamespaceAllowed_def sample_filter_def getCachedResult_def Let_def)
    then show ?thesis
      by (simp add: performFiltering_admitted namespace_admitted_def namespace_read_def sample_filter_def
          DefaultNamespaceFilterConfig_def isSystemNamespace_def HasPrefix_def)
  qed
  moreover have "fr_Allowed (checkTenantAccess 1 sample_filter ''shop'' ''acme'')"
    by (simp add: checkTenantAccess_def sample_filter_def DefaultNamespaceFilterConfig_def)
  ultimately show ?thesis by (rule tenant_written_to_cache)
qed

end
