(* ===== verification/Eviction.thy ===== *)
theory Eviction
  imports Kube_Objects
begin

text \<open>
  \<^verbatim>\<open>pkg/controllers/eviction.go\<close>: the eviction of one pod through the API's
  eviction subresource, its dry run, the check of the budgets that match the pod, and the
  error value for blocked evictions.
\<close>

datatype EvictionResult =
    EvictionResultEvicted
  | EvictionResultPDBBlocked
  | EvictionResultAlreadyGone
  | EvictionResultError

record PDBStatus =
  ps_HasPDB :: bool
  ps_PDBName :: string
  ps_DisruptionsAllowed :: int
  ps_CurrentHealthy :: int
  ps_DesiredHealthy :: int
  ps_ExpectedPods :: int
  ps_CanDisrupt :: bool
  ps_BlockReason :: string

definition EvictPod :: "k8s_client \<Rightarrow> pod \<Rightarrow> EvictionResult \<times> go_error option" where
  "EvictPod c pod =
     (case cl_Evict c pod False of
        None \<Rightarrow> (EvictionResultEvicted, None)
      | Some err \<Rightarrow>
          if IsNotFound err then (EvictionResultAlreadyGone, None)
          else if IsTooManyRequests err then (EvictionResultPDBBlocked, Some err)
          else (EvictionResultError, Some err))"

definition CanEvict :: "k8s_client \<Rightarrow> pod \<Rightarrow> bool \<times> go_error option" where
  "CanEvict c pod =
     (case cl_Evict c pod True of
        None \<Rightarrow> (True, None)
      | Some err \<Rightarrow>
          if IsNotFound err then (False, Some (Wrapped ''pod not found'' err))
          else if IsTooManyRequests err then (False, None)
          else (False, Some (Wrapped ''dry-run eviction failed'' err)))"

definition no_pdb :: PDBStatus where
  "no_pdb = \<lparr>ps_HasPDB = False, ps_PDBName = [], ps_DisruptionsAllowed = 0, ps_CurrentHealthy = 0,
     ps_DesiredHealthy = 0, ps_ExpectedPods = 0, ps_CanDisrupt = True, ps_BlockReason = []\<rparr>"

definition block_reason :: "pod_disruption_budget \<Rightarrow> string" where
  "block_reason pdb = ''PDB '' @ pdb_Name pdb @ '' blocks eviction: '' @ FormatInt (pdb_CurrentHealthy pdb) @
     ''/'' @ FormatInt (pdb_ExpectedPods pdb) @ '' healthy, need '' @ FormatInt (pdb_DesiredHealthy pdb) @
     '', disruptions allowed: '' @ FormatInt (pdb_DisruptionsAllowed pdb)"

definition status_of_pdb :: "pod_disruption_budget \<Rightarrow> PDBStatus" where
  "status_of_pdb pdb =
     (let status = no_pdb\<lparr>ps_HasPDB := True, ps_PDBName := pdb_Name pdb,
            ps_DisruptionsAllowed := pdb_DisruptionsAllowed pdb,
            ps_CurrentHealthy := pdb_CurrentHealthy pdb,
            ps_DesiredHealthy := pdb_DesiredHealthy pdb,
            ps_ExpectedPods := pdb_ExpectedPods pdb\<rparr>
      in if pdb_DisruptionsAllowed pdb < 1
         then status\<lparr>ps_CanDisrupt := False, ps_BlockReason := block_reason pdb\<rparr>
         else status)"

text \<open>The loop over the budgets: a nil or malformed selector is skipped, the first match ends it.\<close>

fun first_matching_pdb :: "as_selector \<Rightarrow> pod \<Rightarrow> pod_disruption_budget list \<Rightarrow> PDBStatus" where
  "first_matching_pdb as_sel pod [] = no_pdb"
| "first_matching_pdb as_sel pod (pdb # rest) =
     (case pdb_Selector pdb of
        None \<Rightarrow> first_matching_pdb as_sel pod rest
      | Some sel \<Rightarrow>
         (case as_sel sel of
            Inl err \<Rightarrow> first_matching_pdb as_sel pod rest
          | Inr matches \<Rightarrow>
              if \<not> matches (pod_Labels pod) then first_matching_pdb as_sel pod rest
              else status_of_pdb pdb))"

definition CheckPDBStatus :: "as_selector \<Rightarrow> k8s_client \<Rightarrow> pod \<Rightarrow> go_error + PDBStatus" where
  "CheckPDBStatus as_sel c pod =
     (case cl_ListPDBs c (pod_Namespace pod) of
        Inl err \<Rightarrow> Inl (Wrapped ''listing PDBs'' err)
      | Inr pdbs \<Rightarrow> Inr (first_matching_pdb as_sel pod pdbs))"

definition NewEvictionBlockedError :: "string \<Rightarrow> string \<Rightarrow> go_error option \<Rightarrow> go_error" where
  "NewEvictionBlockedError podName reason err = EvictionBlocked podName reason err"

text \<open>\<^verbatim>\<open>errors.As\<close> walks the chain of wrapped errors.\<close>

fun IsEvictionBlocked :: "go_error \<Rightarrow> bool" where
  "IsEvictionBlocked (EvictionBlocked p r e) = True"
| "IsEvictionBlocked (Wrapped s e) = IsEvictionBlocked e"
| "IsEvictionBlocked (StatusError r) = False"
| "IsEvictionBlocked (Errorf s) = False"

section \<open>Which budget decides\<close>

definition selects :: "as_selector \<Rightarrow> pod \<Rightarrow> pod_disruption_budget \<Rightarrow> bool" where
  "selects as_sel pod pdb =
     (case pdb_Selector pdb of
        None \<Rightarrow> False
      | Some sel \<Rightarrow> (case as_sel sel of Inl _ \<Rightarrow> False | Inr matches \<Rightarrow> matches (pod_Labels pod)))"

lemma first_matching_pdb_find:
  "first_matching_pdb as_sel pod pdbs =
     (case find (selects as_sel pod) pdbs of None \<Rightarrow> no_pdb | Some pdb \<Rightarrow> status_of_pdb pdb)"
  by (induction pdbs) (auto simp: selects_def split: option.splits sum.splits)

lemma status_of_pdb_simps [simp]:
  "ps_HasPDB (status_of_pdb b)" "ps_PDBName (status_of_pdb b) = pdb_Name b"
  "ps_CanDisrupt (status_of_pdb b) = (1 \<le> pdb_DisruptionsAllowed b)"
  "ps_CanDisrupt no_pdb" "\<not> ps_HasPDB no_pdb"
  by (auto simp: status_of_pdb_def no_pdb_def Let_def)

lemma CheckPDBStatus_cases:
  assumes "CheckPDBStatus as_sel c pod = Inr st"
  obtains (none) pdbs where "cl_ListPDBs c (pod_Namespace pod) = Inr pdbs"
      "\<forall>b\<in>set pdbs. \<not> selects as_sel pod b" "st = no_pdb"
    | (first) pre b post where "cl_ListPDBs c (pod_Namespace pod) = Inr (pre @ b # post)"
      "\<forall>b'\<in>set pre. \<not> selects as_sel pod b'" "selects as_sel pod b" "st = status_of_pdb b"
proof -
  from assms obtain pdbs where l: "cl_ListPDBs c (pod_Namespace pod) = Inr pdbs"
    and st: "st = first_matching_pdb as_sel pod pdbs"
    by (auto simp: CheckPDBStatus_def split: sum.splits)
  show thesis
  proof (cases "find (selects as_sel pod) pdbs")
    case None
    with l st find_NoneD [OF None] show thesis by (intro none) (simp_all add: first_matching_pdb_find)
  next
    case (Some b)
    with find_split [OF Some] l st first show thesis by (auto simp: first_matching_pdb_find)
  qed
qed

lemma EvictPod_cases:
  obtains (evicted) "cl_Evict c pod False = None" "EvictPod c pod = (EvictionResultEvicted, None)"
    | (gone) e where "cl_Evict c pod False = Some e" "IsNotFound e"
        "EvictPod c pod = (EvictionResultAlreadyGone, None)"
    | (blocked) e where "cl_Evict c pod False = Some e" "IsTooManyRequests e"
        "EvictPod c pod = (EvictionResultPDBBlocked, Some e)"
    | (failed) e where "cl_Evict c pod False = Some e" "\<not> IsNotFound e" "\<not> IsTooManyRequests e"
        "EvictPod c pod = (EvictionResultError, Some e)"
proof (cases "cl_Evict c pod False")
  case None
  then show thesis by (intro evicted) (simp_all add: EvictPod_def)
next
  case (Some e)
  then show thesis
    by (cases "IsNotFound e"; cases "IsTooManyRequests e") (auto simp: EvictPod_def intro: gone blocked failed)
qed

lemma NotFound_not_TooMany: "IsNotFound e \<Longrightarrow> \<not> IsTooManyRequests e"
  by (auto simp: IsNotFound_def IsTooManyRequests_def)

section \<open>Properties\<close>

text \<open>The budget check allows a pod exactly when the first budget of its namespace whose
  selector is well formed and matches the pod permits a disruption, or no budget matches;
  later matching budgets are not looked at.\<close>

theorem pdb_check_first_match:
  assumes "cl_ListPDBs c (pod_Namespace pod) = Inr pdbs"
  shows "\<exists>st. CheckPDBStatus as_sel c pod = Inr st \<and>
    ps_CanDisrupt st = (case find (selects as_sel pod) pdbs of None \<Rightarrow> True | Some b \<Rightarrow> 1 \<le> pdb_DisruptionsAllowed b) \<and>
    ps_HasPDB st = (\<exists>b\<in>set pdbs. selects as_sel pod b)"
proof (cases "find (selects as_sel pod) pdbs")
  case None
  with find_NoneD [OF None] assms show ?thesis by (simp add: CheckPDBStatus_def first_matching_pdb_find)
next
  case (Some b)
  with find_SomeD [OF Some] assms show ?thesis by (auto simp: CheckPDBStatus_def first_matching_pdb_find)
qed

definition sample_pdb :: "string \<Rightarrow> int \<Rightarrow> pod_disruption_budget" where
  "sample_pdb name allowed = \<lparr>pdb_Name = name, pdb_Namespace = ''shop'',
     pdb_Selector = Some \<lparr>ls_MatchLabels = [], ls_MatchExpressions = []\<rparr>, pdb_DisruptionsAllowed = allowed,
     pdb_CurrentHealthy = 3, pdb_DesiredHealthy = 3, pdb_ExpectedPods = 3\<rparr>"

text \<open>A second, exhausted budget does not block when the first one allows a disruption.\<close>

theorem pdb_check_first_match_witness:
  "\<exists>st. CheckPDBStatus match_labels
      (empty_cluster\<lparr>cl_ListPDBs := \<lambda>_. Inr [sample_pdb ''a'' 1, sample_pdb ''b'' 0]\<rparr>) (sample_pod ''web-0'' ''n1'') = Inr st \<and>
    ps_CanDisrupt st"
  using pdb_check_first_match [of "empty_cluster\<lparr>cl_ListPDBs := \<lambda>_. Inr [sample_pdb ''a'' 1, sample_pdb ''b'' 0]\<rparr>"
      "sample_pod ''web-0'' ''n1''" "[sample_pdb ''a'' 1, sample_pdb ''b'' 0]" match_labels]
  by (auto simp: selects_def sample_pdb_def match_labels_def)

text \<open>An eviction that a budget refuses is reported as blocked with its error, one whose pod
  is gone is a success without error, and an error is returned exactly for the other two
  results; wrapping an error changes neither the outcome nor the detection of a blocked
  eviction.\<close>

theorem eviction_outcomes:
  shows "(fst (EvictPod c pod) \<in> {EvictionResultPDBBlocked, EvictionResultError} \<longleftrightarrow> snd (EvictPod c pod) \<noteq> None) \<and>
    (fst (EvictPod c pod) = EvictionResultPDBBlocked \<longleftrightarrow> (\<exists>e. cl_Evict c pod False = Some e \<and> IsTooManyRequests e)) \<and>
    (fst (EvictPod c pod) = EvictionResultAlreadyGone \<longleftrightarrow> (\<exists>e. cl_Evict c pod False = Some e \<and> IsNotFound e)) \<and>
    EvictPod (c\<lparr>cl_Evict := \<lambda>p d. map_option (Wrapped s) (cl_Evict c p d)\<rparr>) pod =
      (fst (EvictPod c pod), map_option (Wrapped s) (snd (EvictPod c pod))) \<and>
    IsEvictionBlocked (Wrapped s (NewEvictionBlockedError n r (Some e)))"
  by (auto simp: EvictPod_def IsNotFound_def IsTooManyRequests_def NewEvictionBlockedError_def split: option.splits)

end
