(* ===== verification/Controller_Common.thy ===== *)
theory Controller_Common
  imports Node_Classifier Namespace_Filter Eviction Disruption_Window
begin

text \<open>
  What the Deployment and the StatefulSet controller share: the reconciler's state and
  configuration, the bookkeeping of errors, the timing defaults of
  \<^verbatim>\<open>pkg/controllers/manager.go\<close>, the trace of effects, and the contract
  \<open>workload_controller\<close> under which the rate of evictions is bounded.

  A reconciliation is a function of an environment and the state. The environment answers
  the reads of the clock and the calls of the API in the order the code makes them: reading
  \<open>i\<close> of the clock is \<open>e_clk i\<close>, the cluster seen by the \<open>i\<close>-th group of
  calls is \<open>e_api i\<close>, so that nothing is assumed about two reads in one reconciliation.
\<close>

record WorkloadTimingConfig =
  wt_CooldownPeriod :: duration
  wt_DisruptionRetryInterval :: duration
  wt_DisruptionWindowPollInterval :: duration

definition defaultWorkloadTimingConfig :: WorkloadTimingConfig where
  "defaultWorkloadTimingConfig =
     \<lparr>wt_CooldownPeriod = 10 * Second, wt_DisruptionRetryInterval = 1 * Minute,
      wt_DisruptionWindowPollInterval = 10 * Minute\<rparr>"

definition wt_withDefaults :: "WorkloadTimingConfig \<Rightarrow> WorkloadTimingConfig" where
  "wt_withDefaults c =
     (let defaults = defaultWorkloadTimingConfig;
          c = (if wt_CooldownPeriod c \<le> 0 then c\<lparr>wt_CooldownPeriod := wt_CooldownPeriod defaults\<rparr> else c);
          c = (if wt_DisruptionRetryInterval c \<le> 0
               then c\<lparr>wt_DisruptionRetryInterval := wt_DisruptionRetryInterval defaults\<rparr> else c);
          c = (if wt_DisruptionWindowPollInterval c \<le> 0
               then c\<lparr>wt_DisruptionWindowPollInterval := wt_DisruptionWindowPollInterval defaults\<rparr> else c)
      in c)"

datatype reconcile_error =
    ApiError go_error
  | ParseError annotation_error
  | WindowError "go_error resolve_error"
  | InvalidDeletionTime

record request =
  rq_Namespace :: string
  rq_Name :: string

definition request_String :: "request \<Rightarrow> string" where
  "request_String req = rq_Namespace req @ ''/'' @ rq_Name req"

record ControllerError =
  ce_Error :: reconcile_error
  ce_Timestamp :: time
  ce_Request :: request
  ce_Recovered :: bool

text \<open>
  The map of deletion times holds values of any type; the controllers only store times.
  The observer is present or not (\<open>rc_Observer\<close>) and classifies with the reconciler's
  own classifier service, as both set-ups in the sources wire it.
\<close>

datatype sync_value = TimeValue time | NoTimeValue

record reconciler =
  rc_NodeClassifier :: NodeClassifierService
  rc_Observer :: bool
  rc_NamespaceFilter :: "NamespaceFilter option"
  rc_ReconcileInterval :: duration
  rc_MetricsCollector :: bool
  rc_Config :: "DisruptionWindowConfig option"
  rc_CooldownPeriod :: duration
  rc_DisruptionRetryInterval :: duration
  rc_DisruptionWindowPollInterval :: duration
  rc_lastDeletionTimes :: "string \<rightharpoonup> sync_value"
  rc_reconcileCount :: int
  rc_errorCount :: int
  rc_lastError :: "ControllerError option"

record podWithOrdinal =
  pwo_pod :: pod
  pwo_ordinal :: int

text \<open>
  \<open>e_sort\<close> is the runtime's \<^verbatim>\<open>sort.Slice\<close> on the one slice type the
  controllers sort; which of two equal elements comes first is not specified there.
\<close>

record env =
  e_api :: "nat \<Rightarrow> k8s_client"
  e_clk :: "nat \<Rightarrow> time"
  e_selector :: as_selector
  e_parse :: "string \<Rightarrow> schedule option"
  e_sort :: "(podWithOrdinal \<Rightarrow> podWithOrdinal \<Rightarrow> bool) \<Rightarrow> podWithOrdinal list \<Rightarrow> podWithOrdinal list"

text \<open>What a reconciliation does to the outside: metric records, evictions, updates.\<close>

datatype effect =
    WorkloadMetrics string string string int
  | ReconciliationMetric string string string string "reconcile_error option"
  | PDBBlockMetric string string string string
  | EvictionRequest pod
  | StatefulSetUpdate statefulset

text \<open>\<^verbatim>\<open>ctrl.Result\<close> is its \<^verbatim>\<open>RequeueAfter\<close>; no code sets the other field.\<close>

type_synonym reconcile_result = "(duration \<times> reconcile_error option) \<times> reconciler \<times> effect list"

definition getCooldownPeriod :: "reconciler \<Rightarrow> duration" where
  "getCooldownPeriod r =
     (if rc_CooldownPeriod r > 0 then rc_CooldownPeriod r else wt_CooldownPeriod defaultWorkloadTimingConfig)"

definition getDisruptionRetryInterval :: "reconciler \<Rightarrow> duration" where
  "getDisruptionRetryInterval r =
     (if rc_DisruptionRetryInterval r > 0 then rc_DisruptionRetryInterval r
      else wt_DisruptionRetryInterval defaultWorkloadTimingConfig)"

definition getDisruptionWindowPollInterval :: "reconciler \<Rightarrow> duration" where
  "getDisruptionWindowPollInterval r =
     (if rc_DisruptionWindowPollInterval r > 0 then rc_DisruptionWindowPollInterval r
      else wt_DisruptionWindowPollInterval defaultWorkloadTimingConfig)"

definition setLastError :: "ControllerError \<Rightarrow> reconciler \<Rightarrow> reconciler" where
  "setLastError err r = r\<lparr>rc_lastError := Some err\<rparr>"

text \<open>The three statements every failure of a reconciliation executes.\<close>

definition record_error :: "time \<Rightarrow> request \<Rightarrow> reconcile_error \<Rightarrow> reconciler \<Rightarrow> reconciler" where
  "record_error now req err r =
     setLastError \<lparr>ce_Error = err, ce_Timestamp = now, ce_Request = req, ce_Recovered = False\<rparr>
       (r\<lparr>rc_errorCount := i64 (rc_errorCount r + 1)\<rparr>)"

definition markRecovered :: "reconciler \<Rightarrow> reconciler" where
  "markRecovered r =
     (case rc_lastError r of
        None \<Rightarrow> r
      | Some e \<Rightarrow> if \<not> ce_Recovered e then r\<lparr>rc_lastError := Some (e\<lparr>ce_Recovered := True\<rparr>)\<rparr> else r)"

text \<open>Is the last deletion of the key still within the cooldown? The remaining time if so.\<close>

definition cooldown_remaining :: "duration \<Rightarrow> time \<Rightarrow> time \<Rightarrow> duration option" where
  "cooldown_remaining cooldownPeriod now lastDeletion =
     (let timeSinceLastDeletion = time_sub now lastDeletion
      in if timeSinceLastDeletion < cooldownPeriod then Some (i64 (cooldownPeriod - timeSinceLastDeletion)) else None)"

text \<open>
  The first part of both handlers, up to the cooldown: the object's labels, the namespace
  filter, the last deletion. \<open>GateReturn\<close> is an early return.
\<close>

text \<open>
  The namespace filter's error is nil on every path (\<^verbatim>\<open>performFiltering\<close> never
  returns one), so the handlers' branch for it is not taken and not modelled.
\<close>

datatype gate = GateReturn "duration \<times> reconcile_error option" | GatePass

definition namespace_gate :: "env \<Rightarrow> string \<Rightarrow> reconciler \<Rightarrow> bool \<times> reconciler" where
  "namespace_gate e ns r =
     (case rc_NamespaceFilter r of
        None \<Rightarrow> (True, r)
      | Some nf \<Rightarrow>
         (case IsNamespaceAllowed (Some (e_api e 1)) (e_clk e 1) (e_clk e 2) ns nf of
            (result, nf) \<Rightarrow> (fr_Allowed result, r\<lparr>rc_NamespaceFilter := Some nf\<rparr>)))"

definition cooldown_gate :: "env \<Rightarrow> string \<Rightarrow> reconciler \<Rightarrow> gate" where
  "cooldown_gate e key r =
     (case rc_lastDeletionTimes r key of
        None \<Rightarrow> GatePass
      | Some NoTimeValue \<Rightarrow> GateReturn (0, Some InvalidDeletionTime)
      | Some (TimeValue lastDeletion) \<Rightarrow>
         (case cooldown_remaining (getCooldownPeriod r) (e_clk e 3) lastDeletion of
            Some remainingCooldown \<Rightarrow> GateReturn (remainingCooldown, None)
          | None \<Rightarrow> GatePass))"

section \<open>Facts about the shared state\<close>

lemma record_error_simps [simp]:
  "rc_errorCount (record_error now req err r) = i64 (rc_errorCount r + 1)"
  "rc_lastDeletionTimes (record_error now req err r) = rc_lastDeletionTimes r"
  "rc_reconcileCount (record_error now req err r) = rc_reconcileCount r"
  "rc_lastError (record_error now req err r) =
     Some \<lparr>ce_Error = err, ce_Timestamp = now, ce_Request = req, ce_Recovered = False\<rparr>"
  "getCooldownPeriod (record_error now req err r) = getCooldownPeriod r"
  by (simp_all add: record_error_def setLastError_def getCooldownPeriod_def)

lemma markRecovered_simps [simp]:
  "rc_errorCount (markRecovered r) = rc_errorCount r"
  "rc_lastDeletionTimes (markRecovered r) = rc_lastDeletionTimes r"
  "getCooldownPeriod (markRecovered r) = getCooldownPeriod r"
  by (auto simp: markRecovered_def getCooldownPeriod_def split: option.splits)

lemma namespace_gate_simps [simp]:
  "rc_lastDeletionTimes (snd (namespace_gate e ns r)) = rc_lastDeletionTimes r"
  "rc_errorCount (snd (namespace_gate e ns r)) = rc_errorCount r"
  "getCooldownPeriod (snd (namespace_gate e ns r)) = getCooldownPeriod r"
  by (auto simp: namespace_gate_def getCooldownPeriod_def split: option.splits prod.splits)

lemma getCooldownPeriod_positive: "0 < getCooldownPeriod r"
  by (simp add: getCooldownPeriod_def defaultWorkloadTimingConfig_def Second_def)

lemma cooldown_remaining_None_iff:
  assumes "in_i64 c" "0 < c"
  shows "cooldown_remaining c now deleted = None \<longleftrightarrow> deleted + c \<le> now"
  using time_sub_less [OF assms(1), of now deleted] assms(2) by (auto simp: cooldown_remaining_def Let_def)

lemma cooldown_gate_pass_iff:
  "cooldown_gate e key r = GatePass \<longleftrightarrow>
     (case rc_lastDeletionTimes r key of None \<Rightarrow> True | Some NoTimeValue \<Rightarrow> False
      | Some (TimeValue deleted) \<Rightarrow> cooldown_remaining (getCooldownPeriod r) (e_clk e 3) deleted = None)"
  by (auto simp: cooldown_gate_def split: option.splits sync_value.splits)

section \<open>The controller contract\<close>

definition evictions :: "effect list \<Rightarrow> pod list" where
  "evictions effs = concat (map (\<lambda>x. case x of EvictionRequest p \<Rightarrow> [p] | _ \<Rightarrow> []) effs)"

lemma evictions_simps [simp]:
  "evictions [] = []" "evictions (xs @ ys) = evictions xs @ evictions ys"
  "evictions (EvictionRequest p # xs) = p # evictions xs"
  "evictions (WorkloadMetrics a b c d # xs) = evictions xs"
  "evictions (ReconciliationMetric a b c d' e # xs) = evictions xs"
  "evictions (PDBBlockMetric a b c f # xs) = evictions xs"
  "evictions (StatefulSetUpdate s # xs) = evictions xs"
  by (simp_all add: evictions_def)

text \<open>
  One run is a list of environments, all for the same request; \<open>deleted\<close> are the times
  the controller recorded for the deletions it caused.
\<close>

fun run_controller :: "(env \<Rightarrow> request \<Rightarrow> reconciler \<Rightarrow> reconcile_result) \<Rightarrow> request \<Rightarrow> env list \<Rightarrow> reconciler \<Rightarrow>
    reconciler \<times> effect list list" where
  "run_controller reconcile req [] r = (r, [])"
| "run_controller reconcile req (e # es) r =
     (case reconcile e req r of (_, r, effs) \<Rightarrow>
        (case run_controller reconcile req es r of (r, rest) \<Rightarrow> (r, effs # rest)))"

text \<open>
  The contract: a reconciliation requests at most one eviction, none while the cooldown of
  its key runs, and leaves the recorded deletion time as it was or sets it to the reading
  \<open>e_clk e 15\<close> of the clock, the latter only when it requested an eviction; the
  configuration is never changed.
\<close>

locale workload_controller =
  fixes reconcile :: "env \<Rightarrow> request \<Rightarrow> reconciler \<Rightarrow> reconcile_result"
  assumes at_most_one: "reconcile e req r = (res, r', effs) \<Longrightarrow> length (evictions effs) \<le> 1"
    and cooldown_respected: "reconcile e req r = (res, r', effs) \<Longrightarrow> evictions effs \<noteq> [] \<Longrightarrow>
      cooldown_gate e (request_String req) r = GatePass"
    and deletion_recorded: "reconcile e req r = (res, r', effs) \<Longrightarrow>
      rc_lastDeletionTimes r' (request_String req) \<noteq> rc_lastDeletionTimes r (request_String req) \<Longrightarrow>
      rc_lastDeletionTimes r' (request_String req) = Some (TimeValue (e_clk e 15)) \<and> evictions effs \<noteq> [] \<or>
      rc_lastDeletionTimes r' (request_String req) = None \<and> evictions effs = []"
    and cooldown_constant: "reconcile e req r = (res, r', effs) \<Longrightarrow> getCooldownPeriod r' = getCooldownPeriod r"
begin

text \<open>While the last recorded deletion is recent, no reconciliation of the run evicts.\<close>

lemma no_eviction_in_cooldown:
  assumes "rc_lastDeletionTimes r (request_String req) = Some (TimeValue deleted)"
    and "in_i64 (getCooldownPeriod r)"
    and "e_clk e 3 < deleted + getCooldownPeriod r"
    and "reconcile e req r = (res, r', effs)"
  shows "evictions effs = []"
    and "rc_lastDeletionTimes r' (request_String req) \<in> {None, Some (TimeValue deleted)}"
proof -
  have "cooldown_gate e (request_String req) r \<noteq> GatePass"
    using assms(1,3) cooldown_remaining_None_iff [OF assms(2) getCooldownPeriod_positive, of "e_clk e 3" deleted]
    by (simp add: cooldown_gate_pass_iff)
  with cooldown_respected [OF assms(4)] show "evictions effs = []" by blast
  with deletion_recorded [OF assms(4)] assms(1)
  show "rc_lastDeletionTimes r' (request_String req) \<in> {None, Some (TimeValue deleted)}" by auto
qed

text \<open>The number of evictions of a run never exceeds the number of reconciliations.\<close>

lemma run_evictions_bound:
  "run_controller reconcile req es r = (r', trace) \<Longrightarrow> length (evictions (concat trace)) \<le> length es"
proof (induction es arbitrary: r r' trace)
  case (Cons e es)
  obtain res r1 effs where e: "reconcile e req r = (res, r1, effs)" by (metis prod_cases3)
  obtain r2 rest where rest: "run_controller reconcile req es r1 = (r2, rest)" by fastforce
  from Cons.prems e rest have "trace = effs # rest" by simp
  with at_most_one [OF e] Cons.IH [OF rest] show ?case by simp
qed simp

text \<open>
  Rate: as long as no reconciliation of the run clears the recorded time (the workload
  exists), every reconciliation of the run that reads a time before the end of the cooldown
  of the last recorded deletion evicts nothing.
\<close>

lemma quiet_during_cooldown:
  assumes "run_controller reconcile req es r = (r', trace)"
    and "rc_lastDeletionTimes r (request_String req) = Some (TimeValue deleted)"
    and "in_i64 (getCooldownPeriod r)"
    and "\<forall>e\<in>set es. e_clk e 3 < deleted + getCooldownPeriod r"
    and "\<forall>e\<in>set es. \<forall>r. rc_lastDeletionTimes r (request_String req) \<noteq> None \<longrightarrow>
      rc_lastDeletionTimes (fst (snd (reconcile e req r))) (request_String req) \<noteq> None"
  shows "evictions (concat trace) = []"
  using assms
proof (induction es arbitrary: r r' trace)
  case (Cons e es)
  obtain res r1 effs where e: "reconcile e req r = (res, r1, effs)" by (metis prod_cases3)
  obtain r2 rest where rest: "run_controller reconcile req es r1 = (r2, rest)" by fastforce
  from Cons.prems(4) have clk: "e_clk e 3 < deleted + getCooldownPeriod r" by simp
  note q = no_eviction_in_cooldown [OF Cons.prems(2,3) clk e]
  have "rc_lastDeletionTimes r1 (request_String req) = Some (TimeValue deleted)"
    using q(2) Cons.prems(2) bspec [OF Cons.prems(5), of e] e by fastforce
  moreover have c: "getCooldownPeriod r1 = getCooldownPeriod r" by (rule cooldown_constant [OF e])
  ultimately have "evictions (concat rest) = []"
    using Cons.prems(3-5) by (intro Cons.IH [OF rest]) (simp_all add: c)
  with q(1) Cons.prems(1) e rest show ?case by auto
qed simp

end

text \<open>
  The shape every part of a reconciliation keeps, from which the contract follows: either
  nothing is evicted and the recorded times stay, or one eviction is requested and the
  time of the key is possibly set; the cooldown period is unchanged.
\<close>

definition step_ok :: "string \<Rightarrow> time \<Rightarrow> reconciler \<Rightarrow> reconciler \<Rightarrow> effect list \<Rightarrow> bool" where
  "step_ok key t r r' effs \<longleftrightarrow>
     (evictions effs = [] \<and> rc_lastDeletionTimes r' = rc_lastDeletionTimes r \<or>
      (\<exists>p. evictions effs = [p]) \<and>
        (rc_lastDeletionTimes r' = rc_lastDeletionTimes r \<or>
         rc_lastDeletionTimes r' = (rc_lastDeletionTimes r)(key \<mapsto> TimeValue t))) \<and>
     getCooldownPeriod r' = getCooldownPeriod r"

lemma step_ok_quiet:
  "evictions effs = [] \<Longrightarrow> rc_lastDeletionTimes r' = rc_lastDeletionTimes r \<Longrightarrow>
    getCooldownPeriod r' = getCooldownPeriod r \<Longrightarrow> step_ok key t r r' effs"
  by (simp add: step_ok_def)

lemma step_ok_change:
  assumes "step_ok key t r r' effs" "rc_lastDeletionTimes q = rc_lastDeletionTimes r"
    "getCooldownPeriod q = getCooldownPeriod r" "rc_lastDeletionTimes q' = rc_lastDeletionTimes r'"
    "getCooldownPeriod q' = getCooldownPeriod r'" "evictions effs' = evictions effs"
  shows "step_ok key t q q' effs'"
  using assms by (simp add: step_ok_def)

lemma step_okD:
  assumes "step_ok key t r r' effs"
  shows "length (evictions effs) \<le> 1"
    and "getCooldownPeriod r' = getCooldownPeriod r"
    and "rc_lastDeletionTimes r' key \<noteq> rc_lastDeletionTimes r key \<Longrightarrow>
      rc_lastDeletionTimes r' key = Some (TimeValue t) \<and> evictions effs \<noteq> []"
  using assms by (auto simp: step_ok_def)

section \<open>Counting and choosing pods without an observer\<close>

text \<open>
  The path both controllers take when no observer is set: pods are counted by the answer of
  the classifier; a name the answer does not contain has the empty node type, which no case
  of the source's switch covers. An error of the classifier leaves an empty answer.
\<close>

definition classify_nodes :: "env \<Rightarrow> nat \<Rightarrow> nat \<Rightarrow> pod list \<Rightarrow> reconciler \<Rightarrow> (string \<rightharpoonup> NodeType) \<times> reconciler" where
  "classify_nodes e view clock pods r =
     (case ClassifyNodesByName (e_api e view) (e_clk e clock) (e_clk e (Suc clock)) (rc_NodeClassifier r)
             (remdups (map pod_NodeName pods)) of
        (Inl err, n) \<Rightarrow> (Map.empty, r\<lparr>rc_NodeClassifier := n\<rparr>)
      | (Inr m, n) \<Rightarrow> (m, r\<lparr>rc_NodeClassifier := n\<rparr>))"

definition count_node :: "(string \<rightharpoonup> NodeType) \<Rightarrow> int \<times> int \<Rightarrow> pod \<Rightarrow> int \<times> int" where
  "count_node classifications = (\<lambda>(spot, onDemand) p.
     case classifications (pod_NodeName p) of
       Some NodeTypeSpot \<Rightarrow> (i32 (spot + 1), onDemand)
     | Some NodeTypeOnDemand \<Rightarrow> (spot, i32 (onDemand + 1))
     | Some NodeTypeUnknown \<Rightarrow> (spot, i32 (onDemand + 1))
     | None \<Rightarrow> (spot, onDemand))"

definition observe_workload ::
  "env \<Rightarrow> nat \<Rightarrow> nat \<Rightarrow> workload_object \<Rightarrow> reconciler \<Rightarrow> (go_error + Snapshot) \<times> reconciler" where
  "observe_workload e view clock w r =
     (case Observe (e_selector e) (e_api e view)
             (Some (ClassifyNodesByName (e_api e view) (e_clk e clock) (e_clk e (Suc clock))))
             (e_clk e (clock + 2)) w (rc_NodeClassifier r) of
        (result, n) \<Rightarrow> (result, r\<lparr>rc_NodeClassifier := n\<rparr>))"

definition empty_replica_state :: "ObjectReference \<Rightarrow> ReplicaState" where
  "empty_replica_state ref = \<lparr>rs_WorkloadRef = ref, rs_TotalReplicas = 0, rs_CurrentOnDemand = 0,
     rs_CurrentSpot = 0, rs_DesiredOnDemand = 0, rs_DesiredSpot = 0, rs_LastReconciled = 0,
     rs_PendingOnDemand = 0, rs_PendingSpot = 0, rs_FailedSpot = 0\<rparr>"

definition snapshot_state :: "Snapshot \<Rightarrow> ReplicaState" where
  "snapshot_state s =
     (case ActualCounts s of (spot, onDemand) \<Rightarrow>
        (empty_replica_state (sn_WorkloadRef s))\<lparr>rs_CurrentSpot := spot, rs_CurrentOnDemand := onDemand,
           rs_LastReconciled := sn_ObservedAt s\<rparr>)"

lemma classify_nodes_frame:
  "classify_nodes e v c pods r = (m, r') \<Longrightarrow> \<exists>n. r' = r\<lparr>rc_NodeClassifier := n\<rparr>"
  by (auto simp: classify_nodes_def split: prod.splits sum.splits)

lemma observe_workload_frame:
  "observe_workload e v c w r = (x, r') \<Longrightarrow> \<exists>n. r' = r\<lparr>rc_NodeClassifier := n\<rparr>"
  by (auto simp: observe_workload_def split: prod.splits)

lemma cooldown_gate_cong:
  "rc_lastDeletionTimes r' = rc_lastDeletionTimes r \<Longrightarrow> getCooldownPeriod r' = getCooldownPeriod r \<Longrightarrow>
    cooldown_gate e key r' = cooldown_gate e key r"
  by (simp only: cooldown_gate_def)

lemma classifier_frame [simp]:
  "getCooldownPeriod (r\<lparr>rc_NodeClassifier := n\<rparr>) = getCooldownPeriod r"
  "getCooldownPeriod (r\<lparr>rc_lastDeletionTimes := m\<rparr>) = getCooldownPeriod r"
  "getCooldownPeriod (r\<lparr>rc_reconcileCount := k\<rparr>) = getCooldownPeriod r"
  by (simp_all add: getCooldownPeriod_def)

text \<open>The budget check lets an eviction go on when it fails or when it permits a disruption.\<close>

definition budget_permits :: "as_selector \<Rightarrow> k8s_client \<Rightarrow> pod \<Rightarrow> bool" where
  "budget_permits as_sel c pod =
     (case CheckPDBStatus as_sel c pod of Inl _ \<Rightarrow> True | Inr st \<Rightarrow> ps_CanDisrupt st)"


section \<open>Choosing the excess\<close>

text \<open>
  What both controllers' selections amount to while the counts fit an \<^verbatim>\<open>int32\<close>:
  the first pods of each class beyond its target, spot first.
\<close>

definition excess_choice :: "pod list \<Rightarrow> pod list \<Rightarrow> ReplicaState \<Rightarrow> pod list" where
  "excess_choice spotPods onDemandPods desired =
     take (length spotPods - nat (rs_DesiredSpot desired)) spotPods @
     take (length onDemandPods - nat (rs_DesiredOnDemand desired)) onDemandPods"

lemma excess_choice_member:
  assumes "p \<in> set (excess_choice spotPods onDemandPods desired)"
  shows "p \<in> set spotPods \<and> rs_DesiredSpot desired < int (length spotPods) \<or>
    p \<in> set onDemandPods \<and> rs_DesiredOnDemand desired < int (length onDemandPods)"
proof -
  have "p \<in> set xs \<and> n < int (length xs)" if "p \<in> set (take (length xs - nat n) xs)" for xs n
  proof (cases "nat n < length xs")
    case True
    with in_set_takeD [OF that] show ?thesis by linarith
  next
    case False
    with that show ?thesis by simp
  qed
  with assms(1) show ?thesis unfolding excess_choice_def set_append Un_iff by blast
qed

lemma excess_choice_Nil:
  assumes "excess_choice spotPods onDemandPods desired = []" "wf_desired desired"
  shows "int (length spotPods) \<le> rs_DesiredSpot desired" "int (length onDemandPods) \<le> rs_DesiredOnDemand desired"
  using assms by (auto simp: excess_choice_def wf_desired_def)

lemma take_int_excess:
  assumes "in_i32 (int (length xs))" "0 \<le> n" "in_i32 n"
  shows "(if i32 (int (length xs)) > n
      then take_int (min (i32 (i32 (int (length xs)) - n)) (i32 (int (length xs)))) xs else []) =
    take (length xs - nat n) xs"
proof (cases "int (length xs) > n")
  case True
  with assms have "in_i32 (int (length xs) - n)" by (auto simp: in_i32_def)
  with assms True show ?thesis by (simp add: i32_id take_int_def min_def nat_diff_distrib)
next
  case False
  with assms show ?thesis by (simp add: i32_id)
qed

text \<open>The on-demand target of a computed state keeps the floor of the configuration.\<close>

lemma desired_keeps_floor:
  assumes "0 \<le> rs_TotalReplicas st" "in_i32 (rs_TotalReplicas st)"
  shows "min (wc_MinOnDemand config) (rs_TotalReplicas st) \<le> rs_DesiredOnDemand (CalculateDesiredDistribution st config)"
proof (cases "AllocateReplicaDistribution (rs_TotalReplicas st) (AllocationPolicy config)")
  case (Inl err)
  then show ?thesis by (simp add: CalculateDesiredDistribution_def)
next
  case (Inr a)
  from Allocate_admissible [OF Inr assms(2)] Allocate_bounds(3) [OF Inr assms(2)]
  have "min (wc_MinOnDemand config) (rs_TotalReplicas st) \<le> al_TargetOnDemand a"
    by (simp add: admissible_spot_def AllocationPolicy_def)
  then show ?thesis by (simp add: CalculateDesiredDistribution_def Inr)
qed

lemma wf_desired_i32:
  "wf_desired st \<Longrightarrow> in_i32 (rs_TotalReplicas st) \<Longrightarrow> in_i32 (rs_DesiredSpot st) \<and> in_i32 (rs_DesiredOnDemand st)"
  by (auto simp: wf_desired_def in_i32_def)

lemma observer_frame [simp]:
  "rc_Observer (snd (namespace_gate e ns r)) = rc_Observer r"
  by (auto simp: namespace_gate_def split: option.splits prod.splits)

lemma observe_workload_eligible:
  assumes "observe_workload e v c w r = (Inr s, r')"
    and "p \<in> set (fst (EligiblePods s)) \<union> set (snd (EligiblePods s))"
  shows "isReady p \<and> \<not> isTerminal p \<and> pod_DeletionTimestamp p = None \<and> pod_NodeName p \<noteq> []"
proof -
  from assms(1) obtain n where "Observe (e_selector e) (e_api e v)
      (Some (ClassifyNodesByName (e_api e v) (e_clk e c) (e_clk e (Suc c)))) (e_clk e (c + 2)) w (rc_NodeClassifier r) = (Inr s, n)"
    by (auto simp: observe_workload_def split: prod.splits)
  from Observe_eligible [OF this assms(2)] show ?thesis by blast
qed


section \<open>A concrete cluster\<close>

text \<open>
  Two on-demand pods of a workload whose annotations ask for 70 percent spot with a floor of
  one: the target is one of each.
\<close>

definition sample_deployment :: deployment where
  "sample_deployment = workload.extend (sample_workload\<lparr>wl_Kind := ''Deployment'', wl_Replicas := Some 2,
     wl_StatusReplicas := 2, wl_ReadyReplicas := 2, wl_UpdatedReplicas := 2\<rparr>) (deployment.fields 2 0)"

definition small_statefulset :: statefulset where
  "small_statefulset = workload.extend (sample_workload\<lparr>wl_Replicas := Some 2,
     wl_StatusReplicas := 2, wl_ReadyReplicas := 2, wl_UpdatedReplicas := 2\<rparr>) (statefulset.fields 2 [] None [])"

definition sample_api :: k8s_client where
  "sample_api = two_nodes\<lparr>cl_GetDeployment := \<lambda>_ _. Inr sample_deployment,
     cl_GetStatefulSet := \<lambda>_ _. Inr small_statefulset,
     cl_GetNamespace := \<lambda>n. Inr \<lparr>ns_Name = n, ns_Labels = None, ns_Annotations = None\<rparr>,
     cl_ListPods := \<lambda>_ _. Inr [sample_pod ''web-0'' ''n0'', sample_pod ''web-1'' ''n0''],
     cl_Evict := \<lambda>_ _. None, cl_UpdateStatefulSet := \<lambda>_. None\<rparr>"

text \<open>The insertion sort the Go runtime uses for short slices; it is stable.\<close>

fun insert_less :: "('a \<Rightarrow> 'a \<Rightarrow> bool) \<Rightarrow> 'a \<Rightarrow> 'a list \<Rightarrow> 'a list" where
  "insert_less lt x [] = [x]"
| "insert_less lt x (y # ys) = (if lt y x then y # insert_less lt x ys else x # y # ys)"

definition insertionSort :: "('a \<Rightarrow> 'a \<Rightarrow> bool) \<Rightarrow> 'a list \<Rightarrow> 'a list" where
  "insertionSort lt xs = foldr (insert_less lt) xs []"

definition sample_env :: "time \<Rightarrow> env" where
  "sample_env now = \<lparr>e_api = \<lambda>_. sample_api, e_clk = \<lambda>_. now, e_selector = match_labels, e_parse = \<lambda>_. None,
     e_sort = insertionSort\<rparr>"

definition sample_request :: request where
  "sample_request = \<lparr>rq_Namespace = ''shop'', rq_Name = ''web''\<rparr>"

definition sample_reconciler :: reconciler where
  "sample_reconciler = \<lparr>rc_NodeClassifier = NewNodeClassifierService (Some karpenter_config), rc_Observer = False,
     rc_NamespaceFilter = None, rc_ReconcileInterval = 5 * Minute, rc_MetricsCollector = True, rc_Config = None,
     rc_CooldownPeriod = 0, rc_DisruptionRetryInterval = 0, rc_DisruptionWindowPollInterval = 0,
     rc_lastDeletionTimes = Map.empty, rc_reconcileCount = 0, rc_errorCount = 0, rc_lastError = None\<rparr>"

lemma sample_cooldown: "getCooldownPeriod sample_reconciler = 10000000000"
  by (simp add: sample_reconciler_def getCooldownPeriod_def defaultWorkloadTimingConfig_def Second_def)

end
