(* ===== verification/Deployment_Controller.thy ===== *)
theory Deployment_Controller
  imports Controller_Common
begin

text \<open>
  \<^verbatim>\<open>pkg/controllers/deployment_controller.go\<close>: one reconciliation of a Deployment,
  with every early return, its bookkeeping, and the eviction of at most one pod.

  Clock readings, in the order of the code: 0 failed read of the object, 1 and 2 the namespace
  filter, 3 the cooldown, 4 failed parse, 5 to 7 the first classification and observation, 8
  its failure, 9 failed window, 10 the window test, 12 to 14 the second observation, 15 the
  recorded deletion, 16 the failed rebalancing. Views of the cluster: 0 the object, 1 the
  filter, 2 the count, 3 the namespace of the window, 4 the choice, 5 the budgets, 6 the
  eviction.
\<close>

definition isDeploymentStableAndReady :: "deployment \<Rightarrow> bool" where
  "isDeploymentStableAndReady d =
     (case wl_Replicas d of
        None \<Rightarrow> False
      | Some desiredReplicas \<Rightarrow>
          if desiredReplicas = 0 then False
          else wl_ReadyReplicas d = desiredReplicas \<and> wl_UpdatedReplicas d = desiredReplicas \<and>
            dep_AvailableReplicas d = desiredReplicas \<and> dep_UnavailableReplicas d = 0)"

definition deploymentLabelSelector :: "deployment \<Rightarrow> go_error + (string \<times> string) list" where
  "deploymentLabelSelector d =
     (case wl_Selector d of
        None \<Rightarrow> Inl (Errorf ''deployment has no selector'')
      | Some s \<Rightarrow> Inr (ls_MatchLabels s))"

definition deployment_pod_list :: "k8s_client \<Rightarrow> deployment \<Rightarrow> go_error + pod list" where
  "deployment_pod_list c d =
     (case deploymentLabelSelector d of
        Inl err \<Rightarrow> Inl (Wrapped ''failed to get selector'' err)
      | Inr selector \<Rightarrow>
         (case cl_ListPods c (wl_Namespace d) selector of
            Inl err \<Rightarrow> Inl (Wrapped ''failed to list pods'' err)
          | Inr items \<Rightarrow> Inr items))"

definition dep_calculateCurrentReplicaState ::
  "env \<Rightarrow> deployment \<Rightarrow> reconciler \<Rightarrow> (go_error + ReplicaState) \<times> reconciler" where
  "dep_calculateCurrentReplicaState e d r =
     (if rc_Observer r then
        (case observe_workload e 2 5 (Deployment d) r of
           (Inl err, r) \<Rightarrow> (Inl err, r)
         | (Inr snapshot, r) \<Rightarrow> (Inr (snapshot_state snapshot), r))
      else
        (case deployment_pod_list (e_api e 2) d of
           Inl err \<Rightarrow> (Inl err, r)
         | Inr items \<Rightarrow>
             (let assigned = filter (\<lambda>p. pod_NodeName p \<noteq> []) items
              in case classify_nodes e 2 5 assigned r of
                   (classifications, r) \<Rightarrow>
                     (case foldl (count_node classifications) (0, 0) assigned of
                        (spotReplicas, onDemandReplicas) \<Rightarrow>
                          (Inr ((empty_replica_state
                             \<lparr>ref_APIVersion = wl_APIVersion d, ref_Kind = wl_Kind d,
                              ref_Namespace = wl_Namespace d, ref_Name = wl_Name d, ref_UID = wl_UID d\<rparr>)
                             \<lparr>rs_CurrentSpot := spotReplicas, rs_CurrentOnDemand := onDemandReplicas,
                              rs_LastReconciled := e_clk e 7\<rparr>), r)))))"

definition dep_needsRebalancing :: "ReplicaState \<Rightarrow> bool" where
  "dep_needsRebalancing state =
     (let currentTotal = i32 (rs_CurrentSpot state + rs_CurrentOnDemand state)
      in if currentTotal = 0 then False
         else (let spotDiff = i32 (rs_DesiredSpot state - rs_CurrentSpot state);
                   onDemandDiff = i32 (rs_DesiredOnDemand state - rs_CurrentOnDemand state)
               in spotDiff \<noteq> 0 \<or> onDemandDiff \<noteq> 0))"

definition categorizeDeploymentPods ::
  "env \<Rightarrow> deployment \<Rightarrow> reconciler \<Rightarrow> (go_error + pod list \<times> pod list) \<times> reconciler" where
  "categorizeDeploymentPods e d r =
     (if rc_Observer r then
        (case observe_workload e 4 12 (Deployment d) r of
           (Inl err, r) \<Rightarrow> (Inl err, r)
         | (Inr snapshot, r) \<Rightarrow> (Inr (EligiblePods snapshot), r))
      else
        (case deployment_pod_list (e_api e 4) d of
           Inl err \<Rightarrow> (Inl err, r)
         | Inr items \<Rightarrow>
             (let filteredPods = filter (\<lambda>p. pod_NodeName p \<noteq> [] \<and> pod_DeletionTimestamp p = None) items
              in case classify_nodes e 4 12 filteredPods r of
                   (classifications, r) \<Rightarrow>
                     (Inr (filter (\<lambda>p. classifications (pod_NodeName p) = Some NodeTypeSpot) filteredPods,
                           filter (\<lambda>p. classifications (pod_NodeName p) = Some NodeTypeOnDemand \<or>
                                       classifications (pod_NodeName p) = Some NodeTypeUnknown) filteredPods), r))))"

text \<open>The excess of one class: its length is converted to 32 bits after the bounds check.\<close>

definition dep_excess :: "pod list \<Rightarrow> int \<Rightarrow> pod list" where
  "dep_excess pods desired =
     (if int (length pods) > 0 \<and> int (length pods) \<le> 4294967295 then
        (let podsCount = i32 (int (length pods))
         in if podsCount > desired then take_int (min (i32 (podsCount - desired)) podsCount) pods else [])
      else [])"

definition dep_selectPodsForDeletion :: "pod list \<Rightarrow> pod list \<Rightarrow> ReplicaState \<Rightarrow> pod list" where
  "dep_selectPodsForDeletion spotPods onDemandPods desiredState =
     dep_excess spotPods (rs_DesiredSpot desiredState) @ dep_excess onDemandPods (rs_DesiredOnDemand desiredState)"

definition executeDeploymentRebalancing ::
  "env \<Rightarrow> pod list \<Rightarrow> string \<Rightarrow> reconciler \<Rightarrow> go_error option \<times> reconciler \<times> effect list" where
  "executeDeploymentRebalancing e podsToDelete deploymentKey r =
     (case podsToDelete of
        [] \<Rightarrow> (None, r, [])
      | pod # _ \<Rightarrow>
         (let blocked = (case CheckPDBStatus (e_selector e) (e_api e 5) pod of
               Inl err \<Rightarrow> None
             | Inr pdbStatus \<Rightarrow> if \<not> ps_CanDisrupt pdbStatus then Some pdbStatus else None)
          in case blocked of
               Some pdbStatus \<Rightarrow>
                 (None, r, if rc_MetricsCollector r
                           then [PDBBlockMetric (pod_Namespace pod) (pod_Name pod) ''deployment'' (ps_PDBName pdbStatus)]
                           else [])
             | None \<Rightarrow>
                 (case EvictPod (e_api e 6) pod of
                    (result, Some err) \<Rightarrow>
                      if result = EvictionResultPDBBlocked then (None, r, [EvictionRequest pod])
                      else (Some err, r, [EvictionRequest pod])
                  | (result, None) \<Rightarrow>
                      (None, r\<lparr>rc_lastDeletionTimes :=
                                 (rc_lastDeletionTimes r)(deploymentKey \<mapsto> TimeValue (e_clk e 15))\<rparr>,
                       [EvictionRequest pod]))))"

definition dep_performPodRebalancing ::
  "env \<Rightarrow> deployment \<Rightarrow> ReplicaState \<Rightarrow> string \<Rightarrow> reconciler \<Rightarrow> go_error option \<times> reconciler \<times> effect list" where
  "dep_performPodRebalancing e d desiredState deploymentKey r =
     (case categorizeDeploymentPods e d r of
        (Inl err, r) \<Rightarrow> (Some err, r, [])
      | (Inr (spotPods, onDemandPods), r) \<Rightarrow>
          executeDeploymentRebalancing e (dep_selectPodsForDeletion spotPods onDemandPods desiredState) deploymentKey r)"

definition dep_resolveDisruptionWindow ::
  "env \<Rightarrow> deployment \<Rightarrow> reconciler \<Rightarrow> go_error resolve_error + DisruptionWindow option" where
  "dep_resolveDisruptionWindow e d r =
     resolveDisruptionWindow (e_parse e) (obj_annotations (wl_Object d))
       (case cl_GetNamespace (e_api e 3) (wl_Namespace d) of Inl err \<Rightarrow> Inl err | Inr ns \<Rightarrow> Inr (ns_Labels ns))
       (rc_Config r)"

text \<open>The body of \<^verbatim>\<open>if needsRebalancing\<close>.\<close>

definition dep_rebalance ::
  "env \<Rightarrow> request \<Rightarrow> deployment \<Rightarrow> ReplicaState \<Rightarrow> reconciler \<Rightarrow> reconcile_result" where
  "dep_rebalance e req d replicaState r =
     (case dep_resolveDisruptionWindow e d r of
        Inl err \<Rightarrow>
          ((getDisruptionRetryInterval r, None), record_error (e_clk e 9) req (WindowError err) r, [])
      | Inr disruptionWindow \<Rightarrow>
          if disruptionWindow \<noteq> None \<and> \<not> IsWithinWindow disruptionWindow (e_clk e 10)
          then ((getDisruptionWindowPollInterval r, None), r, [])
          else
            (case dep_performPodRebalancing e d replicaState (request_String req) r of
               (rebalanceErr, r, effs) \<Rightarrow>
                 (let r = (case rebalanceErr of None \<Rightarrow> r
                           | Some err \<Rightarrow> record_error (e_clk e 16) req (ApiError err) r);
                      effs = effs @ (if rc_MetricsCollector r
                        then [ReconciliationMetric (rq_Namespace req) (rq_Name req) ''deployment'' ''rebalance''
                                (map_option ApiError rebalanceErr)] else [])
                  in case rebalanceErr of
                       Some err \<Rightarrow> ((rc_ReconcileInterval r, Some (ApiError err)), r, effs)
                     | None \<Rightarrow> ((go_div (rc_ReconcileInterval r) 2, None), markRecovered r, effs))))"

text \<open>The part after the cooldown.\<close>

definition dep_process :: "env \<Rightarrow> request \<Rightarrow> deployment \<Rightarrow> reconciler \<Rightarrow> reconcile_result" where
  "dep_process e req d r =
     (if \<not> isDeploymentStableAndReady d then ((i64 (2 * rc_ReconcileInterval r), None), r, [])
      else case ParseWorkloadConfiguration (wl_Object d) of
        Inl err \<Rightarrow>
          ((rc_ReconcileInterval r, Some (ParseError err)), record_error (e_clk e 4) req (ParseError err) r, [])
      | Inr workloadConfig \<Rightarrow>
         (case dep_calculateCurrentReplicaState e d r of
            (Inl err, r) \<Rightarrow>
              ((rc_ReconcileInterval r, Some (ApiError err)), record_error (e_clk e 8) req (ApiError err) r, [])
          | (Inr replicaState, r) \<Rightarrow>
             (let total = (case wl_Replicas d of None \<Rightarrow> wl_StatusReplicas d | Some n \<Rightarrow> n);
                  replicaState = CalculateDesiredDistribution (replicaState\<lparr>rs_TotalReplicas := total\<rparr>) workloadConfig
              in if dep_needsRebalancing replicaState then dep_rebalance e req d replicaState r
                 else ((i64 (rc_ReconcileInterval r * 2), None), markRecovered r, []))))"

definition dep_Reconcile :: "env \<Rightarrow> request \<Rightarrow> reconciler \<Rightarrow> reconcile_result" where
  "dep_Reconcile e req r =
     (let r = r\<lparr>rc_reconcileCount := i64 (rc_reconcileCount r + 1)\<rparr>
      in case cl_GetDeployment (e_api e 0) (rq_Namespace req) (rq_Name req) of
           Inl err \<Rightarrow>
             if IsNotFound err
             then ((0, None), r\<lparr>rc_lastDeletionTimes := (rc_lastDeletionTimes r)(request_String req := None)\<rparr>, [])
             else ((0, Some (ApiError err)), record_error (e_clk e 0) req (ApiError err) r, [])
         | Inr d \<Rightarrow>
             if \<not> IsSpotalisEnabled (wl_Object d) then ((0, None), r, [])
             else
               (case namespace_gate e (wl_Namespace d) r of
                  (allowed, r) \<Rightarrow>
                    if \<not> allowed then ((0, None), r, [])
                    else
                      (let metric = (if rc_MetricsCollector r
                             then [WorkloadMetrics (wl_Namespace d) (wl_Name d) ''deployment''
                                     (case wl_Replicas d of None \<Rightarrow> 0 | Some n \<Rightarrow> n)] else [])
                       in case cooldown_gate e (request_String req) r of
                            GateReturn res \<Rightarrow> (res, r, metric)
                          | GatePass \<Rightarrow>
                              (case dep_process e req d r of (res, r, effs) \<Rightarrow> (res, r, metric @ effs)))))"


section \<open>Facts about one reconciliation\<close>

lemma dep_calculateCurrentReplicaState_frame:
  "dep_calculateCurrentReplicaState e d r = (x, r') \<Longrightarrow> \<exists>n. r' = r\<lparr>rc_NodeClassifier := n\<rparr>"
  by (auto simp: dep_calculateCurrentReplicaState_def Let_def dest!: classify_nodes_frame observe_workload_frame
      split: if_splits prod.splits sum.splits) (metis reconciler.surjective reconciler.update_convs(1))

lemma categorizeDeploymentPods_frame:
  "categorizeDeploymentPods e d r = (x, r') \<Longrightarrow> \<exists>n. r' = r\<lparr>rc_NodeClassifier := n\<rparr>"
  by (auto simp: categorizeDeploymentPods_def Let_def dest!: classify_nodes_frame observe_workload_frame
      split: if_splits prod.splits sum.splits) (metis reconciler.surjective reconciler.update_convs(1))

lemma executeDeploymentRebalancing_cases:
  assumes "executeDeploymentRebalancing e pods key r = (err, r', effs)"
  obtains (quiet) "err = None" "r' = r" "evictions effs = []"
    | (evicted) p rest where "pods = p # rest" "budget_permits (e_selector e) (e_api e 5) p"
        "effs = [EvictionRequest p]" "snd (EvictPod (e_api e 6) p) = None" "err = None"
        "r' = r\<lparr>rc_lastDeletionTimes := (rc_lastDeletionTimes r)(key \<mapsto> TimeValue (e_clk e 15))\<rparr>"
    | (refused) p rest where "pods = p # rest" "budget_permits (e_selector e) (e_api e 5) p"
        "effs = [EvictionRequest p]" "snd (EvictPod (e_api e 6) p) \<noteq> None" "r' = r"
        "err = (if fst (EvictPod (e_api e 6) p) = EvictionResultPDBBlocked then None else snd (EvictPod (e_api e 6) p))"
proof (cases pods)
  case Nil
  with assms show thesis by (intro quiet) (auto simp: executeDeploymentRebalancing_def)
next
  case (Cons p rest)
  note ex = assms [unfolded executeDeploymentRebalancing_def Cons Let_def list.case]
  show thesis
  proof (cases "budget_permits (e_selector e) (e_api e 5) p")
    case False
    with ex show thesis
      by (intro quiet) (auto simp: budget_permits_def split: sum.splits if_splits)
  next
    case True
    then have blocked: "(case CheckPDBStatus (e_selector e) (e_api e 5) p of Inl err \<Rightarrow> None
        | Inr pdbStatus \<Rightarrow> if \<not> ps_CanDisrupt pdbStatus then Some pdbStatus else None) = None"
      by (auto simp: budget_permits_def split: sum.splits)
    obtain res e' where ev: "EvictPod (e_api e 6) p = (res, e')" by fastforce
    show thesis
    proof (cases e')
      case None
      with ex [unfolded blocked ev] True Cons ev show thesis by (intro evicted) auto
    next
      case (Some err')
      with ex [unfolded blocked ev] True Cons ev show thesis by (intro refused) (auto split: if_splits)
    qed
  qed
qed


lemma executeDeploymentRebalancing_ok:
  "executeDeploymentRebalancing e pods key r = (err, r', effs) \<Longrightarrow> step_ok key (e_clk e 15) r r' effs"
  by (erule executeDeploymentRebalancing_cases) (auto simp: step_ok_def)

lemma dep_performPodRebalancing_ok:
  assumes "dep_performPodRebalancing e d st key r = (err, r', effs)"
  shows "step_ok key (e_clk e 15) r r' effs"
proof -
  obtain x r1 where c: "categorizeDeploymentPods e d r = (x, r1)" by fastforce
  obtain n where r1: "r1 = r\<lparr>rc_NodeClassifier := n\<rparr>" using categorizeDeploymentPods_frame [OF c] by blast
  show ?thesis
  proof (cases x)
    case (Inl err')
    with assms c r1 show ?thesis by (intro step_ok_quiet) (auto simp: dep_performPodRebalancing_def)
  next
    case (Inr ps)
    with assms c have "executeDeploymentRebalancing e
        (dep_selectPodsForDeletion (fst ps) (snd ps) st) key r1 = (err, r', effs)"
      by (cases ps) (simp add: dep_performPodRebalancing_def)
    from executeDeploymentRebalancing_ok [OF this] show ?thesis
      by (rule step_ok_change) (simp_all add: r1)
  qed
qed

lemma dep_rebalance_cases:
  assumes "dep_rebalance e req d st r = (res, r', effs)"
  obtains (window_error) err where "dep_resolveDisruptionWindow e d r = Inl err" "effs = []"
        "res = (getDisruptionRetryInterval r, None)" "r' = record_error (e_clk e 9) req (WindowError err) r"
    | (closed) w where "dep_resolveDisruptionWindow e d r = Inr (Some w)"
        "\<not> IsWithinWindow (Some w) (e_clk e 10)" "effs = []" "r' = r"
        "res = (getDisruptionWindowPollInterval r, None)"
    | (ran) w perr r1 effs1 where "dep_resolveDisruptionWindow e d r = Inr w"
        "w = None \<or> IsWithinWindow w (e_clk e 10)"
        "dep_performPodRebalancing e d st (request_String req) r = (perr, r1, effs1)"
        "evictions effs = evictions effs1"
        "r' = (case perr of None \<Rightarrow> markRecovered r1 | Some err \<Rightarrow> record_error (e_clk e 16) req (ApiError err) r1)"
        "snd res = map_option ApiError perr"
proof (cases "dep_resolveDisruptionWindow e d r")
  case (Inl err)
  with assms show thesis by (intro window_error) (auto simp: dep_rebalance_def)
next
  case (Inr w)
  note eq = assms [unfolded dep_rebalance_def Inr sum.case]
  obtain perr r1 effs1 where p: "dep_performPodRebalancing e d st (request_String req) r = (perr, r1, effs1)"
    by (metis prod_cases3)
  show thesis
  proof (cases "w \<noteq> None \<and> \<not> IsWithinWindow w (e_clk e 10)")
    case True
    with eq Inr show thesis by (intro closed [of "the w"]) auto
  next
    case False
    with eq [unfolded p] Inr p show thesis
      by (intro ran [of w perr r1 effs1]) (auto simp: Let_def split: option.splits if_splits)
  qed
qed

lemma dep_rebalance_ok:
  assumes "dep_rebalance e req d st r = (res, r', effs)"
  shows "step_ok (request_String req) (e_clk e 15) r r' effs"
  using assms
proof (cases rule: dep_rebalance_cases)
  case (ran w perr r1 effs1)
  from dep_performPodRebalancing_ok [OF ran(3)] show ?thesis
    by (rule step_ok_change) (simp_all add: ran split: option.splits)
qed (auto intro: step_ok_quiet)

text \<open>The desired state a reconciliation computes from the counted one.\<close>

definition dep_target :: "deployment \<Rightarrow> WorkloadConfiguration \<Rightarrow> ReplicaState \<Rightarrow> ReplicaState" where
  "dep_target d config st = CalculateDesiredDistribution
     (st\<lparr>rs_TotalReplicas := (case wl_Replicas d of None \<Rightarrow> wl_StatusReplicas d | Some n \<Rightarrow> n)\<rparr>) config"

lemma dep_process_cases:
  assumes "dep_process e req d r = (res, r', effs)"
  obtains (unstable) "\<not> isDeploymentStableAndReady d" "effs = []" "r' = r"
        "res = (i64 (2 * rc_ReconcileInterval r), None)"
    | (unparsed) err where "isDeploymentStableAndReady d" "ParseWorkloadConfiguration (wl_Object d) = Inl err"
        "effs = []" "r' = record_error (e_clk e 4) req (ParseError err) r" "snd res = Some (ParseError err)"
    | (uncounted) config err r1 where "isDeploymentStableAndReady d"
        "ParseWorkloadConfiguration (wl_Object d) = Inr config"
        "dep_calculateCurrentReplicaState e d r = (Inl err, r1)" "effs = []"
        "r' = record_error (e_clk e 8) req (ApiError err) r1" "snd res = Some (ApiError err)"
    | (balanced) config st r1 where "isDeploymentStableAndReady d"
        "ParseWorkloadConfiguration (wl_Object d) = Inr config"
        "dep_calculateCurrentReplicaState e d r = (Inr st, r1)"
        "\<not> dep_needsRebalancing (dep_target d config st)" "effs = []" "r' = markRecovered r1" "snd res = None"
    | (rebalanced) config st r1 where "isDeploymentStableAndReady d"
        "ParseWorkloadConfiguration (wl_Object d) = Inr config"
        "dep_calculateCurrentReplicaState e d r = (Inr st, r1)"
        "dep_needsRebalancing (dep_target d config st)"
        "dep_rebalance e req d (dep_target d config st) r1 = (res, r', effs)"
proof (cases "isDeploymentStableAndReady d")
  case False
  with assms show thesis by (intro unstable) (auto simp: dep_process_def)
next
  case stable: True
  show thesis
  proof (cases "ParseWorkloadConfiguration (wl_Object d)")
    case (Inl err)
    with assms stable show thesis by (intro unparsed) (auto simp: dep_process_def)
  next
    case parsed: (Inr config)
    obtain x r1 where c: "dep_calculateCurrentReplicaState e d r = (x, r1)" by fastforce
    note eq = assms [unfolded dep_process_def parsed c sum.case prod.case]
    show thesis
    proof (cases x)
      case (Inl err)
      with eq stable parsed c show thesis by (intro uncounted) auto
    next
      case (Inr st)
      with eq stable have eq': "(if dep_needsRebalancing (dep_target d config st)
          then dep_rebalance e req d (dep_target d config st) r1
          else ((i64 (rc_ReconcileInterval r1 * 2), None), markRecovered r1, [])) = (res, r', effs)"
        unfolding Inr sum.case prod.case Let_def dep_target_def
        by (simp only: not_True_eq_False if_False)
      show thesis
        using eq' stable parsed c Inr
        by (cases "dep_needsRebalancing (dep_target d config st)") (auto intro: rebalanced balanced)
    qed
  qed
qed

lemma dep_process_ok:
  assumes "dep_process e req d r = (res, r', effs)"
  shows "step_ok (request_String req) (e_clk e 15) r r' effs"
  using assms
proof (cases rule: dep_process_cases)
  case (rebalanced config st r1)
  obtain n where "r1 = r\<lparr>rc_NodeClassifier := n\<rparr>"
    using dep_calculateCurrentReplicaState_frame [OF rebalanced(3)] by blast
  with dep_rebalance_ok [OF rebalanced(5)] show ?thesis by (simp add: step_ok_def)
qed (auto intro!: step_ok_quiet dest!: dep_calculateCurrentReplicaState_frame)


lemma dep_Reconcile_cases:
  assumes "dep_Reconcile e req r = (res, r', effs)"
  obtains (missing) err where "cl_GetDeployment (e_api e 0) (rq_Namespace req) (rq_Name req) = Inl err"
        "IsNotFound err" "res = (0, None)" "effs = []"
        "r' = r\<lparr>rc_reconcileCount := i64 (rc_reconcileCount r + 1),
                rc_lastDeletionTimes := (rc_lastDeletionTimes r)(request_String req := None)\<rparr>"
    | (unread) err where "cl_GetDeployment (e_api e 0) (rq_Namespace req) (rq_Name req) = Inl err"
        "\<not> IsNotFound err" "res = (0, Some (ApiError err))" "effs = []"
        "r' = record_error (e_clk e 0) req (ApiError err) (r\<lparr>rc_reconcileCount := i64 (rc_reconcileCount r + 1)\<rparr>)"
    | (disabled) d where "cl_GetDeployment (e_api e 0) (rq_Namespace req) (rq_Name req) = Inr d"
        "\<not> IsSpotalisEnabled (wl_Object d)" "res = (0, None)" "effs = []"
        "r' = r\<lparr>rc_reconcileCount := i64 (rc_reconcileCount r + 1)\<rparr>"
    | (denied) d r0 where "cl_GetDeployment (e_api e 0) (rq_Namespace req) (rq_Name req) = Inr d"
        "IsSpotalisEnabled (wl_Object d)" "r0 = r\<lparr>rc_reconcileCount := i64 (rc_reconcileCount r + 1)\<rparr>"
        "\<not> fst (namespace_gate e (wl_Namespace d) r0)" "res = (0, None)" "effs = []"
        "r' = snd (namespace_gate e (wl_Namespace d) r0)"
    | (cooling) d r0 where "cl_GetDeployment (e_api e 0) (rq_Namespace req) (rq_Name req) = Inr d"
        "IsSpotalisEnabled (wl_Object d)" "r0 = r\<lparr>rc_reconcileCount := i64 (rc_reconcileCount r + 1)\<rparr>"
        "fst (namespace_gate e (wl_Namespace d) r0)" "cooldown_gate e (request_String req) r = GateReturn res"
        "evictions effs = []" "r' = snd (namespace_gate e (wl_Namespace d) r0)"
    | (processed) d r0 r1 effs1 where "cl_GetDeployment (e_api e 0) (rq_Namespace req) (rq_Name req) = Inr d"
        "IsSpotalisEnabled (wl_Object d)" "r0 = r\<lparr>rc_reconcileCount := i64 (rc_reconcileCount r + 1)\<rparr>"
        "fst (namespace_gate e (wl_Namespace d) r0)" "cooldown_gate e (request_String req) r = GatePass"
        "r1 = snd (namespace_gate e (wl_Namespace d) r0)"
        "dep_process e req d r1 = (res, r', effs1)" "evictions effs = evictions effs1"
proof -
  define r0 where "r0 = r\<lparr>rc_reconcileCount := i64 (rc_reconcileCount r + 1)\<rparr>"
  note eq = assms [unfolded dep_Reconcile_def Let_def r0_def [symmetric]]
  have ldt: "rc_lastDeletionTimes r0 = rc_lastDeletionTimes r" by (simp add: r0_def)
  show thesis
  proof (cases "cl_GetDeployment (e_api e 0) (rq_Namespace req) (rq_Name req)")
    case (Inl err)
    with eq show thesis
      by (cases "IsNotFound err") (auto simp: r0_def intro: missing unread)
  next
    case get: (Inr d)
    show thesis
    proof (cases "IsSpotalisEnabled (wl_Object d)")
      case False
      with eq get show thesis by (intro disabled) (auto simp: r0_def)
    next
      case enabled: True
      obtain allowed r1 where g: "namespace_gate e (wl_Namespace d) r0 = (allowed, r1)" by fastforce
      then have r1: "r1 = snd (namespace_gate e (wl_Namespace d) r0)"
        and al: "allowed = fst (namespace_gate e (wl_Namespace d) r0)" by simp_all
      have cg: "cooldown_gate e (request_String req) r1 = cooldown_gate e (request_String req) r"
        by (rule cooldown_gate_cong) (simp_all add: r1 r0_def)
      note eq2 = eq [unfolded get sum.case g prod.case cg]
      show thesis
      proof (cases allowed)
        case False
        with eq2 enabled get r1 al show thesis by (intro denied [OF _ _ r0_def]) auto
      next
        case True
        show thesis
        proof (cases "cooldown_gate e (request_String req) r")
          case (GateReturn x)
          with eq2 enabled get r1 al True show thesis by (intro cooling [OF _ _ r0_def]) auto
        next
          case GatePass
          obtain res' r2 effs2 where p: "dep_process e req d r1 = (res', r2, effs2)" by (metis prod_cases3)
          with GatePass eq2 True enabled have "dep_process e req d r1 = (res, r', effs2)" "evictions effs = evictions effs2"
            by auto
          with enabled get al True GatePass show thesis by (intro processed [OF _ _ r0_def _ GatePass r1]) auto
        qed
      qed
    qed
  qed
qed

section \<open>The contract\<close>

interpretation deployment: workload_controller dep_Reconcile
proof unfold_locales
  fix e req r res r' effs
  assume a: "dep_Reconcile e req r = (res, r', effs)"
  have at_most: "length (evictions effs) \<le> 1"
    using a by (cases rule: dep_Reconcile_cases) (auto dest!: dep_process_ok step_okD(1))
  have cooled: "evictions effs = [] \<or> cooldown_gate e (request_String req) r = GatePass"
    using a by (cases rule: dep_Reconcile_cases) auto
  have deleted: "rc_lastDeletionTimes r' (request_String req) = rc_lastDeletionTimes r (request_String req) \<or>
      rc_lastDeletionTimes r' (request_String req) = Some (TimeValue (e_clk e 15)) \<and> evictions effs \<noteq> [] \<or>
      rc_lastDeletionTimes r' (request_String req) = None \<and> evictions effs = []"
    using a by (cases rule: dep_Reconcile_cases) (auto dest!: dep_process_ok simp: step_ok_def)
  have const: "getCooldownPeriod r' = getCooldownPeriod r"
    using a by (cases rule: dep_Reconcile_cases) (auto dest!: dep_process_ok simp: step_ok_def)
  show "length (evictions effs) \<le> 1" by (rule at_most)
  show "getCooldownPeriod r' = getCooldownPeriod r" by (rule const)
  show "cooldown_gate e (request_String req) r = GatePass" if "evictions effs \<noteq> []" using cooled that by blast
  show "rc_lastDeletionTimes r' (request_String req) = Some (TimeValue (e_clk e 15)) \<and> evictions effs \<noteq> [] \<or>
      rc_lastDeletionTimes r' (request_String req) = None \<and> evictions effs = []"
    if "rc_lastDeletionTimes r' (request_String req) \<noteq> rc_lastDeletionTimes r (request_String req)"
    using deleted that by blast
qed


section \<open>Which pod is evicted\<close>

lemma dep_excess_eq:
  "in_i32 (int (length pods)) \<Longrightarrow> 0 \<le> n \<Longrightarrow> in_i32 n \<Longrightarrow> dep_excess pods n = take (length pods - nat n) pods"
  using take_int_excess [of pods n] by (auto simp: dep_excess_def Let_def in_i32_def)

lemma dep_selectPodsForDeletion_eq:
  assumes "in_i32 (int (length spotPods))" "in_i32 (int (length onDemandPods))"
    and "wf_desired st" "in_i32 (rs_TotalReplicas st)"
  shows "dep_selectPodsForDeletion spotPods onDemandPods st = excess_choice spotPods onDemandPods st"
  using assms wf_desired_i32 [OF assms(3,4)]
  by (simp add: dep_selectPodsForDeletion_def excess_choice_def dep_excess_eq wf_desired_def)

lemma categorizeDeploymentPods_member:
  assumes "categorizeDeploymentPods e d r = (Inr (spotPods, onDemandPods), r')"
    and "p \<in> set spotPods \<union> set onDemandPods"
  shows "pod_DeletionTimestamp p = None \<and> pod_NodeName p \<noteq> [] \<and> (rc_Observer r \<longrightarrow> isReady p \<and> \<not> isTerminal p)"
proof (cases "rc_Observer r")
  case True
  with assms(1) obtain s where s: "observe_workload e 4 12 (Deployment d) r = (Inr s, r')"
      "EligiblePods s = (spotPods, onDemandPods)"
    by (auto simp: categorizeDeploymentPods_def split: prod.splits sum.splits)
  from observe_workload_eligible [OF s(1), of p] s(2) assms(2) show ?thesis by simp
next
  case False
  with assms show ?thesis
    by (auto simp: categorizeDeploymentPods_def Let_def split: prod.splits sum.splits)
qed

lemma dep_calculateCurrentReplicaState_observer:
  "dep_calculateCurrentReplicaState e d r = (x, r') \<Longrightarrow> rc_Observer r' = rc_Observer r"
  by (drule dep_calculateCurrentReplicaState_frame) auto

text \<open>The whole chain of conditions behind an eviction.\<close>

lemma dep_evictionE:
  assumes "dep_Reconcile e req r = (res, r', effs)" and "evictions effs \<noteq> []"
  obtains d r0 config st r1 w spotPods onDemandPods r2 p rest where
    "cl_GetDeployment (e_api e 0) (rq_Namespace req) (rq_Name req) = Inr d"
    "IsSpotalisEnabled (wl_Object d)"
    "r0 = r\<lparr>rc_reconcileCount := i64 (rc_reconcileCount r + 1)\<rparr>"
    "fst (namespace_gate e (wl_Namespace d) r0)"
    "cooldown_gate e (request_String req) r = GatePass"
    "isDeploymentStableAndReady d"
    "ParseWorkloadConfiguration (wl_Object d) = Inr config"
    "dep_calculateCurrentReplicaState e d (snd (namespace_gate e (wl_Namespace d) r0)) = (Inr st, r1)"
    "dep_needsRebalancing (dep_target d config st)"
    "dep_resolveDisruptionWindow e d r1 = Inr w" "w = None \<or> IsWithinWindow w (e_clk e 10)"
    "categorizeDeploymentPods e d r1 = (Inr (spotPods, onDemandPods), r2)"
    "dep_selectPodsForDeletion spotPods onDemandPods (dep_target d config st) = p # rest"
    "budget_permits (e_selector e) (e_api e 5) p"
    "evictions effs = [p]"
  using assms(1)
proof (cases rule: dep_Reconcile_cases)
  case (processed d r0 rg effs1)
  from processed(7) show thesis
  proof (cases rule: dep_process_cases)
    case (rebalanced config st r1)
    from rebalanced(5) show thesis
    proof (cases rule: dep_rebalance_cases)
      case (ran w perr r3 effs2)
      from ran(4) processed(8) assms(2) have ev: "evictions effs2 \<noteq> []" "evictions effs = evictions effs2" by simp_all
      obtain x r2 where c: "categorizeDeploymentPods e d r1 = (x, r2)" by fastforce
      obtain spotPods onDemandPods where x: "x = Inr (spotPods, onDemandPods)"
        using ran(3) c ev(1) by (cases x) (auto simp: dep_performPodRebalancing_def)
      from ran(3) c x have ex: "executeDeploymentRebalancing e
          (dep_selectPodsForDeletion spotPods onDemandPods (dep_target d config st)) (request_String req) r2 = (perr, r3, effs2)"
        by (simp add: dep_performPodRebalancing_def)
      then obtain p rest where "dep_selectPodsForDeletion spotPods onDemandPods (dep_target d config st) = p # rest"
          "budget_permits (e_selector e) (e_api e 5) p" "evictions effs2 = [p]"
        using ev(1) by (elim executeDeploymentRebalancing_cases) auto
      with processed rebalanced ran c x ev that show thesis by simp
    qed (use assms(2) processed(8) in simp_all)
  qed (use assms(2) processed(8) in simp_all)
qed (use assms(2) in simp_all)

text \<open>A successful eviction is recorded under the key of the request; the time stays while the
  Deployment exists.\<close>

lemma dep_performPodRebalancing_success:
  assumes "dep_performPodRebalancing e d st key r = (err, r', effs)" and "evictions effs = [p]"
    and "snd (EvictPod (e_api e 6) p) = None"
  shows "rc_lastDeletionTimes r' key = Some (TimeValue (e_clk e 15))"
proof -
  obtain x r2 where c: "categorizeDeploymentPods e d r = (x, r2)" by fastforce
  obtain spotPods onDemandPods where x: "x = Inr (spotPods, onDemandPods)"
    using assms(1,2) c by (cases x) (auto simp: dep_performPodRebalancing_def)
  from assms(1) c x have "executeDeploymentRebalancing e
      (dep_selectPodsForDeletion spotPods onDemandPods st) key r2 = (err, r', effs)"
    by (simp add: dep_performPodRebalancing_def)
  then show ?thesis by (rule executeDeploymentRebalancing_cases) (use assms(2,3) in auto)
qed

lemma dep_success_recorded:
  assumes "dep_Reconcile e req r = (res, r', effs)" and "evictions effs = [p]"
    and "snd (EvictPod (e_api e 6) p) = None"
  shows "rc_lastDeletionTimes r' (request_String req) = Some (TimeValue (e_clk e 15))"
  using assms(1)
proof (cases rule: dep_Reconcile_cases)
  case (processed d r0 rg effs1)
  from processed(7) show ?thesis
  proof (cases rule: dep_process_cases)
    case (rebalanced config st r1)
    from rebalanced(5) show ?thesis
    proof (cases rule: dep_rebalance_cases)
      case (ran w perr r3 effs2)
      with dep_performPodRebalancing_success [OF ran(3) _ assms(3)] processed(8) assms(2)
      show ?thesis by (auto split: option.splits)
    qed (use assms(2) processed(8) in simp_all)
  qed (use assms(2) processed(8) in simp_all)
qed (use assms(2) in simp_all)

lemma dep_keeps_time:
  assumes "dep_Reconcile e req r = (res, r', effs)" and "rc_lastDeletionTimes r (request_String req) \<noteq> None"
    and "\<And>err. cl_GetDeployment (e_api e 0) (rq_Namespace req) (rq_Name req) = Inl err \<Longrightarrow> \<not> IsNotFound err"
  shows "rc_lastDeletionTimes r' (request_String req) \<noteq> None"
  using assms(1)
  by (cases rule: dep_Reconcile_cases) (use assms(2,3) in \<open>auto dest!: dep_process_ok simp: step_ok_def\<close>)

text \<open>How the part after the cooldown accounts for its errors.\<close>

definition error_accounted :: "request \<Rightarrow> reconcile_error \<Rightarrow> reconciler \<Rightarrow> reconciler \<Rightarrow> bool" where
  "error_accounted req err r r' \<longleftrightarrow> rc_errorCount r' = i64 (rc_errorCount r + 1) \<and>
     (\<exists>t. rc_lastError r' = Some \<lparr>ce_Error = err, ce_Timestamp = t, ce_Request = req, ce_Recovered = False\<rparr>)"

lemma error_accounted_record: "error_accounted req err r (record_error t req err r)"
  by (simp add: error_accounted_def)

lemma error_accounted_cong: "error_accounted req err r r' \<Longrightarrow> rc_errorCount q = rc_errorCount r \<Longrightarrow> error_accounted req err q r'"
  by (simp add: error_accounted_def)

lemma dep_performPodRebalancing_frame:
  assumes "dep_performPodRebalancing e d st key r = (err, r', effs)"
  shows "rc_errorCount r' = rc_errorCount r"
    and "err \<noteq> None \<Longrightarrow> evictions effs = [] \<or> (\<exists>p. evictions effs = [p] \<and> fst (EvictPod (e_api e 6) p) = EvictionResultError)"
    and "evictions effs = [p] \<Longrightarrow> snd (EvictPod (e_api e 6) p) \<noteq> None \<Longrightarrow>
      rc_lastDeletionTimes r' = rc_lastDeletionTimes r \<and> (err = None) = (fst (EvictPod (e_api e 6) p) = EvictionResultPDBBlocked)"
proof -
  obtain x r1 where c: "categorizeDeploymentPods e d r = (x, r1)" by fastforce
  obtain n where r1: "r1 = r\<lparr>rc_NodeClassifier := n\<rparr>" using categorizeDeploymentPods_frame [OF c] by blast
  have res: "fst (EvictPod a q) \<in> {EvictionResultPDBBlocked, EvictionResultError}" if "snd (EvictPod a q) \<noteq> None" for a q
    using that by (rule_tac c = a and pod = q in EvictPod_cases) auto
  have "rc_errorCount r' = rc_errorCount r \<and>
    (err \<noteq> None \<longrightarrow> evictions effs = [] \<or> (\<exists>p. evictions effs = [p] \<and> fst (EvictPod (e_api e 6) p) = EvictionResultError)) \<and>
    (evictions effs = [p] \<longrightarrow> snd (EvictPod (e_api e 6) p) \<noteq> None \<longrightarrow>
      rc_lastDeletionTimes r' = rc_lastDeletionTimes r \<and> (err = None) = (fst (EvictPod (e_api e 6) p) = EvictionResultPDBBlocked))"
  proof (cases x)
    case (Inl err')
    with assms c r1 show ?thesis by (auto simp: dep_performPodRebalancing_def)
  next
    case (Inr ps)
    with assms c have "executeDeploymentRebalancing e
        (dep_selectPodsForDeletion (fst ps) (snd ps) st) key r1 = (err, r', effs)"
      by (cases ps) (simp add: dep_performPodRebalancing_def)
    then show ?thesis
      by (rule executeDeploymentRebalancing_cases) (use r1 res in \<open>auto split: if_splits\<close>)
  qed
  then show "rc_errorCount r' = rc_errorCount r"
    and "err \<noteq> None \<Longrightarrow> evictions effs = [] \<or> (\<exists>p. evictions effs = [p] \<and> fst (EvictPod (e_api e 6) p) = EvictionResultError)"
    and "evictions effs = [p] \<Longrightarrow> snd (EvictPod (e_api e 6) p) \<noteq> None \<Longrightarrow>
      rc_lastDeletionTimes r' = rc_lastDeletionTimes r \<and> (err = None) = (fst (EvictPod (e_api e 6) p) = EvictionResultPDBBlocked)"
    by blast+
qed

lemma dep_process_errors:
  assumes "dep_process e req d r = (res, r', effs)" and "snd res = Some err"
  shows "error_accounted req err r r'"
    and "evictions effs = [] \<or> (\<exists>p. evictions effs = [p] \<and> fst (EvictPod (e_api e 6) p) = EvictionResultError)"
proof -
  have "error_accounted req err r r' \<and>
    (evictions effs = [] \<or> (\<exists>p. evictions effs = [p] \<and> fst (EvictPod (e_api e 6) p) = EvictionResultError))"
    using assms(1)
  proof (cases rule: dep_process_cases)
    case (uncounted config err' r1)
    with assms(2) show ?thesis
      by (auto dest!: dep_calculateCurrentReplicaState_frame simp: error_accounted_def)
  next
    case (rebalanced config st r1)
    obtain n where r1: "r1 = r\<lparr>rc_NodeClassifier := n\<rparr>"
      using dep_calculateCurrentReplicaState_frame [OF rebalanced(3)] by blast
    from rebalanced(5) show ?thesis
    proof (cases rule: dep_rebalance_cases)
      case (ran w perr r3 effs2)
      from ran(6) assms(2) obtain perr' where p: "perr = Some perr'" "err = ApiError perr'" by (cases perr) auto
      with ran dep_performPodRebalancing_frame(1,2) [OF ran(3)] r1 show ?thesis
        by (auto simp: error_accounted_def)
    qed (use assms(2) in simp_all)
  qed (use assms(2) in \<open>auto simp: error_accounted_def\<close>)
  then show "error_accounted req err r r'"
    and "evictions effs = [] \<or> (\<exists>p. evictions effs = [p] \<and> fst (EvictPod (e_api e 6) p) = EvictionResultError)"
    by simp_all
qed

lemma dep_refused_eviction:
  assumes "dep_Reconcile e req r = (res, r', effs)" and "evictions effs = [p]"
    and "snd (EvictPod (e_api e 6) p) \<noteq> None"
  shows "(snd res = None) = (fst (EvictPod (e_api e 6) p) = EvictionResultPDBBlocked) \<and>
    rc_lastDeletionTimes r' = rc_lastDeletionTimes r"
  using assms(1)
proof (cases rule: dep_Reconcile_cases)
  case (processed d r0 rg effs1)
  have rg: "rc_lastDeletionTimes rg = rc_lastDeletionTimes r" by (simp add: processed)
  from processed(7) show ?thesis
  proof (cases rule: dep_process_cases)
    case (rebalanced config st r1)
    have r1: "rc_lastDeletionTimes r1 = rc_lastDeletionTimes r"
      using dep_calculateCurrentReplicaState_frame [OF rebalanced(3)] rg by auto
    from rebalanced(5) show ?thesis
    proof (cases rule: dep_rebalance_cases)
      case (ran w perr r3 effs2)
      with dep_performPodRebalancing_frame(3) [OF ran(3) _ assms(3)] processed(8) assms(2) r1
      show ?thesis by (auto split: option.splits)
    qed (use assms(2) processed(8) in simp_all)
  qed (use assms(2) processed(8) in simp_all)
qed (use assms(2) in simp_all)

section \<open>Properties\<close>

text \<open>A Deployment's pod is evicted only when the Deployment carries the enabling label, its
  namespace is allowed, the cooldown of the last deletion is over, all its replicas are
  ready, updated and available, its annotations parse, the observed counts differ from the
  target, the resolved disruption window (if any) is open, and the budget check of the pod
  does not forbid it; and never more than one pod per reconciliation.\<close>

theorem deployment_eviction_preconditions:
  assumes "dep_Reconcile e req r = (res, r', effs)" and "evictions effs \<noteq> []" and "in_i64 (getCooldownPeriod r)"
  shows "\<exists>d config p w st r0 r1. cl_GetDeployment (e_api e 0) (rq_Namespace req) (rq_Name req) = Inr d \<and>
    IsSpotalisEnabled (wl_Object d) \<and>
    (\<forall>nf. rc_NamespaceFilter r = Some nf \<longrightarrow>
      fr_Allowed (fst (IsNamespaceAllowed (Some (e_api e 1)) (e_clk e 1) (e_clk e 2) (wl_Namespace d) nf))) \<and>
    (\<forall>t. rc_lastDeletionTimes r (request_String req) = Some (TimeValue t) \<longrightarrow> t + getCooldownPeriod r \<le> e_clk e 3) \<and>
    isDeploymentStableAndReady d \<and> ParseWorkloadConfiguration (wl_Object d) = Inr config \<and>
    dep_calculateCurrentReplicaState e d r0 = (Inr st, r1) \<and> dep_needsRebalancing (dep_target d config st) \<and>
    dep_resolveDisruptionWindow e d r1 = Inr w \<and> (w = None \<or> IsWithinWindow w (e_clk e 10)) \<and>
    evictions effs = [p] \<and> budget_permits (e_selector e) (e_api e 5) p"
  using assms(1,2)
proof (rule dep_evictionE, goal_cases)
  case (1 d r0 config st r1 w spotPods onDemandPods r2 p rest)
  have allowed: "\<forall>nf. rc_NamespaceFilter r = Some nf \<longrightarrow>
      fr_Allowed (fst (IsNamespaceAllowed (Some (e_api e 1)) (e_clk e 1) (e_clk e 2) (wl_Namespace d) nf))"
    using 1(3,4) by (auto simp: namespace_gate_def split: prod.splits)
  have cooled: "\<forall>t. rc_lastDeletionTimes r (request_String req) = Some (TimeValue t) \<longrightarrow> t + getCooldownPeriod r \<le> e_clk e 3"
    using 1(5) cooldown_remaining_None_iff [OF assms(3) getCooldownPeriod_positive] by (auto simp: cooldown_gate_pass_iff)
  show ?case using 1 allowed cooled by blast
qed


text \<open>The sample cluster in one reconciliation: the first of the two on-demand pods is evicted.\<close>

lemma sample_dep_run:
  "map pod_Name (evictions (snd (snd (dep_Reconcile (sample_env (9 * Minute)) sample_request sample_reconciler)))) = [''web-0'']"
  "fst (dep_Reconcile (sample_env (9 * Minute)) sample_request sample_reconciler) = (150000000000, None)"
  by code_simp+


theorem deployment_eviction_preconditions_witness:
  "\<exists>p w. evictions (snd (snd (dep_Reconcile (sample_env (9 * Minute)) sample_request sample_reconciler))) = [p] \<and>
     isDeploymentStableAndReady sample_deployment \<and> budget_permits match_labels sample_api p \<and>
     (w = None \<or> IsWithinWindow w (9 * Minute))"
proof -
  obtain res r' effs where run: "dep_Reconcile (sample_env (9 * Minute)) sample_request sample_reconciler = (res, r', effs)"
    by (metis prod_cases3)
  have "evictions effs \<noteq> []" using sample_dep_run(1) run by auto
  moreover have "in_i64 (getCooldownPeriod sample_reconciler)" by (simp add: sample_cooldown in_i64_def)
  ultimately show ?thesis
    using deployment_eviction_preconditions [OF run] run by (auto simp: sample_env_def sample_api_def)
qed

text \<open>C4: The evicted pod is assigned and not terminating (with the observer: running and Ready),
  and it belongs to a class that has more disruptable pods than its target, so the class
  keeps at least its target without it; the on-demand target never lies below the configured
  floor or the number of replicas, whichever is smaller.\<close>

theorem deployment_evicts_only_excess:
  assumes "dep_Reconcile e req r = (res, r', effs)" and "p \<in> set (evictions effs)"
    and "cl_GetDeployment (e_api e 0) (rq_Namespace req) (rq_Name req) = Inr d"
    and "wl_Replicas d = Some n" and "0 \<le> n" and "in_i32 n"
  shows "\<exists>config st r1 spotPods onDemandPods r2. ParseWorkloadConfiguration (wl_Object d) = Inr config \<and>
    dep_calculateCurrentReplicaState e d (snd (namespace_gate e (wl_Namespace d)
      (r\<lparr>rc_reconcileCount := i64 (rc_reconcileCount r + 1)\<rparr>))) = (Inr st, r1) \<and>
    categorizeDeploymentPods e d r1 = (Inr (spotPods, onDemandPods), r2) \<and>
    pod_DeletionTimestamp p = None \<and> pod_NodeName p \<noteq> [] \<and> (rc_Observer r \<longrightarrow> isReady p \<and> \<not> isTerminal p) \<and>
    min (wc_MinOnDemand config) n \<le> rs_DesiredOnDemand (dep_target d config st) \<and>
    (in_i32 (int (length spotPods)) \<and> in_i32 (int (length onDemandPods)) \<longrightarrow>
      p \<in> set spotPods \<and> rs_DesiredSpot (dep_target d config st) < int (length spotPods) \<or>
      p \<in> set onDemandPods \<and> rs_DesiredOnDemand (dep_target d config st) < int (length onDemandPods))"
proof -
  from assms(2) have "evictions effs \<noteq> []" by auto
  with assms(1) show ?thesis
  proof (rule dep_evictionE, goal_cases)
    case (1 d' r0 config st r1 w spotPods onDemandPods r2 p' rest)
    have [simp]: "d' = d" "p' = p" using 1(1,15) assms(2,3) by auto
    have wf: "wf_desired (dep_target d config st)" and tot: "rs_TotalReplicas (dep_target d config st) = n"
      using assms(4-6) by (auto simp: dep_target_def intro!: CalculateDesiredDistribution_wf)
    have sel: "p \<in> set (dep_selectPodsForDeletion spotPods onDemandPods (dep_target d config st))"
      using 1(13) by simp
    then have mem: "p \<in> set spotPods \<union> set onDemandPods"
      by (auto simp: dep_selectPodsForDeletion_def dep_excess_def Let_def split: if_splits dest: set_take_int)
    have obs: "rc_Observer r1 = rc_Observer r"
      using dep_calculateCurrentReplicaState_observer [OF 1(8)] 1(3) by simp
    have cat: "categorizeDeploymentPods e d r1 = (Inr (spotPods, onDemandPods), r2)" using 1(12) by simp
    have floor: "min (wc_MinOnDemand config) n \<le> rs_DesiredOnDemand (dep_target d config st)"
      using desired_keeps_floor [of "st\<lparr>rs_TotalReplicas := n\<rparr>" config] assms(4-6) by (simp add: dep_target_def)
    have ex: "in_i32 (int (length spotPods)) \<and> in_i32 (int (length onDemandPods)) \<longrightarrow>
        p \<in> set spotPods \<and> rs_DesiredSpot (dep_target d config st) < int (length spotPods) \<or>
        p \<in> set onDemandPods \<and> rs_DesiredOnDemand (dep_target d config st) < int (length onDemandPods)"
      using excess_choice_member [of p spotPods onDemandPods "dep_target d config st"] sel
        dep_selectPodsForDeletion_eq [OF _ _ wf, of spotPods onDemandPods] assms(6) tot by auto
    have calc: "dep_calculateCurrentReplicaState e d (snd (namespace_gate e (wl_Namespace d)
        (r\<lparr>rc_reconcileCount := i64 (rc_reconcileCount r + 1)\<rparr>))) = (Inr st, r1)"
      using 1(3,8) by simp
    have parse: "ParseWorkloadConfiguration (wl_Object d) = Inr config" using 1(7) by simp
    show ?case
      using categorizeDeploymentPods_member [OF cat mem] unfolding obs
      by (intro exI conjI) (rule parse calc cat floor ex | blast)+
  qed
qed

theorem deployment_evicts_only_excess_witness:
  "\<exists>p. p \<in> set (evictions (snd (snd (dep_Reconcile (sample_env (9 * Minute)) sample_request sample_reconciler)))) \<and>
     pod_DeletionTimestamp p = None \<and> pod_NodeName p \<noteq> []"
proof -
  obtain res r' effs where run: "dep_Reconcile (sample_env (9 * Minute)) sample_request sample_reconciler = (res, r', effs)"
    by (metis prod_cases3)
  then obtain p where p: "p \<in> set (evictions effs)" using sample_dep_run(1) by (cases "evictions effs") auto
  have "cl_GetDeployment (e_api (sample_env (9 * Minute)) 0) (rq_Namespace sample_request) (rq_Name sample_request) =
      Inr sample_deployment" "wl_Replicas sample_deployment = Some 2"
    by (simp_all add: sample_env_def sample_api_def sample_deployment_def workload.defs deployment.defs)
  from deployment_evicts_only_excess [OF run p this] p run show ?thesis by (auto simp: in_i32_def)
qed


text \<open>C5: Rate: after a reconciliation whose eviction succeeded at clock time \<open>t\<close>, no later
  reconciliation of the same Deployment that reads a time before \<open>t\<close> plus the cooldown
  period evicts anything, however many of them run and whatever the cluster answers, as long
  as the Deployment is not reported deleted.\<close>

theorem deployment_cooldown_rate:
  assumes "dep_Reconcile e req r = (res, r1, effs)" and "evictions effs = [p]"
    and "snd (EvictPod (e_api e 6) p) = None" and "in_i64 (getCooldownPeriod r)"
    and "run_controller dep_Reconcile req es r1 = (r2, trace)"
    and "\<forall>e'\<in>set es. e_clk e' 3 < e_clk e 15 + getCooldownPeriod r"
    and "\<forall>e'\<in>set es. \<forall>err. cl_GetDeployment (e_api e' 0) (rq_Namespace req) (rq_Name req) = Inl err \<longrightarrow> \<not> IsNotFound err"
  shows "evictions (concat trace) = []"
proof -
  have c: "getCooldownPeriod r1 = getCooldownPeriod r" by (rule deployment.cooldown_constant [OF assms(1)])
  have keep: "\<forall>e'\<in>set es. \<forall>r. rc_lastDeletionTimes r (request_String req) \<noteq> None \<longrightarrow>
      rc_lastDeletionTimes (fst (snd (dep_Reconcile e' req r))) (request_String req) \<noteq> None"
    using dep_keeps_time assms(7) by (metis prod.collapse)
  show ?thesis
    by (rule deployment.quiet_during_cooldown [OF assms(5) dep_success_recorded [OF assms(1-3)]])
      (use assms(4,6) keep c in simp_all)
qed

theorem deployment_cooldown_rate_witness:
  "evictions (concat (snd (run_controller dep_Reconcile sample_request [sample_env (9 * Minute), sample_env (9 * Minute + 5 * Second)]
     (fst (snd (dep_Reconcile (sample_env (9 * Minute)) sample_request sample_reconciler)))))) = []"
proof -
  obtain res r1 effs where run: "dep_Reconcile (sample_env (9 * Minute)) sample_request sample_reconciler = (res, r1, effs)"
    by (metis prod_cases3)
  then have "length (evictions effs) = 1" using sample_dep_run(1) by (metis length_map length_Cons list.size(3) snd_conv One_nat_def)
  then obtain p where p: "evictions effs = [p]" by (cases "evictions effs") auto
  have ev: "snd (EvictPod (e_api (sample_env (9 * Minute)) 6) p) = None"
    by (simp add: EvictPod_def sample_env_def sample_api_def)
  have i: "in_i64 (getCooldownPeriod sample_reconciler)" by (simp add: sample_cooldown in_i64_def)
  obtain r2 trace where es: "run_controller dep_Reconcile sample_request
      [sample_env (9 * Minute), sample_env (9 * Minute + 5 * Second)] r1 = (r2, trace)" by fastforce
  have "evictions (concat trace) = []"
    by (rule deployment_cooldown_rate [OF run p ev i es])
      (simp_all add: sample_cooldown sample_env_def sample_api_def duration_units)
  with es run show ?thesis by simp
qed


text \<open>C28: Every error a reconciliation returns is counted once and kept as the last, unrecovered
  error of the request (a malformed deletion time, which no operation stores, is the one
  exception), and is not accompanied by an eviction unless the eviction itself failed.\<close>

theorem deployment_errors_recorded:
  assumes "dep_Reconcile e req r = (res, r', effs)" and "snd res = Some err"
    and "rc_lastDeletionTimes r (request_String req) \<noteq> Some NoTimeValue"
  shows "rc_errorCount r' = i64 (rc_errorCount r + 1) \<and>
    (\<exists>t. rc_lastError r' = Some \<lparr>ce_Error = err, ce_Timestamp = t, ce_Request = req, ce_Recovered = False\<rparr>) \<and>
    (evictions effs = [] \<or> (\<exists>p. evictions effs = [p] \<and> fst (EvictPod (e_api e 6) p) = EvictionResultError)) \<and>
    rc_lastDeletionTimes r' (request_String req) \<noteq> Some NoTimeValue"
proof -
  have keeps: "rc_lastDeletionTimes r' (request_String req) \<noteq> Some NoTimeValue"
    using deployment.deletion_recorded [OF assms(1)] assms(3) by fastforce
  have "error_accounted req err r r' \<and>
    (evictions effs = [] \<or> (\<exists>p. evictions effs = [p] \<and> fst (EvictPod (e_api e 6) p) = EvictionResultError))"
    using assms(1)
  proof (cases rule: dep_Reconcile_cases)
    case (cooling d r0)
    then have False
      using assms(2,3) by (auto simp: cooldown_gate_def split: option.splits sync_value.splits)
    then show ?thesis ..
  next
    case (processed d r0 r1 effs1)
    from dep_process_errors [OF processed(7) assms(2)] processed show ?thesis
      by (simp add: error_accounted_def)
  qed (use assms(2) in \<open>auto simp: error_accounted_def\<close>)
  with keeps show ?thesis by (simp add: error_accounted_def)
qed

definition failing_env :: "time \<Rightarrow> env" where
  "failing_env now = (sample_env now)\<lparr>e_api := \<lambda>_. sample_api\<lparr>cl_GetDeployment :=
     \<lambda>_ _. Inl (StatusError (ReasonOther ''Timeout''))\<rparr>\<rparr>"

theorem deployment_errors_recorded_witness:
  "rc_errorCount (fst (snd (dep_Reconcile (failing_env 9) sample_request sample_reconciler))) = 1"
proof -
  obtain res r' effs where run: "dep_Reconcile (failing_env 9) sample_request sample_reconciler = (res, r', effs)"
    by (metis prod_cases3)
  have "snd res = Some (ApiError (StatusError (ReasonOther ''Timeout'')))"
    using run by (auto simp: dep_Reconcile_def failing_env_def IsNotFound_def Let_def sample_env_def)
  moreover have "rc_lastDeletionTimes sample_reconciler (request_String sample_request) \<noteq> Some NoTimeValue"
    by (simp add: sample_reconciler_def)
  moreover have "rc_errorCount sample_reconciler = 0" by (simp add: sample_reconciler_def)
  ultimately show ?thesis using deployment_errors_recorded [OF run] run by (simp add: i64_id in_i64_def)
qed

text \<open>A refused eviction leaves the cooldown as it was, and is an error of the reconciliation
  exactly when it was not refused by a budget.\<close>

theorem deployment_refused_eviction:
  assumes "dep_Reconcile e req r = (res, r', effs)" and "evictions effs = [p]"
    and "snd (EvictPod (e_api e 6) p) \<noteq> None"
  shows "(snd res = None \<longleftrightarrow> fst (EvictPod (e_api e 6) p) = EvictionResultPDBBlocked) \<and>
    rc_lastDeletionTimes r' = rc_lastDeletionTimes r"
  using dep_refused_eviction [OF assms] .

definition blocked_env :: "time \<Rightarrow> env" where
  "blocked_env now = (sample_env now)\<lparr>e_api := \<lambda>_. sample_api\<lparr>cl_Evict :=
     \<lambda>_ _. Some (StatusError ReasonTooManyRequests)\<rparr>\<rparr>"

lemma blocked_run:
  "map pod_Name (evictions (snd (snd (dep_Reconcile (blocked_env (9 * Minute)) sample_request sample_reconciler)))) = [''web-0'']"
  by code_simp

theorem deployment_refused_eviction_witness:
  "\<exists>p. evictions (snd (snd (dep_Reconcile (blocked_env (9 * Minute)) sample_request sample_reconciler))) = [p] \<and>
    snd (fst (dep_Reconcile (blocked_env (9 * Minute)) sample_request sample_reconciler)) = None"
proof -
  obtain res r' effs where run: "dep_Reconcile (blocked_env (9 * Minute)) sample_request sample_reconciler = (res, r', effs)"
    by (metis prod_cases3)
  then have "length (evictions effs) = 1"
    using blocked_run by (metis length_map length_Cons list.size(3) snd_conv One_nat_def)
  then obtain p where p: "evictions effs = [p]" by (cases "evictions effs") auto
  have ev: "EvictPod (e_api (blocked_env (9 * Minute)) 6) p =
      (EvictionResultPDBBlocked, Some (StatusError ReasonTooManyRequests))"
    by (simp add: EvictPod_def blocked_env_def IsNotFound_def IsTooManyRequests_def)
  from deployment_refused_eviction [OF run p] p run ev show ?thesis by auto
qed

end
