(* ===== verification/Admission_State.thy ===== *)
theory Admission_State
  imports Kube_Objects
begin

text \<open>
  \<^verbatim>\<open>pkg/webhook/admission_state.go\<close>: the tracker of admissions that are not yet
  visible as pods. Each operation runs under the tracker's lock and is one step; the map of
  the source is only looked up, written by key and filtered, so it is a partial function.
  The background loop calls \<open>cleanup\<close> at every tick until it is stopped.
\<close>

datatype StaleReason = StaleReasonNone | StaleReasonGeneration | StaleReasonPodListAge

record StalenessCheck =
  sc_IsStale :: bool
  sc_Reason :: StaleReason

record PendingAdmission =
  pa_PendingSpot :: int
  pa_PendingOnDemand :: int
  pa_LastUpdated :: time
  pa_Generation :: int
  pa_PodListResourceVersion :: string
  pa_PodListTime :: time

record AdmissionStateTracker =
  as_pending :: "string \<rightharpoonup> PendingAdmission"
  as_ttl :: duration
  as_podListMaxAge :: duration

definition DefaultAdmissionTTL :: duration where "DefaultAdmissionTTL = 30 * Second"
definition CleanupInterval :: duration where "CleanupInterval = 10 * Second"
definition DefaultPodListMaxAge :: duration where "DefaultPodListMaxAge = 5 * Second"

definition capacityTypeSpot :: string where "capacityTypeSpot = ''spot''"
definition capacityTypeOnDemand :: string where "capacityTypeOnDemand = ''on-demand''"

lemma capacity_types_distinct [simp]:
  "capacityTypeSpot \<noteq> capacityTypeOnDemand" "capacityTypeOnDemand \<noteq> capacityTypeSpot"
  by (simp_all add: capacityTypeSpot_def capacityTypeOnDemand_def)

definition NewAdmissionStateTracker :: "duration \<Rightarrow> AdmissionStateTracker" where
  "NewAdmissionStateTracker ttl =
     \<lparr>as_pending = Map.empty, as_ttl = (if ttl \<le> 0 then DefaultAdmissionTTL else ttl),
      as_podListMaxAge = DefaultPodListMaxAge\<rparr>"

definition WorkloadKey :: "string \<Rightarrow> string \<Rightarrow> string \<Rightarrow> string" where
  "WorkloadKey namespace kind name = namespace @ ''/'' @ kind @ ''/'' @ name"

definition WorkloadKeyForUID :: "string \<Rightarrow> string" where
  "WorkloadKeyForUID uid = ''uid/'' @ uid"

definition new_pending :: "int \<Rightarrow> PendingAdmission" where
  "new_pending generation = \<lparr>pa_PendingSpot = 0, pa_PendingOnDemand = 0, pa_LastUpdated = 0,
     pa_Generation = generation, pa_PodListResourceVersion = [], pa_PodListTime = 0\<rparr>"

definition GetPendingCounts :: "string \<Rightarrow> int \<Rightarrow> AdmissionStateTracker \<Rightarrow> int \<times> int" where
  "GetPendingCounts key currentGeneration t =
     (case as_pending t key of
        None \<Rightarrow> (0, 0)
      | Some p \<Rightarrow>
          if pa_Generation p \<noteq> currentGeneration then (0, 0)
          else (pa_PendingSpot p, pa_PendingOnDemand p))"

text \<open>The entry an increment works on: the current one of the same generation, or a new one.\<close>

definition pending_entry :: "string \<Rightarrow> int \<Rightarrow> AdmissionStateTracker \<Rightarrow> PendingAdmission" where
  "pending_entry key generation t =
     (case as_pending t key of
        None \<Rightarrow> new_pending generation
      | Some p \<Rightarrow> if pa_Generation p \<noteq> generation then new_pending generation else p)"

definition increment :: "time \<Rightarrow> string \<Rightarrow> PendingAdmission \<Rightarrow> PendingAdmission" where
  "increment now capacityType p =
     (let p = (if capacityType = capacityTypeSpot
               then p\<lparr>pa_PendingSpot := i32 (pa_PendingSpot p + 1)\<rparr>
               else p\<lparr>pa_PendingOnDemand := i32 (pa_PendingOnDemand p + 1)\<rparr>)
      in p\<lparr>pa_LastUpdated := now\<rparr>)"

definition IncrementPending ::
  "time \<Rightarrow> string \<Rightarrow> string \<Rightarrow> int \<Rightarrow> AdmissionStateTracker \<Rightarrow> AdmissionStateTracker" where
  "IncrementPending now key capacityType generation t =
     t\<lparr>as_pending := (as_pending t)(key \<mapsto> increment now capacityType (pending_entry key generation t))\<rparr>"

definition SelectAndReserve ::
  "time \<Rightarrow> string \<Rightarrow> int \<Rightarrow> int \<Rightarrow> int \<Rightarrow> int \<Rightarrow> int \<Rightarrow> AdmissionStateTracker \<Rightarrow>
   string \<times> AdmissionStateTracker" where
  "SelectAndReserve now key generation observedSpot observedOnDemand targetSpot targetOnDemand t =
     (let p = pending_entry key generation t;
          capacityType =
            (if i64 (observedOnDemand + pa_PendingOnDemand p) \<ge> targetOnDemand \<and>
                i64 (observedSpot + pa_PendingSpot p) < targetSpot
             then capacityTypeSpot else capacityTypeOnDemand)
      in (capacityType, t\<lparr>as_pending := (as_pending t)(key \<mapsto> increment now capacityType p)\<rparr>))"

definition cleanup :: "time \<Rightarrow> AdmissionStateTracker \<Rightarrow> AdmissionStateTracker" where
  "cleanup now t =
     t\<lparr>as_pending := (\<lambda>key. case as_pending t key of
        None \<Rightarrow> None
      | Some p \<Rightarrow> if time_sub now (pa_LastUpdated p) > as_ttl t then None else Some p)\<rparr>"

definition CheckStaleness :: "time \<Rightarrow> string \<Rightarrow> int \<Rightarrow> AdmissionStateTracker \<Rightarrow> StalenessCheck" where
  "CheckStaleness now key currentGeneration t =
     (case as_pending t key of
        None \<Rightarrow> \<lparr>sc_IsStale = False, sc_Reason = StaleReasonNone\<rparr>
      | Some p \<Rightarrow>
          if pa_Generation p \<noteq> currentGeneration
          then \<lparr>sc_IsStale = True, sc_Reason = StaleReasonGeneration\<rparr>
          else if \<not> IsZero (pa_PodListTime p) \<and> time_sub now (pa_PodListTime p) > as_podListMaxAge t
          then \<lparr>sc_IsStale = True, sc_Reason = StaleReasonPodListAge\<rparr>
          else \<lparr>sc_IsStale = False, sc_Reason = StaleReasonNone\<rparr>)"

text \<open>An existing entry keeps its generation, also when it is an old one.\<close>

definition UpdatePodListMetadata ::
  "time \<Rightarrow> string \<Rightarrow> string \<Rightarrow> int \<Rightarrow> AdmissionStateTracker \<Rightarrow> AdmissionStateTracker" where
  "UpdatePodListMetadata now key resourceVersion generation t =
     (let p = (case as_pending t key of None \<Rightarrow> new_pending generation | Some p \<Rightarrow> p)
      in t\<lparr>as_pending := (as_pending t)(key \<mapsto>
           p\<lparr>pa_PodListResourceVersion := resourceVersion, pa_PodListTime := now, pa_LastUpdated := now\<rparr>)\<rparr>)"

definition ResetPending :: "time \<Rightarrow> string \<Rightarrow> int \<Rightarrow> AdmissionStateTracker \<Rightarrow> AdmissionStateTracker" where
  "ResetPending now key newGeneration t =
     t\<lparr>as_pending := (as_pending t)(key \<mapsto>
        (new_pending newGeneration)\<lparr>pa_LastUpdated := now, pa_PodListTime := now\<rparr>)\<rparr>"

section \<open>Pending counts after each operation\<close>

lemma pending_entry_counts:
  "pa_PendingSpot (pending_entry key g t) = fst (GetPendingCounts key g t)"
  "pa_PendingOnDemand (pending_entry key g t) = snd (GetPendingCounts key g t)"
  "pa_Generation (pending_entry key g t) = g"
  by (auto simp: pending_entry_def GetPendingCounts_def new_pending_def split: option.splits)

lemma increment_simps:
  "pa_PendingSpot (increment now c p) = (if c = capacityTypeSpot then i32 (pa_PendingSpot p + 1) else pa_PendingSpot p)"
  "pa_PendingOnDemand (increment now c p) =
     (if c = capacityTypeSpot then pa_PendingOnDemand p else i32 (pa_PendingOnDemand p + 1))"
  "pa_Generation (increment now c p) = pa_Generation p"
  "pa_LastUpdated (increment now c p) = now"
  by (simp_all add: increment_def Let_def)

lemma GetPendingCounts_entry:
  "as_pending t key = Some p \<Longrightarrow>
     GetPendingCounts key g t = (if pa_Generation p \<noteq> g then (0, 0) else (pa_PendingSpot p, pa_PendingOnDemand p))"
  by (simp add: GetPendingCounts_def)

lemma GetPendingCounts_increment:
  "GetPendingCounts key g (IncrementPending now key c g t) =
    (if c = capacityTypeSpot
     then (i32 (fst (GetPendingCounts key g t) + 1), snd (GetPendingCounts key g t))
     else (fst (GetPendingCounts key g t), i32 (snd (GetPendingCounts key g t) + 1)))"
proof -
  have "as_pending (IncrementPending now key c g t) key = Some (increment now c (pending_entry key g t))"
    by (simp add: IncrementPending_def)
  from GetPendingCounts_entry [OF this] show ?thesis by (simp add: increment_simps pending_entry_counts)
qed

lemma SelectAndReserve_increment:
  "snd (SelectAndReserve now key g s d S D t) =
    IncrementPending now key (fst (SelectAndReserve now key g s d S D t)) g t"
  by (simp add: SelectAndReserve_def IncrementPending_def Let_def)

lemma SelectAndReserve_pair:
  "SelectAndReserve now key g s d S D t =
    (fst (SelectAndReserve now key g s d S D t),
     IncrementPending now key (fst (SelectAndReserve now key g s d S D t)) g t)"
  by (rule prod_eqI) (simp_all add: SelectAndReserve_increment)

lemma SelectAndReserve_choice:
  assumes "GetPendingCounts key g t = (ps, pd)"
  shows "fst (SelectAndReserve now key g s d S D t) =
    (if D \<le> i64 (d + pd) \<and> i64 (s + ps) < S then capacityTypeSpot else capacityTypeOnDemand)"
  using assms by (simp add: SelectAndReserve_def Let_def pending_entry_counts)

lemma GetPendingCounts_metadata:
  "GetPendingCounts key g (UpdatePodListMetadata now key rv g t) = GetPendingCounts key g t"
  by (auto simp: UpdatePodListMetadata_def GetPendingCounts_def new_pending_def Let_def split: option.splits)

lemma other_key:
  assumes "key' \<noteq> key"
  shows "as_pending (IncrementPending now key c g t) key' = as_pending t key'"
    and "as_pending (UpdatePodListMetadata now key rv g t) key' = as_pending t key'"
    and "as_pending (ResetPending now key g t) key' = as_pending t key'"
  using assms by (simp_all add: IncrementPending_def UpdatePodListMetadata_def ResetPending_def Let_def)

lemma generation_change_resets:
  assumes "as_pending t key = Some p" and "pa_Generation p \<noteq> g"
  shows "GetPendingCounts key g t = (0, 0)" and "sc_IsStale (CheckStaleness now key g t)"
  using assms by (simp_all add: GetPendingCounts_def CheckStaleness_def)

lemma cleanup_keeps:
  "as_pending (cleanup now t) key = Some p \<longleftrightarrow> as_pending t key = Some p \<and> time_sub now (pa_LastUpdated p) \<le> as_ttl t"
  by (auto simp: cleanup_def split: option.splits)

section \<open>A burst of admissions\<close>

text \<open>
  \<open>n\<close> admissions of one generation against one observation, at increasing times. The
  result is the number of spot choices and the tracker.
\<close>

fun burst :: "(nat \<Rightarrow> time) \<Rightarrow> string \<Rightarrow> int \<Rightarrow> int \<Rightarrow> int \<Rightarrow> int \<Rightarrow> int \<Rightarrow> nat \<Rightarrow> AdmissionStateTracker \<Rightarrow>
    nat \<times> AdmissionStateTracker" where
  "burst clk key g s d S D 0 t = (0, t)"
| "burst clk key g s d S D (Suc n) t =
     (case burst clk key g s d S D n t of (k, t) \<Rightarrow>
        (case SelectAndReserve (clk n) key g s d S D t of
           (c, t) \<Rightarrow> (if c = capacityTypeSpot then Suc k else k, t)))"

definition burst_spot :: "int \<Rightarrow> int \<Rightarrow> int \<Rightarrow> int \<Rightarrow> nat \<Rightarrow> int" where
  "burst_spot s d S D n = min (max 0 (int n - max 0 (D - d))) (max 0 (S - s))"

lemma burst_spot_bounds: "0 \<le> burst_spot s d S D n" "burst_spot s d S D n \<le> int n"
  by (auto simp: burst_spot_def)

lemma burst_spot_step:
  "burst_spot s d S D (Suc n) =
    (if D \<le> d + (int n - burst_spot s d S D n) \<and> s + burst_spot s d S D n < S
     then burst_spot s d S D n + 1 else burst_spot s d S D n)"
  by (auto simp: burst_spot_def min_def max_def)

lemma burst_counts:
  assumes "GetPendingCounts key g t = (0, 0)" and "0 \<le> s" "0 \<le> d" "in_i32 s" "in_i32 d" "in_i32 (int n)"
  shows "int (fst (burst clk key g s d S D n t)) = burst_spot s d S D n \<and>
    GetPendingCounts key g (snd (burst clk key g s d S D n t)) =
      (burst_spot s d S D n, int n - burst_spot s d S D n)"
  using assms
proof (induction n)
  case 0
  then show ?case by (simp add: burst_spot_def)
next
  case (Suc n)
  obtain k t1 where b: "burst clk key g s d S D n t = (k, t1)" by fastforce
  have n: "in_i32 (int n)" using Suc.prems(6) by (simp add: in_i32_def)
  let ?s = "burst_spot s d S D n"
  note bd = burst_spot_bounds [of s d S D n]
  have k: "int k = ?s" and p: "GetPendingCounts key g t1 = (?s, int n - ?s)"
    using Suc.IH [OF Suc.prems(1-5) n] b by simp_all
  have r: "i64 (d + (int n - ?s)) = d + (int n - ?s)" "i64 (s + ?s) = s + ?s"
    using bd Suc.prems n by (auto intro!: i64_id simp: in_i64_def in_i32_def)
  have r': "i32 (?s + 1) = ?s + 1" "i32 (int n - ?s + 1) = int n - ?s + 1"
    using bd Suc.prems(6) by (auto intro!: i32_id simp: in_i32_def)
  define c where "c = fst (SelectAndReserve (clk n) key g s d S D t1)"
  have c: "c = (if D \<le> d + (int n - ?s) \<and> s + ?s < S then capacityTypeSpot else capacityTypeOnDemand)"
    unfolding c_def SelectAndReserve_choice [OF p] r by simp
  have "SelectAndReserve (clk n) key g s d S D t1 = (c, IncrementPending (clk n) key c g t1)"
    unfolding c_def by (rule SelectAndReserve_pair)
  then have "burst clk key g s d S D (Suc n) t =
      (if c = capacityTypeSpot then Suc k else k, IncrementPending (clk n) key c g t1)"
    by (simp add: b)
  then show ?case using k r' by (simp add: GetPendingCounts_increment p c burst_spot_step)
qed

text \<open>
  The same admissions when every admitted pod shows up in the next observation while its
  reservation is still pending: each pod is counted twice.
\<close>

fun observed_burst :: "(nat \<Rightarrow> time) \<Rightarrow> string \<Rightarrow> int \<Rightarrow> int \<Rightarrow> int \<Rightarrow> nat \<Rightarrow> AdmissionStateTracker \<Rightarrow>
    nat \<times> nat \<times> AdmissionStateTracker" where
  "observed_burst clk key g S D 0 t = (0, 0, t)"
| "observed_burst clk key g S D (Suc n) t =
     (case observed_burst clk key g S D n t of (s, d, t) \<Rightarrow>
        (case SelectAndReserve (clk n) key g (int s) (int d) S D t of
           (c, t) \<Rightarrow> if c = capacityTypeSpot then (Suc s, d, t) else (s, Suc d, t)))"

definition half_up :: "int \<Rightarrow> int" where "half_up x = (x + 1) div 2"

definition observed_spot :: "int \<Rightarrow> int \<Rightarrow> nat \<Rightarrow> int" where
  "observed_spot S D n = min (max 0 (int n - half_up D)) (half_up S)"

lemma observed_spot_step:
  assumes "0 \<le> S" "0 \<le> D"
  shows "observed_spot S D (Suc n) =
    (if D \<le> 2 * (int n - observed_spot S D n) \<and> 2 * observed_spot S D n < S
     then observed_spot S D n + 1 else observed_spot S D n)"
proof -
  have h: "D \<le> 2 * m \<longleftrightarrow> half_up D \<le> m" "2 * m < S \<longleftrightarrow> m < half_up S" for m
    unfolding half_up_def by presburger+
  have "0 \<le> half_up S" "0 \<le> half_up D" using assms by (simp_all add: half_up_def)
  then show ?thesis unfolding h by (auto simp: observed_spot_def min_def max_def)
qed

lemma observed_spot_bounds: "0 \<le> S \<Longrightarrow> 0 \<le> observed_spot S D n"
  "0 \<le> S \<Longrightarrow> 0 \<le> D \<Longrightarrow> observed_spot S D n \<le> int n"
  by (auto simp: observed_spot_def half_up_def)

lemma observed_burst_counts:
  assumes "GetPendingCounts key g t = (0, 0)" and "0 \<le> S" "0 \<le> D" "in_i32 (int n)"
  shows "case observed_burst clk key g S D n t of (s, d, t') \<Rightarrow>
    int s = observed_spot S D n \<and> int d = int n - observed_spot S D n \<and> GetPendingCounts key g t' = (int s, int d)"
  using assms
proof (induction n)
  case 0
  then show ?case by (simp add: observed_spot_def half_up_def)
next
  case (Suc n)
  obtain s d t1 where b: "observed_burst clk key g S D n t = (s, d, t1)" by (metis prod_cases3)
  have n: "in_i32 (int n)" using Suc.prems(4) by (simp add: in_i32_def)
  let ?s = "observed_spot S D n"
  have k: "int s = ?s" "int d = int n - ?s" and p: "GetPendingCounts key g t1 = (int s, int d)"
    using Suc.IH [OF Suc.prems(1-3) n] b by simp_all
  note bd = observed_spot_bounds [OF Suc.prems(2), of D n] observed_spot_bounds(2) [OF Suc.prems(2,3), of n]
  have r: "i64 (int d + int d) = 2 * int d" "i64 (int s + int s) = 2 * int s"
    using bd k n by (auto intro!: i64_id simp: in_i64_def in_i32_def)
  have r': "i32 (int s + 1) = int s + 1" "i32 (int d + 1) = int d + 1"
    using bd k Suc.prems(4) by (auto intro!: i32_id simp: in_i32_def)
  define c where "c = fst (SelectAndReserve (clk n) key g (int s) (int d) S D t1)"
  have c: "c = (if D \<le> 2 * int d \<and> 2 * int s < S then capacityTypeSpot else capacityTypeOnDemand)"
    unfolding c_def SelectAndReserve_choice [OF p] r by simp
  have "SelectAndReserve (clk n) key g (int s) (int d) S D t1 = (c, IncrementPending (clk n) key c g t1)"
    unfolding c_def by (rule SelectAndReserve_pair)
  then have "observed_burst clk key g S D (Suc n) t =
      (if c = capacityTypeSpot then (Suc s, d, IncrementPending (clk n) key c g t1)
       else (s, Suc d, IncrementPending (clk n) key c g t1))"
    by (simp add: b)
  with k r' show ?case
    by (simp add: GetPendingCounts_increment p c observed_spot_step [OF Suc.prems(2,3)])
qed

section \<open>Properties\<close>

text \<open>C15: A burst of admissions against one observation fills the on-demand target first and
  then the spot target: of \<open>n\<close> reservations, exactly the ones beyond the missing
  on-demand pods go to spot, as long as spot pods are missing. When as many pods are admitted
  as are missing, the observed and reserved pods meet both targets.\<close>

theorem burst_meets_targets:
  assumes "GetPendingCounts key g t = (0, 0)" and "0 \<le> s" "0 \<le> d" "in_i32 s" "in_i32 d" "in_i32 (int n)"
  shows "int (fst (burst clk key g s d S D n t)) = min (max 0 (int n - max 0 (D - d))) (max 0 (S - s)) \<and>
    GetPendingCounts key g (snd (burst clk key g s d S D n t)) =
      (int (fst (burst clk key g s d S D n t)), int n - int (fst (burst clk key g s d S D n t))) \<and>
    (s \<le> S \<longrightarrow> d \<le> D \<longrightarrow> int n = (S - s) + (D - d) \<longrightarrow>
       s + int (fst (burst clk key g s d S D n t)) = S \<and>
       d + (int n - int (fst (burst clk key g s d S D n t))) = D)"
  using burst_counts [OF assms, of clk S D] by (auto simp: burst_spot_def)

theorem burst_meets_targets_witness:
  "int (fst (burst (\<lambda>_. 1) ''uid/u1'' 1 1 2 6 4 7 (NewAdmissionStateTracker 0))) = 5"
proof -
  have "GetPendingCounts ''uid/u1'' 1 (NewAdmissionStateTracker 0) = (0, 0)"
    by (simp add: GetPendingCounts_def NewAdmissionStateTracker_def)
  from burst_meets_targets [OF this, of 1 2 7 "\<lambda>_. 1" 6 4] show ?thesis by (simp add: in_i32_def)
qed

text \<open>A reservation is not released when its pod appears. If every admitted pod is observed
  before the next admission, each pod counts twice, and a workload that grows from nothing to
  its full size gets only half of its spot target (rounded up); the rest goes to
  on-demand.\<close>

theorem observed_pods_counted_twice:
  assumes "GetPendingCounts key g t = (0, 0)" and "0 \<le> S" "0 \<le> D" and "int n = S + D" and "in_i32 (int n)"
  shows "case observed_burst clk key g S D n t of (s, d, t') \<Rightarrow>
    int s = min (S + D - (D + 1) div 2) ((S + 1) div 2) \<and> s + d = n"
proof -
  have "observed_spot S D n = min (S + D - (D + 1) div 2) ((S + 1) div 2)"
    using assms(2,3) unfolding observed_spot_def half_up_def assms(4) by auto
  with observed_burst_counts [OF assms(1-3,5), of clk] show ?thesis by (auto split: prod.splits)
qed

text \<open>Target two and two: three pods end on on-demand nodes.\<close>

theorem observed_pods_counted_twice_witness:
  "case observed_burst (\<lambda>_. 1) ''uid/u1'' 1 2 2 4 (NewAdmissionStateTracker 0) of (s, d, t') \<Rightarrow> s = 1 \<and> s + d = 4"
proof -
  have "GetPendingCounts ''uid/u1'' 1 (NewAdmissionStateTracker 0) = (0, 0)"
    by (simp add: GetPendingCounts_def NewAdmissionStateTracker_def)
  from observed_pods_counted_twice [OF this, of 2 2 4 "\<lambda>_. 1"] show ?thesis
    by (auto simp: in_i32_def split: prod.splits)
qed

end
