(* ===== verification/Mutate.thy ===== *)
theory Mutate
  imports Node_Classifier Admission_State
begin

text \<open>
  \<^verbatim>\<open>pkg/webhook/mutate.go\<close>: the admission handler that pins a new pod of a
  managed workload to spot or on-demand nodes by a node selector.

  As in the controllers, an environment answers the calls: views of the cluster are 0 the
  configuration lookup, 1 the workload of the pod, 2 the observation, 3 the generation, 4 the
  pods in the namespace; readings of the clock are 0 and 1 the classifier or the staleness
  test and reset, 2 the observation, 3 its freshness, 4 the list metadata, 5 the reservation.
  The two readings of the clock in one metadata update are taken to be equal.
\<close>

section \<open>JSON pointers\<close>

text \<open>\<^verbatim>\<open>strings.ReplaceAll\<close> with a pattern of one and of two characters.\<close>

definition replace_char :: "char \<Rightarrow> string \<Rightarrow> string \<Rightarrow> string" where
  "replace_char a r s = concat (map (\<lambda>c. if c = a then r else [c]) s)"

fun replace_pair :: "char \<Rightarrow> char \<Rightarrow> char \<Rightarrow> string \<Rightarrow> string" where
  "replace_pair a b r (x # y # zs) =
     (if x = a \<and> y = b then r # replace_pair a b r zs else x # replace_pair a b r (y # zs))"
| "replace_pair a b r s = s"

definition jsonPointerEscape :: "string \<Rightarrow> string" where
  "jsonPointerEscape s = replace_char (CHR ''/'') ''~1'' (replace_char (CHR ''~'') ''~0'' s)"

definition jsonPointerUnescape :: "string \<Rightarrow> string" where
  "jsonPointerUnescape s =
     replace_pair (CHR ''~'') (CHR ''0'') (CHR ''~'') (replace_pair (CHR ''~'') (CHR ''1'') (CHR ''/'') s)"

section \<open>The handler\<close>

definition workloadTypeReplicaSet :: string where "workloadTypeReplicaSet = ''ReplicaSet''"
definition workloadTypeStatefulSet :: string where "workloadTypeStatefulSet = ''StatefulSet''"
definition workloadTypeDeployment :: string where "workloadTypeDeployment = ''Deployment''"

lemmas workload_types = workloadTypeReplicaSet_def workloadTypeStatefulSet_def workloadTypeDeployment_def

text \<open>The label selectors of \<^verbatim>\<open>pkg/config\<close> the handler reads its label from.\<close>

record CapacityLabelConfig =
  clc_SpotLabels :: "label_selector list"
  clc_OnDemandLabels :: "label_selector list"

record MutationHandler =
  mh_NodeClassifier :: NodeClassifierService
  mh_NodeClassifierConfig :: "CapacityLabelConfig option"
  mh_MetricsCollector :: bool
  mh_AdmissionTracker :: "AdmissionStateTracker option"
  mh_Observer :: bool

record webhook_env =
  we_api :: "nat \<Rightarrow> k8s_client"
  we_clk :: "nat \<Rightarrow> time"
  we_selector :: as_selector

datatype webhook_error =
    WebhookApi go_error
  | WebhookParse annotation_error
  | WebhookAllocation policy_error

text \<open>The first entry in the iteration order of the selector's map decides the key.\<close>

definition getCapacityTypeLabelConfig :: "MutationHandler \<Rightarrow> string \<times> string \<times> string" where
  "getCapacityTypeLabelConfig m =
     (case mh_NodeClassifierConfig m of
        None \<Rightarrow> (CapacityTypeLabel, capacityTypeSpot, capacityTypeOnDemand)
      | Some cfg \<Rightarrow>
         (let (labelKey, spotValue) =
                (case clc_SpotLabels cfg of
                   [] \<Rightarrow> (CapacityTypeLabel, capacityTypeSpot)
                 | selector # _ \<Rightarrow>
                    (case ls_MatchLabels selector of
                       [] \<Rightarrow> (CapacityTypeLabel, capacityTypeSpot)
                     | (k, v) # _ \<Rightarrow> (k, v)));
              onDemandValue =
                (case clc_OnDemandLabels cfg of
                   [] \<Rightarrow> capacityTypeOnDemand
                 | selector # _ \<Rightarrow>
                    (case map_of (ls_MatchLabels selector) labelKey of
                       None \<Rightarrow> capacityTypeOnDemand
                     | Some v \<Rightarrow> v))
          in (labelKey, spotValue, onDemandValue)))"

section \<open>The configuration of a pod's workload\<close>

definition getConfigFromWorkload :: "go_error + k8s_object \<Rightarrow> webhook_error + WorkloadConfiguration option" where
  "getConfigFromWorkload got =
     (case got of
        Inl err \<Rightarrow> Inl (WebhookApi err)
      | Inr obj \<Rightarrow>
          if \<not> HasSpotalisAnnotations obj then Inr None
          else case ParseWorkloadConfiguration obj of
            Inl err \<Rightarrow> Inl (WebhookParse err)
          | Inr config \<Rightarrow> Inr (Some config))"

definition getConfigFromDeployment ::
  "k8s_client \<Rightarrow> string \<Rightarrow> string \<Rightarrow> webhook_error + WorkloadConfiguration option" where
  "getConfigFromDeployment api namespace name =
     getConfigFromWorkload (case cl_GetDeployment api namespace name of Inl err \<Rightarrow> Inl err | Inr d \<Rightarrow> Inr (wl_Object d))"

definition getConfigFromStatefulSet ::
  "k8s_client \<Rightarrow> string \<Rightarrow> string \<Rightarrow> webhook_error + WorkloadConfiguration option" where
  "getConfigFromStatefulSet api namespace name =
     getConfigFromWorkload (case cl_GetStatefulSet api namespace name of Inl err \<Rightarrow> Inl err | Inr d \<Rightarrow> Inr (wl_Object d))"

definition getConfigFromReplicaSet ::
  "k8s_client \<Rightarrow> string \<Rightarrow> string \<Rightarrow> webhook_error + (WorkloadConfiguration \<times> string \<times> string) option" where
  "getConfigFromReplicaSet api namespace name =
     (case cl_GetReplicaSet api namespace name of
        Inl err \<Rightarrow> Inl (WebhookApi err)
      | Inr rs \<Rightarrow>
         (case find (\<lambda>ow. or_Kind ow = workloadTypeDeployment) (rset_OwnerReferences rs) of
            None \<Rightarrow> Inr None
          | Some ow \<Rightarrow>
             (case getConfigFromDeployment api namespace (or_Name ow) of
                Inl err \<Rightarrow> Inl err
              | Inr config \<Rightarrow> Inr (map_option (\<lambda>c. (c, workloadTypeDeployment, or_Name ow)) config))))"

text \<open>The loop over the owners; every error goes on with the next owner.\<close>

fun config_for_owners ::
  "k8s_client \<Rightarrow> string \<Rightarrow> owner_reference list \<Rightarrow> (WorkloadConfiguration \<times> string \<times> string) option" where
  "config_for_owners api ns [] = None"
| "config_for_owners api ns (ow # rest) =
     (if or_Kind ow = workloadTypeReplicaSet then
        (case getConfigFromReplicaSet api ns (or_Name ow) of
           Inr (Some found) \<Rightarrow> Some found
         | _ \<Rightarrow> config_for_owners api ns rest)
      else if or_Kind ow = workloadTypeStatefulSet then
        (case getConfigFromStatefulSet api ns (or_Name ow) of
           Inr (Some config) \<Rightarrow> Some (config, workloadTypeStatefulSet, or_Name ow)
         | _ \<Rightarrow> config_for_owners api ns rest)
      else if or_Kind ow = workloadTypeDeployment then
        (case getConfigFromDeployment api ns (or_Name ow) of
           Inr (Some config) \<Rightarrow> Some (config, workloadTypeDeployment, or_Name ow)
         | _ \<Rightarrow> config_for_owners api ns rest)
      else config_for_owners api ns rest)"

text \<open>Its error is nil on every path; the handler's branch for it is dead.\<close>

definition getWorkloadConfigForPod ::
  "k8s_client \<Rightarrow> pod \<Rightarrow> (WorkloadConfiguration \<times> string \<times> string) option" where
  "getWorkloadConfigForPod api pod = config_for_owners api (pod_Namespace pod) (pod_OwnerReferences pod)"

section \<open>The workload of a pod\<close>

text \<open>The inner loop over a ReplicaSet's owners: \<open>None\<close> when no controlling Deployment is among them.\<close>

definition deployment_of_replicaset :: "k8s_client \<Rightarrow> string \<Rightarrow> replica_set \<Rightarrow> (go_error + workload_object) option" where
  "deployment_of_replicaset api ns rs =
     (case find (\<lambda>ow. or_Kind ow = workloadTypeDeployment \<and> or_Controller ow = Some True) (rset_OwnerReferences rs) of
        None \<Rightarrow> None
      | Some ow \<Rightarrow>
         (case cl_GetDeployment api ns (or_Name ow) of
            Inl err \<Rightarrow> Some (Inl err)
          | Inr d \<Rightarrow>
              if wl_UID d \<noteq> or_UID ow
              then Some (Inl (Errorf ''deployment owner UID does not match ReplicaSet owner reference''))
              else Some (Inr (Deployment d))))"

fun workload_for_owners :: "k8s_client \<Rightarrow> string \<Rightarrow> owner_reference list \<Rightarrow> go_error + workload_object" where
  "workload_for_owners api ns [] = Inl (Errorf ''no supported workload owner found'')"
| "workload_for_owners api ns (ow # rest) =
     (if or_Kind ow = workloadTypeReplicaSet then
        (case cl_GetReplicaSet api ns (or_Name ow) of
           Inl err \<Rightarrow> Inl err
         | Inr rs \<Rightarrow>
             if rset_UID rs \<noteq> or_UID ow
             then Inl (Errorf ''ReplicaSet owner UID does not match pod owner reference'')
             else case deployment_of_replicaset api ns rs of
               Some result \<Rightarrow> result
             | None \<Rightarrow> workload_for_owners api ns rest)
      else if or_Kind ow = workloadTypeStatefulSet then
        (case cl_GetStatefulSet api ns (or_Name ow) of
           Inl err \<Rightarrow> Inl err
         | Inr s \<Rightarrow>
             if wl_UID s \<noteq> or_UID ow
             then Inl (Errorf ''StatefulSet owner UID does not match pod owner reference'')
             else Inr (StatefulSet s))
      else workload_for_owners api ns rest)"

definition workloadForPod :: "k8s_client \<Rightarrow> pod \<Rightarrow> go_error + workload_object" where
  "workloadForPod api pod = workload_for_owners api (pod_Namespace pod) (pod_OwnerReferences pod)"

text \<open>The source's result names say type and name; the values are name and kind.\<close>

fun workload_info_owners :: "k8s_client \<Rightarrow> string \<Rightarrow> owner_reference list \<Rightarrow> go_error + string \<times> string" where
  "workload_info_owners api ns [] = Inl (Errorf ''no supported workload owner found'')"
| "workload_info_owners api ns (ow # rest) =
     (if or_Kind ow = workloadTypeReplicaSet then
        (case cl_GetReplicaSet api ns (or_Name ow) of
           Inl err \<Rightarrow> workload_info_owners api ns rest
         | Inr rs \<Rightarrow>
            (case find (\<lambda>ow. or_Kind ow = workloadTypeDeployment) (rset_OwnerReferences rs) of
               Some rsOwner \<Rightarrow> Inr (or_Name rsOwner, workloadTypeDeployment)
             | None \<Rightarrow> workload_info_owners api ns rest))
      else if or_Kind ow = workloadTypeStatefulSet then Inr (or_Name ow, workloadTypeStatefulSet)
      else if or_Kind ow = workloadTypeDeployment then Inr (or_Name ow, workloadTypeDeployment)
      else workload_info_owners api ns rest)"

definition getWorkloadInfo :: "k8s_client \<Rightarrow> pod \<Rightarrow> go_error + string \<times> string" where
  "getWorkloadInfo api pod = workload_info_owners api (pod_Namespace pod) (pod_OwnerReferences pod)"

definition desiredReplicas :: "int option \<Rightarrow> int" where
  "desiredReplicas replicas = (case replicas of None \<Rightarrow> 1 | Some n \<Rightarrow> n)"

definition workloadDesiredReplicas :: "workload_object \<Rightarrow> go_error + int" where
  "workloadDesiredReplicas w =
     (case w of
        Deployment d \<Rightarrow> Inr (desiredReplicas (wl_Replicas d))
      | StatefulSet d \<Rightarrow> Inr (desiredReplicas (wl_Replicas d))
      | OtherObject gv kind \<Rightarrow> Inl (Errorf ''unsupported workload type''))"

definition getWorkloadGeneration :: "k8s_client \<Rightarrow> string \<Rightarrow> string \<Rightarrow> string \<Rightarrow> go_error + int \<times> int" where
  "getWorkloadGeneration api namespace name kind =
     (if kind = workloadTypeDeployment then
        (case cl_GetDeployment api namespace name of
           Inl err \<Rightarrow> Inl err
         | Inr d \<Rightarrow> Inr (wl_Generation d, desiredReplicas (wl_Replicas d)))
      else if kind = workloadTypeStatefulSet then
        (case cl_GetStatefulSet api namespace name of
           Inl err \<Rightarrow> Inl err
         | Inr s \<Rightarrow> Inr (wl_Generation s, desiredReplicas (wl_Replicas s)))
      else Inl (Errorf ''unsupported workload kind''))"

section \<open>The capacity type a pod asks for\<close>

text \<open>The empty string stands for undetermined, as in the source.\<close>

definition getCapacityTypeFromNodeSelector :: "MutationHandler \<Rightarrow> pod \<Rightarrow> string" where
  "getCapacityTypeFromNodeSelector m pod =
     (case pod_NodeSelector pod of
        None \<Rightarrow> []
      | Some selector \<Rightarrow>
         (case getCapacityTypeLabelConfig m of
            (labelKey, spotValue, _) \<Rightarrow>
              (case selector labelKey of
                 None \<Rightarrow> []
               | Some v \<Rightarrow> if v = spotValue then capacityTypeSpot else capacityTypeOnDemand)))"

text \<open>The first expression with the key and a value decides.\<close>

definition expression_type :: "string \<Rightarrow> string \<Rightarrow> selector_term \<Rightarrow> string option" where
  "expression_type labelKey spotValue expr =
     (if st_Key expr = labelKey
      then (case st_Values expr of
              [] \<Rightarrow> None
            | v # _ \<Rightarrow> Some (if v = spotValue then capacityTypeSpot else capacityTypeOnDemand))
      else None)"

definition getCapacityTypeFromRequiredAffinity :: "MutationHandler \<Rightarrow> node_affinity \<Rightarrow> string" where
  "getCapacityTypeFromRequiredAffinity m nodeAffinity =
     (case na_Required nodeAffinity of
        None \<Rightarrow> []
      | Some terms \<Rightarrow>
         (case getCapacityTypeLabelConfig m of
            (labelKey, spotValue, _) \<Rightarrow>
              (case List.map_filter (expression_type labelKey spotValue) (concat terms) of
                 [] \<Rightarrow> []
               | t # _ \<Rightarrow> t)))"

text \<open>One preferred term: its expressions only count when it outweighs the terms seen, the last one decides.\<close>

definition prefer_term :: "string \<Rightarrow> string \<Rightarrow> int \<times> string \<Rightarrow> preferred_term \<Rightarrow> int \<times> string" where
  "prefer_term labelKey spotValue = (\<lambda>(highestWeight, preferredType) t.
     if pt_Weight t > highestWeight
     then foldl (\<lambda>(highestWeight, preferredType) expr.
            case expression_type labelKey spotValue expr of
              None \<Rightarrow> (highestWeight, preferredType)
            | Some ty \<Rightarrow> (pt_Weight t, ty)) (highestWeight, preferredType) (pt_MatchExpressions t)
     else (highestWeight, preferredType))"

definition getCapacityTypeFromPreferredAffinity :: "MutationHandler \<Rightarrow> node_affinity \<Rightarrow> string" where
  "getCapacityTypeFromPreferredAffinity m nodeAffinity =
     (case na_Preferred nodeAffinity of
        None \<Rightarrow> []
      | Some terms \<Rightarrow>
         (case getCapacityTypeLabelConfig m of
            (labelKey, spotValue, _) \<Rightarrow> snd (foldl (prefer_term labelKey spotValue) (0, []) terms)))"

definition getCapacityTypeFromNodeAffinity :: "MutationHandler \<Rightarrow> pod \<Rightarrow> string" where
  "getCapacityTypeFromNodeAffinity m pod =
     (case pod_Affinity pod of
        None \<Rightarrow> []
      | Some None \<Rightarrow> []
      | Some (Some nodeAffinity) \<Rightarrow>
         (let capacityType = getCapacityTypeFromRequiredAffinity m nodeAffinity
          in if capacityType \<noteq> [] then capacityType
             else getCapacityTypeFromPreferredAffinity m nodeAffinity))"

definition getPodCapacityType :: "MutationHandler \<Rightarrow> pod \<Rightarrow> string" where
  "getPodCapacityType m pod =
     (let fromSelector = getCapacityTypeFromNodeSelector m pod
      in if fromSelector \<noteq> [] then fromSelector
         else let fromAffinity = getCapacityTypeFromNodeAffinity m pod
              in if fromAffinity \<noteq> [] then fromAffinity else capacityTypeOnDemand)"

definition owner_of_workload :: "k8s_client \<Rightarrow> string \<Rightarrow> string \<Rightarrow> string \<Rightarrow> owner_reference \<Rightarrow> bool" where
  "owner_of_workload api ns workloadName workloadKind ow =
     (if workloadKind = workloadTypeDeployment then
        (if or_Kind ow = workloadTypeReplicaSet then
           (case cl_GetReplicaSet api ns (or_Name ow) of
              Inl err \<Rightarrow> False
            | Inr rs \<Rightarrow> list_ex (\<lambda>rsOwner. or_Kind rsOwner = workloadTypeDeployment \<and> or_Name rsOwner = workloadName)
                (rset_OwnerReferences rs))
         else False)
      else if workloadKind = workloadTypeStatefulSet then
        or_Kind ow = workloadTypeStatefulSet \<and> or_Name ow = workloadName
      else False)"

definition podBelongsToWorkload :: "k8s_client \<Rightarrow> pod \<Rightarrow> string \<Rightarrow> string \<Rightarrow> bool" where
  "podBelongsToWorkload api pod workloadName workloadKind =
     list_ex (owner_of_workload api (pod_Namespace pod) workloadName workloadKind) (pod_OwnerReferences pod)"

definition countCurrentPodsWithRV ::
  "MutationHandler \<Rightarrow> k8s_client \<Rightarrow> string \<Rightarrow> string \<Rightarrow> string \<Rightarrow> string \<Rightarrow> go_error + int \<times> int \<times> string" where
  "countCurrentPodsWithRV m api namespace workloadName workloadKind excludePodName =
     (case cl_ListPodsRV api namespace of
        Inl err \<Rightarrow> Inl err
      | Inr (items, resourceVersion) \<Rightarrow>
         (let counted = filter (\<lambda>p. pod_Name p \<noteq> excludePodName \<and>
                  (pod_Phase p = PodRunning \<or> pod_Phase p = PodPending) \<and>
                  podBelongsToWorkload api p workloadName workloadKind) items;
              (spotCount, onDemandCount) =
                foldl (\<lambda>(s, d) p. if getPodCapacityType m p = capacityTypeSpot then (i64 (s + 1), d) else (s, i64 (d + 1)))
                  (0, 0) counted
          in Inr (spotCount, onDemandCount, resourceVersion)))"

section \<open>The target capacity of a new pod\<close>

definition observed_capacity ::
  "webhook_env \<Rightarrow> workload_object \<Rightarrow> Snapshot \<Rightarrow> ReplicaAllocation \<Rightarrow> MutationHandler \<Rightarrow> string \<times> MutationHandler" where
  "observed_capacity e w snapshot allocation m =
     (case ActualCounts snapshot of
        (spot, onDemand) \<Rightarrow>
          (case mh_AdmissionTracker m of
             Some t \<Rightarrow>
               (let key = WorkloadKeyForUID (ref_UID (sn_WorkloadRef snapshot));
                    generation = snd (snd (snd (workload_meta w)));
                    t = UpdatePodListMetadata (we_clk e 4) key (sn_PodResourceVersion snapshot) generation t
                in case SelectAndReserve (we_clk e 5) key generation spot onDemand
                          (al_TargetSpot allocation) (al_TargetOnDemand allocation) t of
                     (capacityType, t) \<Rightarrow> (capacityType, m\<lparr>mh_AdmissionTracker := Some t\<rparr>))
           | None \<Rightarrow>
               (if onDemand < al_TargetOnDemand allocation then capacityTypeOnDemand
                else if spot < al_TargetSpot allocation then capacityTypeSpot
                else capacityTypeOnDemand, m)))"

text \<open>The path with an observer. Every error comes with on-demand.\<close>

definition determine_observed ::
  "webhook_env \<Rightarrow> pod \<Rightarrow> WorkloadConfiguration \<Rightarrow> MutationHandler \<Rightarrow> (webhook_error + string) \<times> MutationHandler" where
  "determine_observed e pod config m =
     (case workloadForPod (we_api e 1) pod of
        Inl err \<Rightarrow> (Inl (WebhookApi err), m)
      | Inr workload \<Rightarrow>
         (case Observe (we_selector e) (we_api e 2)
                 (Some (ClassifyNodesByName (we_api e 2) (we_clk e 0) (we_clk e 1))) (we_clk e 2) workload (mh_NodeClassifier m) of
            (observed, n) \<Rightarrow>
              (let m = m\<lparr>mh_NodeClassifier := n\<rparr>
               in case observed of
                 Inl err \<Rightarrow> (Inl (WebhookApi err), m)
               | Inr snapshot \<Rightarrow>
                   if \<not> IsFresh (Some snapshot) (we_clk e 3) DefaultPodListMaxAge \<or> sn_ClassificationError snapshot \<noteq> None
                   then (Inr capacityTypeOnDemand, m)
                   else case workloadDesiredReplicas workload of
                     Inl err \<Rightarrow> (Inl (WebhookApi err), m)
                   | Inr desired \<Rightarrow>
                      (case AllocateReplicaDistribution desired (AllocationPolicy config) of
                         Inl err \<Rightarrow> (Inl (WebhookAllocation err), m)
                       | Inr allocation \<Rightarrow>
                          (case observed_capacity e workload snapshot allocation m of
                             (capacityType, m) \<Rightarrow> (Inr capacityType, m))))))"

text \<open>The choice of the path without an observer, from the effective counts.\<close>

definition effective_choice :: "int \<Rightarrow> int \<Rightarrow> ReplicaAllocation \<Rightarrow> string" where
  "effective_choice effectiveSpot effectiveOnDemand allocation =
     (if effectiveOnDemand < al_TargetOnDemand allocation then capacityTypeOnDemand
      else if effectiveSpot < al_TargetSpot allocation then capacityTypeSpot
      else capacityTypeOnDemand)"

definition refresh_tracker :: "webhook_env \<Rightarrow> string \<Rightarrow> int \<Rightarrow> AdmissionStateTracker \<Rightarrow> AdmissionStateTracker" where
  "refresh_tracker e key generation t =
     (if sc_IsStale (CheckStaleness (we_clk e 0) key generation t)
      then ResetPending (we_clk e 1) key generation t else t)"

definition determine_listed ::
  "webhook_env \<Rightarrow> pod \<Rightarrow> WorkloadConfiguration \<Rightarrow> MutationHandler \<Rightarrow> (webhook_error + string) \<times> MutationHandler" where
  "determine_listed e pod config m =
     (case getWorkloadInfo (we_api e 1) pod of
        Inl err \<Rightarrow> (Inl (WebhookApi err), m)
      | Inr (workloadName, workloadKind) \<Rightarrow>
         (case getWorkloadGeneration (we_api e 3) (pod_Namespace pod) workloadName workloadKind of
            Inl err \<Rightarrow> (Inl (WebhookApi err), m)
          | Inr (generation, desired) \<Rightarrow>
             (let key = WorkloadKey (pod_Namespace pod) workloadKind workloadName;
                  m = m\<lparr>mh_AdmissionTracker := map_option (refresh_tracker e key generation) (mh_AdmissionTracker m)\<rparr>
              in case countCurrentPodsWithRV m (we_api e 4) (pod_Namespace pod) workloadName workloadKind (pod_Name pod) of
                   Inl err \<Rightarrow> (Inl (WebhookApi err), m)
                 | Inr (spotCount, onDemandCount, listRV) \<Rightarrow>
                    (let m = m\<lparr>mh_AdmissionTracker :=
                           map_option (UpdatePodListMetadata (we_clk e 4) key listRV generation) (mh_AdmissionTracker m)\<rparr>;
                         (effectiveSpot, effectiveOnDemand) =
                           (case mh_AdmissionTracker m of
                              None \<Rightarrow> (spotCount, onDemandCount)
                            | Some t \<Rightarrow>
                               (case GetPendingCounts key generation t of
                                  (pendingSpot, pendingOnDemand) \<Rightarrow>
                                    (i64 (spotCount + pendingSpot), i64 (onDemandCount + pendingOnDemand))))
                     in case AllocateReplicaDistribution desired (AllocationPolicy config) of
                          Inl err \<Rightarrow> (Inl (WebhookAllocation err), m)
                        | Inr allocation \<Rightarrow>
                           (let choice = effective_choice effectiveSpot effectiveOnDemand allocation
                            in (Inr choice, m\<lparr>mh_AdmissionTracker :=
                                  map_option (IncrementPending (we_clk e 5) key choice generation) (mh_AdmissionTracker m)\<rparr>))))))"

definition determineTargetCapacityType ::
  "webhook_env \<Rightarrow> pod \<Rightarrow> WorkloadConfiguration \<Rightarrow> MutationHandler \<Rightarrow> (webhook_error + string) \<times> MutationHandler" where
  "determineTargetCapacityType e pod config m =
     (if mh_Observer m then determine_observed e pod config m else determine_listed e pod config m)"

section \<open>Patches\<close>

datatype patch_value = PatchMap "(string \<times> string) list" | PatchString string

text \<open>The generated maps always have these three entries; the conversion through JSON keeps them.\<close>

record patch_operation =
  po_Op :: string
  po_Path :: string
  po_Value :: patch_value

definition nodeSelectorPatches :: "pod \<Rightarrow> string \<Rightarrow> string \<Rightarrow> patch_operation list" where
  "nodeSelectorPatches pod labelKey labelValue =
     (case pod_NodeSelector pod of
        None \<Rightarrow> [\<lparr>po_Op = ''add'', po_Path = ''/spec/nodeSelector'', po_Value = PatchMap [(labelKey, labelValue)]\<rparr>]
      | Some selector \<Rightarrow>
          [\<lparr>po_Op = ''add'', po_Path = ''/spec/nodeSelector/'' @ jsonPointerEscape labelKey,
            po_Value = PatchString labelValue\<rparr>])"

definition generateNodeSelectorPatches ::
  "webhook_env \<Rightarrow> pod \<Rightarrow> WorkloadConfiguration \<Rightarrow> MutationHandler \<Rightarrow> patch_operation list \<times> MutationHandler" where
  "generateNodeSelectorPatches e pod config m =
     (case determineTargetCapacityType e pod config m of
        (determined, m) \<Rightarrow>
          (let capacityType = (case determined of Inl err \<Rightarrow> capacityTypeOnDemand | Inr c \<Rightarrow> c)
           in case getCapacityTypeLabelConfig m of
                (labelKey, spotValue, onDemandValue) \<Rightarrow>
                  (nodeSelectorPatches pod labelKey (if capacityType = capacityTypeSpot then spotValue else onDemandValue), m)))"

definition generatePodPatches ::
  "webhook_env \<Rightarrow> pod \<Rightarrow> WorkloadConfiguration \<Rightarrow> MutationHandler \<Rightarrow>
   (patch_operation list \<times> string list) \<times> MutationHandler" where
  "generatePodPatches e pod config m =
     (case generateNodeSelectorPatches e pod config m of
        (patches, m) \<Rightarrow> ((patches, if length patches > 0 then [''nodeSelector''] else []), m))"

section \<open>The request handler\<close>

record admission_request =
  rq_Kind :: string
  rq_Operation :: string
  rq_Object :: "go_error + pod"

datatype admission_response =
    Allowed string
  | Errored int go_error
  | Patched string "patch_operation list"

fun resp_Allowed :: "admission_response \<Rightarrow> bool" where
  "resp_Allowed (Allowed s) = True"
| "resp_Allowed (Errored code err) = False"
| "resp_Allowed (Patched s ps) = True"

datatype webhook_metric =
    WebhookRequest string string string
  | WebhookMutation string string

definition mutatePod ::
  "webhook_env \<Rightarrow> admission_request \<Rightarrow> MutationHandler \<Rightarrow>
   (admission_response \<times> webhook_metric list) \<times> MutationHandler" where
  "mutatePod e req m =
     (case rq_Object req of
        Inl err \<Rightarrow> ((Errored 400 err, []), m)
      | Inr pod \<Rightarrow>
         (case getWorkloadConfigForPod (we_api e 0) pod of
            None \<Rightarrow> ((Allowed ''not managed by Spotalis'', []), m)
          | Some (workloadConfig, workloadKind, workloadName) \<Rightarrow>
             (case generatePodPatches e pod workloadConfig m of
                ((patches, mutationTypes), m) \<Rightarrow>
                  if length patches = 0 then ((Allowed ''no mutations needed'', []), m)
                  else ((Patched ''applied Spotalis mutations'' patches,
                         if mh_MetricsCollector m then map (WebhookMutation ''Pod'') mutationTypes else []), m))))"

definition Handle ::
  "webhook_env \<Rightarrow> admission_request \<Rightarrow> MutationHandler \<Rightarrow>
   (admission_response \<times> webhook_metric list) \<times> MutationHandler" where
  "Handle e req m =
     (case (if rq_Kind req = ''Pod'' then mutatePod e req m
            else ((Allowed ''unsupported resource kind'', []), m)) of
        ((response, metrics), m) \<Rightarrow>
          ((response, metrics @ (if mh_MetricsCollector m
             then [WebhookRequest (rq_Operation req) (rq_Kind req) (if resp_Allowed response then ''allowed'' else ''denied'')]
             else [])), m))"

section \<open>Escaping round trip\<close>

definition escape_char :: "char \<Rightarrow> string" where
  "escape_char c = (if c = CHR ''~'' then ''~0'' else if c = CHR ''/'' then ''~1'' else [c])"

lemma jsonPointerEscape_chars: "jsonPointerEscape s = concat (map escape_char s)"
  by (induction s) (auto simp: jsonPointerEscape_def replace_char_def escape_char_def)

lemma replace_pair_skip: "c \<noteq> a \<Longrightarrow> replace_pair a b r (c # s) = c # replace_pair a b r s"
  by (cases s) simp_all

lemma unescape_slash:
  "replace_pair (CHR ''~'') (CHR ''1'') (CHR ''/'') (concat (map escape_char s)) =
    replace_char (CHR ''~'') ''~0'' s"
  by (induction s) (auto simp: escape_char_def replace_char_def replace_pair_skip)

lemma unescape_tilde:
  "replace_pair (CHR ''~'') (CHR ''0'') (CHR ''~'') (replace_char (CHR ''~'') ''~0'' s) = s"
  by (induction s) (auto simp: replace_char_def replace_pair_skip)

lemma pointer_roundtrip: "jsonPointerUnescape (jsonPointerEscape s) = s"
  by (simp add: jsonPointerUnescape_def jsonPointerEscape_chars unescape_slash unescape_tilde)

lemma escape_no_slash: "CHR ''/'' \<notin> set (jsonPointerEscape s)"
  by (auto simp: jsonPointerEscape_chars escape_char_def split: if_splits)

section \<open>What the patch does to the pod\<close>

text \<open>
  The API server's reading of an \<^verbatim>\<open>add\<close> operation on the node selector (RFC 6902): the
  whole map, or one member whose name is the rest of the path, a single segment.
\<close>

definition apply_patch :: "patch_operation \<Rightarrow> string_map option \<Rightarrow> string_map option" where
  "apply_patch op selector =
     (if po_Op op = ''add'' then
        (if po_Path op = ''/spec/nodeSelector''
         then (case po_Value op of PatchMap kvs \<Rightarrow> Some (map_of kvs) | PatchString v \<Rightarrow> selector)
         else if HasPrefix (po_Path op) ''/spec/nodeSelector/'' \<and>
            CHR ''/'' \<notin> set (drop (length ''/spec/nodeSelector/'') (po_Path op))
         then (case (po_Value op, selector) of
                 (PatchString v, Some m) \<Rightarrow>
                   Some (m(jsonPointerUnescape (drop (length ''/spec/nodeSelector/'') (po_Path op)) \<mapsto> v))
               | _ \<Rightarrow> selector)
         else selector)
      else selector)"

lemma nodeSelectorPatches_apply:
  "fold apply_patch (nodeSelectorPatches pod k v) (pod_NodeSelector pod) =
    Some ((case pod_NodeSelector pod of None \<Rightarrow> Map.empty | Some m \<Rightarrow> m)(k \<mapsto> v))"
proof (cases "pod_NodeSelector pod")
  case None
  then show ?thesis by (simp add: nodeSelectorPatches_def apply_patch_def)
next
  case (Some m)
  have p: "HasPrefix (''/spec/nodeSelector/'' @ jsonPointerEscape k) ''/spec/nodeSelector/''"
    by (rule HasPrefix_append)
  have d: "drop (length ''/spec/nodeSelector/'') (''/spec/nodeSelector/'' @ jsonPointerEscape k) = jsonPointerEscape k"
    by (simp only: append_eq_conv_conj drop_append) simp
  have n: "''/spec/nodeSelector/'' @ jsonPointerEscape k \<noteq> ''/spec/nodeSelector''" by simp
  show ?thesis
    unfolding nodeSelectorPatches_def Some option.case fold_simps id_apply comp_def
    unfolding apply_patch_def patch_operation.select_convs d pointer_roundtrip
    using p n escape_no_slash [of k] by simp
qed

lemma nodeSelectorPatches_length [simp]: "length (nodeSelectorPatches pod k v) = Suc 0"
  by (simp add: nodeSelectorPatches_def split: option.splits)

lemma mutatePod_patches:
  assumes "rq_Object req = Inr pod" "getWorkloadConfigForPod (we_api e 0) pod = Some (config, kind, name)"
    and "determineTargetCapacityType e pod config m = (det, m')"
  shows "\<exists>metrics. mutatePod e req m = ((Patched ''applied Spotalis mutations'' (nodeSelectorPatches pod
      (fst (getCapacityTypeLabelConfig m'))
      (if det = Inr capacityTypeSpot then fst (snd (getCapacityTypeLabelConfig m')) else snd (snd (getCapacityTypeLabelConfig m')))),
      metrics), m')"
proof -
  obtain k s d where c: "getCapacityTypeLabelConfig m' = (k, s, d)" by (metis prod_cases3)
  define capacity where "capacity = (case det of Inl err \<Rightarrow> capacityTypeOnDemand | Inr c \<Rightarrow> c)"
  have cap: "(capacity = capacityTypeSpot) = (det = Inr capacityTypeSpot)"
    by (cases det) (auto simp: capacity_def)
  have g: "generateNodeSelectorPatches e pod config m =
      (nodeSelectorPatches pod k (if capacity = capacityTypeSpot then s else d), m')"
    by (simp add: generateNodeSelectorPatches_def assms(3) c Let_def capacity_def)
  show ?thesis
    unfolding mutatePod_def assms(1,2) generatePodPatches_def g sum.case option.case prod.case
    by (simp add: c cap)
qed


section \<open>The choice\<close>

lemma observed_capacity_untracked:
  assumes "mh_AdmissionTracker m = None" "ActualCounts s = (spot, onDemand)"
  shows "observed_capacity e w s a m = (effective_choice spot onDemand a, m)"
  using assms by (simp add: observed_capacity_def effective_choice_def)

lemma effective_choice_spot:
  "effective_choice s d a = capacityTypeSpot \<longleftrightarrow> al_TargetOnDemand a \<le> d \<and> s < al_TargetSpot a"
  by (auto simp: effective_choice_def)

lemma effective_choice_cases:
  "effective_choice s d a = capacityTypeSpot \<or> effective_choice s d a = capacityTypeOnDemand"
  by (simp add: effective_choice_def)

lemma determine_observed_spotE:
  assumes "determine_observed e pod config m = (Inr capacityTypeSpot, m')" and "mh_AdmissionTracker m = None"
  obtains w s n desired a spot onDemand where "workloadForPod (we_api e 1) pod = Inr w"
    "Observe (we_selector e) (we_api e 2) (Some (ClassifyNodesByName (we_api e 2) (we_clk e 0) (we_clk e 1)))
       (we_clk e 2) w (mh_NodeClassifier m) = (Inr s, n)"
    "IsFresh (Some s) (we_clk e 3) DefaultPodListMaxAge" "sn_ClassificationError s = None"
    "workloadDesiredReplicas w = Inr desired"
    "AllocateReplicaDistribution desired (AllocationPolicy config) = Inr a"
    "ActualCounts s = (spot, onDemand)" "al_TargetOnDemand a \<le> onDemand" "spot < al_TargetSpot a"
proof -
  obtain w where w: "workloadForPod (we_api e 1) pod = Inr w"
    using assms(1) by (auto simp: determine_observed_def split: sum.splits)
  obtain x n where o: "Observe (we_selector e) (we_api e 2)
      (Some (ClassifyNodesByName (we_api e 2) (we_clk e 0) (we_clk e 1))) (we_clk e 2) w (mh_NodeClassifier m) = (x, n)"
    by fastforce
  note eq = assms(1) [unfolded determine_observed_def w o sum.case prod.case Let_def]
  obtain s where s: "x = Inr s" using eq by (cases x) auto
  note eq = eq [unfolded s sum.case]
  have fresh: "IsFresh (Some s) (we_clk e 3) DefaultPodListMaxAge" "sn_ClassificationError s = None"
    using eq by (auto split: if_splits)
  with eq have eq: "(case workloadDesiredReplicas w of
        Inl err \<Rightarrow> (Inl (WebhookApi err), m\<lparr>mh_NodeClassifier := n\<rparr>)
      | Inr desired \<Rightarrow>
         (case AllocateReplicaDistribution desired (AllocationPolicy config) of
            Inl err \<Rightarrow> (Inl (WebhookAllocation err), m\<lparr>mh_NodeClassifier := n\<rparr>)
          | Inr allocation \<Rightarrow>
             (case observed_capacity e w s allocation (m\<lparr>mh_NodeClassifier := n\<rparr>) of
                (capacityType, m) \<Rightarrow> (Inr capacityType, m)))) = (Inr capacityTypeSpot, m')" by simp
  obtain desired where d: "workloadDesiredReplicas w = Inr desired" using eq by (auto split: sum.splits)
  obtain a where a: "AllocateReplicaDistribution desired (AllocationPolicy config) = Inr a"
    using eq by (auto simp: d split: sum.splits)
  obtain spot onDemand where c: "ActualCounts s = (spot, onDemand)" by fastforce
  have "effective_choice spot onDemand a = capacityTypeSpot"
    using eq observed_capacity_untracked [of "m\<lparr>mh_NodeClassifier := n\<rparr>" s spot onDemand e w a] assms(2) c
    by (simp add: d a)
  with that w o [unfolded s] fresh d a c show thesis by (simp add: effective_choice_spot)
qed

text \<open>The chain of owners behind a resolved workload, with the identities that were compared.\<close>

definition verified_owner :: "k8s_client \<Rightarrow> string \<Rightarrow> owner_reference \<Rightarrow> workload_object \<Rightarrow> bool" where
  "verified_owner api ns ow w \<longleftrightarrow>
     (\<exists>s. w = StatefulSet s \<and> wl_UID s = or_UID ow \<and> cl_GetStatefulSet api ns (or_Name ow) = Inr s) \<or>
     (\<exists>rs rsOwner d. cl_GetReplicaSet api ns (or_Name ow) = Inr rs \<and> rset_UID rs = or_UID ow \<and>
        rsOwner \<in> set (rset_OwnerReferences rs) \<and> or_Controller rsOwner = Some True \<and>
        w = Deployment d \<and> wl_UID d = or_UID rsOwner \<and> cl_GetDeployment api ns (or_Name rsOwner) = Inr d)"

lemma deployment_of_replicaset_owner:
  assumes "deployment_of_replicaset api ns rs = Some (Inr w)" "cl_GetReplicaSet api ns (or_Name ow) = Inr rs"
    "rset_UID rs = or_UID ow"
  shows "verified_owner api ns ow w"
proof -
  from assms(1) obtain rsOwner d where "rsOwner \<in> set (rset_OwnerReferences rs)" "or_Controller rsOwner = Some True"
    "w = Deployment d" "wl_UID d = or_UID rsOwner" "cl_GetDeployment api ns (or_Name rsOwner) = Inr d"
    by (auto simp: deployment_of_replicaset_def dest!: find_SomeD split: option.splits sum.splits if_splits)
  with assms(2,3) show ?thesis unfolding verified_owner_def by blast
qed

lemma workload_for_owners_identity:
  "workload_for_owners api ns ows = Inr w \<Longrightarrow> \<exists>ow\<in>set ows. verified_owner api ns ow w"
proof (induction ows)
  case (Cons ow ows)
  show ?case
  proof (cases "or_Kind ow = workloadTypeReplicaSet")
    case True
    with Cons.prems obtain r where r: "cl_GetReplicaSet api ns (or_Name ow) = Inr r" "rset_UID r = or_UID ow"
      by (auto split: sum.splits if_splits)
    show ?thesis
    proof (cases "deployment_of_replicaset api ns r")
      case None
      with Cons True r show ?thesis by simp
    next
      case (Some x)
      with Cons.prems True r have "deployment_of_replicaset api ns r = Some (Inr w)" by simp
      from deployment_of_replicaset_owner [OF this r] show ?thesis by simp
    qed
  next
    case False
    show ?thesis
    proof (cases "or_Kind ow = workloadTypeStatefulSet")
      case True
      with False Cons.prems have "verified_owner api ns ow w"
        by (auto simp: verified_owner_def split: sum.splits if_splits)
      then show ?thesis by simp
    next
      case other: False
      with False Cons show ?thesis by simp
    qed
  qed
qed simp

section \<open>Properties\<close>

text \<open>Escaping a label key for a JSON pointer and unescaping it returns the key, and the
  escaped key is a single path segment, whatever characters it has.\<close>

theorem json_pointer_roundtrip:
  "jsonPointerUnescape (jsonPointerEscape s) = s \<and> CHR ''/'' \<notin> set (jsonPointerEscape s)"
  using pointer_roundtrip escape_no_slash by blast

text \<open>C7: The webhook never rejects a pod it can decode. The pod of a workload without
  configuration is left alone; every other pod is patched so that its node selector keeps
  all its entries except the capacity label, which is set to the spot value when the choice
  is spot and to the on-demand value otherwise, an error of the choice included.\<close>

theorem webhook_patch_sound:
  assumes "rq_Kind req = ''Pod''" and "rq_Object req = Inr pod" and "Handle e req m = ((resp, metrics), m')"
  shows "resp_Allowed resp \<and>
    (case getWorkloadConfigForPod (we_api e 0) pod of
       None \<Rightarrow> resp = Allowed ''not managed by Spotalis'' \<and> m' = m
     | Some (config, kind, name) \<Rightarrow>
        (\<exists>ps labelKey spotValue onDemandValue det. resp = Patched ''applied Spotalis mutations'' ps \<and>
          determineTargetCapacityType e pod config m = (det, m') \<and>
          getCapacityTypeLabelConfig m' = (labelKey, spotValue, onDemandValue) \<and>
          fold apply_patch ps (pod_NodeSelector pod) =
            Some ((case pod_NodeSelector pod of None \<Rightarrow> Map.empty | Some s \<Rightarrow> s)
              (labelKey \<mapsto> (if det = Inr capacityTypeSpot then spotValue else onDemandValue)))))"
proof (cases "getWorkloadConfigForPod (we_api e 0) pod")
  case None
  with assms show ?thesis by (auto simp: Handle_def mutatePod_def)
next
  case (Some x)
  obtain config kind name where x: "x = (config, kind, name)" by (metis prod_cases3)
  obtain det m1 where d: "determineTargetCapacityType e pod config m = (det, m1)" by fastforce
  obtain k s o' where c: "getCapacityTypeLabelConfig m1 = (k, s, o')" by (metis prod_cases3)
  from mutatePod_patches [OF assms(2) Some [unfolded x] d] obtain mets where
    mp: "mutatePod e req m = ((Patched ''applied Spotalis mutations''
      (nodeSelectorPatches pod k (if det = Inr capacityTypeSpot then s else o')), mets), m1)"
    by (auto simp: c)
  have "resp = Patched ''applied Spotalis mutations'' (nodeSelectorPatches pod k (if det = Inr capacityTypeSpot then s else o'))"
    "m' = m1"
    using assms(1,3) mp by (auto simp: Handle_def)
  then show ?thesis using Some x d c nodeSelectorPatches_apply by simp
qed


text \<open>A third pod of the sample StatefulSet, whose first two run on an on-demand and a spot node.\<close>

definition admitted_pod :: pod where
  "admitted_pod = (sample_pod ''web-2'' [])\<lparr>pod_Phase := PodPending, pod_Conditions := [],
     pod_NodeSelector := Some [''disk'' \<mapsto> ''ssd''],
     pod_OwnerReferences := [\<lparr>or_Kind = ''StatefulSet'', or_Name = ''web'', or_UID = ''u1'', or_Controller = Some True\<rparr>]\<rparr>"

definition webhook_api :: k8s_client where
  "webhook_api = two_nodes\<lparr>cl_GetStatefulSet := \<lambda>_ _. Inr sample_statefulset,
     cl_ListOwnedPods := \<lambda>_ _. Inr [sample_pod ''web-0'' ''n0'', sample_pod ''web-1'' ''n1'']\<rparr>"

definition sample_webhook_env :: webhook_env where
  "sample_webhook_env = \<lparr>we_api = \<lambda>_. webhook_api, we_clk = \<lambda>_. 9 * Minute, we_selector = match_labels\<rparr>"

definition sample_handler :: MutationHandler where
  "sample_handler = \<lparr>mh_NodeClassifier = NewNodeClassifierService (Some karpenter_config), mh_NodeClassifierConfig = None,
     mh_MetricsCollector = True, mh_AdmissionTracker = None, mh_Observer = True\<rparr>"

definition sample_admission :: admission_request where
  "sample_admission = \<lparr>rq_Kind = ''Pod'', rq_Operation = ''CREATE'', rq_Object = Inr admitted_pod\<rparr>"

lemma sample_webhook_runs:
  "map_option (\<lambda>(c, k, n). (wc_SpotPercentage c, k, n)) (getWorkloadConfigForPod webhook_api admitted_pod) =
     Some (70, ''StatefulSet'', ''web'')"
  "fst (determineTargetCapacityType sample_webhook_env admitted_pod sample_config sample_handler) = Inr ''spot''"
  by code_simp+

theorem webhook_patch_sound_witness:
  "\<exists>ps. fst (fst (Handle sample_webhook_env sample_admission sample_handler)) = Patched ''applied Spotalis mutations'' ps \<and>
     (\<exists>sel. fold apply_patch ps (pod_NodeSelector admitted_pod) = Some sel \<and> sel ''disk'' = Some ''ssd'')"
proof -
  obtain resp metrics m' where run: "Handle sample_webhook_env sample_admission sample_handler = ((resp, metrics), m')"
    by (metis prod.collapse)
  obtain c k n where cfg: "getWorkloadConfigForPod (we_api sample_webhook_env 0) admitted_pod = Some (c, k, n)"
    using sample_webhook_runs(1) by (auto simp: sample_webhook_env_def)
  have "rq_Kind sample_admission = ''Pod''" "rq_Object sample_admission = Inr admitted_pod"
    by (simp_all add: sample_admission_def)
  note r = webhook_patch_sound [OF this run, unfolded cfg option.case prod.case]
  then obtain ps labelKey spotValue onDemandValue det where
    p: "resp = Patched ''applied Spotalis mutations'' ps"
      "getCapacityTypeLabelConfig m' = (labelKey, spotValue, onDemandValue)"
      "determineTargetCapacityType sample_webhook_env admitted_pod c sample_handler = (det, m')"
      "fold apply_patch ps (pod_NodeSelector admitted_pod) =
         Some ((case pod_NodeSelector admitted_pod of None \<Rightarrow> Map.empty | Some s \<Rightarrow> s)
           (labelKey \<mapsto> (if det = Inr capacityTypeSpot then spotValue else onDemandValue)))"
    by blast
  have "mh_NodeClassifierConfig m' = None"
    using p(3) by (auto simp: determineTargetCapacityType_def determine_observed_def observed_capacity_def
        sample_handler_def Let_def split: sum.splits prod.splits if_splits)
  with p(2) have "labelKey \<noteq> ''disk''" by (auto simp: getCapacityTypeLabelConfig_def CapacityTypeLabel_def)
  with p(1,4) run show ?thesis by (auto simp: admitted_pod_def)
qed

text \<open>C6: With the observer and without a tracker, as the operator wires the handler, a pod is
  sent to spot only on a fresh observation with classified nodes of the workload whose
  identity the owner chain proves, when the observed on-demand pods already reach their
  target and spot is below its own: then the floor is met, and one more spot pod still
  respects the percentage.\<close>

theorem spot_placement_safe:
  assumes "determine_observed e pod config m = (Inr capacityTypeSpot, m')" and "mh_AdmissionTracker m = None"
    and "\<forall>d. workloadForPod (we_api e 1) pod = Inr d \<longrightarrow> (\<exists>n. workloadDesiredReplicas d = Inr n \<and> in_i32 n)"
  shows "\<exists>w ow s n desired spot onDemand. ow \<in> set (pod_OwnerReferences pod) \<and>
    verified_owner (we_api e 1) (pod_Namespace pod) ow w \<and>
    Observe (we_selector e) (we_api e 2) (Some (ClassifyNodesByName (we_api e 2) (we_clk e 0) (we_clk e 1)))
       (we_clk e 2) w (mh_NodeClassifier m) = (Inr s, n) \<and>
    time_sub (we_clk e 3) (sn_ObservedAt s) \<le> DefaultPodListMaxAge \<and> sn_ClassificationError s = None \<and>
    workloadDesiredReplicas w = Inr desired \<and> ActualCounts s = (spot, onDemand) \<and>
    min (wc_MinOnDemand config) desired \<le> onDemand \<and> 100 * (spot + 1) \<le> desired * wc_SpotPercentage config"
  using assms(1,2)
proof (rule determine_observed_spotE, goal_cases)
  case (1 w s n desired a spot onDemand)
  obtain ow where ow: "ow \<in> set (pod_OwnerReferences pod)" "verified_owner (we_api e 1) (pod_Namespace pod) ow w"
    using workload_for_owners_identity 1(1) unfolding workloadForPod_def by blast
  have d: "in_i32 desired" using assms(3) 1(1,5) by auto
  note adm = Allocate_admissible [OF 1(6) d] Allocate_bounds(3) [OF 1(6) d]
  have "min (wc_MinOnDemand config) desired \<le> onDemand"
    using adm 1(8) by (simp add: admissible_spot_def AllocationPolicy_def)
  moreover have "100 * (spot + 1) \<le> desired * wc_SpotPercentage config"
    using adm(1) 1(9) by (simp add: admissible_spot_def AllocationPolicy_def)
  moreover have "time_sub (we_clk e 3) (sn_ObservedAt s) \<le> DefaultPodListMaxAge" using 1(3) by (simp add: IsFresh_def)
  ultimately show ?case using ow 1(2,4,5,7) by blast
qed

theorem spot_placement_safe_witness:
  "\<exists>w s n. Observe match_labels webhook_api
      (Some (ClassifyNodesByName webhook_api (9 * Minute) (9 * Minute))) (9 * Minute) w (mh_NodeClassifier sample_handler) = (Inr s, n) \<and>
    (\<exists>desired spot onDemand. ActualCounts s = (spot, onDemand) \<and> min 1 desired \<le> onDemand \<and> 100 * (spot + 1) \<le> desired * 70)"
proof -
  obtain m' where run: "determine_observed sample_webhook_env admitted_pod sample_config sample_handler = (Inr capacityTypeSpot, m')"
    using sample_webhook_runs(2)
    by (cases "determine_observed sample_webhook_env admitted_pod sample_config sample_handler")
      (simp add: determineTargetCapacityType_def sample_handler_def capacityTypeSpot_def)
  have u: "mh_AdmissionTracker sample_handler = None" by (simp add: sample_handler_def)
  have "workloadForPod (we_api sample_webhook_env 1) admitted_pod = Inr (StatefulSet sample_statefulset)"
    by (simp add: workloadForPod_def admitted_pod_def sample_webhook_env_def webhook_api_def workload_types
        sample_statefulset_def sample_workload_def workload.defs statefulset.defs)
  then have "\<forall>d. workloadForPod (we_api sample_webhook_env 1) admitted_pod = Inr d \<longrightarrow>
      (\<exists>n. workloadDesiredReplicas d = Inr n \<and> in_i32 n)"
    by (simp add: workloadDesiredReplicas_def desiredReplicas_def sample_statefulset_def sample_workload_def
        workload.defs statefulset.defs in_i32_def)
  from spot_placement_safe [OF run u this] show ?thesis
    by (fastforce simp: sample_webhook_env_def sample_config_def)
qed


text \<open>Without an observer but with a tracker, the listing path decides and reserves exactly as
  the tracker's one-step operation does on the counted pods, after the stale entry was reset
  and the list recorded.\<close>

theorem listed_choice_is_reservation:
  assumes "determine_listed e pod config m = (Inr c, m')" and "mh_AdmissionTracker m = Some t"
  shows "\<exists>name kind generation desired spot onDemand rv a t'.
    getWorkloadInfo (we_api e 1) pod = Inr (name, kind) \<and>
    getWorkloadGeneration (we_api e 3) (pod_Namespace pod) name kind = Inr (generation, desired) \<and>
    AllocateReplicaDistribution desired (AllocationPolicy config) = Inr a \<and>
    (let key = WorkloadKey (pod_Namespace pod) kind name
     in SelectAndReserve (we_clk e 5) key generation spot onDemand (al_TargetSpot a) (al_TargetOnDemand a)
          (UpdatePodListMetadata (we_clk e 4) key rv generation (refresh_tracker e key generation t)) = (c, t')) \<and>
    mh_AdmissionTracker m' = Some t' \<and>
    (\<exists>m1. countCurrentPodsWithRV m1 (we_api e 4) (pod_Namespace pod) name kind (pod_Name pod) = Inr (spot, onDemand, rv))"
proof -
  obtain name kind where i: "getWorkloadInfo (we_api e 1) pod = Inr (name, kind)"
    using assms(1) by (auto simp: determine_listed_def split: sum.splits)
  obtain g d where g: "getWorkloadGeneration (we_api e 3) (pod_Namespace pod) name kind = Inr (g, d)"
    using assms(1) unfolding determine_listed_def i sum.case prod.case by (auto split: sum.splits)
  let ?key = "WorkloadKey (pod_Namespace pod) kind name"
  let ?t1 = "refresh_tracker e ?key g t"
  let ?m1 = "m\<lparr>mh_AdmissionTracker := Some ?t1\<rparr>"
  note eq = assms(1) [unfolded determine_listed_def i g sum.case prod.case Let_def assms(2) option.map]
  obtain s o' rv where c: "countCurrentPodsWithRV ?m1 (we_api e 4) (pod_Namespace pod) name kind (pod_Name pod) = Inr (s, o', rv)"
    using eq by (auto split: sum.splits)
  let ?t2 = "UpdatePodListMetadata (we_clk e 4) ?key rv g ?t1"
  obtain ps pd where p: "GetPendingCounts ?key g ?t2 = (ps, pd)" by fastforce
  obtain a where a: "AllocateReplicaDistribution d (AllocationPolicy config) = Inr a"
    using eq by (auto simp: c p split: sum.splits)
  have c': "c = effective_choice (i64 (s + ps)) (i64 (o' + pd)) a"
    and m': "mh_AdmissionTracker m' = Some (IncrementPending (we_clk e 5) ?key c g ?t2)"
    using eq by (auto simp: c p a)
  have "fst (SelectAndReserve (we_clk e 5) ?key g s o' (al_TargetSpot a) (al_TargetOnDemand a) ?t2) = c"
    by (simp add: SelectAndReserve_choice [OF p] c' effective_choice_def)
  then have "SelectAndReserve (we_clk e 5) ?key g s o' (al_TargetSpot a) (al_TargetOnDemand a) ?t2 =
      (c, IncrementPending (we_clk e 5) ?key c g ?t2)"
    using SelectAndReserve_pair by metis
  with i g a m' c show ?thesis unfolding Let_def by blast
qed

theorem listed_choice_is_reservation_witness:
  "\<exists>c m'. determine_listed (sample_webhook_env\<lparr>we_api := \<lambda>_. webhook_api\<lparr>cl_ListPodsRV := \<lambda>_. Inr ([], ''7'')\<rparr>\<rparr>)
      admitted_pod sample_config
      (sample_handler\<lparr>mh_Observer := False, mh_AdmissionTracker := Some (NewAdmissionStateTracker 0)\<rparr>) = (Inr c, m') \<and>
    mh_AdmissionTracker m' \<noteq> None"
proof -
  let ?e = "sample_webhook_env\<lparr>we_api := \<lambda>_. webhook_api\<lparr>cl_ListPodsRV := \<lambda>_. Inr ([], ''7'')\<rparr>\<rparr>"
  let ?m = "sample_handler\<lparr>mh_Observer := False, mh_AdmissionTracker := Some (NewAdmissionStateTracker 0)\<rparr>"
  have "fst (determine_listed ?e admitted_pod sample_config ?m) = Inr ''on-demand''" by code_simp
  then obtain c m' where run: "determine_listed ?e admitted_pod sample_config ?m = (Inr c, m')"
    by (cases "determine_listed ?e admitted_pod sample_config ?m") auto
  have "mh_AdmissionTracker ?m = Some (NewAdmissionStateTracker 0)" by simp
  from listed_choice_is_reservation [OF run this] run show ?thesis by auto
qed

text \<open>The webhook and the controller disagree about which workloads opted in. A workload with
  the annotations but without the enabling label, which the controllers leave alone, gets
  every pod pinned to on-demand nodes by the webhook, whatever its replica count and the pods
  it has; a workload with the label but without annotations, which the
  controllers drive to all on-demand, gets no placement from the webhook at all.\<close>

theorem opt_in_mismatch:
  assumes "HasSpotalisAnnotations obj" and "map_lookup (obj_labels obj) EnabledLabel = None"
    and "\<not> HasSpotalisAnnotations obj'" and "map_lookup (obj_labels obj') EnabledLabel = Some BooleanTrue"
    and "in_i32 n" and "0 \<le> spot"
  shows "\<not> IsSpotalisEnabled obj \<and> getConfigFromWorkload (Inr obj) = Inr (Some (zero_config False)) \<and>
    (case AllocateReplicaDistribution n (AllocationPolicy (zero_config False)) of
       Inl err \<Rightarrow> capacityTypeOnDemand | Inr a \<Rightarrow> effective_choice spot onDemand a) = capacityTypeOnDemand \<and>
    IsSpotalisEnabled obj' \<and> getConfigFromWorkload (Inr obj') = Inr None \<and>
    ParseWorkloadConfiguration obj' = Inr (zero_config True) \<and>
    rs_DesiredSpot (CalculateDesiredDistribution (st\<lparr>rs_TotalReplicas := n\<rparr>) (zero_config True)) = 0"
proof -
  have target: "al_TargetSpot a \<le> 0" if "AllocateReplicaDistribution n (AllocationPolicy (zero_config b)) = Inr a" for a b
    using Allocate_admissible [OF that assms(5)] by (simp add: admissible_spot_def AllocationPolicy_def)
  have exact: "al_TargetSpot a = 0" if "AllocateReplicaDistribution n (AllocationPolicy (zero_config b)) = Inr a" for a b
    using target [OF that] Allocate_bounds(1) [OF that assms(5)] by simp
  have "ParseWorkloadConfiguration obj = Inr (zero_config False)"
    using assms(2) by (auto simp: ParseWorkloadConfiguration_def map_lookup_def zero_config_def split: option.splits)
  moreover have "ParseWorkloadConfiguration obj' = Inr (zero_config True)"
    using assms(3,4) by (auto simp: ParseWorkloadConfiguration_def map_lookup_def zero_config_def HasSpotalisAnnotations_def
        parse_spot_annotation_def parse_min_annotation_def Let_def split: option.splits)
  moreover have "\<not> IsSpotalisEnabled obj" "IsSpotalisEnabled obj'"
    using assms(2,4) ToLower_true by (auto simp: IsSpotalisEnabled_def map_lookup_def split: option.splits)
  moreover have "(case AllocateReplicaDistribution n (AllocationPolicy (zero_config False)) of
       Inl err \<Rightarrow> capacityTypeOnDemand | Inr a \<Rightarrow> effective_choice spot onDemand a) = capacityTypeOnDemand"
    using target [of False] assms(6) by (fastforce simp: effective_choice_def split: sum.splits)
  moreover have "rs_DesiredSpot (CalculateDesiredDistribution (st\<lparr>rs_TotalReplicas := n\<rparr>) (zero_config True)) = 0"
    using exact [of True] by (auto simp: CalculateDesiredDistribution_def split: sum.splits)
  ultimately show ?thesis using assms(1,3) by (simp add: getConfigFromWorkload_def)
qed

theorem opt_in_mismatch_witness:
  "getConfigFromWorkload (Inr \<lparr>obj_labels = None, obj_annotations = Some [SpotPercentageAnnotation \<mapsto> ''70%'']\<rparr>) =
     Inr (Some (zero_config False)) \<and>
   getConfigFromWorkload (Inr \<lparr>obj_labels = Some [EnabledLabel \<mapsto> BooleanTrue], obj_annotations = None\<rparr>) = Inr None"
proof -
  have "HasSpotalisAnnotations \<lparr>obj_labels = None, obj_annotations = Some [SpotPercentageAnnotation \<mapsto> ''70%'']\<rparr>"
    "map_lookup (obj_labels \<lparr>obj_labels = None, obj_annotations = Some [SpotPercentageAnnotation \<mapsto> ''70%'']\<rparr>) EnabledLabel = None"
    "\<not> HasSpotalisAnnotations \<lparr>obj_labels = Some [EnabledLabel \<mapsto> BooleanTrue], obj_annotations = None\<rparr>"
    "map_lookup (obj_labels \<lparr>obj_labels = Some [EnabledLabel \<mapsto> BooleanTrue], obj_annotations = None\<rparr>) EnabledLabel = Some BooleanTrue"
    by (simp_all add: HasSpotalisAnnotations_def map_lookup_def)
  from opt_in_mismatch [OF this, of 10 0 0 sample_state] show ?thesis by (simp add: in_i32_def)
qed

end
