(* ===== verification/Rebalancing_Loop.thy ===== *)
theory Rebalancing_Loop
  imports Deployment_Controller Mutate
begin

text \<open>
  The controller and the webhook together: the controller evicts one pod of the class in
  excess, the workload replaces it, and the webhook places the replacement. Both sides
  compute the target from the same configuration and the same replica count; the theorem
  says that they agree, so the loop reaches the target in as many rounds as pods are
  misplaced and then stops.

  A round takes all pods as Ready with known capacity (what a stable workload has) and the
  placement as honoured by the scheduler.
\<close>

definition loop_state :: "WorkloadConfiguration \<Rightarrow> nat \<Rightarrow> nat \<Rightarrow> ReplicaState" where
  "loop_state config s d =
     CalculateDesiredDistribution
       \<lparr>rs_WorkloadRef = \<lparr>ref_APIVersion = [], ref_Kind = [], ref_Namespace = [], ref_Name = [], ref_UID = []\<rparr>,
        rs_TotalReplicas = int (s + d), rs_CurrentOnDemand = int d, rs_CurrentSpot = int s,
        rs_DesiredOnDemand = 0, rs_DesiredSpot = 0, rs_LastReconciled = 0, rs_PendingOnDemand = 0,
        rs_PendingSpot = 0, rs_FailedSpot = 0\<rparr> config"

text \<open>The eviction, with the class the pod leaves: it is the first pod the controller selects.\<close>

definition evict_first :: "pod list \<Rightarrow> pod list \<Rightarrow> ReplicaState \<Rightarrow> (pod \<times> pod list \<times> pod list) option" where
  "evict_first spotPods onDemandPods st =
     (case dep_excess spotPods (rs_DesiredSpot st) of
        p # _ \<Rightarrow> Some (p, remove1 p spotPods, onDemandPods)
      | [] \<Rightarrow>
         (case dep_excess onDemandPods (rs_DesiredOnDemand st) of
            p # _ \<Rightarrow> Some (p, spotPods, remove1 p onDemandPods)
          | [] \<Rightarrow> None))"

lemma evict_first_selected:
  "map_option fst (evict_first spotPods onDemandPods st) =
    (case dep_selectPodsForDeletion spotPods onDemandPods st of [] \<Rightarrow> None | p # _ \<Rightarrow> Some p)"
  by (auto simp: evict_first_def dep_selectPodsForDeletion_def split: list.splits)

text \<open>The webhook's choice for the replacement, on-demand when the allocation fails.\<close>

definition place :: "WorkloadConfiguration \<Rightarrow> int \<Rightarrow> nat \<Rightarrow> nat \<Rightarrow> string" where
  "place config desired s d =
     (case AllocateReplicaDistribution desired (AllocationPolicy config) of
        Inl err \<Rightarrow> capacityTypeOnDemand
      | Inr a \<Rightarrow> effective_choice (int s) (int d) a)"

definition rebalance_round :: "WorkloadConfiguration \<Rightarrow> pod \<Rightarrow> pod list \<times> pod list \<Rightarrow> pod list \<times> pod list" where
  "rebalance_round config replacement = (\<lambda>(spotPods, onDemandPods).
     let st = loop_state config (length spotPods) (length onDemandPods)
     in if \<not> dep_needsRebalancing st then (spotPods, onDemandPods)
        else case evict_first spotPods onDemandPods st of
          None \<Rightarrow> (spotPods, onDemandPods)
        | Some (p, spot', onDemand') \<Rightarrow>
            if place config (rs_TotalReplicas st) (length spot') (length onDemand') = capacityTypeSpot
            then (spot' @ [replacement], onDemand') else (spot', onDemand' @ [replacement]))"

fun rounds :: "WorkloadConfiguration \<Rightarrow> (nat \<Rightarrow> pod) \<Rightarrow> nat \<Rightarrow> pod list \<times> pod list \<Rightarrow> pod list \<times> pod list" where
  "rounds config replacement 0 x = x"
| "rounds config replacement (Suc k) x = rebalance_round config (replacement k) (rounds config replacement k x)"

section \<open>One round\<close>

text \<open>The target depends on the replica count only, and the webhook aims at the same one.\<close>

definition spot_target :: "WorkloadConfiguration \<Rightarrow> nat \<Rightarrow> nat" where
  "spot_target config n = nat (rs_DesiredSpot (loop_state config 0 n))"

lemma loop_state_target:
  assumes "in_i32 (int (s + d))"
  shows "rs_DesiredSpot (loop_state config s d) = int (spot_target config (s + d))"
    and "rs_DesiredOnDemand (loop_state config s d) = int (s + d) - int (spot_target config (s + d))"
    and "spot_target config (s + d) \<le> s + d"
    and "rs_CurrentSpot (loop_state config s d) = int s" "rs_CurrentOnDemand (loop_state config s d) = int d"
    and "rs_TotalReplicas (loop_state config s d) = int (s + d)"
proof -
  have wf: "wf_desired (loop_state config s d)" "wf_desired (loop_state config 0 (s + d))"
    using assms unfolding loop_state_def by (intro CalculateDesiredDistribution_wf; simp)+
  have same: "rs_DesiredSpot (loop_state config s d) = rs_DesiredSpot (loop_state config 0 (s + d))"
    by (auto simp: loop_state_def CalculateDesiredDistribution_def split: sum.splits)
  have tot: "rs_TotalReplicas (loop_state config s d) = int (s + d)" by (simp add: loop_state_def)
  show sp: "rs_DesiredSpot (loop_state config s d) = int (spot_target config (s + d))"
    using wf(2) same by (simp add: spot_target_def wf_desired_def)
  show od: "rs_DesiredOnDemand (loop_state config s d) = int (s + d) - int (spot_target config (s + d))"
    using wf(1) tot sp by (simp add: wf_desired_def)
  show "spot_target config (s + d) \<le> s + d"
    using wf(1) od by (simp add: wf_desired_def)
  show "rs_CurrentSpot (loop_state config s d) = int s" "rs_CurrentOnDemand (loop_state config s d) = int d"
    "rs_TotalReplicas (loop_state config s d) = int (s + d)" by (simp_all add: loop_state_def)
qed

lemma place_spot_iff:
  assumes "wc_Enabled config" "in_i32 (int n)"
  shows "place config (int n) s d = capacityTypeSpot \<longleftrightarrow> n - spot_target config n \<le> d \<and> s < spot_target config n"
proof (cases "AllocateReplicaDistribution (int n) (AllocationPolicy config)")
  case (Inl err)
  then have "spot_target config n = 0" by (simp add: spot_target_def loop_state_def CalculateDesiredDistribution_def)
  with Inl show ?thesis by (simp add: place_def)
next
  case (Inr a)
  then have "spot_target config n = nat (al_TargetSpot a)"
    using assms(1) by (simp add: spot_target_def loop_state_def CalculateDesiredDistribution_def)
  with Allocate_bounds [OF Inr assms(2)] Inr show ?thesis by (simp add: place_def effective_choice_spot) linarith
qed

lemma needs_iff:
  assumes "in_i32 (int (s + d))"
  shows "dep_needsRebalancing (loop_state config s d) \<longleftrightarrow> s \<noteq> spot_target config (s + d)"
proof -
  note t = loop_state_target [OF assms, of config]
  let ?S = "spot_target config (s + d)"
  have le: "?S \<le> s + d" by (rule t(3))
  have i: "in_i32 (int s + int d)" "in_i32 (int ?S - int s)" "in_i32 (int (s + d) - int ?S - int d)"
    using assms le by (auto simp: in_i32_def)
  show ?thesis
    unfolding dep_needsRebalancing_def Let_def t(1,2,4,5) i32_id [OF i(1)] i32_id [OF i(2)] i32_id [OF i(3)]
    using le by auto
qed

lemma round_counts:
  assumes "wc_Enabled config" "in_i32 (int (length spotPods + length onDemandPods))"
    and "rebalance_round config replacement (spotPods, onDemandPods) = (spot', onDemand')"
  defines "S \<equiv> spot_target config (length spotPods + length onDemandPods)"
  shows "length spot' + length onDemand' = length spotPods + length onDemandPods"
    and "length spot' = (if S < length spotPods then length spotPods - 1
       else if length spotPods < S then length spotPods + 1 else length spotPods)"
    and "length spotPods = S \<Longrightarrow> spot' = spotPods \<and> onDemand' = onDemandPods"
proof -
  let ?s = "length spotPods" and ?d = "length onDemandPods"
  let ?st = "loop_state config ?s ?d"
  note t = loop_state_target [OF assms(2), of config, folded S_def]
  have i: "in_i32 (int ?s)" "in_i32 (int ?d)" "in_i32 (int S)" "in_i32 (int (?s + ?d) - int S)"
    using assms(2) t(3) by (auto simp: in_i32_def)
  have xs: "dep_excess spotPods (rs_DesiredSpot ?st) = take (?s - S) spotPods"
    using dep_excess_eq [OF i(1) _ i(3)] t(1) by simp
  have xd: "dep_excess onDemandPods (rs_DesiredOnDemand ?st) = take (?d - (?s + ?d - S)) onDemandPods"
  proof -
    have "nat (int (?s + ?d) - int S) = ?s + ?d - S" by linarith
    moreover have "0 \<le> int (?s + ?d) - int S" using t(3) by linarith
    ultimately show ?thesis using dep_excess_eq [OF i(2) _ i(4)] t(2) by (simp only:)
  qed
  note rr = assms(3) [unfolded rebalance_round_def prod.case Let_def needs_iff [OF assms(2), of config, folded S_def] t(6)]
  note pl = place_spot_iff [OF assms(1,2), folded S_def]
  consider "?s = S" | "S < ?s" | "?s < S" by linarith
  then have "length spot' + length onDemand' = ?s + ?d \<and>
    length spot' = (if S < ?s then ?s - 1 else if ?s < S then ?s + 1 else ?s) \<and>
    (?s = S \<longrightarrow> spot' = spotPods \<and> onDemand' = onDemandPods)"
  proof cases
    case 1
    with rr show ?thesis by simp
  next
    case 2
    then obtain p rest where p: "spotPods = p # rest" by (cases spotPods) auto
    from 2 have "evict_first spotPods onDemandPods ?st = Some (p, rest, onDemandPods)"
      unfolding evict_first_def xs by (cases "?s - S") (auto simp: p)
    with rr 2 p pl [of "length rest" ?d] t(3) show ?thesis by (auto split: if_splits)
  next
    case 3
    then have ne: "0 < ?d - (?s + ?d - S)" using t(3) by linarith
    then obtain p rest where p: "onDemandPods = p # rest" by (cases onDemandPods) auto
    from 3 ne have "evict_first spotPods onDemandPods ?st = Some (p, spotPods, rest)"
      unfolding evict_first_def xs xd by (cases "?d - (?s + ?d - S)") (auto simp: p)
    with rr 3 p pl [of ?s "length rest"] t(3) show ?thesis by (auto split: if_splits)
  qed
  then show "length spot' + length onDemand' = ?s + ?d"
    and "length spot' = (if S < ?s then ?s - 1 else if ?s < S then ?s + 1 else ?s)"
    and "?s = S \<Longrightarrow> spot' = spotPods \<and> onDemand' = onDemandPods" by blast+
qed

lemma rounds_counts:
  assumes "wc_Enabled config" "in_i32 (int (length spotPods + length onDemandPods))"
    and "rounds config replacement k (spotPods, onDemandPods) = (spot', onDemand')"
  defines "S \<equiv> spot_target config (length spotPods + length onDemandPods)"
  shows "length spot' + length onDemand' = length spotPods + length onDemandPods \<and>
    length spot' = (if S < length spotPods then max S (length spotPods - k) else min S (length spotPods + k))"
  using assms(3)
proof (induction k arbitrary: spot' onDemand')
  case (Suc k)
  obtain s1 d1 where r: "rounds config replacement k (spotPods, onDemandPods) = (s1, d1)" by fastforce
  note ih = Suc.IH [OF r]
  from Suc.prems r have rr: "rebalance_round config (replacement k) (s1, d1) = (spot', onDemand')" by simp
  have n: "length s1 + length d1 = length spotPods + length onDemandPods" using ih by simp
  have i: "in_i32 (int (length s1 + length d1))" using assms(2) n by simp
  note rc = round_counts(1,2) [OF assms(1) i rr, unfolded n, folded S_def]
  show ?case using rc ih by (auto simp: max_def min_def split: if_splits)
qed (auto simp: max_def min_def)

section \<open>Properties\<close>

text \<open>Controller and webhook together converge: from any mix, after as many rounds as pods are
  misplaced the workload has exactly the target mix, not one round earlier, the number of
  pods is the same after every round, and a further round evicts nothing.\<close>

theorem rebalancing_converges:
  assumes "wc_Enabled config" and "in_i32 (int (length spotPods + length onDemandPods))"
    and "rounds config replacement k (spotPods, onDemandPods) = (spot', onDemand')"
  shows "length spot' + length onDemand' = length spotPods + length onDemandPods \<and>
    (length spot' = spot_target config (length spotPods + length onDemandPods) \<longleftrightarrow>
      nat \<bar>int (length spotPods) - int (spot_target config (length spotPods + length onDemandPods))\<bar> \<le> k) \<and>
    (length spot' = spot_target config (length spotPods + length onDemandPods) \<longrightarrow>
      rebalance_round config p (spot', onDemand') = (spot', onDemand'))"
proof -
  note rc = rounds_counts [OF assms]
  have n: "length spot' + length onDemand' = length spotPods + length onDemandPods" using rc by blast
  have i: "in_i32 (int (length spot' + length onDemand'))" using assms(2) unfolding n .
  obtain s2 d2 where r: "rebalance_round config p (spot', onDemand') = (s2, d2)" by fastforce
  note stable = round_counts(3) [OF assms(1) i r]
  have "length spot' = spot_target config (length spotPods + length onDemandPods) \<longleftrightarrow>
      nat \<bar>int (length spotPods) - int (spot_target config (length spotPods + length onDemandPods))\<bar> \<le> k"
    using rc by (auto simp: max_def min_def split: if_splits)
  with stable [unfolded n] n r show ?thesis by simp
qed

theorem rebalancing_converges_witness:
  "\<exists>s d. rounds sample_config (\<lambda>k. sample_pod ''new'' ''n1'') 2
       ([], [sample_pod ''a'' ''n0'', sample_pod ''b'' ''n0'', sample_pod ''c'' ''n0'']) = (s, d) \<and> length s = 2 \<and> length d = 1"
proof -
  let ?pods = "[sample_pod ''a'' ''n0'', sample_pod ''b'' ''n0'', sample_pod ''c'' ''n0'']"
  obtain s d where r: "rounds sample_config (\<lambda>k. sample_pod ''new'' ''n1'') 2 ([], ?pods) = (s, d)" by fastforce
  have e: "wc_Enabled sample_config" by (simp add: sample_config_def)
  have i: "in_i32 (int (length ([] :: pod list) + length ?pods))" by (simp add: in_i32_def)
  have t: "spot_target sample_config 3 = 2" by code_simp
  have "length ([] :: pod list) + length ?pods = 3" by simp
  from rebalancing_converges [OF e i r, unfolded this t, of "sample_pod ''d'' ''n0''"] r show ?thesis by simp
qed

end
