(* ===== verification/StatefulSet_Controller.thy ===== *)
theory StatefulSet_Controller
  imports Controller_Common
begin

text \<open>
  \<^verbatim>\<open>pkg/controllers/statefulset_controller.go\<close>: one reconciliation of a
  StatefulSet. It differs from the Deployment's in the readiness test, in the order of the
  candidates (highest ordinal first), and in the update of the pod template after an
  eviction.

  The readings of the clock and the views of the cluster are numbered as for the Deployment;
  reading 16 is the timestamp written to the template, 17 the failed rebalancing, and view 7
  the update of the StatefulSet.
\<close>

definition isStatefulSetStableAndReady :: "statefulset \<Rightarrow> bool" where
  "isStatefulSetStableAndReady s =
     (case wl_Replicas s of
        None \<Rightarrow> False
      | Some desiredReplicas \<Rightarrow>
          if desiredReplicas = 0 then False
          else wl_ReadyReplicas s = desiredReplicas \<and> sts_CurrentReplicas s = desiredReplicas \<and>
            wl_UpdatedReplicas s = desiredReplicas)"

definition statefulSetLabelSelector :: "statefulset \<Rightarrow> go_error + (string \<times> string) list" where
  "statefulSetLabelSelector s =
     (case wl_Selector s of
        None \<Rightarrow> Inl (Errorf ''StatefulSet has no selector'')
      | Some sel \<Rightarrow> Inr (ls_MatchLabels sel))"

definition statefulset_pod_list :: "k8s_client \<Rightarrow> statefulset \<Rightarrow> go_error + pod list" where
  "statefulset_pod_list c s =
     (case statefulSetLabelSelector s of
        Inl err \<Rightarrow> Inl (Wrapped ''failed to get selector'' err)
      | Inr selector \<Rightarrow>
         (case cl_ListPods c (wl_Namespace s) selector of
            Inl err \<Rightarrow> Inl (Wrapped ''failed to list pods'' err)
          | Inr items \<Rightarrow> Inr items))"

definition sts_calculateCurrentReplicaState ::
  "env \<Rightarrow> statefulset \<Rightarrow> reconciler \<Rightarrow> (go_error + ReplicaState) \<times> reconciler" where
  "sts_calculateCurrentReplicaState e s r =
     (if rc_Observer r then
        (case observe_workload e 2 5 (StatefulSet s) r of
           (Inl err, r) \<Rightarrow> (Inl err, r)
         | (Inr snapshot, r) \<Rightarrow> (Inr (snapshot_state snapshot), r))
      else
        (case statefulset_pod_list (e_api e 2) s of
           Inl err \<Rightarrow> (Inl err, r)
         | Inr items \<Rightarrow>
             (let assigned = filter (\<lambda>p. pod_NodeName p \<noteq> []) items
              in case classify_nodes e 2 5 assigned r of
                   (classifications, r) \<Rightarrow>
                     (case foldl (count_node classifications) (0, 0) assigned of
                        (spotReplicas, onDemandReplicas) \<Rightarrow>
                          (Inr ((empty_replica_state
                             \<lparr>ref_APIVersion = wl_APIVersion s, ref_Kind = wl_Kind s,
                              ref_Namespace = wl_Namespace s, ref_Name = wl_Name s, ref_UID = wl_UID s\<rparr>)
                             \<lparr>rs_CurrentSpot := spotReplicas, rs_CurrentOnDemand := onDemandReplicas,
                              rs_LastReconciled := e_clk e 7\<rparr>), r)))))"

definition sts_needsRebalancing :: "ReplicaState \<Rightarrow> bool" where
  "sts_needsRebalancing state =
     (let currentTotal = i32 (rs_CurrentSpot state + rs_CurrentOnDemand state)
      in if currentTotal = 0 then False
         else (let spotDiff = i32 (rs_DesiredSpot state - rs_CurrentSpot state);
                   onDemandDiff = i32 (rs_DesiredOnDemand state - rs_CurrentOnDemand state)
               in spotDiff \<noteq> 0 \<or> onDemandDiff \<noteq> 0))"

definition categorizePodsByNodeType ::
  "env \<Rightarrow> statefulset \<Rightarrow> reconciler \<Rightarrow> (go_error + pod list \<times> pod list) \<times> reconciler" where
  "categorizePodsByNodeType e s r =
     (if rc_Observer r then
        (case observe_workload e 4 12 (StatefulSet s) r of
           (Inl err, r) \<Rightarrow> (Inl err, r)
         | (Inr snapshot, r) \<Rightarrow> (Inr (EligiblePods snapshot), r))
      else
        (case statefulset_pod_list (e_api e 4) s of
           Inl err \<Rightarrow> (Inl err, r)
         | Inr items \<Rightarrow>
             (let filteredPods = filter (\<lambda>p. pod_NodeName p \<noteq> [] \<and> pod_DeletionTimestamp p = None) items
              in case classify_nodes e 4 12 filteredPods r of
                   (classifications, r) \<Rightarrow>
                     (Inr (filter (\<lambda>p. classifications (pod_NodeName p) = Some NodeTypeSpot) filteredPods,
                           filter (\<lambda>p. classifications (pod_NodeName p) = Some NodeTypeOnDemand \<or>
                                       classifications (pod_NodeName p) = Some NodeTypeUnknown) filteredPods), r))))"

definition sts_excess :: "pod list \<Rightarrow> int \<Rightarrow> pod list" where
  "sts_excess pods desired =
     (let podsLen = (if int (length pods) > 4294967295 then 4294967295 else int (length pods));
          podsCount = i32 podsLen
      in if podsCount > desired then take_int (min (i32 (podsCount - desired)) podsCount) pods else [])"

definition sts_selectPodsForDeletion :: "pod list \<Rightarrow> pod list \<Rightarrow> ReplicaState \<Rightarrow> pod list" where
  "sts_selectPodsForDeletion spotPods onDemandPods desiredState =
     sts_excess spotPods (rs_DesiredSpot desiredState) @ sts_excess onDemandPods (rs_DesiredOnDemand desiredState)"

section \<open>Ordinals\<close>

datatype ordinal_error = NotPodOf string string | BadOrdinal string num_error

text \<open>The error's value is paired with \<open>-1\<close> in the source; every caller uses \<open>-1\<close> then.\<close>

definition extractPodOrdinal :: "string \<Rightarrow> string \<Rightarrow> ordinal_error + int" where
  "extractPodOrdinal podName statefulSetName =
     (let prefix = statefulSetName @ ''-''
      in if \<not> HasPrefix podName prefix then Inl (NotPodOf podName statefulSetName)
         else case Atoi (drop (length prefix) podName) of
             Inl err \<Rightarrow> Inl (BadOrdinal podName err)
           | Inr ordinal \<Rightarrow> Inr ordinal)"

definition with_ordinal :: "string \<Rightarrow> pod \<Rightarrow> podWithOrdinal" where
  "with_ordinal statefulSetName pod =
     \<lparr>pwo_pod = pod, pwo_ordinal = (case extractPodOrdinal (pod_Name pod) statefulSetName of
        Inl err \<Rightarrow> -1 | Inr ordinal \<Rightarrow> ordinal)\<rparr>"

definition sortPodsByOrdinal :: "((podWithOrdinal \<Rightarrow> podWithOrdinal \<Rightarrow> bool) \<Rightarrow> podWithOrdinal list \<Rightarrow> podWithOrdinal list) \<Rightarrow>
    pod list \<Rightarrow> string \<Rightarrow> bool \<Rightarrow> pod list" where
  "sortPodsByOrdinal sort_slice pods statefulSetName descending =
     (if pods = [] then pods
      else map pwo_pod (sort_slice
        (if descending then (\<lambda>a b. pwo_ordinal a > pwo_ordinal b) else (\<lambda>a b. pwo_ordinal a < pwo_ordinal b))
        (map (with_ordinal statefulSetName) pods)))"

definition OrderedReadyPodManagement :: string where "OrderedReadyPodManagement = ''OrderedReady''"

definition getPodManagementPolicy :: "statefulset \<Rightarrow> string" where
  "getPodManagementPolicy s =
     (if sts_PodManagementPolicy s = [] then OrderedReadyPodManagement else sts_PodManagementPolicy s)"

definition isOrderedReadyPolicy :: "statefulset \<Rightarrow> bool" where
  "isOrderedReadyPolicy s \<longleftrightarrow> getPodManagementPolicy s = OrderedReadyPodManagement"

section \<open>The eviction and the template\<close>

text \<open>
  \<^verbatim>\<open>Format(time.RFC3339)\<close> of a time in UTC (the zone of the process in the
  image): the civil date of a count of days since the first of January of year 1, in the
  proleptic Gregorian calendar.
\<close>

definition leap_year :: "int \<Rightarrow> bool" where
  "leap_year y \<longleftrightarrow> y mod 4 = 0 \<and> (y mod 100 \<noteq> 0 \<or> y mod 400 = 0)"

definition year_start :: "int \<Rightarrow> int" where
  "year_start y = 365 * (y - 1) + (y - 1) div 4 - (y - 1) div 100 + (y - 1) div 400"

definition civil_year :: "int \<Rightarrow> int" where
  "civil_year days = (let y = days div 366 + 1; z = days div 365 + 1
     in last (filter (\<lambda>y. year_start y \<le> days) [y..z]))"

fun split_month :: "int list \<Rightarrow> int \<Rightarrow> int \<Rightarrow> int \<times> int" where
  "split_month [] m d = (m, d + 1)"
| "split_month (len # lens) m d = (if d < len then (m, d + 1) else split_month lens (m + 1) (d - len))"

definition month_lengths :: "int \<Rightarrow> int list" where
  "month_lengths y = [31, if leap_year y then 29 else 28, 31, 30, 31, 30, 31, 31, 30, 31, 30, 31]"

definition pad :: "nat \<Rightarrow> int \<Rightarrow> string" where
  "pad n v = (let s = FormatInt v in replicate (n - length s) (CHR ''0'') @ s)"

definition FormatRFC3339 :: "time \<Rightarrow> string" where
  "FormatRFC3339 t =
     (let secs = t div Second; days = secs div 86400; s = secs mod 86400;
          year = civil_year days
      in case split_month (month_lengths year) 1 (days - year_start year) of (month, day) \<Rightarrow>
        pad 4 year @ ''-'' @ pad 2 month @ ''-'' @ pad 2 day @ ''T'' @
        pad 2 (s div 3600) @ '':'' @ pad 2 (s div 60 mod 60) @ '':'' @ pad 2 (s mod 60) @ ''Z'')"

definition spotTolerations :: "toleration list" where
  "spotTolerations =
     [\<lparr>tol_Key = NodeType_string NodeTypeSpot, tol_Operator = ''Exists'', tol_Value = [], tol_Effect = ''NoSchedule''\<rparr>,
      \<lparr>tol_Key = ''aws.amazon.com/spot'', tol_Operator = ''Exists'', tol_Value = [], tol_Effect = ''NoSchedule''\<rparr>]"

text \<open>The loop: a key that is present, also as the key of a toleration just added, is skipped.\<close>

definition add_toleration :: "toleration list \<Rightarrow> toleration \<Rightarrow> toleration list" where
  "add_toleration existing t = (if tol_Key t \<in> set (map tol_Key existing) then existing else existing @ [t])"

definition put :: "string \<Rightarrow> string \<Rightarrow> string_map option \<Rightarrow> string_map option" where
  "put k v m = Some ((case m of None \<Rightarrow> Map.empty | Some m \<Rightarrow> m)(k \<mapsto> v))"

definition updatePodTemplateForNodePlacement :: "ReplicaState \<Rightarrow> statefulset \<Rightarrow> statefulset" where
  "updatePodTemplateForNodePlacement desiredState s =
     (let s = (if rs_DesiredSpot desiredState > 0
               then s\<lparr>sts_TemplateTolerations := foldl add_toleration (sts_TemplateTolerations s) spotTolerations\<rparr>
               else s)
      in s\<lparr>sts_TemplateAnnotations :=
            put ''spotalis.io/desired-ondemand-replicas'' (FormatInt (rs_DesiredOnDemand desiredState))
              (put ''spotalis.io/desired-spot-replicas'' (FormatInt (rs_DesiredSpot desiredState))
                (sts_TemplateAnnotations s))\<rparr>)"

definition rebalanced_template :: "time \<Rightarrow> ReplicaState \<Rightarrow> statefulset \<Rightarrow> statefulset" where
  "rebalanced_template now desiredState s =
     (let s = updatePodTemplateForNodePlacement desiredState s
      in s\<lparr>sts_TemplateAnnotations :=
            put ''spotalis.io/rebalance-timestamp'' (FormatRFC3339 now) (sts_TemplateAnnotations s)\<rparr>)"

definition updateStatefulSetForRebalancing ::
  "env \<Rightarrow> statefulset \<Rightarrow> ReplicaState \<Rightarrow> go_error option \<times> effect list" where
  "updateStatefulSetForRebalancing e s desiredState =
     (let s = rebalanced_template (e_clk e 16) desiredState s
      in (map_option (Wrapped ''failed to update StatefulSet for rebalancing'') (cl_UpdateStatefulSet (e_api e 7) s),
          [StatefulSetUpdate s]))"

definition executeGradualRebalancing ::
  "env \<Rightarrow> statefulset \<Rightarrow> ReplicaState \<Rightarrow> string \<Rightarrow> pod list \<Rightarrow> reconciler \<Rightarrow> go_error option \<times> reconciler \<times> effect list" where
  "executeGradualRebalancing e s desiredState statefulsetKey podsToDelete r =
     (if podsToDelete = [] then (None, r, [])
      else
        (let podsToDelete = sortPodsByOrdinal (e_sort e) podsToDelete (wl_Name s) True;
             pod = podsToDelete ! 0;
             blocked = (case CheckPDBStatus (e_selector e) (e_api e 5) pod of
               Inl err \<Rightarrow> None
             | Inr pdbStatus \<Rightarrow> if \<not> ps_CanDisrupt pdbStatus then Some pdbStatus else None)
         in case blocked of
              Some pdbStatus \<Rightarrow>
                (None, r, if rc_MetricsCollector r
                          then [PDBBlockMetric (pod_Namespace pod) (wl_Name s) ''statefulset'' (ps_PDBName pdbStatus)]
                          else [])
            | None \<Rightarrow>
                (case EvictPod (e_api e 6) pod of
                   (result, Some err) \<Rightarrow>
                     if result = EvictionResultPDBBlocked then (None, r, [EvictionRequest pod])
                     else (Some err, r, [EvictionRequest pod])
                 | (result, None) \<Rightarrow>
                     (let r = r\<lparr>rc_lastDeletionTimes :=
                              (rc_lastDeletionTimes r)(statefulsetKey \<mapsto> TimeValue (e_clk e 15))\<rparr>
                      in case updateStatefulSetForRebalancing e s desiredState of
                           (err, effs) \<Rightarrow> (err, r, EvictionRequest pod # effs)))))"

definition sts_performPodRebalancing ::
  "env \<Rightarrow> statefulset \<Rightarrow> ReplicaState \<Rightarrow> string \<Rightarrow> reconciler \<Rightarrow> go_error option \<times> reconciler \<times> effect list" where
  "sts_performPodRebalancing e s desiredState statefulsetKey r =
     (case categorizePodsByNodeType e s r of
        (Inl err, r) \<Rightarrow> (Some err, r, [])
      | (Inr (spotPods, onDemandPods), r) \<Rightarrow>
          executeGradualRebalancing e s desiredState statefulsetKey
            (sts_selectPodsForDeletion spotPods onDemandPods desiredState) r)"

definition sts_resolveDisruptionWindow ::
  "env \<Rightarrow> statefulset \<Rightarrow> reconciler \<Rightarrow> go_error resolve_error + DisruptionWindow option" where
  "sts_resolveDisruptionWindow e s r =
     resolveDisruptionWindow (e_parse e) (obj_annotations (wl_Object s))
       (case cl_GetNamespace (e_api e 3) (wl_Namespace s) of Inl err \<Rightarrow> Inl err | Inr ns \<Rightarrow> Inr (ns_Labels ns))
       (rc_Config r)"

definition sts_rebalance ::
  "env \<Rightarrow> request \<Rightarrow> statefulset \<Rightarrow> ReplicaState \<Rightarrow> reconciler \<Rightarrow> reconcile_result" where
  "sts_rebalance e req s replicaState r =
     (case sts_resolveDisruptionWindow e s r of
        Inl err \<Rightarrow>
          ((getDisruptionRetryInterval r, None), record_error (e_clk e 9) req (WindowError err) r, [])
      | Inr disruptionWindow \<Rightarrow>
          if disruptionWindow \<noteq> None \<and> \<not> IsWithinWindow disruptionWindow (e_clk e 10)
          then ((getDisruptionWindowPollInterval r, None), r, [])
          else
            (case sts_performPodRebalancing e s replicaState (request_String req) r of
               (rebalanceErr, r, effs) \<Rightarrow>
                 (let r = (case rebalanceErr of None \<Rightarrow> r
                           | Some err \<Rightarrow> record_error (e_clk e 17) req (ApiError err) r);
                      effs = effs @ (if rc_MetricsCollector r
                        then [ReconciliationMetric (rq_Namespace req) (rq_Name req) ''statefulset'' ''rebalance''
                                (map_option ApiError rebalanceErr)] else [])
                  in case rebalanceErr of
                       Some err \<Rightarrow> ((rc_ReconcileInterval r, Some (ApiError err)), r, effs)
                     | None \<Rightarrow> ((go_div (rc_ReconcileInterval r) 2, None), markRecovered r, effs))))"

definition sts_process :: "env \<Rightarrow> request \<Rightarrow> statefulset \<Rightarrow> reconciler \<Rightarrow> reconcile_result" where
  "sts_process e req s r =
     (if \<not> isStatefulSetStableAndReady s then ((i64 (2 * rc_ReconcileInterval r), None), r, [])
      else case ParseWorkloadConfiguration (wl_Object s) of
        Inl err \<Rightarrow>
          ((rc_ReconcileInterval r, Some (ParseError err)), record_error (e_clk e 4) req (ParseError err) r, [])
      | Inr workloadConfig \<Rightarrow>
         (case sts_calculateCurrentReplicaState e s r of
            (Inl err, r) \<Rightarrow>
              ((rc_ReconcileInterval r, Some (ApiError err)), record_error (e_clk e 8) req (ApiError err) r, [])
          | (Inr replicaState, r) \<Rightarrow>
             (let desiredReplicas = (case wl_Replicas s of None \<Rightarrow> wl_StatusReplicas s | Some n \<Rightarrow> n);
                  replicaState = CalculateDesiredDistribution (replicaState\<lparr>rs_TotalReplicas := desiredReplicas\<rparr>) workloadConfig
              in if sts_needsRebalancing replicaState then sts_rebalance e req s replicaState r
                 else ((i64 (rc_ReconcileInterval r * 2), None), markRecovered r, []))))"

definition sts_Reconcile :: "env \<Rightarrow> request \<Rightarrow> reconciler \<Rightarrow> reconcile_result" where
  "sts_Reconcile e req r =
     (let r = r\<lparr>rc_reconcileCount := i64 (rc_reconcileCount r + 1)\<rparr>
      in case cl_GetStatefulSet (e_api e 0) (rq_Namespace req) (rq_Name req) of
           Inl err \<Rightarrow>
             if IsNotFound err
             then ((0, None), r\<lparr>rc_lastDeletionTimes := (rc_lastDeletionTimes r)(request_String req := None)\<rparr>, [])
             else ((0, Some (ApiError err)), record_error (e_clk e 0) req (ApiError err) r, [])
         | Inr s \<Rightarrow>
             if \<not> IsSpotalisEnabled (wl_Object s) then ((0, None), r, [])
             else
               (case namespace_gate e (wl_Namespace s) r of
                  (allowed, r) \<Rightarrow>
                    if \<not> allowed then ((0, None), r, [])
                    else
                      (case cooldown_gate e (request_String req) r of
                         GateReturn res \<Rightarrow> (res, r, [])
                       | GatePass \<Rightarrow> sts_process e req s r)))"

section \<open>Facts about one reconciliation\<close>

lemma sts_calculateCurrentReplicaState_frame:
  "sts_calculateCurrentReplicaState e d r = (x, r') \<Longrightarrow> \<exists>n. r' = r\<lparr>rc_NodeClassifier := n\<rparr>"
  by (auto simp: sts_calculateCurrentReplicaState_def Let_def dest!: classify_nodes_frame observe_workload_frame
      split: if_splits prod.splits sum.splits) (metis reconciler.surjective reconciler.update_convs(1))

lemma categorizePodsByNodeType_frame:
  "categorizePodsByNodeType e d r = (x, r') \<Longrightarrow> \<exists>n. r' = r\<lparr>rc_NodeClassifier := n\<rparr>"
  by (auto simp: categorizePodsByNodeType_def Let_def dest!: classify_nodes_frame observe_workload_frame
      split: if_splits prod.splits sum.splits) (metis reconciler.surjective reconciler.update_convs(1))

text \<open>The candidate of \<^verbatim>\<open>executeGradualRebalancing\<close>.\<close>

definition gradual_choice :: "env \<Rightarrow> statefulset \<Rightarrow> pod list \<Rightarrow> pod" where
  "gradual_choice e s pods = sortPodsByOrdinal (e_sort e) pods (wl_Name s) True ! 0"

lemma executeGradualRebalancing_cases:
  assumes "executeGradualRebalancing e s st key pods r = (err, r', effs)"
  obtains (quiet) "err = None" "r' = r" "evictions effs = []"
    | (evicted) "pods \<noteq> []" "budget_permits (e_selector e) (e_api e 5) (gradual_choice e s pods)"
        "effs = [EvictionRequest (gradual_choice e s pods), StatefulSetUpdate (rebalanced_template (e_clk e 16) st s)]"
        "snd (EvictPod (e_api e 6) (gradual_choice e s pods)) = None"
        "r' = r\<lparr>rc_lastDeletionTimes := (rc_lastDeletionTimes r)(key \<mapsto> TimeValue (e_clk e 15))\<rparr>"
    | (refused) "pods \<noteq> []" "budget_permits (e_selector e) (e_api e 5) (gradual_choice e s pods)"
        "effs = [EvictionRequest (gradual_choice e s pods)]"
        "snd (EvictPod (e_api e 6) (gradual_choice e s pods)) \<noteq> None" "r' = r"
        "err = (if fst (EvictPod (e_api e 6) (gradual_choice e s pods)) = EvictionResultPDBBlocked then None
                else snd (EvictPod (e_api e 6) (gradual_choice e s pods)))"
proof (cases "pods = []")
  case True
  with assms show thesis by (intro quiet) (auto simp: executeGradualRebalancing_def)
next
  case ne: False
  let ?p = "gradual_choice e s pods"
  note ex = assms [unfolded executeGradualRebalancing_def Let_def gradual_choice_def [symmetric]]
  show thesis
  proof (cases "budget_permits (e_selector e) (e_api e 5) ?p")
    case False
    with ex ne show thesis
      by (intro quiet) (auto simp: budget_permits_def split: sum.splits if_splits)
  next
    case True
    then have blocked: "(case CheckPDBStatus (e_selector e) (e_api e 5) ?p of Inl err \<Rightarrow> None
        | Inr pdbStatus \<Rightarrow> if \<not> ps_CanDisrupt pdbStatus then Some pdbStatus else None) = None"
      by (auto simp: budget_permits_def split: sum.splits)
    obtain res e' where ev: "EvictPod (e_api e 6) ?p = (res, e')" by fastforce
    show thesis
    proof (cases e')
      case None
      with ex [unfolded blocked ev] True ne ev show thesis
        by (intro evicted) (auto simp: updateStatefulSetForRebalancing_def Let_def)
    next
      case (Some err')
      with ex [unfolded blocked ev] True ne ev show thesis by (intro refused) (auto split: if_splits)
    qed
  qed
qed

lemma executeGradualRebalancing_ok:
  "executeGradualRebalancing e s st key pods r = (err, r', effs) \<Longrightarrow> step_ok key (e_clk e 15) r r' effs"
  by (erule executeGradualRebalancing_cases) (auto simp: step_ok_def)

lemma sts_performPodRebalancing_ok:
  assumes "sts_performPodRebalancing e d st key r = (err, r', effs)"
  shows "step_ok key (e_clk e 15) r r' effs"
proof -
  obtain x r1 where c: "categorizePodsByNodeType e d r = (x, r1)" by fastforce
  obtain n where r1: "r1 = r\<lparr>rc_NodeClassifier := n\<rparr>" using categorizePodsByNodeType_frame [OF c] by blast
  show ?thesis
  proof (cases x)
    case (Inl err')
    with assms c r1 show ?thesis by (intro step_ok_quiet) (auto simp: sts_performPodRebalancing_def)
  next
    case (Inr ps)
    with assms c have "executeGradualRebalancing e d st key
        (sts_selectPodsForDeletion (fst ps) (snd ps) st) r1 = (err, r', effs)"
      by (cases ps) (simp add: sts_performPodRebalancing_def)
    from executeGradualRebalancing_ok [OF this] show ?thesis
      by (rule step_ok_change) (simp_all add: r1)
  qed
qed

lemma sts_rebalance_cases:
  assumes "sts_rebalance e req d st r = (res, r', effs)"
  obtains (window_error) err where "sts_resolveDisruptionWindow e d r = Inl err" "effs = []"
        "res = (getDisruptionRetryInterval r, None)" "r' = record_error (e_clk e 9) req (WindowError err) r"
    | (closed) w where "sts_resolveDisruptionWindow e d r = Inr (Some w)"
        "\<not> IsWithinWindow (Some w) (e_clk e 10)" "effs = []" "r' = r"
        "res = (getDisruptionWindowPollInterval r, None)"
    | (ran) w perr r1 effs1 where "sts_resolveDisruptionWindow e d r = Inr w"
        "w = None \<or> IsWithinWindow w (e_clk e 10)"
        "sts_performPodRebalancing e d st (request_String req) r = (perr, r1, effs1)"
        "evictions effs = evictions effs1" "set effs1 \<subseteq> set effs"
        "r' = (case perr of None \<Rightarrow> markRecovered r1 | Some err \<Rightarrow> record_error (e_clk e 17) req (ApiError err) r1)"
        "snd res = map_option ApiError perr"
proof (cases "sts_resolveDisruptionWindow e d r")
  case (Inl err)
  with assms show thesis by (intro window_error) (auto simp: sts_rebalance_def)
next
  case (Inr w)
  note eq = assms [unfolded sts_rebalance_def Inr sum.case]
  obtain perr r1 effs1 where p: "sts_performPodRebalancing e d st (request_String req) r = (perr, r1, effs1)"
    by (metis prod_cases3)
  show thesis
  proof (cases "w \<noteq> None \<and> \<not> IsWithinWindow w (e_clk e 10)")
    case True
    with eq Inr show thesis by (intro closed [of "the w"]) auto
  next
    case False
    with eq [unfolded p] Inr p show thesis
      by (intro ran [of w perr r1 effs1]) (auto simp: Let_def split: option.splits if_splits)
  qed
qed

lemma sts_rebalance_ok:
  assumes "sts_rebalance e req d st r = (res, r', effs)"
  shows "step_ok (request_String req) (e_clk e 15) r r' effs"
  using assms
proof (cases rule: sts_rebalance_cases)
  case (ran w perr r1 effs1)
  from sts_performPodRebalancing_ok [OF ran(3)] show ?thesis
    by (rule step_ok_change) (simp_all add: ran split: option.splits)
qed (auto intro: step_ok_quiet)

text \<open>The desired state a reconciliation computes from the counted one.\<close>

definition sts_target :: "statefulset \<Rightarrow> WorkloadConfiguration \<Rightarrow> ReplicaState \<Rightarrow> ReplicaState" where
  "sts_target d config st = CalculateDesiredDistribution
     (st\<lparr>rs_TotalReplicas := (case wl_Replicas d of None \<Rightarrow> wl_StatusReplicas d | Some n \<Rightarrow> n)\<rparr>) config"

lemma sts_process_cases:
  assumes "sts_process e req d r = (res, r', effs)"
  obtains (unstable) "\<not> isStatefulSetStableAndReady d" "effs = []" "r' = r"
        "res = (i64 (2 * rc_ReconcileInterval r), None)"
    | (unparsed) err where "isStatefulSetStableAndReady d" "ParseWorkloadConfiguration (wl_Object d) = Inl err"
        "effs = []" "r' = record_error (e_clk e 4) req (ParseError err) r" "snd res = Some (ParseError err)"
    | (uncounted) config err r1 where "isStatefulSetStableAndReady d"
        "ParseWorkloadConfiguration (wl_Object d) = Inr config"
        "sts_calculateCurrentReplicaState e d r = (Inl err, r1)" "effs = []"
        "r' = record_error (e_clk e 8) req (ApiError err) r1" "snd res = Some (ApiError err)"
    | (balanced) config st r1 where "isStatefulSetStableAndReady d"
        "ParseWorkloadConfiguration (wl_Object d) = Inr config"
        "sts_calculateCurrentReplicaState e d r = (Inr st, r1)"
        "\<not> sts_needsRebalancing (sts_target d config st)" "effs = []" "r' = markRecovered r1" "snd res = None"
    | (rebalanced) config st r1 where "isStatefulSetStableAndReady d"
        "ParseWorkloadConfiguration (wl_Object d) = Inr config"
        "sts_calculateCurrentReplicaState e d r = (Inr st, r1)"
        "sts_needsRebalancing (sts_target d config st)"
        "sts_rebalance e req d (sts_target d config st) r1 = (res, r', effs)"
proof (cases "isStatefulSetStableAndReady d")
  case False
  with assms show thesis by (intro unstable) (auto simp: sts_process_def)
next
  case stable: True
  show thesis
  proof (cases "ParseWorkloadConfiguration (wl_Object d)")
    case (Inl err)
    with assms stable show thesis by (intro unparsed) (auto simp: sts_process_def)
  next
    case parsed: (Inr config)
    obtain x r1 where c: "sts_calculateCurrentReplicaState e d r = (x, r1)" by fastforce
    note eq = assms [unfolded sts_process_def parsed c sum.case prod.case]
    show thesis
    proof (cases x)
      case (Inl err)
      with eq stable parsed c show thesis by (intro uncounted) auto
    next
      case (Inr st)
      with eq stable have eq': "(if sts_needsRebalancing (sts_target d config st)
          then sts_rebalance e req d (sts_target d config st) r1
          else ((i64 (rc_ReconcileInterval r1 * 2), None), markRecovered r1, [])) = (res, r', effs)"
        unfolding Inr sum.case prod.case Let_def sts_target_def
        by (simp only: not_True_eq_False if_False)
      show thesis
        using eq' stable parsed c Inr
        by (cases "sts_needsRebalancing (sts_target d config st)") (auto intro: rebalanced balanced)
    qed
  qed
qed

lemma sts_process_ok:
  assumes "sts_process e req d r = (res, r', effs)"
  shows "step_ok (request_String req) (e_clk e 15) r r' effs"
  using assms
proof (cases rule: sts_process_cases)
  case (rebalanced config st r1)
  obtain n where "r1 = r\<lparr>rc_NodeClassifier := n\<rparr>"
    using sts_calculateCurrentReplicaState_frame [OF rebalanced(3)] by blast
  with sts_rebalance_ok [OF rebalanced(5)] show ?thesis by (simp add: step_ok_def)
qed (auto intro!: step_ok_quiet dest!: sts_calculateCurrentReplicaState_frame)

lemma sts_Reconcile_cases:
  assumes "sts_Reconcile e req r = (res, r', effs)"
  obtains (missing) err where "cl_GetStatefulSet (e_api e 0) (rq_Namespace req) (rq_Name req) = Inl err"
        "IsNotFound err" "res = (0, None)" "effs = []"
        "r' = r\<lparr>rc_reconcileCount := i64 (rc_reconcileCount r + 1),
                rc_lastDeletionTimes := (rc_lastDeletionTimes r)(request_String req := None)\<rparr>"
    | (unread) err where "cl_GetStatefulSet (e_api e 0) (rq_Namespace req) (rq_Name req) = Inl err"
        "\<not> IsNotFound err" "res = (0, Some (ApiError err))" "effs = []"
        "r' = record_error (e_clk e 0) req (ApiError err) (r\<lparr>rc_reconcileCount := i64 (rc_reconcileCount r + 1)\<rparr>)"
    | (disabled) d where "cl_GetStatefulSet (e_api e 0) (rq_Namespace req) (rq_Name req) = Inr d"
        "\<not> IsSpotalisEnabled (wl_Object d)" "res = (0, None)" "effs = []"
        "r' = r\<lparr>rc_reconcileCount := i64 (rc_reconcileCount r + 1)\<rparr>"
    | (denied) d r0 where "cl_GetStatefulSet (e_api e 0) (rq_Namespace req) (rq_Name req) = Inr d"
        "IsSpotalisEnabled (wl_Object d)" "r0 = r\<lparr>rc_reconcileCount := i64 (rc_reconcileCount r + 1)\<rparr>"
        "\<not> fst (namespace_gate e (wl_Namespace d) r0)" "res = (0, None)" "effs = []"
        "r' = snd (namespace_gate e (wl_Namespace d) r0)"
    | (cooling) d r0 where "cl_GetStatefulSet (e_api e 0) (rq_Namespace req) (rq_Name req) = Inr d"
        "IsSpotalisEnabled (wl_Object d)" "r0 = r\<lparr>rc_reconcileCount := i64 (rc_reconcileCount r + 1)\<rparr>"
        "fst (namespace_gate e (wl_Namespace d) r0)" "cooldown_gate e (request_String req) r = GateReturn res"
        "evictions effs = []" "r' = snd (namespace_gate e (wl_Namespace d) r0)"
    | (processed) d r0 r1 effs1 where "cl_GetStatefulSet (e_api e 0) (rq_Namespace req) (rq_Name req) = Inr d"
        "IsSpotalisEnabled (wl_Object d)" "r0 = r\<lparr>rc_reconcileCount := i64 (rc_reconcileCount r + 1)\<rparr>"
        "fst (namespace_gate e (wl_Namespace d) r0)" "cooldown_gate e (request_String req) r = GatePass"
        "r1 = snd (namespace_gate e (wl_Namespace d) r0)"
        "sts_process e req d r1 = (res, r', effs1)" "effs = effs1"
proof -
  define r0 where "r0 = r\<lparr>rc_reconcileCount := i64 (rc_reconcileCount r + 1)\<rparr>"
  note eq = assms [unfolded sts_Reconcile_def Let_def r0_def [symmetric]]
  have ldt: "rc_lastDeletionTimes r0 = rc_lastDeletionTimes r" by (simp add: r0_def)
  show thesis
  proof (cases "cl_GetStatefulSet (e_api e 0) (rq_Namespace req) (rq_Name req)")
    case (Inl err)
    with eq show thesis
      by (cases "IsNotFound err") (auto simp: r0_def intro: missing unread)
  next
    case get: (Inr d)
    show thesis
    proof (cases "IsSpotalisEnabled (wl_Object d)")
      case False
      with eq get show thesis by (intro disabled) (auto simp: r0_def)
    next
      case enabled: True
      obtain allowed r1 where g: "namespace_gate e (wl_Namespace d) r0 = (allowed, r1)" by fastforce
      then have r1: "r1 = snd (namespace_gate e (wl_Namespace d) r0)"
        and al: "allowed = fst (namespace_gate e (wl_Namespace d) r0)" by simp_all
      have cg: "cooldown_gate e (request_String req) r1 = cooldown_gate e (request_String req) r"
        by (rule cooldown_gate_cong) (simp_all add: r1 r0_def)
      note eq2 = eq [unfolded get sum.case g prod.case cg]
      show thesis
      proof (cases allowed)
        case False
        with eq2 enabled get r1 al show thesis by (intro denied [OF _ _ r0_def]) auto
      next
        case True
        show thesis
        proof (cases "cooldown_gate e (request_String req) r")
          case (GateReturn x)
          with eq2 enabled get r1 al True show thesis by (intro cooling [OF _ _ r0_def]) auto
        next
          case GatePass
          obtain res' r2 effs2 where p: "sts_process e req d r1 = (res', r2, effs2)" by (metis prod_cases3)
          with GatePass eq2 True enabled have "sts_process e req d r1 = (res, r', effs2)" "effs = effs2"
            by auto
          with enabled get al True GatePass show thesis by (intro processed [OF _ _ r0_def _ GatePass r1]) auto
        qed
      qed
    qed
  qed
qed

section \<open>The contract\<close>

interpretation statefulset: workload_controller sts_Reconcile
proof unfold_locales
  fix e req r res r' effs
  assume a: "sts_Reconcile e req r = (res, r', effs)"
  have at_most: "length (evictions effs) \<le> 1"
    using a by (cases rule: sts_Reconcile_cases) (auto dest!: sts_process_ok step_okD(1))
  have cooled: "evictions effs = [] \<or> cooldown_gate e (request_String req) r = GatePass"
    using a by (cases rule: sts_Reconcile_cases) auto
  have deleted: "rc_lastDeletionTimes r' (request_String req) = rc_lastDeletionTimes r (request_String req) \<or>
      rc_lastDeletionTimes r' (request_String req) = Some (TimeValue (e_clk e 15)) \<and> evictions effs \<noteq> [] \<or>
      rc_lastDeletionTimes r' (request_String req) = None \<and> evictions effs = []"
    using a by (cases rule: sts_Reconcile_cases) (auto dest!: sts_process_ok simp: step_ok_def)
  have const: "getCooldownPeriod r' = getCooldownPeriod r"
    using a by (cases rule: sts_Reconcile_cases) (auto dest!: sts_process_ok simp: step_ok_def)
  show "length (evictions effs) \<le> 1" by (rule at_most)
  show "getCooldownPeriod r' = getCooldownPeriod r" by (rule const)
  show "cooldown_gate e (request_String req) r = GatePass" if "evictions effs \<noteq> []" using cooled that by blast
  show "rc_lastDeletionTimes r' (request_String req) = Some (TimeValue (e_clk e 15)) \<and> evictions effs \<noteq> [] \<or>
      rc_lastDeletionTimes r' (request_String req) = None \<and> evictions effs = []"
    if "rc_lastDeletionTimes r' (request_String req) \<noteq> rc_lastDeletionTimes r (request_String req)"
    using deleted that by blast
qed


section \<open>Sorting by ordinal\<close>

text \<open>What \<^verbatim>\<open>sort.Slice\<close> promises: a permutation, in which no later element is
  less than an earlier one, for a comparison of integer keys.\<close>

locale slice_sort =
  fixes sort_slice :: "('a \<Rightarrow> 'a \<Rightarrow> bool) \<Rightarrow> 'a list \<Rightarrow> 'a list"
  assumes sort_perm: "mset (sort_slice lt xs) = mset xs"
    and sort_sorted: "(\<And>a b. lt a b \<longleftrightarrow> key a < (key b :: int)) \<Longrightarrow> sorted (map key (sort_slice lt xs))"
begin

lemma sort_length: "length (sort_slice lt xs) = length xs"
  using sort_perm by (rule mset_eq_length)

lemma sort_set: "set (sort_slice lt xs) = set xs"
  using sort_perm by (rule mset_eq_setD)

text \<open>The first element is a minimum of the key.\<close>

lemma sort_first:
  assumes "\<And>a b. lt a b \<longleftrightarrow> key a < (key b :: int)" and "xs \<noteq> []"
  shows "sort_slice lt xs ! 0 \<in> set xs" and "x \<in> set xs \<Longrightarrow> key (sort_slice lt xs ! 0) \<le> key x"
proof -
  obtain y ys where s: "sort_slice lt xs = y # ys"
    using assms(2) sort_length [of lt xs] by (cases "sort_slice lt xs") auto
  have set: "set (y # ys) = set xs" using sort_set [of lt xs] s by simp
  have sorted: "sorted (map key (y # ys))" using sort_sorted [of lt key xs] assms(1) s by simp
  show "sort_slice lt xs ! 0 \<in> set xs" using set s by auto
  show "key (sort_slice lt xs ! 0) \<le> key x" if "x \<in> set xs"
    using that set sorted s by auto
qed

text \<open>With distinct keys the result is the only one a sort can give.\<close>

lemma sort_unique:
  assumes "\<And>a b. lt a b \<longleftrightarrow> key a < (key b :: int)" and "inj_on key (set xs)" and "distinct xs"
    and "mset ys = mset xs" and "sorted (map key ys)"
  shows "sort_slice lt xs = ys"
proof (rule map_inj_on)
  have "set ys = set xs" using assms(4) by (rule mset_eq_setD)
  then show "inj_on key (set (sort_slice lt xs) \<union> set ys)" using assms(2) sort_set by simp
  have "mset (map key (sort_slice lt xs)) = mset (map key ys)" using sort_perm assms(4) by simp
  moreover have "sorted (map key (sort_slice lt xs))" using assms(1) by (rule sort_sorted)
  ultimately show "map key (sort_slice lt xs) = map key ys"
    using assms(5) by (metis properties_for_sort)
qed

end

lemma insert_less_mset: "mset (insert_less lt x ys) = add_mset x (mset ys)"
  by (induction ys) auto

lemma insert_less_sorted:
  assumes "\<And>a b. lt a b \<longleftrightarrow> key a < (key b :: int)" and "sorted (map key ys)"
  shows "sorted (map key (insert_less lt x ys))"
  using assms(2)
proof (induction ys)
  case (Cons y ys)
  have "set (insert_less lt x ys) = insert x (set ys)"
    using insert_less_mset [of lt x ys] by (metis set_mset_add_mset_insert set_mset_mset)
  moreover have "lt = (\<lambda>a b. key a < key b)" using assms(1) by blast
  ultimately show ?case using Cons by auto
qed simp

interpretation insertion: slice_sort insertionSort
proof unfold_locales
  show "mset (insertionSort lt xs) = mset xs" for lt :: "'a \<Rightarrow> 'a \<Rightarrow> bool" and xs
    by (induction xs) (auto simp: insertionSort_def insert_less_mset)
  show "sorted (map key (insertionSort lt xs))" if "\<And>a b. lt a b \<longleftrightarrow> key a < (key b :: int)"
    for lt :: "'a \<Rightarrow> 'a \<Rightarrow> bool" and xs key
    by (induction xs) (auto simp: insertionSort_def intro: insert_less_sorted [OF that])
qed

lemma extractPodOrdinal_name:
  "0 \<le> n \<Longrightarrow> in_i64 n \<Longrightarrow> extractPodOrdinal (name @ ''-'' @ FormatInt n) name = Inr n"
  using HasPrefix_append [of "name @ ''-''" "FormatInt n"] ParseInt_FormatInt [of 9223372036854775808 n]
  by (simp add: extractPodOrdinal_def Let_def in_i64_def)

lemma with_ordinal_simps [simp]: "pwo_pod (with_ordinal name p) = p"
  by (simp add: with_ordinal_def)

abbreviation ordinal_of :: "string \<Rightarrow> pod \<Rightarrow> int" where
  "ordinal_of name p \<equiv> pwo_ordinal (with_ordinal name p)"

lemma gradual_choice_highest:
  assumes "slice_sort (e_sort e)" and "pods \<noteq> []"
  shows "gradual_choice e s pods \<in> set pods"
    and "q \<in> set pods \<Longrightarrow> ordinal_of (wl_Name s) q \<le> ordinal_of (wl_Name s) (gradual_choice e s pods)"
proof -
  let ?lt = "\<lambda>a b. pwo_ordinal a > pwo_ordinal b" and ?xs = "map (with_ordinal (wl_Name s)) pods"
  have key: "\<And>a b. ?lt a b \<longleftrightarrow> - pwo_ordinal a < - pwo_ordinal b" by simp
  have ne: "?xs \<noteq> []" using assms(2) by simp
  let ?x = "e_sort e ?lt ?xs ! 0"
  have len: "0 < length (e_sort e ?lt ?xs)"
    using slice_sort.sort_length [OF assms(1)] ne by simp
  have c: "gradual_choice e s pods = pwo_pod ?x"
    using assms(2) len by (simp add: gradual_choice_def sortPodsByOrdinal_def nth_map)
  have "?x \<in> set ?xs" by (rule slice_sort.sort_first(1) [OF assms(1) key ne])
  then obtain p where p: "p \<in> set pods" "?x = with_ordinal (wl_Name s) p" by auto
  then show "gradual_choice e s pods \<in> set pods" using c by simp
  show "ordinal_of (wl_Name s) q \<le> ordinal_of (wl_Name s) (gradual_choice e s pods)" if "q \<in> set pods"
  proof -
    have "with_ordinal (wl_Name s) q \<in> set ?xs" using that by simp
    then have "- pwo_ordinal ?x \<le> - ordinal_of (wl_Name s) q"
      by (rule slice_sort.sort_first(2) [where key = "\<lambda>a. - pwo_ordinal a", OF assms(1) key ne])
    with c p show ?thesis by simp
  qed
qed

section \<open>Which pod is evicted\<close>

lemma sts_excess_eq:
  "in_i32 (int (length pods)) \<Longrightarrow> 0 \<le> n \<Longrightarrow> in_i32 n \<Longrightarrow> sts_excess pods n = take (length pods - nat n) pods"
  using take_int_excess [of pods n] by (auto simp: sts_excess_def Let_def in_i32_def)

lemma sts_selectPodsForDeletion_eq:
  assumes "in_i32 (int (length spotPods))" "in_i32 (int (length onDemandPods))"
    and "wf_desired st" "in_i32 (rs_TotalReplicas st)"
  shows "sts_selectPodsForDeletion spotPods onDemandPods st = excess_choice spotPods onDemandPods st"
  using assms wf_desired_i32 [OF assms(3,4)]
  by (simp add: sts_selectPodsForDeletion_def excess_choice_def sts_excess_eq wf_desired_def)

lemma categorizePodsByNodeType_member:
  assumes "categorizePodsByNodeType e d r = (Inr (spotPods, onDemandPods), r')"
    and "p \<in> set spotPods \<union> set onDemandPods"
  shows "pod_DeletionTimestamp p = None \<and> pod_NodeName p \<noteq> [] \<and> (rc_Observer r \<longrightarrow> isReady p \<and> \<not> isTerminal p)"
proof (cases "rc_Observer r")
  case True
  with assms(1) obtain s where s: "observe_workload e 4 12 (StatefulSet d) r = (Inr s, r')"
      "EligiblePods s = (spotPods, onDemandPods)"
    by (auto simp: categorizePodsByNodeType_def split: prod.splits sum.splits)
  from observe_workload_eligible [OF s(1), of p] s(2) assms(2) show ?thesis by simp
next
  case False
  with assms show ?thesis
    by (auto simp: categorizePodsByNodeType_def Let_def split: prod.splits sum.splits)
qed

lemma sts_calculateCurrentReplicaState_observer:
  "sts_calculateCurrentReplicaState e d r = (x, r') \<Longrightarrow> rc_Observer r' = rc_Observer r"
  by (drule sts_calculateCurrentReplicaState_frame) auto

lemma sts_evictionE:
  assumes "sts_Reconcile e req r = (res, r', effs)" and "evictions effs \<noteq> []"
  obtains d r0 config st r1 w spotPods onDemandPods r2 where
    "cl_GetStatefulSet (e_api e 0) (rq_Namespace req) (rq_Name req) = Inr d"
    "IsSpotalisEnabled (wl_Object d)"
    "r0 = r\<lparr>rc_reconcileCount := i64 (rc_reconcileCount r + 1)\<rparr>"
    "fst (namespace_gate e (wl_Namespace d) r0)"
    "cooldown_gate e (request_String req) r = GatePass"
    "isStatefulSetStableAndReady d"
    "ParseWorkloadConfiguration (wl_Object d) = Inr config"
    "sts_calculateCurrentReplicaState e d (snd (namespace_gate e (wl_Namespace d) r0)) = (Inr st, r1)"
    "sts_needsRebalancing (sts_target d config st)"
    "sts_resolveDisruptionWindow e d r1 = Inr w" "w = None \<or> IsWithinWindow w (e_clk e 10)"
    "categorizePodsByNodeType e d r1 = (Inr (spotPods, onDemandPods), r2)"
    "sts_selectPodsForDeletion spotPods onDemandPods (sts_target d config st) \<noteq> []"
    "evictions effs = [gradual_choice e d (sts_selectPodsForDeletion spotPods onDemandPods (sts_target d config st))]"
    "budget_permits (e_selector e) (e_api e 5)
      (gradual_choice e d (sts_selectPodsForDeletion spotPods onDemandPods (sts_target d config st)))"
    "snd (EvictPod (e_api e 6) (gradual_choice e d (sts_selectPodsForDeletion spotPods onDemandPods (sts_target d config st)))) = None \<longrightarrow>
      StatefulSetUpdate (rebalanced_template (e_clk e 16) (sts_target d config st) d) \<in> set effs"
  using assms(1)
proof (cases rule: sts_Reconcile_cases)
  case (processed d r0 rg effs1)
  from processed(7) show thesis
  proof (cases rule: sts_process_cases)
    case (rebalanced config st r1)
    from rebalanced(5) show thesis
    proof (cases rule: sts_rebalance_cases)
      case (ran w perr r3 effs2)
      from ran(4) processed(8) assms(2) have ev: "evictions effs2 \<noteq> []" "evictions effs = evictions effs2" by simp_all
      obtain x r2 where c: "categorizePodsByNodeType e d r1 = (x, r2)" by fastforce
      obtain spotPods onDemandPods where x: "x = Inr (spotPods, onDemandPods)"
        using ran(3) c ev(1) by (cases x) (auto simp: sts_performPodRebalancing_def)
      define pods where "pods = sts_selectPodsForDeletion spotPods onDemandPods (sts_target d config st)"
      from ran(3) c x have "executeGradualRebalancing e d (sts_target d config st) (request_String req) pods r2 = (perr, r3, effs2)"
        by (simp add: sts_performPodRebalancing_def pods_def)
      then have ex: "pods \<noteq> [] \<and> budget_permits (e_selector e) (e_api e 5) (gradual_choice e d pods) \<and>
          evictions effs2 = [gradual_choice e d pods] \<and>
          (snd (EvictPod (e_api e 6) (gradual_choice e d pods)) = None \<longrightarrow>
            StatefulSetUpdate (rebalanced_template (e_clk e 16) (sts_target d config st) d) \<in> set effs2)"
        using ev(1) by (elim executeGradualRebalancing_cases) auto
      note ex = ex [unfolded pods_def]
      have "evictions effs = [gradual_choice e d (sts_selectPodsForDeletion spotPods onDemandPods (sts_target d config st))]"
        using ex ev(2) by simp
      moreover have "snd (EvictPod (e_api e 6) (gradual_choice e d (sts_selectPodsForDeletion spotPods onDemandPods (sts_target d config st)))) = None \<longrightarrow>
          StatefulSetUpdate (rebalanced_template (e_clk e 16) (sts_target d config st) d) \<in> set effs"
        using ex ran(5) processed(8) by blast
      ultimately show thesis
        using ex by (intro that [OF processed(1-5) rebalanced(1,2) rebalanced(3) [unfolded processed(6)] rebalanced(4)
            ran(1,2) c [unfolded x]]) blast+
    qed (use assms(2) processed(8) in simp_all)
  qed (use assms(2) processed(8) in simp_all)
qed (use assms(2) in simp_all)

lemma sts_performPodRebalancing_success:
  assumes "sts_performPodRebalancing e d st key r = (err, r', effs)" and "evictions effs = [p]"
    and "snd (EvictPod (e_api e 6) p) = None"
  shows "rc_lastDeletionTimes r' key = Some (TimeValue (e_clk e 15))"
proof -
  obtain x r2 where c: "categorizePodsByNodeType e d r = (x, r2)" by fastforce
  obtain spotPods onDemandPods where x: "x = Inr (spotPods, onDemandPods)"
    using assms(1,2) c by (cases x) (auto simp: sts_performPodRebalancing_def)
  from assms(1) c x have "executeGradualRebalancing e d st key
      (sts_selectPodsForDeletion spotPods onDemandPods st) r2 = (err, r', effs)"
    by (simp add: sts_performPodRebalancing_def)
  then show ?thesis by (rule executeGradualRebalancing_cases) (use assms(2,3) in auto)
qed

lemma sts_success_recorded:
  assumes "sts_Reconcile e req r = (res, r', effs)" and "evictions effs = [p]"
    and "snd (EvictPod (e_api e 6) p) = None"
  shows "rc_lastDeletionTimes r' (request_String req) = Some (TimeValue (e_clk e 15))"
  using assms(1)
proof (cases rule: sts_Reconcile_cases)
  case (processed d r0 rg effs1)
  from processed(7) show ?thesis
  proof (cases rule: sts_process_cases)
    case (rebalanced config st r1)
    from rebalanced(5) show ?thesis
    proof (cases rule: sts_rebalance_cases)
      case (ran w perr r3 effs2)
      with sts_performPodRebalancing_success [OF ran(3) _ assms(3)] processed(8) assms(2)
      show ?thesis by (auto split: option.splits)
    qed (use assms(2) processed(8) in simp_all)
  qed (use assms(2) processed(8) in simp_all)
qed (use assms(2) in simp_all)

lemma sts_keeps_time:
  assumes "sts_Reconcile e req r = (res, r', effs)" and "rc_lastDeletionTimes r (request_String req) \<noteq> None"
    and "\<And>err. cl_GetStatefulSet (e_api e 0) (rq_Namespace req) (rq_Name req) = Inl err \<Longrightarrow> \<not> IsNotFound err"
  shows "rc_lastDeletionTimes r' (request_String req) \<noteq> None"
  using assms(1)
  by (cases rule: sts_Reconcile_cases) (use assms(2,3) in \<open>auto dest!: sts_process_ok simp: step_ok_def\<close>)

section \<open>The template\<close>

lemma foldl_add_toleration:
  "\<exists>new. foldl add_toleration ts xs = ts @ new \<and> set new \<subseteq> set xs"
  "set (map tol_Key (foldl add_toleration ts xs)) = set (map tol_Key ts) \<union> set (map tol_Key xs)"
  "distinct (map tol_Key ts) \<Longrightarrow> distinct (map tol_Key (foldl add_toleration ts xs))"
proof (induction xs arbitrary: ts)
  case (Cons x xs)
  {
    case 1
    obtain new where "foldl add_toleration (add_toleration ts x) xs = add_toleration ts x @ new" "set new \<subseteq> set xs"
      using Cons.IH(1) by blast
    moreover have "add_toleration ts x = ts \<or> add_toleration ts x = ts @ [x]" by (simp add: add_toleration_def)
    ultimately show ?case by (elim disjE) fastforce+
  next
    case 2
    have "set (map tol_Key (add_toleration ts x)) = insert (tol_Key x) (set (map tol_Key ts))"
      by (auto simp: add_toleration_def)
    then show ?case using Cons.IH(2) [of "add_toleration ts x"] by simp
  next
    case 3
    then have "distinct (map tol_Key (add_toleration ts x))" by (simp add: add_toleration_def)
    then show ?case using Cons.IH(3) by simp
  }
qed simp_all

lemma rebalanced_template_annotations:
  "sts_TemplateAnnotations (rebalanced_template now st s) =
     Some ((case sts_TemplateAnnotations s of None \<Rightarrow> Map.empty | Some m \<Rightarrow> m)
       (''spotalis.io/desired-spot-replicas'' \<mapsto> FormatInt (rs_DesiredSpot st),
        ''spotalis.io/desired-ondemand-replicas'' \<mapsto> FormatInt (rs_DesiredOnDemand st),
        ''spotalis.io/rebalance-timestamp'' \<mapsto> FormatRFC3339 now))"
  by (simp add: rebalanced_template_def updatePodTemplateForNodePlacement_def put_def Let_def)

lemma rebalanced_template_tolerations:
  "sts_TemplateTolerations (rebalanced_template now st s) =
     (if rs_DesiredSpot st > 0 then foldl add_toleration (sts_TemplateTolerations s) spotTolerations
      else sts_TemplateTolerations s)"
  by (simp add: rebalanced_template_def updatePodTemplateForNodePlacement_def Let_def)

lemma FormatRFC3339_examples:
  "FormatRFC3339 0 = ''0001-01-01T00:00:00Z''"
  "FormatRFC3339 (63082281599 * Second) = ''1999-12-31T23:59:59Z''"
  "FormatRFC3339 (63844761600 * Second + 5) = ''2024-02-29T00:00:00Z''"
  by code_simp+

section \<open>Properties\<close>

text \<open>C27: The ordinal of the pod \<open>name-n\<close> is \<open>n\<close>, and the candidates of a StatefulSet, whose
  names are distinct, are sorted by descending ordinal in one way only, whichever sorting
  routine with the documented behaviour the runtime uses.\<close>

theorem ordinal_order_unique:
  assumes "slice_sort srt" and "distinct ns" and "\<forall>n\<in>set ns. 0 \<le> n \<and> in_i64 n"
    and "map pod_Name pods = map (\<lambda>n. name @ ''-'' @ FormatInt n) ns"
  shows "map (ordinal_of name) pods = ns \<and>
    map (ordinal_of name) (sortPodsByOrdinal srt pods name True) = rev (sort ns)"
proof -
  have o: "map (ordinal_of name) pods = ns"
    using assms(3,4)
  proof (induction pods arbitrary: ns)
    case (Cons p pods)
    then obtain n ms where [simp]: "ns = n # ms" by (cases ns) auto
    from Cons show ?case by (simp add: with_ordinal_def extractPodOrdinal_name [simplified])
  qed simp
  let ?lt = "\<lambda>a b. pwo_ordinal a > pwo_ordinal b" and ?xs = "map (with_ordinal name) pods"
  have "map pwo_ordinal (srt ?lt ?xs) = rev (sort ns)"
  proof -
    have "sorted (map (\<lambda>a. - pwo_ordinal a) (srt ?lt ?xs))"
      by (rule slice_sort.sort_sorted [OF assms(1)]) simp
    then have "sorted (rev (map pwo_ordinal (srt ?lt ?xs)))"
      by (simp add: sorted_wrt_rev sorted_wrt_map)
    moreover have "mset (rev (map pwo_ordinal (srt ?lt ?xs))) = mset ns"
      using slice_sort.sort_perm [OF assms(1), of ?lt ?xs] o by (simp only: mset_rev mset_map flip: o) (simp add: multiset.map_comp comp_def)
    ultimately have "rev (map pwo_ordinal (srt ?lt ?xs)) = sort ns"
      by (metis properties_for_sort)
    then show ?thesis by (metis rev_rev_ident)
  qed
  moreover have "map (ordinal_of name \<circ> pwo_pod) (srt ?lt ?xs) = map pwo_ordinal (srt ?lt ?xs)"
    using slice_sort.sort_set [OF assms(1), of ?lt ?xs] by (auto intro!: map_cong)
  ultimately show ?thesis using o by (auto simp: sortPodsByOrdinal_def)
qed

theorem ordinal_order_unique_witness:
  "map (ordinal_of ''web'') (sortPodsByOrdinal insertionSort
     [sample_pod ''web-2'' ''n0'', sample_pod ''web-10'' ''n0'', sample_pod ''web-9'' ''n1''] ''web'' True) = [10, 9, 2]"
proof -
  have "map pod_Name [sample_pod ''web-2'' ''n0'', sample_pod ''web-10'' ''n0'', sample_pod ''web-9'' ''n1''] =
      map (\<lambda>n. ''web'' @ ''-'' @ FormatInt n) [2, 10, 9]"
    by (simp add: sample_pod_def) (code_simp)
  from ordinal_order_unique [OF insertion.slice_sort_axioms _ _ this] show ?thesis by (simp add: in_i64_def)
qed


text \<open>C8: A StatefulSet's pod is evicted only when the filter admits the namespace, the
  StatefulSet is enabled, out of its cooldown, stable and drifted, its window open and its
  budget not exhausted; the pod is assigned and not terminating, belongs to a class above its target (which never lies below the floor), and
  no other candidate has a higher ordinal. The candidates are the first pods of the class in
  the order of the list, as many as are in excess: the ordering only applies among them.\<close>

theorem statefulset_evicts_highest_excess:
  assumes "sts_Reconcile e req r = (res, r', effs)" and "evictions effs = [p]" and "slice_sort (e_sort e)"
    and "cl_GetStatefulSet (e_api e 0) (rq_Namespace req) (rq_Name req) = Inr s"
    and "wl_Replicas s = Some n" and "0 \<le> n" and "in_i32 n"
  shows "IsSpotalisEnabled (wl_Object s) \<and> isStatefulSetStableAndReady s \<and>
    fst (namespace_gate e (wl_Namespace s) (r\<lparr>rc_reconcileCount := i64 (rc_reconcileCount r + 1)\<rparr>)) \<and>
    cooldown_gate e (request_String req) r = GatePass \<and> budget_permits (e_selector e) (e_api e 5) p \<and>
    pod_DeletionTimestamp p = None \<and> pod_NodeName p \<noteq> [] \<and> (rc_Observer r \<longrightarrow> isReady p \<and> \<not> isTerminal p) \<and>
    (\<exists>config st r1 w spotPods onDemandPods r2. ParseWorkloadConfiguration (wl_Object s) = Inr config \<and>
      sts_calculateCurrentReplicaState e s (snd (namespace_gate e (wl_Namespace s)
        (r\<lparr>rc_reconcileCount := i64 (rc_reconcileCount r + 1)\<rparr>))) = (Inr st, r1) \<and>
      sts_needsRebalancing (sts_target s config st) \<and>
      sts_resolveDisruptionWindow e s r1 = Inr w \<and> (w = None \<or> IsWithinWindow w (e_clk e 10)) \<and>
      categorizePodsByNodeType e s r1 = (Inr (spotPods, onDemandPods), r2) \<and>
      min (wc_MinOnDemand config) n \<le> rs_DesiredOnDemand (sts_target s config st) \<and>
      (\<forall>q\<in>set (sts_selectPodsForDeletion spotPods onDemandPods (sts_target s config st)).
        ordinal_of (wl_Name s) q \<le> ordinal_of (wl_Name s) p) \<and>
      (in_i32 (int (length spotPods)) \<and> in_i32 (int (length onDemandPods)) \<longrightarrow>
        p \<in> set spotPods \<and> rs_DesiredSpot (sts_target s config st) < int (length spotPods) \<or>
        p \<in> set onDemandPods \<and> rs_DesiredOnDemand (sts_target s config st) < int (length onDemandPods)))"
proof -
  from assms(2) have "evictions effs \<noteq> []" by simp
  with assms(1) show ?thesis
  proof (rule sts_evictionE, goal_cases)
    case (1 d r0 config st r1 w spotPods onDemandPods r2)
    have [simp]: "d = s" using 1(1) assms(4) by simp
    let ?cand = "sts_selectPodsForDeletion spotPods onDemandPods (sts_target s config st)"
    have p: "gradual_choice e s ?cand = p" using 1(14) assms(2) by simp
    have ne: "?cand \<noteq> []" using 1(13) by simp
    note high = gradual_choice_highest [OF assms(3) ne, where s = s, unfolded p]
    have wf: "wf_desired (sts_target s config st)" and tot: "rs_TotalReplicas (sts_target s config st) = n"
      using assms(5-7) by (auto simp: sts_target_def intro!: CalculateDesiredDistribution_wf)
    have mem: "p \<in> set spotPods \<union> set onDemandPods"
      using high(1) by (auto simp: sts_selectPodsForDeletion_def sts_excess_def Let_def split: if_splits dest: set_take_int)
    have obs: "rc_Observer r1 = rc_Observer r"
      using sts_calculateCurrentReplicaState_observer [OF 1(8)] 1(3) by simp
    have cat: "categorizePodsByNodeType e s r1 = (Inr (spotPods, onDemandPods), r2)" using 1(12) by simp
    have floor: "min (wc_MinOnDemand config) n \<le> rs_DesiredOnDemand (sts_target s config st)"
      using desired_keeps_floor [of "st\<lparr>rs_TotalReplicas := n\<rparr>" config] assms(5-7) by (simp add: sts_target_def)
    have ex: "in_i32 (int (length spotPods)) \<and> in_i32 (int (length onDemandPods)) \<longrightarrow>
        p \<in> set spotPods \<and> rs_DesiredSpot (sts_target s config st) < int (length spotPods) \<or>
        p \<in> set onDemandPods \<and> rs_DesiredOnDemand (sts_target s config st) < int (length onDemandPods)"
      using excess_choice_member [of p spotPods onDemandPods "sts_target s config st"] high(1)
        sts_selectPodsForDeletion_eq [OF _ _ wf, of spotPods onDemandPods] assms(7) tot by auto
    have "ParseWorkloadConfiguration (wl_Object s) = Inr config" "isStatefulSetStableAndReady s"
      "IsSpotalisEnabled (wl_Object s)" "cooldown_gate e (request_String req) r = GatePass"
      "fst (namespace_gate e (wl_Namespace s) (r\<lparr>rc_reconcileCount := i64 (rc_reconcileCount r + 1)\<rparr>))"
      "budget_permits (e_selector e) (e_api e 5) p" "sts_needsRebalancing (sts_target s config st)"
      "sts_resolveDisruptionWindow e s r1 = Inr w"
      "sts_calculateCurrentReplicaState e s (snd (namespace_gate e (wl_Namespace s)
        (r\<lparr>rc_reconcileCount := i64 (rc_reconcileCount r + 1)\<rparr>))) = (Inr st, r1)"
      using 1 p by simp_all
    with categorizePodsByNodeType_member [OF cat mem] obs 1(11) cat floor high(2) ex show ?case by blast
  qed
qed

text \<open>One of the two pods is in excess: the candidate is the first listed, ordinal 0, not 1.\<close>

lemma sample_sts_run:
  "map pod_Name (evictions (snd (snd (sts_Reconcile (sample_env (9 * Minute)) sample_request sample_reconciler)))) = [''web-0'']"
  by code_simp

theorem statefulset_evicts_highest_excess_witness:
  "\<exists>p. evictions (snd (snd (sts_Reconcile (sample_env (9 * Minute)) sample_request sample_reconciler))) = [p] \<and>
     isStatefulSetStableAndReady small_statefulset \<and> pod_NodeName p \<noteq> []"
proof -
  obtain res r' effs where run: "sts_Reconcile (sample_env (9 * Minute)) sample_request sample_reconciler = (res, r', effs)"
    by (metis prod_cases3)
  then have "length (evictions effs) = 1"
    using sample_sts_run by (metis length_map length_Cons list.size(3) snd_conv One_nat_def)
  then obtain p where p: "evictions effs = [p]" by (cases "evictions effs") auto
  have s: "slice_sort (e_sort (sample_env (9 * Minute)))"
    using insertion.slice_sort_axioms by (simp add: sample_env_def)
  have "cl_GetStatefulSet (e_api (sample_env (9 * Minute)) 0) (rq_Namespace sample_request) (rq_Name sample_request) =
      Inr small_statefulset" "wl_Replicas small_statefulset = Some 2"
    by (simp_all add: sample_env_def sample_api_def small_statefulset_def workload.defs statefulset.defs)
  from statefulset_evicts_highest_excess [OF run p s this] p run show ?thesis by (auto simp: in_i32_def)
qed


text \<open>Rate: after a reconciliation whose eviction succeeded at clock time \<open>t\<close>, no later
  reconciliation of the same StatefulSet that reads a time before \<open>t\<close> plus the cooldown
  period evicts anything, as long as it is not reported deleted; also when the update of the
  template after the eviction failed.\<close>

theorem statefulset_cooldown_rate:
  assumes "sts_Reconcile e req r = (res, r1, effs)" and "evictions effs = [p]"
    and "snd (EvictPod (e_api e 6) p) = None" and "in_i64 (getCooldownPeriod r)"
    and "run_controller sts_Reconcile req es r1 = (r2, trace)"
    and "\<forall>e'\<in>set es. e_clk e' 3 < e_clk e 15 + getCooldownPeriod r"
    and "\<forall>e'\<in>set es. \<forall>err. cl_GetStatefulSet (e_api e' 0) (rq_Namespace req) (rq_Name req) = Inl err \<longrightarrow> \<not> IsNotFound err"
  shows "evictions (concat trace) = []"
proof -
  have c: "getCooldownPeriod r1 = getCooldownPeriod r" by (rule statefulset.cooldown_constant [OF assms(1)])
  have keep: "\<forall>e'\<in>set es. \<forall>r. rc_lastDeletionTimes r (request_String req) \<noteq> None \<longrightarrow>
      rc_lastDeletionTimes (fst (snd (sts_Reconcile e' req r))) (request_String req) \<noteq> None"
    using sts_keeps_time assms(7) by (metis prod.collapse)
  show ?thesis
    by (rule statefulset.quiet_during_cooldown [OF assms(5) sts_success_recorded [OF assms(1-3)]])
      (use assms(4,6) keep c in simp_all)
qed

theorem statefulset_cooldown_rate_witness:
  "evictions (concat (snd (run_controller sts_Reconcile sample_request [sample_env (9 * Minute + 5 * Second)]
     (fst (snd (sts_Reconcile (sample_env (9 * Minute)) sample_request sample_reconciler)))))) = []"
proof -
  obtain res r1 effs where run: "sts_Reconcile (sample_env (9 * Minute)) sample_request sample_reconciler = (res, r1, effs)"
    by (metis prod_cases3)
  then have "length (evictions effs) = 1"
    using sample_sts_run by (metis length_map length_Cons list.size(3) snd_conv One_nat_def)
  then obtain p where p: "evictions effs = [p]" by (cases "evictions effs") auto
  have ev: "snd (EvictPod (e_api (sample_env (9 * Minute)) 6) p) = None"
    by (simp add: EvictPod_def sample_env_def sample_api_def)
  have i: "in_i64 (getCooldownPeriod sample_reconciler)" by (simp add: sample_cooldown in_i64_def)
  obtain r2 trace where es: "run_controller sts_Reconcile sample_request
      [sample_env (9 * Minute + 5 * Second)] r1 = (r2, trace)" by fastforce
  have "evictions (concat trace) = []"
    by (rule statefulset_cooldown_rate [OF run p ev i es])
      (simp_all add: sample_cooldown sample_env_def sample_api_def duration_units)
  with es run show ?thesis by simp
qed

text \<open>A successful eviction is followed by one update of the StatefulSet whose pod template
  differs from the one read in its annotations: the timestamp and the two targets, every
  other annotation kept; the tolerations it had are kept in order and their keys stay
  distinct. A template that carried another timestamp is thus a new revision, so each
  eviction makes the StatefulSet controller replace every pod, not only the evicted one.\<close>

theorem eviction_rolls_template:
  assumes "sts_Reconcile e req r = (res, r', effs)" and "evictions effs = [p]"
    and "snd (EvictPod (e_api e 6) p) = None"
    and "cl_GetStatefulSet (e_api e 0) (rq_Namespace req) (rq_Name req) = Inr s"
  shows "\<exists>s' m'. StatefulSetUpdate s' \<in> set effs \<and> sts_TemplateAnnotations s' = Some m' \<and>
    m' ''spotalis.io/rebalance-timestamp'' = Some (FormatRFC3339 (e_clk e 16)) \<and>
    (\<forall>k. k \<notin> {''spotalis.io/rebalance-timestamp'', ''spotalis.io/desired-spot-replicas'',
      ''spotalis.io/desired-ondemand-replicas''} \<longrightarrow> m' k = map_lookup (sts_TemplateAnnotations s) k) \<and>
    (map_lookup (sts_TemplateAnnotations s) ''spotalis.io/rebalance-timestamp'' \<noteq> Some (FormatRFC3339 (e_clk e 16)) \<longrightarrow>
      sts_TemplateAnnotations s' \<noteq> sts_TemplateAnnotations s) \<and>
    (\<exists>new. sts_TemplateTolerations s' = sts_TemplateTolerations s @ new \<and> set new \<subseteq> set spotTolerations) \<and>
    (distinct (map tol_Key (sts_TemplateTolerations s)) \<longrightarrow> distinct (map tol_Key (sts_TemplateTolerations s')))"
proof -
  from assms(2) have "evictions effs \<noteq> []" by simp
  with assms(1) obtain st where u: "StatefulSetUpdate (rebalanced_template (e_clk e 16) st s) \<in> set effs"
    by (rule sts_evictionE) (use assms(2-4) in auto)
  let ?s = "rebalanced_template (e_clk e 16) st s"
  let ?m = "(case sts_TemplateAnnotations s of None \<Rightarrow> Map.empty | Some m \<Rightarrow> m)
       (''spotalis.io/desired-spot-replicas'' \<mapsto> FormatInt (rs_DesiredSpot st),
        ''spotalis.io/desired-ondemand-replicas'' \<mapsto> FormatInt (rs_DesiredOnDemand st),
        ''spotalis.io/rebalance-timestamp'' \<mapsto> FormatRFC3339 (e_clk e 16))"
  have m: "sts_TemplateAnnotations ?s = Some ?m" by (rule rebalanced_template_annotations)
  have other: "?m k = map_lookup (sts_TemplateAnnotations s) k"
    if "k \<notin> {''spotalis.io/rebalance-timestamp'', ''spotalis.io/desired-spot-replicas'', ''spotalis.io/desired-ondemand-replicas''}" for k
    using that by (auto simp: map_lookup_def split: option.splits)
  have tol: "\<exists>new. sts_TemplateTolerations ?s = sts_TemplateTolerations s @ new \<and> set new \<subseteq> set spotTolerations"
      "distinct (map tol_Key (sts_TemplateTolerations s)) \<longrightarrow> distinct (map tol_Key (sts_TemplateTolerations ?s))"
    using foldl_add_toleration(1,3) [of "sts_TemplateTolerations s" spotTolerations]
    by (auto simp: rebalanced_template_tolerations)
  have stamp: "?m ''spotalis.io/rebalance-timestamp'' = Some (FormatRFC3339 (e_clk e 16))" by simp
  have changed: "sts_TemplateAnnotations ?s \<noteq> sts_TemplateAnnotations s"
    if "map_lookup (sts_TemplateAnnotations s) ''spotalis.io/rebalance-timestamp'' \<noteq> Some (FormatRFC3339 (e_clk e 16))"
  proof -
    have "map_lookup (sts_TemplateAnnotations ?s) ''spotalis.io/rebalance-timestamp'' = Some (FormatRFC3339 (e_clk e 16))"
      unfolding m by (simp add: map_lookup_def)
    with that show ?thesis by metis
  qed
  show ?thesis
    by (rule exI [of _ ?s], rule exI [of _ ?m]) (use u m other tol stamp changed in blast)
qed

theorem eviction_rolls_template_witness:
  "\<exists>s'. StatefulSetUpdate s' \<in> set (snd (snd (sts_Reconcile (sample_env (9 * Minute)) sample_request sample_reconciler))) \<and>
     sts_TemplateAnnotations s' \<noteq> sts_TemplateAnnotations small_statefulset"
proof -
  obtain res r' effs where run: "sts_Reconcile (sample_env (9 * Minute)) sample_request sample_reconciler = (res, r', effs)"
    by (metis prod_cases3)
  then have "length (evictions effs) = 1"
    using sample_sts_run by (metis length_map length_Cons list.size(3) snd_conv One_nat_def)
  then obtain p where p: "evictions effs = [p]" by (cases "evictions effs") auto
  have ev: "snd (EvictPod (e_api (sample_env (9 * Minute)) 6) p) = None"
    by (simp add: EvictPod_def sample_env_def sample_api_def)
  have get: "cl_GetStatefulSet (e_api (sample_env (9 * Minute)) 0) (rq_Namespace sample_request) (rq_Name sample_request) =
      Inr small_statefulset" by (simp add: sample_env_def sample_api_def)
  have "sts_TemplateAnnotations small_statefulset = None"
    by (simp add: small_statefulset_def workload.defs statefulset.defs)
  with eviction_rolls_template [OF run p ev get] run show ?thesis by (auto simp: map_lookup_def)
qed

end
