(* ===== verification/Namespace_Refresh.thy ===== *)
theory Namespace_Refresh
  imports Namespace_Filter
begin

text \<open>
  The dynamic part of \<^verbatim>\<open>pkg/controllers/namespace_filter.go\<close>: the ticker that
  empties the cache of decisions, its goroutine and its shutdown, the label selectors and the
  summary of the metrics.

  The goroutine, the library's ticker, the callers of \<^verbatim>\<open>Stop\<close> and the queries of
  the filter interleave: \<open>refresh_step\<close> has one rule for each of their steps. The channel of
  the ticker holds at most one tick, a tick that finds it full is dropped, and stopping the
  ticker empties it (the behaviour of the standard library since Go 1.23). The channel
  \<^verbatim>\<open>done\<close> has no buffer: a send completes together with its receive.
\<close>

section \<open>Summary of the metrics and the selectors\<close>

datatype nf_summary_value = NfCount int | NfRate "int \<times> int"

definition nf_GetSummary :: "NamespaceFilterMetrics \<Rightarrow> string \<rightharpoonup> nf_summary_value" where
  "nf_GetSummary m =
     (let summary = Map.empty(
            ''total_checks'' \<mapsto> NfCount (nfm_totalChecks m),
            ''allowed_results'' \<mapsto> NfCount (nfm_allowedResults m),
            ''denied_results'' \<mapsto> NfCount (nfm_deniedResults m),
            ''cache_hits'' \<mapsto> NfCount (nfm_cacheHits m),
            ''cache_misses'' \<mapsto> NfCount (nfm_cacheMisses m),
            ''errors'' \<mapsto> NfCount (nfm_errors m));
          summary = (case cache_hit_rate m of Some r \<Rightarrow> summary(''cache_hit_rate'' \<mapsto> NfRate r) | None \<Rightarrow> summary)
      in (case allow_rate m of Some r \<Rightarrow> summary(''allow_rate'' \<mapsto> NfRate r) | None \<Rightarrow> summary))"

text \<open>
  The selectors of the label library: one that requires every pair of a map, the one that
  matches everything and the one that matches nothing.
\<close>

datatype label_selector = SelectSet string_map | SelectEverything | SelectNothing

definition buildSelectors :: "string_map \<Rightarrow> string_map \<Rightarrow> label_selector \<times> label_selector" where
  "buildSelectors required forbidden =
     (if required \<noteq> Map.empty then SelectSet required else SelectEverything,
      if forbidden \<noteq> Map.empty then SelectSet forbidden else SelectNothing)"

section \<open>The ticker\<close>

text \<open>\<^verbatim>\<open>time.NewTicker\<close> panics on an interval that is not positive.\<close>

datatype refresh_start = RefreshInvalid | RefreshPanic | RefreshEvery duration

definition NewNamespaceRefreshTicker :: "string \<Rightarrow> refresh_start" where
  "NewNamespaceRefreshTicker interval =
     (case ParseDuration interval of
        None \<Rightarrow> RefreshInvalid
      | Some d \<Rightarrow> if d \<le> 0 then RefreshPanic else RefreshEvery d)"

datatype refresher = RefresherWaiting | RefresherInCallback | RefresherReturned

record refresh_sys =
  rs_filter :: NamespaceFilter
  rs_ticking :: bool
  rs_tick :: bool
  rs_goroutine :: refresher
  rs_stopping :: nat
  rs_stopped :: nat

definition started_refresh :: "NamespaceFilter \<Rightarrow> refresh_sys" where
  "started_refresh nf =
     \<lparr>rs_filter = nf, rs_ticking = True, rs_tick = False, rs_goroutine = RefresherWaiting,
      rs_stopping = 0, rs_stopped = 0\<rparr>"

text \<open>\<^verbatim>\<open>Stop\<close> up to its send, after which the caller waits in \<open>rs_stopping\<close>.\<close>

definition refresh_stop :: "refresh_sys \<Rightarrow> refresh_sys" where
  "refresh_stop s = s\<lparr>rs_ticking := False, rs_tick := False, rs_stopping := Suc (rs_stopping s)\<rparr>"

datatype refresh_event =
  RfTick | RfReceive | RfCallback | RfStop | RfDone | RfQuery string time time FilterResult

inductive refresh_step :: "k8s_client option \<Rightarrow> refresh_sys \<Rightarrow> refresh_event \<Rightarrow> refresh_sys \<Rightarrow> bool"
  for client :: "k8s_client option" where
  tick: "rs_ticking s \<Longrightarrow> refresh_step client s RfTick (s\<lparr>rs_tick := True\<rparr>)"
| receive: "rs_goroutine s = RefresherWaiting \<Longrightarrow> rs_tick s \<Longrightarrow>
     refresh_step client s RfReceive (s\<lparr>rs_tick := False, rs_goroutine := RefresherInCallback\<rparr>)"
| callback: "rs_goroutine s = RefresherInCallback \<Longrightarrow>
     refresh_step client s RfCallback (s\<lparr>rs_filter := refreshCache (rs_filter s), rs_goroutine := RefresherWaiting\<rparr>)"
| stop_call: "refresh_step client s RfStop (refresh_stop s)"
| finish: "rs_goroutine s = RefresherWaiting \<Longrightarrow> rs_stopping s = Suc n \<Longrightarrow>
     refresh_step client s RfDone
       (s\<lparr>rs_goroutine := RefresherReturned, rs_stopping := n, rs_stopped := Suc (rs_stopped s)\<rparr>)"
| query: "IsNamespaceAllowed client now1 now2 ns (rs_filter s) = (r, nf) \<Longrightarrow>
     refresh_step client s (RfQuery ns now1 now2 r) (s\<lparr>rs_filter := nf\<rparr>)"

inductive_cases refresh_stepE: "refresh_step client s e s'"
inductive_simps refresh_step_simps:
  "refresh_step client s RfTick s'" "refresh_step client s RfReceive s'" "refresh_step client s RfCallback s'"
  "refresh_step client s RfStop s'" "refresh_step client s RfDone s'" "refresh_step client s (RfQuery ns now1 now2 r) s'"

inductive refresh_steps :: "k8s_client option \<Rightarrow> refresh_sys \<Rightarrow> refresh_event list \<Rightarrow> refresh_sys \<Rightarrow> bool"
  for client :: "k8s_client option" where
  none: "refresh_steps client s [] s"
| more: "refresh_step client s e s' \<Longrightarrow> refresh_steps client s' es s'' \<Longrightarrow> refresh_steps client s (e # es) s''"

inductive_simps refresh_steps_simps:
  "refresh_steps client s [] s'" "refresh_steps client s (e # es) s'"

section \<open>Stopping\<close>

text \<open>A call of \<^verbatim>\<open>Stop\<close> returns with the goroutine, hence at most one does.\<close>

definition refresh_inv :: "refresh_sys \<Rightarrow> bool" where
  "refresh_inv s \<longleftrightarrow> rs_stopped s = (if rs_goroutine s = RefresherReturned then 1 else 0) \<and>
     (0 < rs_stopping s + rs_stopped s \<longrightarrow> \<not> rs_ticking s \<and> \<not> rs_tick s)"

lemma refresh_inv_started: "refresh_inv (started_refresh nf)"
  by (simp add: refresh_inv_def started_refresh_def)

lemma refresh_step_inv:
  assumes "refresh_step client s e s'" and "refresh_inv s"
  shows "refresh_inv s'"
  using assms by (induction rule: refresh_step.induct) (auto simp: refresh_inv_def refresh_stop_def split: if_splits)

lemma refresh_steps_inv: "refresh_steps client s es s' \<Longrightarrow> refresh_inv s \<Longrightarrow> refresh_inv s'"
  by (induction rule: refresh_steps.induct) (auto dest: refresh_step_inv)

text \<open>The calls of \<^verbatim>\<open>Stop\<close> so far are those that wait and those that returned.\<close>

lemma refresh_steps_calls:
  "refresh_steps client s es s' \<Longrightarrow>
   rs_stopping s' + rs_stopped s' = rs_stopping s + rs_stopped s + length (filter (\<lambda>e. e = RfStop) es)"
proof (induction rule: refresh_steps.induct)
  case (more s e s' es s'')
  then show ?case by (auto elim!: refresh_stepE simp: refresh_stop_def)
qed simp

text \<open>C33: Whatever the interleaving, at most one call of \<^verbatim>\<open>Stop\<close> returns: with \<open>n\<close> calls
  made, at least \<open>n - 1\<close> wait, and once one has returned the others wait for ever, since nobody
  receives from their channel. The first call does return: from any state in which one waits
  and none has returned, the goroutine serves it after the callback it may be in.\<close>

theorem second_stop_blocks:
  assumes "refresh_steps client (started_refresh nf) es s"
  shows "rs_stopped s \<le> 1 \<and> length (filter (\<lambda>e. e = RfStop) es) \<le> Suc (rs_stopping s) \<and>
    (rs_stopped s = 1 \<longrightarrow> (\<forall>es' s'. refresh_steps client s es' s' \<longrightarrow> rs_stopping s \<le> rs_stopping s')) \<and>
    (0 < rs_stopping s \<and> rs_stopped s = 0 \<longrightarrow>
      (\<exists>es' s'. set es' \<subseteq> {RfCallback, RfDone} \<and> refresh_steps client s es' s' \<and> rs_stopped s' = 1))"
proof (intro conjI impI allI)
  have inv: "refresh_inv s" by (rule refresh_steps_inv [OF assms refresh_inv_started])
  then show le: "rs_stopped s \<le> 1" by (simp add: refresh_inv_def split: if_splits)
  with refresh_steps_calls [OF assms] show "length (filter (\<lambda>e. e = RfStop) es) \<le> Suc (rs_stopping s)"
    by (simp add: started_refresh_def)
  show "rs_stopping s \<le> rs_stopping s'" if "rs_stopped s = 1" "refresh_steps client s es' s'" for es' s'
  proof -
    have "refresh_inv s'" by (rule refresh_steps_inv [OF that(2) inv])
    then have "rs_stopped s' \<le> 1" by (simp add: refresh_inv_def split: if_splits)
    with refresh_steps_calls [OF that(2)] that(1) show ?thesis by simp
  qed
  assume "0 < rs_stopping s \<and> rs_stopped s = 0"
  then obtain n where n: "rs_stopping s = Suc n" and z: "rs_stopped s = 0" by (auto simp: gr0_conv_Suc)
  from z inv have "rs_goroutine s = RefresherWaiting \<or> rs_goroutine s = RefresherInCallback"
    by (cases "rs_goroutine s") (auto simp: refresh_inv_def)
  then show "\<exists>es' s'. set es' \<subseteq> {RfCallback, RfDone} \<and> refresh_steps client s es' s' \<and> rs_stopped s' = 1"
  proof
    assume "rs_goroutine s = RefresherWaiting"
    with n z have "refresh_steps client s [RfDone]
        (s\<lparr>rs_goroutine := RefresherReturned, rs_stopping := n, rs_stopped := Suc (rs_stopped s)\<rparr>)"
      by (simp add: refresh_steps_simps refresh_step_simps)
    with z show ?thesis by (intro exI [of _ "[RfDone]"]) force
  next
    assume "rs_goroutine s = RefresherInCallback"
    with n z have "refresh_steps client s [RfCallback, RfDone]
        (s\<lparr>rs_filter := refreshCache (rs_filter s), rs_goroutine := RefresherReturned, rs_stopping := n,
           rs_stopped := Suc (rs_stopped s)\<rparr>)"
      by (simp add: refresh_steps_simps refresh_step_simps)
    with z show ?thesis by (intro exI [of _ "[RfCallback, RfDone]"]) force
  qed
qed

text \<open>Two shutdowns of a filter: the second one is left waiting.\<close>

theorem second_stop_blocks_witness:
  "\<exists>s. refresh_steps None (started_refresh sample_filter) [RfStop, RfDone, RfStop] s \<and> rs_stopped s = 1 \<and>
     (\<forall>es' s'. refresh_steps None s es' s' \<longrightarrow> 1 \<le> rs_stopping s')"
proof (intro exI conjI)
  let ?s = "(started_refresh sample_filter)\<lparr>rs_ticking := False, rs_goroutine := RefresherReturned,
    rs_stopping := 1, rs_stopped := 1\<rparr>"
  show r: "refresh_steps None (started_refresh sample_filter) [RfStop, RfDone, RfStop] ?s"
    by (simp add: refresh_steps_simps refresh_step_simps refresh_stop_def started_refresh_def)
  show "rs_stopped ?s = 1" by simp
  from second_stop_blocks [OF r] show "\<forall>es' s'. refresh_steps None ?s es' s' \<longrightarrow> 1 \<le> rs_stopping s'" by simp
qed

section \<open>Refreshing\<close>





section \<open>What the configuration does to the ticker\<close>

text \<open>
  \<^verbatim>\<open>UpdateConfig\<close> changes the filter only: neither the interval nor the switch of a new
  configuration reaches the running ticker.
\<close>

definition refresh_UpdateConfig ::
  "(string \<Rightarrow> (string \<Rightarrow> bool) option) \<Rightarrow> NamespaceFilterConfig \<Rightarrow> refresh_sys \<Rightarrow> filter_error + refresh_sys" where
  "refresh_UpdateConfig compile config s =
     (case nf_UpdateConfig compile config (rs_filter s) of
        Inl e \<Rightarrow> Inl e
      | Inr nf \<Rightarrow> Inr (s\<lparr>rs_filter := nf\<rparr>))"

theorem update_keeps_ticker:
  assumes "refresh_UpdateConfig compile (c\<lparr>nfc_EnableDynamicFiltering := False\<rparr>) s = Inr s'"
    and "rs_ticking s" and "rs_goroutine s = RefresherWaiting"
  shows "\<exists>s''. refresh_steps client s' [RfTick, RfReceive, RfCallback] s'' \<and> nf_cache (rs_filter s'') = []"
proof -
  from assms have "rs_ticking s'" "rs_goroutine s' = RefresherWaiting"
    by (auto simp: refresh_UpdateConfig_def split: sum.splits)
  then have "refresh_steps client s' [RfTick, RfReceive, RfCallback]
      (s'\<lparr>rs_tick := False, rs_filter := refreshCache (rs_filter s'), rs_goroutine := RefresherWaiting\<rparr>)"
    by (simp add: refresh_steps_simps refresh_step_simps)
  then show ?thesis by (force simp: refreshCache_def clearCache_def)
qed

text \<open>An interval that parses is not tested further: a zero one stops the process at the start.\<close>

theorem zero_refresh_interval_panics:
  "NewNamespaceRefreshTicker ''0s'' = RefreshPanic"
  "NewNamespaceRefreshTicker (nfc_RefreshInterval DefaultNamespaceFilterConfig) = RefreshEvery (5 * Minute)"
  by code_simp+

end
