(* ===== verification/Circuit_Breaker.thy ===== *)
theory Circuit_Breaker
  imports Spotalis_Prelude
begin

text \<open>
  The circuit breaker of \<^verbatim>\<open>pkg/utils/rate_limiter.go\<close>: its operations, the
  abstract automaton they implement, and their interleavings.

  Each method runs under the breaker's lock and is one step, with one exception:
  \<^verbatim>\<open>CanExecute\<close> drops its read lock before it takes the write lock, so that an
  expired open breaker is left in two critical sections with other calls in between.
  \<open>CanExecute\<close> is the call that nobody interrupts, \<open>can_execute_read\<close> and
  \<open>can_execute_upgrade\<close> are its two sections, and \<open>breaker_step\<close> interleaves
  them with the other calls.
\<close>

section \<open>Configuration and state\<close>

record CircuitBreakerConfig =
  cbc_FailureThreshold :: int
  cbc_RecoveryTimeout :: duration
  cbc_HalfOpenRequests :: int

datatype CircuitBreakerState = CircuitBreakerStateClosed | CircuitBreakerStateOpen | CircuitBreakerStateHalfOpen

fun CircuitBreakerState_String :: "CircuitBreakerState \<Rightarrow> string" where
  "CircuitBreakerState_String CircuitBreakerStateClosed = ''closed''"
| "CircuitBreakerState_String CircuitBreakerStateOpen = ''open''"
| "CircuitBreakerState_String CircuitBreakerStateHalfOpen = ''half_open''"

record CircuitBreaker =
  cb_config :: CircuitBreakerConfig
  cb_state :: CircuitBreakerState
  cb_failures :: int
  cb_lastFailureTime :: time
  cb_halfOpenRequests :: int

definition NewCircuitBreaker :: "CircuitBreakerConfig \<Rightarrow> CircuitBreaker" where
  "NewCircuitBreaker config =
     \<lparr>cb_config = config, cb_state = CircuitBreakerStateClosed, cb_failures = 0,
      cb_lastFailureTime = 0, cb_halfOpenRequests = 0\<rparr>"

section \<open>Operations\<close>

text \<open>The first section of \<open>CanExecute\<close>: an answer, or the wish to upgrade the lock.\<close>

datatype check_result = Answer bool | UpgradeLock

definition can_execute_read :: "time \<Rightarrow> CircuitBreaker \<Rightarrow> check_result" where
  "can_execute_read now cb =
     (case cb_state cb of
        CircuitBreakerStateClosed \<Rightarrow> Answer True
      | CircuitBreakerStateOpen \<Rightarrow>
          if time_sub now (cb_lastFailureTime cb) \<ge> cbc_RecoveryTimeout (cb_config cb)
          then UpgradeLock else Answer False
      | CircuitBreakerStateHalfOpen \<Rightarrow>
          Answer (cb_halfOpenRequests cb < cbc_HalfOpenRequests (cb_config cb)))"

text \<open>The second one does not look at the state again.\<close>

definition can_execute_upgrade :: "CircuitBreaker \<Rightarrow> CircuitBreaker" where
  "can_execute_upgrade cb = cb\<lparr>cb_state := CircuitBreakerStateHalfOpen, cb_halfOpenRequests := 0\<rparr>"

definition CanExecute :: "time \<Rightarrow> CircuitBreaker \<Rightarrow> bool \<times> CircuitBreaker" where
  "CanExecute now cb =
     (case can_execute_read now cb of
        Answer b \<Rightarrow> (b, cb)
      | UpgradeLock \<Rightarrow> (True, can_execute_upgrade cb))"

definition cb_RecordSuccess :: "CircuitBreaker \<Rightarrow> CircuitBreaker" where
  "cb_RecordSuccess cb =
     (case cb_state cb of
        CircuitBreakerStateHalfOpen \<Rightarrow>
          (let cb = cb\<lparr>cb_halfOpenRequests := i64 (cb_halfOpenRequests cb + 1)\<rparr>
           in if cb_halfOpenRequests cb \<ge> cbc_HalfOpenRequests (cb_config cb)
              then cb\<lparr>cb_state := CircuitBreakerStateClosed, cb_failures := 0\<rparr> else cb)
      | CircuitBreakerStateClosed \<Rightarrow> cb\<lparr>cb_failures := 0\<rparr>
      | CircuitBreakerStateOpen \<Rightarrow> cb)"

definition cb_RecordFailure :: "time \<Rightarrow> CircuitBreaker \<Rightarrow> CircuitBreaker" where
  "cb_RecordFailure now cb =
     (let cb = cb\<lparr>cb_failures := i64 (cb_failures cb + 1), cb_lastFailureTime := now\<rparr>
      in case cb_state cb of
           CircuitBreakerStateClosed \<Rightarrow>
             if cb_failures cb \<ge> cbc_FailureThreshold (cb_config cb)
             then cb\<lparr>cb_state := CircuitBreakerStateOpen\<rparr> else cb
         | CircuitBreakerStateHalfOpen \<Rightarrow> cb\<lparr>cb_state := CircuitBreakerStateOpen\<rparr>
         | CircuitBreakerStateOpen \<Rightarrow> cb)"

definition GetState :: "CircuitBreaker \<Rightarrow> CircuitBreakerState" where
  "GetState cb = cb_state cb"

lemmas breaker_defs =
  CanExecute_def can_execute_read_def can_execute_upgrade_def cb_RecordSuccess_def cb_RecordFailure_def Let_def

lemma cb_config_ops [simp]:
  "cb_config (snd (CanExecute now cb)) = cb_config cb"
  "cb_config (can_execute_upgrade cb) = cb_config cb"
  "cb_config (cb_RecordSuccess cb) = cb_config cb"
  "cb_config (cb_RecordFailure now cb) = cb_config cb"
  by (auto simp: breaker_defs split: CircuitBreakerState.splits check_result.splits)

section \<open>The invariant\<close>

text \<open>A configuration whose limits are positive and fit the machine's \<^verbatim>\<open>int\<close>.\<close>

definition good_config :: "CircuitBreakerConfig \<Rightarrow> bool" where
  "good_config c \<longleftrightarrow>
     0 < cbc_FailureThreshold c \<and> in_i64 (cbc_FailureThreshold c) \<and>
     0 < cbc_HalfOpenRequests c \<and> in_i64 (cbc_HalfOpenRequests c)"

text \<open>
  In the closed state the failure counter is below the threshold, and in the half-open state
  the success counter is below its limit. Nothing is said of the failure counter elsewhere:
  it keeps counting, and may wrap, while the breaker is open.
\<close>

definition breaker_inv :: "CircuitBreaker \<Rightarrow> bool" where
  "breaker_inv cb \<longleftrightarrow> good_config (cb_config cb) \<and>
     (cb_state cb = CircuitBreakerStateClosed \<longrightarrow>
        0 \<le> cb_failures cb \<and> cb_failures cb < cbc_FailureThreshold (cb_config cb)) \<and>
     (cb_state cb = CircuitBreakerStateHalfOpen \<longrightarrow>
        0 \<le> cb_halfOpenRequests cb \<and> cb_halfOpenRequests cb < cbc_HalfOpenRequests (cb_config cb))"

lemma i64_succ: "0 \<le> x \<Longrightarrow> x < y \<Longrightarrow> in_i64 y \<Longrightarrow> i64 (x + 1) = x + 1"
  by (rule i64_id) (simp add: in_i64_def)

lemma breaker_inv_succ:
  "breaker_inv cb \<Longrightarrow> cb_state cb = CircuitBreakerStateClosed \<Longrightarrow> i64 (cb_failures cb + 1) = cb_failures cb + 1"
  "breaker_inv cb \<Longrightarrow> cb_state cb = CircuitBreakerStateHalfOpen \<Longrightarrow>
     i64 (cb_halfOpenRequests cb + 1) = cb_halfOpenRequests cb + 1"
  unfolding breaker_inv_def good_config_def by (blast intro: i64_succ)+

lemma breaker_inv_new: "good_config config \<Longrightarrow> breaker_inv (NewCircuitBreaker config)"
  by (simp add: breaker_inv_def NewCircuitBreaker_def good_config_def)

lemma breaker_inv_upgrade: "breaker_inv cb \<Longrightarrow> breaker_inv (can_execute_upgrade cb)"
  by (simp add: breaker_inv_def can_execute_upgrade_def good_config_def)

lemma breaker_inv_CanExecute: "breaker_inv cb \<Longrightarrow> breaker_inv (snd (CanExecute now cb))"
  by (auto simp: CanExecute_def breaker_inv_upgrade split: check_result.splits)

lemma breaker_inv_RecordSuccess: "breaker_inv cb \<Longrightarrow> breaker_inv (cb_RecordSuccess cb)"
  using breaker_inv_succ [of cb] unfolding breaker_inv_def
  by (cases "cb_state cb") (auto simp: cb_RecordSuccess_def Let_def good_config_def)

lemma breaker_inv_RecordFailure: "breaker_inv cb \<Longrightarrow> breaker_inv (cb_RecordFailure now cb)"
  using breaker_inv_succ [of cb] unfolding breaker_inv_def
  by (cases "cb_state cb") (auto simp: cb_RecordFailure_def Let_def)

section \<open>The abstract automaton\<close>

text \<open>
  What the breaker promises: consecutive failures are counted while it is closed, the time
  of the last failure while it is open, consecutive successes while it is half-open, and
  nothing else matters.
\<close>

datatype breaker_spec = SpecClosed int | SpecOpen time | SpecHalfOpen int

datatype breaker_op = OpCheck time | OpSuccess | OpFailure time

fun spec_step :: "CircuitBreakerConfig \<Rightarrow> breaker_spec \<Rightarrow> breaker_op \<Rightarrow> breaker_spec" where
  "spec_step c (SpecOpen t) (OpCheck now) =
     (if time_sub now t \<ge> cbc_RecoveryTimeout c then SpecHalfOpen 0 else SpecOpen t)"
| "spec_step c s (OpCheck now) = s"
| "spec_step c (SpecClosed n) OpSuccess = SpecClosed 0"
| "spec_step c (SpecHalfOpen n) OpSuccess = (if n + 1 = cbc_HalfOpenRequests c then SpecClosed 0 else SpecHalfOpen (n + 1))"
| "spec_step c (SpecOpen t) OpSuccess = SpecOpen t"
| "spec_step c (SpecClosed n) (OpFailure now) = (if n + 1 = cbc_FailureThreshold c then SpecOpen now else SpecClosed (n + 1))"
| "spec_step c (SpecHalfOpen n) (OpFailure now) = SpecOpen now"
| "spec_step c (SpecOpen t) (OpFailure now) = SpecOpen now"

fun spec_answer :: "CircuitBreakerConfig \<Rightarrow> breaker_spec \<Rightarrow> time \<Rightarrow> bool" where
  "spec_answer c (SpecOpen t) now = (time_sub now t \<ge> cbc_RecoveryTimeout c)"
| "spec_answer c s now = True"

definition abs_breaker :: "CircuitBreaker \<Rightarrow> breaker_spec" where
  "abs_breaker cb =
     (case cb_state cb of
        CircuitBreakerStateClosed \<Rightarrow> SpecClosed (cb_failures cb)
      | CircuitBreakerStateOpen \<Rightarrow> SpecOpen (cb_lastFailureTime cb)
      | CircuitBreakerStateHalfOpen \<Rightarrow> SpecHalfOpen (cb_halfOpenRequests cb))"

fun breaker_op_step :: "CircuitBreaker \<Rightarrow> breaker_op \<Rightarrow> CircuitBreaker" where
  "breaker_op_step cb (OpCheck now) = snd (CanExecute now cb)"
| "breaker_op_step cb OpSuccess = cb_RecordSuccess cb"
| "breaker_op_step cb (OpFailure now) = cb_RecordFailure now cb"

lemma breaker_inv_op: "breaker_inv cb \<Longrightarrow> breaker_inv (breaker_op_step cb op)"
  by (cases op) (auto intro: breaker_inv_CanExecute breaker_inv_RecordSuccess breaker_inv_RecordFailure)

lemma cb_config_op [simp]: "cb_config (breaker_op_step cb op) = cb_config cb"
  by (cases op) auto

lemma abs_breaker_op:
  assumes "breaker_inv cb"
  shows "abs_breaker (breaker_op_step cb op) = spec_step (cb_config cb) (abs_breaker cb) op"
  using assms breaker_inv_succ [OF assms] unfolding breaker_inv_def
  by (cases op; cases "cb_state cb") (auto simp: abs_breaker_def breaker_defs split: check_result.splits)

lemma CanExecute_answer: "breaker_inv cb \<Longrightarrow> fst (CanExecute now cb) = spec_answer (cb_config cb) (abs_breaker cb) now"
  by (cases "cb_state cb")
    (auto simp: breaker_inv_def abs_breaker_def CanExecute_def can_execute_read_def split: check_result.splits)

lemma breaker_inv_ops: "breaker_inv cb \<Longrightarrow> breaker_inv (foldl breaker_op_step cb ops)"
  by (induction ops arbitrary: cb) (auto intro: breaker_inv_op)

lemma cb_config_ops_run [simp]: "cb_config (foldl breaker_op_step cb ops) = cb_config cb"
  by (induction ops arbitrary: cb) auto

lemma abs_breaker_ops:
  "breaker_inv cb \<Longrightarrow> abs_breaker (foldl breaker_op_step cb ops) = foldl (spec_step (cb_config cb)) (abs_breaker cb) ops"
  by (induction ops arbitrary: cb) (auto simp: abs_breaker_op breaker_inv_op)

text \<open>
  C12: Over any sequence of uninterrupted calls the breaker behaves as the automaton: the same
  state, and \<open>CanExecute\<close> gives its answer.
\<close>

theorem breaker_refines_automaton:
  assumes "good_config config"
  shows "abs_breaker (foldl breaker_op_step (NewCircuitBreaker config) ops) = foldl (spec_step config) (SpecClosed 0) ops \<and>
    fst (CanExecute now (foldl breaker_op_step (NewCircuitBreaker config) ops)) =
      spec_answer config (foldl (spec_step config) (SpecClosed 0) ops) now"
proof -
  have "abs_breaker (NewCircuitBreaker config) = SpecClosed 0" and c: "cb_config (NewCircuitBreaker config) = config"
    by (simp_all add: abs_breaker_def NewCircuitBreaker_def)
  with abs_breaker_ops [OF breaker_inv_new [OF assms], of ops]
  have "abs_breaker (foldl breaker_op_step (NewCircuitBreaker config) ops) = foldl (spec_step config) (SpecClosed 0) ops"
    by simp
  with CanExecute_answer [OF breaker_inv_ops [OF breaker_inv_new [OF assms]], of now ops] c
  show ?thesis by simp
qed

definition sample_breaker_config :: CircuitBreakerConfig where
  "sample_breaker_config = \<lparr>cbc_FailureThreshold = 2, cbc_RecoveryTimeout = 30 * Second, cbc_HalfOpenRequests = 1\<rparr>"

lemma breaker_refines_automaton_witness:
  "abs_breaker (foldl breaker_op_step (NewCircuitBreaker sample_breaker_config) [OpFailure 5, OpFailure 7]) = SpecOpen 7"
  using breaker_refines_automaton [of sample_breaker_config "[OpFailure 5, OpFailure 7]" 8]
  by (simp add: sample_breaker_config_def good_config_def in_i64_def)

section \<open>Recovery\<close>

lemma halfopen_successes:
  assumes "breaker_inv cb" and "cb_state cb = CircuitBreakerStateHalfOpen"
    and "cb_halfOpenRequests cb + int (length ops) = cbc_HalfOpenRequests (cb_config cb)" and "set ops \<subseteq> {OpSuccess}"
  shows "cb_state (foldl breaker_op_step cb ops) = CircuitBreakerStateClosed \<and>
    cb_failures (foldl breaker_op_step cb ops) = 0"
  using assms
proof (induction ops arbitrary: cb)
  case Nil
  then show ?case by (simp add: breaker_inv_def)
next
  case (Cons op ops)
  from Cons.prems(4) have op: "op = OpSuccess" by simp
  from Cons.prems(1,2) have r: "i64 (cb_halfOpenRequests cb + 1) = cb_halfOpenRequests cb + 1"
    by (rule breaker_inv_succ)
  show ?case
  proof (cases ops)
    case Nil
    with Cons.prems op r show ?thesis by (simp add: cb_RecordSuccess_def Let_def)
  next
    case (Cons op' ops')
    with Cons.prems(2,3) op r have "cb_state (breaker_op_step cb op) = CircuitBreakerStateHalfOpen"
      and "cb_halfOpenRequests (breaker_op_step cb op) = cb_halfOpenRequests cb + 1"
      by (simp_all add: cb_RecordSuccess_def Let_def)
    with Cons.IH [of "breaker_op_step cb op"] Cons.prems breaker_inv_op [OF Cons.prems(1), of op]
    show ?thesis by simp
  qed
qed

text \<open>
  An open breaker whose timeout has passed lets the next request through, and closes with
  the configured number of successes.
\<close>

theorem breaker_recovers:
  assumes inv: "breaker_inv cb" and "cb_state cb = CircuitBreakerStateOpen"
    and "time_sub now (cb_lastFailureTime cb) \<ge> cbc_RecoveryTimeout (cb_config cb)"
    and n: "int n = cbc_HalfOpenRequests (cb_config cb)"
  shows "fst (CanExecute now cb) \<and>
    (let cb' = foldl breaker_op_step (snd (CanExecute now cb)) (replicate n OpSuccess)
     in cb_state cb' = CircuitBreakerStateClosed \<and> cb_failures cb' = 0)"
proof -
  from assms(2,3) have c: "CanExecute now cb = (True, can_execute_upgrade cb)"
    by (simp add: CanExecute_def can_execute_read_def)
  have "cb_state (can_execute_upgrade cb) = CircuitBreakerStateHalfOpen"
    "cb_halfOpenRequests (can_execute_upgrade cb) = 0"
    by (simp_all add: can_execute_upgrade_def)
  moreover have "set (replicate n OpSuccess) \<subseteq> {OpSuccess}" by auto
  ultimately show ?thesis
    using halfopen_successes [OF breaker_inv_upgrade [OF inv], of "replicate n OpSuccess"] n c
    by (simp add: Let_def)
qed

lemma breaker_recovers_witness:
  "cb_state (foldl breaker_op_step (snd (CanExecute (31 * Second)
     (foldl breaker_op_step (NewCircuitBreaker sample_breaker_config) [OpFailure 5, OpFailure 7])))
     (replicate 1 OpSuccess)) = CircuitBreakerStateClosed"
  using breaker_recovers [of "foldl breaker_op_step (NewCircuitBreaker sample_breaker_config) [OpFailure 5, OpFailure 7]"
      "31 * Second" 1]
  by (simp add: breaker_inv_def breaker_defs NewCircuitBreaker_def sample_breaker_config_def good_config_def
      in_i64_def i64_def time_sub_def Second_def)

text \<open>
  The limit of the half-open state counts recorded successes, not requests: until a result
  comes in, every call is let through, however many there have been.
\<close>

theorem half_open_admits_unboundedly:
  assumes "breaker_inv cb" and "cb_state cb = CircuitBreakerStateHalfOpen"
  shows "foldl (\<lambda>(answers, b) t. (fst (CanExecute t b) # answers, snd (CanExecute t b))) ([], cb) ts =
    (replicate (length ts) True, cb)"
proof -
  from assms have c: "CanExecute t cb = (True, cb)" for t
    by (simp add: breaker_inv_def CanExecute_def can_execute_read_def)
  have "foldl (\<lambda>(answers, b) t. (fst (CanExecute t b) # answers, snd (CanExecute t b))) (replicate n True, cb) ts =
    (replicate (length ts + n) True, cb)" for n
  proof (induction ts arbitrary: n)
    case (Cons t ts)
    from Cons [of "Suc n"] show ?case by (simp add: c)
  qed simp
  from this [of 0] show ?thesis by simp
qed

section \<open>Interleavings\<close>

text \<open>
  The breaker, the clock, and how many calls of \<open>CanExecute\<close> are between their two
  sections. A step is one critical section of some goroutine, or time passing.
\<close>

record breaker_sys =
  bs_breaker :: CircuitBreaker
  bs_now :: time
  bs_upgrading :: nat

datatype breaker_event = EvTick duration | EvAnswer bool | EvUnlock | EvUpgrade | EvSuccess | EvFailure

inductive breaker_step :: "breaker_sys \<Rightarrow> breaker_event \<Rightarrow> breaker_sys \<Rightarrow> bool" where
  tick: "0 \<le> d \<Longrightarrow> breaker_step s (EvTick d) (s\<lparr>bs_now := bs_now s + d\<rparr>)"
| answer: "can_execute_read (bs_now s) (bs_breaker s) = Answer b \<Longrightarrow> breaker_step s (EvAnswer b) s"
| unlock: "can_execute_read (bs_now s) (bs_breaker s) = UpgradeLock \<Longrightarrow>
     breaker_step s EvUnlock (s\<lparr>bs_upgrading := Suc (bs_upgrading s)\<rparr>)"
| upgrade: "bs_upgrading s = Suc n \<Longrightarrow>
     breaker_step s EvUpgrade (s\<lparr>bs_breaker := can_execute_upgrade (bs_breaker s), bs_upgrading := n\<rparr>)"
| success: "breaker_step s EvSuccess (s\<lparr>bs_breaker := cb_RecordSuccess (bs_breaker s)\<rparr>)"
| failure: "breaker_step s EvFailure (s\<lparr>bs_breaker := cb_RecordFailure (bs_now s) (bs_breaker s)\<rparr>)"

inductive_cases breaker_stepE: "breaker_step s e s'"
inductive_simps breaker_step_simps:
  "breaker_step s (EvTick d) s'" "breaker_step s (EvAnswer b) s'" "breaker_step s EvUnlock s'"
  "breaker_step s EvUpgrade s'" "breaker_step s EvSuccess s'" "breaker_step s EvFailure s'"

inductive breaker_steps :: "breaker_sys \<Rightarrow> breaker_event list \<Rightarrow> breaker_sys \<Rightarrow> bool" where
  none: "breaker_steps s [] s"
| more: "breaker_step s e s' \<Longrightarrow> breaker_steps s' es s'' \<Longrightarrow> breaker_steps s (e # es) s''"

definition initial_breaker_sys :: "CircuitBreakerConfig \<Rightarrow> breaker_sys" where
  "initial_breaker_sys config = \<lparr>bs_breaker = NewCircuitBreaker config, bs_now = 0, bs_upgrading = 0\<rparr>"

lemma breaker_step_inv: "breaker_step s e s' \<Longrightarrow> breaker_inv (bs_breaker s) \<Longrightarrow> breaker_inv (bs_breaker s')"
  by (induction rule: breaker_step.induct)
    (auto intro: breaker_inv_upgrade breaker_inv_RecordSuccess breaker_inv_RecordFailure)

lemma breaker_steps_inv: "breaker_steps s es s' \<Longrightarrow> breaker_inv (bs_breaker s) \<Longrightarrow> breaker_inv (bs_breaker s')"
  by (induction rule: breaker_steps.induct) (auto dest: breaker_step_inv)

text \<open>The counters stay within their limits whatever the interleaving, the lost lock included.\<close>

theorem breaker_counters_bounded:
  assumes "good_config config" and "breaker_steps (initial_breaker_sys config) es s"
  shows "(cb_state (bs_breaker s) = CircuitBreakerStateClosed \<longrightarrow>
      cb_failures (bs_breaker s) < cbc_FailureThreshold (cb_config (bs_breaker s))) \<and>
    (cb_state (bs_breaker s) = CircuitBreakerStateHalfOpen \<longrightarrow>
      cb_halfOpenRequests (bs_breaker s) < cbc_HalfOpenRequests (cb_config (bs_breaker s)))"
  using breaker_steps_inv [OF assms(2)] assms(1)
  by (simp add: initial_breaker_sys_def breaker_inv_new) (simp add: breaker_inv_def)

lemma closed_left_step:
  assumes "breaker_step s e s'" and "cb_state (bs_breaker s) = CircuitBreakerStateClosed"
    and "bs_upgrading s = 0" and "e \<noteq> EvFailure"
  shows "cb_state (bs_breaker s') = CircuitBreakerStateClosed \<and> bs_upgrading s' = 0"
  using assms by (auto elim!: breaker_stepE simp: can_execute_read_def cb_RecordSuccess_def)

text \<open>
  With no call between its two sections, a closed breaker stays closed until a failure is
  recorded. One stale call is enough to break this.
\<close>

lemma closed_stays_without_stale_check:
  "breaker_steps s es s' \<Longrightarrow> cb_state (bs_breaker s) = CircuitBreakerStateClosed \<Longrightarrow> bs_upgrading s = 0 \<Longrightarrow>
   EvFailure \<notin> set es \<Longrightarrow> cb_state (bs_breaker s') = CircuitBreakerStateClosed"
proof (induction rule: breaker_steps.induct)
  case (more s e s' es s'')
  with closed_left_step [OF more.hyps(1)] show ?case by auto
qed

definition stale_schedule :: "breaker_event list" where
  "stale_schedule = [EvFailure, EvTick (30 * Second), EvUnlock, EvUnlock, EvUpgrade, EvSuccess]"

definition single_failure_config :: CircuitBreakerConfig where
  "single_failure_config = \<lparr>cbc_FailureThreshold = 1, cbc_RecoveryTimeout = 30 * Second, cbc_HalfOpenRequests = 1\<rparr>"

text \<open>
  C39: Two goroutines find the breaker expired; the first one half-opens it and its success
  closes it; the second one, still on its way to the write lock, half-opens the closed
  breaker again. No failure has been recorded in between.
\<close>

theorem stale_check_reopens_closed_breaker:
  "\<exists>s s'. breaker_steps (initial_breaker_sys single_failure_config) stale_schedule s \<and>
     cb_state (bs_breaker s) = CircuitBreakerStateClosed \<and>
     breaker_step s EvUpgrade s' \<and> cb_state (bs_breaker s') = CircuitBreakerStateHalfOpen"
proof -
  let ?cfg = single_failure_config
  let ?b = "\<lambda>st f t h. \<lparr>cb_config = ?cfg, cb_state = st, cb_failures = f, cb_lastFailureTime = t, cb_halfOpenRequests = h\<rparr>"
  let ?s = "\<lambda>b n u. \<lparr>bs_breaker = b, bs_now = n, bs_upgrading = u\<rparr>"
  let ?o = "?b CircuitBreakerStateOpen 1 0 0"
  let ?t = "30 * Second :: int"
  have "breaker_step (initial_breaker_sys ?cfg) EvFailure (?s ?o 0 0)"
    by (simp add: breaker_step_simps initial_breaker_sys_def NewCircuitBreaker_def cb_RecordFailure_def Let_def
        single_failure_config_def i64_def)
  moreover have "breaker_step (?s ?o 0 0) (EvTick ?t) (?s ?o ?t 0)"
    by (simp add: breaker_step_simps Second_def)
  moreover have "breaker_step (?s ?o ?t 0) EvUnlock (?s ?o ?t 1)" "breaker_step (?s ?o ?t 1) EvUnlock (?s ?o ?t 2)"
    by (simp_all add: breaker_step_simps can_execute_read_def single_failure_config_def time_sub_def Second_def)
  moreover have "breaker_step (?s ?o ?t 2) EvUpgrade (?s (?b CircuitBreakerStateHalfOpen 1 0 0) ?t 1)"
    by (simp add: breaker_step_simps can_execute_upgrade_def)
  moreover have "breaker_step (?s (?b CircuitBreakerStateHalfOpen 1 0 0) ?t 1) EvSuccess
      (?s (?b CircuitBreakerStateClosed 0 0 1) ?t 1)"
    by (simp add: breaker_step_simps cb_RecordSuccess_def Let_def single_failure_config_def i64_def)
  ultimately have "breaker_steps (initial_breaker_sys ?cfg) stale_schedule (?s (?b CircuitBreakerStateClosed 0 0 1) ?t 1)"
    unfolding stale_schedule_def by (blast intro: breaker_steps.intros)
  moreover have "breaker_step (?s (?b CircuitBreakerStateClosed 0 0 1) ?t 1) EvUpgrade
      (?s (?b CircuitBreakerStateHalfOpen 0 0 0) ?t 0)"
    by (simp add: breaker_step_simps can_execute_upgrade_def)
  ultimately show ?thesis by (intro exI conjI) auto
qed

end
