(* ===== verification/Rate_Limiter.thy ===== *)
theory Rate_Limiter
  imports Circuit_Breaker Complex_Main
begin

text \<open>
  The rest of \<^verbatim>\<open>pkg/utils/rate_limiter.go\<close>: the limiter that puts the
  circuit breaker and the token buckets in front of API calls, and its metrics.

  The token bucket (\<^verbatim>\<open>golang.org/x/time/rate\<close>) is the parameter
  \<open>limiter_api\<close>; an operation that may block takes the answer the bucket gives and
  leaves the bucket it leaves. Rates are rationals in place of \<^verbatim>\<open>float64\<close>:
  they are only passed on. A bucket is a pointer of the source that only the limiter holds,
  so a change through it is a change of the map.
\<close>

section \<open>Configuration\<close>

record RateLimiterConfig =
  rlc_QPS :: rat
  rlc_Burst :: int
  rlc_BaseDelay :: duration
  rlc_MaxDelay :: duration
  rlc_BackoffMultiplier :: rat
  rlc_PerResourceQPS :: "string \<rightharpoonup> rat"
  rlc_PerResourceBurst :: "string \<rightharpoonup> int"
  rlc_FailureThreshold :: int
  rlc_RecoveryTimeout :: duration
  rlc_HalfOpenRequests :: int
  rlc_EnableMetrics :: bool
  rlc_EnableCircuitBreaker :: bool

definition DefaultRateLimiterConfig :: RateLimiterConfig where
  "DefaultRateLimiterConfig =
     \<lparr>rlc_QPS = 20, rlc_Burst = 30, rlc_BaseDelay = 1 * Second, rlc_MaxDelay = 60 * Second,
      rlc_BackoffMultiplier = 2, rlc_PerResourceQPS = Map.empty, rlc_PerResourceBurst = Map.empty,
      rlc_FailureThreshold = 5, rlc_RecoveryTimeout = 30 * Second, rlc_HalfOpenRequests = 3,
      rlc_EnableMetrics = True, rlc_EnableCircuitBreaker = True\<rparr>"

section \<open>Metrics\<close>

record ResourceMetrics =
  rm_Waits :: int
  rm_WaitTime :: duration
  rm_AllowedRequests :: int
  rm_DeniedRequests :: int
  rm_Successes :: int
  rm_Failures :: int

definition new_resource_metrics :: ResourceMetrics where
  "new_resource_metrics =
     \<lparr>rm_Waits = 0, rm_WaitTime = 0, rm_AllowedRequests = 0, rm_DeniedRequests = 0, rm_Successes = 0, rm_Failures = 0\<rparr>"

record RateLimiterMetrics =
  rlm_totalWaits :: int
  rlm_totalWaitTime :: duration
  rlm_allowedRequests :: int
  rlm_deniedRequests :: int
  rlm_reservations :: int
  rlm_circuitBreakerTrips :: int
  rlm_operationSuccesses :: int
  rlm_operationFailures :: int
  rlm_resourceMetrics :: "string \<rightharpoonup> ResourceMetrics"

definition NewRateLimiterMetrics :: RateLimiterMetrics where
  "NewRateLimiterMetrics =
     \<lparr>rlm_totalWaits = 0, rlm_totalWaitTime = 0, rlm_allowedRequests = 0, rlm_deniedRequests = 0,
      rlm_reservations = 0, rlm_circuitBreakerTrips = 0, rlm_operationSuccesses = 0,
      rlm_operationFailures = 0, rlm_resourceMetrics = Map.empty\<rparr>"

text \<open>The block each recorder repeats: create the entry of a named resource, then change it.\<close>

definition update_resource ::
  "string \<Rightarrow> (ResourceMetrics \<Rightarrow> ResourceMetrics) \<Rightarrow> RateLimiterMetrics \<Rightarrow> RateLimiterMetrics" where
  "update_resource resource f m =
     (if resource \<noteq> [] then
        (let rm = (case rlm_resourceMetrics m resource of None \<Rightarrow> new_resource_metrics | Some rm \<Rightarrow> rm)
         in m\<lparr>rlm_resourceMetrics := (rlm_resourceMetrics m)(resource \<mapsto> f rm)\<rparr>)
      else m)"

definition RecordRateLimitWait :: "string \<Rightarrow> duration \<Rightarrow> bool \<Rightarrow> RateLimiterMetrics \<Rightarrow> RateLimiterMetrics" where
  "RecordRateLimitWait resource d success m =
     (let m = m\<lparr>rlm_totalWaits := i64 (rlm_totalWaits m + 1), rlm_totalWaitTime := i64 (rlm_totalWaitTime m + d)\<rparr>;
          m = (if success then m\<lparr>rlm_allowedRequests := i64 (rlm_allowedRequests m + 1)\<rparr>
               else m\<lparr>rlm_deniedRequests := i64 (rlm_deniedRequests m + 1)\<rparr>)
      in update_resource resource
           (\<lambda>rm. let rm = rm\<lparr>rm_Waits := i64 (rm_Waits rm + 1), rm_WaitTime := i64 (rm_WaitTime rm + d)\<rparr>
                 in if success then rm\<lparr>rm_AllowedRequests := i64 (rm_AllowedRequests rm + 1)\<rparr>
                    else rm\<lparr>rm_DeniedRequests := i64 (rm_DeniedRequests rm + 1)\<rparr>) m)"

definition RecordRateLimitCheck :: "string \<Rightarrow> bool \<Rightarrow> RateLimiterMetrics \<Rightarrow> RateLimiterMetrics" where
  "RecordRateLimitCheck resource allowed m =
     (let m = (if allowed then m\<lparr>rlm_allowedRequests := i64 (rlm_allowedRequests m + 1)\<rparr>
               else m\<lparr>rlm_deniedRequests := i64 (rlm_deniedRequests m + 1)\<rparr>)
      in update_resource resource
           (\<lambda>rm. if allowed then rm\<lparr>rm_AllowedRequests := i64 (rm_AllowedRequests rm + 1)\<rparr>
                 else rm\<lparr>rm_DeniedRequests := i64 (rm_DeniedRequests rm + 1)\<rparr>) m)"

definition RecordRateLimitReservation :: "RateLimiterMetrics \<Rightarrow> RateLimiterMetrics" where
  "RecordRateLimitReservation m = m\<lparr>rlm_reservations := i64 (rlm_reservations m + 1)\<rparr>"

definition RecordCircuitBreakerTrip :: "RateLimiterMetrics \<Rightarrow> RateLimiterMetrics" where
  "RecordCircuitBreakerTrip m = m\<lparr>rlm_circuitBreakerTrips := i64 (rlm_circuitBreakerTrips m + 1)\<rparr>"

definition RecordOperationSuccess :: "string \<Rightarrow> RateLimiterMetrics \<Rightarrow> RateLimiterMetrics" where
  "RecordOperationSuccess resource m =
     update_resource resource (\<lambda>rm. rm\<lparr>rm_Successes := i64 (rm_Successes rm + 1)\<rparr>)
       (m\<lparr>rlm_operationSuccesses := i64 (rlm_operationSuccesses m + 1)\<rparr>)"

definition RecordOperationFailure :: "string \<Rightarrow> RateLimiterMetrics \<Rightarrow> RateLimiterMetrics" where
  "RecordOperationFailure resource m =
     update_resource resource (\<lambda>rm. rm\<lparr>rm_Failures := i64 (rm_Failures rm + 1)\<rparr>)
       (m\<lparr>rlm_operationFailures := i64 (rlm_operationFailures m + 1)\<rparr>)"

text \<open>
  The summary: the counters in the order of the source, then the two quotients, as numerator
  and denominator of the floating-point division, where their denominator is positive.
\<close>

datatype summary_value = Count int | Quotient int int

definition Milliseconds :: "duration \<Rightarrow> int" where
  "Milliseconds d = go_div d 1000000"

definition rlm_GetSummary :: "RateLimiterMetrics \<Rightarrow> (string \<times> summary_value) list" where
  "rlm_GetSummary m =
     [(''total_waits'', Count (rlm_totalWaits m)),
      (''total_wait_time_ms'', Count (Milliseconds (rlm_totalWaitTime m))),
      (''allowed_requests'', Count (rlm_allowedRequests m)),
      (''denied_requests'', Count (rlm_deniedRequests m)),
      (''reservations'', Count (rlm_reservations m)),
      (''circuit_breaker_trips'', Count (rlm_circuitBreakerTrips m)),
      (''operation_successes'', Count (rlm_operationSuccesses m)),
      (''operation_failures'', Count (rlm_operationFailures m))] @
     (if rlm_totalWaits m > 0
      then [(''average_wait_time_ms'', Quotient (Milliseconds (rlm_totalWaitTime m)) (rlm_totalWaits m))] else []) @
     (let totalOps = i64 (rlm_operationSuccesses m + rlm_operationFailures m)
      in if totalOps > 0 then [(''success_rate'', Quotient (rlm_operationSuccesses m) totalOps)] else [])"

definition GetResourceMetrics :: "string \<Rightarrow> RateLimiterMetrics \<Rightarrow> ResourceMetrics option" where
  "GetResourceMetrics resource m = rlm_resourceMetrics m resource"

section \<open>The limiter\<close>

text \<open>
  \<open>li_wait\<close> answers \<^verbatim>\<open>Wait(ctx)\<close>: whether the context ended first.
\<close>

record 'l limiter_api =
  li_new :: "rat \<Rightarrow> int \<Rightarrow> 'l"
  li_SetLimit :: "rat \<Rightarrow> 'l \<Rightarrow> 'l"
  li_SetBurst :: "int \<Rightarrow> 'l \<Rightarrow> 'l"
  li_Allow :: "time \<Rightarrow> 'l \<Rightarrow> bool \<times> 'l"
  li_Wait :: "time \<Rightarrow> 'l \<Rightarrow> bool \<times> time \<times> 'l"
  li_Reserve :: "time \<Rightarrow> 'l \<Rightarrow> 'l"

record 'l RateLimiter =
  rl_config :: RateLimiterConfig
  rl_globalLimiter :: 'l
  rl_resourceLimiters :: "string \<rightharpoonup> 'l"
  rl_circuitBreaker :: "CircuitBreaker option"
  rl_metrics :: "RateLimiterMetrics option"

definition NewRateLimiter :: "'l limiter_api \<Rightarrow> RateLimiterConfig option \<Rightarrow> 'l RateLimiter" where
  "NewRateLimiter api config =
     (let config = (case config of None \<Rightarrow> DefaultRateLimiterConfig | Some c \<Rightarrow> c)
      in \<lparr>rl_config = config,
          rl_globalLimiter = li_new api (rlc_QPS config) (rlc_Burst config),
          rl_resourceLimiters = Map.empty,
          rl_circuitBreaker =
            (if rlc_EnableCircuitBreaker config
             then Some (NewCircuitBreaker \<lparr>cbc_FailureThreshold = rlc_FailureThreshold config,
                cbc_RecoveryTimeout = rlc_RecoveryTimeout config, cbc_HalfOpenRequests = rlc_HalfOpenRequests config\<rparr>)
             else None),
          rl_metrics = (if rlc_EnableMetrics config then Some NewRateLimiterMetrics else None)\<rparr>)"

definition resource_settings :: "RateLimiterConfig \<Rightarrow> string \<Rightarrow> rat \<times> int" where
  "resource_settings config resource =
     ((case rlc_PerResourceQPS config resource of None \<Rightarrow> rlc_QPS config | Some q \<Rightarrow> q),
      (case rlc_PerResourceBurst config resource of None \<Rightarrow> rlc_Burst config | Some b \<Rightarrow> b))"

definition getLimiterForResource :: "'l limiter_api \<Rightarrow> string \<Rightarrow> 'l RateLimiter \<Rightarrow> 'l \<times> 'l RateLimiter" where
  "getLimiterForResource api resource rl =
     (if resource = [] then (rl_globalLimiter rl, rl)
      else case rl_resourceLimiters rl resource of
        Some limiter \<Rightarrow> (limiter, rl)
      | None \<Rightarrow>
          (let (qps, burst) = resource_settings (rl_config rl) resource;
               limiter = li_new api qps burst
           in (limiter, rl\<lparr>rl_resourceLimiters := (rl_resourceLimiters rl)(resource \<mapsto> limiter)\<rparr>)))"

text \<open>A call on the bucket of a resource leaves the bucket it points to changed.\<close>

definition put_limiter :: "string \<Rightarrow> 'l \<Rightarrow> 'l RateLimiter \<Rightarrow> 'l RateLimiter" where
  "put_limiter resource limiter rl =
     (if resource = [] then rl\<lparr>rl_globalLimiter := limiter\<rparr>
      else rl\<lparr>rl_resourceLimiters := (rl_resourceLimiters rl)(resource \<mapsto> limiter)\<rparr>)"

definition rl_record :: "(RateLimiterMetrics \<Rightarrow> RateLimiterMetrics) \<Rightarrow> 'l RateLimiter \<Rightarrow> 'l RateLimiter" where
  "rl_record f rl = rl\<lparr>rl_metrics := map_option f (rl_metrics rl)\<rparr>"

text \<open>\<open>rl.circuitBreaker != nil && !rl.circuitBreaker.CanExecute()\<close>, with its effect.\<close>

definition breaker_refuses :: "time \<Rightarrow> 'l RateLimiter \<Rightarrow> bool \<times> 'l RateLimiter" where
  "breaker_refuses now rl =
     (case rl_circuitBreaker rl of
        None \<Rightarrow> (False, rl)
      | Some cb \<Rightarrow>
          (let (ok, cb) = CanExecute now cb in (\<not> ok, rl\<lparr>rl_circuitBreaker := Some cb\<rparr>)))"

datatype wait_error = BreakerOpen string | WaitInterrupted

definition WaitForResource ::
  "'l limiter_api \<Rightarrow> time \<Rightarrow> string \<Rightarrow> 'l RateLimiter \<Rightarrow> wait_error option \<times> 'l RateLimiter" where
  "WaitForResource api start resource rl =
     (let (refused, rl) = breaker_refuses start rl
      in if refused then (Some (BreakerOpen resource), rl_record RecordCircuitBreakerTrip rl)
         else
           (let (limiter, rl) = getLimiterForResource api resource rl;
                (interrupted, end, limiter) = li_Wait api start limiter;
                rl = put_limiter resource limiter rl
            in (if interrupted then Some WaitInterrupted else None,
                rl_record (RecordRateLimitWait resource (time_sub end start) (\<not> interrupted)) rl)))"

definition rl_Wait :: "'l limiter_api \<Rightarrow> time \<Rightarrow> 'l RateLimiter \<Rightarrow> wait_error option \<times> 'l RateLimiter" where
  "rl_Wait api start = WaitForResource api start []"

definition AllowForResource :: "'l limiter_api \<Rightarrow> time \<Rightarrow> string \<Rightarrow> 'l RateLimiter \<Rightarrow> bool \<times> 'l RateLimiter" where
  "AllowForResource api now resource rl =
     (let (refused, rl) = breaker_refuses now rl
      in if refused then (False, rl_record RecordCircuitBreakerTrip rl)
         else
           (let (limiter, rl) = getLimiterForResource api resource rl;
                (allowed, limiter) = li_Allow api now limiter;
                rl = put_limiter resource limiter rl
            in (allowed, rl_record (RecordRateLimitCheck resource allowed) rl)))"

definition rl_Allow :: "'l limiter_api \<Rightarrow> time \<Rightarrow> 'l RateLimiter \<Rightarrow> bool \<times> 'l RateLimiter" where
  "rl_Allow api now = AllowForResource api now []"

text \<open>A reservation does not ask the breaker.\<close>

definition ReserveForResource :: "'l limiter_api \<Rightarrow> time \<Rightarrow> string \<Rightarrow> 'l RateLimiter \<Rightarrow> 'l RateLimiter" where
  "ReserveForResource api now resource rl =
     (let (limiter, rl) = getLimiterForResource api resource rl
      in rl_record RecordRateLimitReservation (put_limiter resource (li_Reserve api now limiter) rl))"

definition rl_Reserve :: "'l limiter_api \<Rightarrow> time \<Rightarrow> 'l RateLimiter \<Rightarrow> 'l RateLimiter" where
  "rl_Reserve api now = ReserveForResource api now []"

definition rl_RecordSuccess :: "string \<Rightarrow> 'l RateLimiter \<Rightarrow> 'l RateLimiter" where
  "rl_RecordSuccess resource rl =
     rl_record (RecordOperationSuccess resource) (rl\<lparr>rl_circuitBreaker := map_option cb_RecordSuccess (rl_circuitBreaker rl)\<rparr>)"

definition rl_RecordFailure :: "time \<Rightarrow> string \<Rightarrow> 'l RateLimiter \<Rightarrow> 'l RateLimiter" where
  "rl_RecordFailure now resource rl =
     rl_record (RecordOperationFailure resource) (rl\<lparr>rl_circuitBreaker := map_option (cb_RecordFailure now) (rl_circuitBreaker rl)\<rparr>)"

definition rl_UpdateConfig :: "'l limiter_api \<Rightarrow> RateLimiterConfig \<Rightarrow> 'l RateLimiter \<Rightarrow> 'l RateLimiter" where
  "rl_UpdateConfig api config rl =
     rl\<lparr>rl_config := config,
        rl_globalLimiter := li_SetBurst api (rlc_Burst config) (li_SetLimit api (rlc_QPS config) (rl_globalLimiter rl)),
        rl_resourceLimiters := (\<lambda>resource. case rl_resourceLimiters rl resource of
           None \<Rightarrow> None
         | Some limiter \<Rightarrow>
             (let limiter = (case rlc_PerResourceQPS config resource of
                    None \<Rightarrow> limiter | Some qps \<Rightarrow> li_SetLimit api qps limiter);
                  limiter = (case rlc_PerResourceBurst config resource of
                    None \<Rightarrow> limiter | Some burst \<Rightarrow> li_SetBurst api burst limiter)
              in Some limiter))\<rparr>"

definition GetCircuitBreakerState :: "'l RateLimiter \<Rightarrow> CircuitBreakerState" where
  "GetCircuitBreakerState rl =
     (case rl_circuitBreaker rl of None \<Rightarrow> CircuitBreakerStateClosed | Some cb \<Rightarrow> GetState cb)"


section \<open>Every request is counted once\<close>

datatype rl_op =
    OpWait time string
  | OpAllow time string
  | OpReserve time string
  | OpRecordSuccess string
  | OpRecordFailure time string
  | OpUpdateConfig RateLimiterConfig

fun rl_step :: "'l limiter_api \<Rightarrow> 'l RateLimiter \<Rightarrow> rl_op \<Rightarrow> 'l RateLimiter" where
  "rl_step api rl (OpWait now resource) = snd (WaitForResource api now resource rl)"
| "rl_step api rl (OpAllow now resource) = snd (AllowForResource api now resource rl)"
| "rl_step api rl (OpReserve now resource) = ReserveForResource api now resource rl"
| "rl_step api rl (OpRecordSuccess resource) = rl_RecordSuccess resource rl"
| "rl_step api rl (OpRecordFailure now resource) = rl_RecordFailure now resource rl"
| "rl_step api rl (OpUpdateConfig config) = rl_UpdateConfig api config rl"

fun is_request :: "rl_op \<Rightarrow> bool" where
  "is_request (OpWait _ _) = True"
| "is_request (OpAllow _ _) = True"
| "is_request _ = False"

definition counts_requests :: "nat \<Rightarrow> RateLimiterMetrics \<Rightarrow> bool" where
  "counts_requests n m \<longleftrightarrow>
     0 \<le> rlm_allowedRequests m \<and> 0 \<le> rlm_deniedRequests m \<and> 0 \<le> rlm_circuitBreakerTrips m \<and>
     rlm_allowedRequests m + rlm_deniedRequests m + rlm_circuitBreakerTrips m = int n"

lemma update_resource_counters [simp]:
  "rlm_allowedRequests (update_resource r f m) = rlm_allowedRequests m"
  "rlm_deniedRequests (update_resource r f m) = rlm_deniedRequests m"
  "rlm_circuitBreakerTrips (update_resource r f m) = rlm_circuitBreakerTrips m"
  "rlm_totalWaits (update_resource r f m) = rlm_totalWaits m"
  "rlm_totalWaitTime (update_resource r f m) = rlm_totalWaitTime m"
  "rlm_operationSuccesses (update_resource r f m) = rlm_operationSuccesses m"
  "rlm_operationFailures (update_resource r f m) = rlm_operationFailures m"
  by (simp_all add: update_resource_def Let_def)

lemma i64_incr: "0 \<le> x \<Longrightarrow> x \<le> int n \<Longrightarrow> n < 9223372036854775807 \<Longrightarrow> i64 (x + 1) = x + 1"
  by (rule i64_id) (simp add: in_i64_def)

lemma counts_requests_recorders:
  assumes "counts_requests n m"
  shows "n < 9223372036854775807 \<Longrightarrow> counts_requests (Suc n) (RecordRateLimitWait r d b m)"
    and "n < 9223372036854775807 \<Longrightarrow> counts_requests (Suc n) (RecordRateLimitCheck r b m)"
    and "n < 9223372036854775807 \<Longrightarrow> counts_requests (Suc n) (RecordCircuitBreakerTrip m)"
    and "counts_requests n (RecordRateLimitReservation m)"
    and "counts_requests n (RecordOperationSuccess r m)"
    and "counts_requests n (RecordOperationFailure r m)"
  using assms i64_incr [of "rlm_allowedRequests m" n] i64_incr [of "rlm_deniedRequests m" n]
    i64_incr [of "rlm_circuitBreakerTrips m" n]
  by (auto simp: counts_requests_def RecordRateLimitWait_def RecordRateLimitCheck_def RecordCircuitBreakerTrip_def
      RecordRateLimitReservation_def RecordOperationSuccess_def RecordOperationFailure_def Let_def)

lemma rl_metrics_frame [simp]:
  "rl_metrics (snd (breaker_refuses now rl)) = rl_metrics rl"
  "rl_metrics (snd (getLimiterForResource api r rl)) = rl_metrics rl"
  "rl_metrics (put_limiter r l rl) = rl_metrics rl"
  "rl_metrics (rl_record f rl) = map_option f (rl_metrics rl)"
  by (simp_all add: breaker_refuses_def getLimiterForResource_def put_limiter_def rl_record_def Let_def
      split: option.splits prod.splits)

lemma request_metrics:
  "\<exists>f. rl_metrics (snd (WaitForResource api now r rl)) = map_option f (rl_metrics rl) \<and>
    (f = RecordCircuitBreakerTrip \<or> (\<exists>d b. f = RecordRateLimitWait r d b))"
  "\<exists>f. rl_metrics (snd (AllowForResource api now r rl)) = map_option f (rl_metrics rl) \<and>
    (f = RecordCircuitBreakerTrip \<or> (\<exists>b. f = RecordRateLimitCheck r b))"
proof -
  obtain refused rl1 where 1: "breaker_refuses now rl = (refused, rl1)" by fastforce
  obtain l rl2 where 2: "getLimiterForResource api r rl1 = (l, rl2)" by fastforce
  obtain i e l' where 3: "li_Wait api now l = (i, e, l')" by (cases "li_Wait api now l") auto
  obtain a l'' where 4: "li_Allow api now l = (a, l'')" by fastforce
  from rl_metrics_frame(1) [of now rl] 1 have m1: "rl_metrics rl1 = rl_metrics rl" by simp
  from rl_metrics_frame(2) [of api r rl1] 2 m1 have m2: "rl_metrics rl2 = rl_metrics rl" by simp
  show "\<exists>f. rl_metrics (snd (WaitForResource api now r rl)) = map_option f (rl_metrics rl) \<and>
    (f = RecordCircuitBreakerTrip \<or> (\<exists>d b. f = RecordRateLimitWait r d b))"
    by (cases refused) (auto simp: WaitForResource_def 1 2 3 m1 m2 Let_def)
  show "\<exists>f. rl_metrics (snd (AllowForResource api now r rl)) = map_option f (rl_metrics rl) \<and>
    (f = RecordCircuitBreakerTrip \<or> (\<exists>b. f = RecordRateLimitCheck r b))"
    by (cases refused) (auto simp: AllowForResource_def 1 2 4 m1 m2 Let_def)
qed

lemma rl_step_counts:
  assumes "rl_metrics rl = Some m" and "counts_requests n m" and "n < 9223372036854775807"
  shows "\<exists>m'. rl_metrics (rl_step api rl op) = Some m' \<and> counts_requests (n + (if is_request op then 1 else 0)) m'"
proof (cases op)
  case (OpWait now r)
  with request_metrics(1) [of api now r rl] assms show ?thesis by (auto intro: counts_requests_recorders)
next
  case (OpAllow now r)
  with request_metrics(2) [of api now r rl] assms show ?thesis by (auto intro: counts_requests_recorders)
next
  case (OpReserve now r)
  with assms show ?thesis
    by (auto simp: ReserveForResource_def Let_def counts_requests_recorders split: prod.splits)
      (metis counts_requests_recorders(4) option.simps(9) rl_metrics_frame(2) snd_conv)
qed (use assms in \<open>auto simp: rl_RecordSuccess_def rl_RecordFailure_def rl_UpdateConfig_def counts_requests_recorders\<close>)

text \<open>
  C34: Whatever is called, in whatever order and with whatever answers of the buckets: each
  request is counted as allowed, as denied or as refused by the breaker, exactly once.
\<close>

theorem every_request_counted:
  assumes "length ops < 9223372036854775807"
    and "rlc_EnableMetrics config"
  shows "\<exists>m. rl_metrics (foldl (rl_step api) (NewRateLimiter api (Some config)) ops) = Some m \<and>
    rlm_allowedRequests m + rlm_deniedRequests m + rlm_circuitBreakerTrips m = int (length (filter is_request ops))"
proof -
  have run: "\<exists>m'. rl_metrics (foldl (rl_step api) rl ops) = Some m' \<and> counts_requests (n + length (filter is_request ops)) m'"
    if "rl_metrics rl = Some m" "counts_requests n m" "n + length ops < 9223372036854775807" for rl m n
    using that
  proof (induction ops arbitrary: rl m n)
    case (Cons op ops)
    from Cons.prems(3) have "n < 9223372036854775807" by simp
    from rl_step_counts [OF Cons.prems(1,2) this, of api op] obtain m' where
      m': "rl_metrics (rl_step api rl op) = Some m'" "counts_requests (n + (if is_request op then 1 else 0)) m'"
      by blast
    from Cons.IH [OF m'] Cons.prems(3) show ?case by (auto simp: add.commute split: if_splits)
  qed auto
  from assms(2) have "rl_metrics (NewRateLimiter api (Some config)) = Some NewRateLimiterMetrics"
    by (simp add: NewRateLimiter_def Let_def)
  moreover have "counts_requests 0 NewRateLimiterMetrics"
    by (simp add: counts_requests_def NewRateLimiterMetrics_def)
  ultimately show ?thesis using run [of _ _ 0] assms(1) by (auto simp: counts_requests_def)
qed

text \<open>A bucket of three tokens that refills at no rate, for the concrete runs.\<close>

definition token_bucket :: "int limiter_api" where
  "token_bucket = \<lparr>li_new = (\<lambda>q b. b), li_SetLimit = (\<lambda>q l. l), li_SetBurst = (\<lambda>b l. b),
     li_Allow = (\<lambda>now l. (l > 0, if l > 0 then l - 1 else l)),
     li_Wait = (\<lambda>now l. (l \<le> 0, now, if l > 0 then l - 1 else l)), li_Reserve = (\<lambda>now l. l - 1)\<rparr>"

lemma every_request_counted_witness:
  "\<exists>m. rl_metrics (foldl (rl_step token_bucket) (NewRateLimiter token_bucket (Some DefaultRateLimiterConfig))
      [OpWait 0 ''pods'', OpRecordFailure 0 ''pods'', OpAllow 1 []]) = Some m \<and>
    rlm_allowedRequests m + rlm_deniedRequests m + rlm_circuitBreakerTrips m = 2"
  using every_request_counted [of "[OpWait 0 ''pods'', OpRecordFailure 0 ''pods'', OpAllow 1 []]"
      DefaultRateLimiterConfig token_bucket]
  by (simp add: DefaultRateLimiterConfig_def)

section \<open>An open breaker\<close>

text \<open>
  While the breaker is open and its timeout has not passed, a request is refused at once,
  and no bucket is touched, created or asked.
\<close>

theorem open_breaker_refuses:
  assumes "rl_circuitBreaker rl = Some cb" and "cb_state cb = CircuitBreakerStateOpen"
    and "time_sub now (cb_lastFailureTime cb) < cbc_RecoveryTimeout (cb_config cb)"
  shows "WaitForResource api now resource rl = (Some (BreakerOpen resource), rl_record RecordCircuitBreakerTrip rl) \<and>
    AllowForResource api now resource rl = (False, rl_record RecordCircuitBreakerTrip rl)"
proof -
  from assms have "CanExecute now cb = (False, cb)" by (simp add: CanExecute_def can_execute_read_def)
  with assms(1) have "breaker_refuses now rl = (True, rl)" by (simp add: breaker_refuses_def)
  then show ?thesis by (simp add: WaitForResource_def AllowForResource_def)
qed

section \<open>Changing the configuration\<close>

lemma getLimiter_stored: "fst (getLimiterForResource api r (snd (getLimiterForResource api r rl))) = fst (getLimiterForResource api r rl)"
  by (auto simp: getLimiterForResource_def Let_def split: option.splits prod.splits)

text \<open>
  A resource in use that has no setting of its own keeps, after an update, the bucket made
  from the old global rate; a resource asked for the first time gets the new rate. The
  breaker keeps its old limits.
\<close>

theorem update_config_keeps_old_rate:
  assumes "resource \<noteq> []" and "rl_resourceLimiters rl resource = None"
    and "rlc_PerResourceQPS (rl_config rl) resource = None" and "rlc_PerResourceBurst (rl_config rl) resource = None"
    and "rlc_PerResourceQPS config resource = None" and "rlc_PerResourceBurst config resource = None"
  shows "fst (getLimiterForResource api resource
      (rl_UpdateConfig api config (snd (getLimiterForResource api resource rl)))) =
      li_new api (rlc_QPS (rl_config rl)) (rlc_Burst (rl_config rl)) \<and>
    fst (getLimiterForResource api resource (rl_UpdateConfig api config rl)) =
      li_new api (rlc_QPS config) (rlc_Burst config) \<and>
    rl_circuitBreaker (rl_UpdateConfig api config rl) = rl_circuitBreaker rl"
  using assms by (auto simp: getLimiterForResource_def rl_UpdateConfig_def resource_settings_def Let_def)

text \<open>With settings of its own, a resource in use gets the limits a new one would get.\<close>

lemma update_config_overrides:
  assumes "resource \<noteq> []" and "rl_resourceLimiters rl resource = Some l"
    and "rlc_PerResourceQPS config resource = Some q" and "rlc_PerResourceBurst config resource = Some b"
  shows "fst (getLimiterForResource api resource (rl_UpdateConfig api config rl)) =
    li_SetBurst api b (li_SetLimit api q l)"
  using assms by (simp add: getLimiterForResource_def rl_UpdateConfig_def Let_def)


definition tripped_limiter :: "int RateLimiter" where
  "tripped_limiter = foldl (rl_step token_bucket)
     (NewRateLimiter token_bucket (Some (DefaultRateLimiterConfig\<lparr>rlc_FailureThreshold := 2\<rparr>)))
     [OpRecordFailure 5 ''pods'', OpRecordFailure 7 ''pods'']"

lemma tripped_limiter_open:
  "map_option cb_state (rl_circuitBreaker tripped_limiter) = Some CircuitBreakerStateOpen"
  "map_option cb_lastFailureTime (rl_circuitBreaker tripped_limiter) = Some 7"
  "map_option (cbc_RecoveryTimeout \<circ> cb_config) (rl_circuitBreaker tripped_limiter) = Some 30000000000"
  by (simp_all add: tripped_limiter_def rl_RecordFailure_def rl_record_def NewRateLimiter_def Let_def
      DefaultRateLimiterConfig_def NewCircuitBreaker_def cb_RecordFailure_def i64_def Second_def)

lemma open_breaker_refuses_witness:
  "fst (AllowForResource token_bucket 9 ''pods'' tripped_limiter) = False"
proof -
  from tripped_limiter_open obtain cb where "rl_circuitBreaker tripped_limiter = Some cb"
    "cb_state cb = CircuitBreakerStateOpen" "time_sub 9 (cb_lastFailureTime cb) < cbc_RecoveryTimeout (cb_config cb)"
    by (auto simp: time_sub_def)
  from open_breaker_refuses [OF this, of token_bucket "''pods''"] show ?thesis by simp
qed

lemma update_config_keeps_old_rate_witness:
  "fst (getLimiterForResource token_bucket ''pods'' (rl_UpdateConfig token_bucket
     (DefaultRateLimiterConfig\<lparr>rlc_Burst := 5\<rparr>)
     (snd (getLimiterForResource token_bucket ''pods'' (NewRateLimiter token_bucket None))))) = 30"
  using update_config_keeps_old_rate [of "''pods''" "NewRateLimiter token_bucket None"
      "DefaultRateLimiterConfig\<lparr>rlc_Burst := 5\<rparr>" token_bucket]
  by (simp add: NewRateLimiter_def DefaultRateLimiterConfig_def token_bucket_def)

end
