(* ===== verification/Leadership.thy ===== *)
theory Leadership
  imports Spotalis_Prelude
begin

text \<open>
  Leadership: the lease bookkeeping of \<^verbatim>\<open>pkg/apis/leadership_state.go\<close> and
  the leader election manager of \<^verbatim>\<open>pkg/operator/leader_election.go\<close>.

  The manager's callbacks are called by client-go's \<^verbatim>\<open>LeaderElector\<close>, which is
  not part of the sources. \<open>election_step\<close> states what its documentation says of them:
  \<^verbatim>\<open>Run\<close> acquires the lease at most once, starts
  \<^verbatim>\<open>OnStartedLeading\<close> in a goroutine of its own, calls
  \<^verbatim>\<open>OnStoppedLeading\<close> when it ends, whether it led or not, and then returns;
  \<^verbatim>\<open>OnNewLeader\<close> may come at any time.
\<close>

section \<open>The lease\<close>

record LeadershipState =
  ls_IsLeader :: bool
  ls_LeaderIdentity :: string
  ls_LeaseName :: string
  ls_LeaseNamespace :: string
  ls_AcquiredAt :: time
  ls_RenewedAt :: time
  ls_LeaseDuration :: duration
  ls_RenewDeadline :: duration
  ls_RetryPeriod :: duration
  ls_Transitions :: int
  ls_LastTransition :: time

definition NewLeadershipState :: "string \<Rightarrow> string \<Rightarrow> string \<Rightarrow> LeadershipState" where
  "NewLeadershipState identity leaseName leaseNamespace =
     \<lparr>ls_IsLeader = False, ls_LeaderIdentity = identity, ls_LeaseName = leaseName,
      ls_LeaseNamespace = leaseNamespace, ls_AcquiredAt = 0, ls_RenewedAt = 0,
      ls_LeaseDuration = 15 * Second, ls_RenewDeadline = 10 * Second, ls_RetryPeriod = 2 * Second,
      ls_Transitions = 0, ls_LastTransition = 0\<rparr>"

definition BecomeLeader :: "time \<Rightarrow> LeadershipState \<Rightarrow> LeadershipState" where
  "BecomeLeader now l =
     (let wasLeader = ls_IsLeader l;
          l = l\<lparr>ls_IsLeader := True, ls_AcquiredAt := now, ls_RenewedAt := now\<rparr>
      in if \<not> wasLeader then l\<lparr>ls_Transitions := i64 (ls_Transitions l + 1), ls_LastTransition := now\<rparr> else l)"

definition StepDown :: "time \<Rightarrow> LeadershipState \<Rightarrow> LeadershipState" where
  "StepDown now l =
     (let wasLeader = ls_IsLeader l; l = l\<lparr>ls_IsLeader := False\<rparr>
      in if wasLeader then l\<lparr>ls_Transitions := i64 (ls_Transitions l + 1), ls_LastTransition := now\<rparr> else l)"

definition RenewLease :: "time \<Rightarrow> LeadershipState \<Rightarrow> LeadershipState" where
  "RenewLease now l = l\<lparr>ls_RenewedAt := now\<rparr>"

definition GetLeadershipDuration :: "time \<Rightarrow> LeadershipState \<Rightarrow> duration" where
  "GetLeadershipDuration now l =
     (if \<not> ls_IsLeader l \<or> IsZero (ls_AcquiredAt l) then 0 else time_sub now (ls_AcquiredAt l))"

definition GetTimeSinceLastRenewal :: "time \<Rightarrow> LeadershipState \<Rightarrow> duration" where
  "GetTimeSinceLastRenewal now l = (if IsZero (ls_RenewedAt l) then 0 else time_sub now (ls_RenewedAt l))"

definition NeedsRenewal :: "time \<Rightarrow> LeadershipState \<Rightarrow> bool" where
  "NeedsRenewal now l = (if \<not> ls_IsLeader l then False else GetTimeSinceLastRenewal now l \<ge> ls_RetryPeriod l)"

definition IsLeaseExpired :: "time \<Rightarrow> LeadershipState \<Rightarrow> bool" where
  "IsLeaseExpired now l = (GetTimeSinceLastRenewal now l > ls_LeaseDuration l)"

definition ShouldStepDown :: "time \<Rightarrow> LeadershipState \<Rightarrow> bool" where
  "ShouldStepDown now l = (if \<not> ls_IsLeader l then False else GetTimeSinceLastRenewal now l > ls_RenewDeadline l)"

record LeadershipHealth =
  lh_Status :: string
  lh_Healthy :: bool
  lh_Message :: string
  lh_Leadership :: string
  lh_LeadershipDuration :: duration
  lh_LastRenewal :: time

definition leadership_health :: "string \<Rightarrow> bool \<Rightarrow> string \<Rightarrow> string \<Rightarrow> LeadershipHealth" where
  "leadership_health status healthy message role =
     \<lparr>lh_Status = status, lh_Healthy = healthy, lh_Message = message, lh_Leadership = role,
      lh_LeadershipDuration = 0, lh_LastRenewal = 0\<rparr>"

definition ls_GetHealthStatus :: "time \<Rightarrow> LeadershipState \<Rightarrow> LeadershipHealth" where
  "ls_GetHealthStatus now l =
     (if \<not> ls_IsLeader l
      then leadership_health ''follower'' True ''Running in follower mode'' ''follower''
      else if GetTimeSinceLastRenewal now l > ls_RenewDeadline l
      then leadership_health ''unhealthy'' False ''Lease renewal deadline exceeded'' ''leader''
      else if GetTimeSinceLastRenewal now l > ls_RetryPeriod l
      then leadership_health ''warning'' True ''Lease renewal overdue'' ''leader''
      else leadership_health ''healthy'' True ''Leadership active'' ''leader'')"

definition ls_IsHealthy :: "time \<Rightarrow> LeadershipState \<Rightarrow> bool" where
  "ls_IsHealthy now l = lh_Healthy (ls_GetHealthStatus now l)"

definition UpdateLeaderIdentity :: "time \<Rightarrow> string \<Rightarrow> LeadershipState \<Rightarrow> LeadershipState" where
  "UpdateLeaderIdentity now identity l =
     (if ls_LeaderIdentity l \<noteq> identity
      then l\<lparr>ls_LeaderIdentity := identity, ls_Transitions := i64 (ls_Transitions l + 1), ls_LastTransition := now\<rparr>
      else l)"

definition GetTimeToNextRenewal :: "time \<Rightarrow> LeadershipState \<Rightarrow> duration" where
  "GetTimeToNextRenewal now l =
     (if \<not> ls_IsLeader l then ls_RetryPeriod l
      else if GetTimeSinceLastRenewal now l \<ge> ls_RetryPeriod l then 0
      else i64 (ls_RetryPeriod l - GetTimeSinceLastRenewal now l))"

record LeadershipMetrics =
  lmt_LeaderElectionChanges :: int
  lmt_LeadershipDuration :: duration
  lmt_TimeSinceLastRenewal :: duration
  lmt_IsCurrentLeader :: bool
  lmt_LeaderIdentity :: string
  lmt_LeaseName :: string
  lmt_LeaseNamespace :: string

definition ls_GetMetrics :: "time \<Rightarrow> LeadershipState \<Rightarrow> LeadershipMetrics" where
  "ls_GetMetrics now l =
     \<lparr>lmt_LeaderElectionChanges = ls_Transitions l, lmt_LeadershipDuration = GetLeadershipDuration now l,
      lmt_TimeSinceLastRenewal = GetTimeSinceLastRenewal now l, lmt_IsCurrentLeader = ls_IsLeader l,
      lmt_LeaderIdentity = ls_LeaderIdentity l, lmt_LeaseName = ls_LeaseName l,
      lmt_LeaseNamespace = ls_LeaseNamespace l\<rparr>"

lemmas lease_defs =
  NeedsRenewal_def IsLeaseExpired_def ShouldStepDown_def ls_IsHealthy_def ls_GetHealthStatus_def
  leadership_health_def GetTimeToNextRenewal_def

text \<open>The order of the three periods that the controller configuration enforces.\<close>

definition ordered_lease :: "LeadershipState \<Rightarrow> bool" where
  "ordered_lease l \<longleftrightarrow> 0 < ls_RetryPeriod l \<and> ls_RetryPeriod l < ls_RenewDeadline l \<and>
     ls_RenewDeadline l < ls_LeaseDuration l \<and> in_i64 (ls_LeaseDuration l)"

lemma ordered_lease_new: "ordered_lease (NewLeadershipState i n ns)"
  by (simp add: ordered_lease_def NewLeadershipState_def Second_def in_i64_def)

lemma i64_nonzero: "0 < x \<Longrightarrow> x < 18446744073709551616 \<Longrightarrow> i64 x \<noteq> 0"
proof
  assume "0 < x" "x < 18446744073709551616" and z: "i64 x = 0"
  have "i64 x mod 18446744073709551616 = x mod 18446744073709551616"
    by (simp add: i64_def mod_diff_left_eq)
  with z \<open>0 < x\<close> \<open>x < 18446744073709551616\<close> show False by simp
qed

text \<open>
  A leader steps down before its lease can expire, asks for a renewal before it steps down,
  and reports itself healthy exactly as long as it should not step down.
\<close>

theorem leader_steps_down_in_time:
  assumes "ls_IsLeader l" and "ordered_lease l"
  shows "(IsLeaseExpired now l \<longrightarrow> ShouldStepDown now l) \<and> (ShouldStepDown now l \<longrightarrow> NeedsRenewal now l) \<and>
    ls_IsHealthy now l = (\<not> ShouldStepDown now l) \<and>
    (NeedsRenewal now l \<longleftrightarrow> GetTimeToNextRenewal now l = 0)"
proof -
  let ?d = "GetTimeSinceLastRenewal now l"
  have "- 9223372036854775808 \<le> ?d \<and> ?d \<le> 9223372036854775807"
    by (simp add: GetTimeSinceLastRenewal_def time_sub_def)
  then have "i64 (ls_RetryPeriod l - ?d) \<noteq> 0" if "?d < ls_RetryPeriod l"
    using that assms(2) by (intro i64_nonzero) (auto simp: ordered_lease_def in_i64_def)
  with assms show ?thesis by (auto simp: lease_defs ordered_lease_def)
qed

lemma leader_steps_down_in_time_witness:
  "ShouldStepDown (27 * Second) (BecomeLeader (10 * Second) (NewLeadershipState ''a'' ''l'' ''n''))"
  using leader_steps_down_in_time [of "BecomeLeader (10 * Second) (NewLeadershipState ''a'' ''l'' ''n'')" "27 * Second"]
  by (simp add: BecomeLeader_def NewLeadershipState_def ordered_lease_def in_i64_def Second_def
      IsLeaseExpired_def GetTimeSinceLastRenewal_def time_sub_def)

text \<open>At exactly one retry period the lease needs renewal while the status is still healthy.\<close>

lemma renewal_due_reported_healthy:
  assumes "ls_IsLeader l" and "ordered_lease l" and "GetTimeSinceLastRenewal now l = ls_RetryPeriod l"
  shows "NeedsRenewal now l \<and> lh_Status (ls_GetHealthStatus now l) = ''healthy''"
  using assms by (simp add: lease_defs ordered_lease_def)

section \<open>Counting transitions\<close>

datatype lease_op = OpBecomeLeader time | OpStepDown time | OpRenew time | OpIdentity time string

fun lease_step :: "LeadershipState \<Rightarrow> lease_op \<Rightarrow> LeadershipState" where
  "lease_step l (OpBecomeLeader now) = BecomeLeader now l"
| "lease_step l (OpStepDown now) = StepDown now l"
| "lease_step l (OpRenew now) = RenewLease now l"
| "lease_step l (OpIdentity now identity) = UpdateLeaderIdentity now identity l"

text \<open>The changes of role and of identity along a run, read off its states.\<close>

fun lease_changes :: "LeadershipState \<Rightarrow> lease_op list \<Rightarrow> nat" where
  "lease_changes l [] = 0"
| "lease_changes l (op # ops) =
     (let l' = lease_step l op
      in (if ls_IsLeader l' \<noteq> ls_IsLeader l \<or> ls_LeaderIdentity l' \<noteq> ls_LeaderIdentity l then 1 else 0) +
         lease_changes l' ops)"

lemma lease_step_transitions:
  "ls_Transitions (lease_step l op) =
     (if ls_IsLeader (lease_step l op) \<noteq> ls_IsLeader l \<or> ls_LeaderIdentity (lease_step l op) \<noteq> ls_LeaderIdentity l
      then i64 (ls_Transitions l + 1) else ls_Transitions l)"
  by (cases op) (auto simp: BecomeLeader_def StepDown_def RenewLease_def UpdateLeaderIdentity_def Let_def)

lemma lease_changes_le: "lease_changes l ops \<le> length ops"
  by (induction l ops rule: lease_changes.induct) (auto simp: Let_def)

lemma lease_run_transitions:
  "0 \<le> ls_Transitions l \<Longrightarrow> ls_Transitions l + int (length ops) < 9223372036854775808 \<Longrightarrow>
   ls_Transitions (foldl lease_step l ops) = ls_Transitions l + int (lease_changes l ops)"
proof (induction ops arbitrary: l)
  case (Cons op ops)
  from Cons.prems have "i64 (ls_Transitions l + 1) = ls_Transitions l + 1"
    by (intro i64_id) (simp add: in_i64_def)
  with Cons.prems lease_step_transitions [of l op]
  have "0 \<le> ls_Transitions (lease_step l op)"
    "ls_Transitions (lease_step l op) + int (length ops) < 9223372036854775808"
    "ls_Transitions (lease_step l op) = ls_Transitions l +
      (if ls_IsLeader (lease_step l op) \<noteq> ls_IsLeader l \<or> ls_LeaderIdentity (lease_step l op) \<noteq> ls_LeaderIdentity l
       then 1 else 0)"
    by (auto split: if_splits)
  with Cons.IH [of "lease_step l op"] show ?case by (simp add: Let_def)
qed simp

text \<open>The transition counter is the number of changes of role or leader that happened.\<close>

theorem transitions_count_changes:
  assumes "length ops < 9223372036854775808"
  shows "lmt_LeaderElectionChanges (ls_GetMetrics now (foldl lease_step (NewLeadershipState identity name ns) ops)) =
    int (lease_changes (NewLeadershipState identity name ns) ops)"
  using lease_run_transitions [of "NewLeadershipState identity name ns" ops] assms
  by (simp add: ls_GetMetrics_def NewLeadershipState_def)

lemma transitions_count_changes_witness:
  "lmt_LeaderElectionChanges (ls_GetMetrics 9 (foldl lease_step (NewLeadershipState ''a'' ''l'' ''n'')
     [OpBecomeLeader 1, OpBecomeLeader 2, OpStepDown 3, OpIdentity 4 ''b''])) = 3"
  using transitions_count_changes [of "[OpBecomeLeader 1, OpBecomeLeader 2, OpStepDown 3, OpIdentity 4 ''b'']" 9 "''a''" "''l''" "''n''"]
  by (simp add: NewLeadershipState_def BecomeLeader_def StepDown_def UpdateLeaderIdentity_def Let_def)


section \<open>The leader election manager\<close>

record LeaderElectionConfig =
  lec_Enabled :: bool
  lec_ID :: string
  lec_Namespace :: string
  lec_LeaseName :: string
  lec_LeaseDuration :: duration
  lec_RenewDeadline :: duration
  lec_RetryPeriod :: duration
  lec_Identity :: string

text \<open>\<^verbatim>\<open>os.Hostname\<close> answers a name or an error.\<close>

definition defaultHostname :: string where "defaultHostname = ''unknown''"
definition spotalisControllerLeader :: string where "spotalisControllerLeader = ''spotalis-controller-leader''"
definition spotalisNamespace :: string where "spotalisNamespace = ''spotalis-system''"

definition hostname_or_default :: "string option \<Rightarrow> string" where
  "hostname_or_default host = (case host of None \<Rightarrow> defaultHostname | Some h \<Rightarrow> if h = [] then defaultHostname else h)"

definition DefaultLeaderElectionConfig :: "string option \<Rightarrow> LeaderElectionConfig" where
  "DefaultLeaderElectionConfig host =
     \<lparr>lec_Enabled = True, lec_ID = spotalisControllerLeader, lec_Namespace = spotalisNamespace,
      lec_LeaseName = spotalisControllerLeader, lec_LeaseDuration = 15 * Second, lec_RenewDeadline = 10 * Second,
      lec_RetryPeriod = 2 * Second, lec_Identity = hostname_or_default host\<rparr>"

text \<open>
  The two channels that are only ever closed are the flags \<open>lm_started\<close> and
  \<open>lm_stopped\<close>; the buffered one is the list of what is in its buffer.
  \<open>lm_calls\<close> records the user callbacks that have been called.
\<close>

datatype user_callback = CalledStartedLeading | CalledStoppedLeading | CalledNewLeader string

record LeaderElectionManager =
  lm_config :: LeaderElectionConfig
  lm_elector :: bool
  lm_isLeader :: bool
  lm_currentLeader :: string
  lm_startTime :: time
  lm_started :: bool
  lm_stopped :: bool
  lm_leaderChanged :: "string list"
  lm_calls :: "user_callback list"

definition NewLeaderElectionManager :: "string option \<Rightarrow> LeaderElectionConfig option \<Rightarrow> LeaderElectionManager" where
  "NewLeaderElectionManager host config =
     (let config = (case config of None \<Rightarrow> DefaultLeaderElectionConfig host | Some c \<Rightarrow> c);
          config = (if lec_Identity config = [] then config\<lparr>lec_Identity := hostname_or_default host\<rparr> else config)
      in \<lparr>lm_config = config, lm_elector = False, lm_isLeader = False, lm_currentLeader = [], lm_startTime = 0,
          lm_started = False, lm_stopped = False, lm_leaderChanged = [], lm_calls = []\<rparr>)"

definition leaderChangedChannelBuffer :: nat where "leaderChangedChannelBuffer = 10"

text \<open>Closing a closed channel panics; a full buffer drops the notification.\<close>

datatype go_panic = CloseOfClosedChannel

definition close_started :: "LeaderElectionManager \<Rightarrow> go_panic + LeaderElectionManager" where
  "close_started l = (if lm_started l then Inl CloseOfClosedChannel else Inr (l\<lparr>lm_started := True\<rparr>))"

definition close_stopped :: "LeaderElectionManager \<Rightarrow> go_panic + LeaderElectionManager" where
  "close_stopped l = (if lm_stopped l then Inl CloseOfClosedChannel else Inr (l\<lparr>lm_stopped := True\<rparr>))"

definition notify_leader :: "string \<Rightarrow> LeaderElectionManager \<Rightarrow> LeaderElectionManager" where
  "notify_leader identity l =
     (if length (lm_leaderChanged l) < leaderChangedChannelBuffer
      then l\<lparr>lm_leaderChanged := lm_leaderChanged l @ [identity]\<rparr> else l)"

definition onStartedLeading :: "LeaderElectionManager \<Rightarrow> go_panic + LeaderElectionManager" where
  "onStartedLeading l =
     (case close_started (l\<lparr>lm_isLeader := True, lm_currentLeader := lec_Identity (lm_config l)\<rparr>) of
        Inl p \<Rightarrow> Inl p
      | Inr l \<Rightarrow>
          (let l = notify_leader (lec_Identity (lm_config l)) l
           in Inr (l\<lparr>lm_calls := lm_calls l @ [CalledStartedLeading]\<rparr>)))"

definition onStoppedLeading :: "LeaderElectionManager \<Rightarrow> LeaderElectionManager" where
  "onStoppedLeading l = l\<lparr>lm_isLeader := False, lm_calls := lm_calls l @ [CalledStoppedLeading]\<rparr>"

definition onNewLeader :: "string \<Rightarrow> LeaderElectionManager \<Rightarrow> LeaderElectionManager" where
  "onNewLeader identity l =
     (let l = notify_leader identity (l\<lparr>lm_currentLeader := identity\<rparr>)
      in l\<lparr>lm_calls := lm_calls l @ [CalledNewLeader identity]\<rparr>)"

text \<open>
  \<open>Start\<close> up to the point where it waits. Disabled, the instance leads at once; enabled,
  the lock and the elector are made by client-go, which may fail; the elector's run is then
  \<open>election_step\<close>.
\<close>

datatype start_error = LockError string | ElectorError string

definition StartElection ::
  "time \<Rightarrow> string option \<Rightarrow> string option \<Rightarrow> LeaderElectionManager \<Rightarrow>
   go_panic + (start_error option \<times> LeaderElectionManager)" where
  "StartElection now lockError electorError l =
     (if \<not> lec_Enabled (lm_config l) then
        (case close_started (l\<lparr>lm_isLeader := True, lm_currentLeader := lec_Identity (lm_config l), lm_startTime := now\<rparr>) of
           Inl p \<Rightarrow> Inl p
         | Inr l \<Rightarrow> Inr (None, l\<lparr>lm_calls := lm_calls l @ [CalledStartedLeading]\<rparr>))
      else case lockError of
        Some e \<Rightarrow> Inr (Some (LockError e), l)
      | None \<Rightarrow>
          (case electorError of
             Some e \<Rightarrow> Inr (Some (ElectorError e), l)
           | None \<Rightarrow> Inr (None, l\<lparr>lm_elector := True, lm_startTime := now\<rparr>)))"

definition IsLeader :: "LeaderElectionManager \<Rightarrow> bool" where "IsLeader l = lm_isLeader l"
definition GetCurrentLeader :: "LeaderElectionManager \<Rightarrow> string" where "GetCurrentLeader l = lm_currentLeader l"
definition GetIdentity :: "LeaderElectionManager \<Rightarrow> string" where "GetIdentity l = lec_Identity (lm_config l)"

definition show_bool :: "bool \<Rightarrow> string" where "show_bool b = (if b then ''true'' else ''false'')"

definition GetDebugInfo :: "LeaderElectionManager \<Rightarrow> string" where
  "GetDebugInfo l =
     ''Identity='' @ lec_Identity (lm_config l) @ '', IsLeader='' @ show_bool (lm_isLeader l) @
     '', CurrentLeader='' @ lm_currentLeader l @ '', Enabled='' @ show_bool (lec_Enabled (lm_config l))"

text \<open>What a wait comes to when the context is cancelled or not; ready channels are chosen freely.\<close>

datatype wait_outcome = WaitOk | WaitCancelled | WaitBlocks

definition WaitForLeadership :: "bool \<Rightarrow> bool \<Rightarrow> LeaderElectionManager \<Rightarrow> wait_outcome" where
  "WaitForLeadership ctxDone preferStarted l =
     (if \<not> lec_Enabled (lm_config l) \<or> lm_isLeader l then WaitOk
      else if lm_started l \<and> (\<not> ctxDone \<or> preferStarted) then WaitOk
      else if ctxDone then WaitCancelled
      else WaitBlocks)"

text \<open>The lease object as the API returns it.\<close>

record lease_object =
  lo_Name :: string
  lo_Namespace :: string
  lo_HolderIdentity :: "string option"
  lo_AcquireTime :: "time option"
  lo_RenewTime :: "time option"
  lo_LeaseTransitions :: "int option"

record LeaseInfo =
  li_Name :: string
  li_Namespace :: string
  li_HolderIdentity :: string
  li_LeaseDuration :: duration
  li_AcquireTime :: time
  li_RenewTime :: time
  li_LeaderTransitions :: int

definition getLeaseInfo :: "lease_object option \<Rightarrow> LeaderElectionManager \<Rightarrow> LeaseInfo option" where
  "getLeaseInfo answer l =
     (case answer of
        None \<Rightarrow> None
      | Some lease \<Rightarrow> Some
          \<lparr>li_Name = lo_Name lease, li_Namespace = lo_Namespace lease,
           li_HolderIdentity = (case lo_HolderIdentity lease of Some h \<Rightarrow> h | None \<Rightarrow> []),
           li_LeaseDuration = lec_LeaseDuration (lm_config l),
           li_AcquireTime = (case lo_AcquireTime lease of Some t \<Rightarrow> t | None \<Rightarrow> 0),
           li_RenewTime = (case lo_RenewTime lease of Some t \<Rightarrow> t | None \<Rightarrow> 0),
           li_LeaderTransitions = (case lo_LeaseTransitions lease of Some n \<Rightarrow> n | None \<Rightarrow> 0)\<rparr>)"

record LeadershipInfo =
  lif_Enabled :: bool
  lif_IsLeader :: bool
  lif_CurrentLeader :: string
  lif_Identity :: string
  lif_StartTime :: time
  lif_LeaseInfo :: "LeaseInfo option"

definition GetLeadershipInfo :: "lease_object option \<Rightarrow> LeaderElectionManager \<Rightarrow> LeadershipInfo" where
  "GetLeadershipInfo answer l =
     \<lparr>lif_Enabled = lec_Enabled (lm_config l), lif_IsLeader = lm_isLeader l,
      lif_CurrentLeader = lm_currentLeader l, lif_Identity = lec_Identity (lm_config l),
      lif_StartTime = lm_startTime l,
      lif_LeaseInfo = (if lm_elector l \<and> lec_Enabled (lm_config l) then getLeaseInfo answer l else None)\<rparr>"

text \<open>The metrics: \<open>Seconds\<close> of a duration is the duration, read in seconds.\<close>

datatype election_metric = MetricBool bool | MetricString string | MetricSeconds duration | MetricInt int

definition GetLeaderElectionMetrics ::
  "time \<Rightarrow> lease_object option \<Rightarrow> LeaderElectionManager \<Rightarrow> (string \<times> election_metric) list" where
  "GetLeaderElectionMetrics now answer l =
     [(''enabled'', MetricBool (lec_Enabled (lm_config l))), (''is_leader'', MetricBool (lm_isLeader l)),
      (''current_leader'', MetricString (lm_currentLeader l)), (''identity'', MetricString (lec_Identity (lm_config l))),
      (''uptime_seconds'', MetricSeconds (time_sub now (lm_startTime l)))] @
     (case getLeaseInfo answer l of
        None \<Rightarrow> []
      | Some info \<Rightarrow>
          [(''lease_holder'', MetricString (li_HolderIdentity info)),
           (''lease_transitions'', MetricInt (li_LeaderTransitions info))] @
          (if \<not> IsZero (li_RenewTime info)
           then [(''lease_renew_age_seconds'', MetricSeconds (time_sub now (li_RenewTime info)))] else []))"

text \<open>\<open>Resign\<close> asks the API to delete the lease; the manager's own state stays as it is.\<close>

datatype resign_error = NotLeader | NoElector | DeleteFailed string

definition Resign :: "string option \<Rightarrow> LeaderElectionManager \<Rightarrow> resign_error option" where
  "Resign deleteError l =
     (if \<not> lec_Enabled (lm_config l) \<or> \<not> lm_isLeader l then Some NotLeader
      else if \<not> lm_elector l then Some NoElector
      else map_option DeleteFailed deleteError)"

section \<open>One run of the elector\<close>

datatype run_phase = Acquiring | Holding | Ended

record election =
  el_manager :: LeaderElectionManager
  el_phase :: run_phase
  el_pending :: bool
  el_panicked :: bool

definition run_callback :: "election \<Rightarrow> go_panic + LeaderElectionManager \<Rightarrow> election" where
  "run_callback s result =
     (case result of Inl p \<Rightarrow> s\<lparr>el_panicked := True\<rparr> | Inr l \<Rightarrow> s\<lparr>el_manager := l\<rparr>)"

inductive election_step :: "election \<Rightarrow> election \<Rightarrow> bool" where
  acquire: "el_phase s = Acquiring \<Longrightarrow> election_step s (s\<lparr>el_phase := Holding, el_pending := True\<rparr>)"
| started: "el_pending s \<Longrightarrow>
     election_step s (run_callback (s\<lparr>el_pending := False\<rparr>) (onStartedLeading (el_manager s)))"
| ended: "el_phase s \<noteq> Ended \<Longrightarrow> close_stopped (onStoppedLeading (el_manager s)) = r \<Longrightarrow>
     election_step s (run_callback (s\<lparr>el_phase := Ended\<rparr>) r)"
| new_leader: "election_step s (s\<lparr>el_manager := onNewLeader identity (el_manager s)\<rparr>)"

inductive election_reachable :: "election \<Rightarrow> bool" where
  start: "StartElection now None None (NewLeaderElectionManager host config) = Inr (None, l) \<Longrightarrow>
     lec_Enabled (lm_config l) \<Longrightarrow>
     election_reachable \<lparr>el_manager = l, el_phase = Acquiring, el_pending = False, el_panicked = False\<rparr>"
| step: "election_reachable s \<Longrightarrow> election_step s s' \<Longrightarrow> election_reachable s'"

text \<open>
  Before the lease is held nobody has closed \<^verbatim>\<open>started\<close>; while the goroutine
  that will close it is pending it is still open; \<^verbatim>\<open>stopped\<close> is closed at the end
  and not before; who leads has had \<^verbatim>\<open>started\<close> closed.
\<close>

definition election_inv :: "election \<Rightarrow> bool" where
  "election_inv s \<longleftrightarrow> \<not> el_panicked s \<and> lm_elector (el_manager s) \<and> lec_Enabled (lm_config (el_manager s)) \<and>
     (el_phase s = Acquiring \<longrightarrow> \<not> lm_started (el_manager s) \<and> \<not> el_pending s) \<and>
     (el_pending s \<longrightarrow> \<not> lm_started (el_manager s)) \<and>
     (lm_stopped (el_manager s) \<longleftrightarrow> el_phase s = Ended) \<and>
     (lm_isLeader (el_manager s) \<longrightarrow> lm_started (el_manager s)) \<and>
     length (lm_leaderChanged (el_manager s)) \<le> leaderChangedChannelBuffer"

lemma notify_leader_frame [simp]:
  "lm_config (notify_leader i l) = lm_config l" "lm_elector (notify_leader i l) = lm_elector l"
  "lm_isLeader (notify_leader i l) = lm_isLeader l" "lm_started (notify_leader i l) = lm_started l"
  "lm_stopped (notify_leader i l) = lm_stopped l" "lm_currentLeader (notify_leader i l) = lm_currentLeader l"
  "length (lm_leaderChanged l) \<le> leaderChangedChannelBuffer \<Longrightarrow>
     length (lm_leaderChanged (notify_leader i l)) \<le> leaderChangedChannelBuffer"
  by (auto simp: notify_leader_def)

lemmas callback_defs =
  onStartedLeading_def onStoppedLeading_def onNewLeader_def close_started_def close_stopped_def run_callback_def Let_def

lemma election_step_inv: "election_step s s' \<Longrightarrow> election_inv s \<Longrightarrow> election_inv s'"
  by (induction rule: election_step.induct) (auto simp: election_inv_def callback_defs)

lemma election_reachable_inv: "election_reachable s \<Longrightarrow> election_inv s"
proof (induction rule: election_reachable.induct)
  case (start now host config l)
  then show ?case
    by (auto simp: election_inv_def StartElection_def NewLeaderElectionManager_def close_started_def Let_def
        split: if_splits)
next
  case (step s s')
  then show ?case by (blast intro: election_step_inv)
qed

text \<open>
  C26: In one run of the elector no callback closes a channel twice, whatever the scheduler does
  with the goroutines, and nobody blocks on the notifications.
\<close>

theorem election_never_panics:
  assumes "election_reachable s"
  shows "\<not> el_panicked s \<and> length (lm_leaderChanged (el_manager s)) \<le> 10 \<and>
    (IsLeader (el_manager s) \<longrightarrow> WaitForLeadership False True (el_manager s) = WaitOk)"
  using election_reachable_inv [OF assms]
  by (simp add: election_inv_def leaderChangedChannelBuffer_def IsLeader_def WaitForLeadership_def)

definition sample_election :: "run_phase \<Rightarrow> bool \<Rightarrow> LeaderElectionManager \<Rightarrow> election" where
  "sample_election phase pending l = \<lparr>el_manager = l, el_phase = phase, el_pending = pending, el_panicked = False\<rparr>"

definition sample_manager :: LeaderElectionManager where
  "sample_manager = (NewLeaderElectionManager (Some ''pod-a'') None)\<lparr>lm_elector := True, lm_startTime := 5\<rparr>"

lemma sample_election_start: "election_reachable (sample_election Acquiring False sample_manager)"
  unfolding sample_election_def
  by (rule election_reachable.start [of 5 "Some ''pod-a''" None])
    (simp_all add: sample_manager_def StartElection_def NewLeaderElectionManager_def DefaultLeaderElectionConfig_def
      hostname_or_default_def Let_def)

lemma sample_election_held: "election_reachable (sample_election Holding True sample_manager)"
  using election_reachable.step [OF sample_election_start election_step.acquire]
  by (simp add: sample_election_def)

lemma election_never_panics_witness: "\<not> el_panicked (sample_election Holding True sample_manager)"
  using election_never_panics [OF sample_election_held] by simp

text \<open>
  The goroutine of \<^verbatim>\<open>OnStartedLeading\<close> may be scheduled after the run has
  ended: then the manager says that it leads, although its lease is lost and no run will
  take that back.
\<close>

theorem leader_after_the_run_ended:
  "\<exists>s. election_reachable s \<and> el_phase s = Ended \<and> lm_stopped (el_manager s) \<and> IsLeader (el_manager s) \<and>
     (\<forall>s'. election_step s s' \<longrightarrow> IsLeader (el_manager s'))"
proof -
  have "\<exists>l. election_reachable (sample_election Ended True l) \<and> \<not> lm_started l \<and> lm_stopped l"
    using election_reachable.step [OF sample_election_held election_step.ended [OF _ refl]]
    by (auto simp: sample_election_def callback_defs sample_manager_def NewLeaderElectionManager_def)
  then obtain l where l: "election_reachable (sample_election Ended True l)" "\<not> lm_started l" "lm_stopped l" by blast
  obtain l' where l': "onStartedLeading l = Inr l'" "lm_isLeader l'" "lm_stopped l'"
    using l(2,3) by (auto simp: callback_defs)
  from election_reachable.step [OF l(1) election_step.started] l'
  have "election_reachable (sample_election Ended False l')"
    by (simp add: sample_election_def run_callback_def)
  moreover have "IsLeader (el_manager s')" if "election_step (sample_election Ended False l') s'" for s'
    using that l'(2) by cases (auto simp: sample_election_def IsLeader_def onNewLeader_def Let_def)
  ultimately show ?thesis
    using l' by (intro exI [of _ "sample_election Ended False l'"]) (auto simp: sample_election_def IsLeader_def)
qed

text \<open>
  Where the goroutine has run before the lease is lost, the instance never leads again: the
  elector is run once. A wait for leadership still succeeds then.
\<close>

theorem lost_leadership_is_final:
  assumes "election_reachable s" and "el_phase s = Ended" and "\<not> el_pending s" and "\<not> IsLeader (el_manager s)"
    and "election_step\<^sup>*\<^sup>* s s'"
  shows "\<not> IsLeader (el_manager s') \<and>
    (lm_started (el_manager s) \<longrightarrow> WaitForLeadership False False (el_manager s') = WaitOk)"
proof -
  from assms(5,2,3,4) have "el_phase s' = Ended \<and> \<not> el_pending s' \<and> \<not> IsLeader (el_manager s') \<and>
      lm_started (el_manager s') = lm_started (el_manager s)"
  proof (induction rule: rtranclp_induct)
    case (step y z)
    then have y: "el_phase y = Ended \<and> \<not> el_pending y \<and> \<not> IsLeader (el_manager y) \<and>
      lm_started (el_manager y) = lm_started (el_manager s)" by blast
    from step.hyps(2) y show ?case
      by cases (auto simp: IsLeader_def onNewLeader_def Let_def)
  qed simp
  then show ?thesis by (simp add: WaitForLeadership_def)
qed


lemma lost_leadership_is_final_witness:
  "\<exists>l. \<not> IsLeader l \<and> WaitForLeadership False False l = WaitOk"
proof -
  obtain l where l: "onStartedLeading sample_manager = Inr l" "lm_started l" "lm_stopped l = lm_stopped sample_manager"
    by (auto simp: callback_defs sample_manager_def NewLeaderElectionManager_def)
  have "\<not> lm_stopped sample_manager" by (simp add: sample_manager_def NewLeaderElectionManager_def Let_def)
  with l obtain l' where l': "close_stopped (onStoppedLeading l) = Inr l'" "\<not> lm_isLeader l'" "lm_started l'"
    by (auto simp: callback_defs)
  from election_reachable.step [OF sample_election_held election_step.started] l
  have "election_reachable (sample_election Holding False l)"
    by (simp add: sample_election_def run_callback_def)
  from election_reachable.step [OF this election_step.ended [OF _ refl]] l'
  have "election_reachable (sample_election Ended False l')"
    by (simp add: sample_election_def run_callback_def)
  from lost_leadership_is_final [OF this, of "sample_election Ended False l'"] l'
  show ?thesis by (intro exI [of _ l']) (simp add: sample_election_def IsLeader_def)
qed

text \<open>With election disabled, a second \<open>Start\<close> closes the channel again and panics.\<close>

lemma second_start_panics:
  assumes "\<not> lec_Enabled (lm_config l)" and "StartElection now e1 e2 l = Inr (r, l')"
  shows "StartElection now' e1' e2' l' = Inl CloseOfClosedChannel"
  using assms by (auto simp: StartElection_def close_started_def split: if_splits)

text \<open>A resignation does not make the instance stop saying that it leads.\<close>

lemma resign_succeeds_only_as_leader:
  "Resign e l = None \<longleftrightarrow> lec_Enabled (lm_config l) \<and> IsLeader l \<and> lm_elector l \<and> e = None"
  by (cases e) (auto simp: Resign_def IsLeader_def)

end
