(* ===== verification/Health.thy ===== *)
theory Health
  imports Spotalis_Prelude
begin

text \<open>
  The health checks of \<^verbatim>\<open>internal/server/health.go\<close>: the probe handlers, the
  manual overrides and the checkers registered with the controller manager.

  What the environment answers to one probe is \<open>health_view\<close>: the API server's version
  call, the namespace lookup, and the three channel states \<^verbatim>\<open>checkControllerReadiness\<close>
  selects on. A JSON body is the list of its fields; an uptime is kept as the duration.
\<close>

record HealthChecker =
  hc_manager :: bool
  hc_kubeClient :: bool
  hc_startTime :: time
  hc_namespace :: string
  hc_unhealthyReason :: string
  hc_notReadyReason :: string
  hc_kubernetesDown :: bool

definition NewHealthChecker :: "bool \<Rightarrow> bool \<Rightarrow> time \<Rightarrow> string \<Rightarrow> HealthChecker" where
  "NewHealthChecker mgr kubeClient now namespace =
     \<lparr>hc_manager = mgr, hc_kubeClient = kubeClient, hc_startTime = now, hc_namespace = namespace,
      hc_unhealthyReason = [], hc_notReadyReason = [], hc_kubernetesDown = False\<rparr>"

record health_view =
  hv_versionError :: "string option"
  hv_namespaceError :: "string \<Rightarrow> string option"
  hv_elected :: bool
  hv_ctxDone :: bool
  hv_preferElected :: bool

section \<open>Manual overrides\<close>

definition SetUnhealthy :: "string \<Rightarrow> HealthChecker \<Rightarrow> HealthChecker" where
  "SetUnhealthy reason h = h\<lparr>hc_unhealthyReason := reason\<rparr>"

definition SetNotReady :: "string \<Rightarrow> HealthChecker \<Rightarrow> HealthChecker" where
  "SetNotReady reason h = h\<lparr>hc_notReadyReason := reason\<rparr>"

definition SetKubernetesUnavailable :: "HealthChecker \<Rightarrow> HealthChecker" where
  "SetKubernetesUnavailable h = h\<lparr>hc_kubernetesDown := True\<rparr>"

definition ClearUnhealthy :: "HealthChecker \<Rightarrow> HealthChecker" where
  "ClearUnhealthy h = h\<lparr>hc_unhealthyReason := []\<rparr>"

definition ClearNotReady :: "HealthChecker \<Rightarrow> HealthChecker" where
  "ClearNotReady h = h\<lparr>hc_notReadyReason := []\<rparr>"

definition ClearKubernetesUnavailable :: "HealthChecker \<Rightarrow> HealthChecker" where
  "ClearKubernetesUnavailable h = h\<lparr>hc_kubernetesDown := False\<rparr>"

section \<open>Single checks\<close>

datatype health_error =
    ClientNotInitialized
  | CheckerNotInitialized
  | ApiUnreachable string
  | NamespaceNotConfigured
  | NamespaceInaccessible string string
  | ControllerTimeout
  | ManuallyUnhealthy string
  | ManuallyNotReady string
  | MarkedUnavailable

definition checkKubernetesAPI :: "health_view \<Rightarrow> HealthChecker \<Rightarrow> health_error option" where
  "checkKubernetesAPI v h =
     (if \<not> hc_kubeClient h then Some ClientNotInitialized else map_option ApiUnreachable (hv_versionError v))"

definition checkNamespaceAccess :: "health_view \<Rightarrow> HealthChecker \<Rightarrow> health_error option" where
  "checkNamespaceAccess v h =
     (if hc_namespace h = [] then Some NamespaceNotConfigured
      else map_option (NamespaceInaccessible (hc_namespace h)) (hv_namespaceError v (hc_namespace h)))"

text \<open>
  The \<^verbatim>\<open>select\<close> has a default branch: it fails only when the context has ended
  and that branch is the one taken.
\<close>

definition checkControllerReadiness :: "health_view \<Rightarrow> HealthChecker \<Rightarrow> health_error option" where
  "checkControllerReadiness v h =
     (if \<not> hc_manager h then None
      else if hv_elected v \<and> (\<not> hv_ctxDone v \<or> hv_preferElected v) then None
      else if hv_ctxDone v then Some ControllerTimeout
      else None)"

section \<open>Probe handlers\<close>

datatype check_value =
    CheckOk
  | CheckFailed health_error
  | CheckNotReady string
  | CheckMarked
  | CheckSkipped
  | CheckUninitialized
  | CheckRunning

record probe_response =
  pr_code :: int
  pr_status :: string
  pr_reason :: string
  pr_component :: string
  pr_error :: "health_error option"
  pr_uptime :: duration
  pr_checks :: "(string \<times> check_value) list"

definition componentKubernetesAPI :: string where "componentKubernetesAPI = ''kubernetes-api''"
definition StatusOK :: int where "StatusOK = 200"
definition StatusServiceUnavailable :: int where "StatusServiceUnavailable = 503"

definition probe_down :: "duration \<Rightarrow> probe_response" where
  "probe_down uptime =
     \<lparr>pr_code = StatusServiceUnavailable, pr_status = ''unhealthy'', pr_reason = [], pr_component = [],
      pr_error = None, pr_uptime = uptime, pr_checks = []\<rparr>"

definition HealthzHandler :: "time \<Rightarrow> health_view \<Rightarrow> HealthChecker \<Rightarrow> probe_response" where
  "HealthzHandler now v h =
     (let uptime = time_sub now (hc_startTime h)
      in if hc_unhealthyReason h \<noteq> [] then (probe_down uptime)\<lparr>pr_reason := hc_unhealthyReason h\<rparr>
         else if hc_kubernetesDown h
         then (probe_down uptime)\<lparr>pr_component := componentKubernetesAPI, pr_error := Some MarkedUnavailable\<rparr>
         else case (if hc_kubeClient h then checkKubernetesAPI v h else None) of
           Some e \<Rightarrow> (probe_down uptime)\<lparr>pr_component := componentKubernetesAPI, pr_error := Some e\<rparr>
         | None \<Rightarrow>
             \<lparr>pr_code = StatusOK, pr_status = ''healthy'', pr_reason = [], pr_component = [], pr_error = None,
              pr_uptime = uptime, pr_checks = [(componentKubernetesAPI, CheckOk), (''controller'', CheckRunning)]\<rparr>)"

text \<open>The checks in the order they are made; each one may clear \<open>healthy\<close>.\<close>

definition outcome :: "string \<Rightarrow> health_error option \<Rightarrow> (string \<times> check_value) \<times> bool" where
  "outcome name e = (case e of None \<Rightarrow> ((name, CheckOk), True) | Some err \<Rightarrow> ((name, CheckFailed err), False))"

definition ready_checks :: "health_view \<Rightarrow> HealthChecker \<Rightarrow> ((string \<times> check_value) \<times> bool) list" where
  "ready_checks v h =
     (if hc_notReadyReason h \<noteq> [] then [((''manual-check'', CheckNotReady (hc_notReadyReason h)), False)] else []) @
     [(if hc_kubernetesDown h then ((componentKubernetesAPI, CheckMarked), False)
       else if hc_kubeClient h then outcome componentKubernetesAPI (checkKubernetesAPI v h)
       else ((componentKubernetesAPI, CheckSkipped), True)),
      ((''manager'', if hc_manager h then CheckOk else CheckUninitialized), True)] @
     (if \<not> hc_kubernetesDown h \<and> hc_kubeClient h then [outcome ''namespace-access'' (checkNamespaceAccess v h)]
      else if \<not> hc_kubeClient h then [((''namespace-access'', CheckSkipped), True)] else []) @
     [outcome ''controller-readiness'' (checkControllerReadiness v h)]"

definition ReadyzHandler :: "time \<Rightarrow> health_view \<Rightarrow> HealthChecker \<Rightarrow> probe_response" where
  "ReadyzHandler now v h =
     (let checks = ready_checks v h; healthy = list_all snd checks
      in \<lparr>pr_code = (if healthy then StatusOK else StatusServiceUnavailable),
          pr_status = (if healthy then ''ready'' else ''not ready''), pr_reason = [], pr_component = [],
          pr_error = None, pr_uptime = time_sub now (hc_startTime h), pr_checks = map fst checks\<rparr>)"

section \<open>Checkers for the controller manager\<close>

definition GetHealthzChecker :: "health_view \<Rightarrow> HealthChecker \<Rightarrow> health_error option" where
  "GetHealthzChecker v h =
     (if hc_unhealthyReason h \<noteq> [] then Some (ManuallyUnhealthy (hc_unhealthyReason h))
      else if hc_kubernetesDown h then Some MarkedUnavailable
      else checkKubernetesAPI v h)"

definition GetReadyzChecker :: "health_view \<Rightarrow> HealthChecker \<Rightarrow> health_error option" where
  "GetReadyzChecker v h =
     (if hc_notReadyReason h \<noteq> [] then Some (ManuallyNotReady (hc_notReadyReason h))
      else if hc_kubernetesDown h then Some MarkedUnavailable
      else case checkKubernetesAPI v h of
        Some e \<Rightarrow> Some e
      | None \<Rightarrow>
          (case checkNamespaceAccess v h of
             Some e \<Rightarrow> Some e
           | None \<Rightarrow> checkControllerReadiness v h))"

section \<open>The compatibility wrapper\<close>

type_synonym HealthHandler = "HealthChecker option"

definition NewHealthHandler :: HealthHandler where "NewHealthHandler = None"
definition SetChecker :: "HealthChecker \<Rightarrow> HealthHandler \<Rightarrow> HealthHandler" where "SetChecker c h = Some c"

definition Healthz :: "time \<Rightarrow> health_view \<Rightarrow> HealthHandler \<Rightarrow> probe_response" where
  "Healthz now v h =
     (case h of None \<Rightarrow> (probe_down 0)\<lparr>pr_error := Some CheckerNotInitialized\<rparr> | Some c \<Rightarrow> HealthzHandler now v c)"

definition Readyz :: "time \<Rightarrow> health_view \<Rightarrow> HealthHandler \<Rightarrow> probe_response" where
  "Readyz now v h =
     (case h of
        None \<Rightarrow> (probe_down 0)\<lparr>pr_status := ''not ready'', pr_error := Some CheckerNotInitialized\<rparr>
      | Some c \<Rightarrow> ReadyzHandler now v c)"

definition hh_SetUnhealthy :: "string \<Rightarrow> HealthHandler \<Rightarrow> HealthHandler" where
  "hh_SetUnhealthy reason h = map_option (SetUnhealthy reason) h"

definition hh_SetNotReady :: "string \<Rightarrow> HealthHandler \<Rightarrow> HealthHandler" where
  "hh_SetNotReady reason h = map_option (SetNotReady reason) h"

definition hh_SetKubernetesUnavailable :: "HealthHandler \<Rightarrow> HealthHandler" where
  "hh_SetKubernetesUnavailable h = map_option SetKubernetesUnavailable h"

section \<open>The two ways to ask agree\<close>

lemma outcome_ok [simp]: "snd (outcome n e) = (e = None)"
  by (simp add: outcome_def split: option.splits)

lemma ready_checks_pass:
  "list_all snd (ready_checks v h) \<longleftrightarrow>
     hc_notReadyReason h = [] \<and> \<not> hc_kubernetesDown h \<and>
     (hc_kubeClient h \<longrightarrow> checkKubernetesAPI v h = None \<and> checkNamespaceAccess v h = None) \<and>
     checkControllerReadiness v h = None"
  by (auto simp: ready_checks_def)

text \<open>
  With a client, the HTTP probes and the checkers of the manager answer alike for the same
  view of the cluster; without one, the probes skip the API and the checkers fail.
\<close>

theorem probes_and_checkers_agree:
  "(hc_kubeClient h \<longrightarrow>
      (pr_code (ReadyzHandler now v h) = StatusOK \<longleftrightarrow> GetReadyzChecker v h = None) \<and>
      (pr_code (HealthzHandler now v h) = StatusOK \<longleftrightarrow> GetHealthzChecker v h = None)) \<and>
   (\<not> hc_kubeClient h \<longrightarrow> GetReadyzChecker v h \<noteq> None \<and> GetHealthzChecker v h \<noteq> None)"
  by (auto simp: ReadyzHandler_def HealthzHandler_def GetReadyzChecker_def GetHealthzChecker_def ready_checks_pass
      probe_down_def StatusOK_def StatusServiceUnavailable_def checkKubernetesAPI_def Let_def
      split: option.splits)

definition sample_view :: health_view where
  "sample_view = \<lparr>hv_versionError = None, hv_namespaceError = (\<lambda>_. None), hv_elected = False, hv_ctxDone = False,
     hv_preferElected = False\<rparr>"

lemma probes_and_checkers_agree_witness:
  "pr_code (ReadyzHandler 9 sample_view (SetNotReady ''shutting down'' (NewHealthChecker True True 1 ''spotalis-system''))) \<noteq> StatusOK"
  using probes_and_checkers_agree [of "SetNotReady ''shutting down'' (NewHealthChecker True True 1 ''spotalis-system'')" 9 sample_view]
  by (simp add: SetNotReady_def NewHealthChecker_def GetReadyzChecker_def)

text \<open>
  A replica that has not been elected is ready as soon as it answers in time: readiness does
  not wait for leadership.
\<close>

lemma followers_are_ready:
  assumes "hc_kubeClient h" and "hc_namespace h \<noteq> []" and "hc_notReadyReason h = []" and "\<not> hc_kubernetesDown h"
    and "hv_versionError v = None" and "hv_namespaceError v (hc_namespace h) = None" and "\<not> hv_ctxDone v"
  shows "pr_code (ReadyzHandler now v h) = StatusOK"
  using assms
  by (simp add: ReadyzHandler_def ready_checks_pass checkKubernetesAPI_def checkNamespaceAccess_def
      checkControllerReadiness_def Let_def)

text \<open>An override of one probe leaves the other one alone.\<close>

lemma overrides_are_separate:
  "GetReadyzChecker v (SetUnhealthy reason h) = GetReadyzChecker v h"
  "GetHealthzChecker v (SetNotReady reason h) = GetHealthzChecker v h"
proof -
  have "checkKubernetesAPI v (SetUnhealthy reason h) = checkKubernetesAPI v h"
    "checkNamespaceAccess v (SetUnhealthy reason h) = checkNamespaceAccess v h"
    "checkControllerReadiness v (SetUnhealthy reason h) = checkControllerReadiness v h"
    "checkKubernetesAPI v (SetNotReady reason h) = checkKubernetesAPI v h"
    by (simp_all add: SetUnhealthy_def SetNotReady_def checkKubernetesAPI_def checkNamespaceAccess_def
        checkControllerReadiness_def)
  moreover have "hc_notReadyReason (SetUnhealthy reason h) = hc_notReadyReason h"
    "hc_kubernetesDown (SetUnhealthy reason h) = hc_kubernetesDown h"
    "hc_unhealthyReason (SetNotReady reason h) = hc_unhealthyReason h"
    "hc_kubernetesDown (SetNotReady reason h) = hc_kubernetesDown h"
    by (simp_all add: SetUnhealthy_def SetNotReady_def)
  ultimately show "GetReadyzChecker v (SetUnhealthy reason h) = GetReadyzChecker v h"
    "GetHealthzChecker v (SetNotReady reason h) = GetHealthzChecker v h"
    unfolding GetReadyzChecker_def GetHealthzChecker_def by (simp_all split: option.split)
qed

end
