(* ===== verification/Shutdown.thy ===== *)
theory Shutdown
  imports Leadership Health "HOL-Library.AList"
begin

text \<open>
  Graceful shutdown, \<^verbatim>\<open>pkg/operator/shutdown.go\<close>: the sequence of phases, the
  hooks, the fall-back to a forced stop, and the status that is reported.

  Time is explicit. Every function takes the time it is called at and returns the time it
  returns at; only what waits takes time: a sleep, a \<^verbatim>\<open>select\<close> over a timer and
  the context, a hook, and the call that deletes the lease. A context is its deadline. Where
  two channels of a \<^verbatim>\<open>select\<close> are ready at the same instant the runtime chooses,
  and the environment says which. \<open>sm_log\<close> records what the shutdown does to the rest of
  the operator, with the time.
\<close>

section \<open>Configuration, state and environment\<close>

datatype shutdown_error =
    AlreadyStarted
  | ContextEnded
  | HookFailed nat string

text \<open>A hook is called with the time and the context's deadline; it returns when it is done.\<close>

type_synonym ShutdownHook = "time \<Rightarrow> time \<Rightarrow> time \<times> string option"

record ShutdownConfig =
  sd_GracefulTimeout :: duration
  sd_ForceTimeout :: duration
  sd_PreShutdownDelay :: duration
  sd_PreShutdownHooks :: "ShutdownHook list"
  sd_PostShutdownHooks :: "ShutdownHook list"
  sd_WaitForLeaderElection :: bool
  sd_DrainConnections :: bool
  sd_FinishReconciliation :: bool

definition DefaultShutdownConfig :: ShutdownConfig where
  "DefaultShutdownConfig =
     \<lparr>sd_GracefulTimeout = 30 * Second, sd_ForceTimeout = 60 * Second, sd_PreShutdownDelay = 2 * Second,
      sd_PreShutdownHooks = [], sd_PostShutdownHooks = [], sd_WaitForLeaderElection = True,
      sd_DrainConnections = True, sd_FinishReconciliation = True\<rparr>"

datatype ShutdownState =
    ShutdownStateUnknown
  | ShutdownStateStarted
  | ShutdownStateInProgress
  | ShutdownStateCompleted
  | ShutdownStateFailed

fun ShutdownState_String :: "ShutdownState \<Rightarrow> string" where
  "ShutdownState_String ShutdownStateUnknown = ''unknown''"
| "ShutdownState_String ShutdownStateStarted = ''started''"
| "ShutdownState_String ShutdownStateInProgress = ''in_progress''"
| "ShutdownState_String ShutdownStateCompleted = ''completed''"
| "ShutdownState_String ShutdownStateFailed = ''failed''"

record ComponentShutdownState =
  cs_Name :: string
  cs_State :: ShutdownState
  cs_StartTime :: time
  cs_EndTime :: time
  cs_Error :: "string option"

text \<open>
  The parts of the operator the shutdown touches. The leader election manager changes on
  its own while the shutdown waits, so it is given at every time.
\<close>

record shutdown_operator =
  so_healthChecker :: "HealthChecker option"
  so_leaderElection :: "(time \<Rightarrow> LeaderElectionManager) option"
  so_Manager :: bool

datatype shutdown_effect = ReadinessFailed | LeaseReleased | ShutdownCancelled | HealthFailed

record ShutdownManager =
  sm_config :: ShutdownConfig
  sm_operator :: "shutdown_operator option"
  sm_shutdownStarted :: bool
  sm_shutdownReason :: string
  sm_shutdownTime :: time
  sm_componentStates :: "(string \<times> ComponentShutdownState) list"
  sm_log :: "(time \<times> shutdown_effect) list"

definition NewShutdownManager :: "ShutdownConfig option \<Rightarrow> shutdown_operator option \<Rightarrow> ShutdownManager" where
  "NewShutdownManager config operator =
     \<lparr>sm_config = (case config of None \<Rightarrow> DefaultShutdownConfig | Some c \<Rightarrow> c), sm_operator = operator,
      sm_shutdownStarted = False, sm_shutdownReason = [], sm_shutdownTime = 0, sm_componentStates = [], sm_log = []\<rparr>"

datatype transfer_case = PickTimeout | PickTick | PickDone

record shutdown_env =
  se_pickDone :: "string \<Rightarrow> bool"
  se_pickCase :: "nat \<Rightarrow> transfer_case"
  se_deleteLease :: "time \<Rightarrow> time \<times> string option"

type_synonym 'a timed = "'a \<times> time \<times> ShutdownManager"

section \<open>Component states\<close>

text \<open>The map of component states, in the order of the first insertions.\<close>

definition updateComponentStateWithError ::
  "time \<Rightarrow> string \<Rightarrow> ShutdownState \<Rightarrow> string option \<Rightarrow> ShutdownManager \<Rightarrow> ShutdownManager" where
  "updateComponentStateWithError now name state err sm =
     (let existing = (case map_of (sm_componentStates sm) name of
            Some e \<Rightarrow> e
          | None \<Rightarrow> \<lparr>cs_Name = name, cs_State = ShutdownStateUnknown, cs_StartTime = now, cs_EndTime = 0, cs_Error = None\<rparr>);
          existing = existing\<lparr>cs_State := state, cs_Error := err\<rparr>;
          existing = (if state = ShutdownStateCompleted \<or> state = ShutdownStateFailed
                      then existing\<lparr>cs_EndTime := now\<rparr> else existing)
      in sm\<lparr>sm_componentStates := AList.update name existing (sm_componentStates sm)\<rparr>)"

definition updateComponentState :: "time \<Rightarrow> string \<Rightarrow> ShutdownState \<Rightarrow> ShutdownManager \<Rightarrow> ShutdownManager" where
  "updateComponentState now name state sm = updateComponentStateWithError now name state None sm"

definition log_effect :: "time \<Rightarrow> shutdown_effect \<Rightarrow> ShutdownManager \<Rightarrow> ShutdownManager" where
  "log_effect now e sm = sm\<lparr>sm_log := sm_log sm @ [(now, e)]\<rparr>"

definition set_health :: "(HealthChecker \<Rightarrow> HealthChecker) \<Rightarrow> ShutdownManager \<Rightarrow> ShutdownManager" where
  "set_health f sm =
     sm\<lparr>sm_operator := map_option (\<lambda>p. p\<lparr>so_healthChecker := map_option f (so_healthChecker p)\<rparr>) (sm_operator sm)\<rparr>"

text \<open>Is there a health checker (operator and checker not nil)?\<close>

definition has_health :: "ShutdownManager \<Rightarrow> bool" where
  "has_health sm = (case sm_operator sm of None \<Rightarrow> False | Some p \<Rightarrow> so_healthChecker p \<noteq> None)"

section \<open>Waiting\<close>

text \<open>
  A \<^verbatim>\<open>select\<close> between a timer of length \<open>d\<close> and the context: did the
  context win, and when?
\<close>

definition select_timer :: "bool \<Rightarrow> time \<Rightarrow> duration \<Rightarrow> time \<Rightarrow> bool \<times> time" where
  "select_timer pickDone now d deadline =
     (let fires = now + max 0 d; done = max now deadline
      in if fires < done then (False, fires)
         else if done < fires then (True, done)
         else (pickDone, fires))"

lemma select_timer_bounds:
  assumes "select_timer p now d deadline = (b, t)"
  shows "now \<le> t" "t \<le> max now deadline" "\<not> b \<Longrightarrow> t = now + max 0 d" "t \<le> now + max 0 d"
  using assms by (auto simp: select_timer_def Let_def split: if_splits)

section \<open>Phases\<close>

definition stopNewRequests :: "shutdown_env \<Rightarrow> time \<Rightarrow> time \<Rightarrow> ShutdownManager \<Rightarrow> shutdown_error option timed" where
  "stopNewRequests e deadline now sm =
     (let sm = updateComponentState now ''http-server'' ShutdownStateStarted sm;
          sm = (if has_health sm then log_effect now ReadinessFailed (set_health (SetNotReady ''shutting down'') sm) else sm);
          (ended, now) =
            (if sd_PreShutdownDelay (sm_config sm) > 0
             then select_timer (se_pickDone e ''http-server'') now (sd_PreShutdownDelay (sm_config sm)) deadline
             else (False, now))
      in if ended then (Some ContextEnded, now, sm)
         else (None, now, updateComponentState now ''http-server'' ShutdownStateCompleted sm))"

text \<open>
  The loop of \<^verbatim>\<open>transferLeadership\<close>: wait for the first of the 15-second
  timeout, the next tick of the 500-millisecond ticker and the context. Of those that are
  ready together, the one the runtime picks is taken if it is ready, else the first ready one.
\<close>

definition transfer_timeout :: duration where "transfer_timeout = 15 * Second"
definition transfer_tick :: duration where "transfer_tick = 500000000"

definition pick_ready :: "transfer_case \<Rightarrow> (transfer_case \<times> time) list \<Rightarrow> time \<Rightarrow> transfer_case" where
  "pick_ready p cases t =
     (let ready = filter (\<lambda>c. snd c \<le> t) cases
      in if p \<in> fst ` set ready then p else fst (hd ready))"

definition transfer_wake :: "shutdown_env \<Rightarrow> time \<Rightarrow> time \<Rightarrow> nat \<Rightarrow> transfer_case \<times> time" where
  "transfer_wake e deadline begun k =
     (let cases = [(PickTimeout, begun + transfer_timeout), (PickTick, begun + int (Suc k) * transfer_tick),
                   (PickDone, deadline)];
          t = max (begun + int k * transfer_tick)
                (min (begun + transfer_timeout) (min (begun + int (Suc k) * transfer_tick) deadline))
      in (pick_ready (se_pickCase e k) cases t, t))"

lemma transfer_wake_time:
  assumes "transfer_wake e deadline begun k = (c, t)"
  shows "begun + int k * transfer_tick \<le> t" "t \<le> max (begun + int k * transfer_tick) deadline"
  using assms by (auto simp: transfer_wake_def Let_def)

lemma transfer_wake_tick:
  assumes "transfer_wake e deadline begun k = (PickTick, t)"
  shows "k < 30" "t = begun + int (Suc k) * transfer_tick"
proof -
  let ?cases = "[(PickTimeout, begun + transfer_timeout), (PickTick, begun + int (Suc k) * transfer_tick), (PickDone, deadline)]"
  from assms have t: "t = max (begun + int k * transfer_tick)
      (min (begun + transfer_timeout) (min (begun + int (Suc k) * transfer_tick) deadline))"
    and p: "pick_ready (se_pickCase e k) ?cases t = PickTick"
    by (auto simp: transfer_wake_def Let_def)
  from t have "begun + transfer_timeout \<le> t \<or> begun + int (Suc k) * transfer_tick \<le> t \<or> deadline \<le> t"
    by (simp add: max_def min_def)
  with p have "begun + int (Suc k) * transfer_tick \<le> t"
    by (auto simp: pick_ready_def Let_def split: if_splits)
  moreover have "int k * transfer_tick < int (Suc k) * transfer_tick" by (simp add: transfer_tick_def)
  ultimately have "int (Suc k) * transfer_tick \<le> transfer_timeout" and "t = begun + int (Suc k) * transfer_tick"
    using t by linarith+
  then show "k < 30" "t = begun + int (Suc k) * transfer_tick"
    by (simp_all add: transfer_tick_def transfer_timeout_def Second_def)
qed

text \<open>
  Round \<open>k\<close> begins at the \<open>k\<close>-th tick. The result: does the loop end because of
  the context, and when?
\<close>

function transfer_loop ::
  "shutdown_env \<Rightarrow> (time \<Rightarrow> LeaderElectionManager) \<Rightarrow> time \<Rightarrow> time \<Rightarrow> nat \<Rightarrow> bool \<times> time" where
  "transfer_loop e l deadline begun k =
     (case transfer_wake e deadline begun k of
        (PickTimeout, t) \<Rightarrow> (False, t)
      | (PickTick, t) \<Rightarrow> if \<not> IsLeader (l t) then (False, t) else transfer_loop e l deadline begun (Suc k)
      | (PickDone, t) \<Rightarrow> (True, t))"
  by pat_completeness auto
termination
  by (relation "measure (\<lambda>(e, l, deadline, begun, k). 30 - k)") (auto dest!: transfer_wake_tick(1) [OF sym])

declare transfer_loop.simps [simp del]


text \<open>
  \<open>transferLeadership\<close>. Deleting the lease has a context of its own, so the deadline of
  the shutdown does not cut it short; its failure is logged and the wait goes on.
\<close>

definition transferLeadership :: "shutdown_env \<Rightarrow> time \<Rightarrow> time \<Rightarrow> ShutdownManager \<Rightarrow> shutdown_error option timed" where
  "transferLeadership e deadline now sm =
     (let sm = updateComponentState now ''leader-election'' ShutdownStateStarted sm;
          completed = (\<lambda>t. updateComponentState t ''leader-election'' ShutdownStateCompleted)
      in case Option.bind (sm_operator sm) so_leaderElection of
           None \<Rightarrow> (None, now, completed now sm)
         | Some l \<Rightarrow>
             if \<not> IsLeader (l now) then (None, now, completed now sm)
             else
               (let (returned, deleteError) = se_deleteLease e now;
                    calls_api = Resign (Some []) (l now) = Some (DeleteFailed []);
                    begun = (if calls_api then returned else now);
                    sm = (if Resign deleteError (l now) = None then log_effect begun LeaseReleased sm else sm);
                    (ended, t) = transfer_loop e l deadline begun 0
                in (if ended then Some ContextEnded else None, t, completed t sm)))"

definition drainConnections :: "time \<Rightarrow> ShutdownManager \<Rightarrow> shutdown_error option timed" where
  "drainConnections now sm =
     (None, now, updateComponentState now ''connection-drain'' ShutdownStateCompleted
       (updateComponentState now ''connection-drain'' ShutdownStateStarted sm))"

definition reconciliationWaitTime :: "ShutdownConfig \<Rightarrow> duration" where
  "reconciliationWaitTime c =
     (if sd_GracefulTimeout c > 0
      then (let third = go_div (sd_GracefulTimeout c) 3 in if third > 30 * Second then 30 * Second else third)
      else 5 * Second)"

definition finishReconciliations :: "shutdown_env \<Rightarrow> time \<Rightarrow> time \<Rightarrow> ShutdownManager \<Rightarrow> shutdown_error option timed" where
  "finishReconciliations e deadline now sm =
     (let sm = updateComponentState now ''reconciliation'' ShutdownStateStarted sm
      in if sm_operator sm = None
         then (None, now, updateComponentState now ''reconciliation'' ShutdownStateCompleted sm)
         else
           (let (ended, t) =
              select_timer (se_pickDone e ''reconciliation'') now (reconciliationWaitTime (sm_config sm)) deadline
            in (if ended then Some ContextEnded else None, t,
                updateComponentState t ''reconciliation'' ShutdownStateCompleted sm)))"

text \<open>
  \<open>ShutdownCancelled\<close> is the cancellation of the manager's own shutdown context. The
  controllers do not run under that context, and nothing else in the repository does.
\<close>

definition stopControllers :: "time \<Rightarrow> ShutdownManager \<Rightarrow> shutdown_error option timed" where
  "stopControllers now sm =
     (let sm = updateComponentState now ''controllers'' ShutdownStateStarted sm;
          sm = (case sm_operator sm of
                  None \<Rightarrow> sm
                | Some p \<Rightarrow> if so_Manager p then log_effect now ShutdownCancelled sm else sm)
      in (None, now, updateComponentState now ''controllers'' ShutdownStateCompleted sm))"

text \<open>The list of clean-up errors of the source stays empty, so its error branch is not reached.\<close>

definition cleanupResources :: "time \<Rightarrow> time \<Rightarrow> ShutdownManager \<Rightarrow> shutdown_error option timed" where
  "cleanupResources deadline now sm =
     (let sm = updateComponentState now ''cleanup'' ShutdownStateStarted sm
      in if sm_operator sm = None
         then (None, now, updateComponentState now ''cleanup'' ShutdownStateCompleted sm)
         else
           (let sm = (if has_health sm then log_effect now HealthFailed (set_health (SetUnhealthy ''shutdown complete'') sm) else sm)
            in (if deadline \<le> now then Some ContextEnded else None, now,
                updateComponentState now ''cleanup'' ShutdownStateCompleted sm)))"

section \<open>The whole sequence\<close>

text \<open>One phase after another; the first error ends the sequence.\<close>

definition and_then ::
  "shutdown_error option timed \<Rightarrow> (time \<Rightarrow> ShutdownManager \<Rightarrow> shutdown_error option timed) \<Rightarrow> shutdown_error option timed" where
  "and_then r next = (case r of (Some err, now, sm) \<Rightarrow> (Some err, now, sm) | (None, now, sm) \<Rightarrow> next now sm)"

text \<open>The second phase may fail without consequences.\<close>

definition ignore_error :: "shutdown_error option timed \<Rightarrow> shutdown_error option timed" where
  "ignore_error r = (case r of (err, now, sm) \<Rightarrow> (None, now, sm))"

definition when_enabled ::
  "bool \<Rightarrow> (time \<Rightarrow> ShutdownManager \<Rightarrow> shutdown_error option timed) \<Rightarrow> time \<Rightarrow> ShutdownManager \<Rightarrow> shutdown_error option timed" where
  "when_enabled b phase now sm = (if b then phase now sm else (None, now, sm))"

definition performGracefulShutdown :: "shutdown_env \<Rightarrow> time \<Rightarrow> time \<Rightarrow> ShutdownManager \<Rightarrow> shutdown_error option timed" where
  "performGracefulShutdown e deadline now sm =
     and_then (and_then (and_then (and_then (and_then
       (stopNewRequests e deadline now sm)
       (\<lambda>now sm. when_enabled (sd_WaitForLeaderElection (sm_config sm) \<and> sm_operator sm \<noteq> None)
          (\<lambda>now sm. ignore_error (transferLeadership e deadline now sm)) now sm))
       (\<lambda>now sm. when_enabled (sd_DrainConnections (sm_config sm)) drainConnections now sm))
       (\<lambda>now sm. when_enabled (sd_FinishReconciliation (sm_config sm)) (finishReconciliations e deadline) now sm))
       stopControllers)
       (cleanupResources deadline)"

text \<open>The forced stop cancels everything and waits a second, at most its own timeout.\<close>

definition performForceShutdown :: "shutdown_env \<Rightarrow> time \<Rightarrow> ShutdownManager \<Rightarrow> shutdown_error option timed" where
  "performForceShutdown e now sm =
     (let sm = log_effect now ShutdownCancelled sm;
          (ended, t) = select_timer (se_pickDone e ''force'') now (1 * Second) (now + sd_ForceTimeout (sm_config sm))
      in (None, t, sm))"

fun executeHooks ::
  "string \<Rightarrow> time \<Rightarrow> nat \<Rightarrow> ShutdownHook list \<Rightarrow> time \<Rightarrow> ShutdownManager \<Rightarrow> shutdown_error option timed" where
  "executeHooks name deadline i [] now sm = (None, now, sm)"
| "executeHooks name deadline i (hook # hooks) now sm =
     (let hookName = name @ FormatInt (int i);
          sm = updateComponentState now hookName ShutdownStateStarted sm
      in case hook now deadline of
           (t, Some err) \<Rightarrow>
             (Some (HookFailed i err), t, updateComponentStateWithError t hookName ShutdownStateFailed (Some err) sm)
         | (t, None) \<Rightarrow>
             executeHooks name deadline (Suc i) hooks t (updateComponentState t hookName ShutdownStateCompleted sm))"

definition executePreShutdownHooks :: "time \<Rightarrow> time \<Rightarrow> ShutdownManager \<Rightarrow> shutdown_error option timed" where
  "executePreShutdownHooks deadline now sm =
     executeHooks ''pre-shutdown-hook-'' deadline 0 (sd_PreShutdownHooks (sm_config sm)) now sm"

definition executePostShutdownHooks :: "time \<Rightarrow> time \<Rightarrow> ShutdownManager \<Rightarrow> shutdown_error option timed" where
  "executePostShutdownHooks deadline now sm =
     executeHooks ''post-shutdown-hook-'' deadline 0 (sd_PostShutdownHooks (sm_config sm)) now sm"

text \<open>The part of \<^verbatim>\<open>initiateShutdown\<close> under the lock.\<close>

definition begin_shutdown :: "time \<Rightarrow> string \<Rightarrow> ShutdownManager \<Rightarrow> ShutdownManager" where
  "begin_shutdown now reason sm =
     sm\<lparr>sm_shutdownStarted := True, sm_shutdownReason := reason, sm_shutdownTime := now\<rparr>"

definition initiateShutdown :: "shutdown_env \<Rightarrow> time \<Rightarrow> string \<Rightarrow> ShutdownManager \<Rightarrow> shutdown_error option timed" where
  "initiateShutdown e now reason sm =
     (if sm_shutdownStarted sm then (Some AlreadyStarted, now, sm)
      else
        (let sm = begin_shutdown now reason sm;
             deadline = now + sd_GracefulTimeout (sm_config sm);
             now = (if sd_PreShutdownDelay (sm_config sm) > 0 then now + sd_PreShutdownDelay (sm_config sm) else now);
             (preErr, now, sm) = executePreShutdownHooks deadline now sm
         in case performGracefulShutdown e deadline now sm of
              (Some err, now, sm) \<Rightarrow> performForceShutdown e now sm
            | (None, now, sm) \<Rightarrow>
                (let (postErr, now, sm) = executePostShutdownHooks deadline now sm in (None, now, sm))))"

text \<open>What \<^verbatim>\<open>Start\<close> waits for, and the reason it passes on.\<close>

datatype shutdown_trigger = Signal string | ContextCancelled

definition StartShutdownManager :: "shutdown_env \<Rightarrow> time \<Rightarrow> shutdown_trigger \<Rightarrow> ShutdownManager \<Rightarrow> shutdown_error option timed" where
  "StartShutdownManager e now trigger sm =
     initiateShutdown e now
       (case trigger of Signal sig \<Rightarrow> ''signal: '' @ sig | ContextCancelled \<Rightarrow> ''context cancelled'') sm"

section \<open>Status\<close>

record ShutdownStatus =
  ss_Started :: bool
  ss_Reason :: string
  ss_StartTime :: time
  ss_ComponentStates :: "(string \<times> ComponentShutdownState) list"

definition GetShutdownStatus :: "ShutdownManager \<Rightarrow> ShutdownStatus" where
  "GetShutdownStatus sm =
     \<lparr>ss_Started = sm_shutdownStarted sm, ss_Reason = sm_shutdownReason sm, ss_StartTime = sm_shutdownTime sm,
      ss_ComponentStates = sm_componentStates sm\<rparr>"

definition IsCompleted :: "ShutdownStatus \<Rightarrow> bool" where
  "IsCompleted ss =
     (ss_Started ss \<and>
      list_all (\<lambda>(k, c). cs_State c = ShutdownStateCompleted \<or> cs_State c = ShutdownStateFailed) (ss_ComponentStates ss))"

definition HasErrors :: "ShutdownStatus \<Rightarrow> bool" where
  "HasErrors ss =
     list_ex (\<lambda>(k, c). cs_State c = ShutdownStateFailed \<or> cs_Error c \<noteq> None) (ss_ComponentStates ss)"

definition GetDuration :: "time \<Rightarrow> ShutdownStatus \<Rightarrow> duration" where
  "GetDuration now ss = (if \<not> ss_Started ss then 0 else time_sub now (ss_StartTime ss))"


section \<open>How long a shutdown takes\<close>

abbreviation end_time :: "'a timed \<Rightarrow> time" where
  "end_time r \<equiv> fst (snd r)"

abbreviation end_state :: "'a timed \<Rightarrow> ShutdownManager" where
  "end_state r \<equiv> snd (snd r)"

lemma state_frame [simp]:
  "sm_config (updateComponentStateWithError t n st err sm) = sm_config sm"
  "sm_config (updateComponentState t n st sm) = sm_config sm"
  "sm_config (log_effect t ef sm) = sm_config sm"
  "sm_config (set_health f sm) = sm_config sm"
  "sm_operator (updateComponentStateWithError t n st err sm) = sm_operator sm"
  "sm_operator (updateComponentState t n st sm) = sm_operator sm"
  "sm_operator (log_effect t ef sm) = sm_operator sm"
  "sm_log (updateComponentStateWithError t n st err sm) = sm_log sm"
  "sm_log (updateComponentState t n st sm) = sm_log sm"
  "sm_log (set_health f sm) = sm_log sm"
  "sm_log (log_effect t ef sm) = sm_log sm @ [(t, ef)]"
  "has_health (set_health f sm) = has_health sm"
  "has_health (updateComponentState t n st sm) = has_health sm"
  by (simp_all add: updateComponentState_def updateComponentStateWithError_def log_effect_def set_health_def
      has_health_def Let_def split: option.splits)

lemma set_health_operator [simp]:
  "sm_operator (set_health f sm) = None \<longleftrightarrow> sm_operator sm = None"
  "Option.bind (sm_operator (set_health f sm)) so_leaderElection = Option.bind (sm_operator sm) so_leaderElection"
  "map_option so_Manager (sm_operator (set_health f sm)) = map_option so_Manager (sm_operator sm)"
  by (cases "sm_operator sm"; simp add: set_health_def)+

text \<open>What a phase promises: it ends no later than the context allows and keeps the configuration.\<close>

definition in_time :: "duration \<Rightarrow> time \<Rightarrow> time \<Rightarrow> ShutdownManager \<Rightarrow> 'a timed \<Rightarrow> bool" where
  "in_time slack deadline now sm r \<longleftrightarrow>
     now \<le> end_time r \<and> end_time r \<le> max now deadline + slack \<and> sm_config (end_state r) = sm_config sm"

lemma in_time_stopNewRequests: "in_time 0 deadline now sm (stopNewRequests e deadline now sm)"
proof (cases "sd_PreShutdownDelay (sm_config sm) > 0")
  case True
  obtain b t where w: "select_timer (se_pickDone e ''http-server'') now (sd_PreShutdownDelay (sm_config sm)) deadline = (b, t)"
    by fastforce
  from select_timer_bounds [OF w] True w show ?thesis
    by (cases b) (auto simp: in_time_def stopNewRequests_def Let_def)
qed (auto simp: in_time_def stopNewRequests_def Let_def)

lemma transfer_loop_time:
  "transfer_loop e l deadline begun k = (b, t) \<Longrightarrow>
   begun + int k * transfer_tick \<le> t \<and> t \<le> max (begun + int k * transfer_tick) deadline"
proof (induction e l deadline begun k rule: transfer_loop.induct)
  case (1 e l deadline begun k)
  obtain c w where w: "transfer_wake e deadline begun k = (c, w)" by fastforce
  note wt = transfer_wake_time [OF w]
  show ?case
  proof (cases "c = PickTick \<and> IsLeader (l w)")
    case True
    with "1.prems" w have "transfer_loop e l deadline begun (Suc k) = (b, t)"
      by (subst (asm) transfer_loop.simps) simp
    with "1.IH" [OF w [symmetric]] True
    have "begun + int (Suc k) * transfer_tick \<le> t \<and> t \<le> max (begun + int (Suc k) * transfer_tick) deadline" by simp
    moreover from transfer_wake_tick(2) True w wt have "begun + int (Suc k) * transfer_tick \<le> max (begun + int k * transfer_tick) deadline"
      by metis
    ultimately show ?thesis by (simp add: transfer_tick_def algebra_simps)
  next
    case False
    with "1.prems" w have "t = w" by (subst (asm) transfer_loop.simps) (auto split: transfer_case.splits if_splits)
    with wt show ?thesis by simp
  qed
qed

lemma in_time_transferLeadership:
  assumes "\<And>t. t \<le> fst (se_deleteLease e t) \<and> fst (se_deleteLease e t) \<le> t + 10 * Second"
  shows "in_time (10 * Second) deadline now sm (transferLeadership e deadline now sm)"
proof -
  have s: "(0::int) \<le> 10 * Second" by (simp add: Second_def)
  show ?thesis
  proof (cases "Option.bind (sm_operator sm) so_leaderElection")
    case None
    with s show ?thesis by (simp add: transferLeadership_def in_time_def Let_def)
  next
    case (Some l)
    obtain returned err where d: "se_deleteLease e now = (returned, err)" by fastforce
    with assms [of now] have r: "now \<le> returned" "returned \<le> now + 10 * Second" by simp_all
    define begun where "begun = (if Resign (Some []) (l now) = Some (DeleteFailed []) then returned else now)"
    with r s have b: "now \<le> begun" "begun \<le> now + 10 * Second" by auto
    obtain ended t where t: "transfer_loop e l deadline begun 0 = (ended, t)" by fastforce
    from transfer_loop_time [OF t] b have "now \<le> t" "t \<le> max now deadline + 10 * Second" by auto
    with s Some d t show ?thesis
      by (simp add: transferLeadership_def in_time_def Let_def begun_def [symmetric])
  qed
qed

lemma in_time_finishReconciliations: "in_time 0 deadline now sm (finishReconciliations e deadline now sm)"
proof -
  obtain b t where w: "select_timer (se_pickDone e ''reconciliation'') now (reconciliationWaitTime (sm_config sm)) deadline = (b, t)"
    by fastforce
  from select_timer_bounds [OF w] w show ?thesis
    by (auto simp: in_time_def finishReconciliations_def Let_def)
qed

lemma in_time_rest:
  "in_time 0 deadline now sm (drainConnections now sm)"
  "in_time 0 deadline now sm (stopControllers now sm)"
  "in_time 0 deadline now sm (cleanupResources deadline now sm)"
  by (auto simp: in_time_def drainConnections_def stopControllers_def cleanupResources_def Let_def split: option.splits)

lemma in_time_refl: "0 \<le> s \<Longrightarrow> in_time s deadline now sm (err, now, sm)"
  by (simp add: in_time_def)

lemma in_time_mono: "in_time s deadline now sm r \<Longrightarrow> s \<le> s' \<Longrightarrow> in_time s' deadline now sm r"
  by (auto simp: in_time_def)

lemma in_time_ignore [simp]: "in_time s deadline now sm (ignore_error r) = in_time s deadline now sm r"
  by (auto simp: in_time_def ignore_error_def split: prod.splits)

lemma in_time_when: "0 \<le> s \<Longrightarrow> in_time s deadline now sm (phase now sm) \<Longrightarrow> in_time s deadline now sm (when_enabled b phase now sm)"
  by (simp add: when_enabled_def in_time_refl)

text \<open>Slack adds up along the sequence.\<close>

lemma in_time_and_then:
  assumes "in_time s deadline now sm r" and "0 \<le> s" and "0 \<le> s'"
    and "\<And>t sm'. sm_config sm' = sm_config sm \<Longrightarrow> in_time s' deadline t sm' (next t sm')"
  shows "in_time (s + s') deadline now sm (and_then r next)"
proof -
  obtain err t sm' where r: "r = (err, t, sm')" by (cases r) auto
  from assms(1) r have b: "now \<le> t" "t \<le> max now deadline + s" "sm_config sm' = sm_config sm"
    by (simp_all add: in_time_def)
  with assms(2,3) have "t \<le> max now deadline + (s + s')" "max t deadline + s' \<le> max now deadline + (s + s')"
    by linarith+
  with b r assms(4) [OF b(3), of t] show ?thesis
    by (cases err) (auto simp: in_time_def and_then_def)
qed

lemma in_time_graceful:
  assumes "\<And>t. t \<le> fst (se_deleteLease e t) \<and> fst (se_deleteLease e t) \<le> t + 10 * Second"
  shows "in_time (10 * Second) deadline now sm (performGracefulShutdown e deadline now sm)"
proof -
  have s: "(0::int) \<le> 10 * Second" by (simp add: Second_def)
  have "in_time (((((0 + 10 * Second) + 0) + 0) + 0) + 0) deadline now sm (performGracefulShutdown e deadline now sm)"
    unfolding performGracefulShutdown_def
    by (intro in_time_and_then in_time_stopNewRequests in_time_rest in_time_finishReconciliations in_time_when s order_refl)
      (use s in \<open>simp_all add: in_time_transferLeadership [OF assms]\<close>)
  then show ?thesis by simp
qed

definition hook_in_time :: "ShutdownHook \<Rightarrow> bool" where
  "hook_in_time h \<longleftrightarrow> (\<forall>now deadline. now \<le> fst (h now deadline) \<and> fst (h now deadline) \<le> max now deadline)"

lemma in_time_hooks:
  "(\<And>h. h \<in> set hooks \<Longrightarrow> hook_in_time h) \<Longrightarrow> in_time 0 deadline now sm (executeHooks name deadline i hooks now sm)"
proof (induction hooks arbitrary: i now sm)
  case (Cons h hooks)
  obtain t err where h: "h now deadline = (t, err)" by fastforce
  from Cons.prems [of h] h have t: "now \<le> t" "t \<le> max now deadline"
    unfolding hook_in_time_def by (metis fst_conv list.set_intros(1))+
  show ?case
  proof (cases err)
    case None
    from Cons.IH [of t "updateComponentState t (name @ FormatInt (int i)) ShutdownStateCompleted
        (updateComponentState now (name @ FormatInt (int i)) ShutdownStateStarted sm)" "Suc i"] Cons.prems t h None
    show ?thesis by (auto simp: in_time_def Let_def)
  qed (use t h in \<open>auto simp: in_time_def Let_def\<close>)
qed (simp add: in_time_refl)

lemma hooks_in_time:
  assumes "\<And>h. h \<in> set (sd_PreShutdownHooks (sm_config sm) @ sd_PostShutdownHooks (sm_config sm)) \<Longrightarrow> hook_in_time h"
  shows "executePreShutdownHooks deadline now sm = (err, t, s) \<Longrightarrow>
      now \<le> t \<and> t \<le> max now deadline \<and> sm_config s = sm_config sm" (is "?pre \<Longrightarrow> ?in_time")
    and "executePostShutdownHooks deadline now sm = (err, t, s) \<Longrightarrow>
      now \<le> t \<and> t \<le> max now deadline \<and> sm_config s = sm_config sm" (is "?post \<Longrightarrow> _")
proof -
  have "in_time 0 deadline now sm (executePreShutdownHooks deadline now sm)"
    "in_time 0 deadline now sm (executePostShutdownHooks deadline now sm)"
    unfolding executePreShutdownHooks_def executePostShutdownHooks_def using assms by (auto intro: in_time_hooks)
  then show "?pre \<Longrightarrow> ?in_time" "?post \<Longrightarrow> ?in_time" by (auto simp: in_time_def)
qed

text \<open>
  C10: Whatever the phases, the leader election and the scheduler do, a shutdown returns: no later
  than the longer of the initial delay and the graceful timeout, plus the ten seconds the
  deletion of the lease may take and the second of the forced stop. It reports no error.
\<close>

theorem shutdown_returns_in_time:
  assumes "\<not> sm_shutdownStarted sm"
    and "\<And>h. h \<in> set (sd_PreShutdownHooks (sm_config sm) @ sd_PostShutdownHooks (sm_config sm)) \<Longrightarrow> hook_in_time h"
    and "\<And>t. t \<le> fst (se_deleteLease e t) \<and> fst (se_deleteLease e t) \<le> t + 10 * Second"
  shows "\<exists>t sm'. initiateShutdown e now reason sm = (None, t, sm') \<and> now \<le> t \<and>
    t \<le> now + max (max 0 (sd_PreShutdownDelay (sm_config sm))) (sd_GracefulTimeout (sm_config sm)) + 11 * Second"
proof -
  let ?c = "sm_config sm" and ?D = "now + sd_GracefulTimeout (sm_config sm)"
  let ?n = "if sd_PreShutdownDelay ?c > 0 then now + sd_PreShutdownDelay ?c else now"
  let ?sm = "begin_shutdown now reason sm"
  have c0: "sm_config ?sm = ?c" by (simp add: begin_shutdown_def)
  obtain e1 t1 s1 where 1: "executePreShutdownHooks ?D ?n ?sm = (e1, t1, s1)" by (cases "executePreShutdownHooks ?D ?n ?sm") auto
  from hooks_in_time(1) [OF _ 1] assms(2) c0 have b1: "?n \<le> t1" "t1 \<le> max ?n ?D" "sm_config s1 = ?c" by simp_all
  obtain e2 t2 s2 where 2: "performGracefulShutdown e ?D t1 s1 = (e2, t2, s2)" by (cases "performGracefulShutdown e ?D t1 s1") auto
  from in_time_graceful [OF assms(3), of ?D t1 s1] 2 b1(3)
  have b2: "t1 \<le> t2" "t2 \<le> max t1 ?D + 10 * Second" "sm_config s2 = ?c" by (auto simp: in_time_def)
  let ?B = "max ?n ?D + 10 * Second"
  from b1(2) b2(2) have B: "t2 \<le> ?B" by linarith
  have n: "?n = now + max 0 (sd_PreShutdownDelay ?c)" by simp
  have goal: "\<exists>t sm'. initiateShutdown e now reason sm = (None, t, sm') \<and> now \<le> t \<and> t \<le> ?B + 1 * Second"
  proof (cases e2)
    case None
    obtain e3 t3 s3 where 3: "executePostShutdownHooks ?D t2 s2 = (e3, t3, s3)" by (cases "executePostShutdownHooks ?D t2 s2") auto
    from hooks_in_time(2) [OF _ 3] assms(2) b2(3) have "t2 \<le> t3" "t3 \<le> max t2 ?D" by simp_all
    moreover have "?D \<le> ?B" "(0::int) \<le> 1 * Second" by (simp_all add: Second_def)
    ultimately have "now \<le> t3" "t3 \<le> ?B + 1 * Second" using b1(1) b2(1) B n by linarith+
    moreover have "initiateShutdown e now reason sm = (None, t3, s3)"
      unfolding initiateShutdown_def Let_def if_not_P [OF assms(1)] c0 1 prod.case 2 None option.case 3 ..
    ultimately show ?thesis by blast
  next
    case (Some err)
    obtain b t3 where 3: "select_timer (se_pickDone e ''force'') t2 (1 * Second) (t2 + sd_ForceTimeout ?c) = (b, t3)"
      by fastforce
    from select_timer_bounds [OF 3] have "t2 \<le> t3" "t3 \<le> t2 + 1 * Second" by (simp_all add: Second_def)
    with b1(1) b2(1) B n have "now \<le> t3" "t3 \<le> ?B + 1 * Second" by linarith+
    moreover have "initiateShutdown e now reason sm = (None, t3, log_effect t2 ShutdownCancelled s2)"
      unfolding initiateShutdown_def performForceShutdown_def Let_def if_not_P [OF assms(1)] c0 1 prod.case 2 Some
        option.case state_frame b2(3) 3 ..
    ultimately show ?thesis by blast
  qed
  moreover have "?B + 1 * Second = now + max (max 0 (sd_PreShutdownDelay ?c)) (sd_GracefulTimeout ?c) + 11 * Second"
    unfolding n by (simp add: max_add_distrib_right Second_def)
  ultimately show ?thesis by metis
qed


section \<open>The order of a graceful shutdown\<close>

definition same_parts :: "ShutdownManager \<Rightarrow> ShutdownManager \<Rightarrow> bool" where
  "same_parts sm s \<longleftrightarrow> sm_config s = sm_config sm \<and> has_health s = has_health sm \<and>
     map_option so_Manager (sm_operator s) = map_option so_Manager (sm_operator sm) \<and>
     Option.bind (sm_operator s) so_leaderElection = Option.bind (sm_operator sm) so_leaderElection"

lemma has_health_log [simp]: "has_health (log_effect t ef sm) = has_health sm"
  by (simp add: has_health_def log_effect_def)

lemma same_parts_trans: "same_parts a b \<Longrightarrow> same_parts b c \<Longrightarrow> same_parts a c"
  by (simp add: same_parts_def)

lemma and_thenE:
  assumes "and_then r next = (None, t, s)"
  obtains t1 s1 where "r = (None, t1, s1)" "next t1 s1 = (None, t, s)"
  using assms by (auto simp: and_then_def split: prod.splits option.splits)

lemma stopNewRequests_ok:
  assumes "stopNewRequests e deadline now sm = (None, t, s)"
  shows "t = now + max 0 (sd_PreShutdownDelay (sm_config sm))" "same_parts sm s"
    "sm_log s = sm_log sm @ (if has_health sm then [(now, ReadinessFailed)] else [])"
proof -
  obtain b u where w: "select_timer (se_pickDone e ''http-server'') now (sd_PreShutdownDelay (sm_config sm)) deadline = (b, u)"
    by fastforce
  from select_timer_bounds(3) [OF w] assms w
  show "t = now + max 0 (sd_PreShutdownDelay (sm_config sm))" "same_parts sm s"
    "sm_log s = sm_log sm @ (if has_health sm then [(now, ReadinessFailed)] else [])"
    by (auto simp: stopNewRequests_def Let_def same_parts_def split: if_splits)
qed

text \<open>
  The release of the lease by a manager that reads \<open>l\<close> at \<open>now\<close>: it happens exactly when
  the manager leads, has an elector and the deletion succeeds, and is done when the call that
  deletes the lease returns.
\<close>

definition lease_release :: "shutdown_env \<Rightarrow> time \<Rightarrow> (time \<Rightarrow> LeaderElectionManager) option \<Rightarrow> (time \<times> shutdown_effect) list" where
  "lease_release e now election =
     (case election of
        None \<Rightarrow> []
      | Some l \<Rightarrow>
          if IsLeader (l now) \<and> lec_Enabled (lm_config (l now)) \<and> lm_elector (l now) \<and>
             snd (se_deleteLease e now) = None
          then [(fst (se_deleteLease e now), LeaseReleased)] else [])"

lemma Resign_None: "Resign d l = None \<longleftrightarrow> lec_Enabled (lm_config l) \<and> lm_isLeader l \<and> lm_elector l \<and> d = None"
  "Resign (Some []) l = Some (DeleteFailed []) \<longleftrightarrow> lec_Enabled (lm_config l) \<and> lm_isLeader l \<and> lm_elector l"
  by (auto simp: Resign_def)

lemma transferLeadership_log:
  assumes "transferLeadership e deadline now sm = (err, t, s)" and d: "\<And>t. t \<le> fst (se_deleteLease e t)"
  defines "released \<equiv> lease_release e now (Option.bind (sm_operator sm) so_leaderElection)"
  shows "now \<le> t \<and> same_parts sm s \<and> sm_log s = sm_log sm @ released \<and> (\<forall>x \<in> set released. now \<le> fst x \<and> fst x \<le> t)"
proof (cases "Option.bind (sm_operator sm) so_leaderElection")
  case None
  with assms(1) show ?thesis by (auto simp: transferLeadership_def Let_def same_parts_def released_def lease_release_def)
next
  case (Some l)
  obtain returned derr where r: "se_deleteLease e now = (returned, derr)" by fastforce
  define begun where "begun = (if Resign (Some []) (l now) = Some (DeleteFailed []) then returned else now)"
  with d [of now] r have b: "now \<le> begun" by auto
  obtain ended u where u: "transfer_loop e l deadline begun 0 = (ended, u)" by fastforce
  from transfer_loop_time [OF u] have "begun \<le> u" by simp
  with b assms(1) Some r u show ?thesis
    by (auto simp: transferLeadership_def Let_def begun_def [symmetric] same_parts_def released_def lease_release_def
        Resign_None IsLeader_def split: if_splits) (auto simp: begun_def Resign_None IsLeader_def)
qed

lemma finishReconciliations_ok:
  assumes "finishReconciliations e deadline now sm = (None, t, s)" and "sm_operator sm \<noteq> None"
  shows "t = now + max 0 (reconciliationWaitTime (sm_config sm))" "same_parts sm s" "sm_log s = sm_log sm"
proof -
  obtain b u where w: "select_timer (se_pickDone e ''reconciliation'') now (reconciliationWaitTime (sm_config sm)) deadline = (b, u)"
    by fastforce
  from select_timer_bounds(3) [OF w] assms w
  show "t = now + max 0 (reconciliationWaitTime (sm_config sm))" "same_parts sm s" "sm_log s = sm_log sm"
    by (auto simp: finishReconciliations_def Let_def same_parts_def split: if_splits)
qed

lemma last_phases_ok:
  "drainConnections now sm = (None, t, s) \<Longrightarrow> t = now \<and> same_parts sm s \<and> sm_log s = sm_log sm"
  "stopControllers now sm = (None, t, s) \<Longrightarrow> map_option so_Manager (sm_operator sm) = Some True \<Longrightarrow>
     t = now \<and> same_parts sm s \<and> sm_log s = sm_log sm @ [(now, ShutdownCancelled)]"
  "cleanupResources deadline now sm = (None, t, s) \<Longrightarrow> sm_operator sm \<noteq> None \<Longrightarrow> has_health sm \<Longrightarrow>
     t = now \<and> now < deadline \<and> sm_log s = sm_log sm @ [(now, HealthFailed)]"
  by (auto simp: drainConnections_def stopControllers_def cleanupResources_def Let_def same_parts_def split: if_splits)

lemma lease_phase_ok:
  assumes "when_enabled b (\<lambda>now sm. ignore_error (transferLeadership e deadline now sm)) t1 s1 = (None, t2, s2)"
    and "\<And>t. t \<le> fst (se_deleteLease e t)"
  defines "released \<equiv> if b then lease_release e t1 (Option.bind (sm_operator s1) so_leaderElection) else []"
  shows "t1 \<le> t2 \<and> same_parts s1 s2 \<and> sm_log s2 = sm_log s1 @ released \<and> (\<forall>x \<in> set released. t1 \<le> fst x \<and> fst x \<le> t2)"
proof (cases b)
  case True
  with assms(1) obtain err where "transferLeadership e deadline t1 s1 = (err, t2, s2)"
    by (auto simp: when_enabled_def ignore_error_def split: prod.splits)
  from transferLeadership_log [OF this assms(2)] True show ?thesis by (simp add: released_def)
qed (use assms(1) in \<open>auto simp: when_enabled_def same_parts_def released_def\<close>)

text \<open>
  C23: A graceful shutdown of a complete operator fails readiness first and lets the load balancers
  have the delay. Then, if it is to wait for the election and this instance leads, it gives
  up the lease: exactly once when the lease can be deleted, not at all otherwise. Only after
  that and after the time for the reconciliations is the shutdown context cancelled; health
  fails last. All of it is before the deadline, and nothing else is done. (The cancelled
  context is created by the shutdown manager; no other part of the repository waits for it.)
\<close>

theorem graceful_shutdown_order:
  assumes run: "performGracefulShutdown e deadline now sm = (None, t, s)"
    and parts: "has_health sm" "map_option so_Manager (sm_operator sm) = Some True"
    and finish: "sd_FinishReconciliation (sm_config sm)"
    and lease: "\<And>t. t \<le> fst (se_deleteLease e t)"
  defines "drained \<equiv> now + max 0 (sd_PreShutdownDelay (sm_config sm))"
    and "wait \<equiv> max 0 (reconciliationWaitTime (sm_config sm))"
  defines "released \<equiv> if sd_WaitForLeaderElection (sm_config sm)
      then lease_release e drained (Option.bind (sm_operator sm) so_leaderElection) else []"
  shows "sm_log s = sm_log sm @ [(now, ReadinessFailed)] @ released @ [(t, ShutdownCancelled), (t, HealthFailed)] \<and>
    (\<forall>x \<in> set released. drained \<le> fst x \<and> fst x + wait \<le> t) \<and> drained + wait \<le> t \<and> t < deadline"
proof -
  from run obtain t1 s1 t2 s2 t3 s3 t4 s4 t5 s5 where
    1: "stopNewRequests e deadline now sm = (None, t1, s1)" and
    2: "when_enabled (sd_WaitForLeaderElection (sm_config s1) \<and> sm_operator s1 \<noteq> None)
          (\<lambda>now sm. ignore_error (transferLeadership e deadline now sm)) t1 s1 = (None, t2, s2)" and
    3: "when_enabled (sd_DrainConnections (sm_config s2)) drainConnections t2 s2 = (None, t3, s3)" and
    4: "when_enabled (sd_FinishReconciliation (sm_config s3)) (finishReconciliations e deadline) t3 s3 = (None, t4, s4)" and
    5: "stopControllers t4 s4 = (None, t5, s5)" and 6: "cleanupResources deadline t5 s5 = (None, t, s)"
    unfolding performGracefulShutdown_def by (elim and_thenE) blast
  note s1 = stopNewRequests_ok [OF 1]
  note s2 = lease_phase_ok [OF 2 lease]
  have s3: "t3 = t2 \<and> same_parts s2 s3 \<and> sm_log s3 = sm_log s2"
    using 3 last_phases_ok(1) by (auto simp: when_enabled_def same_parts_def split: if_splits)
  from s1(2) s2 s3 have sp: "same_parts sm s3" by (blast intro: same_parts_trans)
  with finish parts(2) 4 have 4: "finishReconciliations e deadline t3 s3 = (None, t4, s4)" and op: "sm_operator s3 \<noteq> None"
    by (auto simp: same_parts_def when_enabled_def)
  note s4 = finishReconciliations_ok [OF 4 op]
  from sp s4(2) have sp4: "same_parts sm s4" by (rule same_parts_trans)
  then have "map_option so_Manager (sm_operator s4) = Some True"
    unfolding same_parts_def using parts(2) by metis
  with 5 have s5: "t5 = t4 \<and> same_parts s4 s5 \<and> sm_log s5 = sm_log s4 @ [(t4, ShutdownCancelled)]"
    by (rule last_phases_ok(2))
  with sp4 have "same_parts sm s5" by (blast intro: same_parts_trans)
  with parts have "sm_operator s5 \<noteq> None" "has_health s5" by (auto simp: same_parts_def)
  from last_phases_ok(3) [OF 6 this] have s6: "t = t5 \<and> t5 < deadline \<and> sm_log s = sm_log s5 @ [(t5, HealthFailed)]" .
  have "t1 = drained" and rel: "sm_log s2 = sm_log s1 @ released" "\<forall>x \<in> set released. t1 \<le> fst x \<and> fst x \<le> t2"
    using s1(1,2) s2 parts(2) by (auto simp: drained_def released_def same_parts_def)
  have cfg: "sm_config s3 = sm_config sm" using sp by (simp add: same_parts_def)
  have "t2 + wait = t" using s3 s4(1) s5 s6 cfg by (simp add: wait_def)
  moreover have "sm_log s = sm_log sm @ [(now, ReadinessFailed)] @ released @ [(t, ShutdownCancelled), (t, HealthFailed)]"
    using s1(3) parts(1) rel(1) s3 s4(3) s5 s6 by simp
  ultimately show ?thesis using rel(2) s2 s6 \<open>t1 = drained\<close> by fastforce
qed

section \<open>The reported status\<close>

lemma AList_update_map: "map_of (AList.update k v xs) = (map_of xs)(k \<mapsto> v)"
  by (rule update_conv')

text \<open>
  The status says completed from the moment the shutdown begins, before any phase or hook
  has run. If the initial delay is longer than the graceful timeout, the shutdown is cut
  short in its first phase, ends by force, and the status never says completed again.
\<close>

theorem completion_misreported:
  assumes new: "sm = NewShutdownManager (Some c) p" and hooks: "sd_PreShutdownHooks c = []"
    and long: "0 < sd_PreShutdownDelay c" "sd_GracefulTimeout c < sd_PreShutdownDelay c"
  shows "IsCompleted (GetShutdownStatus (begin_shutdown now reason sm)) \<and>
    (\<forall>r t s. initiateShutdown e now reason sm = (r, t, s) \<longrightarrow> r = None \<and> \<not> IsCompleted (GetShutdownStatus s))"
proof -
  let ?D = "now + sd_GracefulTimeout c" and ?n = "now + sd_PreShutdownDelay c"
  let ?sm = "begin_shutdown now reason sm"
  have c: "sm_config sm = c" "sm_config ?sm = c" "\<not> sm_shutdownStarted sm" "sm_componentStates ?sm = []"
    by (simp_all add: new NewShutdownManager_def begin_shutdown_def)
  have w: "select_timer (se_pickDone e ''http-server'') ?n (sd_PreShutdownDelay c) ?D = (True, ?n)"
    using long by (simp add: select_timer_def Let_def)
  let ?u = "updateComponentState ?n ''http-server'' ShutdownStateStarted ?sm"
  define s1 where "s1 = (if has_health ?u then log_effect ?n ReadinessFailed (set_health (SetNotReady ''shutting down'') ?u) else ?u)"
  then have "sm_config s1 = c" and h: "sm_componentStates s1 = sm_componentStates ?u"
    using c(2) by (simp_all add: log_effect_def set_health_def)
  then have s1: "stopNewRequests e ?D ?n ?sm = (Some ContextEnded, ?n, s1)"
    unfolding stopNewRequests_def Let_def s1_def [symmetric] using w long(1) by simp
  from s1 have g: "performGracefulShutdown e ?D ?n ?sm = (Some ContextEnded, ?n, s1)"
    by (simp add: performGracefulShutdown_def and_then_def)
  have pre: "executePreShutdownHooks ?D ?n ?sm = (None, ?n, ?sm)"
    by (simp add: executePreShutdownHooks_def c(2) hooks)
  have run: "initiateShutdown e now reason sm = performForceShutdown e ?n s1"
    unfolding initiateShutdown_def Let_def if_not_P [OF c(3)] c(1,2) if_P [OF long(1)] pre prod.case g option.case ..
  have "\<not> IsCompleted (GetShutdownStatus s1)"
    using h c(4) by (simp add: IsCompleted_def GetShutdownStatus_def updateComponentState_def
        updateComponentStateWithError_def Let_def)
  then have "r = None \<and> \<not> IsCompleted (GetShutdownStatus s)" if "initiateShutdown e now reason sm = (r, t, s)" for r t s
    using that unfolding run
    by (auto simp: performForceShutdown_def Let_def log_effect_def IsCompleted_def GetShutdownStatus_def split: prod.splits)
  moreover have "IsCompleted (GetShutdownStatus ?sm)"
    using c(4) by (simp add: IsCompleted_def GetShutdownStatus_def) (simp add: begin_shutdown_def)
  ultimately show ?thesis by blast
qed

text \<open>A second attempt changes nothing.\<close>

theorem shutdown_starts_once:
  assumes "sm_shutdownStarted sm"
  shows "StartShutdownManager e now trigger sm = (Some AlreadyStarted, now, sm)"
  using assms by (simp add: StartShutdownManager_def initiateShutdown_def)


section \<open>A follower's shutdown\<close>

definition sample_shutdown_env :: shutdown_env where
  "sample_shutdown_env = \<lparr>se_pickDone = (\<lambda>_. False), se_pickCase = (\<lambda>_. PickTick), se_deleteLease = (\<lambda>t. (t + Second, None))\<rparr>"

definition follower :: shutdown_operator where
  "follower = \<lparr>so_healthChecker = Some (NewHealthChecker True True 1 ''spotalis-system''),
     so_leaderElection = Some (\<lambda>t. NewLeaderElectionManager (Some ''pod-b'') None), so_Manager = True\<rparr>"

definition leader :: "time \<Rightarrow> shutdown_operator" where
  "leader until = follower\<lparr>so_leaderElection := Some (\<lambda>t. (NewLeaderElectionManager (Some ''pod-a'') None)
     \<lparr>lm_elector := True, lm_isLeader := t < until\<rparr>)\<rparr>"

lemma follower_run:
  "fst (performGracefulShutdown sample_shutdown_env (30 * Second) (2 * Second) (NewShutdownManager None (Some follower))) = None"
  "end_time (performGracefulShutdown sample_shutdown_env (30 * Second) (2 * Second) (NewShutdownManager None (Some follower))) = 14 * Second"
  by code_simp+

lemma leader_run:
  "fst (performGracefulShutdown sample_shutdown_env (30 * Second) (2 * Second) (NewShutdownManager None (Some (leader (6 * Second))))) = None"
  "end_time (performGracefulShutdown sample_shutdown_env (30 * Second) (2 * Second) (NewShutdownManager None (Some (leader (6 * Second))))) = 16 * Second"
  by code_simp+

lemma shutdown_returns_in_time_witness:
  "\<exists>t sm'. initiateShutdown sample_shutdown_env 0 ''signal: terminated'' (NewShutdownManager None (Some (leader (100 * Second)))) =
     (None, t, sm') \<and> t \<le> 41 * Second"
proof -
  have "\<exists>t sm'. initiateShutdown sample_shutdown_env 0 ''signal: terminated'' (NewShutdownManager None (Some (leader (100 * Second)))) =
     (None, t, sm') \<and> 0 \<le> t \<and>
     t \<le> 0 + max (max 0 (sd_PreShutdownDelay (sm_config (NewShutdownManager None (Some (leader (100 * Second)))))))
       (sd_GracefulTimeout (sm_config (NewShutdownManager None (Some (leader (100 * Second)))))) + 11 * Second"
    by (rule shutdown_returns_in_time)
      (simp_all add: NewShutdownManager_def DefaultShutdownConfig_def sample_shutdown_env_def Second_def)
  moreover have "0 + max (max 0 (sd_PreShutdownDelay (sm_config (NewShutdownManager None (Some (leader (100 * Second)))))))
       (sd_GracefulTimeout (sm_config (NewShutdownManager None (Some (leader (100 * Second)))))) + 11 * Second = 41 * Second"
    by (simp add: NewShutdownManager_def DefaultShutdownConfig_def Second_def)
  ultimately show ?thesis by auto
qed

text \<open>A leader that shuts down with the default settings gives its lease up.\<close>

lemma graceful_shutdown_order_witness:
  "map snd (sm_log (end_state (performGracefulShutdown sample_shutdown_env (30 * Second) (2 * Second)
     (NewShutdownManager None (Some (leader (6 * Second))))))) =
   [ReadinessFailed, LeaseReleased, ShutdownCancelled, HealthFailed]"
proof -
  let ?sm = "NewShutdownManager None (Some (leader (6 * Second)))"
  let ?r = "performGracefulShutdown sample_shutdown_env (30 * Second) (2 * Second) ?sm"
  have "?r = (None, 16 * Second, end_state ?r)"
    using leader_run by (metis prod.collapse)
  note log = graceful_shutdown_order [OF this, THEN conjunct1]
  have "sm_log (end_state ?r) = sm_log ?sm @ [(2 * Second, ReadinessFailed)] @ [(5 * Second, LeaseReleased)] @
      [(16 * Second, ShutdownCancelled), (16 * Second, HealthFailed)]"
    by (subst log)
      (simp_all add: NewShutdownManager_def DefaultShutdownConfig_def has_health_def leader_def follower_def
        sample_shutdown_env_def lease_release_def IsLeader_def NewLeaderElectionManager_def
        DefaultLeaderElectionConfig_def Let_def Second_def)
  then show ?thesis by (simp add: NewShutdownManager_def)
qed

lemma completion_misreported_witness:
  "\<not> IsCompleted (GetShutdownStatus (end_state (initiateShutdown sample_shutdown_env 0 ''context cancelled''
     (NewShutdownManager (Some (DefaultShutdownConfig\<lparr>sd_PreShutdownDelay := 40 * Second\<rparr>)) (Some follower)))))"
  using completion_misreported [OF refl, of "DefaultShutdownConfig\<lparr>sd_PreShutdownDelay := 40 * Second\<rparr>" 0
      "''context cancelled''" "Some follower" sample_shutdown_env]
  by (simp add: DefaultShutdownConfig_def Second_def) (metis prod.collapse)

lemma shutdown_starts_once_witness:
  "fst (StartShutdownManager sample_shutdown_env 9 ContextCancelled (begin_shutdown 0 ''signal: terminated'' (NewShutdownManager None None))) =
     Some AlreadyStarted"
  using shutdown_starts_once [of "begin_shutdown 0 ''signal: terminated'' (NewShutdownManager None None)"]
  by (simp add: begin_shutdown_def)

end
