(* ===== verification/Controller_Configuration.thy ===== *)
theory Controller_Configuration
  imports Kube_Objects Node_Classification Leadership "HOL-Library.List_Lexorder" "HOL-Library.Char_ord"
begin

text \<open>
  \<^verbatim>\<open>pkg/apis/controller_config.go\<close>: the controller configuration, its
  validation, which also fills in defaults, and its accessors.

  Label selectors are the library's, a parameter as everywhere in the development; a
  selector here is that parameter applied to the labels.
\<close>

section \<open>The configuration\<close>

record api_LeaderElectionConfig =
  ale_Enabled :: bool
  ale_LeaseDuration :: duration
  ale_RenewDeadline :: duration
  ale_RetryPeriod :: duration
  ale_Namespace :: string
  ale_Name :: string

text \<open>The label maps are only copied and counted; nil is \<open>None\<close>.\<close>

record NodeLabelConfig =
  nl_SpotLabels :: "(string \<times> string) list option"
  nl_OnDemandLabels :: "(string \<times> string) list option"
  nl_RefreshInterval :: duration

record ControllerConfiguration =
  acc_ResyncPeriod :: duration
  acc_Workers :: int
  acc_NamespaceSelector :: "label_selector option"
  acc_LeaderElection :: api_LeaderElectionConfig
  acc_NodeLabels :: NodeLabelConfig
  acc_MetricsAddr :: string
  acc_HealthAddr :: string
  acc_WebhookPort :: int
  acc_MaxConcurrentReconciles :: int
  acc_DryRun :: bool
  acc_FeatureGates :: "(string \<rightharpoonup> bool) option"

definition DefaultControllerConfiguration :: ControllerConfiguration where
  "DefaultControllerConfiguration =
     \<lparr>acc_ResyncPeriod = 30 * Second, acc_Workers = 5, acc_NamespaceSelector = None,
      acc_LeaderElection =
        \<lparr>ale_Enabled = True, ale_LeaseDuration = 15 * Second, ale_RenewDeadline = 10 * Second,
         ale_RetryPeriod = 2 * Second, ale_Namespace = ''kube-system'', ale_Name = ''spotalis-leader-election''\<rparr>,
      acc_NodeLabels =
        \<lparr>nl_SpotLabels = Some [(CapacityTypeLabel, ''spot'')], nl_OnDemandLabels = Some [(CapacityTypeLabel, ''on-demand'')],
         nl_RefreshInterval = 5 * Minute\<rparr>,
      acc_MetricsAddr = '':8080'', acc_HealthAddr = '':8081'', acc_WebhookPort = 9443,
      acc_MaxConcurrentReconciles = 10, acc_DryRun = False, acc_FeatureGates = Some Map.empty\<rparr>"

section \<open>Validation\<close>

datatype config_error =
    ResyncTooShort duration
  | WorkersNotPositive int
  | WorkersTooMany int
  | LeaseDurationNotPositive
  | RenewDeadlineNotPositive
  | RetryPeriodNotPositive
  | RenewNotBelowLease duration duration
  | RetryNotBelowRenew duration duration
  | NoLeaseNamespace
  | NoLeaseName
  | NoNodeLabels

definition ale_Validate :: "api_LeaderElectionConfig \<Rightarrow> config_error option" where
  "ale_Validate l =
     (if \<not> ale_Enabled l then None
      else if ale_LeaseDuration l \<le> 0 then Some LeaseDurationNotPositive
      else if ale_RenewDeadline l \<le> 0 then Some RenewDeadlineNotPositive
      else if ale_RetryPeriod l \<le> 0 then Some RetryPeriodNotPositive
      else if ale_RenewDeadline l \<ge> ale_LeaseDuration l
        then Some (RenewNotBelowLease (ale_RenewDeadline l) (ale_LeaseDuration l))
      else if ale_RetryPeriod l \<ge> ale_RenewDeadline l
        then Some (RetryNotBelowRenew (ale_RetryPeriod l) (ale_RenewDeadline l))
      else if ale_Namespace l = [] then Some NoLeaseNamespace
      else if ale_Name l = [] then Some NoLeaseName
      else None)"

definition label_count :: "(string \<times> string) list option \<Rightarrow> nat" where
  "label_count m = (case m of None \<Rightarrow> 0 | Some kvs \<Rightarrow> length kvs)"

text \<open>A validation writes into what it validates: the result is the error and the value after it.\<close>

definition nl_Validate :: "NodeLabelConfig \<Rightarrow> config_error option \<times> NodeLabelConfig" where
  "nl_Validate n =
     (let n = (if nl_RefreshInterval n \<le> 0 then n\<lparr>nl_RefreshInterval := 5 * Minute\<rparr> else n)
      in (if label_count (nl_SpotLabels n) = 0 \<and> label_count (nl_OnDemandLabels n) = 0 then Some NoNodeLabels else None, n))"

definition acc_Validate :: "ControllerConfiguration \<Rightarrow> config_error option \<times> ControllerConfiguration" where
  "acc_Validate c =
     (if acc_ResyncPeriod c < 5 * Second then (Some (ResyncTooShort (acc_ResyncPeriod c)), c)
      else if acc_Workers c \<le> 0 then (Some (WorkersNotPositive (acc_Workers c)), c)
      else if acc_Workers c > 50 then (Some (WorkersTooMany (acc_Workers c)), c)
      else
        (let c = (if acc_MaxConcurrentReconciles c \<le> 0
                  then c\<lparr>acc_MaxConcurrentReconciles := i64 (acc_Workers c * 2)\<rparr> else c)
         in case ale_Validate (acc_LeaderElection c) of
              Some e \<Rightarrow> (Some e, c)
            | None \<Rightarrow>
                (let (err, n) = nl_Validate (acc_NodeLabels c) in (err, c\<lparr>acc_NodeLabels := n\<rparr>))))"

section \<open>Accessors\<close>

text \<open>
  \<open>LabelSelectorAsSelector\<close> and \<^verbatim>\<open>Matches\<close> are \<open>as_selector\<close>;
  \<^verbatim>\<open>labels.Everything\<close> matches everything.
\<close>

definition acc_ShouldMonitorNamespace :: "as_selector \<Rightarrow> string_map option \<Rightarrow> ControllerConfiguration \<Rightarrow> bool" where
  "acc_ShouldMonitorNamespace asel nsLabels c =
     (case acc_NamespaceSelector c of
        None \<Rightarrow> True
      | Some s \<Rightarrow> (case asel s of Inl _ \<Rightarrow> False | Inr matches \<Rightarrow> matches nsLabels))"

definition GetNamespaceSelector :: "as_selector \<Rightarrow> ControllerConfiguration \<Rightarrow> go_error + (string_map option \<Rightarrow> bool)" where
  "GetNamespaceSelector asel c =
     (case acc_NamespaceSelector c of None \<Rightarrow> Inr (\<lambda>_. True) | Some s \<Rightarrow> asel s)"

definition IsFeatureEnabled :: "string \<Rightarrow> ControllerConfiguration \<Rightarrow> bool" where
  "IsFeatureEnabled feature c =
     (case acc_FeatureGates c of
        None \<Rightarrow> False
      | Some gates \<Rightarrow> (case gates feature of None \<Rightarrow> False | Some b \<Rightarrow> b))"

definition set_feature :: "string \<Rightarrow> bool \<Rightarrow> ControllerConfiguration \<Rightarrow> ControllerConfiguration" where
  "set_feature feature b c =
     c\<lparr>acc_FeatureGates := Some ((case acc_FeatureGates c of None \<Rightarrow> Map.empty | Some gates \<Rightarrow> gates)(feature \<mapsto> b))\<rparr>"

definition EnableFeature :: "string \<Rightarrow> ControllerConfiguration \<Rightarrow> ControllerConfiguration" where
  "EnableFeature feature = set_feature feature True"

definition DisableFeature :: "string \<Rightarrow> ControllerConfiguration \<Rightarrow> ControllerConfiguration" where
  "DisableFeature feature = set_feature feature False"

definition GetEffectiveResyncPeriod :: "ControllerConfiguration \<Rightarrow> duration" where
  "GetEffectiveResyncPeriod c = (if acc_ResyncPeriod c < 5 * Second then 5 * Second else acc_ResyncPeriod c)"

definition GetEffectiveWorkers :: "ControllerConfiguration \<Rightarrow> int" where
  "GetEffectiveWorkers c =
     (if acc_Workers c \<le> 0 then 5 else if acc_Workers c > 50 then 50 else acc_Workers c)"

record ConfigSummary =
  csu_ResyncPeriod :: duration
  csu_Workers :: int
  csu_MaxConcurrentReconciles :: int
  csu_LeaderElectionEnabled :: bool
  csu_DryRun :: bool
  csu_HasNamespaceSelector :: bool
  csu_MetricsAddr :: string
  csu_HealthAddr :: string
  csu_WebhookPort :: int

definition GetConfigSummary :: "ControllerConfiguration \<Rightarrow> ConfigSummary" where
  "GetConfigSummary c =
     \<lparr>csu_ResyncPeriod = acc_ResyncPeriod c, csu_Workers = acc_Workers c,
      csu_MaxConcurrentReconciles = acc_MaxConcurrentReconciles c,
      csu_LeaderElectionEnabled = ale_Enabled (acc_LeaderElection c), csu_DryRun = acc_DryRun c,
      csu_HasNamespaceSelector = (acc_NamespaceSelector c \<noteq> None), csu_MetricsAddr = acc_MetricsAddr c,
      csu_HealthAddr = acc_HealthAddr c, csu_WebhookPort = acc_WebhookPort c\<rparr>"

section \<open>What validation guarantees\<close>

text \<open>A lease state with the periods of a configuration.\<close>

definition lease_of :: "api_LeaderElectionConfig \<Rightarrow> LeadershipState \<Rightarrow> LeadershipState" where
  "lease_of l s = s\<lparr>ls_LeaseDuration := ale_LeaseDuration l, ls_RenewDeadline := ale_RenewDeadline l, ls_RetryPeriod := ale_RetryPeriod l\<rparr>"

lemma nl_Validate_stable:
  "nl_Validate n = (None, n') \<Longrightarrow> 0 < nl_RefreshInterval n' \<and> nl_Validate n' = (None, n')"
  by (auto simp: nl_Validate_def Let_def duration_units split: if_splits)

lemma ale_Validate_ordered:
  "ale_Validate l = None \<Longrightarrow> ale_Enabled l \<Longrightarrow> in_i64 (ale_LeaseDuration l) \<Longrightarrow> ordered_lease (lease_of l s)"
  by (auto simp: ale_Validate_def ordered_lease_def lease_of_def split: if_splits)

text \<open>
  C22: Once validated, the configuration is within the documented bounds and validates again
  without a change; the effective values are the configured ones; and a leader that uses its
  lease periods steps down before the lease expires.
\<close>

theorem validated_controller_config:
  assumes v: "acc_Validate c = (None, c')"
  shows "acc_Validate c' = (None, c') \<and> 5 * Second \<le> acc_ResyncPeriod c' \<and> 1 \<le> acc_Workers c' \<and> acc_Workers c' \<le> 50 \<and>
    0 < acc_MaxConcurrentReconciles c' \<and> 0 < nl_RefreshInterval (acc_NodeLabels c') \<and>
    GetEffectiveWorkers c' = acc_Workers c' \<and> GetEffectiveResyncPeriod c' = acc_ResyncPeriod c' \<and>
    (ale_Enabled (acc_LeaderElection c') \<and> in_i64 (ale_LeaseDuration (acc_LeaderElection c')) \<and> ls_IsLeader s \<and>
       IsLeaseExpired now (lease_of (acc_LeaderElection c') s) \<longrightarrow>
     ShouldStepDown now (lease_of (acc_LeaderElection c') s))"
proof -
  let ?d = "if acc_MaxConcurrentReconciles c \<le> 0 then c\<lparr>acc_MaxConcurrentReconciles := i64 (acc_Workers c * 2)\<rparr> else c"
  from v have b: "5 * Second \<le> acc_ResyncPeriod c" "0 < acc_Workers c" "acc_Workers c \<le> 50"
    by (auto simp: acc_Validate_def split: if_splits)
  then have w: "i64 (acc_Workers c * 2) = acc_Workers c * 2" by (intro i64_id) (simp add: in_i64_def)
  from v b have ale: "ale_Validate (acc_LeaderElection c) = None"
    and nl: "nl_Validate (acc_NodeLabels c) = (None, acc_NodeLabels c')"
    and c': "c' = ?d\<lparr>acc_NodeLabels := acc_NodeLabels c'\<rparr>"
    by (auto simp: acc_Validate_def Let_def split: if_splits option.splits prod.splits)
  note n = nl_Validate_stable [OF nl, THEN conjunct1] nl_Validate_stable [OF nl, THEN conjunct2]
  have f: "acc_ResyncPeriod c' = acc_ResyncPeriod c" "acc_Workers c' = acc_Workers c"
    "acc_LeaderElection c' = acc_LeaderElection c" "0 < acc_MaxConcurrentReconciles c'"
    using b w by (subst c', simp)+
  have again: "acc_Validate c' = (None, c')"
    using b f ale n by (simp add: acc_Validate_def)
  have "ShouldStepDown now (lease_of (acc_LeaderElection c') s)"
    if "ale_Enabled (acc_LeaderElection c')" "in_i64 (ale_LeaseDuration (acc_LeaderElection c'))" "ls_IsLeader s"
      "IsLeaseExpired now (lease_of (acc_LeaderElection c') s)"
  proof -
    from that(3) have "ls_IsLeader (lease_of (acc_LeaderElection c') s)" by (simp add: lease_of_def)
    moreover from ale f(3) that(1,2) have "ordered_lease (lease_of (acc_LeaderElection c') s)"
      by (simp add: ale_Validate_ordered)
    ultimately show ?thesis using leader_steps_down_in_time that(4) by blast
  qed
  with again b f n(1) show ?thesis
    by (auto simp: GetEffectiveWorkers_def GetEffectiveResyncPeriod_def)
qed

lemma default_controller_config_valid: "acc_Validate DefaultControllerConfiguration = (None, DefaultControllerConfiguration)"
  by (simp add: acc_Validate_def DefaultControllerConfiguration_def ale_Validate_def nl_Validate_def label_count_def
      duration_units)

lemma validated_controller_config_witness:
  "acc_MaxConcurrentReconciles (snd (acc_Validate (DefaultControllerConfiguration\<lparr>acc_MaxConcurrentReconciles := 0\<rparr>))) = 10 \<and>
   0 < nl_RefreshInterval (acc_NodeLabels (snd (acc_Validate (DefaultControllerConfiguration\<lparr>acc_MaxConcurrentReconciles := 0\<rparr>))))"
proof -
  have "acc_Validate (DefaultControllerConfiguration\<lparr>acc_MaxConcurrentReconciles := 0\<rparr>) = (None, DefaultControllerConfiguration)"
    by (simp add: acc_Validate_def DefaultControllerConfiguration_def ale_Validate_def nl_Validate_def label_count_def
        duration_units i64_def)
  from validated_controller_config [OF this] this show ?thesis
    by (simp add: DefaultControllerConfiguration_def)
qed

text \<open>A validation that fails may have changed the configuration already.\<close>

lemma failed_validation_writes:
  "\<exists>c c' e. acc_Validate c = (Some e, c') \<and> acc_MaxConcurrentReconciles c' \<noteq> acc_MaxConcurrentReconciles c"
  by (rule exI [of _ "DefaultControllerConfiguration\<lparr>acc_MaxConcurrentReconciles := 0,
        acc_LeaderElection := (acc_LeaderElection DefaultControllerConfiguration)\<lparr>ale_Name := []\<rparr>\<rparr>"])
    (simp add: acc_Validate_def DefaultControllerConfiguration_def ale_Validate_def duration_units i64_def)

end
