(* ===== verification/Runtime_State.thy ===== *)
theory Runtime_State
  imports Complex_Main Controller_Configuration "HOL-Library.Multiset"
begin

text \<open>
  \<^verbatim>\<open>pkg/apis/runtime_state.go\<close>: the namespace filter state and the limiter of the
  load on the API server.

  Strings are compared byte by byte, as \<^verbatim>\<open>sort.Strings\<close> does. A
  \<^verbatim>\<open>float64\<close> is a rational; the conversion of one to an integer truncates where the
  result fits and is left open by the language where it does not, so it is a parameter,
  \<open>conv\<close>. A method that reads the clock more than once takes the readings as
  \<open>clk 0\<close>, \<open>clk 1\<close>, \<dots>. The mutexes make each method one step.
\<close>

section \<open>The namespace filter state\<close>

record api_NamespaceFilter =
  anf_MonitoredNamespaces :: "string list"
  anf_LastUpdated :: time
  anf_TotalWorkloads :: int
  anf_Selector :: "label_selector option"
  anf_AllowAll :: bool

definition anf_New :: "time \<Rightarrow> label_selector option \<Rightarrow> api_NamespaceFilter" where
  "anf_New now selector =
     \<lparr>anf_MonitoredNamespaces = [], anf_LastUpdated = now, anf_TotalWorkloads = 0,
      anf_Selector = selector, anf_AllowAll = (selector = None)\<rparr>"

definition shouldMonitorNamespaceInternal :: "as_selector \<Rightarrow> namespace_object \<Rightarrow> api_NamespaceFilter \<Rightarrow> bool" where
  "shouldMonitorNamespaceInternal asel ns nf =
     (if anf_AllowAll nf then True
      else case anf_Selector nf of
        None \<Rightarrow> False
      | Some s \<Rightarrow> (case asel s of Inl _ \<Rightarrow> False | Inr matches \<Rightarrow> matches (ns_Labels ns)))"

definition anf_ShouldMonitorNamespace :: "as_selector \<Rightarrow> namespace_object \<Rightarrow> api_NamespaceFilter \<Rightarrow> bool" where
  "anf_ShouldMonitorNamespace asel ns nf =
     (if anf_AllowAll nf then True
      else case anf_Selector nf of
        None \<Rightarrow> False
      | Some s \<Rightarrow> (case asel s of Inl _ \<Rightarrow> False | Inr matches \<Rightarrow> matches (ns_Labels ns)))"

definition UpdateNamespaces :: "as_selector \<Rightarrow> time \<Rightarrow> namespace_object list \<Rightarrow> api_NamespaceFilter \<Rightarrow> api_NamespaceFilter" where
  "UpdateNamespaces asel now namespaces nf =
     nf\<lparr>anf_MonitoredNamespaces :=
          sort (List.map ns_Name (List.filter (\<lambda>ns. shouldMonitorNamespaceInternal asel ns nf) namespaces)),
        anf_LastUpdated := now\<rparr>"

definition GetMonitoredNamespaces :: "api_NamespaceFilter \<Rightarrow> string list" where
  "GetMonitoredNamespaces nf = anf_MonitoredNamespaces nf"

definition GetNamespaceCount :: "api_NamespaceFilter \<Rightarrow> int" where
  "GetNamespaceCount nf = int (length (anf_MonitoredNamespaces nf))"

definition UpdateWorkloadCount :: "time \<Rightarrow> int \<Rightarrow> api_NamespaceFilter \<Rightarrow> api_NamespaceFilter" where
  "UpdateWorkloadCount now n nf = nf\<lparr>anf_TotalWorkloads := n, anf_LastUpdated := now\<rparr>"

definition GetWorkloadCount :: "api_NamespaceFilter \<Rightarrow> int" where
  "GetWorkloadCount nf = anf_TotalWorkloads nf"

definition anf_IsStale :: "time \<Rightarrow> duration \<Rightarrow> api_NamespaceFilter \<Rightarrow> bool" where
  "anf_IsStale now maxAge nf = (if maxAge = 0 then True else time_sub now (anf_LastUpdated nf) > maxAge)"

record NamespaceFilterStatus =
  nfs_MonitoredCount :: int
  nfs_TotalWorkloads :: int
  nfs_LastUpdated :: time
  nfs_AllowAll :: bool
  nfs_HasSelector :: bool

definition GetFilterStatus :: "api_NamespaceFilter \<Rightarrow> NamespaceFilterStatus" where
  "GetFilterStatus nf =
     \<lparr>nfs_MonitoredCount = int (length (anf_MonitoredNamespaces nf)), nfs_TotalWorkloads = anf_TotalWorkloads nf,
      nfs_LastUpdated = anf_LastUpdated nf, nfs_AllowAll = anf_AllowAll nf, nfs_HasSelector = (anf_Selector nf \<noteq> None)\<rparr>"

section \<open>The limiter\<close>

record APIRateLimiter =
  arl_RequestsPerSecond :: rat
  arl_LastMeasurement :: time
  arl_BackoffUntil :: time
  arl_SuccessfulRequests :: int
  arl_FailedRequests :: int
  arl_RateLimitHits :: int
  arl_MaxRequestsPerSecond :: rat
  arl_BackoffMultiplier :: rat
  arl_BaseBackoffDuration :: duration
  arl_requestTimes :: "time list"

definition NewAPIRateLimiter :: APIRateLimiter where
  "NewAPIRateLimiter =
     \<lparr>arl_RequestsPerSecond = 0, arl_LastMeasurement = 0, arl_BackoffUntil = 0, arl_SuccessfulRequests = 0,
      arl_FailedRequests = 0, arl_RateLimitHits = 0, arl_MaxRequestsPerSecond = 50, arl_BackoffMultiplier = 2,
      arl_BaseBackoffDuration = Second, arl_requestTimes = []\<rparr>"

definition ShouldBackoff :: "time \<Rightarrow> APIRateLimiter \<Rightarrow> bool" where
  "ShouldBackoff now r = (now < arl_BackoffUntil r)"

definition recordRequest :: "time \<Rightarrow> APIRateLimiter \<Rightarrow> APIRateLimiter" where
  "recordRequest now r =
     (let times = dropWhile (\<lambda>t. t < now - Minute) (arl_requestTimes r @ [now]);
          times = (if length times > 1000 then drop (length times - 1000) times else times)
      in r\<lparr>arl_requestTimes := times\<rparr>)"

definition updateRequestRate :: "time \<Rightarrow> APIRateLimiter \<Rightarrow> APIRateLimiter" where
  "updateRequestRate now r =
     (let r = r\<lparr>arl_LastMeasurement := now\<rparr>
      in if length (arl_requestTimes r) < 2 then r\<lparr>arl_RequestsPerSecond := 0\<rparr>
         else
           (let recentRequests = length (List.filter (\<lambda>t. t > now - Minute) (arl_requestTimes r))
            in r\<lparr>arl_RequestsPerSecond := of_nat recentRequests / 60\<rparr>))"

text \<open>The loop multiplies once for each earlier hit, at most nine times.\<close>

definition backoff_duration :: "(rat \<Rightarrow> duration) \<Rightarrow> APIRateLimiter \<Rightarrow> duration" where
  "backoff_duration conv r =
     ((\<lambda>d. conv (of_int d * arl_BackoffMultiplier r)) ^^ nat (min (arl_RateLimitHits r) 10 - 1)) (arl_BaseBackoffDuration r)"

definition triggerBackoff :: "(rat \<Rightarrow> duration) \<Rightarrow> time \<Rightarrow> APIRateLimiter \<Rightarrow> APIRateLimiter" where
  "triggerBackoff conv now r =
     (let r = r\<lparr>arl_RateLimitHits := i64 (arl_RateLimitHits r + 1)\<rparr>;
          d = backoff_duration conv r;
          d = (if d > 5 * Minute then 5 * Minute else d)
      in r\<lparr>arl_BackoffUntil := now + d\<rparr>)"

definition arl_RecordSuccess :: "(nat \<Rightarrow> time) \<Rightarrow> APIRateLimiter \<Rightarrow> APIRateLimiter" where
  "arl_RecordSuccess clk r =
     updateRequestRate (clk 1) (recordRequest (clk 0) (r\<lparr>arl_SuccessfulRequests := i64 (arl_SuccessfulRequests r + 1)\<rparr>))"

definition arl_RecordFailure :: "(rat \<Rightarrow> duration) \<Rightarrow> (nat \<Rightarrow> time) \<Rightarrow> APIRateLimiter \<Rightarrow> APIRateLimiter" where
  "arl_RecordFailure conv clk r =
     (let r = updateRequestRate (clk 1) (recordRequest (clk 0) (r\<lparr>arl_FailedRequests := i64 (arl_FailedRequests r + 1)\<rparr>))
      in if arl_RequestsPerSecond r > arl_MaxRequestsPerSecond r then triggerBackoff conv (clk 2) r else r)"

record RateLimitStatus =
  rst_RequestsPerSecond :: rat
  rst_MaxRequestsPerSecond :: rat
  rst_SuccessfulRequests :: int
  rst_FailedRequests :: int
  rst_RateLimitHits :: int
  rst_IsBackingOff :: bool
  rst_BackoffUntil :: time
  rst_LastMeasurement :: time

definition GetRateLimitStatus :: "time \<Rightarrow> APIRateLimiter \<Rightarrow> RateLimitStatus" where
  "GetRateLimitStatus now r =
     \<lparr>rst_RequestsPerSecond = arl_RequestsPerSecond r, rst_MaxRequestsPerSecond = arl_MaxRequestsPerSecond r,
      rst_SuccessfulRequests = arl_SuccessfulRequests r, rst_FailedRequests = arl_FailedRequests r,
      rst_RateLimitHits = arl_RateLimitHits r, rst_IsBackingOff = (now < arl_BackoffUntil r),
      rst_BackoffUntil = arl_BackoffUntil r, rst_LastMeasurement = arl_LastMeasurement r\<rparr>"

definition GetSuccessRate :: "APIRateLimiter \<Rightarrow> rat" where
  "GetSuccessRate r =
     (let total = i64 (arl_SuccessfulRequests r + arl_FailedRequests r)
      in if total = 0 then 100 else of_int (arl_SuccessfulRequests r) / of_int total * 100)"

definition arl_Reset :: "time \<Rightarrow> APIRateLimiter \<Rightarrow> APIRateLimiter" where
  "arl_Reset now r =
     r\<lparr>arl_RequestsPerSecond := 0, arl_SuccessfulRequests := 0, arl_FailedRequests := 0, arl_RateLimitHits := 0,
       arl_BackoffUntil := 0, arl_requestTimes := [], arl_LastMeasurement := now\<rparr>"

definition UpdateMaxRate :: "rat \<Rightarrow> APIRateLimiter \<Rightarrow> APIRateLimiter" where
  "UpdateMaxRate maxRate r = r\<lparr>arl_MaxRequestsPerSecond := maxRate\<rparr>"

section \<open>The filter follows the controller configuration\<close>

lemma should_monitor_same: "anf_ShouldMonitorNamespace asel ns nf = shouldMonitorNamespaceInternal asel ns nf"
  by (simp add: anf_ShouldMonitorNamespace_def shouldMonitorNamespaceInternal_def)

text \<open>
  A filter made from the selector of a configuration monitors exactly the namespaces the
  configuration does; after an update it lists their names, sorted, and in an order that does
  not depend on the order in which the API server returned them.
\<close>

theorem monitored_namespaces_exact:
  assumes perm: "mset namespaces = mset namespaces'"
    and nf: "nf = anf_New t0 (acc_NamespaceSelector c)"
  shows "sorted (GetMonitoredNamespaces (UpdateNamespaces asel now namespaces nf)) \<and>
    set (GetMonitoredNamespaces (UpdateNamespaces asel now namespaces nf)) =
      ns_Name ` {ns \<in> set namespaces. acc_ShouldMonitorNamespace asel (ns_Labels ns) c} \<and>
    GetMonitoredNamespaces (UpdateNamespaces asel now namespaces' nf) =
      GetMonitoredNamespaces (UpdateNamespaces asel now namespaces nf)"
proof -
  have agree: "shouldMonitorNamespaceInternal asel ns nf = acc_ShouldMonitorNamespace asel (ns_Labels ns) c" for ns
    by (simp add: nf anf_New_def shouldMonitorNamespaceInternal_def acc_ShouldMonitorNamespace_def split: option.splits)
  have "mset (List.map ns_Name (List.filter P namespaces)) = mset (List.map ns_Name (List.filter P namespaces'))" for P
    using perm by (simp add: mset_filter)
  then have "sort (List.map ns_Name (List.filter P namespaces)) = sort (List.map ns_Name (List.filter P namespaces'))" for P
    by (metis mset_sort properties_for_sort sorted_sort)
  then have "GetMonitoredNamespaces (UpdateNamespaces asel now namespaces' nf) =
      GetMonitoredNamespaces (UpdateNamespaces asel now namespaces nf)"
    by (simp add: GetMonitoredNamespaces_def UpdateNamespaces_def)
  then show ?thesis
    by (intro conjI) (auto simp: GetMonitoredNamespaces_def UpdateNamespaces_def agree)
qed

text \<open>Two namespaces, of which one carries the label the selector asks for.\<close>

definition sample_namespaces :: "namespace_object list" where
  "sample_namespaces =
     [\<lparr>ns_Name = ''shop'', ns_Labels = Some [''team'' \<mapsto> ''a''], ns_Annotations = None\<rparr>,
      \<lparr>ns_Name = ''base'', ns_Labels = Some [''team'' \<mapsto> ''a''], ns_Annotations = None\<rparr>,
      \<lparr>ns_Name = ''other'', ns_Labels = None, ns_Annotations = None\<rparr>]"

lemma monitored_namespaces_exact_witness:
  "GetMonitoredNamespaces (UpdateNamespaces match_labels 0 (rev sample_namespaces)
     (anf_New 0 (acc_NamespaceSelector (DefaultControllerConfiguration
        \<lparr>acc_NamespaceSelector := Some \<lparr>ls_MatchLabels = [(''team'', ''a'')], ls_MatchExpressions = []\<rparr>\<rparr>)))) =
   [''base'', ''shop'']"
proof -
  let ?c = "DefaultControllerConfiguration
        \<lparr>acc_NamespaceSelector := Some \<lparr>ls_MatchLabels = [(''team'', ''a'')], ls_MatchExpressions = []\<rparr>\<rparr>"
  have perm: "mset sample_namespaces = mset (rev sample_namespaces)" by simp
  have "GetMonitoredNamespaces (UpdateNamespaces match_labels 0 sample_namespaces
     (anf_New 0 (acc_NamespaceSelector ?c))) = [''base'', ''shop'']"
    by code_simp
  with monitored_namespaces_exact [OF perm refl, of match_labels 0 0 ?c] show ?thesis by simp
qed

section \<open>The limiter never limits at its default rate\<close>

datatype arl_op =
    OpSuccess "nat \<Rightarrow> time"
  | OpFailure "nat \<Rightarrow> time"
  | OpReset time
  | OpMaxRate rat

fun arl_step :: "(rat \<Rightarrow> duration) \<Rightarrow> APIRateLimiter \<Rightarrow> arl_op \<Rightarrow> APIRateLimiter" where
  "arl_step conv r (OpSuccess clk) = arl_RecordSuccess clk r"
| "arl_step conv r (OpFailure clk) = arl_RecordFailure conv clk r"
| "arl_step conv r (OpReset now) = arl_Reset now r"
| "arl_step conv r (OpMaxRate m) = UpdateMaxRate m r"

text \<open>The highest rate 1000 remembered requests can amount to.\<close>

definition measurable_rate :: rat where "measurable_rate = 1000 / 60"

fun limit_above_measurable :: "arl_op \<Rightarrow> bool" where
  "limit_above_measurable (OpMaxRate m) = (measurable_rate \<le> m)"
| "limit_above_measurable _ = True"

definition arl_idle :: "APIRateLimiter \<Rightarrow> bool" where
  "arl_idle r \<longleftrightarrow> arl_RequestsPerSecond r \<le> measurable_rate \<and> length (arl_requestTimes r) \<le> 1000 \<and>
     measurable_rate \<le> arl_MaxRequestsPerSecond r \<and> arl_RateLimitHits r = 0 \<and> arl_BackoffUntil r = 0"

lemma recordRequest_bounded: "length (arl_requestTimes (recordRequest now r)) \<le> 1000"
  by (simp add: recordRequest_def Let_def)

lemma recordRequest_keeps [simp]:
  "arl_MaxRequestsPerSecond (recordRequest now r) = arl_MaxRequestsPerSecond r"
  "arl_RateLimitHits (recordRequest now r) = arl_RateLimitHits r"
  "arl_BackoffUntil (recordRequest now r) = arl_BackoffUntil r"
  by (simp_all add: recordRequest_def Let_def)

lemma updateRequestRate_keeps [simp]:
  "arl_MaxRequestsPerSecond (updateRequestRate now r) = arl_MaxRequestsPerSecond r"
  "arl_RateLimitHits (updateRequestRate now r) = arl_RateLimitHits r"
  "arl_BackoffUntil (updateRequestRate now r) = arl_BackoffUntil r"
  "arl_requestTimes (updateRequestRate now r) = arl_requestTimes r"
  by (simp_all add: updateRequestRate_def Let_def)

lemma updateRequestRate_bounded:
  assumes "length (arl_requestTimes r) \<le> 1000"
  shows "arl_RequestsPerSecond (updateRequestRate now r) \<le> measurable_rate"
proof -
  have "length (List.filter P (arl_requestTimes r)) \<le> 1000" for P
    using assms length_filter_le by (rule order_trans [rotated])
  then have "(of_nat (length (List.filter P (arl_requestTimes r))) :: rat) \<le> of_nat 1000" for P
    using of_nat_le_iff by blast
  then show ?thesis
    by (simp add: updateRequestRate_def Let_def measurable_rate_def divide_right_mono)
qed

lemma record_idle: "arl_idle r \<Longrightarrow> arl_idle (updateRequestRate t1 (recordRequest t0 r))"
  by (simp add: arl_idle_def updateRequestRate_bounded recordRequest_bounded)

lemma arl_step_idle: "arl_idle r \<Longrightarrow> limit_above_measurable op \<Longrightarrow> arl_idle (arl_step conv r op)"
proof (cases op)
  case (OpSuccess clk)
  assume "arl_idle r"
  then have "arl_idle (r\<lparr>arl_SuccessfulRequests := n\<rparr>)" for n by (simp add: arl_idle_def)
  with OpSuccess show ?thesis by (simp add: arl_RecordSuccess_def record_idle)
next
  case (OpFailure clk)
  assume "arl_idle r"
  then have "arl_idle (r\<lparr>arl_FailedRequests := n\<rparr>)" for n by (simp add: arl_idle_def)
  then have i: "arl_idle (updateRequestRate t1 (recordRequest t0 (r\<lparr>arl_FailedRequests := n\<rparr>)))" for n t0 t1
    by (rule record_idle)
  then have "\<not> arl_MaxRequestsPerSecond s < arl_RequestsPerSecond s"
    if "s = updateRequestRate t1 (recordRequest t0 (r\<lparr>arl_FailedRequests := n\<rparr>))" for s n t0 t1
    using that unfolding arl_idle_def by (meson dual_order.trans not_less)
  with i OpFailure show ?thesis by (simp add: arl_RecordFailure_def Let_def)
qed (auto simp: arl_idle_def arl_Reset_def UpdateMaxRate_def measurable_rate_def)

lemma arl_run_idle: "arl_idle r \<Longrightarrow> list_all limit_above_measurable ops \<Longrightarrow> arl_idle (foldl (arl_step conv) r ops)"
  by (induction ops arbitrary: r) (simp_all add: arl_step_idle)

text \<open>
  The limiter remembers at most 1000 requests and divides their number by the 60 seconds of
  its window, so it never measures more than 16.7 requests per second, however high the load.
  Its default limit is 50: whatever requests succeed or fail, no backoff is ever started,
  unless the limit is lowered below that rate first.
\<close>

theorem api_backoff_unreachable:
  assumes ops: "list_all limit_above_measurable ops" and now: "0 \<le> now"
    and r: "r = foldl (arl_step conv) NewAPIRateLimiter ops"
  shows "arl_RequestsPerSecond r \<le> 1000 / 60 \<and> arl_RateLimitHits r = 0 \<and> \<not> ShouldBackoff now r"
proof -
  have "arl_idle NewAPIRateLimiter"
    by (simp add: arl_idle_def NewAPIRateLimiter_def measurable_rate_def)
  from arl_run_idle [OF this ops, of conv] show ?thesis
    using now by (simp add: r [symmetric] arl_idle_def measurable_rate_def ShouldBackoff_def)
qed

lemma api_backoff_unreachable_witness:
  "\<not> ShouldBackoff 5 (foldl (arl_step floor) NewAPIRateLimiter (replicate 5000 (OpFailure (\<lambda>_. 1))))"
proof -
  have "list_all limit_above_measurable (replicate 5000 (OpFailure (\<lambda>_. 1)))"
    by (simp add: list_all_iff)
  from api_backoff_unreachable [OF this _ refl, of 5 floor] show ?thesis by simp
qed

text \<open>
  With a limit low enough to be exceeded the backoff doubles with each hit, from one second
  to 256, and is capped at five minutes from the tenth on.
\<close>

definition truncates :: "(rat \<Rightarrow> duration) \<Rightarrow> bool" where
  "truncates conv \<longleftrightarrow> (\<forall>n. in_i64 n \<longrightarrow> conv (of_int n) = n)"

lemma doubling:
  assumes "truncates conv" "n \<le> 9"
  shows "((\<lambda>d. conv (of_int d * 2)) ^^ n) Second = 2 ^ n * Second"
  using assms(2)
proof (induction n)
  case (Suc n)
  then have "(2::int) ^ n \<le> 2 ^ 9" by (intro power_increasing) auto
  then have "(2::int) ^ n \<le> 512" by simp
  moreover have "(0::int) \<le> 2 ^ n" by simp
  ultimately have i: "in_i64 (2 ^ n * Second * 2)" unfolding in_i64_def Second_def by linarith
  have e: "(of_int (2 ^ n * Second) * 2 :: rat) = of_int (2 ^ n * Second * 2)" by simp
  have "conv (of_int (2 ^ n * Second) * 2) = 2 ^ n * Second * 2"
    unfolding e using assms(1) i unfolding truncates_def by blast
  with Suc show ?case by simp
qed simp

theorem backoff_exponential:
  assumes conv: "truncates conv" and "arl_BackoffMultiplier r = 2" "arl_BaseBackoffDuration r = Second"
    and hits: "0 \<le> arl_RateLimitHits r" "arl_RateLimitHits r < 9223372036854775807"
  shows "arl_BackoffUntil (triggerBackoff conv now r) =
    now + min (5 * Minute) (2 ^ nat (min (arl_RateLimitHits r) 9) * Second)"
proof -
  let ?n = "nat (min (arl_RateLimitHits r) 9)"
  have h: "i64 (arl_RateLimitHits r + 1) = arl_RateLimitHits r + 1" using hits by (simp add: i64_id in_i64_def)
  have n: "nat (min (arl_RateLimitHits r + 1) 10 - 1) = ?n" by (simp add: min_def)
  have "backoff_duration conv (r\<lparr>arl_RateLimitHits := arl_RateLimitHits r + 1\<rparr>) = 2 ^ ?n * Second"
    using assms(2,3) n doubling [OF conv, of ?n] by (simp add: backoff_duration_def)
  then show ?thesis by (auto simp: triggerBackoff_def Let_def h min_def)
qed

end
