(* ===== verification/Kubernetes_Access.thy ===== *)
theory Kubernetes_Access
  imports Complex_Main Kube_Objects Leadership
begin

text \<open>
  \<^verbatim>\<open>pkg/operator/kubernetes.go\<close>: the configuration of the client, the objects
  the operator creates for its own access rights, and the test of these rights.

  The cluster is an abstract state \<open>'s\<close>; reading and creating an object in it are parameters,
  as are the constructors of client-go. \<open>Burst\<close> and the rates are only copied.
\<close>

section \<open>Names\<close>

definition verbGet :: string where "verbGet = ''get''"
definition verbList :: string where "verbList = ''list''"
definition verbWatch :: string where "verbWatch = ''watch''"
definition verbCreate :: string where "verbCreate = ''create''"
definition verbUpdate :: string where "verbUpdate = ''update''"
definition verbPatch :: string where "verbPatch = ''patch''"
definition verbDelete :: string where "verbDelete = ''delete''"
definition resourceNodes :: string where "resourceNodes = ''nodes''"
definition resourcePods :: string where "resourcePods = ''pods''"
definition resourceDeployments :: string where "resourceDeployments = ''deployments''"
definition resourceStatefulSets :: string where "resourceStatefulSets = ''statefulsets''"
definition resourceLeases :: string where "resourceLeases = ''leases''"
definition apiGroupApps :: string where "apiGroupApps = ''apps''"
definition apiGroupCoordination :: string where "apiGroupCoordination = ''coordination.k8s.io''"
definition spotalisController :: string where "spotalisController = ''spotalis-controller''"

lemmas access_names = verbGet_def verbList_def verbWatch_def verbCreate_def verbUpdate_def verbPatch_def
  verbDelete_def resourceNodes_def resourcePods_def resourceDeployments_def resourceStatefulSets_def
  resourceLeases_def apiGroupApps_def apiGroupCoordination_def spotalisController_def spotalisNamespace_def

section \<open>The client\<close>

record KubernetesConfig =
  kc_Kubeconfig :: string
  kc_Context :: string
  kc_QPS :: rat
  kc_Burst :: int
  kc_Timeout :: duration
  kc_UserAgent :: string
  kc_ServiceAccount :: string
  kc_Namespace :: string
  kc_ClusterRole :: string
  kc_RoleBinding :: string
  kc_ImpersonateUser :: string
  kc_ImpersonateGroups :: "string list"
  kc_DisableCompression :: bool
  kc_ContentType :: string
  kc_AcceptContentTypes :: string

definition DefaultKubernetesConfig :: KubernetesConfig where
  "DefaultKubernetesConfig =
     \<lparr>kc_Kubeconfig = [], kc_Context = [], kc_QPS = 20, kc_Burst = 30, kc_Timeout = 30 * Second,
      kc_UserAgent = ''spotalis-controller/1.0'', kc_ServiceAccount = spotalisController,
      kc_Namespace = spotalisNamespace, kc_ClusterRole = spotalisController, kc_RoleBinding = spotalisController,
      kc_ImpersonateUser = [], kc_ImpersonateGroups = [], kc_DisableCompression = False,
      kc_ContentType = ''application/json'', kc_AcceptContentTypes = ''application/json''\<rparr>"

text \<open>The fields of a \<^verbatim>\<open>rest.Config\<close> that the sources touch.\<close>

record rest_config =
  rc_Host :: string
  rc_QPS :: rat
  rc_Burst :: int
  rc_Timeout :: duration
  rc_UserAgent :: string
  rc_DisableCompression :: bool
  rc_ContentType :: string
  rc_AcceptContentTypes :: string
  rc_Impersonate :: "string \<times> string list"

record ('k, 'c) client_library =
  lib_BuildConfigFromFlags :: "string \<Rightarrow> go_error + rest_config"
  lib_GetConfig :: "go_error + rest_config"
  lib_NewForConfig :: "rest_config \<Rightarrow> go_error + 'k"
  lib_ClientNew :: "rest_config \<Rightarrow> go_error + 'c"

record ('k, 'c) KubernetesClientManager =
  km_config :: KubernetesConfig
  km_restConfig :: rest_config
  km_kubeClient :: 'k
  km_ctrlClient :: 'c

definition initializeRESTConfig :: "('k, 'c) client_library \<Rightarrow> KubernetesConfig \<Rightarrow> go_error + rest_config" where
  "initializeRESTConfig lib c =
     (case (if kc_Kubeconfig c \<noteq> []
            then (case lib_BuildConfigFromFlags lib (kc_Kubeconfig c) of
                    Inl e \<Rightarrow> Inl (Wrapped (''failed to load kubeconfig from '' @ kc_Kubeconfig c) e) | Inr r \<Rightarrow> Inr r)
            else (case lib_GetConfig lib of
                    Inl e \<Rightarrow> Inl (Wrapped ''failed to get kubernetes config'' e) | Inr r \<Rightarrow> Inr r)) of
        Inl e \<Rightarrow> Inl e
      | Inr r \<Rightarrow>
          (let r = r\<lparr>rc_QPS := kc_QPS c, rc_Burst := kc_Burst c, rc_Timeout := kc_Timeout c,
                     rc_UserAgent := kc_UserAgent c, rc_DisableCompression := kc_DisableCompression c,
                     rc_ContentType := kc_ContentType c, rc_AcceptContentTypes := kc_AcceptContentTypes c\<rparr>
           in Inr (if kc_ImpersonateUser c \<noteq> []
                   then r\<lparr>rc_Impersonate := (kc_ImpersonateUser c, kc_ImpersonateGroups c)\<rparr> else r)))"

definition initializeClients :: "('k, 'c) client_library \<Rightarrow> rest_config \<Rightarrow> go_error + 'k \<times> 'c" where
  "initializeClients lib r =
     (case lib_NewForConfig lib r of
        Inl e \<Rightarrow> Inl (Wrapped ''failed to create kubernetes client'' e)
      | Inr k \<Rightarrow>
          (case lib_ClientNew lib r of
             Inl e \<Rightarrow> Inl (Wrapped ''failed to create controller client'' e)
           | Inr c \<Rightarrow> Inr (k, c)))"

definition NewKubernetesClientManager ::
  "('k, 'c) client_library \<Rightarrow> KubernetesConfig option \<Rightarrow> go_error + ('k, 'c) KubernetesClientManager" where
  "NewKubernetesClientManager lib config =
     (let c = (case config of None \<Rightarrow> DefaultKubernetesConfig | Some c \<Rightarrow> c)
      in case initializeRESTConfig lib c of
           Inl e \<Rightarrow> Inl (Wrapped ''failed to initialize REST config'' e)
         | Inr r \<Rightarrow>
             (case initializeClients lib r of
                Inl e \<Rightarrow> Inl (Wrapped ''failed to initialize clients'' e)
              | Inr (k, cl) \<Rightarrow> Inr \<lparr>km_config = c, km_restConfig = r, km_kubeClient = k, km_ctrlClient = cl\<rparr>))"

record ClusterInfo =
  ci_Version :: string
  ci_NodeCount :: int
  ci_NamespaceCount :: int
  ci_APIServerURL :: string
  ci_CurrentContext :: string

text \<open>The three calls are one view each of the cluster: \<open>api 0\<close> for the nodes, \<open>api 1\<close> for the namespaces.\<close>

definition GetClusterInfo ::
  "go_error + string \<Rightarrow> (nat \<Rightarrow> k8s_client) \<Rightarrow> ('k, 'c) KubernetesClientManager \<Rightarrow> go_error + ClusterInfo" where
  "GetClusterInfo serverVersion api k =
     (case serverVersion of
        Inl e \<Rightarrow> Inl (Wrapped ''failed to get server version'' e)
      | Inr version \<Rightarrow>
          (case cl_ListNodes (api 0) of
             Inl e \<Rightarrow> Inl (Wrapped ''failed to list nodes'' e)
           | Inr nodes \<Rightarrow>
               (case cl_ListNamespaces (api 1) of
                  Inl e \<Rightarrow> Inl (Wrapped ''failed to list namespaces'' e)
                | Inr namespaces \<Rightarrow>
                    Inr \<lparr>ci_Version = version, ci_NodeCount = int (length nodes),
                         ci_NamespaceCount = int (length namespaces), ci_APIServerURL = rc_Host (km_restConfig k),
                         ci_CurrentContext = kc_Context (km_config k)\<rparr>)))"

section \<open>The objects that grant access\<close>

record policy_rule =
  pr_APIGroups :: "string list"
  pr_Resources :: "string list"
  pr_Verbs :: "string list"

datatype admin_object =
    ANamespace string "(string \<times> string) list"
  | AServiceAccount string string "(string \<times> string) list"
  | AClusterRole string "(string \<times> string) list" "policy_rule list"
  | AClusterRoleBinding string "(string \<times> string) list" string "string \<times> string"

datatype admin_key =
    NamespaceKey string
  | ServiceAccountKey string string
  | ClusterRoleKey string
  | ClusterRoleBindingKey string

fun key_of :: "admin_object \<Rightarrow> admin_key" where
  "key_of (ANamespace n _) = NamespaceKey n"
| "key_of (AServiceAccount n ns _) = ServiceAccountKey ns n"
| "key_of (AClusterRole n _ _) = ClusterRoleKey n"
| "key_of (AClusterRoleBinding n _ _ _) = ClusterRoleBindingKey n"

text \<open>A read returns its error, the object itself is never used.\<close>

record 's admin_api =
  ad_get :: "'s \<Rightarrow> admin_key \<Rightarrow> go_error option"
  ad_create :: "'s \<Rightarrow> admin_object \<Rightarrow> go_error option \<times> 's"

text \<open>The labels of the four objects are written out four times in the source.\<close>

definition spotalis_labels :: "(string \<times> string) list" where
  "spotalis_labels =
     [(''app.kubernetes.io/name'', ''spotalis''), (''app.kubernetes.io/component'', ''controller''),
      (''app.kubernetes.io/managed-by'', spotalisController)]"

text \<open>Each of the four functions reads the object and creates it when the read fails.\<close>

definition ensure_object ::
  "'s admin_api \<Rightarrow> string \<Rightarrow> admin_object \<Rightarrow> 's \<Rightarrow> go_error option \<times> 's" where
  "ensure_object api msg obj s =
     (case ad_get api s (key_of obj) of
        None \<Rightarrow> (None, s)
      | Some _ \<Rightarrow>
          (case ad_create api s obj of
             (Some e, s') \<Rightarrow> (Some (Wrapped msg e), s')
           | (None, s') \<Rightarrow> (None, s')))"

definition ensureNamespace :: "'s admin_api \<Rightarrow> KubernetesConfig \<Rightarrow> 's \<Rightarrow> go_error option \<times> 's" where
  "ensureNamespace api c =
     ensure_object api (''failed to create namespace '' @ kc_Namespace c) (ANamespace (kc_Namespace c) spotalis_labels)"

definition ensureServiceAccount :: "'s admin_api \<Rightarrow> KubernetesConfig \<Rightarrow> 's \<Rightarrow> go_error option \<times> 's" where
  "ensureServiceAccount api c =
     ensure_object api (''failed to create service account '' @ kc_ServiceAccount c)
       (AServiceAccount (kc_ServiceAccount c) (kc_Namespace c) spotalis_labels)"

definition cluster_role_rules :: "policy_rule list" where
  "cluster_role_rules =
     [\<lparr>pr_APIGroups = [[]], pr_Resources = [resourceNodes], pr_Verbs = [verbGet, verbList, verbWatch]\<rparr>,
      \<lparr>pr_APIGroups = [[]], pr_Resources = [resourcePods],
       pr_Verbs = [verbGet, verbList, verbWatch, verbPatch, verbDelete]\<rparr>,
      \<lparr>pr_APIGroups = [apiGroupApps], pr_Resources = [resourceDeployments],
       pr_Verbs = [verbGet, verbList, verbWatch, verbPatch]\<rparr>,
      \<lparr>pr_APIGroups = [apiGroupApps], pr_Resources = [resourceStatefulSets],
       pr_Verbs = [verbGet, verbList, verbWatch, verbPatch]\<rparr>,
      \<lparr>pr_APIGroups = [[]], pr_Resources = [''events''], pr_Verbs = [''create'', ''patch'']\<rparr>,
      \<lparr>pr_APIGroups = [apiGroupCoordination], pr_Resources = [resourceLeases],
       pr_Verbs = [verbGet, verbList, verbWatch, verbCreate, verbUpdate, verbPatch, verbDelete]\<rparr>,
      \<lparr>pr_APIGroups = [[]], pr_Resources = [''namespaces''], pr_Verbs = [verbGet, verbList, verbWatch]\<rparr>]"

definition ensureClusterRole :: "'s admin_api \<Rightarrow> KubernetesConfig \<Rightarrow> 's \<Rightarrow> go_error option \<times> 's" where
  "ensureClusterRole api c =
     ensure_object api (''failed to create cluster role '' @ kc_ClusterRole c)
       (AClusterRole (kc_ClusterRole c) spotalis_labels cluster_role_rules)"

definition ensureClusterRoleBinding :: "'s admin_api \<Rightarrow> KubernetesConfig \<Rightarrow> 's \<Rightarrow> go_error option \<times> 's" where
  "ensureClusterRoleBinding api c =
     ensure_object api (''failed to create cluster role binding '' @ kc_RoleBinding c)
       (AClusterRoleBinding (kc_RoleBinding c) spotalis_labels (kc_ClusterRole c)
          (kc_ServiceAccount c, kc_Namespace c))"

definition EnsureRBAC :: "'s admin_api \<Rightarrow> KubernetesConfig \<Rightarrow> 's \<Rightarrow> go_error option \<times> 's" where
  "EnsureRBAC api c s =
     (case ensureNamespace api c s of
        (Some e, s) \<Rightarrow> (Some (Wrapped ''failed to ensure namespace'' e), s)
      | (None, s) \<Rightarrow>
     (case ensureServiceAccount api c s of
        (Some e, s) \<Rightarrow> (Some (Wrapped ''failed to ensure service account'' e), s)
      | (None, s) \<Rightarrow>
     (case ensureClusterRole api c s of
        (Some e, s) \<Rightarrow> (Some (Wrapped ''failed to ensure cluster role'' e), s)
      | (None, s) \<Rightarrow>
     (case ensureClusterRoleBinding api c s of
        (Some e, s) \<Rightarrow> (Some (Wrapped ''failed to ensure cluster role binding'' e), s)
      | (None, s) \<Rightarrow> (None, s)))))"

section \<open>The test of the rights\<close>

definition required_permissions :: "(string \<times> string \<times> string) list" where
  "required_permissions =
     [(resourceNodes, verbList, []), (resourceNodes, verbGet, []),
      (resourcePods, verbList, []), (resourcePods, verbGet, []), (resourcePods, verbPatch, []),
      (resourceDeployments, verbList, apiGroupApps), (resourceDeployments, verbGet, apiGroupApps),
      (resourceDeployments, verbPatch, apiGroupApps),
      (resourceStatefulSets, verbList, apiGroupApps), (resourceStatefulSets, verbGet, apiGroupApps),
      (resourceStatefulSets, verbPatch, apiGroupApps),
      (''events'', verbCreate, []),
      (resourceLeases, verbCreate, apiGroupCoordination), (resourceLeases, verbGet, apiGroupCoordination),
      (resourceLeases, verbUpdate, apiGroupCoordination)]"

text \<open>\<open>list_api r\<close> is the error of listing one object of the resource \<open>r\<close> across all namespaces.\<close>

definition validatePermission :: "(string \<Rightarrow> go_error option) \<Rightarrow> string \<Rightarrow> string \<Rightarrow> go_error option" where
  "validatePermission list_api resource verb =
     (if resource \<in> {resourceNodes, resourcePods, resourceDeployments, resourceStatefulSets} \<and>
         (verb = verbList \<or> verb = verbGet)
      then list_api resource else None)"

fun validate_permissions_from ::
  "(nat \<Rightarrow> string \<Rightarrow> go_error option) \<Rightarrow> nat \<Rightarrow> (string \<times> string \<times> string) list \<Rightarrow> go_error option" where
  "validate_permissions_from list_api k [] = None"
| "validate_permissions_from list_api k ((resource, verb, grp) # ps) =
     (case validatePermission (list_api k) resource verb of
        Some e \<Rightarrow> Some (Wrapped (''missing permission '' @ grp @ '':'' @ resource @ '':'' @ verb) e)
      | None \<Rightarrow> validate_permissions_from list_api (Suc k) ps)"

definition ValidatePermissions :: "(nat \<Rightarrow> string \<Rightarrow> go_error option) \<Rightarrow> go_error option" where
  "ValidatePermissions list_api = validate_permissions_from list_api 0 required_permissions"

section \<open>After it returns, the access objects are there\<close>

text \<open>
  What the API promises of a creation that succeeds: the object can be read afterwards, and
  what could be read before still can.
\<close>

definition lawful_admin_api :: "'s admin_api \<Rightarrow> bool" where
  "lawful_admin_api api \<longleftrightarrow>
     (\<forall>s obj s'. ad_create api s obj = (None, s') \<longrightarrow>
        ad_get api s' (key_of obj) = None \<and> (\<forall>k. ad_get api s k = None \<longrightarrow> ad_get api s' k = None))"

definition rbac_keys :: "KubernetesConfig \<Rightarrow> admin_key set" where
  "rbac_keys c = {NamespaceKey (kc_Namespace c), ServiceAccountKey (kc_Namespace c) (kc_ServiceAccount c),
     ClusterRoleKey (kc_ClusterRole c), ClusterRoleBindingKey (kc_RoleBinding c)}"

lemma ensure_object_present:
  assumes "lawful_admin_api api" and "ensure_object api msg obj s = (None, s')"
  shows "ad_get api s' (key_of obj) = None" and "ad_get api s k = None \<Longrightarrow> ad_get api s' k = None"
  using assms unfolding lawful_admin_api_def ensure_object_def
  by (auto split: option.splits prod.splits)

lemma ensure_object_idle: "ad_get api s (key_of obj) = None \<Longrightarrow> ensure_object api msg obj s = (None, s)"
  by (simp add: ensure_object_def)

lemmas ensure_defs = ensureNamespace_def ensureServiceAccount_def ensureClusterRole_def ensureClusterRoleBinding_def

text \<open>
  C31: When \<open>EnsureRBAC\<close> reports success, the namespace, the service account, the role and the
  binding all exist, whatever the cluster held before; a further call then changes nothing.
\<close>

theorem ensure_rbac_complete:
  assumes law: "lawful_admin_api api" and run: "EnsureRBAC api c s = (None, s')"
  shows "(\<forall>k \<in> rbac_keys c. ad_get api s' k = None) \<and> EnsureRBAC api c s' = (None, s')"
proof -
  from run obtain s1 s2 s3 where
    steps: "ensureNamespace api c s = (None, s1)" "ensureServiceAccount api c s1 = (None, s2)"
      "ensureClusterRole api c s2 = (None, s3)" "ensureClusterRoleBinding api c s3 = (None, s')"
    unfolding EnsureRBAC_def by (auto split: option.splits prod.splits)
  note present = ensure_object_present [OF law steps(1) [unfolded ensure_defs]]
    ensure_object_present [OF law steps(2) [unfolded ensure_defs]]
    ensure_object_present [OF law steps(3) [unfolded ensure_defs]]
    ensure_object_present [OF law steps(4) [unfolded ensure_defs]]
  have all: "\<forall>k \<in> rbac_keys c. ad_get api s' k = None"
    using present by (simp add: rbac_keys_def)
  then have "EnsureRBAC api c s' = (None, s')"
    by (simp add: EnsureRBAC_def ensure_defs ensure_object_idle rbac_keys_def)
  with all show ?thesis ..
qed

text \<open>A cluster that is the set of what exists, and accepts every object.\<close>

definition set_api :: "admin_key list admin_api" where
  "set_api = \<lparr>ad_get = (\<lambda>s k. if k \<in> set s then None else Some (StatusError ReasonNotFound)),
              ad_create = (\<lambda>s obj. (None, key_of obj # s))\<rparr>"

lemma ensure_rbac_complete_witness:
  "snd (EnsureRBAC set_api DefaultKubernetesConfig []) =
     [ClusterRoleBindingKey spotalisController, ClusterRoleKey spotalisController,
      ServiceAccountKey spotalisNamespace spotalisController, NamespaceKey spotalisNamespace] \<and>
   EnsureRBAC set_api DefaultKubernetesConfig (snd (EnsureRBAC set_api DefaultKubernetesConfig [])) =
     (None, snd (EnsureRBAC set_api DefaultKubernetesConfig []))"
proof -
  have law: "lawful_admin_api set_api" by (auto simp: lawful_admin_api_def set_api_def)
  have run: "EnsureRBAC set_api DefaultKubernetesConfig [] =
     (None, [ClusterRoleBindingKey spotalisController, ClusterRoleKey spotalisController,
      ServiceAccountKey spotalisNamespace spotalisController, NamespaceKey spotalisNamespace])"
    by (simp add: EnsureRBAC_def ensure_defs ensure_object_def set_api_def DefaultKubernetesConfig_def)
  from ensure_rbac_complete [OF law run] run show ?thesis by simp
qed

section \<open>What the role allows\<close>

text \<open>A rule grants a request when it names the request's group, resource and verb.\<close>

definition rules_allow :: "policy_rule list \<Rightarrow> string \<Rightarrow> string \<Rightarrow> string \<Rightarrow> bool" where
  "rules_allow rules grp resource verb \<longleftrightarrow>
     list_ex (\<lambda>r. List.member (pr_APIGroups r) grp \<and> List.member (pr_Resources r) resource \<and>
                  List.member (pr_Verbs r) verb) rules"

text \<open>
  The role covers every permission that \<open>ValidatePermissions\<close> lists. It does not cover the
  calls by which the controllers act: creating an eviction, listing the disruption budgets,
  reading replica sets, updating a stateful set.
\<close>

theorem cluster_role_gaps:
  "list_all (\<lambda>(resource, verb, grp). rules_allow cluster_role_rules grp resource verb) required_permissions \<and>
   \<not> rules_allow cluster_role_rules [] ''pods/eviction'' ''create'' \<and>
   \<not> rules_allow cluster_role_rules ''policy'' ''poddisruptionbudgets'' verbList \<and>
   \<not> rules_allow cluster_role_rules apiGroupApps ''replicasets'' verbList \<and>
   \<not> rules_allow cluster_role_rules apiGroupApps resourceStatefulSets verbUpdate"
  by code_simp

text \<open>
  The test of the rights asks the API for lists only: it succeeds as soon as nodes, pods,
  deployments and stateful sets can be listed, whether or not anything may be written.
\<close>

theorem permissions_tested_by_listing:
  "ValidatePermissions list_api = None \<longleftrightarrow>
     list_api 0 resourceNodes = None \<and> list_api 1 resourceNodes = None \<and>
     list_api 2 resourcePods = None \<and> list_api 3 resourcePods = None \<and>
     list_api 5 resourceDeployments = None \<and> list_api 6 resourceDeployments = None \<and>
     list_api 8 resourceStatefulSets = None \<and> list_api 9 resourceStatefulSets = None"
proof -
  have skip: "validatePermission l r v = None" if "v \<noteq> verbList" "v \<noteq> verbGet" for l r v
    using that by (simp add: validatePermission_def)
  have leases: "validatePermission l resourceLeases v = None" for l v
    by (simp add: validatePermission_def access_names)
  have asks: "validatePermission l r v = l r"
    if "r \<in> {resourceNodes, resourcePods, resourceDeployments, resourceStatefulSets}" "v = verbList \<or> v = verbGet" for l r v
    using that by (simp add: validatePermission_def)
  have v: "verbPatch \<noteq> verbList" "verbPatch \<noteq> verbGet" "verbCreate \<noteq> verbList" "verbCreate \<noteq> verbGet"
    by (simp_all add: access_names)
  show ?thesis
    by (simp add: ValidatePermissions_def required_permissions_def skip leases asks v eval_nat_numeral split: option.split)
qed

end
