(* ===== verification/Controller_Manager.thy ===== *)
theory Controller_Manager
  imports Controller_Common
begin

text \<open>
  \<^verbatim>\<open>pkg/controllers/manager.go\<close>: the controller manager, which builds the two
  reconcilers from its configuration and registers them with controller-runtime.

  Registering an index or a controller with the library is a call that may fail: the parameters
  \<open>index\<close> (the first failing registration of the two) and \<open>complete\<close> give the error, if
  any. The manager, its client and its scheme are only passed on; \<open>cm_manager\<close> says whether
  there is one.
\<close>

section \<open>Configuration\<close>

record ManagerConfig =
  mgc_MaxConcurrentReconciles :: int
  mgc_ReconcileTimeout :: duration
  mgc_ReconcileInterval :: duration
  mgc_WorkloadTiming :: WorkloadTimingConfig
  mgc_WatchNamespaces :: "string list"
  mgc_IgnoreNamespaces :: "string list"
  mgc_EnableDeployments :: bool
  mgc_EnableStatefulSets :: bool
  mgc_EnableDaemonSets :: bool
  mgc_LeaderElection :: bool
  mgc_MetricsBindAddress :: string
  mgc_HealthProbeBindAddress :: string
  mgc_CacheSyncTimeout :: duration
  mgc_GracefulShutdownTimeout :: duration

definition DefaultManagerConfig :: ManagerConfig where
  "DefaultManagerConfig =
     \<lparr>mgc_MaxConcurrentReconciles = 1, mgc_ReconcileTimeout = 5 * Minute, mgc_ReconcileInterval = 5 * Minute,
      mgc_WorkloadTiming = defaultWorkloadTimingConfig, mgc_WatchNamespaces = [], mgc_IgnoreNamespaces = [],
      mgc_EnableDeployments = True, mgc_EnableStatefulSets = True, mgc_EnableDaemonSets = False,
      mgc_LeaderElection = True, mgc_MetricsBindAddress = '':8080'', mgc_HealthProbeBindAddress = '':8081'',
      mgc_CacheSyncTimeout = 10 * Minute, mgc_GracefulShutdownTimeout = 30 * Second\<rparr>"

text \<open>The struct literal of a reconciler with the fields the sources set and zero values elsewhere.\<close>

definition new_reconciler ::
  "NodeClassifierService \<Rightarrow> bool \<Rightarrow> NamespaceFilter option \<Rightarrow> duration \<Rightarrow> bool \<Rightarrow> duration \<times> duration \<times> duration \<Rightarrow> reconciler" where
  "new_reconciler nodeClassifier observer namespaceFilter interval metrics = (\<lambda>(cooldown, retry, poll).
     \<lparr>rc_NodeClassifier = nodeClassifier, rc_Observer = observer, rc_NamespaceFilter = namespaceFilter,
      rc_ReconcileInterval = interval, rc_MetricsCollector = metrics, rc_Config = None,
      rc_CooldownPeriod = cooldown, rc_DisruptionRetryInterval = retry, rc_DisruptionWindowPollInterval = poll,
      rc_lastDeletionTimes = Map.empty, rc_reconcileCount = 0, rc_errorCount = 0, rc_lastError = None\<rparr>)"

section \<open>The manager\<close>

record ControllerManager =
  cm_manager :: bool
  cm_config :: ManagerConfig
  cm_nodeClassifier :: NodeClassifierService
  cm_namespaceFilter :: "NamespaceFilter option"
  cm_metricsCollector :: bool
  cm_workloadObserver :: bool
  cm_deploymentController :: "reconciler option"
  cm_statefulSetController :: "reconciler option"
  cm_started :: bool
  cm_controllersRegistered :: "string \<Rightarrow> bool"

definition enabled_label_filter :: NamespaceFilterConfig where
  "enabled_label_filter = DefaultNamespaceFilterConfig\<lparr>nfc_RequiredLabels := [(EnabledLabel, ''true'')]\<rparr>"

text \<open>\<open>client\<close> says whether the manager has a client.\<close>

definition NewControllerManager ::
  "(string \<Rightarrow> (string \<Rightarrow> bool) option) \<Rightarrow> bool \<Rightarrow> bool \<Rightarrow> ManagerConfig option \<Rightarrow> NodeClassifierService \<Rightarrow> bool \<Rightarrow>
   ControllerManager" where
  "NewControllerManager compile mgr client config nodeClassifier metricsCollector =
     \<lparr>cm_manager = mgr, cm_config = (case config of None \<Rightarrow> DefaultManagerConfig | Some c \<Rightarrow> c),
      cm_nodeClassifier = nodeClassifier,
      cm_namespaceFilter =
        (if mgr \<and> client
         then (case NewNamespaceFilter compile (Some enabled_label_filter) of Inl _ \<Rightarrow> None | Inr nf \<Rightarrow> Some nf)
         else None),
      cm_metricsCollector = metricsCollector, cm_workloadObserver = mgr,
      cm_deploymentController = None, cm_statefulSetController = None, cm_started = False,
      cm_controllersRegistered = (\<lambda>_. False)\<rparr>"

text \<open>Without a manager the calls on it dereference nil.\<close>

datatype setup_panic = NilManager

definition timing_of :: "WorkloadTimingConfig \<Rightarrow> duration \<times> duration \<times> duration" where
  "timing_of t = (wt_CooldownPeriod t, wt_DisruptionRetryInterval t, wt_DisruptionWindowPollInterval t)"

definition managed_reconciler :: "ControllerManager \<Rightarrow> reconciler" where
  "managed_reconciler cm =
     new_reconciler (cm_nodeClassifier cm) (cm_workloadObserver cm) (cm_namespaceFilter cm)
       (mgc_ReconcileInterval (cm_config cm)) False
       (timing_of (wt_withDefaults (mgc_WorkloadTiming (cm_config cm))))"

definition registerObservationIndexes :: "go_error option \<Rightarrow> ControllerManager \<Rightarrow> go_error option" where
  "registerObservationIndexes index cm = (if \<not> cm_manager cm then None else index)"

definition setupDeploymentController ::
  "(string \<Rightarrow> go_error option) \<Rightarrow> ControllerManager \<Rightarrow> setup_panic + go_error option \<times> ControllerManager" where
  "setupDeploymentController complete cm =
     (if \<not> cm_manager cm then Inl NilManager
      else
        (let cm = cm\<lparr>cm_deploymentController := Some (managed_reconciler cm)\<rparr>
         in case complete ''deployment'' of
              Some e \<Rightarrow> Inr (Some (Wrapped ''failed to setup deployment controller'' e), cm)
            | None \<Rightarrow> Inr (None, cm\<lparr>cm_controllersRegistered := (cm_controllersRegistered cm)(''deployment'' := True)\<rparr>)))"

definition setupStatefulSetController ::
  "(string \<Rightarrow> go_error option) \<Rightarrow> ControllerManager \<Rightarrow> setup_panic + go_error option \<times> ControllerManager" where
  "setupStatefulSetController complete cm =
     (if \<not> cm_manager cm then Inl NilManager
      else
        (let cm = cm\<lparr>cm_statefulSetController := Some (managed_reconciler cm)\<rparr>
         in case complete ''statefulset'' of
              Some e \<Rightarrow> Inr (Some (Wrapped ''failed to setup statefulset controller'' e), cm)
            | None \<Rightarrow> Inr (None, cm\<lparr>cm_controllersRegistered := (cm_controllersRegistered cm)(''statefulset'' := True)\<rparr>)))"

definition SetupControllers ::
  "go_error option \<Rightarrow> (string \<Rightarrow> go_error option) \<Rightarrow> ControllerManager \<Rightarrow>
   setup_panic + go_error option \<times> ControllerManager" where
  "SetupControllers index complete cm =
     (case registerObservationIndexes index cm of
        Some e \<Rightarrow> Inr (Some e, cm)
      | None \<Rightarrow>
          (case (if mgc_EnableDeployments (cm_config cm) then setupDeploymentController complete cm else Inr (None, cm)) of
             Inl p \<Rightarrow> Inl p
           | Inr (Some e, cm) \<Rightarrow> Inr (Some (Wrapped ''failed to setup deployment controller'' e), cm)
           | Inr (None, cm) \<Rightarrow>
               (case (if mgc_EnableStatefulSets (cm_config cm) then setupStatefulSetController complete cm else Inr (None, cm)) of
                  Inl p \<Rightarrow> Inl p
                | Inr (Some e, cm) \<Rightarrow> Inr (Some (Wrapped ''failed to setup statefulset controller'' e), cm)
                | Inr (None, cm) \<Rightarrow> Inr (None, cm))))"

record ControllerStatus =
  cst_Name :: string
  cst_Enabled :: bool
  cst_Registered :: bool
  cst_Reconciles :: int
  cst_LastError :: "reconcile_error option"

definition status_entry :: "string \<Rightarrow> bool \<Rightarrow> bool \<Rightarrow> reconciler option \<Rightarrow> (string \<times> ControllerStatus) list" where
  "status_entry name enabled registered controller =
     (case controller of
        None \<Rightarrow> []
      | Some r \<Rightarrow> [(name, \<lparr>cst_Name = name, cst_Enabled = enabled, cst_Registered = registered,
                           cst_Reconciles = rc_reconcileCount r,
                           cst_LastError = (case rc_lastError r of None \<Rightarrow> None | Some e \<Rightarrow> Some (ce_Error e))\<rparr>)])"

definition GetControllerStatus :: "ControllerManager \<Rightarrow> (string \<times> ControllerStatus) list" where
  "GetControllerStatus cm =
     status_entry ''deployment'' (mgc_EnableDeployments (cm_config cm)) (cm_controllersRegistered cm ''deployment'')
       (cm_deploymentController cm) @
     status_entry ''statefulset'' (mgc_EnableStatefulSets (cm_config cm)) (cm_controllersRegistered cm ''statefulset'')
       (cm_statefulSetController cm)"

text \<open>\<open>Seconds\<close> of a duration is the duration, read in seconds.\<close>

datatype manager_metric =
    MM_Bool bool
  | MM_Int int
  | MM_Seconds duration
  | MM_Names "string list"
  | MM_Enabled "(string \<times> bool) list"
  | MM_Registered "string \<Rightarrow> bool"

definition GetManagerMetrics :: "ControllerManager \<Rightarrow> (string \<times> manager_metric) list" where
  "GetManagerMetrics cm =
     [(''started'', MM_Bool (cm_started cm)),
      (''max_concurrent_reconciles'', MM_Int (mgc_MaxConcurrentReconciles (cm_config cm))),
      (''reconcile_timeout_seconds'', MM_Seconds (mgc_ReconcileTimeout (cm_config cm))),
      (''reconcile_interval_seconds'', MM_Seconds (mgc_ReconcileInterval (cm_config cm))),
      (''watch_namespaces'', MM_Names (mgc_WatchNamespaces (cm_config cm))),
      (''ignore_namespaces'', MM_Names (mgc_IgnoreNamespaces (cm_config cm))),
      (''controllers_enabled'',
       MM_Enabled [(''deployments'', mgc_EnableDeployments (cm_config cm)),
                   (''statefulsets'', mgc_EnableStatefulSets (cm_config cm)),
                   (''daemonsets'', mgc_EnableDaemonSets (cm_config cm))]),
      (''controllers_registered'', MM_Registered (cm_controllersRegistered cm))] @
     (case cm_deploymentController cm of
        None \<Rightarrow> [] | Some r \<Rightarrow> [(''deployment_reconciles'', MM_Int (rc_reconcileCount r))]) @
     (case cm_statefulSetController cm of
        None \<Rightarrow> [] | Some r \<Rightarrow> [(''statefulset_reconciles'', MM_Int (rc_reconcileCount r))])"

datatype manager_invalid =
    MaxConcurrentNotPositive
  | TimeoutNotPositive
  | IntervalNotPositive
  | NoControllerEnabled

definition cm_ValidateConfiguration :: "ControllerManager \<Rightarrow> manager_invalid option" where
  "cm_ValidateConfiguration cm =
     (let c = cm_config cm
      in if mgc_MaxConcurrentReconciles c \<le> 0 then Some MaxConcurrentNotPositive
         else if mgc_ReconcileTimeout c \<le> 0 then Some TimeoutNotPositive
         else if mgc_ReconcileInterval c \<le> 0 then Some IntervalNotPositive
         else if \<not> mgc_EnableDeployments c \<and> \<not> mgc_EnableStatefulSets c \<and> \<not> mgc_EnableDaemonSets c
           then Some NoControllerEnabled
         else None)"

definition SetStarted :: "bool \<Rightarrow> ControllerManager \<Rightarrow> ControllerManager" where
  "SetStarted b cm = cm\<lparr>cm_started := b\<rparr>"

section \<open>What is registered\<close>

lemma wt_withDefaults_positive:
  "0 < wt_CooldownPeriod (wt_withDefaults t) \<and> 0 < wt_DisruptionRetryInterval (wt_withDefaults t) \<and>
   0 < wt_DisruptionWindowPollInterval (wt_withDefaults t)"
  by (simp add: wt_withDefaults_def defaultWorkloadTimingConfig_def duration_units Let_def)

text \<open>The library accepts all registrations: what the set-up comes to.\<close>

lemma SetupControllers_ok:
  assumes "cm_manager cm" "complete ''deployment'' = None" "complete ''statefulset'' = None"
  shows "SetupControllers None complete cm = Inr (None,
    (let cm1 = (if mgc_EnableDeployments (cm_config cm)
                then cm\<lparr>cm_deploymentController := Some (managed_reconciler cm),
                       cm_controllersRegistered := (cm_controllersRegistered cm)(''deployment'' := True)\<rparr> else cm)
     in if mgc_EnableStatefulSets (cm_config cm)
        then cm1\<lparr>cm_statefulSetController := Some (managed_reconciler cm),
                 cm_controllersRegistered := (cm_controllersRegistered cm1)(''statefulset'' := True)\<rparr> else cm1))"
  using assms
  by (simp add: SetupControllers_def registerObservationIndexes_def setupDeploymentController_def
      setupStatefulSetController_def managed_reconciler_def Let_def)

text \<open>
  A successful set-up registers exactly the enabled controllers. Each of them starts with
  positive waiting times, the configured ones where they are positive, and counts from zero,
  and the status lists exactly the registered ones.
\<close>

theorem registered_iff_enabled:
  assumes lib: "complete ''deployment'' = None" "complete ''statefulset'' = None"
    and new: "cm = NewControllerManager compile True client (Some config) nc mc"
    and run: "SetupControllers None complete cm = Inr (None, cm')"
  shows "cm_controllersRegistered cm' ''deployment'' = mgc_EnableDeployments config \<and>
    cm_controllersRegistered cm' ''statefulset'' = mgc_EnableStatefulSets config \<and>
    List.map fst (GetControllerStatus cm') =
      (if mgc_EnableDeployments config then [''deployment''] else []) @
      (if mgc_EnableStatefulSets config then [''statefulset''] else []) \<and>
    (\<forall>r. cm_deploymentController cm' = Some r \<or> cm_statefulSetController cm' = Some r \<longrightarrow>
       getCooldownPeriod r = wt_CooldownPeriod (wt_withDefaults (mgc_WorkloadTiming config)) \<and>
       0 < rc_DisruptionRetryInterval r \<and> 0 < rc_DisruptionWindowPollInterval r \<and>
       rc_reconcileCount r = 0 \<and> rc_Config r = None)"
proof -
  have m: "cm_manager cm" "cm_config cm = config" "cm_controllersRegistered cm = (\<lambda>_. False)"
    "cm_deploymentController cm = None" "cm_statefulSetController cm = None"
    by (simp_all add: new NewControllerManager_def)
  have r: "getCooldownPeriod (managed_reconciler cm) = wt_CooldownPeriod (wt_withDefaults (mgc_WorkloadTiming config))"
    "0 < rc_DisruptionRetryInterval (managed_reconciler cm)" "0 < rc_DisruptionWindowPollInterval (managed_reconciler cm)"
    "rc_reconcileCount (managed_reconciler cm) = 0" "rc_Config (managed_reconciler cm) = None"
    using wt_withDefaults_positive
    by (simp_all add: managed_reconciler_def new_reconciler_def timing_of_def getCooldownPeriod_def m)
  show ?thesis
    using run by (auto simp: SetupControllers_ok [OF m(1) lib] m r GetControllerStatus_def status_entry_def)
qed

definition sample_manager :: ControllerManager where
  "sample_manager = NewControllerManager (\<lambda>_. None) True True
     (Some (DefaultManagerConfig\<lparr>mgc_EnableStatefulSets := False\<rparr>)) (NewNodeClassifierService None) False"

lemma registered_iff_enabled_witness:
  "\<exists>cm'. SetupControllers None (\<lambda>_. None) sample_manager = Inr (None, cm') \<and>
     cm_controllersRegistered cm' ''deployment'' \<and> \<not> cm_controllersRegistered cm' ''statefulset'' \<and>
     List.map fst (GetControllerStatus cm') = [''deployment'']"
proof -
  have m: "cm_manager sample_manager" by (simp add: sample_manager_def NewControllerManager_def)
  from SetupControllers_ok [OF m, of "\<lambda>_. None"] obtain cm' where
    run: "SetupControllers None (\<lambda>_. None) sample_manager = Inr (None, cm')" by simp
  from registered_iff_enabled [OF refl refl sample_manager_def this] run show ?thesis
    by (simp add: DefaultManagerConfig_def)
qed

text \<open>
  When the library refuses one of them, the error is returned and the refused controller is
  kept but not marked; without a manager the set-up of an enabled controller panics.
\<close>

lemma failed_registration_unmarked:
  assumes "cm_manager cm" "mgc_EnableDeployments (cm_config cm)" "complete ''deployment'' = Some e"
    "\<not> cm_controllersRegistered cm ''deployment''"
  shows "\<exists>cm'. SetupControllers None complete cm =
      Inr (Some (Wrapped ''failed to setup deployment controller'' (Wrapped ''failed to setup deployment controller'' e)), cm') \<and>
    cm_deploymentController cm' \<noteq> None \<and> \<not> cm_controllersRegistered cm' ''deployment''"
  using assms
  by (simp add: SetupControllers_def registerObservationIndexes_def setupDeploymentController_def Let_def)

lemma no_manager_panics:
  "mgc_EnableDeployments config \<Longrightarrow>
   SetupControllers None complete (NewControllerManager compile False client (Some config) nc mc) = Inl NilManager"
  by (simp add: SetupControllers_def registerObservationIndexes_def setupDeploymentController_def NewControllerManager_def)

end
