(* ===== verification/Operator_Wiring.thy ===== *)
theory Operator_Wiring
  imports Controller_Manager Mutate Health Leadership Complex_Main
begin

text \<open>
  \<^verbatim>\<open>pkg/operator/operator.go\<close> : how the program puts its parts together. An operator is built from its configuration and the
  process environment; what counts afterwards is what was registered with controller-runtime:
  the options of its manager, the two reconcilers, the handler of the webhook and the probes.

  The calls of libraries that may fail are fields of \<open>operator_env\<close>. Pointers shared by
  several parts (the node classifier) are copied at set-up, where they are equal.
\<close>

section \<open>Configuration\<close>

record op_Config =
  opc_MetricsAddr :: string
  opc_ProbeAddr :: string
  opc_WebhookAddr :: string
  opc_LeaderElection :: bool
  opc_LeaderElectionID :: string
  opc_Namespace :: string
  opc_ReconcileInterval :: duration
  opc_MaxConcurrentReconciles :: int
  opc_WebhookCertDir :: string
  opc_WebhookCertName :: string
  opc_WebhookKeyName :: string
  opc_WebhookPort :: int
  opc_LogLevel :: string
  opc_EnablePprof :: bool
  opc_EnableWebhook :: bool
  opc_ReadOnlyMode :: bool
  opc_NamespaceFilter :: "string list"
  opc_APIQPSLimit :: rat
  opc_APIBurstLimit :: int

definition DefaultOperatorConfig :: op_Config where
  "DefaultOperatorConfig =
     \<lparr>opc_MetricsAddr = '':8080'', opc_ProbeAddr = '':8081'', opc_WebhookAddr = '':9443'', opc_LeaderElection = True,
      opc_LeaderElectionID = spotalisControllerLeader, opc_Namespace = spotalisNamespace,
      opc_ReconcileInterval = 30 * Second, opc_MaxConcurrentReconciles = 10,
      opc_WebhookCertDir = ''/tmp/k8s-webhook-server/serving-certs'', opc_WebhookCertName = ''tls.crt'',
      opc_WebhookKeyName = ''tls.key'', opc_WebhookPort = 9443, opc_LogLevel = ''info'', opc_EnablePprof = False,
      opc_EnableWebhook = True, opc_ReadOnlyMode = False, opc_NamespaceFilter = [], opc_APIQPSLimit = 20,
      opc_APIBurstLimit = 30\<rparr>"

text \<open>An unset variable reads as the empty string and leaves the setting.\<close>

definition env_or :: "(string \<Rightarrow> string) \<Rightarrow> string \<Rightarrow> string \<Rightarrow> string" where
  "env_or getenv v old = (if getenv v \<noteq> [] then getenv v else old)"

definition configFromEnv :: "(string \<Rightarrow> string) \<Rightarrow> op_Config \<Rightarrow> op_Config" where
  "configFromEnv getenv c =
     c\<lparr>opc_MetricsAddr := env_or getenv ''METRICS_ADDR'' (opc_MetricsAddr c),
       opc_ProbeAddr := env_or getenv ''PROBE_ADDR'' (opc_ProbeAddr c),
       opc_WebhookAddr := env_or getenv ''WEBHOOK_ADDR'' (opc_WebhookAddr c),
       opc_Namespace := env_or getenv ''NAMESPACE'' (opc_Namespace c),
       opc_LogLevel := env_or getenv ''LOG_LEVEL'' (opc_LogLevel c),
       opc_LeaderElection := (if getenv ''DISABLE_LEADER_ELECTION'' = ''true'' then False else opc_LeaderElection c),
       opc_EnableWebhook := (if getenv ''DISABLE_WEBHOOK'' = ''true'' then False else opc_EnableWebhook c),
       opc_ReadOnlyMode := (if getenv ''READ_ONLY_MODE'' = ''true'' then True else opc_ReadOnlyMode c),
       opc_EnablePprof := (if getenv ''ENABLE_PPROF'' = ''true'' then True else opc_EnablePprof c)\<rparr>"

section \<open>The operator\<close>

text \<open>
  The options of the controller-runtime manager. Without a webhook server of its own the
  manager makes one on demand, \<open>None\<close> here.
\<close>

record manager_options =
  mo_MetricsBindAddress :: string
  mo_WebhookPort :: "int option"
  mo_HealthProbeBindAddress :: string
  mo_LeaderElection :: bool
  mo_LeaderElectionID :: string
  mo_LeaderElectionNamespace :: string

record operator_env =
  oe_getenv :: "string \<Rightarrow> string"
  oe_host :: "string option"
  oe_addToScheme :: "go_error option"
  oe_newManager :: "manager_options \<Rightarrow> go_error option"
  oe_newForConfig :: "go_error option"
  oe_indexField :: "nat \<Rightarrow> go_error option"
  oe_compile :: "string \<Rightarrow> (string \<Rightarrow> bool) option"
  oe_complete :: "string \<Rightarrow> go_error option"
  oe_now :: time

record WebhookServerConfig =
  wsc_Port :: int
  wsc_CertPath :: string
  wsc_KeyPath :: string
  wsc_ReadOnly :: bool

record Operator =
  o_options :: manager_options
  o_config :: op_Config
  o_namespace :: string
  o_nodeClassifier :: "NodeClassifierService option"
  o_workloadObserver :: bool
  o_metricsCollector :: bool
  o_mutationHandler :: "MutationHandler option"
  o_healthChecker :: "HealthChecker option"
  o_webhookServer :: "WebhookServerConfig option"
  o_routes :: "string list"
  o_leaderElectionManager :: "LeaderElectionManager option"
  o_controllers :: "(string \<times> reconciler) list"
  o_hooks :: "(string \<times> MutationHandler) list"
  o_checks :: "string list"
  o_started :: bool

definition new_operator :: "manager_options \<Rightarrow> op_Config \<Rightarrow> LeaderElectionManager option \<Rightarrow> Operator" where
  "new_operator opts c lem =
     \<lparr>o_options = opts, o_config = c, o_namespace = opc_Namespace c, o_nodeClassifier = None,
      o_workloadObserver = False, o_metricsCollector = False, o_mutationHandler = None, o_healthChecker = None,
      o_webhookServer = None, o_routes = [], o_leaderElectionManager = lem, o_controllers = [], o_hooks = [],
      o_checks = [], o_started = False\<rparr>"

definition operator_classifier_config :: NodeClassifierConfig where
  "operator_classifier_config =
     \<lparr>nk_SpotLabels = [(''karpenter.sh/capacity-type'', ''spot'')],
      nk_OnDemandLabels = [(''karpenter.sh/capacity-type'', ''on-demand'')],
      nk_CacheRefreshInterval = 30 * Second, nk_CloudProvider = ''aws''\<rparr>"

definition initializeCoreServices :: "operator_env \<Rightarrow> Operator \<Rightarrow> go_error + Operator" where
  "initializeCoreServices e o1 =
     (let nc = NewNodeClassifierService (Some operator_classifier_config);
          o1 = o1\<lparr>o_nodeClassifier := Some nc\<rparr>
      in case oe_indexField e 0 of
           Some err \<Rightarrow> Inl (Wrapped ''index pod controller owners'' err)
         | None \<Rightarrow>
             (case oe_indexField e 1 of
                Some err \<Rightarrow> Inl (Wrapped ''index ReplicaSet controller owners'' err)
              | None \<Rightarrow>
                  Inr (o1\<lparr>o_workloadObserver := True, o_metricsCollector := True,
                         o_mutationHandler := Some
                           \<lparr>mh_NodeClassifier = nc, mh_NodeClassifierConfig = None, mh_MetricsCollector = True,
                            mh_AdmissionTracker = None, mh_Observer = True\<rparr>\<rparr>)))"

definition setupHTTPRoutes :: "Operator \<Rightarrow> Operator" where
  "setupHTTPRoutes o1 =
     o1\<lparr>o_routes := [''/healthz'', ''/readyz'', ''/metrics'', ''/metrics/health''] @
          (if o_webhookServer o1 \<noteq> None then [''/webhook/mutate'', ''/webhook/validate''] else [])\<rparr>"

definition initializeHTTPServer :: "operator_env \<Rightarrow> Operator \<Rightarrow> Operator" where
  "initializeHTTPServer e o1 =
     (let o1 = o1\<lparr>o_healthChecker := Some (NewHealthChecker True True (oe_now e) (o_namespace o1))\<rparr>;
          o1 = (if opc_EnableWebhook (o_config o1)
                then o1\<lparr>o_webhookServer := Some
                       \<lparr>wsc_Port = opc_WebhookPort (o_config o1), wsc_CertPath = opc_WebhookCertName (o_config o1),
                        wsc_KeyPath = opc_WebhookKeyName (o_config o1), wsc_ReadOnly = opc_ReadOnlyMode (o_config o1)\<rparr>\<rparr>
                else o1)
      in setupHTTPRoutes o1)"

definition GetID :: "Operator \<Rightarrow> string" where
  "GetID o1 = (case o_leaderElectionManager o1 of None \<Rightarrow> defaultHostname | Some l \<Rightarrow> GetIdentity l)"

definition controller_name :: "string \<Rightarrow> Operator \<Rightarrow> string" where
  "controller_name base o1 =
     (let operatorID = GetID o1
      in if operatorID \<noteq> [] \<and> operatorID \<noteq> defaultHostname then base @ ''-'' @ operatorID else base)"

definition operator_namespace_filter :: "operator_env \<Rightarrow> NamespaceFilter option" where
  "operator_namespace_filter e =
     (case NewNamespaceFilter (oe_compile e)
             (Some (DefaultNamespaceFilterConfig\<lparr>nfc_RequiredAnnotations := [(''spotalis.io/enabled'', ''true'')]\<rparr>)) of
        Inl _ \<Rightarrow> None
      | Inr nf \<Rightarrow> Some nf)"

text \<open>Both reconcilers are set up alike; the fields the literal leaves out are zero.\<close>

definition operator_reconciler :: "operator_env \<Rightarrow> Operator \<Rightarrow> reconciler" where
  "operator_reconciler e o1 =
     new_reconciler (case o_nodeClassifier o1 of Some nc \<Rightarrow> nc | None \<Rightarrow> NewNodeClassifierService None)
       (o_workloadObserver o1) (operator_namespace_filter e) (opc_ReconcileInterval (o_config o1))
       (o_metricsCollector o1) (0, 0, 0)"

definition op_setupControllers :: "operator_env \<Rightarrow> Operator \<Rightarrow> go_error + Operator" where
  "op_setupControllers e o1 =
     (let r = operator_reconciler e o1;
          deploymentName = controller_name ''deployment'' o1
      in case oe_complete e deploymentName of
           Some err \<Rightarrow> Inl (Wrapped ''failed to setup deployment controller'' err)
         | None \<Rightarrow>
             (let o1 = o1\<lparr>o_controllers := o_controllers o1 @ [(deploymentName, r)]\<rparr>;
                  statefulSetName = controller_name ''statefulset'' o1
              in case oe_complete e statefulSetName of
                   Some err \<Rightarrow> Inl (Wrapped ''failed to setup statefulset controller'' err)
                 | None \<Rightarrow> Inr (o1\<lparr>o_controllers := o_controllers o1 @ [(statefulSetName, r)]\<rparr>)))"

definition setupWebhooks :: "Operator \<Rightarrow> go_error + Operator" where
  "setupWebhooks o1 =
     (if o_webhookServer o1 = None then Inl (Errorf ''webhook server not initialized'')
      else Inr (o1\<lparr>o_hooks := (case o_mutationHandler o1 of None \<Rightarrow> o_hooks o1 | Some h \<Rightarrow> o_hooks o1 @ [(''/mutate'', h)])\<rparr>))"

text \<open>A probe that the manager refuses is only logged.\<close>

definition setupHealthChecks :: "Operator \<Rightarrow> Operator" where
  "setupHealthChecks o1 = o1\<lparr>o_checks := [''healthz'', ''readyz'']\<rparr>"

definition operator_options :: "op_Config \<Rightarrow> manager_options" where
  "operator_options c =
     \<lparr>mo_MetricsBindAddress = opc_MetricsAddr c, mo_WebhookPort = Some (opc_WebhookPort c),
      mo_HealthProbeBindAddress = opc_ProbeAddr c, mo_LeaderElection = opc_LeaderElection c,
      mo_LeaderElectionID = opc_LeaderElectionID c, mo_LeaderElectionNamespace = opc_Namespace c\<rparr>"

definition NewOperator :: "operator_env \<Rightarrow> op_Config option \<Rightarrow> go_error + Operator" where
  "NewOperator e config =
     (let c = configFromEnv (oe_getenv e) (case config of None \<Rightarrow> DefaultOperatorConfig | Some c \<Rightarrow> c);
          opts = operator_options c
      in case oe_addToScheme e of
           Some err \<Rightarrow> Inl (Wrapped ''failed to add client-go scheme'' err)
         | None \<Rightarrow>
        (case oe_newManager e opts of
           Some err \<Rightarrow> Inl (Wrapped ''failed to create manager'' err)
         | None \<Rightarrow>
        (case oe_newForConfig e of
           Some err \<Rightarrow> Inl (Wrapped ''failed to create kubernetes client'' err)
         | None \<Rightarrow>
        (case initializeCoreServices e (new_operator opts c None) of
           Inl err \<Rightarrow> Inl (Wrapped ''failed to initialize core services'' err)
         | Inr o1 \<Rightarrow>
        (case op_setupControllers e (initializeHTTPServer e o1) of
           Inl err \<Rightarrow> Inl (Wrapped ''failed to setup controllers'' err)
         | Inr o1 \<Rightarrow>
        (case (if opc_EnableWebhook c then setupWebhooks o1 else Inr o1) of
           Inl err \<Rightarrow> Inl (Wrapped ''failed to setup webhooks'' err)
         | Inr o1 \<Rightarrow> Inr (setupHealthChecks o1)))))))"

text \<open>The constructors for tests: the same steps with fixed settings, a panic for every error.\<close>

datatype operator_panic = OperatorPanic string go_error

definition testing_election :: "op_Config \<Rightarrow> string \<Rightarrow> LeaderElectionConfig" where
  "testing_election c operatorID =
     \<lparr>lec_Enabled = opc_LeaderElection c, lec_ID = opc_LeaderElectionID c, lec_Namespace = ''kube-system'',
      lec_LeaseName = opc_LeaderElectionID c, lec_LeaseDuration = 15 * Second, lec_RenewDeadline = 10 * Second,
      lec_RetryPeriod = 2 * Second, lec_Identity = operatorID\<rparr>"

definition build_or_panic ::
  "operator_env \<Rightarrow> manager_options \<Rightarrow> op_Config \<Rightarrow> string \<Rightarrow> operator_panic + Operator" where
  "build_or_panic e opts c operatorID =
     (case oe_addToScheme e of
        Some err \<Rightarrow> Inl (OperatorPanic ''failed to add client-go scheme'' err)
      | None \<Rightarrow>
     (case oe_newManager e opts of
        Some err \<Rightarrow> Inl (OperatorPanic ''failed to create manager'' err)
      | None \<Rightarrow>
     (case oe_newForConfig e of
        Some err \<Rightarrow> Inl (OperatorPanic ''failed to create kubernetes client'' err)
      | None \<Rightarrow>
          (let lem = NewLeaderElectionManager (oe_host e) (Some (testing_election c operatorID))
           in case initializeCoreServices e (new_operator opts c (Some lem)) of
                Inl err \<Rightarrow> Inl (OperatorPanic ''failed to initialize core services'' err)
              | Inr o1 \<Rightarrow>
                  (case op_setupControllers e (initializeHTTPServer e o1) of
                     Inl err \<Rightarrow> Inl (OperatorPanic ''failed to setup controllers'' err)
                   | Inr o1 \<Rightarrow> Inr o1)))))"

definition NewForTesting :: "operator_env \<Rightarrow> string \<Rightarrow> operator_panic + Operator" where
  "NewForTesting e operatorID =
     (let c = DefaultOperatorConfig\<lparr>opc_LeaderElectionID := ''spotalis-leader-test'', opc_EnableWebhook := False,
                opc_MetricsAddr := '':0'', opc_ProbeAddr := '':0''\<rparr>
      in build_or_panic e
           \<lparr>mo_MetricsBindAddress = ''0'', mo_WebhookPort = None, mo_HealthProbeBindAddress = opc_ProbeAddr c,
            mo_LeaderElection = False, mo_LeaderElectionID = [], mo_LeaderElectionNamespace = []\<rparr> c operatorID)"

definition port_address :: "int \<Rightarrow> string" where
  "port_address p = (if p = 0 then '':0'' else '':'' @ FormatInt p)"

definition NewWithIDAndPorts :: "operator_env \<Rightarrow> string \<Rightarrow> int \<Rightarrow> int \<Rightarrow> int \<Rightarrow> operator_panic + Operator" where
  "NewWithIDAndPorts e operatorID metricsPort probePort webhookPort =
     (let c = DefaultOperatorConfig\<lparr>opc_LeaderElectionID := operatorID, opc_MetricsAddr := port_address metricsPort,
                opc_ProbeAddr := port_address probePort, opc_WebhookPort := webhookPort\<rparr>
      in case build_or_panic e ((operator_options c)\<lparr>mo_MetricsBindAddress := ''0''\<rparr>) c operatorID of
           Inl p \<Rightarrow> Inl p
         | Inr o1 \<Rightarrow>
             (case (if opc_EnableWebhook c then setupWebhooks o1 else Inr o1) of
                Inl err \<Rightarrow> Inl (OperatorPanic ''failed to setup webhooks'' err)
              | Inr o1 \<Rightarrow> Inr (setupHealthChecks o1)))"

definition NewWithID :: "operator_env \<Rightarrow> string \<Rightarrow> operator_panic + Operator" where
  "NewWithID e operatorID = NewWithIDAndPorts e operatorID 0 0 0"

text \<open>A configuration of another type than \<^verbatim>\<open>*Config\<close> is \<open>None\<close>, as nil is.\<close>

definition NewWithConfig :: "operator_env \<Rightarrow> op_Config option \<Rightarrow> operator_panic + Operator" where
  "NewWithConfig e operatorConfig =
     (case NewOperator e (Some (case operatorConfig of Some c \<Rightarrow> c | None \<Rightarrow> DefaultOperatorConfig)) of
        Inl err \<Rightarrow> Inl (OperatorPanic ''failed to create operator with config'' err)
      | Inr o1 \<Rightarrow> Inr o1)"

definition op_New :: "operator_env \<Rightarrow> operator_panic + Operator" where
  "op_New e =
     (case NewOperator e (Some DefaultOperatorConfig) of
        Inl err \<Rightarrow> Inl (OperatorPanic ''failed to create operator'' err)
      | Inr o1 \<Rightarrow> Inr o1)"

section \<open>Running\<close>

text \<open>\<open>Start\<close> marks the operator started and hands over to the manager, whose error is \<open>run\<close>.\<close>

definition op_Start :: "go_error option \<Rightarrow> Operator \<Rightarrow> go_error option \<times> Operator" where
  "op_Start run o1 =
     (if o_started o1 then (Some (Errorf ''operator already started''), o1)
      else (run, o1\<lparr>o_started := True\<rparr>))"

text \<open>\<open>elected\<close>: the manager's channel \<^verbatim>\<open>Elected\<close> is closed.\<close>

definition op_IsReady :: "bool \<Rightarrow> Operator \<Rightarrow> bool" where
  "op_IsReady elected o1 =
     (if \<not> o_started o1 then False
      else if opc_LeaderElection (o_config o1) then elected
      else o_started o1)"

definition op_IsLeader :: "Operator \<Rightarrow> bool" where
  "op_IsLeader o1 = (case o_leaderElectionManager o1 of Some l \<Rightarrow> IsLeader l | None \<Rightarrow> True)"

definition IsFollower :: "bool \<Rightarrow> Operator \<Rightarrow> bool" where
  "IsFollower elected o1 \<longleftrightarrow> op_IsReady elected o1 \<and> \<not> op_IsLeader o1"

definition GetLeaderElectionDebugInfo :: "Operator \<Rightarrow> string" where
  "GetLeaderElectionDebugInfo o1 =
     (case o_leaderElectionManager o1 of Some l \<Rightarrow> GetDebugInfo l | None \<Rightarrow> ''no leader election manager'')"

record operator_metrics =
  om_WorkloadsManaged :: int
  om_SpotInterruptions :: int
  om_LeaderElectionChanges :: int
  om_LeadershipDuration :: duration

definition op_GetMetrics :: "time \<Rightarrow> int \<Rightarrow> lease_object option \<Rightarrow> Operator \<Rightarrow> operator_metrics" where
  "op_GetMetrics now managedWorkloads lease o1 =
     (if \<not> o_metricsCollector o1
      then \<lparr>om_WorkloadsManaged = 0, om_SpotInterruptions = 0, om_LeaderElectionChanges = 0, om_LeadershipDuration = 0\<rparr>
      else
        \<lparr>om_WorkloadsManaged = managedWorkloads, om_SpotInterruptions = 0, om_LeaderElectionChanges = 0,
         om_LeadershipDuration =
           (case o_leaderElectionManager o1 of
              None \<Rightarrow> 0
            | Some l \<Rightarrow>
                (let info = GetLeadershipInfo lease l
                 in if lif_IsLeader info \<and> \<not> IsZero (lif_StartTime info)
                    then time_sub now (lif_StartTime info) else 0))\<rparr>)"

text \<open>What is set on the collector: the gauge of the controller named, and whether it leads.\<close>

definition updateControllerHealthMetrics :: "Operator \<Rightarrow> (string \<times> bool) list" where
  "updateControllerHealthMetrics o1 =
     (if o_metricsCollector o1 then [(''spotalis-controller'', op_IsLeader o1)] else [])"

text \<open>One update at once and one for each tick; \<open>states\<close> is the operator at each of them.\<close>

definition updateControllerHealthPeriodically :: "Operator \<Rightarrow> Operator list \<Rightarrow> (string \<times> bool) list" where
  "updateControllerHealthPeriodically o1 states = concat (List.map updateControllerHealthMetrics (o1 # states))"

datatype op_stop_error = ResignFailed resign_error

definition op_Stop :: "string option \<Rightarrow> Operator \<Rightarrow> op_stop_error option \<times> Operator" where
  "op_Stop deleteError o1 =
     (if \<not> o_started o1 then (None, o1)
      else case (case o_leaderElectionManager o1 of None \<Rightarrow> None | Some l \<Rightarrow> Resign deleteError l) of
             Some err \<Rightarrow> (Some (ResignFailed err), o1)
           | None \<Rightarrow> (None, o1\<lparr>o_started := False\<rparr>))"

text \<open>\<open>SimulateNetworkPartition\<close> and \<open>SimulateLeaseRenewalFailure\<close> have the same body.\<close>

definition simulate_failure :: "string option \<Rightarrow> Operator \<Rightarrow> resign_error option" where
  "simulate_failure deleteError o1 =
     (case o_leaderElectionManager o1 of None \<Rightarrow> None | Some l \<Rightarrow> Resign deleteError l)"

record HealthStatus =
  hst_Leadership :: string
  hst_Status :: string

definition GetHealthStatus :: "bool \<Rightarrow> Operator \<Rightarrow> HealthStatus" where
  "GetHealthStatus elected o1 =
     \<lparr>hst_Leadership = (if op_IsLeader o1 then ''leader'' else ''follower''),
      hst_Status = (if op_IsReady elected o1 then ''healthy'' else ''unhealthy'')\<rparr>"

section \<open>What an operator comes to\<close>

text \<open>What counts once the operator runs: everything that was registered with the library.\<close>

definition runs_as ::
  "Operator \<Rightarrow> manager_options \<times> string \<times> (string \<times> reconciler) list \<times> (string \<times> MutationHandler) list \<times> string list" where
  "runs_as o1 = (o_options o1, o_namespace o1, o_controllers o1, o_hooks o1, o_checks o1)"

definition operator_handler :: MutationHandler where
  "operator_handler =
     \<lparr>mh_NodeClassifier = NewNodeClassifierService (Some operator_classifier_config), mh_NodeClassifierConfig = None,
      mh_MetricsCollector = True, mh_AdmissionTracker = None, mh_Observer = True\<rparr>"

definition registered_reconciler :: "operator_env \<Rightarrow> duration \<Rightarrow> reconciler" where
  "registered_reconciler e interval =
     new_reconciler (NewNodeClassifierService (Some operator_classifier_config)) True (operator_namespace_filter e)
       interval True (0, 0, 0)"

lemma NewOperator_result:
  assumes "NewOperator e config = Inr o1"
    and c: "c = configFromEnv (oe_getenv e) (case config of None \<Rightarrow> DefaultOperatorConfig | Some c \<Rightarrow> c)"
  shows "runs_as o1 = (operator_options c, opc_Namespace c,
      [(''deployment'', registered_reconciler e (opc_ReconcileInterval c)),
       (''statefulset'', registered_reconciler e (opc_ReconcileInterval c))],
      (if opc_EnableWebhook c then [(''/mutate'', operator_handler)] else []), [''healthz'', ''readyz''])"
    and "o_leaderElectionManager o1 = None" and "o_config o1 = c" and "\<not> o_started o1" and "o_metricsCollector o1"
    and "map_option wsc_ReadOnly (o_webhookServer o1) = (if opc_EnableWebhook c then Some (opc_ReadOnlyMode c) else None)"
  using assms(1) unfolding NewOperator_def Let_def c [symmetric]
  by (auto simp: initializeCoreServices_def initializeHTTPServer_def setupHTTPRoutes_def op_setupControllers_def
      setupWebhooks_def setupHealthChecks_def new_operator_def controller_name_def GetID_def runs_as_def Let_def
      operator_reconciler_def registered_reconciler_def operator_handler_def split: option.splits if_splits)

text \<open>
  The operator that the program builds has no election manager of its own, the election is the
  library's. It therefore always calls itself the leader: also an instance that lost the
  election, and is not ready, reports the leadership in its status and its gauge, and none ever
  is a follower.
\<close>

theorem every_replica_leads:
  assumes "NewOperator e config = Inr o1"
  shows "hst_Leadership (GetHealthStatus False o1) = ''leader'' \<and> \<not> IsFollower elected o1 \<and>
    updateControllerHealthPeriodically o1 [o1] = [(''spotalis-controller'', True), (''spotalis-controller'', True)] \<and>
    (opc_LeaderElection (o_config o1) \<longrightarrow> hst_Status (GetHealthStatus False (snd (op_Start run o1))) = ''unhealthy'')"
  using NewOperator_result(2,4,5) [OF assms refl]
  by (simp add: GetHealthStatus_def op_IsLeader_def IsFollower_def updateControllerHealthPeriodically_def
      updateControllerHealthMetrics_def op_Start_def op_IsReady_def)

definition quiet_env :: operator_env where
  "quiet_env = \<lparr>oe_getenv = (\<lambda>_. []), oe_host = None, oe_addToScheme = None, oe_newManager = (\<lambda>_. None),
     oe_newForConfig = None, oe_indexField = (\<lambda>_. None), oe_compile = (\<lambda>p. Some (\<lambda>_. False)),
     oe_complete = (\<lambda>_. None), oe_now = 0\<rparr>"

lemma NewOperator_quiet: "\<exists>o1. NewOperator quiet_env config = Inr o1"
  by (simp add: NewOperator_def Let_def quiet_env_def initializeCoreServices_def op_setupControllers_def
      initializeHTTPServer_def setupHTTPRoutes_def setupWebhooks_def new_operator_def)

lemma every_replica_leads_witness:
  "\<exists>o1. NewOperator quiet_env None = Inr o1 \<and> hst_Leadership (GetHealthStatus False o1) = ''leader''"
proof -
  obtain o1 where "NewOperator quiet_env None = Inr o1" using NewOperator_quiet by blast
  from every_replica_leads [OF this] this show ?thesis by blast
qed

text \<open>
  An operator is started at most once between two stops; stopping it never fails, since there
  is no election to resign from.
\<close>

lemma operator_lifecycle:
  assumes "NewOperator e config = Inr o1"
  shows "fst (op_Start run (snd (op_Start run o1))) = Some (Errorf ''operator already started'') \<and>
    fst (op_Stop deleteError (snd (op_Start run o1))) = None \<and>
    snd (op_Stop deleteError (snd (op_Start run o1))) = o1"
  using NewOperator_result(2,4) [OF assms refl]
  by (simp add: op_Start_def op_Stop_def)

end
