(* ===== verification/Loader_Config.thy ===== *)
theory Loader_Config
  imports Go_Duration Complex_Main
begin

text \<open>
  The configuration of \<^verbatim>\<open>internal/config/loader.go\<close>: its sections, its
  defaults and its validation. A \<^verbatim>\<open>float32\<close> is a rational: it is only
  compared with zero and passed on.
\<close>

section \<open>The sections\<close>

record ic_ControllerConfig =
  icc_Namespace :: string
  icc_MaxConcurrentReconciles :: int
  icc_ReconcileInterval :: duration
  icc_ReconcileTimeout :: duration
  icc_EnableDeployments :: bool
  icc_EnableStatefulSets :: bool
  icc_EnableDaemonSets :: bool
  icc_ReadOnlyMode :: bool
  icc_GracefulShutdownTimeout :: duration

record ic_WebhookConfig =
  icw_Enabled :: bool
  icw_Port :: int
  icw_CertDir :: string
  icw_CertName :: string
  icw_KeyName :: string
  icw_ServiceName :: string
  icw_ServiceNamespace :: string
  icw_ServicePath :: string
  icw_TLSMinVersion :: string
  icw_TLSCipherSuites :: "string list"
  icw_FailurePolicy :: string
  icw_TimeoutSeconds :: int

record ic_KubernetesConfig =
  ick_Kubeconfig :: string
  ick_Context :: string
  ick_QPS :: rat
  ick_Burst :: int
  ick_Timeout :: duration
  ick_ServiceAccount :: string
  ick_ClusterRole :: string
  ick_RoleBinding :: string

record ic_LeaderElectionConfig =
  icl_Enabled :: bool
  icl_ID :: string
  icl_LeaseName :: string
  icl_LeaseDuration :: duration
  icl_RenewDeadline :: duration
  icl_RetryPeriod :: duration

record ic_LoggingConfig =
  icg_Level :: string
  icg_Development :: bool
  icg_EnablePprof :: bool

record ic_MetricsConfig =
  icm_BindAddress :: string
  icm_EnableProfiling :: bool
  icm_ProfilingAddress :: string
  icm_HealthBindAddress :: string
  icm_CollectionInterval :: duration

record ic_NodeClassificationConfig =
  icn_CacheSize :: int
  icn_CacheTTL :: duration
  icn_UpdateInterval :: duration
  icn_AWSEnabled :: bool
  icn_GCPEnabled :: bool
  icn_AzureEnabled :: bool

record ic_NamespacesConfig =
  ics_Watch :: "string list"
  ics_Ignore :: "string list"

record Configuration =
  cfg_Controller :: ic_ControllerConfig
  cfg_Webhook :: ic_WebhookConfig
  cfg_Kubernetes :: ic_KubernetesConfig
  cfg_LeaderElection :: ic_LeaderElectionConfig
  cfg_Logging :: ic_LoggingConfig
  cfg_Metrics :: ic_MetricsConfig
  cfg_NodeClassification :: ic_NodeClassificationConfig
  cfg_Namespaces :: ic_NamespacesConfig

definition DefaultConfiguration :: Configuration where
  "DefaultConfiguration =
     \<lparr>cfg_Controller =
        \<lparr>icc_Namespace = ''spotalis-system'',
         icc_MaxConcurrentReconciles = 10,
         icc_ReconcileInterval = 30 * Second,
         icc_ReconcileTimeout = 5 * Minute,
         icc_EnableDeployments = True,
         icc_EnableStatefulSets = True,
         icc_EnableDaemonSets = False,
         icc_ReadOnlyMode = False,
         icc_GracefulShutdownTimeout = 30 * Second\<rparr>,
      cfg_Webhook =
        \<lparr>icw_Enabled = True,
         icw_Port = 9443,
         icw_CertDir = ''/tmp/k8s-webhook-server/serving-certs'',
         icw_CertName = ''tls.crt'',
         icw_KeyName = ''tls.key'',
         icw_ServiceName = ''spotalis-webhook-service'',
         icw_ServiceNamespace = ''spotalis-system'',
         icw_ServicePath = ''/mutate'',
         icw_TLSMinVersion = ''1.3'',
         icw_TLSCipherSuites = [],
         icw_FailurePolicy = ''Fail'',
         icw_TimeoutSeconds = 10\<rparr>,
      cfg_Kubernetes =
        \<lparr>ick_Kubeconfig = [],
         ick_Context = [],
         ick_QPS = 20,
         ick_Burst = 30,
         ick_Timeout = 30 * Second,
         ick_ServiceAccount = ''spotalis-controller'',
         ick_ClusterRole = ''spotalis-controller'',
         ick_RoleBinding = ''spotalis-controller''\<rparr>,
      cfg_LeaderElection =
        \<lparr>icl_Enabled = True,
         icl_ID = ''spotalis-controller-leader'',
         icl_LeaseName = ''spotalis-controller-leader'',
         icl_LeaseDuration = 15 * Second,
         icl_RenewDeadline = 10 * Second,
         icl_RetryPeriod = 2 * Second\<rparr>,
      cfg_Logging =
        \<lparr>icg_Level = ''info'',
         icg_Development = False,
         icg_EnablePprof = False\<rparr>,
      cfg_Metrics =
        \<lparr>icm_BindAddress = '':8080'',
         icm_EnableProfiling = False,
         icm_ProfilingAddress = '':6060'',
         icm_HealthBindAddress = '':8081'',
         icm_CollectionInterval = 30 * Second\<rparr>,
      cfg_NodeClassification =
        \<lparr>icn_CacheSize = 1000,
         icn_CacheTTL = 5 * Minute,
         icn_UpdateInterval = 30 * Second,
         icn_AWSEnabled = True,
         icn_GCPEnabled = True,
         icn_AzureEnabled = True\<rparr>,
      cfg_Namespaces =
        \<lparr>ics_Watch = [],
         ics_Ignore = [''kube-system'', ''kube-public'', ''kube-node-lease'']\<rparr>\<rparr>"

section \<open>Validation\<close>

text \<open>The first rule that is broken is the error, in the words of the source.\<close>

definition ValidateConfiguration :: "Configuration \<Rightarrow> string option" where
  "ValidateConfiguration c =
     (if icc_MaxConcurrentReconciles (cfg_Controller c) \<le> 0 then Some ''controller.maxConcurrentReconciles must be positive''
      else if icc_ReconcileInterval (cfg_Controller c) \<le> 0 then Some ''controller.reconcileInterval must be positive''
      else if icc_ReconcileTimeout (cfg_Controller c) \<le> 0 then Some ''controller.reconcileTimeout must be positive''
      else if icw_Enabled (cfg_Webhook c) \<and> (icw_Port (cfg_Webhook c) \<le> 0 \<or> icw_Port (cfg_Webhook c) > 65535)
        then Some ''webhook.port must be between 1 and 65535''
      else if icw_Enabled (cfg_Webhook c) \<and> icw_CertDir (cfg_Webhook c) = []
        then Some ''webhook.certDir is required when webhook is enabled''
      else if icw_Enabled (cfg_Webhook c) \<and> icw_TimeoutSeconds (cfg_Webhook c) \<le> 0
        then Some ''webhook.timeoutSeconds must be positive''
      else if ick_QPS (cfg_Kubernetes c) \<le> 0 then Some ''kubernetes.qps must be positive''
      else if ick_Burst (cfg_Kubernetes c) \<le> 0 then Some ''kubernetes.burst must be positive''
      else if icl_Enabled (cfg_LeaderElection c) \<and> icl_LeaseDuration (cfg_LeaderElection c) \<le> 0
        then Some ''leaderElection.leaseDuration must be positive''
      else if icl_Enabled (cfg_LeaderElection c) \<and> icl_RenewDeadline (cfg_LeaderElection c) \<le> 0
        then Some ''leaderElection.renewDeadline must be positive''
      else if icl_Enabled (cfg_LeaderElection c) \<and> icl_RetryPeriod (cfg_LeaderElection c) \<le> 0
        then Some ''leaderElection.retryPeriod must be positive''
      else None)"

text \<open>What a validated configuration guarantees.\<close>

definition usable_configuration :: "Configuration \<Rightarrow> bool" where
  "usable_configuration c \<longleftrightarrow>
     0 < icc_MaxConcurrentReconciles (cfg_Controller c) \<and> 0 < icc_ReconcileInterval (cfg_Controller c) \<and>
     0 < icc_ReconcileTimeout (cfg_Controller c) \<and>
     (icw_Enabled (cfg_Webhook c) \<longrightarrow>
        0 < icw_Port (cfg_Webhook c) \<and> icw_Port (cfg_Webhook c) \<le> 65535 \<and> icw_CertDir (cfg_Webhook c) \<noteq> [] \<and>
        0 < icw_TimeoutSeconds (cfg_Webhook c)) \<and>
     0 < ick_QPS (cfg_Kubernetes c) \<and> 0 < ick_Burst (cfg_Kubernetes c) \<and>
     (icl_Enabled (cfg_LeaderElection c) \<longrightarrow>
        0 < icl_LeaseDuration (cfg_LeaderElection c) \<and> 0 < icl_RenewDeadline (cfg_LeaderElection c) \<and>
        0 < icl_RetryPeriod (cfg_LeaderElection c))"

lemma ValidateConfiguration_None: "ValidateConfiguration c = None \<longleftrightarrow> usable_configuration c"
  by (auto simp: ValidateConfiguration_def usable_configuration_def not_le)

lemma DefaultConfiguration_usable: "usable_configuration DefaultConfiguration"
  by (simp add: usable_configuration_def DefaultConfiguration_def duration_units)

end
