(* ===== verification/Loader_Environment.thy ===== *)
theory Loader_Environment
  imports Loader_Config "HOL-Library.Multiset"
begin

text \<open>
  The environment and the files of \<^verbatim>\<open>internal/config/loader.go\<close>.

  A setter parses its variable, which may fail, and then writes one field; \<open>setter\<close>
  keeps the two apart. The source ranges over a Go map of setters, so the order of the
  variables is a parameter, and the theorem of this theory is that it does not matter. The
  floating-point parser, the YAML library and the file system are parameters.
\<close>

section \<open>Parsing a value\<close>

datatype setter_error = BadNumber num_error | BadBool | BadDuration | BadFloat

definition ParseBool :: "string \<Rightarrow> bool option" where
  "ParseBool s =
     (if s \<in> {''1'', ''t'', ''T'', ''TRUE'', ''true'', ''True''} then Some True
      else if s \<in> {''0'', ''f'', ''F'', ''FALSE'', ''false'', ''False''} then Some False
      else None)"

fun Split :: "char \<Rightarrow> string \<Rightarrow> string list" where
  "Split c [] = [[]]"
| "Split c (x # xs) =
     (if x = c then [] # Split c xs
      else case Split c xs of [] \<Rightarrow> [[x]] | y # ys \<Rightarrow> (x # y) # ys)"

text \<open>White space is that of ASCII: the other spaces of Unicode are kept.\<close>

definition is_space :: "char \<Rightarrow> bool" where
  "is_space c \<longleftrightarrow> of_char c \<in> {9, 10, 11, 12, 13, 32 :: nat}"

definition TrimSpace :: "string \<Rightarrow> string" where
  "TrimSpace s = rev (dropWhile is_space (rev (dropWhile is_space s)))"

type_synonym setter = "string \<Rightarrow> setter_error + (Configuration \<Rightarrow> Configuration)"

definition env_set ::
  "(string \<Rightarrow> setter_error + 'a) \<Rightarrow> ('a \<Rightarrow> Configuration \<Rightarrow> Configuration) \<Rightarrow> setter" where
  "env_set parse write value = (case parse value of Inl e \<Rightarrow> Inl e | Inr v \<Rightarrow> Inr (write v))"

definition as_string :: "string \<Rightarrow> setter_error + string" where
  "as_string value = Inr value"

definition as_int :: "string \<Rightarrow> setter_error + int" where
  "as_int value = (case Atoi value of Inl e \<Rightarrow> Inl (BadNumber e) | Inr v \<Rightarrow> Inr v)"

definition as_int32 :: "string \<Rightarrow> setter_error + int" where
  "as_int32 value = (case ParseInt32 value of Inl e \<Rightarrow> Inl (BadNumber e) | Inr v \<Rightarrow> Inr v)"

definition as_bool :: "string \<Rightarrow> setter_error + bool" where
  "as_bool value = (case ParseBool value of None \<Rightarrow> Inl BadBool | Some v \<Rightarrow> Inr v)"

definition as_duration :: "string \<Rightarrow> setter_error + duration" where
  "as_duration value = (case ParseDuration value of None \<Rightarrow> Inl BadDuration | Some v \<Rightarrow> Inr v)"

definition as_float :: "(string \<Rightarrow> rat option) \<Rightarrow> string \<Rightarrow> setter_error + rat" where
  "as_float pf value = (case pf value of None \<Rightarrow> Inl BadFloat | Some v \<Rightarrow> Inr v)"

definition as_list :: "string \<Rightarrow> setter_error + string list" where
  "as_list value = Inr (if value = [] then [] else map TrimSpace (Split CHR '','' value))"

section \<open>The setters\<close>

definition setControllerNamespace :: setter where
  "setControllerNamespace = env_set as_string (\<lambda>v. cfg_Controller_update (icc_Namespace_update (\<lambda>_. v)))"

definition setMaxConcurrentReconciles :: setter where
  "setMaxConcurrentReconciles = env_set as_int (\<lambda>v. cfg_Controller_update (icc_MaxConcurrentReconciles_update (\<lambda>_. v)))"

definition setReconcileInterval :: setter where
  "setReconcileInterval = env_set as_duration (\<lambda>v. cfg_Controller_update (icc_ReconcileInterval_update (\<lambda>_. v)))"

definition setReconcileTimeout :: setter where
  "setReconcileTimeout = env_set as_duration (\<lambda>v. cfg_Controller_update (icc_ReconcileTimeout_update (\<lambda>_. v)))"

definition setEnableDeployments :: setter where
  "setEnableDeployments = env_set as_bool (\<lambda>v. cfg_Controller_update (icc_EnableDeployments_update (\<lambda>_. v)))"

definition setEnableStatefulSets :: setter where
  "setEnableStatefulSets = env_set as_bool (\<lambda>v. cfg_Controller_update (icc_EnableStatefulSets_update (\<lambda>_. v)))"

definition setEnableDaemonSets :: setter where
  "setEnableDaemonSets = env_set as_bool (\<lambda>v. cfg_Controller_update (icc_EnableDaemonSets_update (\<lambda>_. v)))"

definition setReadOnlyMode :: setter where
  "setReadOnlyMode = env_set as_bool (\<lambda>v. cfg_Controller_update (icc_ReadOnlyMode_update (\<lambda>_. v)))"

definition setGracefulShutdownTimeout :: setter where
  "setGracefulShutdownTimeout = env_set as_duration (\<lambda>v. cfg_Controller_update (icc_GracefulShutdownTimeout_update (\<lambda>_. v)))"

definition setWebhookEnabled :: setter where
  "setWebhookEnabled = env_set as_bool (\<lambda>v. cfg_Webhook_update (icw_Enabled_update (\<lambda>_. v)))"

definition setWebhookPort :: setter where
  "setWebhookPort = env_set as_int (\<lambda>v. cfg_Webhook_update (icw_Port_update (\<lambda>_. v)))"

definition setWebhookCertDir :: setter where
  "setWebhookCertDir = env_set as_string (\<lambda>v. cfg_Webhook_update (icw_CertDir_update (\<lambda>_. v)))"

definition setWebhookCertName :: setter where
  "setWebhookCertName = env_set as_string (\<lambda>v. cfg_Webhook_update (icw_CertName_update (\<lambda>_. v)))"

definition setWebhookKeyName :: setter where
  "setWebhookKeyName = env_set as_string (\<lambda>v. cfg_Webhook_update (icw_KeyName_update (\<lambda>_. v)))"

definition setWebhookServiceName :: setter where
  "setWebhookServiceName = env_set as_string (\<lambda>v. cfg_Webhook_update (icw_ServiceName_update (\<lambda>_. v)))"

definition setWebhookServiceNamespace :: setter where
  "setWebhookServiceNamespace = env_set as_string (\<lambda>v. cfg_Webhook_update (icw_ServiceNamespace_update (\<lambda>_. v)))"

definition setWebhookTLSMinVersion :: setter where
  "setWebhookTLSMinVersion = env_set as_string (\<lambda>v. cfg_Webhook_update (icw_TLSMinVersion_update (\<lambda>_. v)))"

definition setWebhookFailurePolicy :: setter where
  "setWebhookFailurePolicy = env_set as_string (\<lambda>v. cfg_Webhook_update (icw_FailurePolicy_update (\<lambda>_. v)))"

definition setWebhookTimeoutSeconds :: setter where
  "setWebhookTimeoutSeconds = env_set as_int32 (\<lambda>v. cfg_Webhook_update (icw_TimeoutSeconds_update (\<lambda>_. v)))"

definition setKubeconfig :: setter where
  "setKubeconfig = env_set as_string (\<lambda>v. cfg_Kubernetes_update (ick_Kubeconfig_update (\<lambda>_. v)))"

definition setKubeContext :: setter where
  "setKubeContext = env_set as_string (\<lambda>v. cfg_Kubernetes_update (ick_Context_update (\<lambda>_. v)))"

definition setKubeQPS :: "(string \<Rightarrow> rat option) \<Rightarrow> setter" where
  "setKubeQPS pf = env_set (as_float pf) (\<lambda>v. cfg_Kubernetes_update (ick_QPS_update (\<lambda>_. v)))"

definition setKubeBurst :: setter where
  "setKubeBurst = env_set as_int (\<lambda>v. cfg_Kubernetes_update (ick_Burst_update (\<lambda>_. v)))"

definition setKubeTimeout :: setter where
  "setKubeTimeout = env_set as_duration (\<lambda>v. cfg_Kubernetes_update (ick_Timeout_update (\<lambda>_. v)))"

definition setServiceAccount :: setter where
  "setServiceAccount = env_set as_string (\<lambda>v. cfg_Kubernetes_update (ick_ServiceAccount_update (\<lambda>_. v)))"

definition setClusterRole :: setter where
  "setClusterRole = env_set as_string (\<lambda>v. cfg_Kubernetes_update (ick_ClusterRole_update (\<lambda>_. v)))"

definition setRoleBinding :: setter where
  "setRoleBinding = env_set as_string (\<lambda>v. cfg_Kubernetes_update (ick_RoleBinding_update (\<lambda>_. v)))"

definition setLeaderElectionEnabled :: setter where
  "setLeaderElectionEnabled = env_set as_bool (\<lambda>v. cfg_LeaderElection_update (icl_Enabled_update (\<lambda>_. v)))"

definition setLeaderElectionID :: setter where
  "setLeaderElectionID = env_set as_string (\<lambda>v. cfg_LeaderElection_update (icl_ID_update (\<lambda>_. v)))"

definition setLeaderElectionLeaseName :: setter where
  "setLeaderElectionLeaseName = env_set as_string (\<lambda>v. cfg_LeaderElection_update (icl_LeaseName_update (\<lambda>_. v)))"

definition setLeaderElectionLeaseDuration :: setter where
  "setLeaderElectionLeaseDuration = env_set as_duration (\<lambda>v. cfg_LeaderElection_update (icl_LeaseDuration_update (\<lambda>_. v)))"

definition setLeaderElectionRenewDeadline :: setter where
  "setLeaderElectionRenewDeadline = env_set as_duration (\<lambda>v. cfg_LeaderElection_update (icl_RenewDeadline_update (\<lambda>_. v)))"

definition setLeaderElectionRetryPeriod :: setter where
  "setLeaderElectionRetryPeriod = env_set as_duration (\<lambda>v. cfg_LeaderElection_update (icl_RetryPeriod_update (\<lambda>_. v)))"

definition setLogLevel :: setter where
  "setLogLevel = env_set as_string (\<lambda>v. cfg_Logging_update (icg_Level_update (\<lambda>_. v)))"

definition setLogDevelopment :: setter where
  "setLogDevelopment = env_set as_bool (\<lambda>v. cfg_Logging_update (icg_Development_update (\<lambda>_. v)))"

definition setEnablePprof :: setter where
  "setEnablePprof = env_set as_bool (\<lambda>v. cfg_Logging_update (icg_EnablePprof_update (\<lambda>_. v)))"

definition setMetricsBindAddress :: setter where
  "setMetricsBindAddress = env_set as_string (\<lambda>v. cfg_Metrics_update (icm_BindAddress_update (\<lambda>_. v)))"

definition setMetricsEnableProfiling :: setter where
  "setMetricsEnableProfiling = env_set as_bool (\<lambda>v. cfg_Metrics_update (icm_EnableProfiling_update (\<lambda>_. v)))"

definition setMetricsProfilingAddress :: setter where
  "setMetricsProfilingAddress = env_set as_string (\<lambda>v. cfg_Metrics_update (icm_ProfilingAddress_update (\<lambda>_. v)))"

definition setHealthBindAddress :: setter where
  "setHealthBindAddress = env_set as_string (\<lambda>v. cfg_Metrics_update (icm_HealthBindAddress_update (\<lambda>_. v)))"

definition setMetricsCollectionInterval :: setter where
  "setMetricsCollectionInterval = env_set as_duration (\<lambda>v. cfg_Metrics_update (icm_CollectionInterval_update (\<lambda>_. v)))"

definition setNodeCacheSize :: setter where
  "setNodeCacheSize = env_set as_int (\<lambda>v. cfg_NodeClassification_update (icn_CacheSize_update (\<lambda>_. v)))"

definition setNodeCacheTTL :: setter where
  "setNodeCacheTTL = env_set as_duration (\<lambda>v. cfg_NodeClassification_update (icn_CacheTTL_update (\<lambda>_. v)))"

definition setNodeUpdateInterval :: setter where
  "setNodeUpdateInterval = env_set as_duration (\<lambda>v. cfg_NodeClassification_update (icn_UpdateInterval_update (\<lambda>_. v)))"

definition setAWSEnabled :: setter where
  "setAWSEnabled = env_set as_bool (\<lambda>v. cfg_NodeClassification_update (icn_AWSEnabled_update (\<lambda>_. v)))"

definition setGCPEnabled :: setter where
  "setGCPEnabled = env_set as_bool (\<lambda>v. cfg_NodeClassification_update (icn_GCPEnabled_update (\<lambda>_. v)))"

definition setAzureEnabled :: setter where
  "setAzureEnabled = env_set as_bool (\<lambda>v. cfg_NodeClassification_update (icn_AzureEnabled_update (\<lambda>_. v)))"

definition setWatchNamespaces :: setter where
  "setWatchNamespaces = env_set as_list (\<lambda>v. cfg_Namespaces_update (ics_Watch_update (\<lambda>_. v)))"

definition setIgnoreNamespaces :: setter where
  "setIgnoreNamespaces = env_set as_list (\<lambda>v. cfg_Namespaces_update (ics_Ignore_update (\<lambda>_. v)))"

section \<open>The table of variables\<close>

definition controllerMappings :: "(string \<times> setter) list" where
  "controllerMappings =
     [(''SPOTALIS_NAMESPACE'', setControllerNamespace),
      (''SPOTALIS_MAX_CONCURRENT_RECONCILES'', setMaxConcurrentReconciles),
      (''SPOTALIS_RECONCILE_INTERVAL'', setReconcileInterval),
      (''SPOTALIS_RECONCILE_TIMEOUT'', setReconcileTimeout),
      (''SPOTALIS_ENABLE_DEPLOYMENTS'', setEnableDeployments),
      (''SPOTALIS_ENABLE_STATEFULSETS'', setEnableStatefulSets),
      (''SPOTALIS_ENABLE_DAEMONSETS'', setEnableDaemonSets),
      (''SPOTALIS_READ_ONLY_MODE'', setReadOnlyMode),
      (''SPOTALIS_GRACEFUL_SHUTDOWN_TIMEOUT'', setGracefulShutdownTimeout)]"

definition webhookMappings :: "(string \<times> setter) list" where
  "webhookMappings =
     [(''SPOTALIS_WEBHOOK_ENABLED'', setWebhookEnabled),
      (''SPOTALIS_WEBHOOK_PORT'', setWebhookPort),
      (''SPOTALIS_WEBHOOK_CERT_DIR'', setWebhookCertDir),
      (''SPOTALIS_WEBHOOK_CERT_NAME'', setWebhookCertName),
      (''SPOTALIS_WEBHOOK_KEY_NAME'', setWebhookKeyName),
      (''SPOTALIS_WEBHOOK_SERVICE_NAME'', setWebhookServiceName),
      (''SPOTALIS_WEBHOOK_SERVICE_NAMESPACE'', setWebhookServiceNamespace),
      (''SPOTALIS_WEBHOOK_TLS_MIN_VERSION'', setWebhookTLSMinVersion),
      (''SPOTALIS_WEBHOOK_FAILURE_POLICY'', setWebhookFailurePolicy),
      (''SPOTALIS_WEBHOOK_TIMEOUT_SECONDS'', setWebhookTimeoutSeconds)]"

definition kubernetesMappings :: "(string \<Rightarrow> rat option) \<Rightarrow> (string \<times> setter) list" where
  "kubernetesMappings pf =
     [(''KUBECONFIG'', setKubeconfig),
      (''SPOTALIS_KUBE_CONTEXT'', setKubeContext),
      (''SPOTALIS_KUBE_QPS'', setKubeQPS pf),
      (''SPOTALIS_KUBE_BURST'', setKubeBurst),
      (''SPOTALIS_KUBE_TIMEOUT'', setKubeTimeout),
      (''SPOTALIS_SERVICE_ACCOUNT'', setServiceAccount),
      (''SPOTALIS_CLUSTER_ROLE'', setClusterRole),
      (''SPOTALIS_ROLE_BINDING'', setRoleBinding)]"

definition leaderElectionMappings :: "(string \<times> setter) list" where
  "leaderElectionMappings =
     [(''SPOTALIS_LEADER_ELECTION_ENABLED'', setLeaderElectionEnabled),
      (''SPOTALIS_LEADER_ELECTION_ID'', setLeaderElectionID),
      (''SPOTALIS_LEADER_ELECTION_LEASE_NAME'', setLeaderElectionLeaseName),
      (''SPOTALIS_LEADER_ELECTION_LEASE_DURATION'', setLeaderElectionLeaseDuration),
      (''SPOTALIS_LEADER_ELECTION_RENEW_DEADLINE'', setLeaderElectionRenewDeadline),
      (''SPOTALIS_LEADER_ELECTION_RETRY_PERIOD'', setLeaderElectionRetryPeriod)]"

definition loggingMappings :: "(string \<times> setter) list" where
  "loggingMappings =
     [(''SPOTALIS_LOG_LEVEL'', setLogLevel),
      (''SPOTALIS_LOG_DEVELOPMENT'', setLogDevelopment),
      (''SPOTALIS_ENABLE_PPROF'', setEnablePprof)]"

definition metricsMappings :: "(string \<times> setter) list" where
  "metricsMappings =
     [(''SPOTALIS_METRICS_BIND_ADDRESS'', setMetricsBindAddress),
      (''SPOTALIS_METRICS_ENABLE_PROFILING'', setMetricsEnableProfiling),
      (''SPOTALIS_METRICS_PROFILING_ADDRESS'', setMetricsProfilingAddress),
      (''SPOTALIS_HEALTH_BIND_ADDRESS'', setHealthBindAddress),
      (''SPOTALIS_METRICS_COLLECTION_INTERVAL'', setMetricsCollectionInterval)]"

definition nodeClassificationMappings :: "(string \<times> setter) list" where
  "nodeClassificationMappings =
     [(''SPOTALIS_NODE_CACHE_SIZE'', setNodeCacheSize),
      (''SPOTALIS_NODE_CACHE_TTL'', setNodeCacheTTL),
      (''SPOTALIS_NODE_UPDATE_INTERVAL'', setNodeUpdateInterval),
      (''SPOTALIS_AWS_ENABLED'', setAWSEnabled),
      (''SPOTALIS_GCP_ENABLED'', setGCPEnabled),
      (''SPOTALIS_AZURE_ENABLED'', setAzureEnabled)]"

definition namespaceMappings :: "(string \<times> setter) list" where
  "namespaceMappings =
     [(''SPOTALIS_WATCH_NAMESPACES'', setWatchNamespaces),
      (''SPOTALIS_IGNORE_NAMESPACES'', setIgnoreNamespaces)]"

definition envMappings :: "(string \<Rightarrow> rat option) \<Rightarrow> (string \<times> setter) list" where
  "envMappings pf =
     controllerMappings @ webhookMappings @ kubernetesMappings pf @ leaderElectionMappings @ loggingMappings @
     metricsMappings @ nodeClassificationMappings @ namespaceMappings"

text \<open>The loop, over the mappings in the order the runtime visits them.\<close>

fun LoadFromEnvironment ::
  "(string \<Rightarrow> string) \<Rightarrow> (string \<times> setter) list \<Rightarrow> Configuration \<Rightarrow> (string \<times> setter_error) + Configuration" where
  "LoadFromEnvironment getenv [] c = Inr c"
| "LoadFromEnvironment getenv ((envVar, setter) # rest) c =
     (if getenv envVar \<noteq> [] then
        (case setter (getenv envVar) of
           Inl e \<Rightarrow> Inl (envVar, e)
         | Inr write \<Rightarrow> LoadFromEnvironment getenv rest (write c))
      else LoadFromEnvironment getenv rest c)"

section \<open>Files\<close>

datatype load_error =
    FileNotFound string
  | FileUnreadable string
  | BadYaml string
  | BadVariable string setter_error
  | Invalid string

text \<open>
  \<open>fs_missing\<close>: does \<^verbatim>\<open>Stat\<close> say that the file does not exist?
  \<open>fs_yaml\<close> unmarshals into the configuration it is given and leaves the rest of it.
\<close>

record file_system =
  fs_missing :: "string \<Rightarrow> bool"
  fs_read :: "string \<Rightarrow> string + string"
  fs_yaml :: "string \<Rightarrow> Configuration \<Rightarrow> string + Configuration"
  fs_marshal :: "Configuration \<Rightarrow> string + string"
  fs_mkdirFor :: "string \<Rightarrow> string option"
  fs_write :: "string \<Rightarrow> string \<Rightarrow> string option"

definition LoadFromFile :: "file_system \<Rightarrow> string \<Rightarrow> Configuration \<Rightarrow> load_error + Configuration" where
  "LoadFromFile fs path c =
     (if path = [] then Inr c
      else if fs_missing fs path then Inl (FileNotFound path)
      else case fs_read fs path of
        Inl e \<Rightarrow> Inl (FileUnreadable e)
      | Inr data \<Rightarrow> (case fs_yaml fs data c of Inl e \<Rightarrow> Inl (BadYaml e) | Inr c' \<Rightarrow> Inr c'))"

definition LoadConfiguration ::
  "file_system \<Rightarrow> (string \<Rightarrow> string) \<Rightarrow> (string \<times> setter) list \<Rightarrow> string \<Rightarrow> load_error + Configuration" where
  "LoadConfiguration fs getenv order configFile =
     (case (if configFile \<noteq> [] then LoadFromFile fs configFile DefaultConfiguration else Inr DefaultConfiguration) of
        Inl e \<Rightarrow> Inl e
      | Inr c \<Rightarrow>
          (case LoadFromEnvironment getenv order c of
             Inl (envVar, e) \<Rightarrow> Inl (BadVariable envVar e)
           | Inr c \<Rightarrow> (case ValidateConfiguration c of Some msg \<Rightarrow> Inl (Invalid msg) | None \<Rightarrow> Inr c)))"

datatype save_error = MkdirFailed string | MarshalFailed string | WriteFailed string

definition SaveToFile :: "file_system \<Rightarrow> string \<Rightarrow> Configuration \<Rightarrow> save_error option" where
  "SaveToFile fs path c =
     (case fs_mkdirFor fs path of
        Some e \<Rightarrow> Some (MkdirFailed e)
      | None \<Rightarrow>
          (case fs_marshal fs c of
             Inl e \<Rightarrow> Some (MarshalFailed e)
           | Inr data \<Rightarrow> map_option WriteFailed (fs_write fs path data)))"

section \<open>The order of the variables does not matter\<close>

lemmas setter_defs =
  setControllerNamespace_def
  setMaxConcurrentReconciles_def
  setReconcileInterval_def
  setReconcileTimeout_def
  setEnableDeployments_def
  setEnableStatefulSets_def
  setEnableDaemonSets_def
  setReadOnlyMode_def
  setGracefulShutdownTimeout_def
  setWebhookEnabled_def
  setWebhookPort_def
  setWebhookCertDir_def
  setWebhookCertName_def
  setWebhookKeyName_def
  setWebhookServiceName_def
  setWebhookServiceNamespace_def
  setWebhookTLSMinVersion_def
  setWebhookFailurePolicy_def
  setWebhookTimeoutSeconds_def
  setKubeconfig_def
  setKubeContext_def
  setKubeQPS_def
  setKubeBurst_def
  setKubeTimeout_def
  setServiceAccount_def
  setClusterRole_def
  setRoleBinding_def
  setLeaderElectionEnabled_def
  setLeaderElectionID_def
  setLeaderElectionLeaseName_def
  setLeaderElectionLeaseDuration_def
  setLeaderElectionRenewDeadline_def
  setLeaderElectionRetryPeriod_def
  setLogLevel_def
  setLogDevelopment_def
  setEnablePprof_def
  setMetricsBindAddress_def
  setMetricsEnableProfiling_def
  setMetricsProfilingAddress_def
  setHealthBindAddress_def
  setMetricsCollectionInterval_def
  setNodeCacheSize_def
  setNodeCacheTTL_def
  setNodeUpdateInterval_def
  setAWSEnabled_def
  setGCPEnabled_def
  setAzureEnabled_def
  setWatchNamespaces_def
  setIgnoreNamespaces_def

lemmas parse_defs = as_string_def as_int_def as_int32_def as_bool_def as_duration_def as_float_def as_list_def

lemmas mapping_defs =
  controllerMappings_def webhookMappings_def kubernetesMappings_def leaderElectionMappings_def loggingMappings_def
  metricsMappings_def nodeClassificationMappings_def namespaceMappings_def

text \<open>Two setters commute if what they write does, whatever they are given.\<close>

definition commute_writes :: "setter \<Rightarrow> setter \<Rightarrow> bool" where
  "commute_writes s t \<longleftrightarrow> (\<forall>v w f g. s v = Inr f \<longrightarrow> t w = Inr g \<longrightarrow> f \<circ> g = g \<circ> f)"

text \<open>A setter stays in a section if every write of it is an update of that section.\<close>

definition writes_section :: "(('s \<Rightarrow> 's) \<Rightarrow> Configuration \<Rightarrow> Configuration) \<Rightarrow> setter \<Rightarrow> bool" where
  "writes_section section_update s \<longleftrightarrow> (\<forall>v f. s v = Inr f \<longrightarrow> (\<exists>g. f = section_update g))"

lemma commute_writes_sym: "commute_writes s t \<Longrightarrow> commute_writes t s"
  unfolding commute_writes_def by metis

lemma env_set_Inr: "env_set p w v = Inr f \<longleftrightarrow> (\<exists>x. p v = Inr x \<and> f = w x)"
  by (auto simp: env_set_def split: sum.splits)

lemma commute_env_set:
  "(\<And>x y c. w x (w' y c) = w' y (w x c)) \<Longrightarrow> commute_writes (env_set p w) (env_set p' w')"
  by (auto simp: commute_writes_def env_set_Inr fun_eq_iff)

lemma writes_env_set: "(\<And>x. \<exists>g. w x = u g) \<Longrightarrow> writes_section u (env_set p w)"
  by (auto simp: writes_section_def env_set_Inr)

lemma commute_sections:
  "writes_section u s \<Longrightarrow> writes_section u' t \<Longrightarrow> (\<And>f g c. u f (u' g c) = u' g (u f c)) \<Longrightarrow> commute_writes s t"
  unfolding writes_section_def commute_writes_def fun_eq_iff comp_def by metis


fun all_commute :: "setter list \<Rightarrow> bool" where
  "all_commute [] = True"
| "all_commute (s # ss) = (list_all (commute_writes s) ss \<and> all_commute ss)"

lemma all_commute_append:
  "all_commute (ss @ ts) \<longleftrightarrow> all_commute ss \<and> all_commute ts \<and> (\<forall>s\<in>set ss. list_all (commute_writes s) ts)"
  by (induction ss) auto

lemma all_commuteD: "all_commute (map snd ms) \<Longrightarrow> m \<in> set ms \<Longrightarrow> n \<in> set ms \<Longrightarrow> m = n \<or> commute_writes (snd m) (snd n)"
  by (induction ms) (auto simp: list_all_iff intro: commute_writes_sym)

lemma controller_mappings:
  "list_all (writes_section cfg_Controller_update) (map snd controllerMappings)" "all_commute (map snd controllerMappings)"
  by (auto simp: mapping_defs setter_defs intro!: writes_env_set commute_env_set)

lemma webhook_mappings:
  "list_all (writes_section cfg_Webhook_update) (map snd webhookMappings)" "all_commute (map snd webhookMappings)"
  by (auto simp: mapping_defs setter_defs intro!: writes_env_set commute_env_set)

lemma kubernetes_mappings:
  "list_all (writes_section cfg_Kubernetes_update) (map snd (kubernetesMappings pf))" "all_commute (map snd (kubernetesMappings pf))"
  by (auto simp: mapping_defs setter_defs intro!: writes_env_set commute_env_set)

lemma leader_election_mappings:
  "list_all (writes_section cfg_LeaderElection_update) (map snd leaderElectionMappings)" "all_commute (map snd leaderElectionMappings)"
  by (auto simp: mapping_defs setter_defs intro!: writes_env_set commute_env_set)

lemma logging_mappings:
  "list_all (writes_section cfg_Logging_update) (map snd loggingMappings)" "all_commute (map snd loggingMappings)"
  by (auto simp: mapping_defs setter_defs intro!: writes_env_set commute_env_set)

lemma metrics_mappings:
  "list_all (writes_section cfg_Metrics_update) (map snd metricsMappings)" "all_commute (map snd metricsMappings)"
  by (auto simp: mapping_defs setter_defs intro!: writes_env_set commute_env_set)

lemma node_mappings:
  "list_all (writes_section cfg_NodeClassification_update) (map snd nodeClassificationMappings)"
  "all_commute (map snd nodeClassificationMappings)"
  by (auto simp: mapping_defs setter_defs intro!: writes_env_set commute_env_set)

lemma namespace_mappings:
  "list_all (writes_section cfg_Namespaces_update) (map snd namespaceMappings)" "all_commute (map snd namespaceMappings)"
  by (auto simp: mapping_defs setter_defs intro!: writes_env_set commute_env_set)

lemmas group_mappings =
  controller_mappings webhook_mappings kubernetes_mappings leader_election_mappings logging_mappings metrics_mappings
  node_mappings namespace_mappings

lemma sections_commute:
  assumes "list_all (writes_section u) ss" and "list_all (writes_section u') ts" and "\<And>f g c. u f (u' g c) = u' g (u f c)"
  shows "\<forall>s\<in>set ss. list_all (commute_writes s) ts"
  using assms by (auto simp: list_all_iff intro: commute_sections)

lemma envMappings_commute: "all_commute (map snd (envMappings pf))"
  unfolding envMappings_def map_append all_commute_append list_all_append ball_conj_distrib
  by (intro conjI group_mappings) (rule sections_commute, rule group_mappings, rule group_mappings, simp)+

text \<open>What a variable writes: nothing where it is unset.\<close>

definition env_write :: "(string \<Rightarrow> string) \<Rightarrow> string \<times> setter \<Rightarrow> setter_error + (Configuration \<Rightarrow> Configuration)" where
  "env_write getenv m = (if getenv (fst m) = [] then Inr id else snd m (getenv (fst m)))"

definition env_ok :: "(string \<Rightarrow> string) \<Rightarrow> string \<times> setter \<Rightarrow> bool" where
  "env_ok getenv m \<longleftrightarrow> (\<exists>f. env_write getenv m = Inr f)"

definition env_fun :: "(string \<Rightarrow> string) \<Rightarrow> string \<times> setter \<Rightarrow> Configuration \<Rightarrow> Configuration" where
  "env_fun getenv m = (case env_write getenv m of Inl _ \<Rightarrow> id | Inr f \<Rightarrow> f)"

lemma LoadFromEnvironment_fold:
  "LoadFromEnvironment getenv order c = Inr c' \<longleftrightarrow>
     (\<forall>m\<in>set order. env_ok getenv m) \<and> c' = fold (env_fun getenv) order c"
proof (induction getenv order c rule: LoadFromEnvironment.induct)
  case (2 getenv n s rest c)
  then show ?case
    by (cases "getenv n = []"; cases "s (getenv n)") (auto simp: env_ok_def env_fun_def env_write_def)
qed auto

lemma env_fun_commute:
  assumes "m \<in> set (envMappings pf)" and "n \<in> set (envMappings pf)"
  shows "env_fun getenv m \<circ> env_fun getenv n = env_fun getenv n \<circ> env_fun getenv m"
proof -
  from all_commuteD [OF envMappings_commute assms] consider "m = n" | "commute_writes (snd m) (snd n)" by blast
  then show ?thesis
  proof cases
    case 2
    then show ?thesis
      by (auto simp: env_fun_def env_write_def commute_writes_def split: sum.split)
  qed simp
qed

text \<open>
  C13: The runtime may visit the variables in any order: whether the environment loads, and what
  the configuration is then, is the same for all of them. (Which bad variable is reported is
  not.)
\<close>

theorem environment_order_irrelevant:
  assumes "mset order = mset (envMappings pf)" and "mset order' = mset (envMappings pf)"
  shows "LoadFromEnvironment getenv order c = Inr c' \<longleftrightarrow> LoadFromEnvironment getenv order' c = Inr c'"
proof -
  from assms have s: "set order = set (envMappings pf)" "set order' = set (envMappings pf)"
    by (metis set_mset_mset)+
  have "fold (env_fun getenv) order = fold (env_fun getenv) order'"
    by (rule fold_multiset_equiv) (use assms s env_fun_commute in auto)
  with s show ?thesis by (simp add: LoadFromEnvironment_fold)
qed


definition idempotent_writes :: "setter \<Rightarrow> bool" where
  "idempotent_writes s \<longleftrightarrow> (\<forall>v f. s v = Inr f \<longrightarrow> f \<circ> f = f)"

lemma idempotent_env_set: "(\<And>x c. w x (w x c) = w x c) \<Longrightarrow> idempotent_writes (env_set p w)"
  by (auto simp: idempotent_writes_def env_set_Inr fun_eq_iff)

lemma envMappings_idempotent: "list_all (\<lambda>m. idempotent_writes (snd m)) (envMappings pf)"
  by (auto simp: envMappings_def mapping_defs setter_defs intro!: idempotent_env_set)

lemma fold_reaches:
  assumes "m \<in> set ms" and "\<And>n. n \<in> set ms \<Longrightarrow> f m \<circ> f n = f n \<circ> f m" and "f m \<circ> f m = f m"
  shows "f m (fold f ms c) = fold f ms c"
  using assms
proof (induction ms arbitrary: c)
  case (Cons n ms)
  have skip: "f m (fold f ms d) = fold f ms (f m d)" if "\<And>n. n \<in> set ms \<Longrightarrow> f m \<circ> f n = f n \<circ> f m" for ms d
    using that
  proof (induction ms arbitrary: d)
    case (Cons a as)
    from Cons.prems [of a] have "f m (f a d) = f a (f m d)" by (simp add: fun_eq_iff)
    with Cons show ?case by simp
  qed simp
  show ?case
  proof (cases "n = m")
    case True
    have "f m (fold f ms (f m c)) = fold f ms (f m (f m c))"
      by (rule skip) (rule Cons.prems(2), simp)
    with True Cons.prems(3) show ?thesis by (simp add: fun_eq_iff)
  next
    case False
    then have m: "m \<in> set ms" using Cons.prems(1) by simp
    have "f m (fold f ms (f n c)) = fold f ms (f n c)"
      by (rule Cons.IH [OF m _ Cons.prems(3)]) (rule Cons.prems(2), simp)
    then show ?thesis by simp
  qed
qed simp

text \<open>
  A configuration that loads is usable, and every variable that is set has been parsed and
  its value is in the configuration: writing it once more changes nothing. So the
  environment wins over the file and the defaults.
\<close>

theorem environment_wins:
  assumes load: "LoadConfiguration fs getenv order configFile = Inr c"
    and order: "mset order = mset (envMappings pf)" and m: "(envVar, setter) \<in> set (envMappings pf)"
    and isset: "getenv envVar \<noteq> []"
  shows "usable_configuration c \<and> (\<exists>wr. setter (getenv envVar) = Inr wr \<and> wr c = c)"
proof -
  from load obtain base where env: "LoadFromEnvironment getenv order base = Inr c" and valid: "ValidateConfiguration c = None"
    by (auto simp: LoadConfiguration_def split: sum.splits prod.splits option.splits if_splits)
  from order have s: "set order = set (envMappings pf)" by (metis set_mset_mset)
  from env [unfolded LoadFromEnvironment_fold] s m
  have ok: "env_ok getenv (envVar, setter)" and c: "c = fold (env_fun getenv) order base" by auto
  from ok isset obtain wr where wr: "setter (getenv envVar) = Inr wr"
    by (auto simp: env_ok_def env_write_def)
  then have fn: "env_fun getenv (envVar, setter) = wr" using isset by (simp add: env_fun_def env_write_def)
  from envMappings_idempotent m wr have "wr \<circ> wr = wr"
    by (auto simp: list_all_iff idempotent_writes_def)
  have "env_fun getenv (envVar, setter) (fold (env_fun getenv) order base) = fold (env_fun getenv) order base"
    by (rule fold_reaches) (use m s env_fun_commute [OF m] fn \<open>wr \<circ> wr = wr\<close> in auto)
  then have "wr c = c" by (simp only: c fn)
  with wr valid show ?thesis by (simp add: ValidateConfiguration_None)
qed

section \<open>Concrete runs\<close>

definition sample_env :: "string \<Rightarrow> string" where
  "sample_env v = (if v = ''SPOTALIS_WEBHOOK_PORT'' then ''8443''
     else if v = ''SPOTALIS_RECONCILE_INTERVAL'' then ''1m''
     else if v = ''SPOTALIS_WATCH_NAMESPACES'' then ''prod, staging'' else [])"

definition empty_fs :: file_system where
  "empty_fs = \<lparr>fs_missing = (\<lambda>_. True), fs_read = (\<lambda>_. Inl ''no such file''), fs_yaml = (\<lambda>_ c. Inr c),
     fs_marshal = (\<lambda>_. Inr []), fs_mkdirFor = (\<lambda>_. None), fs_write = (\<lambda>_ _. None)\<rparr>"

definition no_floats :: "string \<Rightarrow> rat option" where "no_floats s = None"

lemma sample_load:
  "(case LoadConfiguration empty_fs sample_env (rev (envMappings no_floats)) [] of
      Inl _ \<Rightarrow> None
    | Inr c \<Rightarrow> Some (icw_Port (cfg_Webhook c), icc_ReconcileInterval (cfg_Controller c), ics_Watch (cfg_Namespaces c))) =
   Some (8443, 60 * Second, [''prod'', ''staging''])"
  by code_simp

lemma environment_order_irrelevant_witness:
  "\<exists>c. LoadFromEnvironment sample_env (rev (envMappings no_floats)) DefaultConfiguration = Inr c \<and>
   LoadFromEnvironment sample_env (envMappings no_floats) DefaultConfiguration = Inr c"
proof -
  have "\<exists>c. LoadFromEnvironment sample_env (rev (envMappings no_floats)) DefaultConfiguration = Inr c"
    using sample_load by (auto simp: LoadConfiguration_def split: sum.splits prod.splits)
  moreover have "LoadFromEnvironment sample_env (rev (envMappings no_floats)) DefaultConfiguration = Inr c \<longleftrightarrow>
     LoadFromEnvironment sample_env (envMappings no_floats) DefaultConfiguration = Inr c" for c
    by (rule environment_order_irrelevant) simp_all
  ultimately show ?thesis by simp
qed

lemma environment_wins_witness:
  "\<exists>c wr. LoadConfiguration empty_fs sample_env (rev (envMappings no_floats)) [] = Inr c \<and>
    setWebhookPort ''8443'' = Inr wr \<and> wr c = c"
proof -
  from sample_load obtain c where c: "LoadConfiguration empty_fs sample_env (rev (envMappings no_floats)) [] = Inr c"
    by (cases "LoadConfiguration empty_fs sample_env (rev (envMappings no_floats)) []") auto
  have "(''SPOTALIS_WEBHOOK_PORT'', setWebhookPort) \<in> set (envMappings no_floats)"
    by (simp add: envMappings_def webhookMappings_def)
  from environment_wins [OF c _ this] c show ?thesis by (auto simp: sample_env_def)
qed

end
