(* ===== verification/Consolidated_Config.thy ===== *)
theory Consolidated_Config
  imports Disruption_Window Kube_Objects Loader_Environment Controller_Common
begin

text \<open>
  The consolidated configuration of \<^verbatim>\<open>pkg/config\<close>: the sections and defaults
  of \<^verbatim>\<open>consolidated.go\<close>, its validation, and the loader of
  \<^verbatim>\<open>loader.go\<close>, which reads a file, then a fixed list of variables one after
  the other, and keeps the old value of a field where its variable does not parse.
\<close>

section \<open>The sections\<close>

record sp_LeaderElectionConfig =
  spl_Enabled :: bool
  spl_ID :: string
  spl_LeaseDuration :: duration

record sp_OperatorConfig =
  spo_Namespace :: string
  spo_ReadOnlyMode :: bool
  spo_LeaderElection :: sp_LeaderElectionConfig
  spo_DisruptionWindow :: DisruptionWindowConfig

record sp_NodeClassifierConfig =
  spn_SpotLabels :: "label_selector list"
  spn_OnDemandLabels :: "label_selector list"

record sp_WorkloadTimingConfig =
  spt_CooldownPeriod :: duration
  spt_DisruptionRetryInterval :: duration
  spt_DisruptionWindowPollInterval :: duration

record sp_ControllerConfig =
  spc_MaxConcurrentReconciles :: int
  spc_ReconcileInterval :: duration
  spc_NodeClassifier :: sp_NodeClassifierConfig
  spc_WorkloadTiming :: sp_WorkloadTimingConfig

record sp_WebhookConfig =
  spw_Enabled :: bool
  spw_Port :: int
  spw_CertDir :: string

record sp_MetricsConfig =
  spm_Enabled :: bool
  spm_BindAddress :: string

record sp_LoggingConfig =
  spg_Level :: string
  spg_Format :: string

record sp_HealthConfig =
  sph_Enabled :: bool
  sph_BindAddress :: string

record sp_ObservabilityConfig =
  spb_Metrics :: sp_MetricsConfig
  spb_Logging :: sp_LoggingConfig
  spb_Health :: sp_HealthConfig

record SpotalisConfig =
  sp_Operator :: sp_OperatorConfig
  sp_Controllers :: sp_ControllerConfig
  sp_Webhook :: sp_WebhookConfig
  sp_Observability :: sp_ObservabilityConfig

definition DefaultConfig :: SpotalisConfig where
  "DefaultConfig =
     \<lparr>sp_Operator =
        \<lparr>spo_Namespace = ''spotalis-system'', spo_ReadOnlyMode = False,
         spo_LeaderElection = \<lparr>spl_Enabled = True, spl_ID = ''spotalis-controller-leader'', spl_LeaseDuration = 15 * Second\<rparr>,
         spo_DisruptionWindow = \<lparr>dwc_Schedule = [], dwc_Duration = []\<rparr>\<rparr>,
      sp_Controllers =
        \<lparr>spc_MaxConcurrentReconciles = 1, spc_ReconcileInterval = 5 * Minute,
         spc_NodeClassifier =
           \<lparr>spn_SpotLabels = [\<lparr>ls_MatchLabels = [(''karpenter.sh/capacity-type'', ''spot'')], ls_MatchExpressions = []\<rparr>],
            spn_OnDemandLabels = [\<lparr>ls_MatchLabels = [(''karpenter.sh/capacity-type'', ''on-demand'')], ls_MatchExpressions = []\<rparr>]\<rparr>,
         spc_WorkloadTiming =
           \<lparr>spt_CooldownPeriod = 10 * Second, spt_DisruptionRetryInterval = 1 * Minute,
            spt_DisruptionWindowPollInterval = 10 * Minute\<rparr>\<rparr>,
      sp_Webhook = \<lparr>spw_Enabled = True, spw_Port = 9443, spw_CertDir = ''/tmp/k8s-webhook-server/serving-certs''\<rparr>,
      sp_Observability =
        \<lparr>spb_Metrics = \<lparr>spm_Enabled = True, spm_BindAddress = '':8080''\<rparr>,
         spb_Logging = \<lparr>spg_Level = ''info'', spg_Format = ''json''\<rparr>,
         spb_Health = \<lparr>sph_Enabled = True, sph_BindAddress = '':8081''\<rparr>\<rparr>\<rparr>"

section \<open>Validation\<close>

definition validateWorkloadTimingConfig :: "string \<Rightarrow> sp_WorkloadTimingConfig \<Rightarrow> string option" where
  "validateWorkloadTimingConfig name cfg =
     (if spt_CooldownPeriod cfg \<le> 0 then Some (name @ ''.cooldownPeriod must be positive'')
      else if spt_DisruptionRetryInterval cfg \<le> 0 then Some (name @ ''.disruptionRetryInterval must be positive'')
      else if spt_DisruptionWindowPollInterval cfg \<le> 0 then Some (name @ ''.disruptionWindowPollInterval must be positive'')
      else None)"

datatype sp_invalid = SpInvalid string | SpInvalidWindow window_error

definition sp_Validate :: "(string \<Rightarrow> schedule option) \<Rightarrow> SpotalisConfig \<Rightarrow> sp_invalid option" where
  "sp_Validate parse c =
     (if spo_Namespace (sp_Operator c) = [] then Some (SpInvalid ''operator.namespace cannot be empty'')
      else if spc_MaxConcurrentReconciles (sp_Controllers c) \<le> 0
        then Some (SpInvalid ''controllers.maxConcurrentReconciles must be positive'')
      else if spw_Enabled (sp_Webhook c) \<and> spw_Port (sp_Webhook c) \<le> 0
        then Some (SpInvalid ''webhook.port must be positive when webhook is enabled'')
      else case dwc_Validate parse (spo_DisruptionWindow (sp_Operator c)) of
        Some e \<Rightarrow> Some (SpInvalidWindow e)
      | None \<Rightarrow> map_option SpInvalid
          (validateWorkloadTimingConfig ''controllers.workloadTiming'' (spc_WorkloadTiming (sp_Controllers c))))"

section \<open>The loader\<close>

text \<open>\<open>ld_env\<close> is \<^verbatim>\<open>os.Getenv\<close>; an unset variable is the empty string.\<close>

record Loader =
  ld_ConfigFile :: string
  ld_EnvPrefix :: string

definition NewLoader :: Loader where
  "NewLoader = \<lparr>ld_ConfigFile = [], ld_EnvPrefix = ''SPOTALIS''\<rparr>"

definition WithConfigFile :: "string \<Rightarrow> Loader \<Rightarrow> Loader" where
  "WithConfigFile path l = l\<lparr>ld_ConfigFile := path\<rparr>"

definition WithEnvPrefix :: "string \<Rightarrow> Loader \<Rightarrow> Loader" where
  "WithEnvPrefix prefix l = l\<lparr>ld_EnvPrefix := prefix\<rparr>"

definition getEnv :: "(string \<Rightarrow> string) \<Rightarrow> Loader \<Rightarrow> string \<Rightarrow> string" where
  "getEnv getenv l key = getenv (ld_EnvPrefix l @ ''_'' @ key)"

definition parseBool :: "string \<Rightarrow> bool \<Rightarrow> bool" where
  "parseBool val fallback =
     (let v = ToLower val
      in if v \<in> {''true'', ''1'', ''yes'', ''on''} then True
         else if v \<in> {''false'', ''0'', ''no'', ''off''} then False
         else fallback)"

definition parseInt :: "string \<Rightarrow> int \<Rightarrow> int" where
  "parseInt val fallback = (case Atoi val of Inr i \<Rightarrow> i | Inl _ \<Rightarrow> fallback)"

definition parse_duration_or :: "string \<Rightarrow> duration \<Rightarrow> duration" where
  "parse_duration_or val fallback = (case ParseDuration val of Some d \<Rightarrow> d | None \<Rightarrow> fallback)"

text \<open>One \<^verbatim>\<open>if\<close> of \<^verbatim>\<open>loadFromEnv\<close>: where the variable is set, change the configuration.\<close>

definition when_set ::
  "(string \<Rightarrow> string) \<Rightarrow> Loader \<Rightarrow> string \<Rightarrow> (string \<Rightarrow> SpotalisConfig \<Rightarrow> SpotalisConfig) \<Rightarrow> SpotalisConfig \<Rightarrow> SpotalisConfig" where
  "when_set getenv l key f c = (let val = getEnv getenv l key in if val \<noteq> [] then f val c else c)"

abbreviation on_leader_election where
  "on_leader_election f \<equiv> sp_Operator_update (spo_LeaderElection_update f)"

abbreviation on_timing where
  "on_timing f \<equiv> sp_Controllers_update (spc_WorkloadTiming_update f)"

definition load_operator_env :: "(string \<Rightarrow> string) \<Rightarrow> Loader \<Rightarrow> SpotalisConfig \<Rightarrow> SpotalisConfig" where
  "load_operator_env getenv l c =
     (let set = when_set getenv l;
          c = set ''OPERATOR_NAMESPACE'' (\<lambda>v. sp_Operator_update (spo_Namespace_update (\<lambda>_. v))) c;
          c = set ''OPERATOR_READ_ONLY_MODE'' (\<lambda>v. sp_Operator_update (spo_ReadOnlyMode_update (parseBool v))) c;
          c = set ''LEADER_ELECTION_ENABLED'' (\<lambda>v. on_leader_election (spl_Enabled_update (parseBool v))) c;
          c = set ''LEADER_ELECTION_ID'' (\<lambda>v. on_leader_election (spl_ID_update (\<lambda>_. v))) c
      in set ''LEADER_ELECTION_LEASE_DURATION''
           (\<lambda>v. on_leader_election (spl_LeaseDuration_update (parse_duration_or v))) c)"

definition load_controller_env :: "(string \<Rightarrow> string) \<Rightarrow> Loader \<Rightarrow> SpotalisConfig \<Rightarrow> SpotalisConfig" where
  "load_controller_env getenv l c =
     (let set = when_set getenv l;
          c = set ''CONTROLLERS_MAX_CONCURRENT_RECONCILES''
                (\<lambda>v. sp_Controllers_update (spc_MaxConcurrentReconciles_update (parseInt v))) c;
          c = set ''CONTROLLERS_RECONCILE_INTERVAL''
                (\<lambda>v. sp_Controllers_update (spc_ReconcileInterval_update (parse_duration_or v))) c;
          c = set ''CONTROLLERS_WORKLOAD_COOLDOWN_PERIOD''
                (\<lambda>v. on_timing (spt_CooldownPeriod_update (parse_duration_or v))) c;
          c = set ''CONTROLLERS_WORKLOAD_DISRUPTION_RETRY_INTERVAL''
                (\<lambda>v. on_timing (spt_DisruptionRetryInterval_update (parse_duration_or v))) c
      in set ''CONTROLLERS_WORKLOAD_DISRUPTION_WINDOW_POLL_INTERVAL''
           (\<lambda>v. on_timing (spt_DisruptionWindowPollInterval_update (parse_duration_or v))) c)"

definition load_webhook_env :: "(string \<Rightarrow> string) \<Rightarrow> Loader \<Rightarrow> SpotalisConfig \<Rightarrow> SpotalisConfig" where
  "load_webhook_env getenv l c =
     (let set = when_set getenv l;
          c = set ''WEBHOOK_ENABLED'' (\<lambda>v. sp_Webhook_update (spw_Enabled_update (parseBool v))) c;
          c = set ''WEBHOOK_PORT'' (\<lambda>v. sp_Webhook_update (spw_Port_update (parseInt v))) c
      in set ''WEBHOOK_CERT_DIR'' (\<lambda>v. sp_Webhook_update (spw_CertDir_update (\<lambda>_. v))) c)"

definition load_observability_env :: "(string \<Rightarrow> string) \<Rightarrow> Loader \<Rightarrow> SpotalisConfig \<Rightarrow> SpotalisConfig" where
  "load_observability_env getenv l c =
     (let set = when_set getenv l;
          c = set ''METRICS_ENABLED'' (\<lambda>v. sp_Observability_update (spb_Metrics_update (spm_Enabled_update (parseBool v)))) c;
          c = set ''METRICS_BIND_ADDRESS'' (\<lambda>v. sp_Observability_update (spb_Metrics_update (spm_BindAddress_update (\<lambda>_. v)))) c;
          c = set ''LOGGING_LEVEL'' (\<lambda>v. sp_Observability_update (spb_Logging_update (spg_Level_update (\<lambda>_. v)))) c;
          c = set ''LOGGING_FORMAT'' (\<lambda>v. sp_Observability_update (spb_Logging_update (spg_Format_update (\<lambda>_. v)))) c;
          c = set ''HEALTH_ENABLED'' (\<lambda>v. sp_Observability_update (spb_Health_update (sph_Enabled_update (parseBool v)))) c
      in set ''HEALTH_BIND_ADDRESS'' (\<lambda>v. sp_Observability_update (spb_Health_update (sph_BindAddress_update (\<lambda>_. v)))) c)"

definition loadFromEnv :: "(string \<Rightarrow> string) \<Rightarrow> Loader \<Rightarrow> SpotalisConfig \<Rightarrow> SpotalisConfig" where
  "loadFromEnv getenv l c =
     load_observability_env getenv l (load_webhook_env getenv l (load_controller_env getenv l (load_operator_env getenv l c)))"

datatype sp_load_error = SpUnreadable string | SpBadYaml string | SpRejected sp_invalid

text \<open>\<open>sf_yaml\<close> unmarshals into the configuration it is given.\<close>

record sp_files =
  sf_read :: "string \<Rightarrow> string + string"
  sf_yaml :: "string \<Rightarrow> SpotalisConfig \<Rightarrow> string + SpotalisConfig"
  sf_marshal :: "SpotalisConfig \<Rightarrow> string + string"
  sf_write :: "string \<Rightarrow> string \<Rightarrow> string option"

definition sp_loadFromFile :: "sp_files \<Rightarrow> Loader \<Rightarrow> SpotalisConfig \<Rightarrow> sp_load_error + SpotalisConfig" where
  "sp_loadFromFile fs l c =
     (case sf_read fs (ld_ConfigFile l) of
        Inl e \<Rightarrow> Inl (SpUnreadable e)
      | Inr data \<Rightarrow> (case sf_yaml fs data c of Inl e \<Rightarrow> Inl (SpBadYaml e) | Inr c' \<Rightarrow> Inr c'))"

definition Load ::
  "(string \<Rightarrow> schedule option) \<Rightarrow> sp_files \<Rightarrow> (string \<Rightarrow> string) \<Rightarrow> Loader \<Rightarrow> sp_load_error + SpotalisConfig" where
  "Load parse fs getenv l =
     (case (if ld_ConfigFile l \<noteq> [] then sp_loadFromFile fs l DefaultConfig else Inr DefaultConfig) of
        Inl e \<Rightarrow> Inl e
      | Inr c \<Rightarrow>
          (let c = loadFromEnv getenv l c
           in case sp_Validate parse c of Some e \<Rightarrow> Inl (SpRejected e) | None \<Rightarrow> Inr c))"

datatype sp_save_error = SpMarshal string | SpWrite string

definition sp_Save :: "sp_files \<Rightarrow> string \<Rightarrow> SpotalisConfig \<Rightarrow> sp_save_error option" where
  "sp_Save fs filename c =
     (case sf_marshal fs c of
        Inl e \<Rightarrow> Some (SpMarshal e)
      | Inr data \<Rightarrow> map_option SpWrite (sf_write fs filename data))"

definition sp_LoadFromFile where
  "sp_LoadFromFile parse fs getenv filename = Load parse fs getenv (WithConfigFile filename NewLoader)"

definition sp_LoadFromEnv where
  "sp_LoadFromEnv parse fs getenv = Load parse fs getenv NewLoader"

section \<open>What a load guarantees\<close>

lemma timing_valid:
  "validateWorkloadTimingConfig name t = None \<longleftrightarrow>
     0 < spt_CooldownPeriod t \<and> 0 < spt_DisruptionRetryInterval t \<and> 0 < spt_DisruptionWindowPollInterval t"
  by (auto simp: validateWorkloadTimingConfig_def not_le)

text \<open>The controllers' own timing record, made field by field.\<close>

definition to_controller_timing :: "sp_WorkloadTimingConfig \<Rightarrow> WorkloadTimingConfig" where
  "to_controller_timing t =
     \<lparr>wt_CooldownPeriod = spt_CooldownPeriod t, wt_DisruptionRetryInterval = spt_DisruptionRetryInterval t,
      wt_DisruptionWindowPollInterval = spt_DisruptionWindowPollInterval t\<rparr>"

lemma valid_timing_kept:
  "validateWorkloadTimingConfig name t = None \<Longrightarrow> wt_withDefaults (to_controller_timing t) = to_controller_timing t"
  by (auto simp: timing_valid wt_withDefaults_def to_controller_timing_def Let_def)

text \<open>
  C38: A loaded configuration is valid: a namespace, at least one worker, a positive webhook port
  if there is a webhook, a global disruption window that parses, and a timing that the
  controllers take as it is.
\<close>

theorem loaded_config_valid:
  assumes "Load parse fs getenv l = Inr c"
  shows "spo_Namespace (sp_Operator c) \<noteq> [] \<and> 0 < spc_MaxConcurrentReconciles (sp_Controllers c) \<and>
    (spw_Enabled (sp_Webhook c) \<longrightarrow> 0 < spw_Port (sp_Webhook c)) \<and>
    dwc_Validate parse (spo_DisruptionWindow (sp_Operator c)) = None \<and>
    wt_withDefaults (to_controller_timing (spc_WorkloadTiming (sp_Controllers c))) =
      to_controller_timing (spc_WorkloadTiming (sp_Controllers c))"
proof -
  from assms have v: "sp_Validate parse c = None"
    by (auto simp: Load_def Let_def split: sum.splits option.splits)
  then have "validateWorkloadTimingConfig ''controllers.workloadTiming'' (spc_WorkloadTiming (sp_Controllers c)) = None"
    by (auto simp: sp_Validate_def split: option.splits if_splits)
  from valid_timing_kept [OF this] v show ?thesis
    by (auto simp: sp_Validate_def not_le split: option.splits if_splits)
qed

lemma env_unset: "(\<And>key. getEnv getenv l key = []) \<Longrightarrow> loadFromEnv getenv l c = c"
  by (simp add: loadFromEnv_def load_operator_env_def load_controller_env_def load_webhook_env_def
      load_observability_env_def when_set_def Let_def)

text \<open>The defaults are valid, so a load without a file and without variables succeeds with them.\<close>

theorem default_config_loads:
  "(\<forall>key. getenv (''SPOTALIS_'' @ key) = []) \<longrightarrow> sp_LoadFromEnv parse fs getenv = Inr DefaultConfig"
proof
  assume "\<forall>key. getenv (''SPOTALIS_'' @ key) = []"
  then have "loadFromEnv getenv NewLoader DefaultConfig = DefaultConfig"
    by (intro env_unset) (simp add: getEnv_def NewLoader_def)
  moreover have "sp_Validate parse DefaultConfig = None"
    by (simp add: sp_Validate_def DefaultConfig_def dwc_Validate_def validateWorkloadTimingConfig_def duration_units)
  ultimately show "sp_LoadFromEnv parse fs getenv = Inr DefaultConfig"
    by (simp add: sp_LoadFromEnv_def Load_def NewLoader_def)
qed

text \<open>
  The environment never makes a load fail by not parsing; a value that does not parse leaves
  the field as the file set it.
\<close>

lemma unparsable_kept:
  "parseInt v fallback = fallback \<or> (\<exists>i. Atoi v = Inr i \<and> parseInt v fallback = i)"
  "parse_duration_or v d = d \<or> ParseDuration v = Some (parse_duration_or v d)"
  by (auto simp: parseInt_def parse_duration_or_def split: sum.splits option.splits)

definition one_var :: "string \<Rightarrow> string \<Rightarrow> string \<Rightarrow> string" where
  "one_var name val key = (if key = name then val else [])"

definition no_files :: sp_files where
  "no_files = \<lparr>sf_read = (\<lambda>_. Inl ''no such file''), sf_yaml = (\<lambda>_ c. Inr c), sf_marshal = (\<lambda>_. Inr []), sf_write = (\<lambda>_ _. None)\<rparr>"

lemma loaded_config_valid_witness:
  "\<exists>c. sp_LoadFromEnv (\<lambda>_. None) no_files (one_var ''SPOTALIS_CONTROLLERS_WORKLOAD_COOLDOWN_PERIOD'' ''45s'') = Inr c \<and>
     spt_CooldownPeriod (spc_WorkloadTiming (sp_Controllers c)) = 45 * Second \<and> 0 < spw_Port (sp_Webhook c)"
proof -
  let ?load = "Load (\<lambda>_. None) no_files (one_var ''SPOTALIS_CONTROLLERS_WORKLOAD_COOLDOWN_PERIOD'' ''45s'') NewLoader"
  have "(case ?load of Inl _ \<Rightarrow> None | Inr c \<Rightarrow>
      Some (spt_CooldownPeriod (spc_WorkloadTiming (sp_Controllers c)), spw_Enabled (sp_Webhook c))) = Some (45 * Second, True)"
    by code_simp
  then obtain c where "?load = Inr c" "spt_CooldownPeriod (spc_WorkloadTiming (sp_Controllers c)) = 45 * Second"
    "spw_Enabled (sp_Webhook c)" by (cases ?load) auto
  with loaded_config_valid [OF this(1)] show ?thesis by (auto simp: sp_LoadFromEnv_def)
qed

lemma default_config_loads_witness: "sp_LoadFromEnv (\<lambda>_. None) no_files (\<lambda>_. []) = Inr DefaultConfig"
  using default_config_loads [of "\<lambda>_. []"] by simp

text \<open>
  Ports above 65535 and intervals that are not positive are accepted here.
\<close>

theorem consolidated_validation_gaps:
  "\<exists>c. sp_LoadFromEnv (\<lambda>_. None) no_files (one_var ''SPOTALIS_WEBHOOK_PORT'' ''70000'') = Inr c \<and> spw_Port (sp_Webhook c) = 70000"
  "\<exists>c. sp_LoadFromEnv (\<lambda>_. None) no_files (one_var ''SPOTALIS_CONTROLLERS_RECONCILE_INTERVAL'' ''-5m'') = Inr c \<and>
     spc_ReconcileInterval (sp_Controllers c) = - 5 * Minute"
proof -
  let ?l = "sp_LoadFromEnv (\<lambda>_. None) no_files (one_var ''SPOTALIS_WEBHOOK_PORT'' ''70000'')"
  have "(case ?l of Inl _ \<Rightarrow> None | Inr c \<Rightarrow> Some (spw_Port (sp_Webhook c))) = Some 70000" by code_simp
  then show "\<exists>c. ?l = Inr c \<and> spw_Port (sp_Webhook c) = 70000" by (cases ?l) auto
next
  let ?l = "sp_LoadFromEnv (\<lambda>_. None) no_files (one_var ''SPOTALIS_CONTROLLERS_RECONCILE_INTERVAL'' ''-5m'')"
  have "(case ?l of Inl _ \<Rightarrow> None | Inr c \<Rightarrow> Some (spc_ReconcileInterval (sp_Controllers c))) = Some (- 5 * Minute)" by code_simp
  then show "\<exists>c. ?l = Inr c \<and> spc_ReconcileInterval (sp_Controllers c) = - 5 * Minute" by (cases ?l) auto
qed

end
