(* ===== verification/Service_Registry.thy ===== *)
theory Service_Registry
  imports Operator_Wiring Consolidated_Config Deployment_Controller
begin

text \<open>
  \<^verbatim>\<open>pkg/di\<close>: the registration of the services in the container and the
  application that is started from it; the constructors the registry hands to the container,
  as functions of the consolidated configuration.

  The container is the library dig. It is the list of the types that have a constructor;
  \<open>dig\<close> gives the error of registering one more.
\<close>

section \<open>Registration\<close>

type_synonym dig_container = "string list"

datatype provide_panic = FailedToProvide string go_error

definition MustProvide ::
  "(dig_container \<Rightarrow> string \<Rightarrow> go_error option) \<Rightarrow> string \<Rightarrow> dig_container \<Rightarrow> provide_panic + dig_container" where
  "MustProvide dig t c = (case dig c t of Some e \<Rightarrow> Inl (FailedToProvide t e) | None \<Rightarrow> Inr (c @ [t]))"

fun provide_all ::
  "(dig_container \<Rightarrow> string \<Rightarrow> go_error option) \<Rightarrow> string list \<Rightarrow> dig_container \<Rightarrow> provide_panic + dig_container" where
  "provide_all dig [] c = Inr c"
| "provide_all dig (t # ts) c = (case MustProvide dig t c of Inl p \<Rightarrow> Inl p | Inr c \<Rightarrow> provide_all dig ts c)"

definition RegisterConfiguration where
  "RegisterConfiguration dig = provide_all dig [''*config.Loader'', ''*config.SpotalisConfig'']"

definition RegisterLogger where
  "RegisterLogger dig = provide_all dig [''*logging.Logger'']"

definition RegisterCoreServices where
  "RegisterCoreServices dig = provide_all dig
     [''*annotations.AnnotationParser'', ''*metrics.Collector'', ''*webhook.AdmissionStateTracker'',
      ''*config.NodeClassifierConfig'', ''*config.NodeClassifierService'']"

definition RegisterControllers where
  "RegisterControllers dig = provide_all dig [''*controllers.ControllerManager'']"

definition RegisterServers where
  "RegisterServers dig = provide_all dig [''*webhook.MutationHandler'', ''*server.HealthChecker'']"

definition RegisterOperator where
  "RegisterOperator dig = provide_all dig [''*operator.Config'', ''*operator.Operator'']"

definition RegisterAll ::
  "(dig_container \<Rightarrow> string \<Rightarrow> go_error option) \<Rightarrow> dig_container \<Rightarrow> provide_panic + dig_container" where
  "RegisterAll dig c =
     (case RegisterConfiguration dig c of Inl p \<Rightarrow> Inl p | Inr c \<Rightarrow>
     (case RegisterLogger dig c of Inl p \<Rightarrow> Inl p | Inr c \<Rightarrow>
     (case RegisterCoreServices dig c of Inl p \<Rightarrow> Inl p | Inr c \<Rightarrow> RegisterOperator dig c)))"

text \<open>\<open>Build\<close> up to the resolution of the application.\<close>

definition Build_registers ::
  "(dig_container \<Rightarrow> string \<Rightarrow> go_error option) \<Rightarrow> provide_panic + dig_container" where
  "Build_registers dig =
     (case RegisterAll dig [] of Inl p \<Rightarrow> Inl p | Inr c \<Rightarrow> MustProvide dig ''*di.Application'' c)"

text \<open>\<open>InitializeOperator\<close> up to the resolution of the operator.\<close>

definition InitializeOperator ::
  "(dig_container \<Rightarrow> string \<Rightarrow> go_error option) \<Rightarrow> string \<Rightarrow> provide_panic + dig_container" where
  "InitializeOperator dig configFile =
     (case (if configFile \<noteq> [] then MustProvide dig ''*config.Loader'' [] else Inr []) of
        Inl p \<Rightarrow> Inl p
      | Inr c \<Rightarrow> (case RegisterAll dig c of Inl p \<Rightarrow> Inl p | Inr c \<Rightarrow> RegisterOperator dig c))"

section \<open>From the consolidated configuration to the operator\<close>

definition operator_config_of :: "SpotalisConfig \<Rightarrow> op_Config" where
  "operator_config_of c =
     \<lparr>opc_MetricsAddr = spm_BindAddress (spb_Metrics (sp_Observability c)),
      opc_ProbeAddr = sph_BindAddress (spb_Health (sp_Observability c)), opc_WebhookAddr = [],
      opc_LeaderElection = spl_Enabled (spo_LeaderElection (sp_Operator c)),
      opc_LeaderElectionID = spl_ID (spo_LeaderElection (sp_Operator c)), opc_Namespace = spo_Namespace (sp_Operator c),
      opc_ReconcileInterval = spc_ReconcileInterval (sp_Controllers c),
      opc_MaxConcurrentReconciles = spc_MaxConcurrentReconciles (sp_Controllers c),
      opc_WebhookCertDir = spw_CertDir (sp_Webhook c), opc_WebhookCertName = [], opc_WebhookKeyName = [],
      opc_WebhookPort = spw_Port (sp_Webhook c), opc_LogLevel = spg_Level (spb_Logging (sp_Observability c)),
      opc_EnablePprof = False, opc_EnableWebhook = spw_Enabled (sp_Webhook c),
      opc_ReadOnlyMode = spo_ReadOnlyMode (sp_Operator c), opc_NamespaceFilter = [], opc_APIQPSLimit = 0,
      opc_APIBurstLimit = 0\<rparr>"

text \<open>What the registry passes to the controller manager, were that one ever requested.\<close>

definition manager_config_of :: "SpotalisConfig \<Rightarrow> ManagerConfig" where
  "manager_config_of c =
     \<lparr>mgc_MaxConcurrentReconciles = spc_MaxConcurrentReconciles (sp_Controllers c), mgc_ReconcileTimeout = 0,
      mgc_ReconcileInterval = spc_ReconcileInterval (sp_Controllers c),
      mgc_WorkloadTiming = to_controller_timing (spc_WorkloadTiming (sp_Controllers c)),
      mgc_WatchNamespaces = [], mgc_IgnoreNamespaces = [], mgc_EnableDeployments = False,
      mgc_EnableStatefulSets = False, mgc_EnableDaemonSets = False, mgc_LeaderElection = False,
      mgc_MetricsBindAddress = [], mgc_HealthProbeBindAddress = [], mgc_CacheSyncTimeout = 0,
      mgc_GracefulShutdownTimeout = 0\<rparr>"

text \<open>
  \<open>Application.Start\<close> resolves the operator, for which the container loads the
  configuration and calls \<open>NewOperator\<close>, and starts it.
\<close>

datatype app_error =
    ConfigFailed sp_load_error
  | OperatorFailed go_error
  | StartFailed go_error

definition app_Start ::
  "operator_env \<Rightarrow> sp_load_error + SpotalisConfig \<Rightarrow> go_error option \<Rightarrow> app_error option \<times> Operator option" where
  "app_Start e config run =
     (case config of
        Inl err \<Rightarrow> (Some (ConfigFailed err), None)
      | Inr c \<Rightarrow>
          (case NewOperator e (Some (operator_config_of c)) of
             Inl err \<Rightarrow> (Some (OperatorFailed (Wrapped ''failed to create operator'' err)), None)
           | Inr o1 \<Rightarrow>
               (case op_Start run o1 of
                  (Some err, o1) \<Rightarrow> (Some (StartFailed err), Some o1)
                | (None, o1) \<Rightarrow> (None, Some o1))))"

section \<open>What the container accepts\<close>

text \<open>What dig documents: a type has at most one constructor, and any other is accepted.\<close>

definition dig_law :: "(dig_container \<Rightarrow> string \<Rightarrow> go_error option) \<Rightarrow> bool" where
  "dig_law dig \<longleftrightarrow> (\<forall>c t. dig c t = None \<longleftrightarrow> t \<notin> set c)"

lemma provide_all_ok:
  "dig_law dig \<Longrightarrow> distinct (c @ ts) \<Longrightarrow> provide_all dig ts c = Inr (c @ ts)"
proof (induction ts arbitrary: c)
  case (Cons t ts)
  then have "dig c t = None" by (simp add: dig_law_def)
  with Cons show ?case by (simp add: MustProvide_def)
qed simp

lemma provide_all_twice:
  assumes "dig_law dig" "t \<in> set c"
  shows "\<exists>p. provide_all dig (t # ts) c = Inl p"
  using assms by (cases "dig c t") (auto simp: MustProvide_def dig_law_def)

lemma RegisterAll_ok:
  assumes "dig_law dig"
  shows "RegisterAll dig [] = Inr
     [''*config.Loader'', ''*config.SpotalisConfig'', ''*logging.Logger'', ''*annotations.AnnotationParser'',
      ''*metrics.Collector'', ''*webhook.AdmissionStateTracker'', ''*config.NodeClassifierConfig'',
      ''*config.NodeClassifierService'', ''*operator.Config'', ''*operator.Operator'']"
  by (simp add: RegisterAll_def RegisterConfiguration_def RegisterLogger_def RegisterCoreServices_def
      RegisterOperator_def provide_all_ok [OF assms] del: provide_all.simps)

text \<open>
  The registration of the application succeeds. \<open>InitializeOperator\<close> registers the operator a
  second time, after \<open>RegisterAll\<close> did, and with a file also the loader: it panics always.
\<close>

theorem initialize_operator_panics:
  assumes law: "dig_law dig"
  shows "(\<exists>c. Build_registers dig = Inr c) \<and> (\<exists>p. InitializeOperator dig configFile = Inl p)"
proof
  from law have "dig c t = None" if "t \<notin> set c" for c t using that by (simp add: dig_law_def)
  then show "\<exists>c. Build_registers dig = Inr c"
    by (simp add: Build_registers_def RegisterAll_ok [OF law] MustProvide_def)
  show "\<exists>p. InitializeOperator dig configFile = Inl p"
  proof (cases "configFile = []")
    case True
    then show ?thesis
      using provide_all_twice [OF law]
      by (simp add: InitializeOperator_def RegisterAll_ok [OF law] RegisterOperator_def del: provide_all.simps)
  next
    case False
    have "MustProvide dig ''*config.Loader'' [] = Inr [''*config.Loader'']"
      using law by (auto simp: MustProvide_def dig_law_def split: option.split)
    moreover obtain p where "RegisterConfiguration dig [''*config.Loader''] = Inl p"
      using provide_all_twice [OF law, of "''*config.Loader''" "[''*config.Loader'']"]
      by (auto simp: RegisterConfiguration_def simp del: provide_all.simps)
    ultimately show ?thesis using False by (simp add: InitializeOperator_def RegisterAll_def)
  qed
qed

definition strict_dig :: "dig_container \<Rightarrow> string \<Rightarrow> go_error option" where
  "strict_dig c t = (if t \<in> set c then Some (Errorf ''already provided'') else None)"

lemma initialize_operator_panics_witness: "\<exists>p. InitializeOperator strict_dig ''config.yaml'' = Inl p"
proof -
  have "dig_law strict_dig" by (simp add: dig_law_def strict_dig_def)
  from initialize_operator_panics [OF this] show ?thesis by blast
qed

section \<open>Which settings have an effect\<close>

text \<open>The settings of the consolidated configuration on which the running operator depends.\<close>

definition effective_settings :: "SpotalisConfig \<Rightarrow> (string \<times> bool \<times> string) \<times> string \<times> string \<times> int \<times> bool \<times> duration" where
  "effective_settings c =
     ((spo_Namespace (sp_Operator c), spl_Enabled (spo_LeaderElection (sp_Operator c)),
       spl_ID (spo_LeaderElection (sp_Operator c))),
      spm_BindAddress (spb_Metrics (sp_Observability c)), sph_BindAddress (spb_Health (sp_Observability c)),
      spw_Port (sp_Webhook c), spw_Enabled (sp_Webhook c), spc_ReconcileInterval (sp_Controllers c))"

definition settings_used :: "op_Config \<Rightarrow> manager_options \<times> duration \<times> bool \<times> string" where
  "settings_used c = (operator_options c, opc_ReconcileInterval c, opc_EnableWebhook c, opc_Namespace c)"

lemma configFromEnv_used:
  "settings_used c = settings_used c' \<Longrightarrow> settings_used (configFromEnv g c) = settings_used (configFromEnv g c')"
  by (simp add: settings_used_def operator_options_def configFromEnv_def Let_def)

lemma NewOperator_used:
  assumes "settings_used (configFromEnv (oe_getenv e) c) = settings_used (configFromEnv (oe_getenv e) c')"
  shows "map_sum id runs_as (NewOperator e (Some c)) = map_sum id runs_as (NewOperator e (Some c'))"
proof -
  define d d' where "d = configFromEnv (oe_getenv e) c" and "d' = configFromEnv (oe_getenv e) c'"
  have eq: "operator_options d = operator_options d'" "opc_EnableWebhook d = opc_EnableWebhook d'"
    "opc_Namespace d = opc_Namespace d'" "opc_ReconcileInterval d = opc_ReconcileInterval d'"
    using assms by (simp_all add: d_def [symmetric] d'_def [symmetric] settings_used_def)
  show ?thesis
    by (simp add: NewOperator_def Let_def d_def [symmetric] d'_def [symmetric] eq initializeCoreServices_def
        initializeHTTPServer_def setupHTTPRoutes_def op_setupControllers_def setupWebhooks_def setupHealthChecks_def
        new_operator_def controller_name_def GetID_def runs_as_def operator_reconciler_def split: option.split)
qed

text \<open>
  C11: Two configurations that agree on these settings make the same operator: the same manager,
  reconcilers and webhook, or the same error. So nothing else in the file or the environment
  has an effect on it: not the read-only mode, the disruption window, the node labels, the
  workload timing, the concurrency, the lease duration or the certificate directory.
\<close>

theorem only_effective_settings:
  assumes "effective_settings c = effective_settings c'"
  shows "map_sum id runs_as (NewOperator e (Some (operator_config_of c))) =
    map_sum id runs_as (NewOperator e (Some (operator_config_of c')))"
proof (rule NewOperator_used, rule configFromEnv_used)
  show "settings_used (operator_config_of c) = settings_used (operator_config_of c')"
    using assms by (simp add: effective_settings_def settings_used_def operator_config_of_def operator_options_def)
qed

text \<open>A configuration that asks for read-only operation and a cooldown of an hour.\<close>

definition read_only_config :: SpotalisConfig where
  "read_only_config = DefaultConfig
     \<lparr>sp_Operator := (sp_Operator DefaultConfig)\<lparr>spo_ReadOnlyMode := True\<rparr>,
      sp_Controllers := (sp_Controllers DefaultConfig)\<lparr>spc_WorkloadTiming :=
        (spc_WorkloadTiming (sp_Controllers DefaultConfig))\<lparr>spt_CooldownPeriod := 60 * Minute\<rparr>\<rparr>\<rparr>"

lemma only_effective_settings_witness:
  "\<exists>o1 o2. NewOperator quiet_env (Some (operator_config_of read_only_config)) = Inr o1 \<and>
     NewOperator quiet_env (Some (operator_config_of DefaultConfig)) = Inr o2 \<and> runs_as o1 = runs_as o2 \<and>
     opc_ReadOnlyMode (o_config o1) \<and> \<not> opc_ReadOnlyMode (o_config o2)"
proof -
  obtain o1 o2 where new: "NewOperator quiet_env (Some (operator_config_of read_only_config)) = Inr o1"
    "NewOperator quiet_env (Some (operator_config_of DefaultConfig)) = Inr o2"
    using NewOperator_quiet by blast
  have "effective_settings read_only_config = effective_settings DefaultConfig"
    by (simp add: effective_settings_def read_only_config_def)
  from only_effective_settings [OF this, of quiet_env] new have "runs_as o1 = runs_as o2" by simp
  moreover have "opc_ReadOnlyMode (o_config o1)" "\<not> opc_ReadOnlyMode (o_config o2)"
    using NewOperator_result(3) [OF new(1) refl] NewOperator_result(3) [OF new(2) refl]
    by (simp_all add: quiet_env_def configFromEnv_def operator_config_of_def read_only_config_def DefaultConfig_def)
  ultimately show ?thesis using new by blast
qed

text \<open>
  Whatever the configuration, the reconcilers run with the built-in cooldown of ten seconds and
  without a global disruption window, and the webhook without a record of its reservations.
\<close>

theorem operator_defaults_only:
  assumes "NewOperator e config = Inr o1"
  shows "(\<forall>(n, r) \<in> set (o_controllers o1). getCooldownPeriod r = 10 * Second \<and> rc_Config r = None) \<and>
    (\<forall>(path, h) \<in> set (o_hooks o1). mh_AdmissionTracker h = None \<and> mh_NodeClassifierConfig h = None)"
  using NewOperator_result(1) [OF assms refl]
  by (auto simp: runs_as_def registered_reconciler_def new_reconciler_def getCooldownPeriod_def operator_handler_def
      defaultWorkloadTimingConfig_def split: if_splits)

lemma operator_defaults_only_witness:
  "\<exists>o1. NewOperator quiet_env (Some (operator_config_of read_only_config)) = Inr o1 \<and>
     list_all (\<lambda>(n, r). getCooldownPeriod r = 10 * Second) (o_controllers o1) \<and> length (o_controllers o1) = 2"
proof -
  obtain o1 where new: "NewOperator quiet_env (Some (operator_config_of read_only_config)) = Inr o1"
    using NewOperator_quiet by blast
  from operator_defaults_only [OF new] NewOperator_result(1) [OF new refl] new show ?thesis
    by (auto simp: list_all_iff runs_as_def)
qed

text \<open>
  The controller manager that the registry would build registers no controller, and its own
  validation rejects it: the registry leaves out the switches and the timeout.
\<close>

theorem registry_manager_idle:
  "SetupControllers None register (NewControllerManager compile True client (Some (manager_config_of c)) nc mc) =
     Inr (None, NewControllerManager compile True client (Some (manager_config_of c)) nc mc) \<and>
   GetControllerStatus (NewControllerManager compile True client (Some (manager_config_of c)) nc mc) = [] \<and>
   cm_ValidateConfiguration (NewControllerManager compile True client (Some (manager_config_of c)) nc mc) \<noteq> None"
  by (simp add: SetupControllers_def registerObservationIndexes_def NewControllerManager_def manager_config_of_def
      GetControllerStatus_def status_entry_def cm_ValidateConfiguration_def Let_def)

section \<open>The container and the demonstration registry\<close>

text \<open>
  \<^verbatim>\<open>ProvideValue\<close> wraps a value in a constructor of its type; only three types are
  told apart, every other value is provided as the empty interface.
\<close>

datatype container_value = StringValue string | IntValue int | BoolValue bool | OtherValue string

fun provided_type :: "container_value \<Rightarrow> string" where
  "provided_type (StringValue s) = ''string''"
| "provided_type (IntValue i) = ''int''"
| "provided_type (BoolValue b) = ''bool''"
| "provided_type (OtherValue t) = ''interface {}''"

definition ProvideValue ::
  "(dig_container \<Rightarrow> string \<Rightarrow> go_error option) \<Rightarrow> container_value \<Rightarrow> dig_container \<Rightarrow> go_error option \<times> dig_container" where
  "ProvideValue dig v c =
     (case dig c (provided_type v) of
        Some e \<Rightarrow> (Some e, c)
      | None \<Rightarrow> (None, c @ [provided_type v]))"

definition RegisterBasicServices where
  "RegisterBasicServices dig = provide_all dig
     [''*operator.Config'', ''*rest.Config'', ''*runtime.Scheme'', ''kubernetes.Interface'', ''manager.Manager'',
      ''client.Client'', ''*annotations.AnnotationParser'', ''*config.NodeClassifierService'', ''*metrics.Collector'']"

text \<open>The types that \<^verbatim>\<open>ResolveServiceDependencies\<close> asks for.\<close>

definition ServiceDependencies :: "string list" where
  "ServiceDependencies =
     [''*annotations.AnnotationParser'', ''*config.NodeClassifierService'', ''*metrics.Collector'',
      ''kubernetes.Interface'', ''client.Client'', ''manager.Manager'']"

text \<open>The demonstration registry can be filled once, and then has what it resolves.\<close>

theorem basic_services_once:
  assumes law: "dig_law dig"
  shows "\<exists>c. RegisterBasicServices dig [] = Inr c \<and> set ServiceDependencies \<subseteq> set c \<and>
    (\<exists>p. RegisterBasicServices dig c = Inl p)"
proof -
  let ?c = "[''*operator.Config'', ''*rest.Config'', ''*runtime.Scheme'', ''kubernetes.Interface'', ''manager.Manager'',
      ''client.Client'', ''*annotations.AnnotationParser'', ''*config.NodeClassifierService'', ''*metrics.Collector'']"
  have "RegisterBasicServices dig [] = Inr ?c"
    by (simp add: RegisterBasicServices_def provide_all_ok [OF law] del: provide_all.simps)
  moreover have "set ServiceDependencies \<subseteq> set ?c" by (simp add: ServiceDependencies_def)
  moreover have "\<exists>p. RegisterBasicServices dig ?c = Inl p"
    unfolding RegisterBasicServices_def by (rule provide_all_twice [OF law]) simp
  ultimately show ?thesis by blast
qed

text \<open>Of two values that are neither strings, integers nor booleans only the first is accepted,
  whatever their types.\<close>

theorem second_complex_value_refused:
  assumes "dig_law dig" and "ProvideValue dig (OtherValue t) c = (None, c')"
  shows "fst (ProvideValue dig (OtherValue t') c') \<noteq> None"
  using assms by (auto simp: ProvideValue_def dig_law_def split: option.splits)

end
