(* ===== verification/Structured_Logging.thy ===== *)
theory Structured_Logging
  imports Spotalis_Prelude
begin

text \<open>
  \<^verbatim>\<open>pkg/utils/logging.go\<close>: the logger over \<^verbatim>\<open>log/slog\<close> with its two
  handlers, its contexts and its events.

  The part of \<^verbatim>\<open>log/slog\<close> the file uses is modelled with it: a handler of the
  library keeps its options and attributes and writes one line per record of an enabled level;
  \<^verbatim>\<open>With\<close> asks the handler for one with more attributes. \<^verbatim>\<open>ConsoleHandler\<close>
  and \<^verbatim>\<open>ContextHandler\<close> embed a handler, so what they do not redefine is the
  embedded handler's method, its result included.
\<close>

section \<open>Attributes and contexts\<close>

datatype log_value = LString string | LInt int | LBool bool | LError string | LStrings "string list" | LDuration duration

type_synonym log_attrs = "(string \<times> log_value) list"

text \<open>
  A key of a context is compared together with its type: \<^verbatim>\<open>contextKey\<close> of this package
  or a plain string.
\<close>

datatype context_key = ContextKey string | StringKey string

datatype context_value = ContextString string | ContextOther log_value

type_synonym go_context = "context_key \<rightharpoonup> context_value"

definition WithRequestID :: "go_context \<Rightarrow> string \<Rightarrow> go_context" where
  "WithRequestID ctx requestID = ctx(ContextKey ''request_id'' \<mapsto> ContextString requestID)"

definition WithCorrelationID :: "go_context \<Rightarrow> string \<Rightarrow> go_context" where
  "WithCorrelationID ctx correlationID = ctx(ContextKey ''correlation_id'' \<mapsto> ContextString correlationID)"

definition getRequestIDFromContext :: "go_context \<Rightarrow> string" where
  "getRequestIDFromContext ctx = (case ctx (ContextKey ''request_id'') of Some (ContextString reqID) \<Rightarrow> reqID | _ \<Rightarrow> [])"

definition getCorrelationIDFromContext :: "go_context \<Rightarrow> string" where
  "getCorrelationIDFromContext ctx =
     (case ctx (ContextKey ''correlation_id'') of Some (ContextString corrID) \<Rightarrow> corrID | _ \<Rightarrow> [])"

section \<open>Configuration\<close>

text \<open>The writers are names of streams.\<close>

datatype log_stream = Stdout | Stderr | Stream string

record LoggerConfig =
  lgc_Level :: string
  lgc_Format :: string
  lgc_Development :: bool
  lgc_Output :: log_stream
  lgc_ErrorOutput :: log_stream
  lgc_AddSource :: bool
  lgc_TimeFormat :: string
  lgc_DisableTime :: bool
  lgc_DisableLevel :: bool
  lgc_DisableCaller :: bool
  lgc_RequestIDKey :: string
  lgc_CorrelationIDKey :: string
  lgc_ComponentKey :: string
  lgc_BufferSize :: int
  lgc_AsyncLogging :: bool

definition DefaultLoggerConfig :: LoggerConfig where
  "DefaultLoggerConfig =
     \<lparr>lgc_Level = ''info'', lgc_Format = ''json'', lgc_Development = False, lgc_Output = Stdout,
      lgc_ErrorOutput = Stderr, lgc_AddSource = True, lgc_TimeFormat = ''2006-01-02T15:04:05Z07:00'',
      lgc_DisableTime = False, lgc_DisableLevel = False, lgc_DisableCaller = False,
      lgc_RequestIDKey = ''request_id'', lgc_CorrelationIDKey = ''correlation_id'',
      lgc_ComponentKey = ''component'', lgc_BufferSize = 1024, lgc_AsyncLogging = False\<rparr>"

text \<open>The levels of \<^verbatim>\<open>slog\<close> and of \<^verbatim>\<open>zap\<close> are integers.\<close>

definition LevelDebug :: int where "LevelDebug = -4"
definition LevelInfo :: int where "LevelInfo = 0"
definition LevelWarn :: int where "LevelWarn = 4"
definition LevelError :: int where "LevelError = 8"

definition parseLogLevel :: "string \<Rightarrow> int" where
  "parseLogLevel level =
     (let level = ToLower level
      in if level = ''debug'' then LevelDebug
         else if level = ''info'' then LevelInfo
         else if level = ''warn'' \<or> level = ''warning'' then LevelWarn
         else if level = ''error'' then LevelError
         else LevelInfo)"

datatype zap_level = ZapDebug | ZapInfo | ZapWarn | ZapError | ZapPanic | ZapFatal

definition parseZapLogLevel :: "string \<Rightarrow> zap_level" where
  "parseZapLogLevel level =
     (let level = ToLower level
      in if level = ''debug'' then ZapDebug
         else if level = ''info'' then ZapInfo
         else if level = ''warn'' \<or> level = ''warning'' then ZapWarn
         else if level = ''error'' then ZapError
         else ZapInfo)"

section \<open>Handlers\<close>

datatype leaf_format = JSONLines | TextLines

datatype slog_handler =
  LeafHandler leaf_format log_stream int bool log_attrs
| ConsoleHandler slog_handler log_stream
| ContextHandler slog_handler LoggerConfig

record log_record =
  lr_Time :: time
  lr_Level :: int
  lr_Message :: string
  lr_Attrs :: log_attrs

record log_line =
  ll_Stream :: log_stream
  ll_Format :: leaf_format
  ll_Time :: "time option"
  ll_Level :: int
  ll_Message :: string
  ll_Attrs :: log_attrs

definition NewConsoleHandler :: "log_stream \<Rightarrow> int \<Rightarrow> bool \<Rightarrow> slog_handler" where
  "NewConsoleHandler output level addSource = ConsoleHandler (LeafHandler TextLines output level addSource []) output"

definition NewContextHandler :: "slog_handler \<Rightarrow> LoggerConfig \<Rightarrow> slog_handler" where
  "NewContextHandler handler config = ContextHandler handler config"

fun handler_Enabled :: "slog_handler \<Rightarrow> int \<Rightarrow> bool" where
  "handler_Enabled (LeafHandler f out minimum src as) level = (level \<ge> minimum)"
| "handler_Enabled (ConsoleHandler h out) level = handler_Enabled h level"
| "handler_Enabled (ContextHandler h config) level = handler_Enabled h level"

fun handler_WithAttrs :: "slog_handler \<Rightarrow> log_attrs \<Rightarrow> slog_handler" where
  "handler_WithAttrs (LeafHandler f out minimum src as) bs = LeafHandler f out minimum src (as @ bs)"
| "handler_WithAttrs (ConsoleHandler h out) bs = handler_WithAttrs h bs"
| "handler_WithAttrs (ContextHandler h config) bs = handler_WithAttrs h bs"

text \<open>A line has no time when the record has the zero time; \<open>now\<close> is the time \<open>Handle\<close> reads.\<close>

fun handler_Handle :: "time \<Rightarrow> slog_handler \<Rightarrow> log_record \<Rightarrow> log_line" where
  "handler_Handle now (LeafHandler f out minimum src as) r =
     \<lparr>ll_Stream = out, ll_Format = f, ll_Time = (if IsZero (lr_Time r) then None else Some (lr_Time r)),
      ll_Level = lr_Level r, ll_Message = lr_Message r, ll_Attrs = as @ lr_Attrs r\<rparr>"
| "handler_Handle now (ConsoleHandler h out) r = handler_Handle now h r"
| "handler_Handle now (ContextHandler h config) r =
     handler_Handle now h (if \<not> lgc_DisableTime config then r\<lparr>lr_Time := now\<rparr> else r)"

section \<open>The logger\<close>

record Logger =
  lg_handler :: slog_handler
  lg_config :: LoggerConfig
  lg_contextFields :: "string \<rightharpoonup> log_value"
  lg_component :: string

text \<open>\<^verbatim>\<open>With\<close> of the library, which leaves the logger alone when nothing is added.\<close>

definition handler_With :: "slog_handler \<Rightarrow> log_attrs \<Rightarrow> slog_handler" where
  "handler_With h as = (if as = [] then h else handler_WithAttrs h as)"

text \<open>One call of the library's logger: \<open>now\<close> is read there, \<open>now'\<close> in \<open>Handle\<close>.\<close>

definition slog_log :: "time \<Rightarrow> time \<Rightarrow> slog_handler \<Rightarrow> int \<Rightarrow> string \<Rightarrow> log_attrs \<Rightarrow> log_line option" where
  "slog_log now now' h level msg as =
     (if handler_Enabled h level
      then Some (handler_Handle now' h \<lparr>lr_Time = now, lr_Level = level, lr_Message = msg, lr_Attrs = as\<rparr>)
      else None)"

datatype logger_error = UnsupportedFormat string

definition NewLogger :: "LoggerConfig option \<Rightarrow> logger_error + Logger" where
  "NewLogger config =
     (let config = (case config of None \<Rightarrow> DefaultLoggerConfig | Some c \<Rightarrow> c);
          level = parseLogLevel (lgc_Level config);
          format = ToLower (lgc_Format config);
          handler =
            (if format = ''json'' then Some (LeafHandler JSONLines (lgc_Output config) level (lgc_AddSource config) [])
             else if format = ''text'' then Some (LeafHandler TextLines (lgc_Output config) level (lgc_AddSource config) [])
             else if format = ''console'' then Some (NewConsoleHandler (lgc_Output config) level (lgc_AddSource config))
             else None)
      in case handler of
           None \<Rightarrow> Inl (UnsupportedFormat (lgc_Format config))
         | Some h \<Rightarrow> Inr \<lparr>lg_handler = NewContextHandler h config, lg_config = config,
                         lg_contextFields = Map.empty, lg_component = []\<rparr>)"

definition lg_WithComponent :: "string \<Rightarrow> Logger \<Rightarrow> Logger" where
  "lg_WithComponent component l =
     \<lparr>lg_handler = handler_With (lg_handler l) [(''component'', LString component)], lg_config = lg_config l,
      lg_contextFields = lg_contextFields l, lg_component = component\<rparr>"

definition lg_WithContext :: "go_context \<Rightarrow> Logger \<Rightarrow> Logger" where
  "lg_WithContext ctx l =
     (let reqID = getRequestIDFromContext ctx; corrID = getCorrelationIDFromContext ctx;
          attrs = (if reqID \<noteq> [] then [(lgc_RequestIDKey (lg_config l), LString reqID)] else []) @
                  (if corrID \<noteq> [] then [(lgc_CorrelationIDKey (lg_config l), LString corrID)] else [])
      in l\<lparr>lg_handler := foldl (\<lambda>h a. handler_With h [a]) (lg_handler l) attrs\<rparr>)"

text \<open>The fields are a map, given in the order in which it is visited.\<close>

definition lg_WithFields :: "log_attrs \<Rightarrow> Logger \<Rightarrow> Logger" where
  "lg_WithFields visited l =
     l\<lparr>lg_handler := foldl (\<lambda>h a. handler_With h [a]) (lg_handler l) visited,
       lg_contextFields := lg_contextFields l ++ map_of visited\<rparr>"

section \<open>Events\<close>

text \<open>\<^verbatim>\<open>Duration.String\<close> of the library: the micro sign is two bytes.\<close>

definition fraction_digits :: "nat \<Rightarrow> int \<Rightarrow> string" where
  "fraction_digits prec v =
     (let ds = FormatInt v; padded = replicate (prec - length ds) CHR ''0'' @ ds;
          kept = rev (dropWhile (\<lambda>c. c = CHR ''0'') (rev padded))
      in if prec = 0 \<or> kept = [] then [] else CHR ''.'' # kept)"

definition Duration_String :: "duration \<Rightarrow> string" where
  "Duration_String d =
     (let u = \<bar>d\<bar>; sign = (if d < 0 then ''-'' else []);
          part = (\<lambda>prec unit. FormatInt (u div 10 ^ prec) @ fraction_digits prec (u mod 10 ^ prec) @ unit)
      in if u = 0 then ''0s''
         else if u < 1000 then sign @ part 0 ''ns''
         else if u < 1000000 then sign @ part 3 [CHR 0xC2, CHR 0xB5, CHR ''s'']
         else if u < 1000000000 then sign @ part 6 ''ms''
         else
           (let secs = u div 1000000000; mins = secs div 60; hours = mins div 60;
                s = FormatInt (secs mod 60) @ fraction_digits 9 (u mod 1000000000) @ ''s''
            in sign @ (if hours > 0 then FormatInt hours @ ''h'' else []) @
                 (if mins > 0 then FormatInt (mins mod 60) @ ''m'' else []) @ s))"

definition Milliseconds :: "duration \<Rightarrow> int" where
  "Milliseconds d = go_div d 1000000"

definition duration_fields :: "duration \<Rightarrow> log_attrs" where
  "duration_fields d = [(''duration'', LString (Duration_String d)), (''duration_ms'', LInt (Milliseconds d))]"

text \<open>
  Every event is the logger of the context with the fields of the event; \<open>visit\<close> is the order
  in which the map of fields is visited.
\<close>

type_synonym visiting = "log_attrs \<Rightarrow> log_attrs"

definition event_logger :: "visiting \<Rightarrow> go_context \<Rightarrow> log_attrs \<Rightarrow> Logger \<Rightarrow> Logger" where
  "event_logger visit ctx fs l = lg_WithFields (visit fs) (lg_WithContext ctx l)"

definition log_outcome ::
  "time \<Rightarrow> time \<Rightarrow> string \<Rightarrow> string \<Rightarrow> string option \<Rightarrow> Logger \<Rightarrow> log_line option" where
  "log_outcome now now' failed completed err l =
     (case err of
        Some e \<Rightarrow> slog_log now now' (lg_handler l) LevelError failed [(''error'', LError e)]
      | None \<Rightarrow> slog_log now now' (lg_handler l) LevelInfo completed [])"

definition LogReconciliation ::
  "visiting \<Rightarrow> time \<Rightarrow> time \<Rightarrow> go_context \<Rightarrow> string \<Rightarrow> string \<Rightarrow> string \<Rightarrow> duration \<Rightarrow> string option \<Rightarrow>
   Logger \<Rightarrow> log_line option" where
  "LogReconciliation visit now now' ctx resource namespace name d err l =
     log_outcome now now' ''Reconciliation failed'' ''Reconciliation completed'' err
       (event_logger visit ctx
          ([(''resource'', LString resource), (''namespace'', LString namespace), (''name'', LString name)] @
           duration_fields d) l)"

definition LogWebhookRequest ::
  "visiting \<Rightarrow> time \<Rightarrow> time \<Rightarrow> go_context \<Rightarrow> string \<Rightarrow> string \<Rightarrow> string \<Rightarrow> string \<Rightarrow> bool \<Rightarrow> duration \<Rightarrow>
   string option \<Rightarrow> Logger \<Rightarrow> log_line option" where
  "LogWebhookRequest visit now now' ctx operation resource namespace name allowed d err l =
     log_outcome now now' ''Webhook request failed'' ''Webhook request processed'' err
       (event_logger visit ctx
          ([(''operation'', LString operation), (''resource'', LString resource), (''namespace'', LString namespace),
            (''name'', LString name), (''allowed'', LBool allowed)] @ duration_fields d) l)"

definition LogNodeClassification ::
  "visiting \<Rightarrow> time \<Rightarrow> time \<Rightarrow> go_context \<Rightarrow> string \<Rightarrow> string \<Rightarrow> int \<Rightarrow> int \<Rightarrow> duration \<Rightarrow> Logger \<Rightarrow> log_line option" where
  "LogNodeClassification visit now now' ctx nodeName nodeType spotInstances onDemandInstances d l =
     slog_log now now'
       (lg_handler (event_logger visit ctx
          ([(''node_name'', LString nodeName), (''node_type'', LString nodeType), (''spot_instances'', LInt spotInstances),
            (''ondemand_instances'', LInt onDemandInstances)] @ duration_fields d) l))
       LevelInfo ''Node classification completed'' []"

definition LogMetricsCollection ::
  "visiting \<Rightarrow> time \<Rightarrow> time \<Rightarrow> go_context \<Rightarrow> int \<Rightarrow> duration \<Rightarrow> string option \<Rightarrow> Logger \<Rightarrow> log_line option" where
  "LogMetricsCollection visit now now' ctx metricsCount d err l =
     log_outcome now now' ''Metrics collection failed'' ''Metrics collection completed'' err
       (event_logger visit ctx ((''metrics_count'', LInt metricsCount) # duration_fields d) l)"

definition LogLeaderElection ::
  "visiting \<Rightarrow> time \<Rightarrow> time \<Rightarrow> go_context \<Rightarrow> string \<Rightarrow> string \<Rightarrow> string \<Rightarrow> Logger \<Rightarrow> log_line option" where
  "LogLeaderElection visit now now' ctx event identity leaderIdentity l =
     slog_log now now'
       (lg_handler (event_logger visit ctx
          [(''event'', LString event), (''identity'', LString identity), (''leader_identity'', LString leaderIdentity)] l))
       LevelInfo ''Leader election event'' []"

section \<open>The logger for controller-runtime\<close>

text \<open>It is the library's: what the code decides are its options.\<close>

record zap_options =
  zo_Development :: bool
  zo_Level :: zap_level

definition NewControllerRuntimeLogger :: "LoggerConfig option \<Rightarrow> zap_options" where
  "NewControllerRuntimeLogger config =
     (let config = (case config of None \<Rightarrow> DefaultLoggerConfig | Some c \<Rightarrow> c)
      in \<lparr>zo_Development = lgc_Development config, zo_Level = parseZapLogLevel (lgc_Level config)\<rparr>)"

section \<open>What a structured logger promises\<close>

text \<open>
  Loggers that are extended with values: the values of a logger are the ones added to it, in
  their order. The loggers of the controllers rely on this of the library they wrap.
\<close>

locale structured_logger =
  fixes with_values :: "'l \<Rightarrow> log_attrs \<Rightarrow> 'l"
    and values_of :: "'l \<Rightarrow> log_attrs"
  assumes values_with: "values_of (with_values l as) = values_of l @ as"
begin

lemma values_fold: "values_of (foldl with_values l ass) = values_of l @ concat ass"
  by (induction ass arbitrary: l) (simp_all add: values_with)

lemma values_kept: "set (values_of l) \<subseteq> set (values_of (foldl with_values l ass))"
  by (simp add: values_fold)

end

fun handler_attrs :: "slog_handler \<Rightarrow> log_attrs" where
  "handler_attrs (LeafHandler f out minimum src as) = as"
| "handler_attrs (ConsoleHandler h out) = handler_attrs h"
| "handler_attrs (ContextHandler h config) = handler_attrs h"

lemma handler_attrs_With: "handler_attrs (handler_WithAttrs h as) = handler_attrs h @ as"
  by (induction h) simp_all

interpretation slog: structured_logger handler_With handler_attrs
  by unfold_locales (simp add: handler_With_def handler_attrs_With)

lemma handler_With_each: "foldl (\<lambda>h a. handler_With h [a]) h as = foldl handler_With h (map (\<lambda>a. [a]) as)"
  by (induction as arbitrary: h) simp_all

lemma attrs_each [simp]: "handler_attrs (foldl (\<lambda>h a. handler_With h [a]) h as) = handler_attrs h @ as"
  unfolding handler_With_each slog.values_fold by (induction as) simp_all

lemma ll_Attrs_handle [simp]: "ll_Attrs (handler_Handle now h r) = handler_attrs h @ lr_Attrs r"
  by (induction now h r rule: handler_Handle.induct) simp_all

lemma Enabled_With [simp]: "handler_Enabled (handler_With h as) level = handler_Enabled h level"
proof -
  have "handler_Enabled (handler_WithAttrs h as) level = handler_Enabled h level" by (induction h) simp_all
  then show ?thesis by (simp add: handler_With_def)
qed

lemma Enabled_each [simp]: "handler_Enabled (foldl (\<lambda>h a. handler_With h [a]) h as) level = handler_Enabled h level"
  by (induction as arbitrary: h) simp_all

section \<open>Properties\<close>

text \<open>The identifiers of a context, under the configured keys.\<close>

definition context_ids :: "LoggerConfig \<Rightarrow> go_context \<Rightarrow> log_attrs" where
  "context_ids c ctx =
     filter (\<lambda>(k, v). v \<noteq> LString [])
       [(lgc_RequestIDKey c, LString (getRequestIDFromContext ctx)),
        (lgc_CorrelationIDKey c, LString (getCorrelationIDFromContext ctx))]"

lemma event_logger_attrs:
  "handler_attrs (lg_handler (event_logger visit ctx fs l)) =
   handler_attrs (lg_handler l) @ context_ids (lg_config l) ctx @ visit fs"
  by (simp add: event_logger_def lg_WithFields_def lg_WithContext_def context_ids_def Let_def)

lemma event_logger_enabled [simp]:
  "handler_Enabled (lg_handler (event_logger visit ctx fs l)) level = handler_Enabled (lg_handler l) level"
  by (simp add: event_logger_def lg_WithFields_def lg_WithContext_def Let_def)

text \<open>A reconciliation is one line, written exactly when its level is enabled; it carries the
  identifiers, the fields in any order, and the error exactly when there is one.\<close>

theorem reconciliation_line:
  "LogReconciliation visit now now' ctx resource namespace name d err l \<noteq> None \<longleftrightarrow>
     handler_Enabled (lg_handler l) (if err = None then LevelInfo else LevelError)"
  "LogReconciliation visit now now' ctx resource namespace name d err l = Some line \<Longrightarrow>
     ll_Attrs line = handler_attrs (lg_handler l) @ context_ids (lg_config l) ctx @
       visit ([(''resource'', LString resource), (''namespace'', LString namespace), (''name'', LString name)] @
              duration_fields d) @ (case err of None \<Rightarrow> [] | Some e \<Rightarrow> [(''error'', LError e)])"
  by (auto simp: LogReconciliation_def log_outcome_def slog_log_def event_logger_attrs split: option.splits if_splits)

text \<open>A logger exists for exactly three formats, in any case, and writes the lines of its
  level and above.\<close>

theorem NewLogger_formats:
  "(\<exists>l. NewLogger (Some c) = Inr l) \<longleftrightarrow> ToLower (lgc_Format c) \<in> {''json'', ''text'', ''console''}"
  "NewLogger (Some c) = Inr l \<Longrightarrow> handler_Enabled (lg_handler l) level \<longleftrightarrow> parseLogLevel (lgc_Level c) \<le> level"
  by (auto simp: NewLogger_def Let_def NewContextHandler_def NewConsoleHandler_def split: if_splits option.splits)

text \<open>The time of a line. Any attribute replaces the handler by the one inside, so the time is
  the one of the call; without attributes it is read again. Either way every line has a time:
  the switch that turns times off does nothing but choose between two readings.\<close>

lemma WithAttrs_leaf: "\<exists>f out m src as. handler_WithAttrs h bs = LeafHandler f out m src as"
  by (induction h) simp_all

theorem disable_time_ignored:
  assumes "NewLogger (Some (c\<lparr>lgc_DisableTime := True\<rparr>)) = Inr l"
    and "slog_log now now' (lg_handler l) level msg as = Some line"
  shows "ll_Time line = (if IsZero now then None else Some now)"
  using assms
  by (auto simp: NewLogger_def Let_def slog_log_def NewContextHandler_def NewConsoleHandler_def split: if_splits option.splits)

theorem component_drops_context_handler:
  assumes "slog_log now now' (lg_handler (lg_WithComponent name l)) level msg as = Some line"
  shows "ll_Time line = (if IsZero now then None else Some now)"
proof -
  obtain f out m src as' where "handler_WithAttrs (lg_handler l) [(''component'', LString name)] = LeafHandler f out m src as'"
    using WithAttrs_leaf by blast
  with assms show ?thesis
    by (auto simp: lg_WithComponent_def handler_With_def slog_log_def split: if_splits)
qed

text \<open>The two level parsers agree, and neither rejects anything.\<close>

theorem level_parsers_agree:
  "parseZapLogLevel s = ZapDebug \<longleftrightarrow> parseLogLevel s = LevelDebug"
  "parseZapLogLevel s = ZapWarn \<longleftrightarrow> parseLogLevel s = LevelWarn"
  "parseZapLogLevel s = ZapError \<longleftrightarrow> parseLogLevel s = LevelError"
  by (auto simp: parseZapLogLevel_def parseLogLevel_def Let_def LevelDebug_def LevelInfo_def LevelWarn_def LevelError_def)

lemma Duration_String_examples:
  "Duration_String 0 = ''0s''" "Duration_String 1500000000 = ''1.5s''" "Duration_String (- 90 * Second) = ''-1m30s''"
  "Duration_String (61 * Minute) = ''1h1m0s''" "Duration_String 2500000 = ''2.5ms''"
  by code_simp+

end
