(* ===== verification/Controller_Logging.thy ===== *)
theory Controller_Logging
  imports Structured_Logging
begin

text \<open>
  The loggers the operator uses: \<^verbatim>\<open>pkg/logging/logger.go\<close> and
  \<^verbatim>\<open>pkg/controllers/logging.go\<close>.

  They wrap the logger of the library \<^verbatim>\<open>logr\<close>, which is the parameter \<open>'l\<close> with
  its operation \<open>with_values\<close>; what is relied on is the locale \<open>structured_logger\<close>. A method
  that logs yields the call of the library it makes, a \<open>log_call\<close>.
\<close>

section \<open>Calls of the library\<close>

datatype 'l log_call =
  CallInfo 'l nat string log_attrs
| CallError 'l string string log_attrs

fun call_logger :: "'l log_call \<Rightarrow> 'l" where
  "call_logger (CallInfo l v msg as) = l"
| "call_logger (CallError l err msg as) = l"

fun call_attrs :: "'l log_call \<Rightarrow> log_attrs" where
  "call_attrs (CallInfo l v msg as) = as"
| "call_attrs (CallError l err msg as) = as"

section \<open>The logger of a reconciliation\<close>

record LoggingContext =
  lx_Controller :: string
  lx_Namespace :: string
  lx_Name :: string
  lx_Kind :: string
  lx_ReconcileID :: string
  lx_RequestID :: string

record 'l ControllerLogger =
  cl_Logger :: 'l
  cl_Context :: LoggingContext

text \<open>\<open>uuid\<close> is the text of the new identifier, whose first eight characters are kept.\<close>

definition NewControllerLogger ::
  "('l \<Rightarrow> log_attrs \<Rightarrow> 'l) \<Rightarrow> 'l \<Rightarrow> string \<Rightarrow> go_context \<Rightarrow> string \<Rightarrow> string \<Rightarrow> string \<Rightarrow> string \<Rightarrow> 'l ControllerLogger" where
  "NewControllerLogger with_values baseLogger uuid ctx controllerName namespace name kind =
     (let loggingContext =
            \<lparr>lx_Controller = controllerName, lx_Namespace = namespace, lx_Name = name, lx_Kind = kind,
             lx_ReconcileID = take 8 uuid, lx_RequestID = []\<rparr>;
          loggingContext =
            (case ctx (StringKey ''request-id'') of
               Some (ContextString i) \<Rightarrow> loggingContext\<lparr>lx_RequestID := i\<rparr>
             | _ \<Rightarrow> loggingContext);
          structuredLogger = with_values baseLogger
            [(''controller'', LString (lx_Controller loggingContext)), (''namespace'', LString (lx_Namespace loggingContext)),
             (''name'', LString (lx_Name loggingContext)), (''kind'', LString (lx_Kind loggingContext)),
             (''reconcile_id'', LString (lx_ReconcileID loggingContext))];
          structuredLogger =
            (if lx_RequestID loggingContext \<noteq> []
             then with_values structuredLogger [(''request_id'', LString (lx_RequestID loggingContext))]
             else structuredLogger)
      in \<lparr>cl_Logger = structuredLogger, cl_Context = loggingContext\<rparr>)"

definition cl_WithWorkload ::
  "('l \<Rightarrow> log_attrs \<Rightarrow> 'l) \<Rightarrow> string \<Rightarrow> int \<Rightarrow> 'l ControllerLogger \<Rightarrow> 'l ControllerLogger" where
  "cl_WithWorkload with_values workloadType replicas cl =
     \<lparr>cl_Logger = with_values (cl_Logger cl) [(''workload_type'', LString workloadType), (''replicas'', LInt replicas)],
      cl_Context = cl_Context cl\<rparr>"

definition cl_WithPhase :: "('l \<Rightarrow> log_attrs \<Rightarrow> 'l) \<Rightarrow> string \<Rightarrow> 'l ControllerLogger \<Rightarrow> 'l ControllerLogger" where
  "cl_WithPhase with_values phase cl =
     \<lparr>cl_Logger = with_values (cl_Logger cl) [(''phase'', LString phase)], cl_Context = cl_Context cl\<rparr>"

definition cl_WithReplicaState ::
  "('l \<Rightarrow> log_attrs \<Rightarrow> 'l) \<Rightarrow> int \<Rightarrow> int \<Rightarrow> 'l ControllerLogger \<Rightarrow> 'l ControllerLogger" where
  "cl_WithReplicaState with_values spotReplicas onDemandReplicas cl =
     \<lparr>cl_Logger = with_values (cl_Logger cl)
        [(''spot_replicas'', LInt spotReplicas), (''on_demand_replicas'', LInt onDemandReplicas)],
      cl_Context = cl_Context cl\<rparr>"

definition cl_WithDuration :: "('l \<Rightarrow> log_attrs \<Rightarrow> 'l) \<Rightarrow> duration \<Rightarrow> 'l ControllerLogger \<Rightarrow> 'l ControllerLogger" where
  "cl_WithDuration with_values d cl =
     \<lparr>cl_Logger = with_values (cl_Logger cl) [(''duration_ms'', LInt (Milliseconds d))], cl_Context = cl_Context cl\<rparr>"

text \<open>\<open>errType\<close> is the name of the error's type.\<close>

definition cl_WithError :: "('l \<Rightarrow> log_attrs \<Rightarrow> 'l) \<Rightarrow> string \<Rightarrow> 'l ControllerLogger \<Rightarrow> 'l ControllerLogger" where
  "cl_WithError with_values errType cl =
     \<lparr>cl_Logger = with_values (cl_Logger cl) [(''error_type'', LString errType)], cl_Context = cl_Context cl\<rparr>"

definition ReconcileStarted :: "string \<Rightarrow> 'l ControllerLogger \<Rightarrow> 'l log_call" where
  "ReconcileStarted msg cl = CallInfo (cl_Logger cl) 0 msg [(''event'', LString ''reconcile_started'')]"

definition ReconcileCompleted ::
  "('l \<Rightarrow> log_attrs \<Rightarrow> 'l) \<Rightarrow> string \<Rightarrow> bool \<Rightarrow> duration \<Rightarrow> 'l ControllerLogger \<Rightarrow> 'l log_call" where
  "ReconcileCompleted with_values msg requeue requeueAfter cl =
     (let logger = with_values (cl_Logger cl) [(''event'', LString ''reconcile_completed''), (''requeue'', LBool requeue)];
          logger = (if requeueAfter > 0
                    then with_values logger [(''requeue_after_ms'', LInt (Milliseconds requeueAfter))] else logger)
      in CallInfo logger 0 msg [])"

definition ReconcileFailed :: "string \<Rightarrow> string \<Rightarrow> 'l ControllerLogger \<Rightarrow> 'l log_call" where
  "ReconcileFailed err msg cl = CallError (cl_Logger cl) err msg [(''event'', LString ''reconcile_failed'')]"

definition WorkloadProcessed :: "string \<Rightarrow> bool \<Rightarrow> int \<Rightarrow> 'l ControllerLogger \<Rightarrow> 'l log_call" where
  "WorkloadProcessed msg rebalanced podsDeleted cl =
     CallInfo (cl_Logger cl) 0 msg
       [(''event'', LString ''workload_processed''), (''rebalanced'', LBool rebalanced), (''pods_deleted'', LInt podsDeleted)]"

definition RebalancePerformed :: "string \<Rightarrow> int \<Rightarrow> int \<Rightarrow> int \<Rightarrow> 'l ControllerLogger \<Rightarrow> 'l log_call" where
  "RebalancePerformed msg deletedCount targetSpot targetOnDemand cl =
     CallInfo (cl_Logger cl) 0 msg
       [(''event'', LString ''rebalance_performed''), (''pods_deleted'', LInt deletedCount),
        (''target_spot_replicas'', LInt targetSpot), (''target_on_demand_replicas'', LInt targetOnDemand)]"

definition NamespaceCheck ::
  "('l \<Rightarrow> log_attrs \<Rightarrow> 'l) \<Rightarrow> bool \<Rightarrow> string \<Rightarrow> string \<Rightarrow> 'l ControllerLogger \<Rightarrow> 'l log_call" where
  "NamespaceCheck with_values allowed reason rule cl =
     (let logger = with_values (cl_Logger cl) [(''event'', LString ''namespace_check''), (''allowed'', LBool allowed)];
          logger = (if reason \<noteq> [] then with_values logger [(''reason'', LString reason)] else logger);
          logger = (if rule \<noteq> [] then with_values logger [(''matched_rule'', LString rule)] else logger)
      in if allowed then CallInfo logger 0 ''Namespace is allowed for Spotalis management'' []
         else CallInfo logger 0 ''Namespace is not allowed for Spotalis management'' [])"

definition AnnotationCheck :: "bool \<Rightarrow> int \<Rightarrow> 'l ControllerLogger \<Rightarrow> 'l log_call" where
  "AnnotationCheck enabled spotPercentage cl =
     CallInfo (cl_Logger cl) 0 ''Checked Spotalis annotations''
       [(''event'', LString ''annotation_check''), (''spotalis_enabled'', LBool enabled), (''spot_percentage'', LInt spotPercentage)]"

section \<open>The logger of an admission\<close>

text \<open>
  The request is any value; its fields are read only if it has the five getters, which is what
  \<open>request_getters\<close> says. A UID of fewer than eight bytes makes the slice expression panic,
  which is the result \<open>None\<close>.
\<close>

record request_getters =
  rg_Kind :: string
  rg_Namespace :: string
  rg_Name :: string
  rg_Operation :: string
  rg_UID :: string

record 'l WebhookLogger =
  wl_Logger :: 'l
  wl_Kind :: string
  wl_Namespace :: string
  wl_Name :: string
  wl_Operation :: string
  wl_RequestID :: string

definition webhook_logger_of ::
  "('l \<Rightarrow> log_attrs \<Rightarrow> 'l) \<Rightarrow> 'l \<Rightarrow> string \<Rightarrow> string \<Rightarrow> string \<Rightarrow> string \<Rightarrow> string \<Rightarrow> 'l WebhookLogger" where
  "webhook_logger_of with_values baseLogger kind namespace name operation requestID =
     \<lparr>wl_Logger = with_values baseLogger
        [(''webhook'', LString ''mutation''), (''kind'', LString kind), (''namespace'', LString namespace),
         (''name'', LString name), (''operation'', LString operation), (''request_id'', LString requestID)],
      wl_Kind = kind, wl_Namespace = namespace, wl_Name = name, wl_Operation = operation, wl_RequestID = requestID\<rparr>"

definition NewWebhookLogger ::
  "('l \<Rightarrow> log_attrs \<Rightarrow> 'l) \<Rightarrow> 'l \<Rightarrow> request_getters option \<Rightarrow> 'l WebhookLogger option" where
  "NewWebhookLogger with_values baseLogger req =
     (case req of
        Some g \<Rightarrow>
          if length (rg_UID g) < 8 then None
          else Some (webhook_logger_of with_values baseLogger (rg_Kind g) (rg_Namespace g) (rg_Name g) (rg_Operation g)
                       (take 8 (rg_UID g)))
      | None \<Rightarrow> Some (webhook_logger_of with_values baseLogger [] [] [] [] []))"

definition wl_WithWorkload ::
  "('l \<Rightarrow> log_attrs \<Rightarrow> 'l) \<Rightarrow> string \<Rightarrow> string \<Rightarrow> 'l WebhookLogger \<Rightarrow> 'l WebhookLogger" where
  "wl_WithWorkload with_values workloadKind workloadName wl =
     wl\<lparr>wl_Logger := with_values (wl_Logger wl)
          [(''workload_kind'', LString workloadKind), (''workload_name'', LString workloadName)]\<rparr>"

definition wl_WithConfig ::
  "('l \<Rightarrow> log_attrs \<Rightarrow> 'l) \<Rightarrow> int \<Rightarrow> int \<Rightarrow> 'l WebhookLogger \<Rightarrow> 'l WebhookLogger" where
  "wl_WithConfig with_values spotPercentage minOnDemand wl =
     wl\<lparr>wl_Logger := with_values (wl_Logger wl)
          [(''spot_percentage'', LInt spotPercentage), (''min_on_demand'', LInt minOnDemand)]\<rparr>"

definition MutationApplied :: "string \<Rightarrow> int \<Rightarrow> string list \<Rightarrow> 'l WebhookLogger \<Rightarrow> 'l log_call" where
  "MutationApplied msg patchCount mutationTypes wl =
     CallInfo (wl_Logger wl) 0 msg
       [(''event'', LString ''mutation_applied''), (''patch_count'', LInt patchCount),
        (''mutation_types'', LStrings mutationTypes)]"

definition MutationSkipped :: "string \<Rightarrow> 'l WebhookLogger \<Rightarrow> 'l log_call" where
  "MutationSkipped reason wl =
     CallInfo (wl_Logger wl) 1 ''Mutation skipped'' [(''event'', LString ''mutation_skipped''), (''reason'', LString reason)]"

definition RequestDenied :: "string \<Rightarrow> string \<Rightarrow> 'l WebhookLogger \<Rightarrow> 'l log_call" where
  "RequestDenied reason err wl =
     CallError (wl_Logger wl) err ''Admission request denied''
       [(''event'', LString ''request_denied''), (''reason'', LString reason)]"

section \<open>The logger of the process\<close>

record logging_Config =
  lc_Level :: string
  lc_Format :: string

record 'l app_logger =
  al_Logger :: 'l
  al_config :: logging_Config

definition al_DefaultConfig :: logging_Config where
  "al_DefaultConfig = \<lparr>lc_Level = ''info'', lc_Format = ''json''\<rparr>"

definition al_DefaultDebugConfig :: logging_Config where
  "al_DefaultDebugConfig = \<lparr>lc_Level = ''debug'', lc_Format = ''json''\<rparr>"

definition parseZapLevel :: "string \<Rightarrow> zap_level" where
  "parseZapLevel level =
     (if level = ''debug'' then ZapDebug
      else if level = ''info'' then ZapInfo
      else if level = ''warn'' \<or> level = ''warning'' then ZapWarn
      else if level = ''error'' then ZapError
      else if level = ''panic'' then ZapPanic
      else if level = ''fatal'' then ZapFatal
      else ZapInfo)"

text \<open>What the code sets in the encoder configurations of the library.\<close>

record encoder_keys =
  ek_TimeKey :: string
  ek_LevelKey :: string
  ek_MessageKey :: string
  ek_CallerKey :: string
  ek_StacktraceKey :: string
  ek_ISO8601 :: bool
  ek_LowercaseLevel :: bool

datatype zap_encoder = ProductionJSON encoder_keys | DevelopmentConsole

definition json_keys :: encoder_keys where
  "json_keys =
     \<lparr>ek_TimeKey = ''time'', ek_LevelKey = ''level'', ek_MessageKey = ''msg'', ek_CallerKey = ''caller'',
      ek_StacktraceKey = ''stacktrace'', ek_ISO8601 = True, ek_LowercaseLevel = True\<rparr>"

record zap_setup =
  zs_Development :: bool
  zs_Encoder :: zap_encoder
  zs_Level :: zap_level

text \<open>\<open>create\<close> is the constructor of the library; nothing in this one can fail.\<close>

definition al_NewLogger :: "(zap_setup \<Rightarrow> 'l) \<Rightarrow> logging_Config option \<Rightarrow> 'l app_logger" where
  "al_NewLogger create config =
     (let config = (case config of None \<Rightarrow> al_DefaultConfig | Some c \<Rightarrow> c);
          encoder = (if lc_Format config = ''json'' then ProductionJSON json_keys else DevelopmentConsole)
      in \<lparr>al_Logger = create \<lparr>zs_Development = False, zs_Encoder = encoder, zs_Level = parseZapLevel (lc_Level config)\<rparr>,
          al_config = config\<rparr>)"

text \<open>Here the flag tells the production configuration of the library from the other one.\<close>

definition buildZapConfig :: "logging_Config \<Rightarrow> zap_setup" where
  "buildZapConfig config =
     (if lc_Format config = ''json''
      then \<lparr>zs_Development = False, zs_Encoder = ProductionJSON json_keys, zs_Level = parseZapLevel (lc_Level config)\<rparr>
      else \<lparr>zs_Development = True, zs_Encoder = DevelopmentConsole, zs_Level = parseZapLevel (lc_Level config)\<rparr>)"

definition SetGlobalLogger :: "(zap_setup \<Rightarrow> 'e + 'z) \<Rightarrow> 'l app_logger \<Rightarrow> 'z \<Rightarrow> 'e option \<times> 'z" where
  "SetGlobalLogger build l global =
     (case build (buildZapConfig (al_config l)) of
        Inl err \<Rightarrow> (Some err, global)
      | Inr zapLogger \<Rightarrow> (None, zapLogger))"

text \<open>An unset variable reads as the empty string.\<close>

definition getEnvOrDefault :: "(string \<Rightarrow> string) \<Rightarrow> string \<Rightarrow> string \<Rightarrow> string" where
  "getEnvOrDefault env key defaultValue = (if env key \<noteq> [] then env key else defaultValue)"

definition GetLoggerFromEnv :: "(zap_setup \<Rightarrow> 'l) \<Rightarrow> (string \<Rightarrow> string) \<Rightarrow> 'l app_logger" where
  "GetLoggerFromEnv create env =
     al_NewLogger create (Some
       \<lparr>lc_Level = getEnvOrDefault env ''SPOTALIS_LOG_LEVEL'' ''info'',
        lc_Format = getEnvOrDefault env ''SPOTALIS_LOG_FORMAT'' ''json''\<rparr>)"

definition al_WithName :: "('l \<Rightarrow> string \<Rightarrow> 'l) \<Rightarrow> string \<Rightarrow> 'l app_logger \<Rightarrow> 'l app_logger" where
  "al_WithName with_name name l = l\<lparr>al_Logger := with_name (al_Logger l) name\<rparr>"

definition al_WithValues :: "('l \<Rightarrow> log_attrs \<Rightarrow> 'l) \<Rightarrow> log_attrs \<Rightarrow> 'l app_logger \<Rightarrow> 'l app_logger" where
  "al_WithValues with_values keysAndValues l = l\<lparr>al_Logger := with_values (al_Logger l) keysAndValues\<rparr>"

fun context_log_value :: "context_value \<Rightarrow> log_value" where
  "context_log_value (ContextString s) = LString s"
| "context_log_value (ContextOther v) = v"

definition al_WithContext :: "('l \<Rightarrow> log_attrs \<Rightarrow> 'l) \<Rightarrow> go_context \<Rightarrow> 'l app_logger \<Rightarrow> 'l app_logger" where
  "al_WithContext with_values ctx l =
     (let logger = al_Logger l;
          logger = (case ctx (StringKey ''request-id'') of
                      Some reqID \<Rightarrow> with_values logger [(''request_id'', context_log_value reqID)] | None \<Rightarrow> logger);
          logger = (case ctx (StringKey ''trace-id'') of
                      Some traceID \<Rightarrow> with_values logger [(''trace_id'', context_log_value traceID)] | None \<Rightarrow> logger)
      in \<lparr>al_Logger = logger, al_config = al_config l\<rparr>)"

definition al_WithController ::
  "('l \<Rightarrow> string \<Rightarrow> 'l) \<Rightarrow> ('l \<Rightarrow> log_attrs \<Rightarrow> 'l) \<Rightarrow> string \<Rightarrow> 'l app_logger \<Rightarrow> 'l app_logger" where
  "al_WithController with_name with_values controllerName l =
     l\<lparr>al_Logger := with_values (with_name (al_Logger l) controllerName) [(''controller'', LString controllerName)]\<rparr>"

definition al_WithReconciler ::
  "('l \<Rightarrow> log_attrs \<Rightarrow> 'l) \<Rightarrow> string \<Rightarrow> string \<Rightarrow> string \<Rightarrow> 'l app_logger \<Rightarrow> 'l app_logger" where
  "al_WithReconciler with_values namespace name kind l =
     l\<lparr>al_Logger := with_values (al_Logger l)
          [(''namespace'', LString namespace), (''name'', LString name), (''kind'', LString kind)]\<rparr>"

definition al_WithWebhook ::
  "('l \<Rightarrow> log_attrs \<Rightarrow> 'l) \<Rightarrow> string \<Rightarrow> string \<Rightarrow> string \<Rightarrow> string \<Rightarrow> 'l app_logger \<Rightarrow> 'l app_logger" where
  "al_WithWebhook with_values operation namespace name kind l =
     l\<lparr>al_Logger := with_values (al_Logger l)
          [(''webhook_operation'', LString operation), (''namespace'', LString namespace), (''name'', LString name),
           (''kind'', LString kind)]\<rparr>"

definition al_GetConfig :: "'l app_logger \<Rightarrow> logging_Config" where
  "al_GetConfig l = al_config l"

section \<open>Properties\<close>

text \<open>A reconciliation's logger, the loggers derived from it, and the calls they make.\<close>

inductive derived_logger :: "('l \<Rightarrow> log_attrs \<Rightarrow> 'l) \<Rightarrow> 'l ControllerLogger \<Rightarrow> 'l ControllerLogger \<Rightarrow> bool"
  for with_values :: "'l \<Rightarrow> log_attrs \<Rightarrow> 'l" and cl :: "'l ControllerLogger" where
  itself: "derived_logger with_values cl cl"
| workload: "derived_logger with_values cl dl \<Longrightarrow> derived_logger with_values cl (cl_WithWorkload with_values t n dl)"
| phase: "derived_logger with_values cl dl \<Longrightarrow> derived_logger with_values cl (cl_WithPhase with_values p dl)"
| replicas: "derived_logger with_values cl dl \<Longrightarrow> derived_logger with_values cl (cl_WithReplicaState with_values n m dl)"
| elapsed: "derived_logger with_values cl dl \<Longrightarrow> derived_logger with_values cl (cl_WithDuration with_values d dl)"
| failure: "derived_logger with_values cl dl \<Longrightarrow> derived_logger with_values cl (cl_WithError with_values e dl)"

inductive reconcile_call :: "('l \<Rightarrow> log_attrs \<Rightarrow> 'l) \<Rightarrow> 'l ControllerLogger \<Rightarrow> 'l log_call \<Rightarrow> bool"
  for with_values :: "'l \<Rightarrow> log_attrs \<Rightarrow> 'l" and cl :: "'l ControllerLogger" where
  started: "reconcile_call with_values cl (ReconcileStarted msg cl)"
| completed: "reconcile_call with_values cl (ReconcileCompleted with_values msg b d cl)"
| failed: "reconcile_call with_values cl (ReconcileFailed err msg cl)"
| processed: "reconcile_call with_values cl (WorkloadProcessed msg b n cl)"
| rebalanced: "reconcile_call with_values cl (RebalancePerformed msg n ts td cl)"
| namespace: "reconcile_call with_values cl (NamespaceCheck with_values b reason rule cl)"
| annotations: "reconcile_call with_values cl (AnnotationCheck b n cl)"

definition identifying_fields :: "LoggingContext \<Rightarrow> log_attrs" where
  "identifying_fields x =
     [(''controller'', LString (lx_Controller x)), (''namespace'', LString (lx_Namespace x)),
      (''name'', LString (lx_Name x)), (''kind'', LString (lx_Kind x)), (''reconcile_id'', LString (lx_ReconcileID x))]"

lemmas derive_defs = cl_WithWorkload_def cl_WithPhase_def cl_WithReplicaState_def cl_WithDuration_def cl_WithError_def
lemmas reconcile_call_defs = ReconcileStarted_def ReconcileCompleted_def ReconcileFailed_def WorkloadProcessed_def
  RebalancePerformed_def NamespaceCheck_def AnnotationCheck_def

lemma derived_logger_keeps:
  assumes "structured_logger with_values values_of" and "derived_logger with_values cl dl"
  shows "set (values_of (cl_Logger cl)) \<subseteq> set (values_of (cl_Logger dl)) \<and> cl_Context dl = cl_Context cl"
  using assms(2)
  by (induction rule: derived_logger.induct)
    (auto simp: derive_defs structured_logger.values_with [OF assms(1)])

lemma reconcile_call_keeps:
  assumes "structured_logger with_values values_of" and "reconcile_call with_values cl c"
  shows "set (values_of (cl_Logger cl)) \<subseteq> set (values_of (call_logger c))"
  using assms(2)
  by (induction rule: reconcile_call.induct)
    (auto simp: reconcile_call_defs Let_def structured_logger.values_with [OF assms(1)])

text \<open>Every call a reconciliation makes names its controller, the object, its kind and the
  pass: the logger of the call carries the five fields of the context it was made with, whatever
  was added on the way.\<close>

theorem reconcile_calls_identified:
  assumes "structured_logger with_values values_of"
    and "cl = NewControllerLogger with_values base uuid ctx controller namespace name kind"
    and "derived_logger with_values cl dl" and "reconcile_call with_values dl c"
  shows "set (identifying_fields (cl_Context dl)) \<subseteq> set (values_of (call_logger c)) \<and>
    cl_Context dl = cl_Context cl \<and> lx_Name (cl_Context dl) = name \<and> lx_Namespace (cl_Context dl) = namespace"
proof -
  have "set (identifying_fields (cl_Context cl)) \<subseteq> set (values_of (cl_Logger cl))"
    unfolding assms(2)
    by (auto simp: NewControllerLogger_def identifying_fields_def Let_def structured_logger.values_with [OF assms(1)]
        split: option.splits context_value.splits)
  moreover have "lx_Name (cl_Context cl) = name" "lx_Namespace (cl_Context cl) = namespace"
    unfolding assms(2) by (simp_all add: NewControllerLogger_def Let_def split: option.splits context_value.splits)
  ultimately show ?thesis
    using derived_logger_keeps [OF assms(1,3)] reconcile_call_keeps [OF assms(1,4)] by fastforce
qed

text \<open>The law of the library holds of the handlers of \<^verbatim>\<open>log/slog\<close>.\<close>

theorem reconcile_calls_identified_witness:
  "set (identifying_fields \<lparr>lx_Controller = ''deployment-controller'', lx_Namespace = ''shop'', lx_Name = ''web'',
      lx_Kind = ''Deployment'', lx_ReconcileID = ''01234567'', lx_RequestID = []\<rparr>) \<subseteq>
    set (handler_attrs (call_logger (ReconcileCompleted handler_With ''done'' True Second
      (cl_WithPhase handler_With ''rebalance''
        (NewControllerLogger handler_With (LeafHandler JSONLines Stdout 0 False []) ''0123456789ab'' Map.empty
           ''deployment-controller'' ''shop'' ''web'' ''Deployment'')))))"
proof -
  let ?cl = "NewControllerLogger handler_With (LeafHandler JSONLines Stdout 0 False []) ''0123456789ab'' Map.empty
    ''deployment-controller'' ''shop'' ''web'' ''Deployment''"
  let ?dl = "cl_WithPhase handler_With ''rebalance'' ?cl"
  have "derived_logger handler_With ?cl ?dl" by (intro derived_logger.intros)
  moreover have "reconcile_call handler_With ?dl (ReconcileCompleted handler_With ''done'' True Second ?dl)"
    by (rule reconcile_call.intros)
  ultimately have "set (identifying_fields (cl_Context ?dl)) \<subseteq>
      set (handler_attrs (call_logger (ReconcileCompleted handler_With ''done'' True Second ?dl)))"
    by (rule reconcile_calls_identified [OF slog.structured_logger_axioms refl, THEN conjunct1])
  moreover have "cl_Context ?dl = \<lparr>lx_Controller = ''deployment-controller'', lx_Namespace = ''shop'', lx_Name = ''web'',
      lx_Kind = ''Deployment'', lx_ReconcileID = ''01234567'', lx_RequestID = []\<rparr>"
    by (simp add: cl_WithPhase_def NewControllerLogger_def)
  ultimately show ?thesis by (simp only:)
qed

text \<open>The identifier that \<^verbatim>\<open>utils.WithRequestID\<close> puts into a context is invisible to
  the loggers of the operator: they look for the plain string \<^verbatim>\<open>request-id\<close>.\<close>

theorem request_id_unseen:
  "NewControllerLogger with_values base uuid (WithRequestID ctx i) controller namespace name kind =
   NewControllerLogger with_values base uuid ctx controller namespace name kind"
  "al_WithContext with_values (WithRequestID ctx i) l = al_WithContext with_values ctx l"
  "i \<noteq> [] \<Longrightarrow> context_ids DefaultLoggerConfig (WithRequestID Map.empty i) = [(''request_id'', LString i)]"
  by (simp_all add: NewControllerLogger_def al_WithContext_def WithRequestID_def context_ids_def DefaultLoggerConfig_def
      getRequestIDFromContext_def getCorrelationIDFromContext_def)

text \<open>A request without the five getters is logged without its kind, names and identifier.\<close>

theorem webhook_logger_blank:
  assumes "structured_logger with_values values_of" and "NewWebhookLogger with_values base None = Some wl"
  shows "values_of (wl_Logger wl) = values_of base @
    [(''webhook'', LString ''mutation''), (''kind'', LString []), (''namespace'', LString []), (''name'', LString []),
     (''operation'', LString []), (''request_id'', LString [])] \<and> wl_RequestID wl = []"
  using assms(2)
  by (auto simp: NewWebhookLogger_def webhook_logger_of_def structured_logger.values_with [OF assms(1)])

text \<open>The two packages read a level alike when it is written in lower case and differ otherwise;
  a format that one of them rejects makes the other write for a console.\<close>

theorem logging_packages_differ:
  "ToLower s = s \<Longrightarrow> s \<notin> {''panic'', ''fatal''} \<Longrightarrow> parseZapLevel s = parseZapLogLevel s"
  "parseZapLevel ''DEBUG'' = ZapInfo" "parseZapLogLevel ''DEBUG'' = ZapDebug"
  "al_Logger (al_NewLogger (\<lambda>s. s) (Some \<lparr>lc_Level = ''info'', lc_Format = ''JSON''\<rparr>)) =
     \<lparr>zs_Development = False, zs_Encoder = DevelopmentConsole, zs_Level = ZapInfo\<rparr>"
  "NewLogger (Some (DefaultLoggerConfig\<lparr>lgc_Format := ''yaml''\<rparr>)) = Inl (UnsupportedFormat ''yaml'')"
proof -
  show "parseZapLevel s = parseZapLogLevel s" if "ToLower s = s" "s \<notin> {''panic'', ''fatal''}"
    using that by (simp add: parseZapLevel_def parseZapLogLevel_def)
next
  show "NewLogger (Some (DefaultLoggerConfig\<lparr>lgc_Format := ''yaml''\<rparr>)) = Inl (UnsupportedFormat ''yaml'')"
    by (simp add: NewLogger_def ToLower_def lower_char_def)
qed (code_simp+)

text \<open>The logger of the environment is the default one when neither variable is set.\<close>

theorem logger_from_empty_environment:
  "GetLoggerFromEnv create (\<lambda>_. []) = al_NewLogger create None"
  by (simp add: GetLoggerFromEnv_def getEnvOrDefault_def al_NewLogger_def al_DefaultConfig_def)

end
