(* ===== verification/Process_Entry.thy ===== *)
theory Process_Entry
  imports Service_Registry Controller_Logging
begin

text \<open>
  \<^verbatim>\<open>cmd/controller/main.go\<close> and the builder of the application
  (\<^verbatim>\<open>pkg/di/application.go\<close>): what the process prints, logs and returns to the
  operating system.

  The parsed flags, the file system behind the loader, the container, the environment of the
  operator and the result of its run are parameters. \<^verbatim>\<open>main\<close> ends the process by
  returning, which is the status 0, or by a panic, which is the status 2.
\<close>

section \<open>The application\<close>

datatype build_error = BuildPanic provide_panic | BuildFailed sp_load_error

text \<open>
  \<open>load\<close> is the loader of the container on the path given to the builder, the empty one for
  none. Resolving the application constructs the configuration and nothing else.
\<close>

definition app_Build ::
  "(dig_container \<Rightarrow> string \<Rightarrow> go_error option) \<Rightarrow> (string \<Rightarrow> sp_load_error + SpotalisConfig) \<Rightarrow> string \<Rightarrow>
   build_error + SpotalisConfig" where
  "app_Build dig load configFile =
     (case Build_registers dig of
        Inl p \<Rightarrow> Inl (BuildPanic p)
      | Inr c \<Rightarrow> (case load configFile of Inl err \<Rightarrow> Inl (BuildFailed err) | Inr config \<Rightarrow> Inr config))"

text \<open>The constructor of the logger the registry provides, which cannot fail.\<close>

definition logger_config_of :: "SpotalisConfig \<Rightarrow> logging_Config" where
  "logger_config_of c =
     \<lparr>lc_Level = spg_Level (spb_Logging (sp_Observability c)), lc_Format = spg_Format (spb_Logging (sp_Observability c))\<rparr>"

definition app_GetLogger :: "(zap_setup \<Rightarrow> 'l) \<Rightarrow> SpotalisConfig \<Rightarrow> 'l app_logger" where
  "app_GetLogger create c = al_NewLogger create (Some (logger_config_of c))"

section \<open>The process\<close>

record build_info =
  bi_version :: string
  bi_commit :: string
  bi_buildDate :: string

record flags =
  fl_config :: string
  fl_version :: bool

datatype 'l process_output =
  PrintOut string
| PrintErr string build_error
| LogCall "'l log_call"
| StartError 'l app_error
| SetControllerRuntimeLogger 'l
| SetKlogLogger 'l
| FlushLog

datatype process_end = Exited int | Panicked provide_panic

definition print_version :: "build_info \<Rightarrow> 'l process_output list" where
  "print_version b =
     [PrintOut ''Spotalis Controller'', PrintOut (''Version: '' @ bi_version b), PrintOut (''Commit: '' @ bi_commit b),
      PrintOut (''Build Date: '' @ bi_buildDate b)]"

definition startup_attrs :: "build_info \<Rightarrow> SpotalisConfig \<Rightarrow> log_attrs" where
  "startup_attrs b c =
     [(''version'', LString (bi_version b)), (''commit'', LString (bi_commit b)), (''buildDate'', LString (bi_buildDate b)),
      (''namespace'', LString (spo_Namespace (sp_Operator c))),
      (''metrics-addr'', LString (spm_BindAddress (spb_Metrics (sp_Observability c)))),
      (''health-addr'', LString (sph_BindAddress (spb_Health (sp_Observability c)))),
      (''webhook-port'', LInt (spw_Port (sp_Webhook c))),
      (''leader-election'', LBool (spl_Enabled (spo_LeaderElection (sp_Operator c)))),
      (''webhook-enabled'', LBool (spw_Enabled (sp_Webhook c))),
      (''read-only'', LBool (spo_ReadOnlyMode (sp_Operator c))),
      (''log-level'', LString (spg_Level (spb_Logging (sp_Observability c))))]"

definition operator_attrs :: "SpotalisConfig \<Rightarrow> log_attrs" where
  "operator_attrs c =
     [(''max-concurrent-reconciles'', LInt (spc_MaxConcurrentReconciles (sp_Controllers c))),
      (''metrics-enabled'', LBool (spm_Enabled (spb_Metrics (sp_Observability c)))),
      (''leader-election-id'', LString (spl_ID (spo_LeaderElection (sp_Operator c)))),
      (''leader-election-lease-duration'', LDuration (spl_LeaseDuration (spo_LeaderElection (sp_Operator c))))]"

definition debug_messages :: "'l \<Rightarrow> SpotalisConfig \<Rightarrow> 'l process_output list" where
  "debug_messages setupLog c =
     (if spg_Level (spb_Logging (sp_Observability c)) = ''debug''
      then [LogCall (CallInfo setupLog 0 ''Debug logging enabled - reconciliation details will be shown at debug level'' []),
            LogCall (CallInfo setupLog 1 ''Using controller-runtime logger with JSON format and structured logging'' [])]
      else [])"

text \<open>\<open>run\<close> is what the manager of the operator returns once it has stopped.\<close>

definition process_main ::
  "(zap_setup \<Rightarrow> 'l) \<Rightarrow> ('l \<Rightarrow> string \<Rightarrow> 'l) \<Rightarrow> (dig_container \<Rightarrow> string \<Rightarrow> go_error option) \<Rightarrow>
   (string \<Rightarrow> sp_load_error + SpotalisConfig) \<Rightarrow> operator_env \<Rightarrow> go_error option \<Rightarrow> build_info \<Rightarrow> flags \<Rightarrow>
   'l process_output list \<times> process_end" where
  "process_main create with_name dig load e run b fl =
     (if fl_version fl then (print_version b, Exited 0)
      else case app_Build dig load (fl_config fl) of
        Inl (BuildPanic p) \<Rightarrow> ([], Panicked p)
      | Inl err \<Rightarrow> ([PrintErr ''Failed to create application'' err], Exited 0)
      | Inr config \<Rightarrow>
          (let logger = app_GetLogger create config;
               setupLog = al_Logger (al_WithName with_name ''setup'' logger);
               started = [SetControllerRuntimeLogger (al_Logger logger), SetKlogLogger (al_Logger logger)] @
                 debug_messages setupLog config @
                 [LogCall (CallInfo setupLog 0 ''Starting Spotalis controller'' (startup_attrs b config)),
                  LogCall (CallInfo setupLog 0 ''Operator configuration'' (operator_attrs config)),
                  LogCall (CallInfo setupLog 0 ''Starting operator'' [])]
           in case app_Start e (Inr config) run of
                (Some err, o1) \<Rightarrow> (started @ [StartError setupLog err], Exited 0)
              | (None, o1) \<Rightarrow> (started @ [LogCall (CallInfo setupLog 0 ''Operator stopped'' []), FlushLog], Exited 0)))"

section \<open>Properties\<close>

lemma Build_registers_ok:
  assumes "dig_law dig"
  shows "\<exists>c. Build_registers dig = Inr c"
proof -
  from assms have "dig c t = None" if "t \<notin> set c" for c t using that by (simp add: dig_law_def)
  then show ?thesis by (simp add: Build_registers_def RegisterAll_ok [OF assms] MustProvide_def)
qed

text \<open>The messages that report a failure.\<close>

fun is_failure :: "'l process_output \<Rightarrow> bool" where
  "is_failure (PrintErr s err) \<longleftrightarrow> True"
| "is_failure (StartError l err) \<longleftrightarrow> True"
| "is_failure _ \<longleftrightarrow> False"

lemma no_failure_in_start [simp]:
  "filter is_failure (debug_messages l c) = []" "filter is_failure (print_version b) = []"
  by (simp_all add: debug_messages_def print_version_def)

text \<open>The process ends with status 0 whatever happens: when the configuration does not load,
  when the operator cannot be built, when it cannot start and when its run fails. Each of these
  is reported by exactly one message, and the message is all that tells them from a clean stop.\<close>

theorem exit_status_hides_failures:
  assumes "dig_law dig"
  shows "snd (process_main create with_name dig load e run b fl) = Exited 0 \<and>
    length (filter is_failure (fst (process_main create with_name dig load e run b fl))) =
      (if fl_version fl then 0
       else case load (fl_config fl) of
         Inl _ \<Rightarrow> 1
       | Inr config \<Rightarrow> if fst (app_Start e (Inr config) run) = None then 0 else 1)"
  using Build_registers_ok [OF assms]
  by (auto simp: process_main_def app_Build_def Let_def split: sum.splits prod.splits option.splits)

text \<open>An unreadable file.\<close>

theorem exit_status_hides_failures_witness:
  "snd (process_main (\<lambda>s. s) (\<lambda>s n. s) strict_dig (\<lambda>p. Inl (SpUnreadable p)) quiet_env None
     \<lparr>bi_version = ''dev'', bi_commit = ''unknown'', bi_buildDate = ''unknown''\<rparr>
     \<lparr>fl_config = ''missing.yaml'', fl_version = False\<rparr>) = Exited 0"
proof -
  have "dig_law strict_dig" by (simp add: dig_law_def strict_dig_def)
  then show ?thesis by (rule exit_status_hides_failures [THEN conjunct1])
qed

text \<open>The flag that shows the version touches neither the configuration nor the container.\<close>

theorem version_only:
  "fl_version fl \<Longrightarrow> process_main create with_name dig load e run b fl =
    process_main create with_name (\<lambda>c t. None) (\<lambda>p. Inl (SpUnreadable p)) e' run' b fl"
  by (simp add: process_main_def)

text \<open>A started process logs its debug messages exactly when its level is the one of the debug
  logger, that is when the configuration spells it in lower case.\<close>

theorem debug_messages_need_lower_case:
  "debug_messages l c \<noteq> [] \<longleftrightarrow> parseZapLevel (lc_Level (logger_config_of c)) = ZapDebug"
  by (simp add: debug_messages_def logger_config_of_def parseZapLevel_def)

end
