(* ===== verification/Webhook_Server.thy ===== *)
theory Webhook_Server
  imports Mutate
begin

text \<open>
  \<^verbatim>\<open>internal/server/webhook.go\<close>: the HTTP server in front of the mutation handler.

  A body is what the network delivers; Go's limited reader fails beyond the limit. Decoding a
  body into a review is the library's (\<open>decode\<close>), and so is the wire form in which
  controller-runtime embeds a response of the handler (\<open>embedded\<close>).
\<close>

section \<open>The server\<close>

record WebhookServer =
  ws_mutateHandler :: "MutationHandler option"
  ws_certPath :: string
  ws_keyPath :: string
  ws_port :: int
  ws_readOnly :: bool
  ws_quiet :: bool

record server_config =
  wcf_Port :: int
  wcf_CertPath :: string
  wcf_KeyPath :: string
  wcf_ReadOnly :: bool
  wcf_Quiet :: bool

definition NewWebhookServer :: "server_config \<Rightarrow> MutationHandler option \<Rightarrow> WebhookServer" where
  "NewWebhookServer c handler =
     \<lparr>ws_mutateHandler = handler, ws_certPath = wcf_CertPath c, ws_keyPath = wcf_KeyPath c, ws_port = wcf_Port c,
      ws_readOnly = wcf_ReadOnly c, ws_quiet = wcf_Quiet c\<rparr>"

text \<open>The parts of an \<^verbatim>\<open>AdmissionResponse\<close>; the status is its message and code.\<close>

record wire_response =
  wr_UID :: string
  wr_Allowed :: bool
  wr_Message :: string
  wr_Code :: int
  wr_Patch :: "string option"

record wire_part =
  wp_Allowed :: bool
  wp_Message :: string
  wp_Code :: int
  wp_Patch :: "string option"

record wire_request =
  wq_UID :: string
  wq_Request :: admission_request

text \<open>A bad request carries the fields \<^verbatim>\<open>error\<close>, \<^verbatim>\<open>code\<close> and maybe \<^verbatim>\<open>details\<close>.\<close>

datatype http_answer =
    BadRequest string string "string option"
  | Review wire_response
  | Unavailable string string

definition maxAdmissionRequestBytes :: nat where "maxAdmissionRequestBytes = 3145728"

definition read_body :: "string + string \<Rightarrow> string + string" where
  "read_body body =
     (case body of
        Inl e \<Rightarrow> Inl e
      | Inr b \<Rightarrow> if length b > maxAdmissionRequestBytes then Inl ''http: request body too large'' else Inr b)"

definition handleMutation ::
  "(admission_response \<Rightarrow> wire_part) \<Rightarrow> webhook_env \<Rightarrow> wire_request \<Rightarrow> WebhookServer \<Rightarrow> wire_response \<times> WebhookServer" where
  "handleMutation embedded e req w =
     (case ws_mutateHandler w of
        None \<Rightarrow>
          (\<lparr>wr_UID = wq_UID req, wr_Allowed = True, wr_Message = ''mutation handler not configured'', wr_Code = 0,
            wr_Patch = None\<rparr>, w)
      | Some h \<Rightarrow>
          (case Handle e (wq_Request req) h of
             ((response, _), h') \<Rightarrow>
               (let p = embedded response
                in (\<lparr>wr_UID = wq_UID req, wr_Allowed = wp_Allowed p, wr_Message = wp_Message p, wr_Code = wp_Code p,
                     wr_Patch = wp_Patch p\<rparr>, w\<lparr>ws_mutateHandler := Some h'\<rparr>))))"

text \<open>Reading and decoding, as both endpoints do; they differ in how they name a missing request.\<close>

definition read_review ::
  "(string \<Rightarrow> string + wire_request option) \<Rightarrow> string + string \<Rightarrow> http_answer \<Rightarrow> http_answer + wire_request" where
  "read_review decode body missing =
     (case read_body body of
        Inl _ \<Rightarrow> Inl (BadRequest ''failed to read request body'' ''INVALID_REQUEST_BODY'' None)
      | Inr b \<Rightarrow>
          (case decode b of
             Inl err \<Rightarrow> Inl (BadRequest ''failed to deserialize admission request'' ''INVALID_ADMISSION_REQUEST'' (Some err))
           | Inr None \<Rightarrow> Inl missing
           | Inr (Some req) \<Rightarrow> Inr req))"

definition MutateHandler ::
  "(string \<Rightarrow> string + wire_request option) \<Rightarrow> (admission_response \<Rightarrow> wire_part) \<Rightarrow> webhook_env \<Rightarrow> string + string \<Rightarrow>
   WebhookServer \<Rightarrow> http_answer \<times> WebhookServer" where
  "MutateHandler decode embedded e body w =
     (if ws_readOnly w
      then (Review \<lparr>wr_UID = [], wr_Allowed = True,
                    wr_Message = ''webhook in read-only mode - no mutations applied'', wr_Code = 0, wr_Patch = None\<rparr>, w)
      else case read_review decode body (BadRequest ''admission request is nil'' ''EMPTY_ADMISSION_REQUEST'' None) of
             Inl answer \<Rightarrow> (answer, w)
           | Inr req \<Rightarrow> (case handleMutation embedded e req w of (response, w') \<Rightarrow> (Review response, w')))"

definition ValidateHandler ::
  "(string \<Rightarrow> string + wire_request option) \<Rightarrow> string + string \<Rightarrow> WebhookServer \<Rightarrow> http_answer" where
  "ValidateHandler decode body w =
     (case read_review decode body (BadRequest ''admission request is missing'' ''MISSING_ADMISSION_REQUEST'' None) of
        Inl answer \<Rightarrow> answer
      | Inr req \<Rightarrow>
          Review \<lparr>wr_UID = wq_UID req, wr_Allowed = True, wr_Message = ''validation passed'', wr_Code = 0, wr_Patch = None\<rparr>)"

definition SetReadOnly :: "bool \<Rightarrow> WebhookServer \<Rightarrow> WebhookServer" where
  "SetReadOnly readOnly w = w\<lparr>ws_readOnly := readOnly\<rparr>"

definition IsReadOnly :: "WebhookServer \<Rightarrow> bool" where "IsReadOnly w = ws_readOnly w"

text \<open>The wrapper answers that it is not ready while it has no server.\<close>

type_synonym WebhookHandler = "WebhookServer option"

definition wh_Mutate ::
  "(string \<Rightarrow> string + wire_request option) \<Rightarrow> (admission_response \<Rightarrow> wire_part) \<Rightarrow> webhook_env \<Rightarrow> string + string \<Rightarrow>
   WebhookHandler \<Rightarrow> http_answer \<times> WebhookHandler" where
  "wh_Mutate decode embedded e body h =
     (case h of
        None \<Rightarrow> (Unavailable ''webhook server not initialized'' ''WEBHOOK_SERVER_NOT_INITIALIZED'', None)
      | Some w \<Rightarrow> (case MutateHandler decode embedded e body w of (answer, w') \<Rightarrow> (answer, Some w')))"

definition wh_Validate :: "(string \<Rightarrow> string + wire_request option) \<Rightarrow> string + string \<Rightarrow> WebhookHandler \<Rightarrow> http_answer" where
  "wh_Validate decode body h =
     (case h of
        None \<Rightarrow> Unavailable ''webhook server not initialized'' ''WEBHOOK_SERVER_NOT_INITIALIZED''
      | Some w \<Rightarrow> ValidateHandler decode body w)"

definition wh_SetReadOnly :: "bool \<Rightarrow> WebhookHandler \<Rightarrow> WebhookHandler" where
  "wh_SetReadOnly readOnly h = map_option (SetReadOnly readOnly) h"

section \<open>What it answers\<close>

text \<open>
  Outside the read-only mode every body is answered: with the review of the request it decodes
  to, under that request's identifier and with the handler's verdict, or with a bad request.
\<close>

theorem webhook_answers_request:
  assumes "\<not> ws_readOnly w" and "MutateHandler decode embedded e body w = (answer, w')"
  shows "(case read_body body of
      Inl _ \<Rightarrow> answer = BadRequest ''failed to read request body'' ''INVALID_REQUEST_BODY'' None
    | Inr b \<Rightarrow> (case decode b of
        Inl err \<Rightarrow> answer = BadRequest ''failed to deserialize admission request'' ''INVALID_ADMISSION_REQUEST'' (Some err)
      | Inr None \<Rightarrow> answer = BadRequest ''admission request is nil'' ''EMPTY_ADMISSION_REQUEST'' None
      | Inr (Some req) \<Rightarrow> \<exists>r. answer = Review r \<and> wr_UID r = wq_UID req \<and>
          wr_Allowed r = (case ws_mutateHandler w of None \<Rightarrow> True
                          | Some h \<Rightarrow> wp_Allowed (embedded (fst (fst (Handle e (wq_Request req) h)))))))"
  using assms
  by (auto simp: MutateHandler_def read_review_def handleMutation_def Let_def split_def
      split: sum.splits option.splits prod.splits)

text \<open>
  In the read-only mode the answer does not depend on the request, so it does not carry its
  identifier, which the API server requires of an answer.
\<close>

lemma read_only_answer_anonymous:
  "\<exists>r. MutateHandler decode embedded e body (SetReadOnly True w) = (Review r, SetReadOnly True w) \<and> wr_UID r = []"
  by (simp add: MutateHandler_def SetReadOnly_def)

text \<open>
  The constructors of controller-runtime leave the serialised patch empty: it is filled in by
  \<^verbatim>\<open>Complete\<close>, which the library calls for its own webhooks and this server does
  not. So no answer of the server carries a patch, also when the handler made one.
\<close>

lemma http_answers_carry_no_patch:
  assumes "\<forall>r. wp_Patch (embedded r) = None" and "MutateHandler decode embedded e body w = (Review r, w')"
  shows "wr_Patch r = None"
  using assms
  by (auto simp: MutateHandler_def read_review_def handleMutation_def Let_def
      split: if_splits sum.splits option.splits prod.splits)

definition sample_server :: WebhookServer where
  "sample_server = NewWebhookServer \<lparr>wcf_Port = 9443, wcf_CertPath = [], wcf_KeyPath = [], wcf_ReadOnly = False, wcf_Quiet = True\<rparr>
     None"

lemma webhook_answers_request_witness:
  "\<exists>r. fst (MutateHandler (\<lambda>_. Inr (Some \<lparr>wq_UID = ''u7'', wq_Request =
        \<lparr>rq_Kind = ''Pod'', rq_Operation = ''CREATE'', rq_Object = Inr (sample_pod ''web-0'' [])\<rparr>\<rparr>))
      (\<lambda>_. \<lparr>wp_Allowed = False, wp_Message = [], wp_Code = 0, wp_Patch = None\<rparr>)
      \<lparr>we_api = \<lambda>_. empty_cluster, we_clk = \<lambda>_. 0, we_selector = match_labels\<rparr> (Inr ''{}'') sample_server) = Review r \<and>
    wr_UID r = ''u7'' \<and> wr_Allowed r"
proof -
  let ?d = "\<lambda>_::string. Inr (Some \<lparr>wq_UID = ''u7'', wq_Request =
        \<lparr>rq_Kind = ''Pod'', rq_Operation = ''CREATE'', rq_Object = Inr (sample_pod ''web-0'' [])\<rparr>\<rparr>) :: string + wire_request option"
  let ?e = "\<lparr>we_api = \<lambda>_. empty_cluster, we_clk = \<lambda>_. 0, we_selector = match_labels\<rparr>"
  have ro: "\<not> ws_readOnly sample_server" by (simp add: sample_server_def NewWebhookServer_def)
  obtain a w' where run: "MutateHandler ?d (\<lambda>_. \<lparr>wp_Allowed = False, wp_Message = [], wp_Code = 0, wp_Patch = None\<rparr>) ?e
      (Inr ''{}'') sample_server = (a, w')" by fastforce
  from webhook_answers_request [OF ro run] show ?thesis
    unfolding run by (simp add: read_body_def maxAdmissionRequestBytes_def sample_server_def NewWebhookServer_def)
qed

end
