(* ===== verification/Admission_Controller.thy ===== *)
theory Admission_Controller
  imports Kube_Objects
begin

text \<open>
  \<^verbatim>\<open>pkg/webhook/admission.go\<close>: the TLS settings of the webhook and its
  registration with the API server.

  Reading files, loading a key pair and parsing a certificate are parameters, and so is the
  API for webhook configurations over an abstract cluster \<open>'s\<close>.
\<close>

section \<open>Configuration\<close>

record webhook_rule =
  wru_Operations :: "string list"
  wru_APIGroups :: "string list"
  wru_APIVersions :: "string list"
  wru_Resources :: "string list"

text \<open>A nil byte slice is \<open>None\<close>.\<close>

record AdmissionConfig =
  adc_Enabled :: bool
  adc_Port :: int
  adc_CertDir :: string
  adc_CertName :: string
  adc_KeyName :: string
  adc_CABundle :: "string option"
  adc_ServiceName :: string
  adc_ServiceNamespace :: string
  adc_ServicePath :: string
  adc_WebhookName :: string
  adc_FailurePolicy :: "string option"
  adc_SideEffects :: "string option"
  adc_AdmissionReviewVersions :: "string list"
  adc_TimeoutSeconds :: "int option"
  adc_TLSMinVersion :: string
  adc_TLSCipherSuites :: "string list"
  adc_InsecureSkipVerify :: bool
  adc_NamespaceSelector :: "label_selector option"
  adc_ObjectSelector :: "label_selector option"
  adc_Rules :: "webhook_rule list"

definition DefaultAdmissionConfig :: AdmissionConfig where
  "DefaultAdmissionConfig =
     \<lparr>adc_Enabled = True, adc_Port = 9443, adc_CertDir = ''/tmp/k8s-webhook-server/serving-certs'',
      adc_CertName = ''tls.crt'', adc_KeyName = ''tls.key'', adc_CABundle = None,
      adc_ServiceName = ''spotalis-webhook-service'', adc_ServiceNamespace = ''spotalis-system'',
      adc_ServicePath = ''/mutate'', adc_WebhookName = ''spotalis-mutating-webhook'', adc_FailurePolicy = Some ''Fail'',
      adc_SideEffects = Some ''None'', adc_AdmissionReviewVersions = [''v1'', ''v1beta1''], adc_TimeoutSeconds = Some 10,
      adc_TLSMinVersion = ''1.3'', adc_TLSCipherSuites = [], adc_InsecureSkipVerify = False,
      adc_NamespaceSelector = None, adc_ObjectSelector = None,
      adc_Rules =
        [\<lparr>wru_Operations = [''CREATE'', ''UPDATE''], wru_APIGroups = [[]], wru_APIVersions = [''v1''],
          wru_Resources = [''pods'']\<rparr>,
         \<lparr>wru_Operations = [''CREATE'', ''UPDATE''], wru_APIGroups = [''apps''], wru_APIVersions = [''v1''],
          wru_Resources = [''deployments'', ''statefulsets'']\<rparr>]\<rparr>"

section \<open>TLS\<close>

text \<open>The identifiers of \<^verbatim>\<open>crypto/tls\<close>.\<close>

definition VersionTLS12 :: int where "VersionTLS12 = 0x0303"
definition VersionTLS13 :: int where "VersionTLS13 = 0x0304"

definition getTLSVersion :: "AdmissionConfig \<Rightarrow> int" where
  "getTLSVersion c =
     (if adc_TLSMinVersion c = ''1.2'' then VersionTLS12
      else if adc_TLSMinVersion c = ''1.3'' then VersionTLS13
      else VersionTLS13)"

definition cipher_suite :: "string \<Rightarrow> int list" where
  "cipher_suite suite =
     (if suite = ''TLS_ECDHE_RSA_WITH_AES_128_GCM_SHA256'' then [0xc02f]
      else if suite = ''TLS_ECDHE_RSA_WITH_AES_256_GCM_SHA384'' then [0xc030]
      else if suite = ''TLS_ECDHE_ECDSA_WITH_AES_128_GCM_SHA256'' then [0xc02b]
      else if suite = ''TLS_ECDHE_ECDSA_WITH_AES_256_GCM_SHA384'' then [0xc02c]
      else [])"

text \<open>The empty list stands for nil: the slice of the source is nil until a name is recognised.\<close>

definition getCipherSuites :: "AdmissionConfig \<Rightarrow> int list" where
  "getCipherSuites c =
     (if length (adc_TLSCipherSuites c) = 0 then [] else concat (List.map cipher_suite (adc_TLSCipherSuites c)))"

record 'k tls_config =
  tls_Certificate :: 'k
  tls_InsecureSkipVerify :: bool
  tls_MinVersion :: int
  tls_CipherSuites :: "int list"

text \<open>\<open>tf_missing p\<close>: reading the file's status says that it does not exist.\<close>

record 'k tls_files =
  tf_missing :: "string \<Rightarrow> bool"
  tf_loadKeyPair :: "string \<Rightarrow> string \<Rightarrow> go_error + 'k"
  tf_readFile :: "string \<Rightarrow> go_error + string"
  tf_join :: "string \<Rightarrow> string \<Rightarrow> string"

record 'k AdmissionController =
  adm_config :: AdmissionConfig
  adm_tlsConfig :: "'k tls_config option"
  adm_handler :: bool
  adm_served :: "string list"
  adm_registered :: bool

definition extractCABundle :: "'k tls_files \<Rightarrow> string \<Rightarrow> AdmissionConfig \<Rightarrow> go_error + AdmissionConfig" where
  "extractCABundle f certPath c =
     (case tf_readFile f certPath of
        Inl e \<Rightarrow> Inl (Wrapped ''failed to read certificate file'' e)
      | Inr certPEM \<Rightarrow> Inr (c\<lparr>adc_CABundle := Some certPEM\<rparr>))"

definition initializeTLS :: "'k tls_files \<Rightarrow> 'k AdmissionController \<Rightarrow> go_error + 'k AdmissionController" where
  "initializeTLS f a =
     (let c = adm_config a;
          certPath = tf_join f (adc_CertDir c) (adc_CertName c);
          keyPath = tf_join f (adc_CertDir c) (adc_KeyName c)
      in if tf_missing f certPath then Inl (Errorf (''certificate file not found: '' @ certPath))
         else if tf_missing f keyPath then Inl (Errorf (''private key file not found: '' @ keyPath))
         else case tf_loadKeyPair f certPath keyPath of
                Inl e \<Rightarrow> Inl (Wrapped ''failed to load certificate pair'' e)
              | Inr cert \<Rightarrow>
                  (case (if adc_CABundle c = None then extractCABundle f certPath c else Inr c) of
                     Inl e \<Rightarrow> Inl (Wrapped ''failed to extract CA bundle'' e)
                   | Inr c \<Rightarrow>
                       Inr (a\<lparr>adm_config := c,
                             adm_tlsConfig := Some
                               \<lparr>tls_Certificate = cert, tls_InsecureSkipVerify = adc_InsecureSkipVerify c,
                                tls_MinVersion = getTLSVersion c, tls_CipherSuites = getCipherSuites c\<rparr>\<rparr>)))"

definition setupWebhookServer :: "'k AdmissionController \<Rightarrow> 'k AdmissionController" where
  "setupWebhookServer a =
     (if adm_handler a then a\<lparr>adm_served := adm_served a @ [adc_ServicePath (adm_config a)]\<rparr> else a)"

definition NewAdmissionController ::
  "'k tls_files \<Rightarrow> AdmissionConfig option \<Rightarrow> bool \<Rightarrow> go_error + 'k AdmissionController" where
  "NewAdmissionController f config handler =
     (case initializeTLS f
        \<lparr>adm_config = (case config of None \<Rightarrow> DefaultAdmissionConfig | Some c \<Rightarrow> c), adm_tlsConfig = None,
         adm_handler = handler, adm_served = [], adm_registered = False\<rparr> of
        Inl e \<Rightarrow> Inl (Wrapped ''failed to initialize TLS'' e)
      | Inr a \<Rightarrow> Inr (setupWebhookServer a))"

text \<open>
  \<open>parse\<close> is \<^verbatim>\<open>x509.ParseCertificate\<close>: the end of the certificate's validity.
  A certificate about to expire is only logged.
\<close>

definition ValidateCertificates ::
  "'k tls_files \<Rightarrow> (string \<Rightarrow> go_error + time) \<Rightarrow> time \<Rightarrow> 'k AdmissionController \<Rightarrow> go_error option" where
  "ValidateCertificates f parse now a =
     (case tf_readFile f (tf_join f (adc_CertDir (adm_config a)) (adc_CertName (adm_config a))) of
        Inl e \<Rightarrow> Some (Wrapped ''failed to read certificate'' e)
      | Inr certPEM \<Rightarrow>
          (case parse certPEM of
             Inl e \<Rightarrow> Some (Wrapped ''failed to parse certificate'' e)
           | Inr notAfter \<Rightarrow> if now > notAfter then Some (Errorf ''certificate has expired'') else None))"

section \<open>Registration\<close>

record mutating_webhook =
  mw_Name :: string
  mw_ServiceName :: string
  mw_ServiceNamespace :: string
  mw_Path :: string
  mw_CABundle :: "string option"
  mw_Rules :: "webhook_rule list"
  mw_FailurePolicy :: "string option"
  mw_SideEffects :: "string option"
  mw_AdmissionReviewVersions :: "string list"
  mw_TimeoutSeconds :: "int option"
  mw_NamespaceSelector :: "label_selector option"
  mw_ObjectSelector :: "label_selector option"

record webhook_configuration =
  wcg_Name :: string
  wcg_Labels :: "(string \<times> string) list"
  wcg_Webhooks :: "mutating_webhook list"

record 's webhook_api =
  wa_Get :: "'s \<Rightarrow> string \<Rightarrow> go_error + webhook_configuration"
  wa_Update :: "'s \<Rightarrow> webhook_configuration \<Rightarrow> go_error option \<times> 's"
  wa_Create :: "'s \<Rightarrow> webhook_configuration \<Rightarrow> go_error option \<times> 's"
  wa_Delete :: "'s \<Rightarrow> string \<Rightarrow> go_error option \<times> 's"

text \<open>The client configuration (\<open>createClientConfig\<close>) is part of the webhook.\<close>

definition the_webhook :: "AdmissionConfig \<Rightarrow> mutating_webhook" where
  "the_webhook c =
     \<lparr>mw_Name = adc_WebhookName c, mw_ServiceName = adc_ServiceName c, mw_ServiceNamespace = adc_ServiceNamespace c,
      mw_Path = adc_ServicePath c, mw_CABundle = adc_CABundle c, mw_Rules = adc_Rules c,
      mw_FailurePolicy = adc_FailurePolicy c, mw_SideEffects = adc_SideEffects c,
      mw_AdmissionReviewVersions = adc_AdmissionReviewVersions c, mw_TimeoutSeconds = adc_TimeoutSeconds c,
      mw_NamespaceSelector = adc_NamespaceSelector c, mw_ObjectSelector = adc_ObjectSelector c\<rparr>"

definition configuration_name :: "AdmissionConfig \<Rightarrow> string" where
  "configuration_name c = adc_WebhookName c @ ''-configuration''"

definition webhook_labels :: "(string \<times> string) list" where
  "webhook_labels =
     [(''app.kubernetes.io/name'', ''spotalis''), (''app.kubernetes.io/component'', ''webhook''),
      (''app.kubernetes.io/managed-by'', ''spotalis-controller'')]"

definition registerWebhookConfiguration ::
  "'s webhook_api \<Rightarrow> 'k AdmissionController \<Rightarrow> 's \<Rightarrow> go_error option \<times> 'k AdmissionController \<times> 's" where
  "registerWebhookConfiguration api a s =
     (let c = adm_config a;
          configuration =
            \<lparr>wcg_Name = configuration_name c,
             wcg_Labels = webhook_labels,
             wcg_Webhooks = [the_webhook c]\<rparr>
      in case wa_Get api s (wcg_Name configuration) of
           Inr existing \<Rightarrow>
             (case wa_Update api s (existing\<lparr>wcg_Webhooks := wcg_Webhooks configuration\<rparr>) of
                (Some e, s) \<Rightarrow> (Some (Wrapped ''failed to update webhook configuration'' e), a, s)
              | (None, s) \<Rightarrow> (None, a\<lparr>adm_registered := True\<rparr>, s))
         | Inl _ \<Rightarrow>
             (case wa_Create api s configuration of
                (Some e, s) \<Rightarrow> (Some (Wrapped ''failed to create webhook configuration'' e), a, s)
              | (None, s) \<Rightarrow> (None, a\<lparr>adm_registered := True\<rparr>, s)))"

definition adm_Start ::
  "'s webhook_api \<Rightarrow> 'k AdmissionController \<Rightarrow> 's \<Rightarrow> go_error option \<times> 'k AdmissionController \<times> 's" where
  "adm_Start api a s =
     (if \<not> adc_Enabled (adm_config a) then (None, a, s)
      else case registerWebhookConfiguration api a s of
             (Some e, a, s) \<Rightarrow> (Some (Wrapped ''failed to register webhook configuration'' e), a, s)
           | (None, a, s) \<Rightarrow> (None, a, s))"

definition Cleanup ::
  "'s webhook_api \<Rightarrow> 'k AdmissionController \<Rightarrow> 's \<Rightarrow> go_error option \<times> 'k AdmissionController \<times> 's" where
  "Cleanup api a s =
     (if \<not> adm_registered a then (None, a, s)
      else case wa_Delete api s (configuration_name (adm_config a)) of
             (Some e, s) \<Rightarrow> (Some (Wrapped ''failed to delete webhook configuration'' e), a, s)
           | (None, s) \<Rightarrow> (None, a\<lparr>adm_registered := False\<rparr>, s))"

section \<open>The handshake\<close>

text \<open>
  The suites the source knows by name; all have forward secrecy and authenticated encryption.
  What a server offers below TLS 1.3 is documented by \<^verbatim>\<open>crypto/tls\<close>: the
  configured suites, or the library's own, \<open>library\<close>, if there are none. The suites of TLS 1.3
  cannot be configured.
\<close>

definition strong_suites :: "(string \<times> int) list" where
  "strong_suites =
     [(''TLS_ECDHE_RSA_WITH_AES_128_GCM_SHA256'', 0xc02f), (''TLS_ECDHE_RSA_WITH_AES_256_GCM_SHA384'', 0xc030),
      (''TLS_ECDHE_ECDSA_WITH_AES_128_GCM_SHA256'', 0xc02b), (''TLS_ECDHE_ECDSA_WITH_AES_256_GCM_SHA384'', 0xc02c)]"

definition offered_suites :: "int list \<Rightarrow> 'k tls_config \<Rightarrow> int list" where
  "offered_suites library t = (if tls_CipherSuites t = [] then library else tls_CipherSuites t)"

lemma cipher_suite_strong: "set (cipher_suite s) = {v. map_of strong_suites s = Some v}"
  by (auto simp: cipher_suite_def strong_suites_def)

lemma getCipherSuites_set: "set (getCipherSuites c) = {v. \<exists>s \<in> set (adc_TLSCipherSuites c). map_of strong_suites s = Some v}"
  by (auto simp: getCipherSuites_def cipher_suite_strong)

text \<open>
  C36: A controller that could be made serves no TLS below 1.3, unless its configuration asks for 1.2 by
  name, which is then the least version; no other setting lowers it. The suites it offers for
  1.2 are exactly the named ones among the four strong suites. But a name that is not known
  is dropped without an error: where no name is known, as with an empty list, the library's
  own suites are offered.
\<close>

theorem tls_never_weakened:
  assumes "NewAdmissionController f config handler = Inr a"
  defines "named \<equiv> {v. \<exists>s \<in> set (adc_TLSCipherSuites (adm_config a)). map_of strong_suites s = Some v}"
  shows "\<exists>t. adm_tlsConfig a = Some t \<and>
    tls_MinVersion t = (if adc_TLSMinVersion (adm_config a) = ''1.2'' then VersionTLS12 else VersionTLS13) \<and>
    set (offered_suites library t) = (if named = {} then set library else named) \<and>
    named \<subseteq> {0xc02f, 0xc030, 0xc02b, 0xc02c} \<and> adc_CABundle (adm_config a) \<noteq> None"
proof -
  have strong: "named \<subseteq> {0xc02f, 0xc030, 0xc02b, 0xc02c}"
    by (auto simp: named_def strong_suites_def split: if_splits)
  from assms(1) obtain a1 where a1: "initializeTLS f
      \<lparr>adm_config = (case config of None \<Rightarrow> DefaultAdmissionConfig | Some c \<Rightarrow> c), adm_tlsConfig = None,
       adm_handler = handler, adm_served = [], adm_registered = False\<rparr> = Inr a1" and a: "a = setupWebhookServer a1"
    by (auto simp: NewAdmissionController_def split: sum.splits)
  have "adm_tlsConfig a = adm_tlsConfig a1" "adm_config a = adm_config a1"
    by (simp_all add: a setupWebhookServer_def)
  moreover from a1 obtain cert where "adm_tlsConfig a1 = Some \<lparr>tls_Certificate = cert,
      tls_InsecureSkipVerify = adc_InsecureSkipVerify (adm_config a1), tls_MinVersion = getTLSVersion (adm_config a1),
      tls_CipherSuites = getCipherSuites (adm_config a1)\<rparr>" and "adc_CABundle (adm_config a1) \<noteq> None"
    by (auto simp: initializeTLS_def extractCABundle_def Let_def split: if_splits sum.splits)
  moreover have "set (getCipherSuites (adm_config a)) = named" unfolding named_def by (rule getCipherSuites_set)
  ultimately show ?thesis
    using strong by (auto simp: getTLSVersion_def offered_suites_def)
qed

definition sample_files :: "string tls_files" where
  "sample_files = \<lparr>tf_missing = (\<lambda>_. False), tf_loadKeyPair = (\<lambda>c k. Inr c), tf_readFile = (\<lambda>_. Inr ''-----BEGIN CERTIFICATE-----''),
     tf_join = (\<lambda>d n. d @ ''/'' @ n)\<rparr>"

text \<open>A misspelt suite: the library's are offered.\<close>

lemma tls_never_weakened_witness:
  "\<exists>a t. NewAdmissionController sample_files
       (Some (DefaultAdmissionConfig\<lparr>adc_TLSMinVersion := ''1.2'', adc_TLSCipherSuites := [''AES128-GCM-SHA256'']\<rparr>)) True = Inr a \<and>
     adm_tlsConfig a = Some t \<and> tls_MinVersion t = VersionTLS12 \<and> set (offered_suites [0xc013] t) = {0xc013}"
proof -
  let ?c = "DefaultAdmissionConfig\<lparr>adc_TLSMinVersion := ''1.2'', adc_TLSCipherSuites := [''AES128-GCM-SHA256'']\<rparr>"
  have "\<exists>a. NewAdmissionController sample_files (Some ?c) True = Inr a \<and>
      adc_TLSMinVersion (adm_config a) = ''1.2'' \<and> adc_TLSCipherSuites (adm_config a) = [''AES128-GCM-SHA256'']"
    by (simp add: NewAdmissionController_def initializeTLS_def extractCABundle_def setupWebhookServer_def
        sample_files_def DefaultAdmissionConfig_def)
  then obtain a where a: "NewAdmissionController sample_files (Some ?c) True = Inr a"
    "adc_TLSMinVersion (adm_config a) = ''1.2''" "adc_TLSCipherSuites (adm_config a) = [''AES128-GCM-SHA256'']" by blast
  from tls_never_weakened [OF a(1), of "[0xc013]"] a show ?thesis by (auto simp: strong_suites_def)
qed

section \<open>Registration and its undoing\<close>

text \<open>
  What the API promises, over the configurations \<open>objs s\<close> that a cluster holds. A write that is
  accepted changes the named configuration only. What is stored need not be what was sent:
  fields that may be left open (the failure policy, the timeout, the selectors) are filled in
  when they are nil, every other field is kept. A creation is only accepted under a new name.
\<close>

definition filled :: "'v option \<Rightarrow> 'v option \<Rightarrow> bool" where
  "filled x y \<longleftrightarrow> x = None \<or> y = x"

definition defaulted :: "mutating_webhook \<Rightarrow> mutating_webhook \<Rightarrow> bool" where
  "defaulted w v \<longleftrightarrow>
     filled (mw_FailurePolicy w) (mw_FailurePolicy v) \<and> filled (mw_TimeoutSeconds w) (mw_TimeoutSeconds v) \<and>
     filled (mw_NamespaceSelector w) (mw_NamespaceSelector v) \<and> filled (mw_ObjectSelector w) (mw_ObjectSelector v) \<and>
     v = w\<lparr>mw_FailurePolicy := mw_FailurePolicy v, mw_TimeoutSeconds := mw_TimeoutSeconds v,
       mw_NamespaceSelector := mw_NamespaceSelector v, mw_ObjectSelector := mw_ObjectSelector v\<rparr>"

definition stored_as :: "webhook_configuration \<Rightarrow> webhook_configuration \<Rightarrow> bool" where
  "stored_as c d \<longleftrightarrow> wcg_Name d = wcg_Name c \<and> wcg_Labels d = wcg_Labels c \<and>
     list_all2 defaulted (wcg_Webhooks c) (wcg_Webhooks d)"

definition webhook_api_law :: "'s webhook_api \<Rightarrow> ('s \<Rightarrow> string \<rightharpoonup> webhook_configuration) \<Rightarrow> bool" where
  "webhook_api_law api objs \<longleftrightarrow>
     (\<forall>s n c. wa_Get api s n = Inr c \<longrightarrow> objs s n = Some c \<and> wcg_Name c = n) \<and>
     (\<forall>s c s'. wa_Create api s c = (None, s') \<longrightarrow>
        objs s (wcg_Name c) = None \<and> (\<exists>d. stored_as c d \<and> objs s' = (objs s)(wcg_Name c \<mapsto> d))) \<and>
     (\<forall>s c s'. wa_Update api s c = (None, s') \<longrightarrow> (\<exists>d. stored_as c d \<and> objs s' = (objs s)(wcg_Name c \<mapsto> d))) \<and>
     (\<forall>s n s'. wa_Delete api s n = (None, s') \<longrightarrow> objs s' = (objs s)(n := None))"

text \<open>What a registration sends, and that it is accepted.\<close>

lemma registerWebhookConfiguration_ok:
  assumes law: "webhook_api_law api objs" and reg: "registerWebhookConfiguration api a s = (None, a', s')"
  shows "a' = a\<lparr>adm_registered := True\<rparr> \<and>
    (\<exists>c d. wcg_Name c = configuration_name (adm_config a) \<and> wcg_Webhooks c = [the_webhook (adm_config a)] \<and>
      wcg_Labels c = (case objs s (wcg_Name c) of None \<Rightarrow> webhook_labels | Some old \<Rightarrow> wcg_Labels old) \<and>
      stored_as c d \<and> objs s' = (objs s)(wcg_Name c \<mapsto> d))"
proof (cases "wa_Get api s (configuration_name (adm_config a))")
  case (Inl e)
  let ?c = "\<lparr>wcg_Name = configuration_name (adm_config a), wcg_Labels = webhook_labels,
    wcg_Webhooks = [the_webhook (adm_config a)]\<rparr>"
  from Inl reg have "a' = a\<lparr>adm_registered := True\<rparr>" and "wa_Create api s ?c = (None, s')"
    by (auto simp: registerWebhookConfiguration_def Let_def split: prod.splits option.splits)
  moreover from this(2) law have "objs s (wcg_Name ?c) = None" "\<exists>d. stored_as ?c d \<and> objs s' = (objs s)(wcg_Name ?c \<mapsto> d)"
    unfolding webhook_api_law_def by blast+
  ultimately show ?thesis by - (rule conjI, simp, rule exI [of _ ?c], simp)
next
  case (Inr old)
  let ?c = "old\<lparr>wcg_Webhooks := [the_webhook (adm_config a)]\<rparr>"
  from law Inr have old: "objs s (configuration_name (adm_config a)) = Some old" "wcg_Name old = configuration_name (adm_config a)"
    unfolding webhook_api_law_def by blast+
  from Inr reg have "a' = a\<lparr>adm_registered := True\<rparr>" and "wa_Update api s ?c = (None, s')"
    by (auto simp: registerWebhookConfiguration_def Let_def split: prod.splits option.splits)
  moreover from this(2) law have "\<exists>d. stored_as ?c d \<and> objs s' = (objs s)(wcg_Name ?c \<mapsto> d)"
    unfolding webhook_api_law_def by blast
  ultimately show ?thesis using old by - (rule conjI, simp, rule exI [of _ ?c], simp)
qed

text \<open>
  C30: A successful start leaves one configuration under the controller's name, with exactly the
  configured webhook, but for what the API fills in where the settings leave a field open; its
  labels are the operator's if it is new and are kept if it was there, and no other
  configuration changes. A successful clean-up, whatever happened to the cluster in between,
  removes this configuration and no other; so after a start on a cluster that did not have it,
  it gives the cluster back as it was. A disabled controller touches nothing.
\<close>

theorem registration_roundtrip:
  assumes law: "webhook_api_law api objs" and start: "adm_Start api a s = (None, a', s')"
  defines "name \<equiv> configuration_name (adm_config a)"
  shows "if adc_Enabled (adm_config a)
    then adm_registered a' \<and>
      (\<exists>c w. objs s' = (objs s)(name \<mapsto> c) \<and> wcg_Name c = name \<and> wcg_Webhooks c = [w] \<and>
         defaulted (the_webhook (adm_config a)) w \<and>
         wcg_Labels c = (case objs s name of None \<Rightarrow> webhook_labels | Some old \<Rightarrow> wcg_Labels old)) \<and>
      (\<forall>t a'' t'. Cleanup api a' t = (None, a'', t') \<longrightarrow> \<not> adm_registered a'' \<and> objs t' = (objs t)(name := None)) \<and>
      (\<forall>a'' s''. objs s name = None \<longrightarrow> Cleanup api a' s' = (None, a'', s'') \<longrightarrow> objs s'' = objs s)
    else a' = a \<and> s' = s"
proof (cases "adc_Enabled (adm_config a)")
  case True
  with start have "registerWebhookConfiguration api a s = (None, a', s')"
    by (auto simp: adm_Start_def split: prod.splits option.splits)
  from registerWebhookConfiguration_ok [OF law this] obtain c d where a': "a' = a\<lparr>adm_registered := True\<rparr>"
    and c: "wcg_Name c = name" "wcg_Webhooks c = [the_webhook (adm_config a)]"
      "wcg_Labels c = (case objs s name of None \<Rightarrow> webhook_labels | Some old \<Rightarrow> wcg_Labels old)"
    and d: "stored_as c d" "objs s' = (objs s)(name \<mapsto> d)" unfolding name_def by auto
  have cleanup: "\<not> adm_registered a'' \<and> objs t' = (objs t)(name := None)"
    if "Cleanup api a' t = (None, a'', t')" for t a'' t'
    using that law a' by (auto simp: Cleanup_def webhook_api_law_def name_def split: prod.splits option.splits)
  from d(1) c obtain w where "wcg_Name d = name" "wcg_Labels d = wcg_Labels c" "wcg_Webhooks d = [w]"
    "defaulted (the_webhook (adm_config a)) w"
    by (auto simp: stored_as_def list_all2_Cons1)
  with True a' c(3) d(2) cleanup show ?thesis by (auto simp: fun_upd_idem)
next
  case False
  with start show ?thesis by (simp add: adm_Start_def)
qed

text \<open>A cluster that is the list of its configurations under their names, and fills in the defaults.\<close>

definition with_default :: "'v \<Rightarrow> 'v option \<Rightarrow> 'v option" where
  "with_default d x = (case x of None \<Rightarrow> Some d | Some v \<Rightarrow> Some v)"

definition default_webhook :: "mutating_webhook \<Rightarrow> mutating_webhook" where
  "default_webhook w =
     w\<lparr>mw_FailurePolicy := with_default ''Fail'' (mw_FailurePolicy w),
       mw_TimeoutSeconds := with_default 10 (mw_TimeoutSeconds w),
       mw_NamespaceSelector := with_default \<lparr>ls_MatchLabels = [], ls_MatchExpressions = []\<rparr> (mw_NamespaceSelector w),
       mw_ObjectSelector := with_default \<lparr>ls_MatchLabels = [], ls_MatchExpressions = []\<rparr> (mw_ObjectSelector w)\<rparr>"

definition default_configuration :: "webhook_configuration \<Rightarrow> webhook_configuration" where
  "default_configuration c = c\<lparr>wcg_Webhooks := List.map default_webhook (wcg_Webhooks c)\<rparr>"

definition list_webhook_api :: "(string \<Rightarrow> webhook_configuration option) webhook_api" where
  "list_webhook_api =
     \<lparr>wa_Get = (\<lambda>s n. case s n of Some c \<Rightarrow> if wcg_Name c = n then Inr c else Inl (StatusError ReasonNotFound)
                 | None \<Rightarrow> Inl (StatusError ReasonNotFound)),
      wa_Update = (\<lambda>s c. (None, s(wcg_Name c \<mapsto> default_configuration c))),
      wa_Create = (\<lambda>s c. if s (wcg_Name c) = None then (None, s(wcg_Name c \<mapsto> default_configuration c))
                 else (Some (StatusError (ReasonOther ''AlreadyExists'')), s)),
      wa_Delete = (\<lambda>s n. (None, s(n := None)))\<rparr>"

lemma default_configuration_stored: "stored_as c (default_configuration c)"
  by (auto simp: stored_as_def default_configuration_def list_all2_conv_all_nth defaulted_def default_webhook_def
      with_default_def filled_def split: option.splits)

definition sample_controller :: "string AdmissionController" where
  "sample_controller = \<lparr>adm_config = DefaultAdmissionConfig, adm_tlsConfig = None, adm_handler = True, adm_served = [],
     adm_registered = False\<rparr>"

text \<open>The default settings leave the selectors open; the cluster has no configuration before and after.\<close>

lemma registration_roundtrip_witness:
  "\<exists>a' s' c w. adm_Start list_webhook_api sample_controller Map.empty = (None, a', s') \<and>
     s' = [''spotalis-mutating-webhook-configuration'' \<mapsto> c] \<and> wcg_Webhooks c = [w] \<and> mw_Path w = ''/mutate'' \<and>
     snd (snd (Cleanup list_webhook_api a' s')) = Map.empty"
proof -
  have law: "webhook_api_law list_webhook_api (\<lambda>s. s)"
    using default_configuration_stored
    by (auto simp: webhook_api_law_def list_webhook_api_def split: option.splits if_splits)
  obtain a' s' where start: "adm_Start list_webhook_api sample_controller Map.empty = (None, a', s')"
    by (simp add: adm_Start_def registerWebhookConfiguration_def list_webhook_api_def sample_controller_def
        DefaultAdmissionConfig_def Let_def)
  have clean: "fst (Cleanup list_webhook_api a' s') = None"
    by (simp add: Cleanup_def list_webhook_api_def)
  have facts: "adc_Enabled (adm_config sample_controller)"
    "configuration_name (adm_config sample_controller) = ''spotalis-mutating-webhook-configuration''"
    "mw_Path (the_webhook (adm_config sample_controller)) = ''/mutate''"
    by (simp_all add: sample_controller_def DefaultAdmissionConfig_def configuration_name_def the_webhook_def)
  note rt = registration_roundtrip [OF law start, unfolded if_P [OF facts(1)] facts(2)]
  from rt obtain c w where c: "s' = [''spotalis-mutating-webhook-configuration'' \<mapsto> c]" "wcg_Webhooks c = [w]"
    "defaulted (the_webhook (adm_config sample_controller)) w" by auto
  moreover have "mw_Path w = ''/mutate''"
    using arg_cong [OF c(3) [unfolded defaulted_def, THEN conjunct2, THEN conjunct2, THEN conjunct2, THEN conjunct2],
      where f = mw_Path] facts(3) by simp
  moreover have "Cleanup list_webhook_api a' s' =
      (None, fst (snd (Cleanup list_webhook_api a' s')), snd (snd (Cleanup list_webhook_api a' s')))"
    using clean by (metis prod.collapse)
  with rt have "snd (snd (Cleanup list_webhook_api a' s')) = Map.empty" by blast
  ultimately show ?thesis using start by blast
qed

section \<open>The certificate check reads the wrong format\<close>

text \<open>
  The certificate file holds PEM, which the key pair is loaded from; it begins with dashes. The
  check hands the file to a parser of DER, which begins with a byte 0x30.
\<close>

definition parses_der :: "(string \<Rightarrow> go_error + time) \<Rightarrow> bool" where
  "parses_der parse \<longleftrightarrow> (\<forall>d t. parse d = Inr t \<longrightarrow> HasPrefix d [CHR 0x30])"

theorem pem_certificate_rejected:
  assumes "parses_der parse"
    and "tf_readFile f (tf_join f (adc_CertDir (adm_config a)) (adc_CertName (adm_config a))) = Inr pem"
    and "HasPrefix pem ''-----BEGIN''"
  shows "\<exists>e. ValidateCertificates f parse now a = Some (Wrapped ''failed to parse certificate'' e)"
proof -
  have "\<not> HasPrefix pem [CHR 0x30]" using assms(3) by (cases pem) (auto simp: HasPrefix_def)
  with assms(1) have "\<nexists>t. parse pem = Inr t" by (auto simp: parses_der_def)
  then obtain e where "parse pem = Inl e" by (cases "parse pem") auto
  then show ?thesis by (simp add: ValidateCertificates_def assms(2))
qed

lemma pem_certificate_rejected_witness:
  "\<exists>e. ValidateCertificates sample_files (\<lambda>d. if HasPrefix d [CHR 0x30] then Inr 5 else Inl (Errorf ''malformed'')) 1
     sample_controller = Some (Wrapped ''failed to parse certificate'' e)"
proof -
  have "parses_der (\<lambda>d. if HasPrefix d [CHR 0x30] then Inr 5 else Inl (Errorf ''malformed''))"
    by (simp add: parses_der_def)
  from pem_certificate_rejected [OF this, of sample_files sample_controller "''-----BEGIN CERTIFICATE-----''" 1]
  show ?thesis by (simp add: sample_files_def HasPrefix_def)
qed

end
