(* ===== verification/Metrics_Collection.thy ===== *)
theory Metrics_Collection
  imports Deployment_Controller StatefulSet_Controller Mutate
begin

text \<open>
  \<^verbatim>\<open>pkg/metrics/collector.go\<close> and \<^verbatim>\<open>internal/server/metrics.go\<close>:
  the metrics, what the collector records in them, and the server that offers them.

  A vector of the Prometheus library is the map from its label values to the current value; a
  series that was never touched is absent. Counters and gauges only take whole numbers here.
  The vectors are global variables of the source, so they are part of the state of every
  operation. A registry is an abstract state with the library's two operations.
\<close>

section \<open>The vectors\<close>

type_synonym metric_vec = "string list \<Rightarrow> int option"

record metric_vecs =
  mv_workloadReplicas :: metric_vec
  mv_reconciliationTotal :: metric_vec
  mv_reconciliationErrors :: metric_vec
  mv_pdbBlocksTotal :: metric_vec
  mv_webhookRequests :: metric_vec
  mv_webhookMutations :: metric_vec
  mv_controllerLastSeen :: metric_vec
  mv_leaderElectionStatus :: metric_vec

definition no_metrics :: metric_vecs where
  "no_metrics = \<lparr>mv_workloadReplicas = Map.empty, mv_reconciliationTotal = Map.empty, mv_reconciliationErrors = Map.empty,
     mv_pdbBlocksTotal = Map.empty, mv_webhookRequests = Map.empty, mv_webhookMutations = Map.empty,
     mv_controllerLastSeen = Map.empty, mv_leaderElectionStatus = Map.empty\<rparr>"

text \<open>\<^verbatim>\<open>WithLabelValues\<close> makes the series when it is new, at zero.\<close>

definition series_value :: "metric_vec \<Rightarrow> string list \<Rightarrow> int" where
  "series_value m k = (case m k of None \<Rightarrow> 0 | Some v \<Rightarrow> v)"

definition add_series :: "string list \<Rightarrow> int \<Rightarrow> metric_vec \<Rightarrow> metric_vec" where
  "add_series k n m = m(k \<mapsto> series_value m k + n)"

definition set_series :: "string list \<Rightarrow> int \<Rightarrow> metric_vec \<Rightarrow> metric_vec" where
  "set_series k n m = m(k \<mapsto> n)"

section \<open>The collector\<close>

record Collector =
  col_nodeClassifier :: bool
  col_lastUpdate :: time
  col_managedWorkloadsCount :: int

type_synonym metrics_state = "Collector \<times> metric_vecs"

definition initializeMetrics :: "metric_vecs \<Rightarrow> metric_vecs" where
  "initializeMetrics m =
     m\<lparr>mv_reconciliationTotal := add_series [[], [], [], [], ''success''] 0 (mv_reconciliationTotal m),
       mv_reconciliationErrors := add_series [[], [], [], []] 0 (mv_reconciliationErrors m),
       mv_webhookRequests := add_series [[], [], []] 0 (mv_webhookRequests m),
       mv_webhookMutations := add_series [[], []] 0 (mv_webhookMutations m),
       mv_workloadReplicas := set_series [[], [], [], ''on-demand''] 0
          (set_series [[], [], [], ''spot''] 0 (mv_workloadReplicas m)),
       mv_controllerLastSeen := set_series [[]] 0 (mv_controllerLastSeen m),
       mv_leaderElectionStatus := set_series [[]] 0 (mv_leaderElectionStatus m)\<rparr>"

definition NewCollector :: "time \<Rightarrow> metric_vecs \<Rightarrow> metrics_state" where
  "NewCollector now m =
     (\<lparr>col_nodeClassifier = False, col_lastUpdate = now, col_managedWorkloadsCount = 0\<rparr>, initializeMetrics m)"

definition col_SetNodeClassifier :: "bool \<Rightarrow> metrics_state \<Rightarrow> metrics_state" where
  "col_SetNodeClassifier classifier = (\<lambda>(c, m). (c\<lparr>col_nodeClassifier := classifier\<rparr>, m))"

definition RecordWorkloadMetrics ::
  "string \<Rightarrow> string \<Rightarrow> string \<Rightarrow> ReplicaState option \<Rightarrow> metrics_state \<Rightarrow> metrics_state" where
  "RecordWorkloadMetrics namespace workloadName workloadType replicaState = (\<lambda>(c, m).
     (c\<lparr>col_managedWorkloadsCount := i64 (col_managedWorkloadsCount c + 1)\<rparr>,
      case replicaState of
        None \<Rightarrow> m
      | Some st \<Rightarrow>
          m\<lparr>mv_workloadReplicas :=
              set_series [namespace, workloadName, workloadType, ''on-demand''] (rs_CurrentOnDemand st)
                (set_series [namespace, workloadName, workloadType, ''spot''] (rs_CurrentSpot st)
                   (mv_workloadReplicas m))\<rparr>))"

definition RecordReconciliation ::
  "string \<Rightarrow> string \<Rightarrow> string \<Rightarrow> string \<Rightarrow> bool \<Rightarrow> metrics_state \<Rightarrow> metrics_state" where
  "RecordReconciliation namespace workloadName workloadType action failed = (\<lambda>(c, m).
     (let result = (if failed then ''error'' else ''success'');
          m = (if failed
               then m\<lparr>mv_reconciliationErrors :=
                        add_series [namespace, workloadName, workloadType, ''reconciliation''] 1 (mv_reconciliationErrors m)\<rparr>
               else m)
      in (c, m\<lparr>mv_reconciliationTotal :=
                  add_series [namespace, workloadName, workloadType, action, result] 1 (mv_reconciliationTotal m)\<rparr>)))"

definition RecordWebhookRequest :: "string \<Rightarrow> string \<Rightarrow> string \<Rightarrow> metrics_state \<Rightarrow> metrics_state" where
  "RecordWebhookRequest operation resourceKind result = (\<lambda>(c, m).
     (c, m\<lparr>mv_webhookRequests := add_series [operation, resourceKind, result] 1 (mv_webhookRequests m)\<rparr>))"

definition RecordWebhookMutation :: "string \<Rightarrow> string \<Rightarrow> metrics_state \<Rightarrow> metrics_state" where
  "RecordWebhookMutation resourceKind mutationType = (\<lambda>(c, m).
     (c, m\<lparr>mv_webhookMutations := add_series [resourceKind, mutationType] 1 (mv_webhookMutations m)\<rparr>))"

definition RecordPDBBlock :: "string \<Rightarrow> string \<Rightarrow> string \<Rightarrow> string \<Rightarrow> metrics_state \<Rightarrow> metrics_state" where
  "RecordPDBBlock namespace workload workloadType pdbName = (\<lambda>(c, m).
     (c, m\<lparr>mv_pdbBlocksTotal := add_series [namespace, workload, workloadType, pdbName] 1 (mv_pdbBlocksTotal m)\<rparr>))"

definition UpdateControllerHealth :: "time \<Rightarrow> string \<Rightarrow> bool \<Rightarrow> metrics_state \<Rightarrow> metrics_state" where
  "UpdateControllerHealth now controllerName isLeader = (\<lambda>(c, m).
     (c, m\<lparr>mv_controllerLastSeen := set_series [controllerName] now (mv_controllerLastSeen m),
            mv_leaderElectionStatus := set_series [controllerName] (if isLeader then 1 else 0) (mv_leaderElectionStatus m)\<rparr>))"

record metrics_snapshot =
  ms_LastUpdate :: time
  ms_Timestamp :: time
  ms_ManagedWorkloads :: int

definition GetMetricsSnapshot :: "time \<Rightarrow> metrics_state \<Rightarrow> metrics_snapshot" where
  "GetMetricsSnapshot now = (\<lambda>(c, m).
     \<lparr>ms_LastUpdate = col_lastUpdate c, ms_Timestamp = now, ms_ManagedWorkloads = col_managedWorkloadsCount c\<rparr>)"

definition ResetMetrics :: "metrics_state \<Rightarrow> metrics_state" where
  "ResetMetrics = (\<lambda>(c, m).
     (c\<lparr>col_managedWorkloadsCount := 0\<rparr>,
      m\<lparr>mv_workloadReplicas := Map.empty, mv_reconciliationTotal := Map.empty, mv_reconciliationErrors := Map.empty,
        mv_webhookRequests := Map.empty, mv_webhookMutations := Map.empty, mv_controllerLastSeen := Map.empty,
        mv_leaderElectionStatus := Map.empty\<rparr>))"

text \<open>The names of the vectors in the order of their registration; errors are ignored.\<close>

definition RegisterMetrics :: "('r \<Rightarrow> string \<Rightarrow> go_error option \<times> 'r) \<Rightarrow> 'r \<Rightarrow> 'r" where
  "RegisterMetrics register r =
     fold (\<lambda>v r. snd (register r v))
       [''spotalis_workload_replicas'', ''spotalis_reconciliations_total'', ''spotalis_reconciliation_errors_total'',
        ''spotalis_rebalancing_blocked_by_pdb_total'', ''spotalis_webhook_requests_total'',
        ''spotalis_webhook_mutations_total'', ''spotalis_controller_last_seen_timestamp'',
        ''spotalis_leader_election_status''] r"

section \<open>What the controllers and the webhook record\<close>

text \<open>
  The deployment controller passes a fresh replica state with nothing but the desired size
  set; a reconciliation without an error passes nil.
\<close>

definition recorded_state :: "int \<Rightarrow> ReplicaState" where
  "recorded_state replicas =
     \<lparr>rs_WorkloadRef = \<lparr>ref_APIVersion = [], ref_Kind = [], ref_Namespace = [], ref_Name = [], ref_UID = []\<rparr>, rs_TotalReplicas = replicas,
      rs_CurrentOnDemand = 0, rs_CurrentSpot = 0, rs_DesiredOnDemand = 0, rs_DesiredSpot = 0, rs_LastReconciled = 0,
      rs_PendingOnDemand = 0, rs_PendingSpot = 0, rs_FailedSpot = 0\<rparr>"

fun record_effect :: "effect \<Rightarrow> metrics_state \<Rightarrow> metrics_state" where
  "record_effect (WorkloadMetrics ns name ty replicas) s = RecordWorkloadMetrics ns name ty (Some (recorded_state replicas)) s"
| "record_effect (ReconciliationMetric ns name ty action err) s = RecordReconciliation ns name ty action (err \<noteq> None) s"
| "record_effect (PDBBlockMetric ns name ty pdb) s = RecordPDBBlock ns name ty pdb s"
| "record_effect (EvictionRequest p) s = s"
| "record_effect (StatefulSetUpdate u) s = s"

fun record_webhook :: "webhook_metric \<Rightarrow> metrics_state \<Rightarrow> metrics_state" where
  "record_webhook (WebhookRequest operation kind result) s = RecordWebhookRequest operation kind result s"
| "record_webhook (WebhookMutation kind ty) s = RecordWebhookMutation kind ty s"

text \<open>The events that one series counts.\<close>

definition reconciliations_of :: "string list \<Rightarrow> effect list \<Rightarrow> nat" where
  "reconciliations_of k es = length (List.filter (\<lambda>x. case x of
     ReconciliationMetric ns name ty action err \<Rightarrow> [ns, name, ty, action, if err \<noteq> None then ''error'' else ''success''] = k
   | _ \<Rightarrow> False) es)"

definition failures_of :: "string list \<Rightarrow> effect list \<Rightarrow> nat" where
  "failures_of k es = length (List.filter (\<lambda>x. case x of
     ReconciliationMetric ns name ty action err \<Rightarrow> err \<noteq> None \<and> [ns, name, ty, ''reconciliation''] = k
   | _ \<Rightarrow> False) es)"

definition blocks_of :: "string list \<Rightarrow> effect list \<Rightarrow> nat" where
  "blocks_of k es = length (List.filter (\<lambda>x. case x of
     PDBBlockMetric ns name ty pdb \<Rightarrow> [ns, name, ty, pdb] = k | _ \<Rightarrow> False) es)"

definition passes_of :: "effect list \<Rightarrow> nat" where
  "passes_of es = length (List.filter (\<lambda>x. case x of WorkloadMetrics _ _ _ _ \<Rightarrow> True | _ \<Rightarrow> False) es)"

lemma add_series_value [simp]: "series_value (add_series k' n m) k = series_value m k + (if k = k' then n else 0)"
  by (simp add: series_value_def add_series_def)

lemma record_effect_counts:
  "series_value (mv_reconciliationTotal (snd (record_effect x s))) k =
     series_value (mv_reconciliationTotal (snd s)) k + int (reconciliations_of k [x])"
  "series_value (mv_reconciliationErrors (snd (record_effect x s))) k =
     series_value (mv_reconciliationErrors (snd s)) k + int (failures_of k [x])"
  "series_value (mv_pdbBlocksTotal (snd (record_effect x s))) k =
     series_value (mv_pdbBlocksTotal (snd s)) k + int (blocks_of k [x])"
  "col_managedWorkloadsCount (fst (record_effect x s)) =
     (if passes_of [x] = 0 then col_managedWorkloadsCount (fst s) else i64 (col_managedWorkloadsCount (fst s) + 1))"
  by (cases x; cases s; simp add: RecordWorkloadMetrics_def RecordReconciliation_def RecordPDBBlock_def Let_def
      reconciliations_of_def failures_of_def blocks_of_def passes_of_def)+

lemma event_counts_Cons:
  "reconciliations_of k (x # es) = reconciliations_of k [x] + reconciliations_of k es"
  "failures_of k (x # es) = failures_of k [x] + failures_of k es"
  "blocks_of k (x # es) = blocks_of k [x] + blocks_of k es"
  "passes_of (x # es) = passes_of [x] + passes_of es"
  by (simp_all add: reconciliations_of_def failures_of_def blocks_of_def passes_of_def del: not_None_eq)

text \<open>
  C35: The counters are exact: after any run of the controllers each series has grown by the number
  of events it stands for, failed reconciliations and refusals by a budget included.
\<close>

theorem counters_exact:
  "series_value (mv_reconciliationTotal (snd (fold record_effect es s))) k =
     series_value (mv_reconciliationTotal (snd s)) k + int (reconciliations_of k es) \<and>
   series_value (mv_reconciliationErrors (snd (fold record_effect es s))) k' =
     series_value (mv_reconciliationErrors (snd s)) k' + int (failures_of k' es) \<and>
   series_value (mv_pdbBlocksTotal (snd (fold record_effect es s))) k' =
     series_value (mv_pdbBlocksTotal (snd s)) k' + int (blocks_of k' es)"
proof (induction es arbitrary: s)
  case Nil
  show ?case by (simp add: reconciliations_of_def failures_of_def blocks_of_def)
next
  case (Cons x es)
  show ?case
    unfolding fold_Cons comp_def by (simp add: Cons.IH record_effect_counts event_counts_Cons(1-3) [of _ x es])
qed

lemma record_effect_gauges:
  "ran (mv_workloadReplicas (snd s)) \<subseteq> {0} \<Longrightarrow> ran (mv_workloadReplicas (snd (record_effect x s))) \<subseteq> {0}"
  by (cases x; cases s)
    (auto simp: RecordWorkloadMetrics_def RecordReconciliation_def RecordPDBBlock_def Let_def set_series_def
      recorded_state_def ran_def)

lemma initial_gauges: "ran (mv_workloadReplicas (snd (NewCollector now no_metrics))) \<subseteq> {0}"
  by (auto simp: NewCollector_def initializeMetrics_def no_metrics_def set_series_def ran_def)

text \<open>
  The gauge of the replicas, which is documented to show the observed counts, is zero for
  every workload at all times: only the deployment controller records it, and before it has
  counted any pod.
\<close>

theorem replica_gauges_stay_zero:
  "ran (mv_workloadReplicas (snd (fold record_effect es (NewCollector now no_metrics)))) \<subseteq> {0}"
proof -
  have "ran (mv_workloadReplicas (snd s)) \<subseteq> {0} \<Longrightarrow>
    ran (mv_workloadReplicas (snd (fold record_effect es s))) \<subseteq> {0}" for s
    by (induction es arbitrary: s) (simp_all add: record_effect_gauges)
  then show ?thesis using initial_gauges by blast
qed

text \<open>The number of managed workloads is the number of passes over workloads since the start.\<close>

theorem managed_workloads_counts_passes:
  assumes "passes_of es < 9223372036854775808"
  shows "ms_ManagedWorkloads (GetMetricsSnapshot now (fold record_effect es (NewCollector t m))) = int (passes_of es)"
proof -
  have "col_managedWorkloadsCount (fst (fold record_effect es s)) = col_managedWorkloadsCount (fst s) + int (passes_of es)"
    if "0 \<le> col_managedWorkloadsCount (fst s)"
      "col_managedWorkloadsCount (fst s) + int (passes_of es) < 9223372036854775808" for s
    using that
  proof (induction es arbitrary: s)
    case (Cons x es)
    have le: "passes_of [x] \<le> 1" by (simp add: passes_of_def)
    have sum: "passes_of (x # es) = passes_of [x] + passes_of es" by (rule event_counts_Cons)
    have step: "col_managedWorkloadsCount (fst (record_effect x s)) =
        col_managedWorkloadsCount (fst s) + int (passes_of [x])"
    proof (cases "passes_of [x] = 0")
      case False
      then have one: "passes_of [x] = 1" using le by linarith
      then have "in_i64 (col_managedWorkloadsCount (fst s) + 1)"
        using Cons.prems sum unfolding in_i64_def by linarith
      then show ?thesis by (simp add: record_effect_counts one i64_id)
    qed (simp add: record_effect_counts)
    show ?case
      unfolding fold_Cons comp_def using Cons.IH [of "record_effect x s"] Cons.prems step sum by simp
  qed (simp add: passes_of_def)
  from this [of "NewCollector t m"] assms show ?thesis
    by (simp add: GetMetricsSnapshot_def NewCollector_def split_def)
qed

text \<open>One deployment, reconciled twice, counts as two.\<close>

definition two_passes :: "effect list" where
  "two_passes = concat (snd (run_controller dep_Reconcile sample_request
     [sample_env (9 * Minute), sample_env (9 * Minute + 5 * Second)] sample_reconciler))"

lemma managed_workloads_counts_passes_witness:
  "ms_ManagedWorkloads (GetMetricsSnapshot 9 (fold record_effect two_passes (NewCollector 0 no_metrics))) = 2"
proof -
  have two: "passes_of two_passes = 2" by code_simp
  from managed_workloads_counts_passes [of two_passes 9 0 no_metrics] show ?thesis by (simp add: two)
qed

text \<open>Resetting the metrics forgets the refusals by budgets.\<close>

lemma reset_keeps_pdb_blocks: "mv_pdbBlocksTotal (snd (ResetMetrics s)) = mv_pdbBlocksTotal (snd s)"
  by (simp add: ResetMetrics_def split_def)

section \<open>The metrics server\<close>

text \<open>
  \<open>reg\<close> is the registry: registering a metric in it may fail, removing one says whether it was
  there. The metrics themselves are opaque.
\<close>

record ('r, 'm) registry_api =
  ra_Register :: "'r \<Rightarrow> 'm \<Rightarrow> go_error option \<times> 'r"
  ra_Unregister :: "'r \<Rightarrow> 'm \<Rightarrow> bool \<times> 'r"

record ('r, 'm) MetricsServer =
  msv_registry :: 'r
  msv_collectionError :: string
  msv_customMetrics :: "string \<Rightarrow> 'm option"
  msv_lastCollection :: time
  msv_collectionLatency :: duration

definition NewMetricsServer ::
  "('r \<Rightarrow> string \<Rightarrow> go_error option \<times> 'r) \<Rightarrow> 'r \<Rightarrow> bool \<Rightarrow> ('r, 'm) MetricsServer" where
  "NewMetricsServer register fresh collector =
     \<lparr>msv_registry = (if collector then RegisterMetrics register fresh else fresh), msv_collectionError = [],
      msv_customMetrics = Map.empty, msv_lastCollection = 0, msv_collectionLatency = 0\<rparr>"

text \<open>Serving the metrics is the library's; the handler records when it was and how long it took.\<close>

definition MetricsHandler :: "(nat \<Rightarrow> time) \<Rightarrow> ('r, 'm) MetricsServer \<Rightarrow> ('r, 'm) MetricsServer" where
  "MetricsHandler clk m =
     m\<lparr>msv_lastCollection := clk 1, msv_collectionLatency := time_sub (clk 2) (clk 0)\<rparr>"

record health_response =
  hr_Code :: int
  hr_Status :: string
  hr_LastCollection :: time
  hr_LatencyMs :: int
  hr_Error :: string
  hr_Warning :: "string option"

definition HealthMetricsHandler :: "time \<Rightarrow> ('r, 'm) MetricsServer \<Rightarrow> health_response" where
  "HealthMetricsHandler now m =
     (let h = \<lparr>hr_Code = 200, hr_Status = ''healthy'', hr_LastCollection = msv_lastCollection m,
               hr_LatencyMs = go_div (msv_collectionLatency m) 1000000, hr_Error = msv_collectionError m,
               hr_Warning = None\<rparr>;
          h = (if msv_collectionError m \<noteq> [] then h\<lparr>hr_Code := 503, hr_Status := ''degraded''\<rparr> else h)
      in if \<not> IsZero (msv_lastCollection m) \<and> time_sub now (msv_lastCollection m) > 5 * Minute
         then h\<lparr>hr_Code := 503, hr_Status := ''stale'', hr_Warning := Some ''metrics collection is stale''\<rparr>
         else h)"

definition SetCollectionError :: "string \<Rightarrow> ('r, 'm) MetricsServer \<Rightarrow> ('r, 'm) MetricsServer" where
  "SetCollectionError err m = m\<lparr>msv_collectionError := err\<rparr>"

definition ClearCollectionError :: "('r, 'm) MetricsServer \<Rightarrow> ('r, 'm) MetricsServer" where
  "ClearCollectionError m = m\<lparr>msv_collectionError := []\<rparr>"

datatype metric_error = AlreadyRegistered string | RegisterFailed string go_error | NotFound string | UnregisterFailed string

definition RegisterCustomMetric ::
  "('r, 'm) registry_api \<Rightarrow> string \<Rightarrow> 'm \<Rightarrow> ('r, 'm) MetricsServer \<Rightarrow> metric_error option \<times> ('r, 'm) MetricsServer" where
  "RegisterCustomMetric reg name metric m =
     (if msv_customMetrics m name \<noteq> None then (Some (AlreadyRegistered name), m)
      else case ra_Register reg (msv_registry m) metric of
             (Some e, r) \<Rightarrow> (Some (RegisterFailed name e), m\<lparr>msv_registry := r\<rparr>)
           | (None, r) \<Rightarrow>
               (None, m\<lparr>msv_registry := r, msv_customMetrics := (msv_customMetrics m)(name \<mapsto> metric)\<rparr>))"

definition UnregisterCustomMetric ::
  "('r, 'm) registry_api \<Rightarrow> string \<Rightarrow> ('r, 'm) MetricsServer \<Rightarrow> metric_error option \<times> ('r, 'm) MetricsServer" where
  "UnregisterCustomMetric reg name m =
     (case msv_customMetrics m name of
        None \<Rightarrow> (Some (NotFound name), m)
      | Some metric \<Rightarrow>
          (case ra_Unregister reg (msv_registry m) metric of
             (False, r) \<Rightarrow> (Some (UnregisterFailed name), m\<lparr>msv_registry := r\<rparr>)
           | (True, r) \<Rightarrow> (None, m\<lparr>msv_registry := r, msv_customMetrics := (msv_customMetrics m)(name := None)\<rparr>)))"

definition GetCollectionStatus :: "('r, 'm) MetricsServer \<Rightarrow> string \<times> time \<times> duration" where
  "GetCollectionStatus m = (msv_collectionError m, msv_lastCollection m, msv_collectionLatency m)"

text \<open>The names come in any order; they are a set.\<close>

definition GetRegisteredMetrics :: "('r, 'm) MetricsServer \<Rightarrow> string set" where
  "GetRegisteredMetrics m = dom (msv_customMetrics m)"

text \<open>The registry as the library documents it: a metric can be removed once after it was added.\<close>

definition registry_law :: "('r, 'm) registry_api \<Rightarrow> bool" where
  "registry_law reg \<longleftrightarrow> (\<forall>r x r'. ra_Register reg r x = (None, r') \<longrightarrow> ra_Unregister reg r' x = (True, r))"

text \<open>
  Registering and unregistering a custom metric is a round trip: the server is back in its
  old state, a second registration under the name is refused in between.
\<close>

theorem custom_metric_roundtrip:
  assumes law: "registry_law reg" and reg: "RegisterCustomMetric reg name metric m = (None, m')"
  shows "UnregisterCustomMetric reg name m' = (None, m) \<and>
    RegisterCustomMetric reg name metric' m' = (Some (AlreadyRegistered name), m') \<and>
    GetRegisteredMetrics m' = insert name (GetRegisteredMetrics m)"
proof -
  from reg obtain r where r: "msv_customMetrics m name = None" "ra_Register reg (msv_registry m) metric = (None, r)"
    "m' = m\<lparr>msv_registry := r, msv_customMetrics := (msv_customMetrics m)(name \<mapsto> metric)\<rparr>"
    by (auto simp: RegisterCustomMetric_def split: if_splits prod.splits option.splits)
  from law r(2) have "ra_Unregister reg r metric = (True, msv_registry m)" by (simp add: registry_law_def)
  moreover have "(msv_customMetrics m)(name := None) = msv_customMetrics m" using r(1) by auto
  ultimately show ?thesis
    by (simp add: UnregisterCustomMetric_def RegisterCustomMetric_def GetRegisteredMetrics_def r(3))
qed

definition list_registry :: "(string list, string) registry_api" where
  "list_registry = \<lparr>ra_Register = (\<lambda>r x. if x \<in> set r then (Some (Errorf ''duplicate''), r) else (None, x # r)),
     ra_Unregister = (\<lambda>r x. (x \<in> set r, remove1 x r))\<rparr>"

lemma custom_metric_roundtrip_witness:
  "\<exists>m'. RegisterCustomMetric list_registry ''q'' ''queue'' (NewMetricsServer (\<lambda>r v. (None, v # r)) [] True) = (None, m') \<and>
     UnregisterCustomMetric list_registry ''q'' m' = (None, NewMetricsServer (\<lambda>r v. (None, v # r)) [] True)"
proof -
  have law: "registry_law list_registry"
    by (auto simp: registry_law_def list_registry_def split: if_splits)
  have "\<exists>m'. RegisterCustomMetric list_registry ''q'' ''queue'' (NewMetricsServer (\<lambda>r v. (None, v # r)) [] True) = (None, m')"
    by (simp add: RegisterCustomMetric_def list_registry_def NewMetricsServer_def RegisterMetrics_def)
  then show ?thesis using custom_metric_roundtrip [OF law] by blast
qed

section \<open>Timers and wrappers\<close>

text \<open>A timer is its start; observing an operation with it records the operation, not the time.\<close>

record Timer =
  tm_start :: time

definition NewTimer :: "time \<Rightarrow> Timer" where
  "NewTimer now = \<lparr>tm_start = now\<rparr>"

definition Elapsed :: "time \<Rightarrow> Timer \<Rightarrow> duration" where
  "Elapsed now t = time_sub now (tm_start t)"

definition ObserveReconciliation ::
  "Timer \<Rightarrow> string \<Rightarrow> string \<Rightarrow> string \<Rightarrow> string \<Rightarrow> bool \<Rightarrow> metrics_state \<Rightarrow> metrics_state" where
  "ObserveReconciliation t namespace workloadName workloadType action failed =
     RecordReconciliation namespace workloadName workloadType action failed"

definition ObserveWebhook :: "Timer \<Rightarrow> string \<Rightarrow> string \<Rightarrow> string \<Rightarrow> metrics_state \<Rightarrow> metrics_state" where
  "ObserveWebhook t operation resourceKind result = RecordWebhookRequest operation resourceKind result"

text \<open>The helpers of the package act on its own collector, which shares the vectors with every other.\<close>

definition RecordWorkloadReconciliation ::
  "string \<Rightarrow> string \<Rightarrow> string \<Rightarrow> string \<Rightarrow> bool \<Rightarrow> Collector \<Rightarrow> metric_vecs \<Rightarrow> Collector \<times> metric_vecs" where
  "RecordWorkloadReconciliation namespace workloadName workloadType action failed globalCollector m =
     RecordReconciliation namespace workloadName workloadType action failed (globalCollector, m)"

definition RecordWebhookOperation ::
  "string \<Rightarrow> string \<Rightarrow> string \<Rightarrow> Collector \<Rightarrow> metric_vecs \<Rightarrow> Collector \<times> metric_vecs" where
  "RecordWebhookOperation operation resourceKind result globalCollector m =
     RecordWebhookRequest operation resourceKind result (globalCollector, m)"

definition RecordSpotUtilization ::
  "string \<Rightarrow> string \<Rightarrow> string \<Rightarrow> ReplicaState option \<Rightarrow> Collector \<Rightarrow> metric_vecs \<Rightarrow> Collector \<times> metric_vecs" where
  "RecordSpotUtilization namespace workloadName workloadType replicaState globalCollector m =
     RecordWorkloadMetrics namespace workloadName workloadType replicaState (globalCollector, m)"

text \<open>The compatibility wrapper: without a server the endpoint answers 503, and an error set is lost.\<close>

datatype metrics_answer = MetricsUnavailable | MetricsServed

definition mh_Metrics ::
  "(nat \<Rightarrow> time) \<Rightarrow> ('r, 'm) MetricsServer option \<Rightarrow> metrics_answer \<times> ('r, 'm) MetricsServer option" where
  "mh_Metrics clk server =
     (case server of None \<Rightarrow> (MetricsUnavailable, None) | Some s \<Rightarrow> (MetricsServed, Some (MetricsHandler clk s)))"

definition mh_SetCollectionError :: "string \<Rightarrow> ('r, 'm) MetricsServer option \<Rightarrow> ('r, 'm) MetricsServer option" where
  "mh_SetCollectionError err server = map_option (SetCollectionError err) server"

lemma mh_error_survives_scrape:
  "(case snd (mh_Metrics clk (mh_SetCollectionError err (Some s))) of
      Some s \<Rightarrow> msv_collectionError s = err | None \<Rightarrow> False)"
  by (simp add: mh_Metrics_def mh_SetCollectionError_def MetricsHandler_def SetCollectionError_def)

text \<open>Which collector records an operation makes no difference to the vectors.\<close>

lemma collectors_share_vectors:
  "snd (RecordWorkloadReconciliation ns n ty a failed c m) = snd (RecordReconciliation ns n ty a failed (c', m))"
  "snd (RecordWebhookOperation op k r c m) = snd (ObserveWebhook t op k r (c', m))"
  "snd (RecordSpotUtilization ns n ty st c m) = snd (RecordWorkloadMetrics ns n ty st (c', m))"
  by (simp_all add: RecordWorkloadReconciliation_def RecordReconciliation_def RecordWebhookOperation_def ObserveWebhook_def
      RecordWebhookRequest_def RecordSpotUtilization_def RecordWorkloadMetrics_def Let_def split: option.split)


end
