(* ===== verification/Eviction_Exactness.thy ===== *)
theory Eviction_Exactness
  imports Deployment_Controller StatefulSet_Controller
begin

text \<open>
  When exactly the two handlers evict, and which pod: the conditions of
  \<^verbatim>\<open>Reconcile\<close> (\<^verbatim>\<open>pkg/controllers/deployment_controller.go\<close>,
  \<^verbatim>\<open>statefulset_controller.go\<close>) are necessary and together sufficient. The
  theories of the handlers show that each of them is necessary; here a reconciliation in
  which all of them hold is followed to its eviction.
\<close>

text \<open>The cooldown as an inequality, and the verdict of the namespace filter.\<close>

definition cooled_down :: "env \<Rightarrow> string \<Rightarrow> reconciler \<Rightarrow> bool" where
  "cooled_down e key r =
     (case rc_lastDeletionTimes r key of
        None \<Rightarrow> True
      | Some NoTimeValue \<Rightarrow> False
      | Some (TimeValue t) \<Rightarrow> t + getCooldownPeriod r \<le> e_clk e 3)"

definition namespace_allowed :: "env \<Rightarrow> string \<Rightarrow> reconciler \<Rightarrow> bool" where
  "namespace_allowed e ns r =
     (case rc_NamespaceFilter r of
        None \<Rightarrow> True
      | Some nf \<Rightarrow> fr_Allowed (fst (IsNamespaceAllowed (Some (e_api e 1)) (e_clk e 1) (e_clk e 2) ns nf)))"

text \<open>The reconciler after the namespace filter was asked.\<close>

definition admitted :: "env \<Rightarrow> string \<Rightarrow> reconciler \<Rightarrow> reconciler" where
  "admitted e ns r = snd (namespace_gate e ns (r\<lparr>rc_reconcileCount := i64 (rc_reconcileCount r + 1)\<rparr>))"

lemma cooled_down_iff:
  "in_i64 (getCooldownPeriod r) \<Longrightarrow> cooldown_gate e key r = GatePass \<longleftrightarrow> cooled_down e key r"
  by (auto simp: cooldown_gate_pass_iff cooled_down_def cooldown_remaining_None_iff [OF _ getCooldownPeriod_positive]
      split: option.splits sync_value.splits)

lemma namespace_allowed_iff:
  "fst (namespace_gate e ns (r\<lparr>rc_reconcileCount := k\<rparr>)) \<longleftrightarrow> namespace_allowed e ns r"
  by (auto simp: namespace_gate_def namespace_allowed_def split: option.splits prod.splits)

lemma admitted_gate:
  "cooldown_gate e key (admitted e ns r) = cooldown_gate e key r"
  unfolding admitted_def by (rule cooldown_gate_cong) simp_all

section \<open>Deployments\<close>

lemma dep_execute_evicts:
  "budget_permits (e_selector e) (e_api e 5) p \<Longrightarrow>
    evictions (snd (snd (executeDeploymentRebalancing e (p # rest) key r))) = [p]"
  by (auto simp: executeDeploymentRebalancing_def budget_permits_def Let_def split: sum.splits prod.splits option.splits)

lemma dep_rebalance_evicts:
  assumes "dep_resolveDisruptionWindow e d r = Inr w" "w = None \<or> IsWithinWindow w (e_clk e 10)"
    and "categorizeDeploymentPods e d r = (Inr (spotPods, onDemandPods), r2)"
    and "dep_selectPodsForDeletion spotPods onDemandPods st = p # rest"
    and "budget_permits (e_selector e) (e_api e 5) p"
  shows "evictions (snd (snd (dep_rebalance e req d st r))) = [p]"
proof -
  obtain err r3 effs where ex: "executeDeploymentRebalancing e (p # rest) (request_String req) r2 = (err, r3, effs)"
    by (metis prod_cases3)
  then have "dep_performPodRebalancing e d st (request_String req) r = (err, r3, effs)"
    by (simp add: dep_performPodRebalancing_def assms(3,4))
  moreover have "evictions effs = [p]" using dep_execute_evicts [OF assms(5), of rest "request_String req" r2] ex by simp
  ultimately show ?thesis
    using assms(1,2) by (auto simp: dep_rebalance_def Let_def split: option.splits)
qed

lemma dep_eviction_complete:
  assumes "cl_GetDeployment (e_api e 0) (rq_Namespace req) (rq_Name req) = Inr d"
    and "IsSpotalisEnabled (wl_Object d)" "namespace_allowed e (wl_Namespace d) r"
    and "cooldown_gate e (request_String req) r = GatePass" "isDeploymentStableAndReady d"
    and "ParseWorkloadConfiguration (wl_Object d) = Inr config"
    and "dep_calculateCurrentReplicaState e d (admitted e (wl_Namespace d) r) = (Inr st, r1)"
    and "dep_needsRebalancing (dep_target d config st)"
    and "dep_resolveDisruptionWindow e d r1 = Inr w" "w = None \<or> IsWithinWindow w (e_clk e 10)"
    and "categorizeDeploymentPods e d r1 = (Inr (spotPods, onDemandPods), r2)"
    and "dep_selectPodsForDeletion spotPods onDemandPods (dep_target d config st) = p # rest"
    and "budget_permits (e_selector e) (e_api e 5) p"
  shows "evictions (snd (snd (dep_Reconcile e req r))) = [p]"
proof -
  let ?r = "admitted e (wl_Namespace d) r"
  have gate: "namespace_gate e (wl_Namespace d) (r\<lparr>rc_reconcileCount := i64 (rc_reconcileCount r + 1)\<rparr>) = (True, ?r)"
    unfolding admitted_def using assms(3) namespace_allowed_iff by (intro prod_eqI) simp_all
  have "dep_process e req d ?r = dep_rebalance e req d (dep_target d config st) r1"
    using assms(8) unfolding dep_process_def dep_target_def Let_def by (simp only: assms(5-7) sum.case prod.case) simp
  with dep_rebalance_evicts [OF assms(9-13)] obtain res r' effs
    where "dep_process e req d ?r = (res, r', effs)" "evictions effs = [p]" by (metis prod.collapse)
  moreover have "cooldown_gate e (request_String req) ?r = GatePass" using assms(4) by (simp add: admitted_gate)
  ultimately show ?thesis
    by (simp add: dep_Reconcile_def Let_def assms(1,2) gate)
qed

section \<open>StatefulSets\<close>

lemma sts_execute_evicts:
  "pods \<noteq> [] \<Longrightarrow> budget_permits (e_selector e) (e_api e 5) (gradual_choice e s pods) \<Longrightarrow>
    evictions (snd (snd (executeGradualRebalancing e s st key pods r))) = [gradual_choice e s pods]"
  by (auto simp: executeGradualRebalancing_def gradual_choice_def budget_permits_def updateStatefulSetForRebalancing_def
      Let_def split: sum.splits prod.splits option.splits)

lemma sts_rebalance_evicts:
  assumes "sts_resolveDisruptionWindow e s r = Inr w" "w = None \<or> IsWithinWindow w (e_clk e 10)"
    and "categorizePodsByNodeType e s r = (Inr (spotPods, onDemandPods), r2)"
    and "sts_selectPodsForDeletion spotPods onDemandPods st = pods" "pods \<noteq> []"
    and "budget_permits (e_selector e) (e_api e 5) (gradual_choice e s pods)"
  shows "evictions (snd (snd (sts_rebalance e req s st r))) = [gradual_choice e s pods]"
proof -
  obtain err r3 effs where ex: "executeGradualRebalancing e s st (request_String req) pods r2 = (err, r3, effs)"
    by (metis prod_cases3)
  then have "sts_performPodRebalancing e s st (request_String req) r = (err, r3, effs)"
    by (simp add: sts_performPodRebalancing_def assms(3,4))
  moreover have "evictions effs = [gradual_choice e s pods]"
    using sts_execute_evicts [OF assms(5,6), of st "request_String req" r2] ex by simp
  ultimately show ?thesis
    using assms(1,2) by (auto simp: sts_rebalance_def Let_def split: option.splits)
qed

lemma sts_eviction_complete:
  assumes "cl_GetStatefulSet (e_api e 0) (rq_Namespace req) (rq_Name req) = Inr s"
    and "IsSpotalisEnabled (wl_Object s)" "namespace_allowed e (wl_Namespace s) r"
    and "cooldown_gate e (request_String req) r = GatePass" "isStatefulSetStableAndReady s"
    and "ParseWorkloadConfiguration (wl_Object s) = Inr config"
    and "sts_calculateCurrentReplicaState e s (admitted e (wl_Namespace s) r) = (Inr st, r1)"
    and "sts_needsRebalancing (sts_target s config st)"
    and "sts_resolveDisruptionWindow e s r1 = Inr w" "w = None \<or> IsWithinWindow w (e_clk e 10)"
    and "categorizePodsByNodeType e s r1 = (Inr (spotPods, onDemandPods), r2)"
    and "sts_selectPodsForDeletion spotPods onDemandPods (sts_target s config st) = pods" "pods \<noteq> []"
    and "budget_permits (e_selector e) (e_api e 5) (gradual_choice e s pods)"
  shows "evictions (snd (snd (sts_Reconcile e req r))) = [gradual_choice e s pods]"
proof -
  let ?r = "admitted e (wl_Namespace s) r"
  have gate: "namespace_gate e (wl_Namespace s) (r\<lparr>rc_reconcileCount := i64 (rc_reconcileCount r + 1)\<rparr>) = (True, ?r)"
    unfolding admitted_def using assms(3) namespace_allowed_iff by (intro prod_eqI) simp_all
  have "sts_process e req s ?r = sts_rebalance e req s (sts_target s config st) r1"
    using assms(8) unfolding sts_process_def sts_target_def Let_def by (simp only: assms(5-7) sum.case prod.case) simp
  with sts_rebalance_evicts [OF assms(9-14)]
  have "evictions (snd (snd (sts_process e req s ?r))) = [gradual_choice e s pods]" by simp
  moreover have "cooldown_gate e (request_String req) ?r = GatePass" using assms(4) by (simp add: admitted_gate)
  ultimately show ?thesis
    by (simp add: sts_Reconcile_def Let_def assms(1,2) gate)
qed

section \<open>Properties\<close>

text \<open>C3: A reconciliation of a Deployment requests the eviction of a pod exactly when the Deployment
  carries the enabling label, its namespace is allowed, the cooldown of the last deletion is
  over, all its replicas are ready, updated and available, its annotations parse, the
  observed counts differ from the target, the resolved disruption window (if any) is open,
  the pod is the first one of the selection, and the budget check does not forbid it; and it
  never requests a second one.\<close>

theorem deployment_evicts_exactly:
  assumes "dep_Reconcile e req r = (res, r', effs)" and "in_i64 (getCooldownPeriod r)"
  shows "length (evictions effs) \<le> 1 \<and> (evictions effs = [p] \<longleftrightarrow>
    (\<exists>d config st r1 w spotPods onDemandPods r2 rest.
      cl_GetDeployment (e_api e 0) (rq_Namespace req) (rq_Name req) = Inr d \<and>
      IsSpotalisEnabled (wl_Object d) \<and> namespace_allowed e (wl_Namespace d) r \<and>
      cooled_down e (request_String req) r \<and> isDeploymentStableAndReady d \<and>
      ParseWorkloadConfiguration (wl_Object d) = Inr config \<and>
      dep_calculateCurrentReplicaState e d (admitted e (wl_Namespace d) r) = (Inr st, r1) \<and>
      dep_needsRebalancing (dep_target d config st) \<and>
      dep_resolveDisruptionWindow e d r1 = Inr w \<and> (w = None \<or> IsWithinWindow w (e_clk e 10)) \<and>
      categorizeDeploymentPods e d r1 = (Inr (spotPods, onDemandPods), r2) \<and>
      dep_selectPodsForDeletion spotPods onDemandPods (dep_target d config st) = p # rest \<and>
      budget_permits (e_selector e) (e_api e 5) p))"
    (is "_ \<and> (_ \<longleftrightarrow> ?guards)")
proof (intro conjI iffI)
  show "length (evictions effs) \<le> 1" by (rule deployment.at_most_one [OF assms(1)])
next
  assume ev: "evictions effs = [p]"
  then have "evictions effs \<noteq> []" by simp
  with assms(1) show ?guards
  proof (rule dep_evictionE, goal_cases)
    case (1 d r0 config st r1 w spotPods onDemandPods r2 p' rest)
    have "p' = p" using 1(15) ev by simp
    moreover have "namespace_allowed e (wl_Namespace d) r" using 1(3,4) namespace_allowed_iff by blast
    moreover have "cooled_down e (request_String req) r" using 1(5) cooled_down_iff [OF assms(2)] by blast
    moreover have "dep_calculateCurrentReplicaState e d (admitted e (wl_Namespace d) r) = (Inr st, r1)"
      using 1(3,8) by (simp add: admitted_def)
    ultimately show ?case using 1 by blast
  qed
next
  assume ?guards
  then have "evictions (snd (snd (dep_Reconcile e req r))) = [p]"
    using cooled_down_iff [OF assms(2)] by (elim exE conjE) (rule dep_eviction_complete; blast)
  with assms(1) show "evictions effs = [p]" by simp
qed

theorem deployment_evicts_exactly_witness:
  "\<exists>p d config. evictions (snd (snd (dep_Reconcile (sample_env (9 * Minute)) sample_request sample_reconciler))) = [p] \<and>
    ParseWorkloadConfiguration (wl_Object d) = Inr config \<and> isDeploymentStableAndReady d \<and>
    budget_permits match_labels sample_api p"
proof -
  obtain res r' effs where run: "dep_Reconcile (sample_env (9 * Minute)) sample_request sample_reconciler = (res, r', effs)"
    by (metis prod_cases3)
  then have "length (evictions effs) = 1"
    using sample_dep_run(1) by (metis length_map length_Cons list.size(3) snd_conv One_nat_def)
  then obtain p where p: "evictions effs = [p]" by (cases "evictions effs") auto
  have "in_i64 (getCooldownPeriod sample_reconciler)" by (simp add: sample_cooldown in_i64_def)
  from deployment_evicts_exactly [OF run this, of p] p obtain d config where
      "ParseWorkloadConfiguration (wl_Object d) = Inr config" "isDeploymentStableAndReady d"
      "budget_permits (e_selector (sample_env (9 * Minute))) (e_api (sample_env (9 * Minute)) 5) p"
    by blast
  with p run show ?thesis by (auto simp: sample_env_def)
qed

text \<open>A StatefulSet's pod is evicted exactly when the same conditions hold of the StatefulSet
  and the pod is the one of the highest ordinal in the selection.\<close>

theorem statefulset_evicts_exactly:
  assumes "sts_Reconcile e req r = (res, r', effs)" and "in_i64 (getCooldownPeriod r)"
  shows "evictions effs = [p] \<longleftrightarrow>
    (\<exists>s config st r1 w spotPods onDemandPods r2.
      cl_GetStatefulSet (e_api e 0) (rq_Namespace req) (rq_Name req) = Inr s \<and>
      IsSpotalisEnabled (wl_Object s) \<and> namespace_allowed e (wl_Namespace s) r \<and>
      cooled_down e (request_String req) r \<and> isStatefulSetStableAndReady s \<and>
      ParseWorkloadConfiguration (wl_Object s) = Inr config \<and>
      sts_calculateCurrentReplicaState e s (admitted e (wl_Namespace s) r) = (Inr st, r1) \<and>
      sts_needsRebalancing (sts_target s config st) \<and>
      sts_resolveDisruptionWindow e s r1 = Inr w \<and> (w = None \<or> IsWithinWindow w (e_clk e 10)) \<and>
      categorizePodsByNodeType e s r1 = (Inr (spotPods, onDemandPods), r2) \<and>
      sts_selectPodsForDeletion spotPods onDemandPods (sts_target s config st) \<noteq> [] \<and>
      p = gradual_choice e s (sts_selectPodsForDeletion spotPods onDemandPods (sts_target s config st)) \<and>
      budget_permits (e_selector e) (e_api e 5) p)"
    (is "_ \<longleftrightarrow> ?guards")
proof
  assume ev: "evictions effs = [p]"
  then have "evictions effs \<noteq> []" by simp
  with assms(1) show ?guards
  proof (rule sts_evictionE, goal_cases)
    case (1 s r0 config st r1 w spotPods onDemandPods r2)
    let ?c = "gradual_choice e s (sts_selectPodsForDeletion spotPods onDemandPods (sts_target s config st))"
    have "?c = p" using 1(14) ev by simp
    moreover have "namespace_allowed e (wl_Namespace s) r" using 1(3,4) namespace_allowed_iff by blast
    moreover have "cooled_down e (request_String req) r" using 1(5) cooled_down_iff [OF assms(2)] by blast
    moreover have "sts_calculateCurrentReplicaState e s (admitted e (wl_Namespace s) r) = (Inr st, r1)"
      using 1(3,8) by (simp add: admitted_def)
    ultimately show ?case using 1 by blast
  qed
next
  assume ?guards
  then obtain s config st r1 w spotPods onDemandPods r2 where g:
      "cl_GetStatefulSet (e_api e 0) (rq_Namespace req) (rq_Name req) = Inr s"
      "IsSpotalisEnabled (wl_Object s)" "namespace_allowed e (wl_Namespace s) r"
      "cooldown_gate e (request_String req) r = GatePass" "isStatefulSetStableAndReady s"
      "ParseWorkloadConfiguration (wl_Object s) = Inr config"
      "sts_calculateCurrentReplicaState e s (admitted e (wl_Namespace s) r) = (Inr st, r1)"
      "sts_needsRebalancing (sts_target s config st)"
      "sts_resolveDisruptionWindow e s r1 = Inr w" "w = None \<or> IsWithinWindow w (e_clk e 10)"
      "categorizePodsByNodeType e s r1 = (Inr (spotPods, onDemandPods), r2)"
      "sts_selectPodsForDeletion spotPods onDemandPods (sts_target s config st) \<noteq> []"
      "p = gradual_choice e s (sts_selectPodsForDeletion spotPods onDemandPods (sts_target s config st))"
      "budget_permits (e_selector e) (e_api e 5) p"
    using cooled_down_iff [OF assms(2)] by blast
  from sts_eviction_complete [OF g(1-11) refl g(12) g(14) [unfolded g(13)]] assms(1) g(13)
  show "evictions effs = [p]" by simp
qed

theorem statefulset_evicts_exactly_witness:
  "\<exists>p d config. evictions (snd (snd (sts_Reconcile (sample_env (9 * Minute)) sample_request sample_reconciler))) = [p] \<and>
    ParseWorkloadConfiguration (wl_Object d) = Inr config \<and> isStatefulSetStableAndReady d \<and>
    budget_permits match_labels sample_api p"
proof -
  obtain res r' effs where run: "sts_Reconcile (sample_env (9 * Minute)) sample_request sample_reconciler = (res, r', effs)"
    by (metis prod_cases3)
  then have "length (evictions effs) = 1"
    using sample_sts_run by (metis length_map length_Cons list.size(3) snd_conv One_nat_def)
  then obtain p where p: "evictions effs = [p]" by (cases "evictions effs") auto
  have "in_i64 (getCooldownPeriod sample_reconciler)" by (simp add: sample_cooldown in_i64_def)
  from statefulset_evicts_exactly [OF run this, of p] p obtain d config where
      "ParseWorkloadConfiguration (wl_Object d) = Inr config" "isStatefulSetStableAndReady d"
      "budget_permits (e_selector (sample_env (9 * Minute))) (e_api (sample_env (9 * Minute)) 5) p"
    by blast
  with p run show ?thesis by (auto simp: sample_env_def)
qed

end
