(* ===== verification/Fleet.thy ===== *)
theory Fleet
  imports Rebalancing_Loop Eviction_Exactness
begin

text \<open>
  A workload in a cluster, for the loops of controller and webhook: the nodes, the pods and
  the answers of the API to the handlers. What the handlers need of a kind of workload (that
  its pods are listed, its owner found, its configuration read) is the locale
  \<open>fleet_kind\<close>; in it the observation of a fleet, the choice of the webhook and the
  replacement of a pod are followed through the code once. \<^verbatim>\<open>Closed_Loop\<close>
  interprets it for Deployments, \<^verbatim>\<open>StatefulSet_Loop\<close> for StatefulSets.

  The cluster is a parameter: \<open>fl_Base\<close> answers everything a loop does not change.
\<close>

record fleet =
  fl_Base :: k8s_client
  fl_Namespace :: string
  fl_Nodes :: "node list"

definition node_kind :: "NodeClassifierConfig \<Rightarrow> 'a fleet_scheme \<Rightarrow> string \<Rightarrow> NodeType" where
  "node_kind cfg fl name =
     (case find (\<lambda>nd. node_Name nd = name) (fl_Nodes fl) of None \<Rightarrow> NodeTypeUnknown | Some nd \<Rightarrow> ClassifyNode cfg nd)"

definition pods_of_kind :: "NodeClassifierConfig \<Rightarrow> 'a fleet_scheme \<Rightarrow> NodeType \<Rightarrow> pod list \<Rightarrow> pod list" where
  "pods_of_kind cfg fl t pods = filter (\<lambda>p. node_kind cfg fl (pod_NodeName p) = t) pods"

definition good_nodes :: "'a fleet_scheme \<Rightarrow> bool" where
  "good_nodes fl \<longleftrightarrow> distinct (map node_Name (fl_Nodes fl)) \<and> [] \<notin> set (map node_Name (fl_Nodes fl))"

section \<open>Classification of the nodes of a fleet\<close>

lemma node_kind_member:
  "good_nodes fl \<Longrightarrow> nd \<in> set (fl_Nodes fl) \<Longrightarrow> node_kind cfg fl (node_Name nd) = ClassifyNode cfg nd"
proof -
  assume g: "good_nodes fl" and nd: "nd \<in> set (fl_Nodes fl)"
  then obtain nd' where f: "find (\<lambda>x. node_Name x = node_Name nd) (fl_Nodes fl) = Some nd'"
    by (cases "find (\<lambda>x. node_Name x = node_Name nd) (fl_Nodes fl)") (auto dest: find_NoneD)
  from find_SomeD [OF f] g nd have "nd' = nd" by (auto simp: good_nodes_def distinct_map dest: inj_onD)
  with f show ?thesis by (simp add: node_kind_def)
qed

text \<open>A cache that only knows nodes of the fleet, as its configuration classifies them.\<close>

definition synced :: "'a fleet_scheme \<Rightarrow> NodeClassifierService \<Rightarrow> bool" where
  "synced fl n \<longleftrightarrow>
     (\<forall>name t. nk_NodeTypes (nk_cache n) name = Some t \<longrightarrow>
        (\<exists>nd \<in> set (fl_Nodes fl). node_Name nd = name \<and> ClassifyNode (nk_config n) nd = t))"

lemma synced_kind:
  "synced fl n \<Longrightarrow> good_nodes fl \<Longrightarrow> nk_NodeTypes (nk_cache n) name = Some t \<Longrightarrow> node_kind (nk_config n) fl name = t"
  unfolding synced_def using node_kind_member by blast

lemma filled_types:
  assumes "set items \<subseteq> set nodes"
    and "\<forall>name t. nk_NodeTypes c name = Some t \<longrightarrow> (\<exists>nd \<in> set nodes. node_Name nd = name \<and> ClassifyNode cfg nd = t)"
  shows "\<forall>name t. nk_NodeTypes (foldl (store_classified cfg) c items) name = Some t \<longrightarrow>
    (\<exists>nd \<in> set nodes. node_Name nd = name \<and> ClassifyNode cfg nd = t)"
  using assms
proof (induction items arbitrary: c)
  case (Cons nd items)
  have "\<forall>name t. nk_NodeTypes (store_classified cfg c nd) name = Some t \<longrightarrow>
      (\<exists>nd \<in> set nodes. node_Name nd = name \<and> ClassifyNode cfg nd = t)"
    using Cons.prems by (auto simp: store_classified_def split: if_splits)
  with Cons.IH [of "store_classified cfg c nd"] Cons.prems(1) show ?case by simp
qed simp

definition kinds_ok :: "NodeClassifierConfig \<Rightarrow> 'a fleet_scheme \<Rightarrow> (string \<rightharpoonup> NodeType) \<Rightarrow> bool" where
  "kinds_ok cfg fl m \<longleftrightarrow> (\<forall>x t. m x = Some t \<longrightarrow> t = node_kind cfg fl x)"

text \<open>
  A running pod of the workload: Ready, matched by the selector, on a node of the fleet whose
  kind is known.
\<close>

definition running :: "NodeClassifierConfig \<Rightarrow> 'a fleet_scheme \<Rightarrow> (string_map option \<Rightarrow> bool) \<Rightarrow> pod \<Rightarrow> bool" where
  "running cfg fl matches p \<longleftrightarrow> matches (pod_Labels p) \<and> lifecycleFor p = LifecycleReady \<and>
     pod_NodeName p \<in> set (map node_Name (fl_Nodes fl)) \<and> node_kind cfg fl (pod_NodeName p) \<noteq> NodeTypeUnknown"

lemma running_assigned:
  assumes "running cfg fl matches p" "good_nodes fl"
  shows "pod_NodeName p \<noteq> [] \<and> pod_DeletionTimestamp p = None \<and> \<not> isTerminal p"
  using assms by (auto simp: running_def good_nodes_def lifecycleFor_def split: if_splits)

lemma running_observed:
  assumes "running cfg fl matches p" and "m (pod_NodeName p) = Some (node_kind cfg fl (pod_NodeName p))" and "good_nodes fl"
  shows "counted t (observe_pod m p) \<longleftrightarrow> node_kind cfg fl (pod_NodeName p) = t"
    and "eligible t (observe_pod m p) \<longleftrightarrow> node_kind cfg fl (pod_NodeName p) = t"
    and "pod_NodeName p \<noteq> []" "pod_DeletionTimestamp p = None" "\<not> isTerminal p"
  using assms by (auto simp: running_def counted_def eligible_def capacityFor_def good_nodes_def lifecycleFor_def
      split: if_splits)

lemma kind_counts:
  assumes "\<forall>p \<in> set pods. running cfg fl matches p"
  shows "length (pods_of_kind cfg fl NodeTypeSpot pods) + length (pods_of_kind cfg fl NodeTypeOnDemand pods) = length pods"
  using assms
proof (induction pods)
  case (Cons p pods)
  then show ?case
    by (cases "node_kind cfg fl (pod_NodeName p)") (auto simp: pods_of_kind_def running_def)
qed (simp add: pods_of_kind_def)

section \<open>The environments of the handlers\<close>

definition env_at :: "k8s_client \<Rightarrow> as_selector \<Rightarrow> (string \<Rightarrow> schedule option) \<Rightarrow> (nat \<Rightarrow> time) \<Rightarrow>
    ((podWithOrdinal \<Rightarrow> podWithOrdinal \<Rightarrow> bool) \<Rightarrow> podWithOrdinal list \<Rightarrow> podWithOrdinal list) \<Rightarrow> env" where
  "env_at c as_sel parse clk sort_slice =
     \<lparr>e_api = \<lambda>_. c, e_clk = clk, e_selector = as_sel, e_parse = parse, e_sort = sort_slice\<rparr>"

definition admission_at :: "k8s_client \<Rightarrow> as_selector \<Rightarrow> (nat \<Rightarrow> time) \<Rightarrow> webhook_env" where
  "admission_at c as_sel clk = \<lparr>we_api = \<lambda>_. c, we_clk = clk, we_selector = as_sel\<rparr>"

text \<open>The namespace filter, if there is one, admits the namespace, and so does whatever it cached.\<close>

definition filter_ok :: "'a fleet_scheme \<Rightarrow> NamespaceFilter option \<Rightarrow> bool" where
  "filter_ok fl f \<longleftrightarrow>
     (case f of None \<Rightarrow> True
      | Some nf \<Rightarrow> cache_sound (Some (fl_Base fl)) nf \<and>
          namespace_admitted nf (fl_Namespace fl) (namespace_read (Some (fl_Base fl)) (fl_Namespace fl)))"

definition loop_ready :: "'a fleet_scheme \<Rightarrow> NodeClassifierConfig \<Rightarrow> reconciler \<Rightarrow> bool" where
  "loop_ready fl cfg r \<longleftrightarrow> rc_Observer r \<and> synced fl (rc_NodeClassifier r) \<and>
     nk_config (rc_NodeClassifier r) = cfg \<and> filter_ok fl (rc_NamespaceFilter r)"

definition handler_ready :: "'a fleet_scheme \<Rightarrow> NodeClassifierConfig \<Rightarrow> MutationHandler \<Rightarrow> bool" where
  "handler_ready fl cfg m \<longleftrightarrow> mh_Observer m \<and> mh_AdmissionTracker m = None \<and>
     synced fl (mh_NodeClassifier m) \<and> nk_config (mh_NodeClassifier m) = cfg"

text \<open>The disruption window of the workload is open at the reading the handler tests.\<close>

definition window_open :: "'a fleet_scheme \<Rightarrow> k8s_object \<Rightarrow> (string \<Rightarrow> schedule option) \<Rightarrow> DisruptionWindowConfig option \<Rightarrow>
    time \<Rightarrow> bool" where
  "window_open fl obj parse config now \<longleftrightarrow>
     (\<exists>w. resolveDisruptionWindow parse (obj_annotations obj)
           (case cl_GetNamespace (fl_Base fl) (fl_Namespace fl) of Inl err \<Rightarrow> Inl err | Inr ns \<Rightarrow> Inr (ns_Labels ns))
           config = Inr w \<and> (w = None \<or> IsWithinWindow w now))"

definition budgets_permit :: "'a fleet_scheme \<Rightarrow> as_selector \<Rightarrow> bool" where
  "budgets_permit fl as_sel \<longleftrightarrow> (\<forall>p. budget_permits as_sel (fl_Base fl) p)"

definition fresh_reading :: "(nat \<Rightarrow> time) \<Rightarrow> bool" where
  "fresh_reading clk \<longleftrightarrow> clk 2 \<noteq> 0 \<and> time_sub (clk 3) (clk 2) \<le> DefaultPodListMaxAge"

text \<open>The filter reads namespaces only.\<close>

lemma metadata_cong:
  "cl_GetNamespace c = cl_GetNamespace c' \<Longrightarrow> applyMetadataFilters (Some c) = applyMetadataFilters (Some c')"
  by (intro ext) (simp only: applyMetadataFilters_def option.case)

lemma filtering_cong:
  assumes "cl_GetNamespace c = cl_GetNamespace c'"
  shows "performFiltering (Some c) t nf ns = performFiltering (Some c') t nf ns"
  unfolding performFiltering_def metadata_cong [OF assms] ..

lemma cache_sound_cong:
  assumes "cl_GetNamespace c = cl_GetNamespace c'"
  shows "cache_sound (Some c) nf = cache_sound (Some c') nf"
  unfolding cache_sound_def filtering_cong [OF assms] ..

lemma admitted_settings:
  assumes "same_settings nf' nf"
  shows "namespace_admitted nf' ns obj = namespace_admitted nf ns obj"
proof -
  have eqs: "nf_config nf' = nf_config nf" "nf_includeRegex nf' = nf_includeRegex nf" "nf_excludeRegex nf' = nf_excludeRegex nf"
    using assms by (simp_all add: same_settings_def)
  show ?thesis
    unfolding namespace_admitted_def isSystemNamespace_def checkRequiredLabels_def checkForbiddenLabels_def
      checkForbiddenAnnotations_def eqs ..
qed

lemma gate_admits:
  assumes "filter_ok fl (rc_NamespaceFilter r)" and ns: "cl_GetNamespace c = cl_GetNamespace (fl_Base fl)"
  shows "\<exists>f. namespace_gate (env_at c as_sel parse clk sort_slice) (fl_Namespace fl) r =
    (True, r\<lparr>rc_NamespaceFilter := f\<rparr>) \<and> filter_ok fl f"
proof (cases "rc_NamespaceFilter r")
  case None
  then show ?thesis by (intro exI [of _ None]) (simp add: filter_ok_def namespace_gate_def)
next
  case (Some nf)
  obtain res nf' where a: "IsNamespaceAllowed (Some c) (clk 1) (clk 2) (fl_Namespace fl) nf = (res, nf')" by fastforce
  have sound: "cache_sound (Some c) nf" "namespace_admitted nf (fl_Namespace fl) (namespace_read (Some (fl_Base fl)) (fl_Namespace fl))"
    using assms(1) Some by (simp_all add: filter_ok_def cache_sound_cong [OF ns])
  note ok = IsNamespaceAllowed_sound [OF sound(1) a]
  have "fr_Allowed res"
    using ok(1) sound(2) performFiltering_admitted [of "Some (fl_Base fl)" 0 nf "fl_Namespace fl"]
    by (simp add: verdict_def filtering_cong [OF ns])
  moreover have "filter_ok fl (Some nf')"
    using ok(2,3) sound(2) by (simp add: filter_ok_def cache_sound_cong [OF ns] admitted_settings)
  ultimately show ?thesis using Some a by (auto simp: namespace_gate_def env_at_def)
qed

lemma lower_true: "ToLower ''true'' = BooleanTrue"
  by code_simp

text \<open>The target depends on the number of replicas only.\<close>

lemma desired_cong:
  assumes "rs_TotalReplicas a = rs_TotalReplicas b"
  shows "rs_DesiredSpot (CalculateDesiredDistribution a config) = rs_DesiredSpot (CalculateDesiredDistribution b config)"
    and "rs_DesiredOnDemand (CalculateDesiredDistribution a config) = rs_DesiredOnDemand (CalculateDesiredDistribution b config)"
  using assms by (auto simp: CalculateDesiredDistribution_def split: sum.splits)

text \<open>What a reconciliation leaves behind: the same set-up, and the recorded deletion if it evicted.\<close>

definition settled :: "'a fleet_scheme \<Rightarrow> NodeClassifierConfig \<Rightarrow> string \<Rightarrow> time \<Rightarrow> bool \<Rightarrow> reconciler \<Rightarrow> reconciler \<Rightarrow> bool" where
  "settled fl cfg key t evicted r r' \<longleftrightarrow> loop_ready fl cfg r' \<and> rc_Config r' = rc_Config r \<and>
     getCooldownPeriod r' = getCooldownPeriod r \<and>
     rc_lastDeletionTimes r' = (if evicted then (rc_lastDeletionTimes r)(key \<mapsto> TimeValue t) else rc_lastDeletionTimes r)"

lemma settled_trans:
  "settled fl cfg key t False r r1 \<Longrightarrow> settled fl cfg key t b r1 r2 \<Longrightarrow> settled fl cfg key t b r r2"
  by (simp add: settled_def)

lemma recovered_frame:
  "loop_ready fl cfg (markRecovered r) = loop_ready fl cfg r" "rc_Config (markRecovered r) = rc_Config r"
  by (auto simp: loop_ready_def markRecovered_def split: option.splits)

lemma settled_simps:
  "loop_ready fl cfg r \<Longrightarrow> settled fl cfg key t False r (markRecovered r)"
  "loop_ready fl cfg r \<Longrightarrow> settled fl cfg key t False r (r\<lparr>rc_reconcileCount := k\<rparr>)"
  "loop_ready fl cfg r \<Longrightarrow> filter_ok fl f \<Longrightarrow> settled fl cfg key t False r (r\<lparr>rc_NamespaceFilter := f\<rparr>)"
  "loop_ready fl cfg (r\<lparr>rc_NodeClassifier := n\<rparr>) \<Longrightarrow> settled fl cfg key t False r (r\<lparr>rc_NodeClassifier := n\<rparr>)"
  "loop_ready fl cfg r \<Longrightarrow> settled fl cfg key t True r (r\<lparr>rc_lastDeletionTimes := (rc_lastDeletionTimes r)(key \<mapsto> TimeValue t)\<rparr>)"
  by (simp_all add: settled_def recovered_frame) (simp_all add: loop_ready_def getCooldownPeriod_def)

lemma settled_recovered: "settled fl cfg key t b r r' \<Longrightarrow> settled fl cfg key t b r (markRecovered r')"
  by (simp add: settled_def recovered_frame)

section \<open>A kind of workload\<close>

text \<open>
  What the handlers read of a fleet. \<open>view\<close> is what the API answers while the workload has
  the given pods, \<open>managed\<close> the workload, \<open>ok\<close> that it opted in with the configuration and
  \<open>n\<close> replicas, \<open>created\<close> that a pod is one the workload's controller creates.
\<close>

locale fleet_kind =
  fixes view :: "'a fleet_scheme \<Rightarrow> pod list \<Rightarrow> k8s_client"
    and managed :: "'a fleet_scheme \<Rightarrow> workload_object"
    and ok :: "'a fleet_scheme \<Rightarrow> as_selector \<Rightarrow> (string_map option \<Rightarrow> bool) \<Rightarrow> WorkloadConfiguration \<Rightarrow> nat \<Rightarrow> bool"
    and created :: "'a fleet_scheme \<Rightarrow> pod \<Rightarrow> bool"
  assumes lists_nodes: "cl_ListNodes (view fl pods) = Inr (fl_Nodes fl)"
    and gets_node: "cl_GetNode (view fl pods) name = (case find (\<lambda>nd. node_Name nd = name) (fl_Nodes fl) of
          None \<Rightarrow> Inl (StatusError ReasonNotFound) | Some nd \<Rightarrow> Inr nd)"
    and gets_namespace: "cl_GetNamespace (view fl pods) = cl_GetNamespace (fl_Base fl)"
    and lists_budgets: "cl_ListPDBs (view fl pods) = cl_ListPDBs (fl_Base fl)"
    and evicts: "p \<in> set pods \<Longrightarrow> cl_Evict (view fl pods) p dryRun = None"
    and ok_size: "ok fl as_sel matches config n \<Longrightarrow> good_nodes fl \<and> 0 < n \<and> in_i32 (int n)"
    and ok_pods: "ok fl as_sel matches config n \<Longrightarrow> \<forall>p \<in> set pods. matches (pod_Labels p) \<Longrightarrow>
          observed_pods as_sel (view fl pods) (managed fl) = Inr pods"
    and ok_replicas: "ok fl as_sel matches config n \<Longrightarrow> workloadDesiredReplicas (managed fl) = Inr (int n)"
    and ok_owner: "ok fl as_sel matches config n \<Longrightarrow> created fl p \<Longrightarrow> workloadForPod (view fl pods) p = Inr (managed fl)"
    and ok_config: "ok fl as_sel matches config n \<Longrightarrow> created fl p \<Longrightarrow>
          \<exists>kind name. getWorkloadConfigForPod (view fl pods) p = Some (config, kind, name)"
begin

lemma RefreshCache_synced:
  assumes "synced fl n"
  shows "\<exists>n'. RefreshCache (view fl pods) t1 t2 n = (None, n') \<and> synced fl n' \<and> nk_config n' = nk_config n"
proof (cases "time_sub t1 (nk_LastRefresh (nk_cache n)) < nk_CacheRefreshInterval (nk_config n)")
  case True
  with assms show ?thesis by (simp add: RefreshCache_def)
next
  case False
  let ?c = "(nk_cache n)\<lparr>nk_SpotNodes := [], nk_OnDemandNodes := [], nk_NodeTypes := Map.empty\<rparr>"
  have "synced fl (n\<lparr>nk_cache := (foldl (store_classified (nk_config n)) ?c (fl_Nodes fl))\<lparr>nk_LastRefresh := t2\<rparr>\<rparr>)"
    using filled_types [of "fl_Nodes fl" "fl_Nodes fl" ?c "nk_config n"] by (simp add: synced_def)
  with False show ?thesis by (simp add: RefreshCache_def lists_nodes Let_def)
qed

lemma fetch_missing_synced:
  assumes "foldl (fetch_missing (view fl pods)) (n, results) names = (n', results')"
    and "synced fl n" "good_nodes fl" "set names \<subseteq> set (map node_Name (fl_Nodes fl))"
    and "kinds_ok (nk_config n) fl results"
  shows "synced fl n' \<and> nk_config n' = nk_config n \<and> kinds_ok (nk_config n) fl results'"
  using assms
proof (induction names arbitrary: n results)
  case (Cons a names)
  obtain nd where nd: "find (\<lambda>x. node_Name x = a) (fl_Nodes fl) = Some nd"
    using Cons.prems(4) by (cases "find (\<lambda>x. node_Name x = a) (fl_Nodes fl)") (auto dest: find_NoneD)
  have m: "nd \<in> set (fl_Nodes fl)" "node_Name nd = a" using find_SomeD [OF nd] by auto
  let ?n = "n\<lparr>nk_cache := storeNodeClassification nd (ClassifyNode (nk_config n) nd) (nk_cache n)\<rparr>"
  let ?r = "results(a \<mapsto> ClassifyNode (nk_config n) nd)"
  have "fetch_missing (view fl pods) (n, results) a = (?n, ?r)"
    by (simp add: fetch_missing_def gets_node nd Let_def)
  with Cons.prems(1) have f: "foldl (fetch_missing (view fl pods)) (?n, ?r) names = (n', results')" by simp
  have sy: "synced fl ?n" using Cons.prems(2) m by (auto simp: synced_def split: if_splits)
  have "ClassifyNode (nk_config n) nd = node_kind (nk_config n) fl a"
    using node_kind_member [OF Cons.prems(3) m(1)] m(2) by simp
  with Cons.prems(5) have k: "kinds_ok (nk_config ?n) fl ?r" by (simp add: kinds_ok_def)
  have "set names \<subseteq> set (map node_Name (fl_Nodes fl))" using Cons.prems(4) by simp
  from Cons.IH [OF f sy Cons.prems(3) this k] show ?case by simp
qed simp

lemma ClassifyNodesByName_synced:
  assumes "synced fl n" "good_nodes fl" "set names \<subseteq> set (map node_Name (fl_Nodes fl))"
  shows "\<exists>m n'. ClassifyNodesByName (view fl pods) t1 t2 n names = (Inr m, n') \<and> synced fl n' \<and>
    nk_config n' = nk_config n \<and> (\<forall>x \<in> set names. m x = Some (node_kind (nk_config n) fl x))"
proof (cases "names = []")
  case True
  then show ?thesis using assms(1) by (simp add: ClassifyNodesByName_def)
next
  case False
  let ?u = "remdups (filter (\<lambda>name. name \<noteq> []) names)"
  have u: "set ?u = set names" using assms(2,3) by (auto simp: good_nodes_def)
  then have "?u \<noteq> []" using False by (metis list.set(1) set_empty)
  obtain n1 where r: "RefreshCache (view fl pods) t1 t2 n = (None, n1)" "synced fl n1" "nk_config n1 = nk_config n"
    using RefreshCache_synced [OF assms(1)] by blast
  define types where "types = nk_NodeTypes (nk_cache n1)"
  define r0 where "r0 = (\<lambda>name. if name \<in> set ?u then types name else None)"
  obtain n2 res where f: "foldl (fetch_missing (view fl pods)) (n1, r0) (filter (\<lambda>name. types name = None) ?u) = (n2, res)"
    by fastforce
  have r0: "kinds_ok (nk_config n1) fl r0"
    using synced_kind [OF r(2) assms(2)] by (auto simp: kinds_ok_def r0_def types_def split: if_splits)
  have sub: "set (filter (\<lambda>name. types name = None) ?u) \<subseteq> set (map node_Name (fl_Nodes fl))"
    using assms(3) u by auto
  note done1 = fetch_missing_synced [OF f r(2) assms(2) sub r0]
  let ?m = "\<lambda>name. if name \<in> set ?u \<and> res name = None then Some NodeTypeUnknown else res name"
  have "ClassifyNodesByName (view fl pods) t1 t2 n names = (Inr ?m, n2)"
    using \<open>?u \<noteq> []\<close> r(1) f unfolding ClassifyNodesByName_def Let_def types_def r0_def by (simp add: Let_def)
  moreover have "res x = Some (node_kind (nk_config n) fl x)" if x: "x \<in> set names" for x
  proof -
    have "res x \<noteq> None" using fetch_missing_dom(1) [OF f, of x] x u by (auto simp: r0_def)
    then obtain t where t: "res x = Some t" by blast
    moreover have "t = node_kind (nk_config n) fl x"
      using done1 t unfolding kinds_ok_def r(3) by blast
    ultimately show ?thesis by simp
  qed
  ultimately show ?thesis using done1 r(3) by (intro exI [of _ ?m] exI [of _ n2]) simp
qed

text \<open>An observation of running pods counts each in the class of its node.\<close>

lemma Observe_fleet:
  assumes "ok fl as_sel matches config n" "\<forall>p \<in> set pods. running (nk_config svc) fl matches p"
    and "synced fl svc" "in_i32 (int (length pods))"
  defines "S \<equiv> pods_of_kind (nk_config svc) fl NodeTypeSpot pods"
    and "D \<equiv> pods_of_kind (nk_config svc) fl NodeTypeOnDemand pods"
  shows "\<exists>s svc'. Observe as_sel (view fl pods) (Some (ClassifyNodesByName (view fl pods) t1 t2)) now
        (managed fl) svc = (Inr s, svc') \<and>
      synced fl svc' \<and> nk_config svc' = nk_config svc \<and>
      sn_ObservedAt s = now \<and> sn_ClassificationError s = None \<and>
      ActualCounts s = (int (length S), int (length D)) \<and> EligiblePods s = (S, D)"
proof -
  let ?api = "view fl pods" and ?w = "managed fl"
  have g: "good_nodes fl" using ok_size [OF assms(1)] by blast
  have sub: "set (assigned_nodes pods) \<subseteq> set (map node_Name (fl_Nodes fl))"
    using assms(2) by (auto simp: assigned_nodes_def running_def)
  obtain m svc' where cl: "ClassifyNodesByName ?api t1 t2 svc (assigned_nodes pods) = (Inr m, svc')"
      "synced fl svc'" "nk_config svc' = nk_config svc"
      "\<forall>x \<in> set (assigned_nodes pods). m x = Some (node_kind (nk_config svc) fl x)"
    using ClassifyNodesByName_synced [OF assms(3) g sub] by blast
  have obs: "observed_pods as_sel ?api ?w = Inr pods"
    using assms(2) by (intro ok_pods [OF assms(1)]) (simp add: running_def)
  define m' where "m' = (if assigned_nodes pods = [] then Map.empty else m)"
  have kind: "m' (pod_NodeName p) = Some (node_kind (nk_config svc) fl (pod_NodeName p))" if "p \<in> set pods" for p
  proof -
    have "pod_NodeName p \<noteq> [] \<and> pod_DeletionTimestamp p = None \<and> \<not> isTerminal p"
      by (rule running_assigned [OF bspec [OF assms(2) that] g])
    with that have "pod_NodeName p \<in> set (assigned_nodes pods)" by (auto simp: assigned_nodes_def)
    with cl(4) show ?thesis by (auto simp: m'_def)
  qed
  have seen: "counted t (observe_pod m' p) \<longleftrightarrow> node_kind (nk_config svc) fl (pod_NodeName p) = t"
      "eligible t (observe_pod m' p) \<longleftrightarrow> node_kind (nk_config svc) fl (pod_NodeName p) = t" if "p \<in> set pods" for p t
    using running_observed(1,2) [where m = m' and p = p, OF bspec [OF assms(2) that] kind [OF that] g] by simp_all
  obtain s svc'' where s: "Observe as_sel ?api (Some (ClassifyNodesByName ?api t1 t2)) now ?w svc = (Inr s, svc'')"
      "sn_ObservedAt s = now" "sn_ClassificationError s = None" "sn_Pods s = map (observe_pod m') pods"
      "svc'' = (if assigned_nodes pods = [] then svc else svc')"
    using obs cl(1) by (cases "workloadIdentity ?w"; cases "workload_meta ?w"; cases "assigned_nodes pods = []")
      (auto simp: Observe_def Let_def m'_def)
  have sel: "filter (counted t) (sn_Pods s) = map (observe_pod m') (pods_of_kind (nk_config svc) fl t pods)"
      "filter (eligible t) (sn_Pods s) = map (observe_pod m') (pods_of_kind (nk_config svc) fl t pods)" for t
    unfolding s(4) filter_map pods_of_kind_def comp_def
    using seen(1,2) by (auto intro!: arg_cong [where f = "map (observe_pod m')"] filter_cong)
  have "in_i32 (int (length (sn_Pods s)))" using assms(4) s(4) by simp
  then have "ActualCounts s = (int (length S), int (length D))"
    by (simp add: ActualCounts_eq sel S_def D_def)
  moreover have "EligiblePods s = (S, D)" by (simp add: EligiblePods_eq sel S_def D_def comp_def)
  ultimately show ?thesis using s cl(2,3) assms(3) by auto
qed

lemma observe_workload_fleet:
  assumes "ok fl as_sel matches config n" "\<forall>p \<in> set pods. running cfg fl matches p"
    and "loop_ready fl cfg r" "in_i32 (int (length pods))"
  shows "\<exists>s svc. observe_workload (env_at (view fl pods) as_sel parse clk sort_slice) v c (managed fl) r =
      (Inr s, r\<lparr>rc_NodeClassifier := svc\<rparr>) \<and> loop_ready fl cfg (r\<lparr>rc_NodeClassifier := svc\<rparr>) \<and>
      ActualCounts s = (int (length (pods_of_kind cfg fl NodeTypeSpot pods)), int (length (pods_of_kind cfg fl NodeTypeOnDemand pods))) \<and>
      EligiblePods s = (pods_of_kind cfg fl NodeTypeSpot pods, pods_of_kind cfg fl NodeTypeOnDemand pods)"
proof -
  have r: "synced fl (rc_NodeClassifier r)" "nk_config (rc_NodeClassifier r) = cfg"
    using assms(3) by (simp_all add: loop_ready_def)
  note run = assms(2) [folded r(2)]
  from Observe_fleet [OF assms(1) run r(1) assms(4), of "clk c" "clk (Suc c)" "clk (c + 2)"] obtain s svc where
    "Observe as_sel (view fl pods) (Some (ClassifyNodesByName (view fl pods) (clk c) (clk (Suc c))))
       (clk (c + 2)) (managed fl) (rc_NodeClassifier r) = (Inr s, svc)"
    "synced fl svc" "nk_config svc = cfg"
    "ActualCounts s = (int (length (pods_of_kind cfg fl NodeTypeSpot pods)), int (length (pods_of_kind cfg fl NodeTypeOnDemand pods)))"
    "EligiblePods s = (pods_of_kind cfg fl NodeTypeSpot pods, pods_of_kind cfg fl NodeTypeOnDemand pods)"
    unfolding r(2) by metis
  with assms(3) show ?thesis
    by (intro exI [of _ s] exI [of _ svc]) (simp add: observe_workload_def env_at_def loop_ready_def)
qed

end

section \<open>The replacement of a pod\<close>

definition creation :: "pod \<Rightarrow> admission_request" where
  "creation p = \<lparr>rq_Kind = ''Pod'', rq_Operation = ''CREATE'', rq_Object = Inr p\<rparr>"

text \<open>The node selector after the response was applied.\<close>

definition admitted_selector :: "admission_response \<Rightarrow> pod \<Rightarrow> string_map option" where
  "admitted_selector resp p =
     (case resp of Patched reason ps \<Rightarrow> fold apply_patch ps (pod_NodeSelector p) | _ \<Rightarrow> pod_NodeSelector p)"

definition pinned :: "pod \<Rightarrow> string \<Rightarrow> string \<Rightarrow> string_map option" where
  "pinned p key v = Some ((case pod_NodeSelector p of None \<Rightarrow> Map.empty | Some s \<Rightarrow> s)(key \<mapsto> v))"

text \<open>The pod once it is bound to the node the scheduler chooses for its selector, and runs.\<close>

definition started :: "(string_map option \<Rightarrow> string) \<Rightarrow> pod \<Rightarrow> string_map option \<Rightarrow> pod" where
  "started sched p selector = p\<lparr>pod_NodeSelector := selector, pod_NodeName := sched selector,
     pod_Phase := PodRunning, pod_Conditions := [(ReadyCondition, ConditionTrue)]\<rparr>"

text \<open>Creation of a pod: the webhook handles it, the patch is applied, the pod is scheduled and starts.\<close>

definition admit_new ::
  "k8s_client \<Rightarrow> as_selector \<Rightarrow> (nat \<Rightarrow> time) \<Rightarrow> (string_map option \<Rightarrow> string) \<Rightarrow> pod \<Rightarrow> MutationHandler \<Rightarrow> pod \<times> MutationHandler" where
  "admit_new c as_sel clk sched p m =
     (case Handle (admission_at c as_sel clk) (creation p) m of
        ((resp, metrics), m') \<Rightarrow> (started sched p (admitted_selector resp p), m'))"

text \<open>The label and the values the webhook uses without a configuration of its own.\<close>

definition capacity_labels :: "string \<times> string \<times> string" where
  "capacity_labels = (CapacityTypeLabel, ''spot'', ''on-demand'')"

text \<open>The webhook's label and the classifier agree on the nodes of the fleet.\<close>

definition labels_agree :: "'a fleet_scheme \<Rightarrow> NodeClassifierConfig \<Rightarrow> string \<times> string \<times> string \<Rightarrow> bool" where
  "labels_agree fl cfg = (\<lambda>(key, spotValue, onDemandValue). \<forall>nd \<in> set (fl_Nodes fl).
     (map_lookup (node_Labels nd) key = Some spotValue \<longrightarrow> ClassifyNode cfg nd = NodeTypeSpot) \<and>
     (map_lookup (node_Labels nd) key = Some onDemandValue \<longrightarrow> ClassifyNode cfg nd = NodeTypeOnDemand))"

text \<open>
  What Kubernetes promises: a pod is created with labels its workload's selector matches, and
  the scheduler binds it to a node that carries the labels its node selector asks for (so the
  fleet has nodes of both kinds). The webhook's two readings of the clock are close together.
\<close>

definition schedulable :: "'a fleet_scheme \<Rightarrow> (string_map option \<Rightarrow> string) \<Rightarrow> string_map option \<Rightarrow> bool" where
  "schedulable fl sched selector \<longleftrightarrow>
     (\<exists>nd \<in> set (fl_Nodes fl). node_Name nd = sched selector \<and>
        (\<forall>key v. map_lookup selector key = Some v \<longrightarrow> map_lookup (node_Labels nd) key = Some v))"

definition newcomer :: "'a fleet_scheme \<Rightarrow> (string_map option \<Rightarrow> bool) \<Rightarrow> string \<times> string \<times> string \<Rightarrow> (nat \<Rightarrow> time) \<Rightarrow>
    (string_map option \<Rightarrow> string) \<Rightarrow> pod \<Rightarrow> bool" where
  "newcomer fl matches labels clk sched p \<longleftrightarrow>
     fresh_reading clk \<and> matches (pod_Labels p) \<and> pod_DeletionTimestamp p = None \<and>
     schedulable fl sched (pinned p (fst labels) (fst (snd labels))) \<and>
     schedulable fl sched (pinned p (fst labels) (snd (snd labels)))"

definition kinds :: "NodeClassifierConfig \<Rightarrow> 'a fleet_scheme \<Rightarrow> pod list \<Rightarrow> pod list \<times> pod list" where
  "kinds cfg fl pods = (pods_of_kind cfg fl NodeTypeSpot pods, pods_of_kind cfg fl NodeTypeOnDemand pods)"

lemma kinds_append: "kinds cfg fl (pods @ [p]) =
  (if node_kind cfg fl (pod_NodeName p) = NodeTypeSpot then (fst (kinds cfg fl pods) @ [p], snd (kinds cfg fl pods))
   else if node_kind cfg fl (pod_NodeName p) = NodeTypeOnDemand then (fst (kinds cfg fl pods), snd (kinds cfg fl pods) @ [p])
   else kinds cfg fl pods)"
  by (simp add: kinds_def pods_of_kind_def)

lemma started_kind:
  assumes "schedulable fl sched (pinned p key v)" "good_nodes fl"
    and "\<forall>nd \<in> set (fl_Nodes fl). map_lookup (node_Labels nd) key = Some v \<longrightarrow> ClassifyNode cfg nd = t"
    and "matches (pod_Labels p)" "pod_DeletionTimestamp p = None" "t \<noteq> NodeTypeUnknown"
  shows "running cfg fl matches (started sched p (pinned p key v)) \<and>
    node_kind cfg fl (pod_NodeName (started sched p (pinned p key v))) = t"
proof -
  let ?p = "started sched p (pinned p key v)"
  obtain nd where nd: "nd \<in> set (fl_Nodes fl)" "node_Name nd = pod_NodeName ?p"
      "map_lookup (node_Labels nd) key = Some v"
    using assms(1) by (auto simp: schedulable_def started_def pinned_def map_lookup_def)
  then have "ClassifyNode cfg nd = t" using assms(3) by blast
  then have kind: "node_kind cfg fl (pod_NodeName ?p) = t"
    using node_kind_member [OF assms(2) nd(1), of cfg] nd(2) by simp
  have "lifecycleFor ?p = LifecycleReady"
    using assms(5) by (simp add: started_def lifecycleFor_def isTerminal_def isReady_def phase_defs)
  moreover have "pod_NodeName ?p \<in> set (map node_Name (fl_Nodes fl))" using nd(1,2) by force
  moreover have "matches (pod_Labels ?p)" using assms(4) by (simp add: started_def)
  ultimately show ?thesis using kind assms(6) by (simp add: running_def)
qed

context fleet_kind
begin

text \<open>The webhook decides by the counts of the pods that run, like the counting model.\<close>

lemma choice_fleet:
  assumes "ok fl as_sel matches config n" "\<forall>p \<in> set pods. running cfg fl matches p" "in_i32 (int (length pods))"
    and "handler_ready fl cfg m" "created fl p" "fresh_reading clk"
    and "determineTargetCapacityType (admission_at (view fl pods) as_sel clk) p config m = (det, m')"
  shows "(det = Inr capacityTypeSpot) =
      (place config (int n) (length (pods_of_kind cfg fl NodeTypeSpot pods)) (length (pods_of_kind cfg fl NodeTypeOnDemand pods)) =
        capacityTypeSpot)"
    and "handler_ready fl cfg m'" "mh_NodeClassifierConfig m' = mh_NodeClassifierConfig m"
proof -
  let ?e = "admission_at (view fl pods) as_sel clk" and ?w = "managed fl"
  let ?s = "length (pods_of_kind cfg fl NodeTypeSpot pods)" and ?d = "length (pods_of_kind cfg fl NodeTypeOnDemand pods)"
  have m: "synced fl (mh_NodeClassifier m)" "nk_config (mh_NodeClassifier m) = cfg" "mh_Observer m" "mh_AdmissionTracker m = None"
    using assms(4) by (simp_all add: handler_ready_def)
  note run = assms(2) [folded m(2)]
  from Observe_fleet [OF assms(1) run m(1) assms(3), of "clk 0" "clk 1" "clk 2"] obtain s svc where
    o: "Observe as_sel (view fl pods) (Some (ClassifyNodesByName (view fl pods) (clk 0) (clk 1)))
       (clk 2) ?w (mh_NodeClassifier m) = (Inr s, svc)"
    and svc: "synced fl svc" "nk_config svc = cfg" and s: "sn_ObservedAt s = clk 2" "sn_ClassificationError s = None"
    and counts: "ActualCounts s = (int ?s, int ?d)"
    unfolding m(2) by metis
  let ?m = "m\<lparr>mh_NodeClassifier := svc\<rparr>"
  have fresh: "IsFresh (Some s) (clk 3) DefaultPodListMaxAge"
    using assms(6) by (simp add: IsFresh_def fresh_reading_def s)
  note cap = observed_capacity_untracked [OF _ counts, of ?m]
  have "determineTargetCapacityType ?e p config m =
      ((case AllocateReplicaDistribution (int n) (AllocationPolicy config) of
          Inl err \<Rightarrow> Inl (WebhookAllocation err)
        | Inr a \<Rightarrow> Inr (effective_choice (int ?s) (int ?d) a)), ?m)"
    using o fresh s(2) m(3,4) ok_owner [OF assms(1,5)] ok_replicas [OF assms(1)] cap
    by (simp add: determineTargetCapacityType_def determine_observed_def admission_at_def Let_def split: sum.split)
  with assms(7) have det: "det = (case AllocateReplicaDistribution (int n) (AllocationPolicy config) of
          Inl err \<Rightarrow> Inl (WebhookAllocation err) | Inr a \<Rightarrow> Inr (effective_choice (int ?s) (int ?d) a))" and m': "m' = ?m"
    by simp_all
  show "(det = Inr capacityTypeSpot) = (place config (int n) ?s ?d = capacityTypeSpot)"
    by (auto simp: det place_def split: sum.splits)
  show "handler_ready fl cfg m'" "mh_NodeClassifierConfig m' = mh_NodeClassifierConfig m"
    using assms(4) svc by (simp_all add: m' handler_ready_def)
qed

lemma admission_fleet:
  assumes "ok fl as_sel matches config n" "\<forall>p \<in> set pods. running cfg fl matches p" "in_i32 (int (length pods))"
    and "handler_ready fl cfg m" "created fl p" "fresh_reading clk"
    and "getCapacityTypeLabelConfig m = (labelKey, spotValue, onDemandValue)"
    and "Handle (admission_at (view fl pods) as_sel clk) (creation p) m = ((resp, mets), m')"
  shows "admitted_selector resp p = pinned p labelKey (if place config (int n) (length (pods_of_kind cfg fl NodeTypeSpot pods))
        (length (pods_of_kind cfg fl NodeTypeOnDemand pods)) = capacityTypeSpot then spotValue else onDemandValue)"
    and "handler_ready fl cfg m'" "getCapacityTypeLabelConfig m' = (labelKey, spotValue, onDemandValue)"
proof -
  let ?e = "admission_at (view fl pods) as_sel clk"
  obtain det m1 where d: "determineTargetCapacityType ?e p config m = (det, m1)" by fastforce
  note ch = choice_fleet [OF assms(1-6) d]
  have lab: "getCapacityTypeLabelConfig m1 = (labelKey, spotValue, onDemandValue)"
    using assms(7) unfolding getCapacityTypeLabelConfig_def ch(3) .
  obtain kind name where "getWorkloadConfigForPod (we_api ?e 0) p = Some (config, kind, name)"
    using ok_config [OF assms(1,5), of pods] by (auto simp: admission_at_def)
  from mutatePod_patches [OF _ this d, of "creation p", unfolded lab fst_conv snd_conv] obtain mets1 where
    "mutatePod ?e (creation p) m = ((Patched ''applied Spotalis mutations''
       (nodeSelectorPatches p labelKey (if det = Inr capacityTypeSpot then spotValue else onDemandValue)), mets1), m1)"
    by (auto simp: creation_def)
  with assms(8) have r: "resp = Patched ''applied Spotalis mutations''
       (nodeSelectorPatches p labelKey (if det = Inr capacityTypeSpot then spotValue else onDemandValue))" "m' = m1"
    by (auto simp: Handle_def creation_def)
  show "admitted_selector resp p = pinned p labelKey (if place config (int n) (length (pods_of_kind cfg fl NodeTypeSpot pods))
        (length (pods_of_kind cfg fl NodeTypeOnDemand pods)) = capacityTypeSpot then spotValue else onDemandValue)"
    unfolding r(1) admitted_selector_def admission_response.case nodeSelectorPatches_apply ch(1) pinned_def ..
  show "handler_ready fl cfg m'" "getCapacityTypeLabelConfig m' = (labelKey, spotValue, onDemandValue)"
    using ch(2) lab r(2) by simp_all
qed

text \<open>So a pod that is created while others run ends up running in the class the counting model says.\<close>

lemma admit_new_fleet:
  assumes "ok fl as_sel matches config n" "\<forall>p \<in> set pods. running cfg fl matches p" "length pods < n"
    and "handler_ready fl cfg m" "getCapacityTypeLabelConfig m = labels" "labels_agree fl cfg labels"
    and "created fl p" "newcomer fl matches labels clk sched p"
    and "admit_new (view fl pods) as_sel clk sched p m = (new, m')"
  shows "running cfg fl matches new \<and> handler_ready fl cfg m' \<and> getCapacityTypeLabelConfig m' = labels \<and>
    node_kind cfg fl (pod_NodeName new) =
      (if place config (int n) (length (pods_of_kind cfg fl NodeTypeSpot pods)) (length (pods_of_kind cfg fl NodeTypeOnDemand pods)) =
        capacityTypeSpot then NodeTypeSpot else NodeTypeOnDemand) \<and>
    (\<exists>selector. new = started sched p selector)"
proof -
  obtain key sv dv where lab: "labels = (key, sv, dv)" by (metis prod_cases3)
  obtain resp mets m1 where h: "Handle (admission_at (view fl pods) as_sel clk) (creation p) m = ((resp, mets), m1)"
    by (metis prod.collapse)
  have size: "good_nodes fl" "in_i32 (int n)" using ok_size [OF assms(1)] by simp_all
  have i: "in_i32 (int (length pods))" using assms(3) size(2) by (auto simp: in_i32_def)
  have fresh: "fresh_reading clk" and p: "matches (pod_Labels p)" "pod_DeletionTimestamp p = None"
      "schedulable fl sched (pinned p key sv)" "schedulable fl sched (pinned p key dv)"
    using assms(8) by (simp_all add: newcomer_def lab)
  let ?spot = "place config (int n) (length (pods_of_kind cfg fl NodeTypeSpot pods))
    (length (pods_of_kind cfg fl NodeTypeOnDemand pods)) = capacityTypeSpot"
  note adm = admission_fleet [OF assms(1,2) i assms(4,7) fresh assms(5) [unfolded lab] h]
  have new: "new = started sched p (pinned p key (if ?spot then sv else dv))" "m' = m1"
    using assms(9) h by (simp_all add: admit_new_def adm(1))
  have agree: "\<forall>nd \<in> set (fl_Nodes fl). map_lookup (node_Labels nd) key = Some sv \<longrightarrow> ClassifyNode cfg nd = NodeTypeSpot"
      "\<forall>nd \<in> set (fl_Nodes fl). map_lookup (node_Labels nd) key = Some dv \<longrightarrow> ClassifyNode cfg nd = NodeTypeOnDemand"
    using assms(6) by (auto simp: labels_agree_def lab)
  show ?thesis
    using started_kind [where matches = matches and cfg = cfg and t = NodeTypeSpot, OF p(3) size(1) agree(1) p(1,2)]
      started_kind [where matches = matches and cfg = cfg and t = NodeTypeOnDemand, OF p(4) size(1) agree(2) p(1,2)]
      adm(2,3) lab new by auto
qed

end

text \<open>The target of a handler is the one of the counting model, whatever else its state holds.\<close>

lemma target_cong:
  fixes config :: WorkloadConfiguration
  assumes "ActualCounts snap = (int s, int d)"
  defines "st \<equiv> CalculateDesiredDistribution ((snapshot_state snap)\<lparr>rs_TotalReplicas := int (s + d)\<rparr>) config"
  shows "rs_CurrentSpot st = rs_CurrentSpot (loop_state config s d)"
    and "rs_CurrentOnDemand st = rs_CurrentOnDemand (loop_state config s d)"
    and "rs_DesiredSpot st = rs_DesiredSpot (loop_state config s d)"
    and "rs_DesiredOnDemand st = rs_DesiredOnDemand (loop_state config s d)"
  unfolding st_def loop_state_def using assms(1)
  by (auto simp: snapshot_state_def empty_replica_state_def intro!: desired_cong)

end
