(* ===== verification/Closed_Loop.thy ===== *)
theory Closed_Loop
  imports Fleet
begin

text \<open>
  The whole loop, with the handlers as they are: one round is a reconciliation of the
  Deployment (\<^verbatim>\<open>DeploymentReconciler.Reconcile\<close> with an observer), the
  removal of the pod it evicts, the admission of the pod the ReplicaSet creates instead
  (\<^verbatim>\<open>MutationHandler.Handle\<close>), the application of the patch, and the
  scheduling of the pod on a node with the labels its selector asks for.

  What Kubernetes does between the handlers (replacing a pod, binding it, running it) is what a
  round says; the theorem that a round of the real handlers is a round of
  \<^verbatim>\<open>Rebalancing_Loop\<close> carries the convergence over.
\<close>

section \<open>Deployments\<close>

record deployment_fleet = fleet +
  fl_Deployment :: deployment
  fl_ReplicaSet :: replica_set

definition cluster_view :: "deployment_fleet \<Rightarrow> pod list \<Rightarrow> k8s_client" where
  "cluster_view fl pods = (fl_Base fl)
     \<lparr>cl_GetDeployment := \<lambda>ns name.
        if ns = fl_Namespace fl \<and> name = wl_Name (fl_Deployment fl)
        then Inr (fl_Deployment fl) else Inl (StatusError ReasonNotFound),
      cl_GetReplicaSet := \<lambda>ns name.
        if ns = fl_Namespace fl \<and> name = rset_Name (fl_ReplicaSet fl)
        then Inr (fl_ReplicaSet fl) else Inl (StatusError ReasonNotFound),
      cl_GetNode := \<lambda>name. case find (\<lambda>nd. node_Name nd = name) (fl_Nodes fl) of
        None \<Rightarrow> Inl (StatusError ReasonNotFound) | Some nd \<Rightarrow> Inr nd,
      cl_ListNodes := Inr (fl_Nodes fl),
      cl_ListOwnedPods := \<lambda>ns uid.
        Inr (if ns = fl_Namespace fl \<and> uid = rset_UID (fl_ReplicaSet fl) then pods else []),
      cl_ListOwnedReplicaSets := \<lambda>ns uid.
        Inr (if ns = fl_Namespace fl \<and> uid = wl_UID (fl_Deployment fl) then [fl_ReplicaSet fl] else []),
      cl_Evict := \<lambda>p dryRun. if p \<in> set pods then None else Some (StatusError ReasonNotFound)\<rparr>"

text \<open>
  The Deployment that the fleet runs: it opted in, its annotations parse to the
  configuration, it wants \<open>n\<close> replicas and has them, and it owns the ReplicaSet.
\<close>

definition fleet_ok :: "deployment_fleet \<Rightarrow> as_selector \<Rightarrow> (string_map option \<Rightarrow> bool) \<Rightarrow> WorkloadConfiguration \<Rightarrow> nat \<Rightarrow> bool" where
  "fleet_ok fl as_sel matches config n \<longleftrightarrow>
     (let d = fl_Deployment fl; rs = fl_ReplicaSet fl
      in good_nodes fl \<and> 0 < n \<and> in_i32 (int n) \<and> wl_Namespace d = fl_Namespace fl \<and>
         wl_Replicas d = Some (int n) \<and> isDeploymentStableAndReady d \<and>
         IsSpotalisEnabled (wl_Object d) \<and> HasSpotalisAnnotations (wl_Object d) \<and>
         ParseWorkloadConfiguration (wl_Object d) = Inr config \<and> wc_Enabled config \<and>
         (\<exists>s. wl_Selector d = Some s \<and> as_sel s = Inr matches) \<and>
         rset_OwnerReferences rs =
           [\<lparr>or_Kind = workloadTypeDeployment, or_Name = wl_Name d, or_UID = wl_UID d, or_Controller = Some True\<rparr>])"

text \<open>A pod as the ReplicaSet creates it.\<close>

definition created_by :: "deployment_fleet \<Rightarrow> pod \<Rightarrow> bool" where
  "created_by fl p \<longleftrightarrow> pod_Namespace p = fl_Namespace fl \<and>
     pod_OwnerReferences p = [\<lparr>or_Kind = workloadTypeReplicaSet, or_Name = rset_Name (fl_ReplicaSet fl),
       or_UID = rset_UID (fl_ReplicaSet fl), or_Controller = Some True\<rparr>]"

interpretation deployments: fleet_kind cluster_view "\<lambda>fl. Deployment (fl_Deployment fl)" fleet_ok created_by
proof unfold_locales
  fix fl as_sel matches config n
  assume ok: "fleet_ok fl as_sel matches config n"
  then show "good_nodes fl \<and> 0 < n \<and> in_i32 (int n)" by (simp add: fleet_ok_def Let_def)
  show "workloadDesiredReplicas (Deployment (fl_Deployment fl)) = Inr (int n)"
    using ok by (simp add: fleet_ok_def Let_def workloadDesiredReplicas_def desiredReplicas_def)
  show "observed_pods as_sel (cluster_view fl pods) (Deployment (fl_Deployment fl)) = Inr pods"
    if "\<forall>p \<in> set pods. matches (pod_Labels p)" for pods
  proof -
    have "matchingPods matches pods = pods" using that by (auto simp: matchingPods_def intro: filter_True)
    with ok show ?thesis
      by (auto simp: fleet_ok_def Let_def observed_pods_def selectorFor_def deploymentPods_def cluster_view_def)
  qed
  show "workloadForPod (cluster_view fl pods) p = Inr (Deployment (fl_Deployment fl))"
    and "\<exists>kind name. getWorkloadConfigForPod (cluster_view fl pods) p = Some (config, kind, name)"
    if "created_by fl p" for pods p
    using ok that
    by (simp_all add: fleet_ok_def created_by_def Let_def workloadForPod_def deployment_of_replicaset_def cluster_view_def
        getWorkloadConfigForPod_def getConfigFromReplicaSet_def getConfigFromDeployment_def getConfigFromWorkload_def)
qed (simp_all add: cluster_view_def)

abbreviation controller_env :: "deployment_fleet \<Rightarrow> as_selector \<Rightarrow> (string \<Rightarrow> schedule option) \<Rightarrow> (nat \<Rightarrow> time) \<Rightarrow> pod list \<Rightarrow> env" where
  "controller_env fl as_sel parse clk pods \<equiv> env_at (cluster_view fl pods) as_sel parse clk insertionSort"

section \<open>One reconciliation of a fleet\<close>

lemma fleet_target:
  fixes config :: WorkloadConfiguration
  assumes "ActualCounts snap = (int s, int d)" "wl_Replicas dep = Some (int (s + d))"
  defines "st \<equiv> dep_target dep config (snapshot_state snap)"
  shows "dep_needsRebalancing st = dep_needsRebalancing (loop_state config s d)"
    and "dep_selectPodsForDeletion S D st = dep_selectPodsForDeletion S D (loop_state config s d)"
proof -
  have st: "st = CalculateDesiredDistribution ((snapshot_state snap)\<lparr>rs_TotalReplicas := int (s + d)\<rparr>) config"
    using assms(2) by (simp add: st_def dep_target_def)
  note same = target_cong [OF assms(1), of config, folded st]
  show "dep_needsRebalancing st = dep_needsRebalancing (loop_state config s d)"
    unfolding dep_needsRebalancing_def Let_def same ..
  show "dep_selectPodsForDeletion S D st = dep_selectPodsForDeletion S D (loop_state config s d)"
    unfolding dep_selectPodsForDeletion_def same ..
qed

lemma fleet_execute:
  assumes "loop_ready fl cfg r" "budgets_permit fl as_sel" "set picked \<subseteq> set pods"
    and "executeDeploymentRebalancing (controller_env fl as_sel parse clk pods) picked key r = (err, r', effs)"
  shows "err = None \<and> evictions effs = take 1 picked \<and> settled fl cfg key (clk 15) (picked \<noteq> []) r r'"
proof (cases picked)
  case Nil
  with assms(1,4) show ?thesis by (auto simp: executeDeploymentRebalancing_def settled_def)
next
  case (Cons p rest)
  let ?e = "controller_env fl as_sel parse clk pods"
  have ev: "snd (EvictPod (e_api ?e 6) p) = None"
    using assms(3) Cons by (simp add: EvictPod_def env_at_def cluster_view_def)
  have pdb: "budget_permits as_sel (cluster_view fl pods) p"
    using assms(2) by (simp add: budgets_permit_def budget_permits_def CheckPDBStatus_def cluster_view_def)
  have picked: "evictions effs = [p]"
    using dep_execute_evicts [of ?e p rest key r] pdb assms(4) Cons by (simp add: env_at_def)
  from assms(4) show ?thesis
  proof (cases rule: executeDeploymentRebalancing_cases)
    case (evicted p' rest')
    then show ?thesis using Cons settled_simps(5) [OF assms(1)] by (simp add: env_at_def)
  next
    case (refused p' rest')
    then show ?thesis using Cons ev by simp
  next
    case quiet
    then show ?thesis using picked by simp
  qed
qed

lemma fleet_rebalance:
  assumes "fleet_ok fl as_sel matches config n" "\<forall>p \<in> set pods. running cfg fl matches p"
    and "loop_ready fl cfg r" "length pods = n" "budgets_permit fl as_sel" "window_open fl (wl_Object (fl_Deployment fl)) parse (rc_Config r) (clk 10)"
    and "dep_rebalance (controller_env fl as_sel parse clk pods) req (fl_Deployment fl) st r = (res, r', effs)"
  defines "picked \<equiv> dep_selectPodsForDeletion (pods_of_kind cfg fl NodeTypeSpot pods) (pods_of_kind cfg fl NodeTypeOnDemand pods) st"
  shows "evictions effs = take 1 picked \<and> settled fl cfg (request_String req) (clk 15) (picked \<noteq> []) r r'"
proof -
  let ?e = "controller_env fl as_sel parse clk pods" and ?d = "fl_Deployment fl"
  have n: "in_i32 (int (length pods))" and ns: "wl_Namespace ?d = fl_Namespace fl"
    using assms(1,4) by (simp_all add: fleet_ok_def Let_def)
  obtain w where w: "dep_resolveDisruptionWindow ?e ?d r = Inr w" "w = None \<or> IsWithinWindow w (e_clk ?e 10)"
    using assms(6) ns by (auto simp: window_open_def dep_resolveDisruptionWindow_def env_at_def cluster_view_def)
  from deployments.observe_workload_fleet [OF assms(1-3) n, of parse clk insertionSort 4 12] obtain s svc where
    "observe_workload ?e 4 12 (Deployment ?d) r = (Inr s, r\<lparr>rc_NodeClassifier := svc\<rparr>)"
    "EligiblePods s = (pods_of_kind cfg fl NodeTypeSpot pods, pods_of_kind cfg fl NodeTypeOnDemand pods)"
    and ready: "loop_ready fl cfg (r\<lparr>rc_NodeClassifier := svc\<rparr>)" by blast
  then have "categorizeDeploymentPods ?e ?d r =
      (Inr (pods_of_kind cfg fl NodeTypeSpot pods, pods_of_kind cfg fl NodeTypeOnDemand pods), r\<lparr>rc_NodeClassifier := svc\<rparr>)"
    using assms(3) by (simp add: categorizeDeploymentPods_def loop_ready_def)
  then have perform: "dep_performPodRebalancing ?e ?d st key r = executeDeploymentRebalancing ?e picked key (r\<lparr>rc_NodeClassifier := svc\<rparr>)" for key
    by (simp add: dep_performPodRebalancing_def picked_def)
  obtain err r3 effs3 where ex: "executeDeploymentRebalancing ?e picked (request_String req) (r\<lparr>rc_NodeClassifier := svc\<rparr>) = (err, r3, effs3)"
    by (metis prod_cases3)
  have "set picked \<subseteq> set pods"
    by (auto simp: picked_def dep_selectPodsForDeletion_def dep_excess_def Let_def pods_of_kind_def
        split: if_splits dest!: set_take_int)
  note done1 = fleet_execute [OF ready assms(5) this ex]
  have "r' = markRecovered r3" "evictions effs = evictions effs3"
    using assms(7) w done1 by (auto simp: dep_rebalance_def perform ex Let_def)
  with done1 settled_trans [OF settled_simps(4) [OF ready]] settled_recovered show ?thesis by metis
qed

lemma fleet_process:
  assumes "fleet_ok fl as_sel matches config n" "\<forall>p \<in> set pods. running cfg fl matches p"
    and "loop_ready fl cfg r" "length pods = n" "budgets_permit fl as_sel" "window_open fl (wl_Object (fl_Deployment fl)) parse (rc_Config r) (clk 10)"
    and "dep_process (controller_env fl as_sel parse clk pods) req (fl_Deployment fl) r = (res, r', effs)"
  defines "S \<equiv> pods_of_kind cfg fl NodeTypeSpot pods" and "D \<equiv> pods_of_kind cfg fl NodeTypeOnDemand pods"
  defines "st \<equiv> loop_state config (length S) (length D)"
  defines "picked \<equiv> if dep_needsRebalancing st then dep_selectPodsForDeletion S D st else []"
  shows "evictions effs = take 1 picked \<and> settled fl cfg (request_String req) (clk 15) (picked \<noteq> []) r r'"
proof -
  let ?e = "controller_env fl as_sel parse clk pods" and ?d = "fl_Deployment fl"
  have n: "in_i32 (int (length pods))" and d: "isDeploymentStableAndReady ?d" "ParseWorkloadConfiguration (wl_Object ?d) = Inr config"
    and reps: "wl_Replicas ?d = Some (int (length S + length D))"
    using assms(1,4) kind_counts [OF assms(2)] by (simp_all add: fleet_ok_def Let_def S_def D_def)
  from deployments.observe_workload_fleet [OF assms(1-3) n, of parse clk insertionSort 2 5] obtain s svc where
    "observe_workload ?e 2 5 (Deployment ?d) r = (Inr s, r\<lparr>rc_NodeClassifier := svc\<rparr>)"
    and counts: "ActualCounts s = (int (length S), int (length D))"
    and ready: "loop_ready fl cfg (r\<lparr>rc_NodeClassifier := svc\<rparr>)" unfolding S_def D_def by blast
  then have calc: "dep_calculateCurrentReplicaState ?e ?d r = (Inr (snapshot_state s), r\<lparr>rc_NodeClassifier := svc\<rparr>)"
    using assms(3) by (simp add: dep_calculateCurrentReplicaState_def loop_ready_def)
  note target = fleet_target [OF counts reps, where config = config, folded st_def]
  note first = settled_simps(4) [OF ready, of "request_String req" "clk 15"]
  from assms(7) show ?thesis
  proof (cases rule: dep_process_cases)
    case (balanced config' st' r1)
    then have "\<not> dep_needsRebalancing st" "r' = markRecovered (r\<lparr>rc_NodeClassifier := svc\<rparr>)"
      using d(2) calc target(1) by auto
    moreover from this have "settled fl cfg (request_String req) (clk 15) False r r'"
      using settled_recovered [OF first] by simp
    ultimately show ?thesis using balanced(5) by (simp add: picked_def)
  next
    case (rebalanced config' st' r1)
    then have c: "config' = config" "st' = snapshot_state s" "r1 = r\<lparr>rc_NodeClassifier := svc\<rparr>"
      using d(2) calc by auto
    have "window_open fl (wl_Object (fl_Deployment fl)) parse (rc_Config (r\<lparr>rc_NodeClassifier := svc\<rparr>)) (clk 10)" using assms(6) by simp
    note reb = fleet_rebalance [OF assms(1,2) ready assms(4,5) this rebalanced(5) [unfolded c]]
    have "dep_needsRebalancing st" using rebalanced(4) target(1) c by simp
    with reb target(2) settled_trans [OF first] show ?thesis by (simp add: picked_def S_def D_def)
  qed (use d calc in auto)
qed

lemma fleet_reconcile:
  assumes "fleet_ok fl as_sel matches config n" "\<forall>p \<in> set pods. running cfg fl matches p"
    and "loop_ready fl cfg r" "length pods = n" "budgets_permit fl as_sel" "window_open fl (wl_Object (fl_Deployment fl)) parse (rc_Config r) (clk 10)"
    and "req = \<lparr>rq_Namespace = fl_Namespace fl, rq_Name = wl_Name (fl_Deployment fl)\<rparr>"
    and "cooldown_gate (controller_env fl as_sel parse clk pods) (request_String req) r = GatePass"
    and "dep_Reconcile (controller_env fl as_sel parse clk pods) req r = (res, r', effs)"
  defines "S \<equiv> pods_of_kind cfg fl NodeTypeSpot pods" and "D \<equiv> pods_of_kind cfg fl NodeTypeOnDemand pods"
  defines "st \<equiv> loop_state config (length S) (length D)"
  defines "picked \<equiv> if dep_needsRebalancing st then dep_selectPodsForDeletion S D st else []"
  shows "evictions effs = take 1 picked \<and> settled fl cfg (request_String req) (clk 15) (picked \<noteq> []) r r'"
proof -
  let ?e = "controller_env fl as_sel parse clk pods" and ?d = "fl_Deployment fl"
  let ?r = "r\<lparr>rc_reconcileCount := i64 (rc_reconcileCount r + 1)\<rparr>"
  have get: "cl_GetDeployment (e_api ?e 0) (rq_Namespace req) (rq_Name req) = Inr ?d"
    by (simp add: assms(7) env_at_def cluster_view_def)
  have enabled: "IsSpotalisEnabled (wl_Object ?d)" and ns: "wl_Namespace ?d = fl_Namespace fl"
    using assms(1) by (simp_all add: fleet_ok_def Let_def)
  have "filter_ok fl (rc_NamespaceFilter ?r)" using assms(3) by (simp add: loop_ready_def)
  from gate_admits [OF this deployments.gets_namespace, of pods as_sel parse clk insertionSort] obtain f where
    gate: "namespace_gate ?e (wl_Namespace ?d) ?r = (True, ?r\<lparr>rc_NamespaceFilter := f\<rparr>)" and f: "filter_ok fl f"
    unfolding ns by blast
  have ready: "settled fl cfg (request_String req) (clk 15) False r (?r\<lparr>rc_NamespaceFilter := f\<rparr>)"
    using settled_trans [OF settled_simps(2) [OF assms(3)] settled_simps(3) [OF _ f]] assms(3)
    by (simp add: loop_ready_def)
  then have r1: "loop_ready fl cfg (?r\<lparr>rc_NamespaceFilter := f\<rparr>)" by (simp add: settled_def)
  from assms(9) show ?thesis
  proof (cases rule: dep_Reconcile_cases)
    case (processed d r0 r1' effs1)
    then have c: "d = ?d" "r1' = ?r\<lparr>rc_NamespaceFilter := f\<rparr>" using get gate by auto
    have "window_open fl (wl_Object (fl_Deployment fl)) parse (rc_Config (?r\<lparr>rc_NamespaceFilter := f\<rparr>)) (clk 10)" using assms(6) by simp
    from fleet_process [OF assms(1,2) r1 assms(4,5) this processed(7) [unfolded c]] processed(8) settled_trans [OF ready]
    show ?thesis unfolding picked_def st_def S_def D_def by metis
  qed (use get enabled gate assms(8) in auto)
qed

section \<open>A round of the loop\<close>

text \<open>
  The world around the handlers: the fleet, the library functions, the readings of the clock
  in every round, the pods the ReplicaSet creates and where the scheduler puts them.
\<close>

record loop_world =
  lw_Fleet :: deployment_fleet
  lw_Selector :: as_selector
  lw_Parse :: "string \<Rightarrow> schedule option"
  lw_Clock :: "nat \<Rightarrow> nat \<Rightarrow> time"
  lw_AdmissionClock :: "nat \<Rightarrow> nat \<Rightarrow> time"
  lw_Template :: "nat \<Rightarrow> pod"
  lw_Schedule :: "nat \<Rightarrow> string_map option \<Rightarrow> string"

record loop_point =
  lp_Reconciler :: reconciler
  lp_Handler :: MutationHandler
  lp_Pods :: "pod list"

definition fleet_request :: "deployment_fleet \<Rightarrow> request" where
  "fleet_request fl = \<lparr>rq_Namespace = fl_Namespace fl, rq_Name = wl_Name (fl_Deployment fl)\<rparr>"

definition closed_round :: "loop_world \<Rightarrow> nat \<Rightarrow> loop_point \<Rightarrow> loop_point" where
  "closed_round W k x =
     (case dep_Reconcile (controller_env (lw_Fleet W) (lw_Selector W) (lw_Parse W) (lw_Clock W k) (lp_Pods x))
             (fleet_request (lw_Fleet W)) (lp_Reconciler x) of
        (res, r, effs) \<Rightarrow>
          (case evictions effs of
             [] \<Rightarrow> x\<lparr>lp_Reconciler := r\<rparr>
           | p # _ \<Rightarrow>
              if snd (EvictPod (cluster_view (lw_Fleet W) (lp_Pods x)) p) \<noteq> None then x\<lparr>lp_Reconciler := r\<rparr>
              else (let pods = remove1 p (lp_Pods x)
                    in case admit_new (cluster_view (lw_Fleet W) pods) (lw_Selector W) (lw_AdmissionClock W k)
                              (lw_Schedule W k) (lw_Template W k) (lp_Handler x) of
                         (new, m) \<Rightarrow> \<lparr>lp_Reconciler = r, lp_Handler = m, lp_Pods = pods @ [new]\<rparr>)))"

fun closed_rounds :: "loop_world \<Rightarrow> nat \<Rightarrow> loop_point \<Rightarrow> loop_point" where
  "closed_rounds W 0 x = x"
| "closed_rounds W (Suc k) x = closed_round W k (closed_rounds W k x)"

text \<open>The pods are created for the ReplicaSet, and can be scheduled.\<close>

definition world_ok :: "loop_world \<Rightarrow> (string_map option \<Rightarrow> bool) \<Rightarrow> WorkloadConfiguration \<Rightarrow> nat \<Rightarrow> string \<times> string \<times> string \<Rightarrow> bool" where
  "world_ok W matches config n labels \<longleftrightarrow>
     fleet_ok (lw_Fleet W) (lw_Selector W) matches config n \<and> budgets_permit (lw_Fleet W) (lw_Selector W) \<and>
     (\<forall>k. created_by (lw_Fleet W) (lw_Template W k) \<and>
        newcomer (lw_Fleet W) matches labels (lw_AdmissionClock W k) (lw_Schedule W k) (lw_Template W k))"

text \<open>The set-up between two rounds.\<close>

definition point_ok :: "loop_world \<Rightarrow> NodeClassifierConfig \<Rightarrow> (string_map option \<Rightarrow> bool) \<Rightarrow> nat \<Rightarrow> string \<times> string \<times> string \<Rightarrow>
    loop_point \<Rightarrow> bool" where
  "point_ok W cfg matches n labels x \<longleftrightarrow> loop_ready (lw_Fleet W) cfg (lp_Reconciler x) \<and>
     handler_ready (lw_Fleet W) cfg (lp_Handler x) \<and> getCapacityTypeLabelConfig (lp_Handler x) = labels \<and>
     length (lp_Pods x) = n \<and> (\<forall>p \<in> set (lp_Pods x). running cfg (lw_Fleet W) matches p)"

section \<open>A round of the handlers is a round of the counting model\<close>

lemma dep_excess_subset: "set (dep_excess pods n) \<subseteq> set pods"
  by (auto simp: dep_excess_def Let_def split: if_splits dest!: set_take_int)

lemma evict_first_kinds:
  assumes "kinds cfg fl pods = (S, D)" "dep_selectPodsForDeletion S D st = p # rest"
  shows "\<exists>S' D'. evict_first S D st = Some (p, S', D') \<and> kinds cfg fl (remove1 p pods) = (S', D')" and "p \<in> set pods"
proof -
  have k: "S = pods_of_kind cfg fl NodeTypeSpot pods" "D = pods_of_kind cfg fl NodeTypeOnDemand pods"
    using assms(1) by (simp_all add: kinds_def)
  have rem: "kinds cfg fl (remove1 p pods) = (remove1 p S, remove1 p D)"
    unfolding kinds_def k pods_of_kind_def by (simp add: filter_remove1)
  have "p \<in> set S \<and> evict_first S D st = Some (p, remove1 p S, D) \<or>
      p \<in> set D \<and> evict_first S D st = Some (p, S, remove1 p D)"
  proof (cases "dep_excess S (rs_DesiredSpot st)")
    case Nil
    then have "dep_excess D (rs_DesiredOnDemand st) = p # rest" using assms(2) by (simp add: dep_selectPodsForDeletion_def)
    with Nil dep_excess_subset [of D "rs_DesiredOnDemand st"] show ?thesis by (simp add: evict_first_def)
  next
    case (Cons q qs)
    then have "q = p" using assms(2) by (simp add: dep_selectPodsForDeletion_def)
    with Cons dep_excess_subset [of S "rs_DesiredSpot st"] show ?thesis by (simp add: evict_first_def)
  qed
  moreover have "p \<in> set S \<Longrightarrow> remove1 p D = D" "p \<in> set D \<Longrightarrow> remove1 p S = S" "p \<in> set S \<or> p \<in> set D \<Longrightarrow> p \<in> set pods"
    by (auto simp: k pods_of_kind_def intro!: remove1_idem)
  ultimately show "\<exists>S' D'. evict_first S D st = Some (p, S', D') \<and> kinds cfg fl (remove1 p pods) = (S', D')" and "p \<in> set pods"
    using rem by auto
qed

lemma replaced_round:
  assumes "world_ok W matches config n labels" "labels_agree (lw_Fleet W) cfg labels" "point_ok W cfg matches n labels x"
    and "p \<in> set (lp_Pods x)"
    and "admit_new (cluster_view (lw_Fleet W) (remove1 p (lp_Pods x))) (lw_Selector W) (lw_AdmissionClock W k)
      (lw_Schedule W k) (lw_Template W k) (lp_Handler x) = (new, m)"
    and "kinds cfg (lw_Fleet W) (remove1 p (lp_Pods x)) = (S', D')" "loop_ready (lw_Fleet W) cfg r"
  shows "kinds cfg (lw_Fleet W) (remove1 p (lp_Pods x) @ [new]) =
      (if place config (int n) (length S') (length D') = capacityTypeSpot then (S' @ [new], D') else (S', D' @ [new]))"
    and "point_ok W cfg matches n labels \<lparr>lp_Reconciler = r, lp_Handler = m, lp_Pods = remove1 p (lp_Pods x) @ [new]\<rparr>"
proof -
  let ?fl = "lw_Fleet W" and ?pods = "remove1 p (lp_Pods x)" and ?t = "lw_Template W k"
  have w: "fleet_ok ?fl (lw_Selector W) matches config n" "created_by ?fl ?t"
      "newcomer ?fl matches labels (lw_AdmissionClock W k) (lw_Schedule W k) ?t"
    using assms(1) by (simp_all add: world_ok_def)
  have x: "handler_ready ?fl cfg (lp_Handler x)" "getCapacityTypeLabelConfig (lp_Handler x) = labels"
      "length (lp_Pods x) = n" "\<forall>q \<in> set (lp_Pods x). running cfg ?fl matches q"
    using assms(3) by (simp_all add: point_ok_def)
  have run: "\<forall>q \<in> set ?pods. running cfg ?fl matches q" using x(4) by (auto dest: notin_set_remove1)
  have "0 < n" using deployments.ok_size [OF w(1)] by blast
  then have len: "length ?pods < n" "length ?pods = n - 1" "0 < n" using assms(4) x(3) by (simp_all add: length_remove1)
  have S: "S' = pods_of_kind cfg ?fl NodeTypeSpot ?pods" "D' = pods_of_kind cfg ?fl NodeTypeOnDemand ?pods"
    using assms(6) by (simp_all add: kinds_def)
  note new = deployments.admit_new_fleet [OF w(1) run len(1) x(1,2) assms(2) w(2,3) assms(5), folded S]
  show "kinds cfg ?fl (?pods @ [new]) =
      (if place config (int n) (length S') (length D') = capacityTypeSpot then (S' @ [new], D') else (S', D' @ [new]))"
    using new assms(6) by (simp add: kinds_append)
  show "point_ok W cfg matches n labels \<lparr>lp_Reconciler = r, lp_Handler = m, lp_Pods = ?pods @ [new]\<rparr>"
    using new assms(7) run len(2,3) by (auto simp: point_ok_def)
qed

lemma evicting_round:
  assumes "world_ok W matches config n labels" "labels_agree (lw_Fleet W) cfg labels" "point_ok W cfg matches n labels x"
    and "dep_Reconcile (controller_env (lw_Fleet W) (lw_Selector W) (lw_Parse W) (lw_Clock W k) (lp_Pods x))
      (fleet_request (lw_Fleet W)) (lp_Reconciler x) = (res, r, effs)"
    and "evictions effs = [p]" "loop_ready (lw_Fleet W) cfg r"
    and "kinds cfg (lw_Fleet W) (lp_Pods x) = (S, D)" "dep_needsRebalancing (loop_state config (length S) (length D))"
    and "dep_selectPodsForDeletion S D (loop_state config (length S) (length D)) = p # rest"
  shows "(\<exists>new. kinds cfg (lw_Fleet W) (lp_Pods (closed_round W k x)) = rebalance_round config new (S, D)) \<and>
    point_ok W cfg matches n labels (closed_round W k x) \<and> lp_Reconciler (closed_round W k x) = r"
proof -
  let ?fl = "lw_Fleet W" and ?pods = "lp_Pods x" and ?st = "loop_state config (length S) (length D)"
  obtain S' D' where ef: "evict_first S D ?st = Some (p, S', D')" "kinds cfg ?fl (remove1 p ?pods) = (S', D')"
    using evict_first_kinds(1) [OF assms(7,9)] by blast
  have p: "p \<in> set ?pods" by (rule evict_first_kinds(2) [OF assms(7,9)])
  obtain new m where h: "admit_new (cluster_view ?fl (remove1 p ?pods)) (lw_Selector W) (lw_AdmissionClock W k)
      (lw_Schedule W k) (lw_Template W k) (lp_Handler x) = (new, m)" by fastforce
  have x': "closed_round W k x = \<lparr>lp_Reconciler = r, lp_Handler = m, lp_Pods = remove1 p ?pods @ [new]\<rparr>"
    using assms(4,5) p h by (simp add: closed_round_def EvictPod_def deployments.evicts Let_def)
  note rep = replaced_round [OF assms(1-3) p h ef(2) assms(6)]
  have "rs_TotalReplicas ?st = int n"
    using kind_counts [of ?pods cfg ?fl matches] assms(3,7) by (auto simp: loop_state_def kinds_def point_ok_def)
  then have "rebalance_round config new (S, D) =
      (if place config (int n) (length S') (length D') = capacityTypeSpot then (S' @ [new], D') else (S', D' @ [new]))"
    using assms(8) ef(1) by (simp add: rebalance_round_def Let_def)
  then have "kinds cfg ?fl (lp_Pods (closed_round W k x)) = rebalance_round config new (S, D)" using rep(1) by (simp add: x')
  with rep(2) show ?thesis by (auto simp: x')
qed

lemma closed_round_refines:
  assumes "world_ok W matches config n labels" "labels_agree (lw_Fleet W) cfg labels" "point_ok W cfg matches n labels x"
    and "window_open (lw_Fleet W) (wl_Object (fl_Deployment (lw_Fleet W))) (lw_Parse W) (rc_Config (lp_Reconciler x)) (lw_Clock W k 10)"
    and "cooldown_gate (controller_env (lw_Fleet W) (lw_Selector W) (lw_Parse W) (lw_Clock W k) (lp_Pods x))
      (request_String (fleet_request (lw_Fleet W))) (lp_Reconciler x) = GatePass"
  defines "x' \<equiv> closed_round W k x" and "key \<equiv> request_String (fleet_request (lw_Fleet W))"
  shows "\<exists>new. kinds cfg (lw_Fleet W) (lp_Pods x') = rebalance_round config new (kinds cfg (lw_Fleet W) (lp_Pods x))"
    and "point_ok W cfg matches n labels x'"
    and "\<exists>b. settled (lw_Fleet W) cfg key (lw_Clock W k 15) b (lp_Reconciler x) (lp_Reconciler x')"
    and "length (fst (kinds cfg (lw_Fleet W) (lp_Pods x))) = spot_target config n \<Longrightarrow> lp_Pods x' = lp_Pods x"
proof -
  let ?fl = "lw_Fleet W" and ?pods = "lp_Pods x"
  let ?e = "controller_env ?fl (lw_Selector W) (lw_Parse W) (lw_Clock W k) ?pods"
  obtain S D where SD: "kinds cfg ?fl ?pods = (S, D)" by fastforce
  then have k: "S = pods_of_kind cfg ?fl NodeTypeSpot ?pods" "D = pods_of_kind cfg ?fl NodeTypeOnDemand ?pods"
    by (simp_all add: kinds_def)
  define st where "st = loop_state config (length S) (length D)"
  define picked where "picked = (if dep_needsRebalancing st then dep_selectPodsForDeletion S D st else [])"
  have w: "fleet_ok ?fl (lw_Selector W) matches config n" "budgets_permit ?fl (lw_Selector W)"
    using assms(1) by (simp_all add: world_ok_def)
  have x: "loop_ready ?fl cfg (lp_Reconciler x)" "length ?pods = n" "\<forall>q \<in> set ?pods. running cfg ?fl matches q"
    using assms(3) by (simp_all add: point_ok_def)
  obtain res r effs where rec: "dep_Reconcile ?e (fleet_request ?fl) (lp_Reconciler x) = (res, r, effs)"
    by (metis prod_cases3)
  from fleet_reconcile [OF w(1) x(3,1,2) w(2) assms(4) fleet_request_def assms(5) rec, folded k, folded st_def, folded picked_def]
  have ev: "evictions effs = take 1 picked" and sett: "settled ?fl cfg key (lw_Clock W k 15) (picked \<noteq> []) (lp_Reconciler x) r"
    by (simp_all add: key_def)
  have r: "loop_ready ?fl cfg r" using sett by (simp add: settled_def)
  have "(\<exists>new. kinds cfg ?fl (lp_Pods x') = rebalance_round config new (S, D)) \<and> point_ok W cfg matches n labels x' \<and>
      lp_Reconciler x' = r \<and> (picked = [] \<longrightarrow> lp_Pods x' = lp_Pods x)"
  proof (cases picked)
    case Nil
    then have "x' = x\<lparr>lp_Reconciler := r\<rparr>" using rec ev by (simp add: x'_def closed_round_def)
    moreover have "rebalance_round config new (S, D) = (S, D)" for new
      using Nil evict_first_selected [of S D st]
      by (auto simp: rebalance_round_def Let_def st_def [symmetric] picked_def split: if_splits)
    ultimately show ?thesis using SD assms(3) r by (simp add: point_ok_def)
  next
    case (Cons p rest)
    then have need: "dep_needsRebalancing st" and sel: "dep_selectPodsForDeletion S D st = p # rest"
      by (simp_all add: picked_def split: if_splits)
    have "evictions effs = [p]" using ev Cons by simp
    from evicting_round [OF assms(1-3) rec this r SD need [unfolded st_def] sel [unfolded st_def]]
    show ?thesis using Cons by (simp add: x'_def)
  qed
  moreover have "picked = []" if "length (fst (kinds cfg ?fl ?pods)) = spot_target config n"
  proof -
    have "in_i32 (int (length S + length D))" "length S + length D = n"
      using kind_counts [OF x(3)] x(2) w(1) by (simp_all add: k fleet_ok_def Let_def)
    from needs_iff [OF this(1), of config] that SD this(2) show ?thesis by (simp add: picked_def st_def)
  qed
  ultimately show "length (fst (kinds cfg ?fl ?pods)) = spot_target config n \<Longrightarrow> lp_Pods x' = lp_Pods x"
    and "\<exists>new. kinds cfg ?fl (lp_Pods x') = rebalance_round config new (kinds cfg ?fl ?pods)"
    and "point_ok W cfg matches n labels x'"
    and "\<exists>b. settled ?fl cfg key (lw_Clock W k 15) b (lp_Reconciler x) (lp_Reconciler x')"
    using SD sett by auto
qed

section \<open>All rounds\<close>

text \<open>
  Where the loop starts, and its pace: nothing was deleted yet, the rounds are a cooldown
  apart, and the disruption window (if any) is open in each.
\<close>

definition loop_start :: "loop_world \<Rightarrow> NodeClassifierConfig \<Rightarrow> (string_map option \<Rightarrow> bool) \<Rightarrow> nat \<Rightarrow> string \<times> string \<times> string \<Rightarrow>
    loop_point \<Rightarrow> bool" where
  "loop_start W cfg matches n labels x \<longleftrightarrow> point_ok W cfg matches n labels x \<and>
     in_i64 (getCooldownPeriod (lp_Reconciler x)) \<and>
     rc_lastDeletionTimes (lp_Reconciler x) (request_String (fleet_request (lw_Fleet W))) = None \<and>
     (\<forall>j k. j < k \<longrightarrow> lw_Clock W j 15 + getCooldownPeriod (lp_Reconciler x) \<le> lw_Clock W k 3) \<and>
     (\<forall>k. window_open (lw_Fleet W) (wl_Object (fl_Deployment (lw_Fleet W))) (lw_Parse W) (rc_Config (lp_Reconciler x)) (lw_Clock W k 10))"

text \<open>What holds after \<open>k\<close> rounds: the recorded deletion, if any, is one of an earlier round.\<close>

definition paced :: "loop_world \<Rightarrow> nat \<Rightarrow> loop_point \<Rightarrow> loop_point \<Rightarrow> bool" where
  "paced W k x y \<longleftrightarrow> rc_Config (lp_Reconciler y) = rc_Config (lp_Reconciler x) \<and>
     getCooldownPeriod (lp_Reconciler y) = getCooldownPeriod (lp_Reconciler x) \<and>
     rc_lastDeletionTimes (lp_Reconciler y) (request_String (fleet_request (lw_Fleet W))) \<in>
       insert None ((\<lambda>j. Some (TimeValue (lw_Clock W j 15))) ` {..<k})"

lemma paced_gate:
  assumes "loop_start W cfg matches n labels x" "paced W k x y"
  shows "cooldown_gate (controller_env fl as_sel parse (lw_Clock W k) pods)
    (request_String (fleet_request (lw_Fleet W))) (lp_Reconciler y) = GatePass"
proof -
  have c: "getCooldownPeriod (lp_Reconciler y) = getCooldownPeriod (lp_Reconciler x)" using assms(2) by (simp add: paced_def)
  have i: "in_i64 (getCooldownPeriod (lp_Reconciler y))" using assms(1) unfolding c by (simp add: loop_start_def)
  have "cooled_down (controller_env fl as_sel parse (lw_Clock W k) pods)
      (request_String (fleet_request (lw_Fleet W))) (lp_Reconciler y)"
    using assms unfolding cooled_down_def c by (auto simp: loop_start_def paced_def env_at_def)
  with cooled_down_iff [OF i] show ?thesis by blast
qed

lemma closed_rounds_step:
  assumes "world_ok W matches config n labels" "labels_agree (lw_Fleet W) cfg labels" "loop_start W cfg matches n labels x"
    and "point_ok W cfg matches n labels y" "paced W k x y"
  shows "\<exists>new. kinds cfg (lw_Fleet W) (lp_Pods (closed_round W k y)) = rebalance_round config new (kinds cfg (lw_Fleet W) (lp_Pods y))"
    and "point_ok W cfg matches n labels (closed_round W k y)" and "paced W (Suc k) x (closed_round W k y)"
    and "length (fst (kinds cfg (lw_Fleet W) (lp_Pods y))) = spot_target config n \<Longrightarrow> lp_Pods (closed_round W k y) = lp_Pods y"
proof -
  have "rc_Config (lp_Reconciler y) = rc_Config (lp_Reconciler x)" using assms(5) by (simp add: paced_def)
  then have open1: "window_open (lw_Fleet W) (wl_Object (fl_Deployment (lw_Fleet W))) (lw_Parse W) (rc_Config (lp_Reconciler y)) (lw_Clock W k 10)"
    using assms(3) by (simp add: loop_start_def)
  note ref = closed_round_refines [OF assms(1,2,4) open1 paced_gate [OF assms(3,5)]]
  show "\<exists>new. kinds cfg (lw_Fleet W) (lp_Pods (closed_round W k y)) = rebalance_round config new (kinds cfg (lw_Fleet W) (lp_Pods y))"
    and "point_ok W cfg matches n labels (closed_round W k y)"
    and "length (fst (kinds cfg (lw_Fleet W) (lp_Pods y))) = spot_target config n \<Longrightarrow> lp_Pods (closed_round W k y) = lp_Pods y"
    by (rule ref)+
  from ref(3) obtain b where "settled (lw_Fleet W) cfg (request_String (fleet_request (lw_Fleet W))) (lw_Clock W k 15) b
      (lp_Reconciler y) (lp_Reconciler (closed_round W k y))" by blast
  with assms(5) show "paced W (Suc k) x (closed_round W k y)"
    by (auto simp: settled_def paced_def lessThan_Suc)
qed

lemma closed_rounds_invariant:
  assumes "world_ok W matches config n labels" "labels_agree (lw_Fleet W) cfg labels" "loop_start W cfg matches n labels x"
  shows "point_ok W cfg matches n labels (closed_rounds W k x) \<and> paced W k x (closed_rounds W k x)"
proof (induction k)
  case 0
  then show ?case using assms(3) by (simp add: loop_start_def paced_def)
next
  case (Suc k)
  with closed_rounds_step(2,3) [OF assms] show ?case by simp
qed

lemma point_kinds:
  assumes "point_ok W cfg matches n labels x" "kinds cfg (lw_Fleet W) (lp_Pods x) = (S, D)"
  shows "length S + length D = n"
  using kind_counts [of "lp_Pods x" cfg "lw_Fleet W" matches] assms by (simp add: point_ok_def kinds_def)

lemma closed_rounds_counts:
  assumes "world_ok W matches config n labels" "labels_agree (lw_Fleet W) cfg labels" "loop_start W cfg matches n labels x"
  defines "spots \<equiv> \<lambda>y. length (fst (kinds cfg (lw_Fleet W) (lp_Pods y)))" and "T \<equiv> spot_target config n"
  shows "spots (closed_rounds W k x) = (if T < spots x then max T (spots x - k) else min T (spots x + k))"
proof (induction k)
  case 0
  then show ?case by (auto simp: max_def min_def)
next
  case (Suc k)
  let ?y = "closed_rounds W k x"
  obtain S D where sd: "kinds cfg (lw_Fleet W) (lp_Pods ?y) = (S, D)" by fastforce
  obtain S' D' where sd': "kinds cfg (lw_Fleet W) (lp_Pods (closed_round W k ?y)) = (S', D')" by fastforce
  from closed_rounds_invariant [OF assms(1-3), of k] have inv: "point_ok W cfg matches n labels ?y" "paced W k x ?y" by auto
  from closed_rounds_step(1) [OF assms(1-3) inv] sd sd' obtain new where
    rr: "rebalance_round config new (S, D) = (S', D')" by metis
  have c: "wc_Enabled config" "in_i32 (int n)" using assms(1) by (simp_all add: world_ok_def fleet_ok_def Let_def)
  note n = point_kinds [OF inv(1) sd]
  have "in_i32 (int (length S + length D))" using c(2) n by simp
  note rc = round_counts(2) [OF c(1) this rr, unfolded n, folded T_def]
  have "spots (closed_round W k ?y) = length S'" "spots ?y = length S" by (simp_all add: spots_def sd sd')
  with rc Suc show ?case by (auto simp: max_def min_def split: if_splits)
qed

section \<open>A concrete fleet\<close>

text \<open>Two replicas on the on-demand node of a cluster that also has a spot node; one of them should be there.\<close>

definition sample_fleet :: deployment_fleet where
  "sample_fleet = \<lparr>fl_Base = sample_api, fl_Namespace = wl_Namespace sample_deployment,
     fl_Nodes = [sample_node ''n0'' [(labelCapacityType, ''on-demand'')], sample_node ''n1'' [(labelCapacityType, ''spot'')]],
     fl_Deployment = sample_deployment,
     fl_ReplicaSet = \<lparr>rset_Name = ''web-7c'', rset_UID = ''r1'', rset_OwnerReferences =
       [\<lparr>or_Kind = workloadTypeDeployment, or_Name = ''web'', or_UID = ''u1'', or_Controller = Some True\<rparr>]\<rparr>\<rparr>"

definition sample_world :: loop_world where
  "sample_world = \<lparr>lw_Fleet = sample_fleet, lw_Selector = match_labels, lw_Parse = \<lambda>_. None,
     lw_Clock = (\<lambda>k i. 9 * Minute + int k * Minute), lw_AdmissionClock = (\<lambda>k i. 9 * Minute + int k * Minute),
     lw_Template = (\<lambda>k. (sample_pod (''web-'' @ FormatInt (int k + 2)) [])\<lparr>pod_Phase := PodPending, pod_Conditions := [],
       pod_OwnerReferences := [\<lparr>or_Kind = workloadTypeReplicaSet, or_Name = ''web-7c'', or_UID = ''r1'', or_Controller = Some True\<rparr>]\<rparr>),
     lw_Schedule = (\<lambda>k selector. if map_lookup selector CapacityTypeLabel = Some ''spot'' then ''n1'' else ''n0'')\<rparr>"

lemmas sample_fleet_defs = sample_world_def sample_fleet_def sample_deployment_def sample_workload_def sample_api_def
  two_nodes_def empty_cluster_def sample_node_def sample_pod_def workload.defs deployment.defs deployment_fleet.defs fleet.defs

lemma sample_fleet_ok: "fleet_ok sample_fleet match_labels (\<lambda>_. True) sample_config 2"
  using sample_object_parses
  by (simp add: fleet_ok_def good_nodes_def sample_fleet_defs isDeploymentStableAndReady_def match_labels_def in_i32_def Let_def)
    (simp add: sample_object_def IsSpotalisEnabled_def HasSpotalisAnnotations_def lower_true sample_config_def)

lemma sample_world_ok: "world_ok sample_world (\<lambda>_. True) sample_config 2 capacity_labels"
proof -
  have "budgets_permit sample_fleet match_labels"
    by (simp add: budgets_permit_def budget_permits_def CheckPDBStatus_def sample_fleet_defs no_pdb_def)
  moreover have "schedulable sample_fleet (lw_Schedule sample_world k) (pinned (lw_Template sample_world k) CapacityTypeLabel v)"
    if "v = ''spot'' \<or> v = ''on-demand''" for k v
    using that by (auto simp: schedulable_def pinned_def sample_fleet_defs map_lookup_def CapacityTypeLabel_def labelCapacityType_def)
  moreover have "fresh_reading (lw_AdmissionClock sample_world k)" for k
    by (simp add: fresh_reading_def sample_world_def time_sub_def DefaultPodListMaxAge_def duration_units)
  moreover have "created_by sample_fleet (lw_Template sample_world k)" "pod_DeletionTimestamp (lw_Template sample_world k) = None" for k
    by (simp_all add: created_by_def sample_fleet_defs)
  ultimately show ?thesis
    using sample_fleet_ok by (simp add: world_ok_def newcomer_def capacity_labels_def) (simp add: sample_world_def)
qed

definition sample_point :: loop_point where
  "sample_point = \<lparr>lp_Reconciler = sample_reconciler\<lparr>rc_Observer := True\<rparr>, lp_Handler = sample_handler,
     lp_Pods = [sample_pod ''web-0'' ''n0'', sample_pod ''web-1'' ''n0'']\<rparr>"

lemma sample_running: "running karpenter_config sample_fleet (\<lambda>_. True) (sample_pod name ''n0'')"
  by (simp add: running_def node_kind_def sample_fleet_def sample_pod_def sample_node_def lifecycleFor_def isTerminal_def
      isReady_def phase_defs ClassifyNode_def karpenter_config_def label_hit_def map_lookup_def)

lemma sample_loop_start: "loop_start sample_world karpenter_config (\<lambda>_. True) 2 capacity_labels sample_point"
proof -
  have "point_ok sample_world karpenter_config (\<lambda>_. True) 2 capacity_labels sample_point"
    using sample_running
    by (simp add: point_ok_def sample_point_def sample_world_def loop_ready_def handler_ready_def synced_def filter_ok_def
        sample_reconciler_def sample_handler_def NewNodeClassifierService_def empty_node_cache_def
        getCapacityTypeLabelConfig_def capacity_labels_def capacityTypeSpot_def capacityTypeOnDemand_def)
  moreover have "window_open sample_fleet (wl_Object (fl_Deployment sample_fleet)) (\<lambda>_. None) None now" for now
    by (simp add: window_open_def resolveDisruptionWindow_def ParseDisruptionWindow_def map_index_def map_lookup_def sample_fleet_defs
        sample_object_def DisruptionScheduleAnnotation_def DisruptionDurationAnnotation_def
        SpotPercentageAnnotation_def MinOnDemandAnnotation_def)
  moreover have "getCooldownPeriod (lp_Reconciler sample_point) = 10000000000"
    by (simp add: sample_point_def getCooldownPeriod_def sample_reconciler_def defaultWorkloadTimingConfig_def Second_def)
  ultimately show ?thesis
    by (simp add: loop_start_def in_i64_def) (simp add: sample_point_def sample_world_def sample_reconciler_def duration_units)
qed

section \<open>Properties\<close>

text \<open>Controller and webhook together converge, with both handlers as they are. In every round
  the Deployment is reconciled, the pod it evicts is removed, the pod created instead passes
  the webhook, and the scheduler honours the selector it was given. From any mix, after as
  many rounds as pods are misplaced the Deployment has exactly the target mix, not one round
  earlier; the number of pods is the same after every round, and from then on no round
  touches a pod.\<close>

theorem closed_loop_converges:
  assumes "world_ok W matches config n labels" and "labels_agree (lw_Fleet W) cfg labels"
    and "loop_start W cfg matches n labels x"
  defines "spots \<equiv> \<lambda>y. length (pods_of_kind cfg (lw_Fleet W) NodeTypeSpot (lp_Pods y))"
  shows "length (lp_Pods (closed_rounds W k x)) = n \<and>
    (spots (closed_rounds W k x) = spot_target config n \<longleftrightarrow>
      nat \<bar>int (spots x) - int (spot_target config n)\<bar> \<le> k) \<and>
    (spots (closed_rounds W k x) = spot_target config n \<longrightarrow>
      lp_Pods (closed_rounds W (Suc k) x) = lp_Pods (closed_rounds W k x))"
proof -
  have s: "spots = (\<lambda>y. length (fst (kinds cfg (lw_Fleet W) (lp_Pods y))))" by (simp add: spots_def kinds_def)
  from closed_rounds_invariant [OF assms(1-3), of k]
  have inv: "point_ok W cfg matches n labels (closed_rounds W k x)" "paced W k x (closed_rounds W k x)" by auto
  have "length (lp_Pods (closed_rounds W k x)) = n" using inv(1) by (simp add: point_ok_def)
  moreover have "spots (closed_rounds W k x) = spot_target config n \<longleftrightarrow> nat \<bar>int (spots x) - int (spot_target config n)\<bar> \<le> k"
    using closed_rounds_counts [OF assms(1-3), of k] unfolding s by (auto simp: max_def min_def split: if_splits)
  moreover have "spots (closed_rounds W k x) = spot_target config n \<Longrightarrow> lp_Pods (closed_rounds W (Suc k) x) = lp_Pods (closed_rounds W k x)"
    using closed_rounds_step(4) [OF assms(1-3) inv] by (simp add: s)
  ultimately show ?thesis by blast
qed

theorem closed_loop_converges_witness:
  "length (pods_of_kind karpenter_config sample_fleet NodeTypeSpot (lp_Pods sample_point)) = 0 \<and>
   length (pods_of_kind karpenter_config sample_fleet NodeTypeSpot (lp_Pods (closed_rounds sample_world 1 sample_point))) = 1 \<and>
   length (lp_Pods (closed_rounds sample_world 1 sample_point)) = 2"
proof -
  have "labels_agree (lw_Fleet sample_world) karpenter_config capacity_labels"
    by (auto simp: labels_agree_def capacity_labels_def sample_world_def sample_fleet_def sample_node_def CapacityTypeLabel_def
        labelCapacityType_def karpenter_config_def ClassifyNode_def label_hit_def map_lookup_def)
  note conv = closed_loop_converges [OF sample_world_ok this sample_loop_start, of 1]
  have "spot_target sample_config 2 = 1" by code_simp
  moreover have "length (pods_of_kind karpenter_config sample_fleet NodeTypeSpot (lp_Pods sample_point)) = 0" by code_simp
  moreover have "lw_Fleet sample_world = sample_fleet" by (simp add: sample_world_def)
  ultimately show ?thesis using conv by simp
qed

end
