(* ===== verification/StatefulSet_Loop.thy ===== *)
theory StatefulSet_Loop
  imports Fleet
begin

text \<open>
  The loop for a StatefulSet, with the handlers as they are
  (\<^verbatim>\<open>StatefulSetReconciler.Reconcile\<close>, \<^verbatim>\<open>MutationHandler.Handle\<close>). It
  differs from the Deployment's (\<^verbatim>\<open>Closed_Loop\<close>): with the eviction the controller
  writes a new annotation into the pod template, so Kubernetes replaces every pod of the set,
  one after the other, and each of them passes the webhook. A round is a reconciliation with
  the roll-out it causes. Pods keep their names when they are replaced.
\<close>

section \<open>StatefulSets\<close>

record set_fleet = fleet +
  fl_StatefulSet :: statefulset

definition set_view :: "set_fleet \<Rightarrow> pod list \<Rightarrow> k8s_client" where
  "set_view fl pods = (fl_Base fl)
     \<lparr>cl_GetStatefulSet := \<lambda>ns name.
        if ns = fl_Namespace fl \<and> name = wl_Name (fl_StatefulSet fl)
        then Inr (fl_StatefulSet fl) else Inl (StatusError ReasonNotFound),
      cl_GetNode := \<lambda>name. case find (\<lambda>nd. node_Name nd = name) (fl_Nodes fl) of
        None \<Rightarrow> Inl (StatusError ReasonNotFound) | Some nd \<Rightarrow> Inr nd,
      cl_ListNodes := Inr (fl_Nodes fl),
      cl_ListOwnedPods := \<lambda>ns uid.
        Inr (if ns = fl_Namespace fl \<and> uid = wl_UID (fl_StatefulSet fl) then pods else []),
      cl_Evict := \<lambda>p dryRun. if p \<in> set pods then None else Some (StatusError ReasonNotFound),
      cl_UpdateStatefulSet := \<lambda>s. None\<rparr>"

definition set_ok :: "set_fleet \<Rightarrow> as_selector \<Rightarrow> (string_map option \<Rightarrow> bool) \<Rightarrow> WorkloadConfiguration \<Rightarrow> nat \<Rightarrow> bool" where
  "set_ok fl as_sel matches config n \<longleftrightarrow>
     (let s = fl_StatefulSet fl
      in good_nodes fl \<and> 0 < n \<and> in_i32 (int n) \<and> wl_Namespace s = fl_Namespace fl \<and>
         wl_Replicas s = Some (int n) \<and> isStatefulSetStableAndReady s \<and>
         IsSpotalisEnabled (wl_Object s) \<and> HasSpotalisAnnotations (wl_Object s) \<and>
         ParseWorkloadConfiguration (wl_Object s) = Inr config \<and> wc_Enabled config \<and>
         (\<exists>sel. wl_Selector s = Some sel \<and> as_sel sel = Inr matches))"

definition created_for :: "set_fleet \<Rightarrow> pod \<Rightarrow> bool" where
  "created_for fl p \<longleftrightarrow> pod_Namespace p = fl_Namespace fl \<and>
     pod_OwnerReferences p = [\<lparr>or_Kind = workloadTypeStatefulSet, or_Name = wl_Name (fl_StatefulSet fl),
       or_UID = wl_UID (fl_StatefulSet fl), or_Controller = Some True\<rparr>]"

interpretation sets: fleet_kind set_view "\<lambda>fl. StatefulSet (fl_StatefulSet fl)" set_ok created_for
proof unfold_locales
  fix fl as_sel matches config n
  assume ok: "set_ok fl as_sel matches config n"
  then show "good_nodes fl \<and> 0 < n \<and> in_i32 (int n)" by (simp add: set_ok_def Let_def)
  show "workloadDesiredReplicas (StatefulSet (fl_StatefulSet fl)) = Inr (int n)"
    using ok by (simp add: set_ok_def Let_def workloadDesiredReplicas_def desiredReplicas_def)
  show "observed_pods as_sel (set_view fl pods) (StatefulSet (fl_StatefulSet fl)) = Inr pods"
    if "\<forall>p \<in> set pods. matches (pod_Labels p)" for pods
  proof -
    have "matchingPods matches pods = pods" using that by (auto simp: matchingPods_def intro: filter_True)
    with ok show ?thesis
      by (auto simp: set_ok_def Let_def observed_pods_def selectorFor_def statefulSetPods_def set_view_def)
  qed
  show "workloadForPod (set_view fl pods) p = Inr (StatefulSet (fl_StatefulSet fl))"
    and "\<exists>kind name. getWorkloadConfigForPod (set_view fl pods) p = Some (config, kind, name)"
    if "created_for fl p" for pods p
    using ok that
    by (simp_all add: set_ok_def created_for_def Let_def workloadForPod_def set_view_def getWorkloadConfigForPod_def
        getConfigFromStatefulSet_def getConfigFromWorkload_def workload_types)
qed (simp_all add: set_view_def)

definition set_request :: "set_fleet \<Rightarrow> request" where
  "set_request fl = \<lparr>rq_Namespace = fl_Namespace fl, rq_Name = wl_Name (fl_StatefulSet fl)\<rparr>"

text \<open>The new template changes the annotations and the tolerations of the pods, nothing the handlers decide by.\<close>

definition retemplated :: "set_fleet \<Rightarrow> set_fleet \<Rightarrow> bool" where
  "retemplated fl fl' \<longleftrightarrow> (\<exists>m t. fl' = fl\<lparr>fl_StatefulSet := (fl_StatefulSet fl)
     \<lparr>sts_TemplateAnnotations := m, sts_TemplateTolerations := t\<rparr>\<rparr>)"

lemma rebalanced_retemplated: "retemplated fl (fl\<lparr>fl_StatefulSet := rebalanced_template now st (fl_StatefulSet fl)\<rparr>)"
proof -
  let ?s = "rebalanced_template now st (fl_StatefulSet fl)"
  have "?s = (fl_StatefulSet fl)\<lparr>sts_TemplateAnnotations := sts_TemplateAnnotations ?s,
      sts_TemplateTolerations := sts_TemplateTolerations ?s\<rparr>"
    by (simp add: rebalanced_template_def updatePodTemplateForNodePlacement_def Let_def)
  then show ?thesis unfolding retemplated_def by metis
qed

lemma retemplated_refl: "retemplated fl fl"
  unfolding retemplated_def by (rule exI [of _ "sts_TemplateAnnotations (fl_StatefulSet fl)"],
      rule exI [of _ "sts_TemplateTolerations (fl_StatefulSet fl)"]) simp

lemma retemplated_trans: "retemplated fl fl' \<Longrightarrow> retemplated fl' fl'' \<Longrightarrow> retemplated fl fl''"
  by (clarsimp simp: retemplated_def) blast

lemma retemplated_same:
  assumes "retemplated fl fl'"
  shows "set_ok fl' = set_ok fl" "created_for fl' = created_for fl" "set_request fl' = set_request fl"
    "node_kind cfg fl' = node_kind cfg fl" "running cfg fl' = running cfg fl" "kinds cfg fl' = kinds cfg fl"
    "pods_of_kind cfg fl' = pods_of_kind cfg fl"
    "loop_ready fl' = loop_ready fl" "handler_ready fl' = handler_ready fl" "labels_agree fl' = labels_agree fl"
    "newcomer fl' = newcomer fl" "budgets_permit fl' = budgets_permit fl"
    "wl_Object (fl_StatefulSet fl') = wl_Object (fl_StatefulSet fl)"
proof -
  obtain m t where f: "fl' = fl\<lparr>fl_StatefulSet := (fl_StatefulSet fl)\<lparr>sts_TemplateAnnotations := m, sts_TemplateTolerations := t\<rparr>\<rparr>"
    using assms by (auto simp: retemplated_def)
  have nodes: "node_kind cfg fl' = node_kind cfg fl" for cfg by (intro ext) (simp add: f node_kind_def)
  have syn: "synced fl' = synced fl" "good_nodes fl' = good_nodes fl"
    by (intro ext, simp add: f synced_def) (simp add: f good_nodes_def)
  have filt: "filter_ok fl' = filter_ok fl" by (intro ext) (simp add: f filter_ok_def split: option.split)
  show "node_kind cfg fl' = node_kind cfg fl" by (rule nodes)
  show "set_ok fl' = set_ok fl" by (intro ext) (simp add: set_ok_def Let_def syn, simp add: f isStatefulSetStableAndReady_def cong: option.case_cong)
  show "created_for fl' = created_for fl" by (intro ext) (simp add: f created_for_def)
  show "set_request fl' = set_request fl" by (simp add: f set_request_def)
  show "running cfg fl' = running cfg fl" by (intro ext) (simp add: running_def nodes, simp add: f)
  show "pods_of_kind cfg fl' = pods_of_kind cfg fl" by (intro ext) (simp add: pods_of_kind_def nodes)
  then show "kinds cfg fl' = kinds cfg fl" by (intro ext) (simp add: kinds_def pods_of_kind_def nodes)
  show "loop_ready fl' = loop_ready fl" by (intro ext) (simp add: loop_ready_def syn filt)
  show "handler_ready fl' = handler_ready fl" by (intro ext) (simp add: handler_ready_def syn)
  show "labels_agree fl' = labels_agree fl" by (intro ext) (simp add: f labels_agree_def)
  show "newcomer fl' = newcomer fl" by (intro ext) (simp add: f newcomer_def schedulable_def)
  show "budgets_permit fl' = budgets_permit fl" by (intro ext) (simp add: f budgets_permit_def)
  show "wl_Object (fl_StatefulSet fl') = wl_Object (fl_StatefulSet fl)" by (simp add: f)
qed

section \<open>One reconciliation\<close>

abbreviation set_env :: "set_fleet \<Rightarrow> as_selector \<Rightarrow> (string \<Rightarrow> schedule option) \<Rightarrow> (nat \<Rightarrow> time) \<Rightarrow>
    ((podWithOrdinal \<Rightarrow> podWithOrdinal \<Rightarrow> bool) \<Rightarrow> podWithOrdinal list \<Rightarrow> podWithOrdinal list) \<Rightarrow> pod list \<Rightarrow> env" where
  "set_env fl as_sel parse clk sort_slice pods \<equiv> env_at (set_view fl pods) as_sel parse clk sort_slice"

lemma sts_needs_same: "sts_needsRebalancing = dep_needsRebalancing"
  by (intro ext) (simp add: sts_needsRebalancing_def dep_needsRebalancing_def)

lemma set_target:
  fixes config :: WorkloadConfiguration
  assumes "ActualCounts snap = (int s, int d)" "wl_Replicas sts = Some (int (s + d))"
  defines "st \<equiv> sts_target sts config (snapshot_state snap)"
  shows "sts_needsRebalancing st = dep_needsRebalancing (loop_state config s d)"
    and "sts_selectPodsForDeletion S D st = sts_selectPodsForDeletion S D (loop_state config s d)"
proof -
  have st: "st = CalculateDesiredDistribution ((snapshot_state snap)\<lparr>rs_TotalReplicas := int (s + d)\<rparr>) config"
    using assms(2) by (simp add: st_def sts_target_def)
  note same = target_cong [OF assms(1), of config, folded st]
  show "sts_needsRebalancing st = dep_needsRebalancing (loop_state config s d)"
    unfolding sts_needs_same dep_needsRebalancing_def Let_def same ..
  show "sts_selectPodsForDeletion S D st = sts_selectPodsForDeletion S D (loop_state config s d)"
    unfolding sts_selectPodsForDeletion_def same ..
qed

text \<open>What is selected: pods of the class in excess, and something is whenever the mix is not the target.\<close>

lemma set_selected:
  fixes config :: WorkloadConfiguration
  assumes "in_i32 (int (length S + length D))"
  defines "T \<equiv> spot_target config (length S + length D)"
    and "picked \<equiv> sts_selectPodsForDeletion S D (loop_state config (length S) (length D))"
  shows "length S \<noteq> T \<Longrightarrow> picked \<noteq> []"
    and "p \<in> set picked \<Longrightarrow> p \<in> set S \<and> T < length S \<or> p \<in> set D \<and> length S < T"
proof -
  note t = loop_state_target [OF assms(1), of config, folded T_def]
  have i: "in_i32 (int (length S))" "in_i32 (int (length D))" "in_i32 (int T)"
      "in_i32 (int (length S + length D) - int T)" "0 \<le> int (length S + length D) - int T"
    using assms(1) t(3) by (auto simp: in_i32_def)
  have "nat (int (length S + length D) - int T) = length S + length D - T" by linarith
  then have p: "picked = take (length S - T) S @ take (length D - (length S + length D - T)) D"
    using sts_excess_eq [OF i(1) _ i(3)] sts_excess_eq [OF i(2,5,4)]
    by (simp add: picked_def sts_selectPodsForDeletion_def t(1,2))
  show "length S \<noteq> T \<Longrightarrow> picked \<noteq> []" using t(3) by (auto simp: p)
  show "p \<in> set picked \<Longrightarrow> p \<in> set S \<and> T < length S \<or> p \<in> set D \<and> length S < T"
    using t(3) by (auto simp: p dest: in_set_takeD)
      (metis diff_is_0_eq in_set_takeD less_imp_le not_le take_eq_Nil empty_iff list.set(1))+
qed

text \<open>The StatefulSet the API holds after the effects of a reconciliation.\<close>

definition stored :: "effect list \<Rightarrow> statefulset \<Rightarrow> statefulset" where
  "stored effs s = fold (\<lambda>ef s. case ef of StatefulSetUpdate s' \<Rightarrow> s' | _ \<Rightarrow> s) effs s"

lemma set_execute:
  fixes parse :: "string \<Rightarrow> schedule option" and clk :: "nat \<Rightarrow> time"
  assumes "budgets_permit fl as_sel" "slice_sort sort_slice" "set picked \<subseteq> set pods" "picked \<noteq> []"
  defines "e \<equiv> set_env fl as_sel parse clk sort_slice pods" and "s \<equiv> fl_StatefulSet fl"
  shows "gradual_choice e s picked \<in> set picked"
    and "executeGradualRebalancing e s st key picked r =
      (None, r\<lparr>rc_lastDeletionTimes := (rc_lastDeletionTimes r)(key \<mapsto> TimeValue (clk 15))\<rparr>,
       [EvictionRequest (gradual_choice e s picked), StatefulSetUpdate (rebalanced_template (clk 16) st s)])"
proof -
  let ?p = "gradual_choice e s picked"
  have "slice_sort (e_sort e)" using assms(2) by (simp add: e_def env_at_def)
  from gradual_choice_highest(1) [OF this assms(4)] show p: "?p \<in> set picked" .
  have ev: "EvictPod (e_api e 6) ?p = (EvictionResultEvicted, None)"
    using p assms(3) by (auto simp: EvictPod_def e_def env_at_def sets.evicts)
  have "budget_permits as_sel (set_view fl pods) ?p"
    using assms(1) by (simp add: budgets_permit_def budget_permits_def CheckPDBStatus_def sets.lists_budgets)
  then have blocked: "(case CheckPDBStatus (e_selector e) (e_api e 5) ?p of Inl err \<Rightarrow> None
      | Inr pdbStatus \<Rightarrow> if \<not> ps_CanDisrupt pdbStatus then Some pdbStatus else None) = None"
    by (auto simp: budget_permits_def e_def env_at_def split: sum.splits)
  have upd: "cl_UpdateStatefulSet (e_api e 7) x = None" "e_clk e = clk" for x
    by (simp_all add: e_def env_at_def set_view_def)
  show "executeGradualRebalancing e s st key picked r =
      (None, r\<lparr>rc_lastDeletionTimes := (rc_lastDeletionTimes r)(key \<mapsto> TimeValue (clk 15))\<rparr>,
       [EvictionRequest ?p, StatefulSetUpdate (rebalanced_template (clk 16) st s)])"
    unfolding executeGradualRebalancing_def Let_def if_not_P [OF assms(4)] gradual_choice_def [symmetric] blocked option.case
      ev prod.case updateStatefulSetForRebalancing_def upd by simp
qed

lemma set_categorize:
  assumes "set_ok fl as_sel matches config n" "\<forall>p \<in> set pods. running cfg fl matches p" "loop_ready fl cfg r" "length pods = n"
  shows "\<exists>svc. categorizePodsByNodeType (set_env fl as_sel parse clk sort_slice pods) (fl_StatefulSet fl) r =
      (Inr (pods_of_kind cfg fl NodeTypeSpot pods, pods_of_kind cfg fl NodeTypeOnDemand pods), r\<lparr>rc_NodeClassifier := svc\<rparr>) \<and>
    loop_ready fl cfg (r\<lparr>rc_NodeClassifier := svc\<rparr>)"
proof -
  have n: "in_i32 (int (length pods))" using sets.ok_size [OF assms(1)] assms(4) by simp
  from sets.observe_workload_fleet [OF assms(1-3) n, of parse clk sort_slice 4 12] assms(3) show ?thesis
    by (auto simp: categorizePodsByNodeType_def loop_ready_def)
qed

lemma set_calculate:
  assumes "set_ok fl as_sel matches config n" "\<forall>p \<in> set pods. running cfg fl matches p" "loop_ready fl cfg r" "length pods = n"
  shows "\<exists>snap svc. sts_calculateCurrentReplicaState (set_env fl as_sel parse clk sort_slice pods) (fl_StatefulSet fl) r =
      (Inr (snapshot_state snap), r\<lparr>rc_NodeClassifier := svc\<rparr>) \<and> loop_ready fl cfg (r\<lparr>rc_NodeClassifier := svc\<rparr>) \<and>
    ActualCounts snap = (int (length (pods_of_kind cfg fl NodeTypeSpot pods)), int (length (pods_of_kind cfg fl NodeTypeOnDemand pods)))"
proof -
  have n: "in_i32 (int (length pods))" using sets.ok_size [OF assms(1)] assms(4) by simp
  from sets.observe_workload_fleet [OF assms(1-3) n, of parse clk sort_slice 2 5] obtain snap svc where
    "observe_workload (set_env fl as_sel parse clk sort_slice pods) 2 5 (StatefulSet (fl_StatefulSet fl)) r =
      (Inr snap, r\<lparr>rc_NodeClassifier := svc\<rparr>)"
    "loop_ready fl cfg (r\<lparr>rc_NodeClassifier := svc\<rparr>)"
    "ActualCounts snap = (int (length (pods_of_kind cfg fl NodeTypeSpot pods)), int (length (pods_of_kind cfg fl NodeTypeOnDemand pods)))"
    by blast
  with assms(3) show ?thesis
    by (intro exI [of _ snap] exI [of _ svc]) (simp add: sts_calculateCurrentReplicaState_def loop_ready_def)
qed

lemma loop_ready_changes:
  "loop_ready fl cfg (markRecovered r) = loop_ready fl cfg r"
  "loop_ready fl cfg (r\<lparr>rc_lastDeletionTimes := m\<rparr>) = loop_ready fl cfg r"
  "loop_ready fl cfg (r\<lparr>rc_reconcileCount := k\<rparr>) = loop_ready fl cfg r"
  by (auto simp: loop_ready_def markRecovered_def split: option.splits)

lemma set_rebalance:
  assumes "set_ok fl as_sel matches config n" "\<forall>p \<in> set pods. running cfg fl matches p"
    and "loop_ready fl cfg r" "length pods = n" "budgets_permit fl as_sel" "slice_sort sort_slice"
    and "window_open fl (wl_Object (fl_StatefulSet fl)) parse (rc_Config r) (clk 10)"
    and "sts_rebalance (set_env fl as_sel parse clk sort_slice pods) req (fl_StatefulSet fl) st r = (res, r', effs)"
  defines "picked \<equiv> sts_selectPodsForDeletion (pods_of_kind cfg fl NodeTypeSpot pods) (pods_of_kind cfg fl NodeTypeOnDemand pods) st"
  assumes "picked \<noteq> []"
  shows "loop_ready fl cfg r' \<and> (\<exists>p \<in> set picked. evictions effs = [p]) \<and>
    stored effs (fl_StatefulSet fl) = rebalanced_template (clk 16) st (fl_StatefulSet fl)"
proof -
  let ?e = "set_env fl as_sel parse clk sort_slice pods" and ?s = "fl_StatefulSet fl"
  have ns: "wl_Namespace ?s = fl_Namespace fl" using assms(1) by (simp add: set_ok_def Let_def)
  obtain w where w: "sts_resolveDisruptionWindow ?e ?s r = Inr w" "w = None \<or> IsWithinWindow w (e_clk ?e 10)"
    using assms(7) ns by (auto simp: window_open_def sts_resolveDisruptionWindow_def env_at_def set_view_def)
  obtain svc where cat: "categorizePodsByNodeType ?e ?s r =
      (Inr (pods_of_kind cfg fl NodeTypeSpot pods, pods_of_kind cfg fl NodeTypeOnDemand pods), r\<lparr>rc_NodeClassifier := svc\<rparr>)"
    and ready: "loop_ready fl cfg (r\<lparr>rc_NodeClassifier := svc\<rparr>)"
    using set_categorize [OF assms(1-4)] by blast
  have "set picked \<subseteq> set pods"
    by (auto simp: picked_def sts_selectPodsForDeletion_def sts_excess_def Let_def pods_of_kind_def
        split: if_splits dest!: set_take_int)
  note ex = set_execute [OF assms(5,6) this assms(10), where parse = parse and clk = clk]
  from assms(8) have r': "r' = markRecovered (r\<lparr>rc_NodeClassifier := svc,
        rc_lastDeletionTimes := (rc_lastDeletionTimes r)(request_String req \<mapsto> TimeValue (clk 15))\<rparr>)"
    and effs: "evictions effs = [gradual_choice ?e ?s picked]"
      "stored effs ?s = rebalanced_template (clk 16) st ?s"
    using w by (auto simp: sts_rebalance_def sts_performPodRebalancing_def cat picked_def [symmetric] ex(2) Let_def stored_def
        evictions_def split: if_splits)
  with ready ex(1) show ?thesis by (auto simp: loop_ready_changes)
qed

text \<open>What a reconciliation leads to: nothing at the target; otherwise a misplaced pod leaves, with a new template.\<close>

definition set_outcome :: "set_fleet \<Rightarrow> NodeClassifierConfig \<Rightarrow> nat \<Rightarrow> pod list \<Rightarrow> time \<Rightarrow> reconciler \<Rightarrow> effect list \<Rightarrow> bool" where
  "set_outcome fl cfg T pods now r effs \<longleftrightarrow>
     (let s = length (pods_of_kind cfg fl NodeTypeSpot pods)
      in loop_ready fl cfg r \<and>
         (if s = T then evictions effs = []
          else \<exists>p st. evictions effs = [p] \<and> stored effs (fl_StatefulSet fl) = rebalanced_template now st (fl_StatefulSet fl) \<and>
            (p \<in> set (pods_of_kind cfg fl NodeTypeSpot pods) \<and> T < s \<or>
             p \<in> set (pods_of_kind cfg fl NodeTypeOnDemand pods) \<and> s < T)))"

lemma set_process:
  assumes "set_ok fl as_sel matches config n" "\<forall>p \<in> set pods. running cfg fl matches p"
    and "loop_ready fl cfg r" "length pods = n" "budgets_permit fl as_sel" "slice_sort sort_slice"
    and "length (pods_of_kind cfg fl NodeTypeSpot pods) \<noteq> spot_target config n \<longrightarrow>
      window_open fl (wl_Object (fl_StatefulSet fl)) parse (rc_Config r) (clk 10)"
    and "sts_process (set_env fl as_sel parse clk sort_slice pods) req (fl_StatefulSet fl) r = (res, r', effs)"
  shows "set_outcome fl cfg (spot_target config n) pods (clk 16) r' effs"
proof -
  let ?e = "set_env fl as_sel parse clk sort_slice pods" and ?s = "fl_StatefulSet fl"
  let ?S = "pods_of_kind cfg fl NodeTypeSpot pods" and ?D = "pods_of_kind cfg fl NodeTypeOnDemand pods"
  have d: "isStatefulSetStableAndReady ?s" "ParseWorkloadConfiguration (wl_Object ?s) = Inr config"
    and reps: "wl_Replicas ?s = Some (int (length ?S + length ?D))" and n: "length ?S + length ?D = n"
    using assms(1,4) kind_counts [OF assms(2)] by (simp_all add: set_ok_def Let_def)
  have i: "in_i32 (int (length ?S + length ?D))" using sets.ok_size [OF assms(1)] n by simp
  obtain snap svc where calc: "sts_calculateCurrentReplicaState ?e ?s r = (Inr (snapshot_state snap), r\<lparr>rc_NodeClassifier := svc\<rparr>)"
    and ready: "loop_ready fl cfg (r\<lparr>rc_NodeClassifier := svc\<rparr>)" and counts: "ActualCounts snap = (int (length ?S), int (length ?D))"
    using set_calculate [OF assms(1-4)] by blast
  note target = set_target [OF counts reps, where config = config]
  note needs = needs_iff [OF i, of config, unfolded n]
  from assms(8) show ?thesis
  proof (cases rule: sts_process_cases)
    case (balanced config' st' r1)
    then have "length ?S = spot_target config n" "r' = markRecovered (r\<lparr>rc_NodeClassifier := svc\<rparr>)"
      using d(2) calc target(1) needs by auto
    with ready balanced(5) show ?thesis by (simp add: set_outcome_def loop_ready_changes)
  next
    case (rebalanced config' st' r1)
    then have c: "config' = config" "st' = snapshot_state snap" "r1 = r\<lparr>rc_NodeClassifier := svc\<rparr>"
      using d(2) calc by auto
    have ne: "length ?S \<noteq> spot_target config n" using rebalanced(4) target(1) needs c by simp
    note sel = set_selected [OF i, where config = config, unfolded n]
    have picked: "sts_selectPodsForDeletion ?S ?D (sts_target ?s config (snapshot_state snap)) \<noteq> []"
      using sel(1) [OF ne] target(2) by simp
    have win: "window_open fl (wl_Object ?s) parse (rc_Config (r\<lparr>rc_NodeClassifier := svc\<rparr>)) (clk 10)"
      using assms(7) ne by simp
    from set_rebalance [OF assms(1,2) ready assms(4-6) win rebalanced(5) [unfolded c] picked] sel(2) target(2) ne show ?thesis
      unfolding set_outcome_def Let_def by (metis (no_types, lifting))
  qed (use d calc in auto)
qed

lemma set_reconcile:
  assumes "set_ok fl as_sel matches config n" "\<forall>p \<in> set pods. running cfg fl matches p"
    and "loop_ready fl cfg r" "length pods = n" "budgets_permit fl as_sel" "slice_sort sort_slice"
    and "length (pods_of_kind cfg fl NodeTypeSpot pods) \<noteq> spot_target config n \<longrightarrow>
      window_open fl (wl_Object (fl_StatefulSet fl)) parse (rc_Config r) (clk 10) \<and>
      cooldown_gate (set_env fl as_sel parse clk sort_slice pods) (request_String (set_request fl)) r = GatePass"
    and "sts_Reconcile (set_env fl as_sel parse clk sort_slice pods) (set_request fl) r = (res, r', effs)"
  shows "set_outcome fl cfg (spot_target config n) pods (clk 16) r' effs"
proof -
  let ?e = "set_env fl as_sel parse clk sort_slice pods" and ?s = "fl_StatefulSet fl" and ?req = "set_request fl"
  let ?r = "r\<lparr>rc_reconcileCount := i64 (rc_reconcileCount r + 1)\<rparr>"
  have get: "cl_GetStatefulSet (e_api ?e 0) (rq_Namespace ?req) (rq_Name ?req) = Inr ?s"
    by (simp add: set_request_def env_at_def set_view_def)
  have enabled: "IsSpotalisEnabled (wl_Object ?s)" and ns: "wl_Namespace ?s = fl_Namespace fl"
    using assms(1) by (simp_all add: set_ok_def Let_def)
  have "filter_ok fl (rc_NamespaceFilter ?r)" using assms(3) by (simp add: loop_ready_def)
  from gate_admits [OF this sets.gets_namespace, of pods as_sel parse clk sort_slice] obtain f where
    gate: "namespace_gate ?e (wl_Namespace ?s) ?r = (True, ?r\<lparr>rc_NamespaceFilter := f\<rparr>)" and f: "filter_ok fl f"
    unfolding ns by blast
  have r1: "loop_ready fl cfg (?r\<lparr>rc_NamespaceFilter := f\<rparr>)" using assms(3) f by (simp add: loop_ready_def)
  from assms(8) show ?thesis
  proof (cases rule: sts_Reconcile_cases)
    case (processed d r0 r1' effs1)
    then have c: "d = ?s" "r1' = ?r\<lparr>rc_NamespaceFilter := f\<rparr>" using get gate by auto
    have "length (pods_of_kind cfg fl NodeTypeSpot pods) \<noteq> spot_target config n \<longrightarrow>
        window_open fl (wl_Object ?s) parse (rc_Config (?r\<lparr>rc_NamespaceFilter := f\<rparr>)) (clk 10)" using assms(7) by simp
    from set_process [OF assms(1,2) r1 assms(4-6) this processed(7) [unfolded c]] processed(8) show ?thesis by simp
  next
    case (cooling d r0)
    then have "r' = ?r\<lparr>rc_NamespaceFilter := f\<rparr>" "length (pods_of_kind cfg fl NodeTypeSpot pods) = spot_target config n"
      using get gate assms(7) by auto
    with r1 cooling(6) show ?thesis by (simp add: set_outcome_def)
  qed (use get enabled gate in auto)
qed

section \<open>The roll-out\<close>

text \<open>
  The world around the handlers: the library functions, the clocks of reconciler and webhook,
  the pods Kubernetes creates under a name and where the scheduler puts them, and the order in
  which the pods of a changed template are replaced. Round and position number the creations.
\<close>

record set_world =
  sw_Selector :: as_selector
  sw_Parse :: "string \<Rightarrow> schedule option"
  sw_Sort :: "(podWithOrdinal \<Rightarrow> podWithOrdinal \<Rightarrow> bool) \<Rightarrow> podWithOrdinal list \<Rightarrow> podWithOrdinal list"
  sw_Clock :: "nat \<Rightarrow> nat \<Rightarrow> time"
  sw_AdmissionClock :: "nat \<Rightarrow> nat \<Rightarrow> nat \<Rightarrow> time"
  sw_Template :: "nat \<Rightarrow> nat \<Rightarrow> string \<Rightarrow> pod"
  sw_Schedule :: "nat \<Rightarrow> nat \<Rightarrow> string_map option \<Rightarrow> string"
  sw_Roll :: "nat \<Rightarrow> string list"

record set_point =
  sp_Fleet :: set_fleet
  sp_Reconciler :: reconciler
  sp_Handler :: MutationHandler
  sp_Pods :: "pod list"
  sp_Restarted :: "string list"

definition recreate :: "set_world \<Rightarrow> nat \<Rightarrow> nat \<Rightarrow> set_fleet \<Rightarrow> string \<Rightarrow> pod list \<times> MutationHandler \<Rightarrow> pod list \<times> MutationHandler" where
  "recreate W k j fl name = (\<lambda>(pods, m).
     if name \<notin> set (map pod_Name pods) then (pods, m)
     else (let rest = filter (\<lambda>p. pod_Name p \<noteq> name) pods
           in case admit_new (set_view fl rest) (sw_Selector W) (sw_AdmissionClock W k j) (sw_Schedule W k j)
                     (sw_Template W k j name) m of
                (new, m') \<Rightarrow> (rest @ [new], m')))"

fun roll_out :: "set_world \<Rightarrow> nat \<Rightarrow> nat \<Rightarrow> set_fleet \<Rightarrow> string list \<Rightarrow> pod list \<times> MutationHandler \<Rightarrow> pod list \<times> MutationHandler" where
  "roll_out W k j fl [] x = x"
| "roll_out W k j fl (name # names) x = roll_out W k (Suc j) fl names (recreate W k j fl name x)"

definition same_template :: "statefulset \<Rightarrow> statefulset \<Rightarrow> bool" where
  "same_template s s' \<longleftrightarrow> sts_TemplateAnnotations s' = sts_TemplateAnnotations s \<and>
     sts_TemplateTolerations s' = sts_TemplateTolerations s"

text \<open>
  A round: the reconciliation; if it evicted a pod, the replacement of that pod, and of the
  others when the template changed.
\<close>

definition set_round :: "set_world \<Rightarrow> nat \<Rightarrow> set_point \<Rightarrow> set_point" where
  "set_round W k x =
     (case sts_Reconcile (set_env (sp_Fleet x) (sw_Selector W) (sw_Parse W) (sw_Clock W k) (sw_Sort W) (sp_Pods x))
             (set_request (sp_Fleet x)) (sp_Reconciler x) of
        (res, r, effs) \<Rightarrow>
          (case evictions effs of
             [] \<Rightarrow> x\<lparr>sp_Reconciler := r\<rparr>
           | p # _ \<Rightarrow>
              if snd (EvictPod (set_view (sp_Fleet x) (sp_Pods x)) p) \<noteq> None then x\<lparr>sp_Reconciler := r\<rparr>
              else (let s = stored effs (fl_StatefulSet (sp_Fleet x));
                        fl = (sp_Fleet x)\<lparr>fl_StatefulSet := s\<rparr>;
                        names = pod_Name p # (if same_template (fl_StatefulSet (sp_Fleet x)) s then [] else sw_Roll W k)
                    in case roll_out W k 0 fl names (sp_Pods x, sp_Handler x) of
                         (pods, m) \<Rightarrow>
                           \<lparr>sp_Fleet = fl, sp_Reconciler = r, sp_Handler = m, sp_Pods = pods,
                            sp_Restarted = sp_Restarted x @ names\<rparr>)))"

fun set_rounds :: "set_world \<Rightarrow> nat \<Rightarrow> set_point \<Rightarrow> set_point" where
  "set_rounds W 0 x = x"
| "set_rounds W (Suc k) x = set_round W k (set_rounds W k x)"

definition set_world_ok :: "set_world \<Rightarrow> set_fleet \<Rightarrow> (string_map option \<Rightarrow> bool) \<Rightarrow> WorkloadConfiguration \<Rightarrow> nat \<Rightarrow>
    string \<times> string \<times> string \<Rightarrow> bool" where
  "set_world_ok W fl matches config n labels \<longleftrightarrow>
     set_ok fl (sw_Selector W) matches config n \<and> budgets_permit fl (sw_Selector W) \<and> slice_sort (sw_Sort W) \<and>
     (\<forall>k j name. created_for fl (sw_Template W k j name) \<and> pod_Name (sw_Template W k j name) = name \<and>
        newcomer fl matches labels (sw_AdmissionClock W k j) (sw_Schedule W k j) (sw_Template W k j name))"

text \<open>The pods between two replacements, under the names of the set.\<close>

definition crew :: "set_fleet \<Rightarrow> NodeClassifierConfig \<Rightarrow> (string_map option \<Rightarrow> bool) \<Rightarrow> nat \<Rightarrow> string \<times> string \<times> string \<Rightarrow>
    string set \<Rightarrow> pod list \<times> MutationHandler \<Rightarrow> bool" where
  "crew fl cfg matches n labels names = (\<lambda>(pods, m).
     length pods = n \<and> (\<forall>p \<in> set pods. running cfg fl matches p) \<and>
     distinct (map pod_Name pods) \<and> set (map pod_Name pods) = names \<and>
     handler_ready fl cfg m \<and> getCapacityTypeLabelConfig m = labels)"

lemma filter_other_names:
  "distinct (map f xs) \<Longrightarrow> q \<in> set xs \<Longrightarrow> filter (\<lambda>p. f p \<noteq> f q) xs = remove1 q xs"
proof (induction xs)
  case (Cons a xs)
  then show ?case by (cases "q = a") (auto simp: filter_id_conv image_iff)
qed simp

text \<open>Where the webhook puts the replacement of \<open>q\<close>, by the mix that \<open>q\<close> was part of.\<close>

lemma place_replacement:
  assumes "\<forall>p \<in> set pods. running cfg fl matches p" "q \<in> set pods" "length pods = n" "wc_Enabled config" "in_i32 (int n)"
  defines "spots \<equiv> \<lambda>pods. length (pods_of_kind cfg fl NodeTypeSpot pods)" and "T \<equiv> spot_target config n"
    and "spot \<equiv> \<lambda>p. node_kind cfg fl (pod_NodeName p) = NodeTypeSpot"
  shows "place config (int n) (spots (remove1 q pods)) (length (pods_of_kind cfg fl NodeTypeOnDemand (remove1 q pods))) = capacityTypeSpot
      \<longleftrightarrow> (if spot q then spots pods \<le> T else spots pods < T)"
    and "spots (remove1 q pods) = spots pods - (if spot q then 1 else 0)" and "spot q \<Longrightarrow> 0 < spots pods"
proof -
  let ?ods = "\<lambda>pods. length (pods_of_kind cfg fl NodeTypeOnDemand pods)"
  have kinds: "spots pods + ?ods pods = n" using kind_counts [OF assms(1)] assms(3) by (simp add: spots_def)
  have minus: "length (pods_of_kind cfg fl t (remove1 q pods)) = length (pods_of_kind cfg fl t pods) -
      (if node_kind cfg fl (pod_NodeName q) = t then 1 else 0)" for t
    using assms(2) by (simp add: pods_of_kind_def filter_remove1 length_remove1)
  have pos: "0 < length (pods_of_kind cfg fl t pods)" if "node_kind cfg fl (pod_NodeName q) = t" for t
    using assms(2) that by (auto simp: pods_of_kind_def filter_empty_conv)
  have T: "T \<le> n" using loop_state_target(3) [of 0 n config] assms(5) by (simp add: T_def)
  note iff = place_spot_iff [OF assms(4,5), folded T_def]
  show "spots (remove1 q pods) = spots pods - (if spot q then 1 else 0)" using minus by (simp add: spots_def spot_def)
  show "spot q \<Longrightarrow> 0 < spots pods" using pos by (simp add: spots_def spot_def)
  show "place config (int n) (spots (remove1 q pods)) (?ods (remove1 q pods)) = capacityTypeSpot
      \<longleftrightarrow> (if spot q then spots pods \<le> T else spots pods < T)"
  proof (cases "spot q")
    case True
    then have "spots (remove1 q pods) = spots pods - 1" "0 < spots pods" "?ods (remove1 q pods) = ?ods pods"
      using minus [of NodeTypeSpot] minus [of NodeTypeOnDemand] pos [of NodeTypeSpot] by (simp_all add: spot_def spots_def)
    with True kinds T show ?thesis by (simp only: iff if_True) linarith
  next
    case False
    with assms(1,2) have "node_kind cfg fl (pod_NodeName q) = NodeTypeOnDemand"
      by (cases "node_kind cfg fl (pod_NodeName q)") (auto simp: spot_def running_def)
    then have "spots (remove1 q pods) = spots pods" "?ods (remove1 q pods) = ?ods pods - 1" "0 < ?ods pods"
      using minus [of NodeTypeSpot] minus [of NodeTypeOnDemand] pos [of NodeTypeOnDemand] by (simp_all add: spots_def)
    with False kinds T show ?thesis by (simp only: iff if_False) linarith
  qed
qed

text \<open>One replacement moves the mix towards the target, or keeps it.\<close>

lemma recreate_step:
  assumes "set_world_ok W fl matches config n labels" "labels_agree fl cfg labels"
    and "crew fl cfg matches n labels names (pods, m)" "q \<in> set pods"
    and "recreate W k j fl (pod_Name q) (pods, m) = (pods', m')"
  defines "spots \<equiv> \<lambda>pods. length (pods_of_kind cfg fl NodeTypeSpot pods)" and "T \<equiv> spot_target config n"
    and "spot \<equiv> \<lambda>p. node_kind cfg fl (pod_NodeName p) = NodeTypeSpot"
  shows "crew fl cfg matches n labels names (pods', m')"
    and "\<exists>new. pods' = remove1 q pods @ [new] \<and> pod_Name new = pod_Name q \<and>
      spot new = (if spot q then spots pods \<le> T else spots pods < T) \<and>
      spots pods' = (if spot q \<and> T < spots pods then spots pods - 1
        else if \<not> spot q \<and> spots pods < T then spots pods + 1 else spots pods)"
proof -
  let ?rest = "remove1 q pods" and ?t = "sw_Template W k j (pod_Name q)"
  have c: "length pods = n" "\<forall>p \<in> set pods. running cfg fl matches p" "distinct (map pod_Name pods)"
      "set (map pod_Name pods) = names" "handler_ready fl cfg m" "getCapacityTypeLabelConfig m = labels"
    using assms(3) by (simp_all add: crew_def)
  have w: "set_ok fl (sw_Selector W) matches config n" "created_for fl ?t" "pod_Name ?t = pod_Name q"
      "newcomer fl matches labels (sw_AdmissionClock W k j) (sw_Schedule W k j) ?t"
    using assms(1) by (simp_all add: set_world_ok_def)
  have size: "in_i32 (int n)" "0 < n" using sets.ok_size [OF w(1)] by simp_all
  obtain new where adm: "admit_new (set_view fl ?rest) (sw_Selector W) (sw_AdmissionClock W k j) (sw_Schedule W k j) ?t m = (new, m')"
    and pods': "pods' = ?rest @ [new]"
    using assms(5) filter_other_names [OF c(3) assms(4)] assms(4)
    by (auto simp: recreate_def Let_def split: prod.splits)
  have run: "\<forall>p \<in> set ?rest. running cfg fl matches p" using c(2) by (auto dest: notin_set_remove1)
  have len: "length ?rest < n" "length ?rest = n - 1" using assms(4) c(1) size(2) by (simp_all add: length_remove1)
  note new = sets.admit_new_fleet [OF w(1) run len(1) c(5,6) assms(2) w(2,4) adm]
  have name: "pod_Name new = pod_Name q" using new w(3) by (auto simp: started_def)
  have e: "wc_Enabled config" using w(1) by (simp add: set_ok_def Let_def)
  have place: "place config (int n) (spots ?rest) (length (pods_of_kind cfg fl NodeTypeOnDemand ?rest)) = capacityTypeSpot \<longleftrightarrow>
        (if spot q then spots pods \<le> T else spots pods < T)"
      "spots ?rest = spots pods - (if spot q then 1 else 0)" "spot q \<Longrightarrow> 0 < spots pods"
    unfolding spots_def T_def spot_def by (fact place_replacement [OF c(2) assms(4) c(1) e size(1)])+
  have spotnew: "spot new = (if spot q then spots pods \<le> T else spots pods < T)"
    using new place(1) by (simp add: spot_def spots_def split: if_splits)
  have "spots pods' = spots ?rest + (if spot new then 1 else 0)" by (simp add: pods' spots_def pods_of_kind_def spot_def)
  also note place(2)
  finally have count: "spots pods' = (if spot q \<and> T < spots pods then spots pods - 1
        else if \<not> spot q \<and> spots pods < T then spots pods + 1 else spots pods)"
    using spotnew place(3) by auto
  show "\<exists>new. pods' = remove1 q pods @ [new] \<and> pod_Name new = pod_Name q \<and>
      spot new = (if spot q then spots pods \<le> T else spots pods < T) \<and>
      spots pods' = (if spot q \<and> T < spots pods then spots pods - 1
        else if \<not> spot q \<and> spots pods < T then spots pods + 1 else spots pods)"
    using pods' name spotnew count by blast
  have names: "set (map pod_Name ?rest) = names - {pod_Name q}" "distinct (map pod_Name ?rest)"
    using c(3,4) by (auto simp: filter_other_names [OF c(3) assms(4), symmetric] distinct_map_filter)
  show "crew fl cfg matches n labels names (pods', m')"
    using new run len(2) size(2) names name assms(4) c(4) by (auto simp: crew_def pods')
qed

text \<open>While the mix is off the target, every pod replaced so far is in the class that lacks pods.\<close>

definition heading :: "set_fleet \<Rightarrow> NodeClassifierConfig \<Rightarrow> nat \<Rightarrow> string set \<Rightarrow> pod list \<Rightarrow> bool" where
  "heading fl cfg T done pods \<longleftrightarrow>
     (let s = length (pods_of_kind cfg fl NodeTypeSpot pods)
      in \<forall>p \<in> set pods. pod_Name p \<in> done \<longrightarrow>
           (s < T \<longrightarrow> node_kind cfg fl (pod_NodeName p) = NodeTypeSpot) \<and>
           (T < s \<longrightarrow> node_kind cfg fl (pod_NodeName p) \<noteq> NodeTypeSpot))"

lemma recreate_heading:
  assumes "set_world_ok W fl matches config n labels" "labels_agree fl cfg labels"
    and "crew fl cfg matches n labels names (pods, m)" "name \<in> names"
    and "recreate W k j fl name (pods, m) = (pods', m')" "heading fl cfg (spot_target config n) done pods"
  shows "crew fl cfg matches n labels names (pods', m') \<and> heading fl cfg (spot_target config n) (insert name done) pods'"
proof -
  obtain q where q: "q \<in> set pods" "name = pod_Name q" using assms(3,4) by (auto simp: crew_def)
  have d: "distinct (map pod_Name pods)" using assms(3) by (simp add: crew_def)
  from recreate_step [OF assms(1-3) q(1) assms(5) [unfolded q(2)]] obtain new where
    crew: "crew fl cfg matches n labels names (pods', m')"
    and pods': "pods' = remove1 q pods @ [new]" and name: "pod_Name new = name"
    and spot: "(node_kind cfg fl (pod_NodeName new) = NodeTypeSpot) =
      (if node_kind cfg fl (pod_NodeName q) = NodeTypeSpot
       then length (pods_of_kind cfg fl NodeTypeSpot pods) \<le> spot_target config n
       else length (pods_of_kind cfg fl NodeTypeSpot pods) < spot_target config n)"
    and count: "length (pods_of_kind cfg fl NodeTypeSpot pods') =
      (if node_kind cfg fl (pod_NodeName q) = NodeTypeSpot \<and> spot_target config n < length (pods_of_kind cfg fl NodeTypeSpot pods)
       then length (pods_of_kind cfg fl NodeTypeSpot pods) - 1
       else if node_kind cfg fl (pod_NodeName q) \<noteq> NodeTypeSpot \<and> length (pods_of_kind cfg fl NodeTypeSpot pods) < spot_target config n
       then length (pods_of_kind cfg fl NodeTypeSpot pods) + 1 else length (pods_of_kind cfg fl NodeTypeSpot pods))"
    unfolding q(2) by blast
  have others: "p \<in> set pods \<and> pod_Name p \<noteq> name" if "p \<in> set (remove1 q pods)" for p
    using that filter_other_names [OF d q(1), symmetric] q(2) by auto
  let ?T = "spot_target config n" and ?spots = "\<lambda>pods. length (pods_of_kind cfg fl NodeTypeSpot pods)"
  have side: "?spots pods' < ?T \<longrightarrow> ?spots pods < ?T" "?T < ?spots pods' \<longrightarrow> ?T < ?spots pods"
    unfolding count by auto
  have ends: "?spots pods' < ?T \<longrightarrow> node_kind cfg fl (pod_NodeName new) = NodeTypeSpot"
      "?T < ?spots pods' \<longrightarrow> node_kind cfg fl (pod_NodeName new) \<noteq> NodeTypeSpot"
    unfolding count spot by auto
  have "heading fl cfg ?T (insert name done) pods'"
    unfolding heading_def Let_def
  proof (intro ballI impI)
    fix p assume p: "p \<in> set pods'" "pod_Name p \<in> insert name done"
    show "(?spots pods' < ?T \<longrightarrow> node_kind cfg fl (pod_NodeName p) = NodeTypeSpot) \<and>
        (?T < ?spots pods' \<longrightarrow> node_kind cfg fl (pod_NodeName p) \<noteq> NodeTypeSpot)"
    proof (cases "p = new")
      case False
      then have "p \<in> set pods" "pod_Name p \<in> done" using p others by (auto simp: pods')
      with assms(6) side show ?thesis by (auto simp: heading_def Let_def)
    qed (use ends in simp)
  qed
  with crew show ?thesis ..
qed

lemma roll_out_heading:
  assumes "set_world_ok W fl matches config n labels" "labels_agree fl cfg labels"
    and "crew fl cfg matches n labels names (pods, m)" "set rolled \<subseteq> names"
    and "roll_out W k j fl rolled (pods, m) = (pods', m')" "heading fl cfg (spot_target config n) done pods"
  shows "crew fl cfg matches n labels names (pods', m') \<and> heading fl cfg (spot_target config n) (done \<union> set rolled) pods'"
  using assms(3-6)
proof (induction rolled arbitrary: j pods m "done")
  case (Cons name rolled)
  obtain pods1 m1 where r: "recreate W k j fl name (pods, m) = (pods1, m1)" by fastforce
  have "name \<in> names" using Cons.prems(2) by simp
  from recreate_heading [OF assms(1,2) Cons.prems(1) this r Cons.prems(4)]
  have 1: "crew fl cfg matches n labels names (pods1, m1)" "heading fl cfg (spot_target config n) (insert name done) pods1"
    by auto
  have "roll_out W k (Suc j) fl rolled (pods1, m1) = (pods', m')" using Cons.prems(3) r by simp
  from Cons.IH [OF 1(1) _ this 1(2)] Cons.prems(2) show ?case by simp
qed simp

lemma heading_all:
  assumes "crew fl cfg matches n labels names (pods, m)" "heading fl cfg T names pods" "T \<le> n"
  shows "length (pods_of_kind cfg fl NodeTypeSpot pods) = T"
proof (rule ccontr)
  assume "length (pods_of_kind cfg fl NodeTypeSpot pods) \<noteq> T"
  then consider "length (pods_of_kind cfg fl NodeTypeSpot pods) < T" | "T < length (pods_of_kind cfg fl NodeTypeSpot pods)"
    by linarith
  then have "(\<forall>p \<in> set pods. node_kind cfg fl (pod_NodeName p) = NodeTypeSpot) \<and>
        length (pods_of_kind cfg fl NodeTypeSpot pods) < T \<or>
      (\<forall>p \<in> set pods. node_kind cfg fl (pod_NodeName p) \<noteq> NodeTypeSpot) \<and>
        T < length (pods_of_kind cfg fl NodeTypeSpot pods)"
    using assms(1,2) by cases (auto simp: heading_def crew_def Let_def)
  then have "length (pods_of_kind cfg fl NodeTypeSpot pods) = n \<and> n < T \<or>
      length (pods_of_kind cfg fl NodeTypeSpot pods) = 0 \<and> T < 0"
    using assms(1) by (auto simp: pods_of_kind_def crew_def filter_True filter_False)
  with assms(3) show False by auto
qed

section \<open>The rounds\<close>

text \<open>The set-up before a round, and that the first one may evict: no deletion recorded, the window open.\<close>

definition set_point_ok :: "set_world \<Rightarrow> NodeClassifierConfig \<Rightarrow> (string_map option \<Rightarrow> bool) \<Rightarrow> WorkloadConfiguration \<Rightarrow> nat \<Rightarrow>
    string \<times> string \<times> string \<Rightarrow> set_point \<Rightarrow> bool" where
  "set_point_ok W cfg matches config n labels x \<longleftrightarrow>
     set_world_ok W (sp_Fleet x) matches config n labels \<and> labels_agree (sp_Fleet x) cfg labels \<and>
     loop_ready (sp_Fleet x) cfg (sp_Reconciler x) \<and>
     crew (sp_Fleet x) cfg matches n labels (set (map pod_Name (sp_Pods x))) (sp_Pods x, sp_Handler x)"

definition set_may_evict :: "set_world \<Rightarrow> nat \<Rightarrow> set_point \<Rightarrow> bool" where
  "set_may_evict W k x \<longleftrightarrow>
     rc_lastDeletionTimes (sp_Reconciler x) (request_String (set_request (sp_Fleet x))) = None \<and>
     window_open (sp_Fleet x) (wl_Object (fl_StatefulSet (sp_Fleet x))) (sw_Parse W) (rc_Config (sp_Reconciler x)) (sw_Clock W k 10)"

text \<open>At the target a round only changes the reconciler's bookkeeping, whatever its gates say.\<close>

lemma set_round_settled:
  assumes "set_point_ok W cfg matches config n labels x"
    and "length (pods_of_kind cfg (sp_Fleet x) NodeTypeSpot (sp_Pods x)) = spot_target config n"
  shows "\<exists>r. set_round W k x = x\<lparr>sp_Reconciler := r\<rparr> \<and> set_point_ok W cfg matches config n labels (set_round W k x)"
proof -
  let ?e = "set_env (sp_Fleet x) (sw_Selector W) (sw_Parse W) (sw_Clock W k) (sw_Sort W) (sp_Pods x)"
  obtain res r effs where run: "sts_Reconcile ?e (set_request (sp_Fleet x)) (sp_Reconciler x) = (res, r, effs)"
    by (metis prod_cases3)
  have p: "set_ok (sp_Fleet x) (sw_Selector W) matches config n" "\<forall>p \<in> set (sp_Pods x). running cfg (sp_Fleet x) matches p"
      "loop_ready (sp_Fleet x) cfg (sp_Reconciler x)" "length (sp_Pods x) = n"
      "budgets_permit (sp_Fleet x) (sw_Selector W)" "slice_sort (sw_Sort W)"
    using assms(1) by (simp_all add: set_point_ok_def set_world_ok_def crew_def)
  have "set_outcome (sp_Fleet x) cfg (spot_target config n) (sp_Pods x) (sw_Clock W k 16) r effs"
    using assms(2) by (intro set_reconcile [OF p _ run]) simp
  with assms(2) have "evictions effs = []" "loop_ready (sp_Fleet x) cfg r" by (simp_all add: set_outcome_def)
  with run assms(1) show ?thesis by (intro exI [of _ r]) (simp add: set_round_def set_point_ok_def)
qed

lemma rebalanced_differs:
  assumes "map_lookup (sts_TemplateAnnotations s) ''spotalis.io/rebalance-timestamp'' \<noteq> Some (FormatRFC3339 now)"
  shows "\<not> same_template s (rebalanced_template now st s)"
proof
  assume "same_template s (rebalanced_template now st s)"
  then have "sts_TemplateAnnotations s = sts_TemplateAnnotations (rebalanced_template now st s)"
    by (simp only: same_template_def)
  then have "map_lookup (sts_TemplateAnnotations s) ''spotalis.io/rebalance-timestamp'' =
      map_lookup (sts_TemplateAnnotations (rebalanced_template now st s)) ''spotalis.io/rebalance-timestamp''"
    by (rule arg_cong)
  with assms show False by (simp add: rebalanced_template_annotations map_lookup_def)
qed

lemma misplaced_pod:
  assumes "set_outcome fl cfg T pods now r effs" "length (pods_of_kind cfg fl NodeTypeSpot pods) \<noteq> T"
  obtains p st where "evictions effs = [p]" "p \<in> set pods" "loop_ready fl cfg r"
    "stored effs (fl_StatefulSet fl) = rebalanced_template now st (fl_StatefulSet fl)"
    "node_kind cfg fl (pod_NodeName p) = (if T < length (pods_of_kind cfg fl NodeTypeSpot pods) then NodeTypeSpot else NodeTypeOnDemand)"
  using assms by (auto simp: set_outcome_def Let_def pods_of_kind_def)

text \<open>Off the target, one round evicts a misplaced pod, restarts all pods and reaches the target.\<close>

lemma set_round_evicts:
  assumes "set_point_ok W cfg matches config n labels x" "set_may_evict W k x"
    and "length (pods_of_kind cfg (sp_Fleet x) NodeTypeSpot (sp_Pods x)) \<noteq> spot_target config n"
    and "set (sw_Roll W k) = set (map pod_Name (sp_Pods x))"
    and "map_lookup (sts_TemplateAnnotations (fl_StatefulSet (sp_Fleet x))) ''spotalis.io/rebalance-timestamp'' \<noteq>
      Some (FormatRFC3339 (sw_Clock W k 16))"
  shows "\<exists>p \<in> set (sp_Pods x). set_point_ok W cfg matches config n labels (set_round W k x) \<and>
    retemplated (sp_Fleet x) (sp_Fleet (set_round W k x)) \<and>
    set (map pod_Name (sp_Pods (set_round W k x))) = set (map pod_Name (sp_Pods x)) \<and>
    length (pods_of_kind cfg (sp_Fleet x) NodeTypeSpot (sp_Pods (set_round W k x))) = spot_target config n \<and>
    sp_Restarted (set_round W k x) = sp_Restarted x @ pod_Name p # sw_Roll W k"
proof -
  let ?fl = "sp_Fleet x" and ?pods = "sp_Pods x" and ?T = "spot_target config n"
  let ?e = "set_env ?fl (sw_Selector W) (sw_Parse W) (sw_Clock W k) (sw_Sort W) ?pods"
  let ?names = "set (map pod_Name ?pods)"
  obtain res r effs where run: "sts_Reconcile ?e (set_request ?fl) (sp_Reconciler x) = (res, r, effs)" by (metis prod_cases3)
  have w: "set_world_ok W ?fl matches config n labels" "labels_agree ?fl cfg labels"
      "crew ?fl cfg matches n labels ?names (?pods, sp_Handler x)" "loop_ready ?fl cfg (sp_Reconciler x)"
    using assms(1) by (simp_all add: set_point_ok_def)
  have p: "set_ok ?fl (sw_Selector W) matches config n" "\<forall>p \<in> set ?pods. running cfg ?fl matches p"
      "length ?pods = n" "budgets_permit ?fl (sw_Selector W)" "slice_sort (sw_Sort W)"
    using w(1,3) by (simp_all add: set_world_ok_def crew_def)
  have "cooldown_gate ?e (request_String (set_request ?fl)) (sp_Reconciler x) = GatePass"
    using assms(2) by (simp add: set_may_evict_def cooldown_gate_def)
  with assms(2) have "set_outcome ?fl cfg ?T ?pods (sw_Clock W k 16) r effs"
    by (intro set_reconcile [OF p(1,2) w(4) p(3-5) _ run]) (simp add: set_may_evict_def)
  from misplaced_pod [OF this assms(3)] obtain q st where q: "evictions effs = [q]" "q \<in> set ?pods" "loop_ready ?fl cfg r"
    "stored effs (fl_StatefulSet ?fl) = rebalanced_template (sw_Clock W k 16) st (fl_StatefulSet ?fl)" by metis
  let ?fl' = "?fl\<lparr>fl_StatefulSet := stored effs (fl_StatefulSet ?fl)\<rparr>"
  have re: "retemplated ?fl ?fl'" unfolding q(4) by (rule rebalanced_retemplated)
  note same = retemplated_same [OF re]
  obtain pods' m' where roll: "roll_out W k 0 ?fl' (pod_Name q # sw_Roll W k) (?pods, sp_Handler x) = (pods', m')" by fastforce
  have x': "set_round W k x = \<lparr>sp_Fleet = ?fl', sp_Reconciler = r, sp_Handler = m', sp_Pods = pods',
      sp_Restarted = sp_Restarted x @ pod_Name q # sw_Roll W k\<rparr>"
    using run q(1,2) roll rebalanced_differs [OF assms(5), of st, folded q(4)]
    by (simp add: set_round_def EvictPod_def sets.evicts Let_def del: roll_out.simps)
  have w': "set_world_ok W ?fl' matches config n labels" "labels_agree ?fl' cfg labels"
      "crew ?fl' cfg matches n labels ?names (?pods, sp_Handler x)"
    using w by (simp_all add: set_world_ok_def crew_def same)
  have sub: "set (pod_Name q # sw_Roll W k) \<subseteq> ?names" "set (pod_Name q # sw_Roll W k) = ?names" using q(2) assms(4) by auto
  have "heading ?fl' cfg ?T {} ?pods" by (simp add: heading_def Let_def)
  from roll_out_heading [OF w' sub(1) roll this] sub(2)
  have done1: "crew ?fl' cfg matches n labels ?names (pods', m')" "heading ?fl' cfg ?T ?names pods'" by auto
  have "?T \<le> n" using loop_state_target(3) [of 0 n config] sets.ok_size [OF p(1)] by simp
  from heading_all [OF done1 this] have "length (pods_of_kind cfg ?fl NodeTypeSpot pods') = ?T" by (simp add: same)
  moreover have "set_point_ok W cfg matches config n labels (set_round W k x)"
    using w'(1,2) done1(1) q(3) by (simp add: x' set_point_ok_def same crew_def)
  ultimately show ?thesis using q(2) re done1(1) by (intro bexI [of _ q]) (simp_all add: x' crew_def)
qed

text \<open>A StatefulSet reaches its target in the first round, whatever its mix was, at the price of
  restarting every pod. If the mix is the target already, no pod is ever touched. Otherwise the
  first round evicts one misplaced pod, and because the template changed Kubernetes then replaces
  every pod of the set; the webhook places each of them so that after the roll-out the mix is the
  target. From then on no round touches a pod, whatever clock, window and cooldown say.\<close>

lemma set_rounds_converge:
  assumes "set_point_ok W cfg matches config n labels x" and "set_may_evict W 0 x"
    and "set (sw_Roll W 0) = set (map pod_Name (sp_Pods x))"
    and "map_lookup (sts_TemplateAnnotations (fl_StatefulSet (sp_Fleet x))) ''spotalis.io/rebalance-timestamp'' \<noteq>
      Some (FormatRFC3339 (sw_Clock W 0 16))"
  defines "spots \<equiv> \<lambda>y. length (pods_of_kind cfg (sp_Fleet x) NodeTypeSpot (sp_Pods y))"
  shows "length (sp_Pods (set_rounds W (Suc k) x)) = n \<and> spots (set_rounds W (Suc k) x) = spot_target config n \<and>
    sp_Pods (set_rounds W (Suc k) x) = sp_Pods (set_rounds W 1 x) \<and>
    (if spots x = spot_target config n
     then sp_Pods (set_rounds W (Suc k) x) = sp_Pods x \<and> sp_Restarted (set_rounds W (Suc k) x) = sp_Restarted x
     else \<exists>p \<in> set (sp_Pods x). sp_Restarted (set_rounds W (Suc k) x) = sp_Restarted x @ pod_Name p # sw_Roll W 0)"
proof -
  let ?T = "spot_target config n" and ?y = "set_rounds W 1 x"
  have first: "set_point_ok W cfg matches config n labels ?y \<and> retemplated (sp_Fleet x) (sp_Fleet ?y) \<and> spots ?y = ?T \<and>
      (if spots x = ?T then sp_Pods ?y = sp_Pods x \<and> sp_Restarted ?y = sp_Restarted x
       else \<exists>p \<in> set (sp_Pods x). sp_Restarted ?y = sp_Restarted x @ pod_Name p # sw_Roll W 0)"
  proof (cases "spots x = ?T")
    case True
    with set_round_settled [OF assms(1), of 0] obtain r where
      "set_round W 0 x = x\<lparr>sp_Reconciler := r\<rparr>" "set_point_ok W cfg matches config n labels (set_round W 0 x)"
      by (auto simp: spots_def)
    with True show ?thesis by (simp add: spots_def retemplated_refl)
  next
    case False
    with set_round_evicts [OF assms(1,2) _ assms(3,4)] show ?thesis by (auto simp: spots_def)
  qed
  have "set_point_ok W cfg matches config n labels (set_rounds W (Suc k) x) \<and>
      sp_Fleet (set_rounds W (Suc k) x) = sp_Fleet ?y \<and> sp_Pods (set_rounds W (Suc k) x) = sp_Pods ?y \<and>
      sp_Restarted (set_rounds W (Suc k) x) = sp_Restarted ?y" for k
  proof (induction k)
    case 0
    then show ?case using first by simp
  next
    case (Suc k)
    then have "length (pods_of_kind cfg (sp_Fleet (set_rounds W (Suc k) x)) NodeTypeSpot (sp_Pods (set_rounds W (Suc k) x))) = ?T"
      using first retemplated_same(7) [of "sp_Fleet x" "sp_Fleet ?y" cfg] by (simp add: spots_def del: set_rounds.simps)
    from set_round_settled [OF conjunct1 [OF Suc.IH] this, of "Suc k"] Suc show ?case by auto
  qed
  from this [of k] have later: "set_point_ok W cfg matches config n labels (set_rounds W (Suc k) x)"
      "sp_Pods (set_rounds W (Suc k) x) = sp_Pods ?y" "sp_Restarted (set_rounds W (Suc k) x) = sp_Restarted ?y" by blast+
  have "length (sp_Pods (set_rounds W (Suc k) x)) = n" using later(1) by (simp only: set_point_ok_def crew_def prod.case)
  with first show ?thesis unfolding spots_def later(2,3) by blast
qed

section \<open>A concrete StatefulSet\<close>

text \<open>Two replicas on the on-demand node of a cluster that also has a spot node; one of them should be there.\<close>

definition sample_set_fleet :: set_fleet where
  "sample_set_fleet = \<lparr>fl_Base = sample_api, fl_Namespace = ''shop'',
     fl_Nodes = [sample_node ''n0'' [(labelCapacityType, ''on-demand'')], sample_node ''n1'' [(labelCapacityType, ''spot'')]],
     fl_StatefulSet = small_statefulset\<rparr>"

definition sample_set_world :: set_world where
  "sample_set_world = \<lparr>sw_Selector = match_labels, sw_Parse = \<lambda>_. None, sw_Sort = insertionSort,
     sw_Clock = (\<lambda>k i. 9 * Minute + int k * Minute), sw_AdmissionClock = (\<lambda>k j i. 9 * Minute + int k * Minute),
     sw_Template = (\<lambda>k j name. (sample_pod name [])\<lparr>pod_Phase := PodPending, pod_Conditions := [],
       pod_OwnerReferences := [\<lparr>or_Kind = workloadTypeStatefulSet, or_Name = ''web'', or_UID = ''u1'', or_Controller = Some True\<rparr>]\<rparr>),
     sw_Schedule = (\<lambda>k j selector. if map_lookup selector CapacityTypeLabel = Some ''spot'' then ''n1'' else ''n0''),
     sw_Roll = (\<lambda>k. [''web-1'', ''web-0''])\<rparr>"

lemmas sample_set_defs = sample_set_world_def sample_set_fleet_def small_statefulset_def sample_workload_def sample_api_def
  two_nodes_def empty_cluster_def sample_node_def sample_pod_def workload.defs statefulset.defs set_fleet.defs fleet.defs

lemma sample_set_ok: "set_ok sample_set_fleet match_labels (\<lambda>_. True) sample_config 2"
  using sample_object_parses
  by (simp add: set_ok_def good_nodes_def sample_set_defs isStatefulSetStableAndReady_def match_labels_def in_i32_def Let_def)
    (simp add: sample_object_def IsSpotalisEnabled_def HasSpotalisAnnotations_def lower_true sample_config_def)

lemma sample_set_world_ok: "set_world_ok sample_set_world sample_set_fleet (\<lambda>_. True) sample_config 2 capacity_labels"
proof -
  have "budgets_permit sample_set_fleet match_labels"
    by (simp add: budgets_permit_def budget_permits_def CheckPDBStatus_def sample_set_defs no_pdb_def)
  moreover have "schedulable sample_set_fleet (sw_Schedule sample_set_world k j) (pinned (sw_Template sample_set_world k j name) CapacityTypeLabel v)"
    if "v = ''spot'' \<or> v = ''on-demand''" for k j name v
    using that by (auto simp: schedulable_def pinned_def sample_set_defs map_lookup_def CapacityTypeLabel_def labelCapacityType_def)
  moreover have "fresh_reading (sw_AdmissionClock sample_set_world k j)" for k j
    by (simp add: fresh_reading_def sample_set_world_def time_sub_def DefaultPodListMaxAge_def duration_units)
  moreover have "created_for sample_set_fleet (sw_Template sample_set_world k j name)"
      "pod_DeletionTimestamp (sw_Template sample_set_world k j name) = None" "pod_Name (sw_Template sample_set_world k j name) = name" for k j name
    by (simp_all add: created_for_def sample_set_defs)
  moreover have "slice_sort (insertionSort :: (podWithOrdinal \<Rightarrow> podWithOrdinal \<Rightarrow> bool) \<Rightarrow> _)" by (rule insertion.slice_sort_axioms)
  ultimately show ?thesis
    using sample_set_ok by (simp add: set_world_ok_def newcomer_def capacity_labels_def) (simp add: sample_set_world_def)
qed

end
