(* ===== verification/Operator_Loop.thy ===== *)
theory Operator_Loop
  imports Closed_Loop StatefulSet_Loop Service_Registry
begin

text \<open>
  The loop of \<^verbatim>\<open>Closed_Loop\<close> on what the operator registers
  (\<^verbatim>\<open>pkg/operator/operator.go\<close>): the reconciler and the webhook handler that
  \<open>NewOperator\<close> builds meet the conditions the loop puts on them, so an operator that was
  built drives any Deployment it manages to its target. The same for a StatefulSet on
  \<^verbatim>\<open>StatefulSet_Loop\<close>, whose rebalancing changes the pod template: the roll-out makes every
  pod anew, and the webhook's choices for the new pods meet the target at once.
\<close>

lemma registered_ready:
  assumes "\<forall>nf. operator_namespace_filter e = Some nf \<longrightarrow>
      namespace_admitted nf (fl_Namespace fl) (namespace_read (Some (fl_Base fl)) (fl_Namespace fl))"
  shows "loop_ready fl operator_classifier_config (registered_reconciler e interval)"
proof -
  have "nf_cache nf = []" if "operator_namespace_filter e = Some nf" for nf
    using that by (auto simp: operator_namespace_filter_def NewNamespaceFilter_def compilePatterns_def Let_def
        split: sum.splits option.splits if_splits)
  then have "filter_ok fl (operator_namespace_filter e)"
    using assms by (auto simp: filter_ok_def cache_sound_def getCachedResult_def split: option.split)
  then show ?thesis
    by (simp add: loop_ready_def registered_reconciler_def new_reconciler_def synced_def NewNodeClassifierService_def empty_node_cache_def)
qed

lemma registered_handler_ready:
  "handler_ready fl operator_classifier_config operator_handler"
  "getCapacityTypeLabelConfig operator_handler = capacity_labels"
  by (simp_all add: handler_ready_def operator_handler_def synced_def NewNodeClassifierService_def empty_node_cache_def
      getCapacityTypeLabelConfig_def capacity_labels_def capacityTypeSpot_def capacityTypeOnDemand_def)

text \<open>Whatever the nodes, the label the webhook sets is the one the operator's classifier reads.\<close>

lemma operator_labels_agree: "labels_agree fl operator_classifier_config capacity_labels"
  by (auto simp: labels_agree_def capacity_labels_def CapacityTypeLabel_def operator_classifier_config_def ClassifyNode_def
      label_hit_def map_lookup_def)

lemma sample_running_operator: "running operator_classifier_config sample_fleet (\<lambda>_. True) (sample_pod name ''n0'')"
  by (simp add: running_def node_kind_def sample_fleet_def sample_pod_def sample_node_def lifecycleFor_def isTerminal_def
      isReady_def phase_defs ClassifyNode_def operator_classifier_config_def label_hit_def map_lookup_def labelCapacityType_def)

section \<open>Properties\<close>

text \<open>C1: The operator that \<open>NewOperator\<close> builds drives a Deployment to its target. Its
  reconciler and its webhook handler run in turn, as they were registered: in every round the
  Deployment is reconciled, the pod it evicts is removed, the pod created instead passes the
  webhook, and the scheduler honours the selector it was given. From any mix of running pods,
  after as many rounds as pods are misplaced the Deployment has exactly the target mix, not
  one round earlier; the number of pods is the same after every round, and from then on no
  round touches a pod. The rounds are the built-in cooldown apart, the disruption window is
  open, the budgets permit evictions and the filter admits the namespace; that webhook and
  classifier read the same label is proved, not assumed.\<close>

theorem operator_converges:
  assumes "NewOperator e config = Inr o1" and "(''deployment'', r) \<in> set (o_controllers o1)" and "(path, h) \<in> set (o_hooks o1)"
    and "world_ok W matches wc n capacity_labels"
    and "\<forall>nf. operator_namespace_filter e = Some nf \<longrightarrow>
      namespace_admitted nf (fl_Namespace (lw_Fleet W))
        (namespace_read (Some (fl_Base (lw_Fleet W))) (fl_Namespace (lw_Fleet W)))"
    and "\<forall>k. window_open (lw_Fleet W) (wl_Object (fl_Deployment (lw_Fleet W))) (lw_Parse W) None (lw_Clock W k 10)"
    and "\<forall>j k. j < k \<longrightarrow> lw_Clock W j 15 + 10 * Second \<le> lw_Clock W k 3"
    and "length pods = n" and "\<forall>p \<in> set pods. running operator_classifier_config (lw_Fleet W) matches p"
  defines "after \<equiv> \<lambda>k. lp_Pods (closed_rounds W k \<lparr>lp_Reconciler = r, lp_Handler = h, lp_Pods = pods\<rparr>)"
    and "spots \<equiv> \<lambda>pods. length (pods_of_kind operator_classifier_config (lw_Fleet W) NodeTypeSpot pods)"
  shows "length (after k) = n \<and>
    (spots (after k) = spot_target wc n \<longleftrightarrow> nat \<bar>int (spots pods) - int (spot_target wc n)\<bar> \<le> k) \<and>
    (spots (after k) = spot_target wc n \<longrightarrow> after (Suc k) = after k)"
proof -
  let ?x = "\<lparr>lp_Reconciler = r, lp_Handler = h, lp_Pods = pods\<rparr>"
  obtain interval where r: "r = registered_reconciler e interval" and h: "h = operator_handler"
    using NewOperator_result(1) [OF assms(1) refl] assms(2,3) by (auto simp: runs_as_def split: if_splits)
  have cooldown: "getCooldownPeriod r = 10 * Second" "rc_Config r = None" "rc_lastDeletionTimes r = Map.empty"
    by (simp_all add: r registered_reconciler_def new_reconciler_def getCooldownPeriod_def defaultWorkloadTimingConfig_def)
  have "point_ok W operator_classifier_config matches n capacity_labels ?x"
    using registered_ready [OF assms(5)] registered_handler_ready assms(8,9) by (simp add: point_ok_def r h)
  then have "loop_start W operator_classifier_config matches n capacity_labels ?x"
    using assms(6,7) cooldown by (simp add: loop_start_def in_i64_def Second_def)
  from closed_loop_converges [OF assms(4) operator_labels_agree this, of k] show ?thesis
    by (simp add: after_def spots_def)
qed

text \<open>The sample cluster under an operator with its default configuration.\<close>

theorem operator_converges_witness:
  "\<exists>o1 r h. NewOperator quiet_env (Some (operator_config_of Consolidated_Config.DefaultConfig)) = Inr o1 \<and>
     (''deployment'', r) \<in> set (o_controllers o1) \<and> (''/mutate'', h) \<in> set (o_hooks o1) \<and>
     length (pods_of_kind operator_classifier_config sample_fleet NodeTypeSpot
       (lp_Pods (closed_rounds sample_world 1 \<lparr>lp_Reconciler = r, lp_Handler = h,
          lp_Pods = [sample_pod ''web-0'' ''n0'', sample_pod ''web-1'' ''n0'']\<rparr>))) = 1"
proof -
  let ?pods = "[sample_pod ''web-0'' ''n0'', sample_pod ''web-1'' ''n0'']"
  obtain o1 where new: "NewOperator quiet_env (Some (operator_config_of Consolidated_Config.DefaultConfig)) = Inr o1"
    using NewOperator_quiet by blast
  obtain r where r: "(''deployment'', r) \<in> set (o_controllers o1)"
    using NewOperator_result(1) [OF new refl] by (auto simp: runs_as_def)
  have h: "(''/mutate'', operator_handler) \<in> set (o_hooks o1)"
    using NewOperator_result(1) [OF new refl]
    by (simp add: runs_as_def quiet_env_def configFromEnv_def operator_config_of_def DefaultConfig_def)
  have fl: "lw_Fleet sample_world = sample_fleet" by (simp add: sample_world_def)
  have admitted: "\<forall>nf. operator_namespace_filter quiet_env = Some nf \<longrightarrow>
      namespace_admitted nf (fl_Namespace (lw_Fleet sample_world))
        (namespace_read (Some (fl_Base (lw_Fleet sample_world))) (fl_Namespace (lw_Fleet sample_world)))"
    by (auto simp: operator_namespace_filter_def NewNamespaceFilter_def compilePatterns_def Let_def quiet_env_def
        DefaultNamespaceFilterConfig_def namespace_admitted_def isSystemNamespace_def HasPrefix_def namespace_read_def
        checkRequiredLabels_def checkForbiddenLabels_def checkForbiddenAnnotations_def sample_fleet_defs
        split: if_splits)
  have win: "\<forall>k. window_open (lw_Fleet sample_world) (wl_Object (fl_Deployment (lw_Fleet sample_world))) (lw_Parse sample_world) None (lw_Clock sample_world k 10)"
    using sample_loop_start by (simp add: loop_start_def sample_point_def sample_reconciler_def)
  have pace: "\<forall>j k. j < k \<longrightarrow> lw_Clock sample_world j 15 + 10 * Second \<le> lw_Clock sample_world k 3"
    by (simp add: sample_world_def duration_units)
  have run: "\<forall>p \<in> set ?pods. running operator_classifier_config (lw_Fleet sample_world) (\<lambda>_. True) p"
    by (simp add: fl sample_running_operator)
  have target: "spot_target sample_config 2 = 1" by code_simp
  have none: "length (pods_of_kind operator_classifier_config sample_fleet NodeTypeSpot ?pods) = 0" by code_simp
  have "length ?pods = 2" by simp
  from operator_converges [OF new r h sample_world_ok admitted win pace this run, of 1] new r h target none fl
  show ?thesis by auto
qed

text \<open>C2: The operator that \<open>NewOperator\<close> builds brings a StatefulSet to its target in one
  rebalancing, whatever its mix was, at the price of restarting every pod: the registered
  reconciler evicts one misplaced pod and writes a new template, Kubernetes replaces every pod
  of the set in its order, and the registered webhook handler places each of them so that after
  the roll-out the mix is the target. From then on no round touches a pod, whatever clock,
  cooldown and window say; and if the mix was the target, no pod is ever touched. The
  disruption window is open in the first round, the budgets permit evictions, the filter admits
  the namespace, and the template does not carry the stamp of that very second.\<close>

theorem operator_converges_statefulset:
  assumes "NewOperator e config = Inr o1" and "(''statefulset'', r) \<in> set (o_controllers o1)" and "(path, h) \<in> set (o_hooks o1)"
    and "set_world_ok W fl matches wc n capacity_labels"
    and "\<forall>nf. operator_namespace_filter e = Some nf \<longrightarrow>
      namespace_admitted nf (fl_Namespace fl) (namespace_read (Some (fl_Base fl)) (fl_Namespace fl))"
    and "window_open fl (wl_Object (fl_StatefulSet fl)) (sw_Parse W) None (sw_Clock W 0 10)"
    and "length pods = n" and "\<forall>p \<in> set pods. running operator_classifier_config fl matches p"
    and "distinct (map pod_Name pods)" and "set (sw_Roll W 0) = set (map pod_Name pods)"
    and "map_lookup (sts_TemplateAnnotations (fl_StatefulSet fl)) ''spotalis.io/rebalance-timestamp'' \<noteq>
      Some (FormatRFC3339 (sw_Clock W 0 16))"
  defines "after \<equiv> \<lambda>k. set_rounds W k \<lparr>sp_Fleet = fl, sp_Reconciler = r, sp_Handler = h, sp_Pods = pods, sp_Restarted = []\<rparr>"
    and "spots \<equiv> \<lambda>pods. length (pods_of_kind operator_classifier_config fl NodeTypeSpot pods)"
  shows "length (sp_Pods (after (Suc k))) = n \<and> spots (sp_Pods (after (Suc k))) = spot_target wc n \<and>
    sp_Pods (after (Suc k)) = sp_Pods (after 1) \<and>
    (if spots pods = spot_target wc n then sp_Pods (after (Suc k)) = pods \<and> sp_Restarted (after (Suc k)) = []
     else \<exists>p \<in> set pods. sp_Restarted (after (Suc k)) = pod_Name p # sw_Roll W 0)"
proof -
  let ?x = "\<lparr>sp_Fleet = fl, sp_Reconciler = r, sp_Handler = h, sp_Pods = pods, sp_Restarted = []\<rparr>"
  obtain interval where r: "r = registered_reconciler e interval" and h: "h = operator_handler"
    using NewOperator_result(1) [OF assms(1) refl] assms(2,3) by (auto simp: runs_as_def split: if_splits)
  have "rc_Config r = None" "rc_lastDeletionTimes r = Map.empty"
    by (simp_all add: r registered_reconciler_def new_reconciler_def defaultWorkloadTimingConfig_def)
  then have may: "set_may_evict W 0 ?x" using assms(6) by (simp add: set_may_evict_def)
  have "set_point_ok W operator_classifier_config matches wc n capacity_labels ?x"
    using assms(4,7-9)
    by (simp add: set_point_ok_def crew_def r h registered_ready [OF assms(5)] registered_handler_ready operator_labels_agree)
  from set_rounds_converge [OF this may, of k, unfolded set_point.select_convs append_Nil, OF assms(10,11)]
  show ?thesis unfolding after_def spots_def .
qed

text \<open>The sample set under an operator with its default configuration: both pods restart for one that is misplaced.\<close>

theorem operator_converges_statefulset_witness:
  "\<exists>o1 r h p. NewOperator quiet_env (Some (operator_config_of Consolidated_Config.DefaultConfig)) = Inr o1 \<and>
     (''statefulset'', r) \<in> set (o_controllers o1) \<and> (''/mutate'', h) \<in> set (o_hooks o1) \<and>
     (let y = set_rounds sample_set_world 1 \<lparr>sp_Fleet = sample_set_fleet, sp_Reconciler = r, sp_Handler = h,
          sp_Pods = [sample_pod ''web-0'' ''n0'', sample_pod ''web-1'' ''n0''], sp_Restarted = []\<rparr>
      in length (pods_of_kind operator_classifier_config sample_set_fleet NodeTypeSpot (sp_Pods y)) = 1 \<and>
         sp_Restarted y = [p, ''web-1'', ''web-0''])"
proof -
  let ?pods = "[sample_pod ''web-0'' ''n0'', sample_pod ''web-1'' ''n0'']"
  obtain o1 where new: "NewOperator quiet_env (Some (operator_config_of Consolidated_Config.DefaultConfig)) = Inr o1"
    using NewOperator_quiet by blast
  obtain r where r: "(''statefulset'', r) \<in> set (o_controllers o1)"
    using NewOperator_result(1) [OF new refl] by (auto simp: runs_as_def)
  have h: "(''/mutate'', operator_handler) \<in> set (o_hooks o1)"
    using NewOperator_result(1) [OF new refl]
    by (simp add: runs_as_def quiet_env_def configFromEnv_def operator_config_of_def DefaultConfig_def)
  have admitted: "\<forall>nf. operator_namespace_filter quiet_env = Some nf \<longrightarrow>
      namespace_admitted nf (fl_Namespace sample_set_fleet)
        (namespace_read (Some (fl_Base sample_set_fleet)) (fl_Namespace sample_set_fleet))"
    by (auto simp: operator_namespace_filter_def NewNamespaceFilter_def compilePatterns_def Let_def quiet_env_def
        DefaultNamespaceFilterConfig_def namespace_admitted_def isSystemNamespace_def HasPrefix_def namespace_read_def
        checkRequiredLabels_def checkForbiddenLabels_def checkForbiddenAnnotations_def sample_set_defs
        split: if_splits)
  have win: "window_open sample_set_fleet (wl_Object (fl_StatefulSet sample_set_fleet)) (sw_Parse sample_set_world) None
      (sw_Clock sample_set_world 0 10)"
    by (simp add: window_open_def resolveDisruptionWindow_def ParseDisruptionWindow_def map_index_def map_lookup_def sample_set_defs
        sample_object_def DisruptionScheduleAnnotation_def DisruptionDurationAnnotation_def
        SpotPercentageAnnotation_def MinOnDemandAnnotation_def)
  have run: "\<forall>p \<in> set ?pods. running operator_classifier_config sample_set_fleet (\<lambda>_. True) p"
    by (simp add: running_def node_kind_def sample_set_fleet_def sample_pod_def sample_node_def lifecycleFor_def isTerminal_def
        isReady_def phase_defs ClassifyNode_def operator_classifier_config_def label_hit_def map_lookup_def labelCapacityType_def)
  have names: "distinct (map pod_Name ?pods)" "set (sw_Roll sample_set_world 0) = set (map pod_Name ?pods)"
    by (auto simp: sample_set_world_def sample_pod_def)
  have stamp: "map_lookup (sts_TemplateAnnotations (fl_StatefulSet sample_set_fleet)) ''spotalis.io/rebalance-timestamp'' \<noteq>
      Some (FormatRFC3339 (sw_Clock sample_set_world 0 16))"
    by (simp add: sample_set_defs map_lookup_def)
  have target: "spot_target sample_config 2 = 1" by code_simp
  have none: "length (pods_of_kind operator_classifier_config sample_set_fleet NodeTypeSpot ?pods) = 0" by code_simp
  have "length ?pods = 2" by simp
  from operator_converges_statefulset [OF new r h sample_set_world_ok admitted win this run names stamp, of 0]
  have "\<exists>p. length (pods_of_kind operator_classifier_config sample_set_fleet NodeTypeSpot (sp_Pods (set_rounds sample_set_world 1
        \<lparr>sp_Fleet = sample_set_fleet, sp_Reconciler = r, sp_Handler = operator_handler, sp_Pods = ?pods, sp_Restarted = []\<rparr>))) = 1 \<and>
      sp_Restarted (set_rounds sample_set_world 1
        \<lparr>sp_Fleet = sample_set_fleet, sp_Reconciler = r, sp_Handler = operator_handler, sp_Pods = ?pods, sp_Restarted = []\<rparr>) =
        [p, ''web-1'', ''web-0'']"
    by (simp add: target none sample_set_world_def del: set_rounds.simps) blast
  with new r h show ?thesis unfolding Let_def by blast
qed

end
