(* ===== verification/Admission_Burst.thy ===== *)
theory Admission_Burst
  imports Operator_Loop
begin

text \<open>
  Pods of one workload that are created before any of them shows up in the cluster: the
  handler of \<^verbatim>\<open>pkg/webhook/mutate.go\<close> decides all of them from the same view. The
  admissions are followed through the code for any kind of workload, with and without an
  admission tracker; the handler that \<open>NewOperator\<close> registers has none.
\<close>

text \<open>The requests in their order, each with its own clock, and the selectors the pods get.\<close>

fun admit_burst :: "k8s_client \<Rightarrow> as_selector \<Rightarrow> (pod \<times> (nat \<Rightarrow> time)) list \<Rightarrow> MutationHandler \<Rightarrow> string_map option list" where
  "admit_burst c as_sel [] m = []"
| "admit_burst c as_sel ((p, clk) # rs) m =
     (case Handle (admission_at c as_sel clk) (creation p) m of
        ((resp, mets), m) \<Rightarrow> admitted_selector resp p # admit_burst c as_sel rs m)"

definition key_of :: "workload_object \<Rightarrow> string" where
  "key_of w = WorkloadKeyForUID (fst (snd (snd (workload_meta w))))"

definition generation_of :: "workload_object \<Rightarrow> int" where
  "generation_of w = snd (snd (snd (workload_meta w)))"

lemma Observe_ref:
  assumes "Observe as_sel c classifier now w st = (Inr s, st')"
  shows "WorkloadKeyForUID (ref_UID (sn_WorkloadRef s)) = key_of w"
  using assms by (auto simp: Observe_def key_of_def Let_def split: sum.splits prod.splits)

text \<open>What is pending, when there is a tracker, and the choice it leads to.\<close>

definition pending_of :: "workload_object \<Rightarrow> MutationHandler \<Rightarrow> (int \<times> int) option" where
  "pending_of w m = map_option (GetPendingCounts (key_of w) (generation_of w)) (mh_AdmissionTracker m)"

definition chosen :: "ReplicaAllocation \<Rightarrow> int \<Rightarrow> int \<Rightarrow> (int \<times> int) option \<Rightarrow> string" where
  "chosen a s d pending =
     (case case pending of None \<Rightarrow> (0, 0) | Some counts \<Rightarrow> counts of
        (ps, pd) \<Rightarrow> if al_TargetOnDemand a \<le> d + pd \<and> s + ps < al_TargetSpot a then capacityTypeSpot
                    else capacityTypeOnDemand)"

definition reserved :: "string \<Rightarrow> (int \<times> int) option \<Rightarrow> (int \<times> int) option" where
  "reserved c = map_option (\<lambda>(ps, pd). if c = capacityTypeSpot then (ps + 1, pd) else (ps, pd + 1))"

definition pending_bounded :: "int \<Rightarrow> (int \<times> int) option \<Rightarrow> bool" where
  "pending_bounded b pending \<longleftrightarrow>
     (case pending of None \<Rightarrow> True | Some (ps, pd) \<Rightarrow> 0 \<le> ps \<and> 0 \<le> pd \<and> in_i32 (b + ps + 1) \<and> in_i32 (b + pd + 1))"

lemma observed_capacity_chosen:
  assumes "ActualCounts snap = (s, d)" and "0 \<le> s" "0 \<le> d" "s \<le> b" "d \<le> b" "in_i32 b"
    and "WorkloadKeyForUID (ref_UID (sn_WorkloadRef snap)) = key_of w" and "pending_bounded b (pending_of w m)"
    and "observed_capacity e w snap a m = (c, m')"
  shows "c = chosen a s d (pending_of w m) \<and> pending_of w m' = reserved c (pending_of w m) \<and>
    m' = m\<lparr>mh_AdmissionTracker := mh_AdmissionTracker m'\<rparr>"
proof (cases "mh_AdmissionTracker m")
  case None
  with assms(1,9) show ?thesis by (auto simp: observed_capacity_def pending_of_def chosen_def reserved_def)
next
  case (Some t)
  let ?k = "key_of w" and ?g = "generation_of w"
  define t1 where "t1 = UpdatePodListMetadata (we_clk e 4) ?k (sn_PodResourceVersion snap) ?g t"
  obtain ps pd where p: "GetPendingCounts ?k ?g t = (ps, pd)" by fastforce
  then have p1: "GetPendingCounts ?k ?g t1 = (ps, pd)" unfolding t1_def GetPendingCounts_metadata .
  have r: "i64 (d + pd) = d + pd" "i64 (s + ps) = s + ps" "i32 (ps + 1) = ps + 1" "i32 (pd + 1) = pd + 1"
    using assms(2-6,8) p Some
    by (auto simp: pending_of_def pending_bounded_def in_i32_def in_i64_def intro!: i64_id i32_id)
  let ?c = "fst (SelectAndReserve (we_clk e 5) ?k ?g s d (al_TargetSpot a) (al_TargetOnDemand a) t1)"
  have "observed_capacity e w snap a m = (case SelectAndReserve (we_clk e 5) ?k ?g s d (al_TargetSpot a) (al_TargetOnDemand a) t1 of
      (c, t) \<Rightarrow> (c, m\<lparr>mh_AdmissionTracker := Some t\<rparr>))"
    using Some assms(1,7) by (simp add: observed_capacity_def Let_def t1_def generation_of_def)
  also have "\<dots> = (?c, m\<lparr>mh_AdmissionTracker := Some (IncrementPending (we_clk e 5) ?k ?c ?g t1)\<rparr>)"
    by (subst SelectAndReserve_pair) simp
  finally have "observed_capacity e w snap a m = (?c, m\<lparr>mh_AdmissionTracker := Some (IncrementPending (we_clk e 5) ?k ?c ?g t1)\<rparr>)" .
  with assms(9) have m': "c = ?c" "m' = m\<lparr>mh_AdmissionTracker := Some (IncrementPending (we_clk e 5) ?k c ?g t1)\<rparr>"
    by auto
  have "c = chosen a s d (Some (ps, pd))"
    unfolding m'(1) SelectAndReserve_choice [OF p1] by (simp add: chosen_def r)
  moreover have "pending_of w m' = reserved c (Some (ps, pd))"
    by (simp add: m'(2) pending_of_def GetPendingCounts_increment p1 r reserved_def)
  ultimately show ?thesis using p Some m'(2) by (simp add: pending_of_def)
qed

context fleet_kind
begin

definition burst_ready :: "'a fleet_scheme \<Rightarrow> NodeClassifierConfig \<Rightarrow> string \<times> string \<times> string \<Rightarrow> (int \<times> int) option \<Rightarrow>
    MutationHandler \<Rightarrow> bool" where
  "burst_ready fl cfg labels pending m \<longleftrightarrow> mh_Observer m \<and> synced fl (mh_NodeClassifier m) \<and>
     nk_config (mh_NodeClassifier m) = cfg \<and> getCapacityTypeLabelConfig m = labels \<and> pending_of (managed fl) m = pending"

lemma burst_choice:
  assumes "ok fl as_sel matches config n" "\<forall>p \<in> set pods. running cfg fl matches p" "in_i32 (int (length pods))"
    and "AllocateReplicaDistribution (int n) (AllocationPolicy config) = Inr a"
    and "burst_ready fl cfg labels pending m" "pending_bounded (int (length pods)) pending"
    and "created fl p" "fresh_reading clk"
  defines "s \<equiv> int (length (pods_of_kind cfg fl NodeTypeSpot pods))"
    and "d \<equiv> int (length (pods_of_kind cfg fl NodeTypeOnDemand pods))"
  shows "\<exists>m'. determineTargetCapacityType (admission_at (view fl pods) as_sel clk) p config m =
      (Inr (chosen a s d pending), m') \<and> burst_ready fl cfg labels (reserved (chosen a s d pending) pending) m'"
proof -
  let ?e = "admission_at (view fl pods) as_sel clk" and ?w = "managed fl"
  have m: "synced fl (mh_NodeClassifier m)" "nk_config (mh_NodeClassifier m) = cfg" "mh_Observer m"
    "getCapacityTypeLabelConfig m = labels" "pending_of ?w m = pending"
    using assms(5) by (simp_all add: burst_ready_def)
  note run = assms(2) [folded m(2)]
  from Observe_fleet [OF assms(1) run m(1) assms(3), of "clk 0" "clk 1" "clk 2"] obtain snap svc where
    o: "Observe as_sel (view fl pods) (Some (ClassifyNodesByName (view fl pods) (clk 0) (clk 1)))
       (clk 2) ?w (mh_NodeClassifier m) = (Inr snap, svc)"
    and svc: "synced fl svc" "nk_config svc = cfg" and sn: "sn_ObservedAt snap = clk 2" "sn_ClassificationError snap = None"
    and counts: "ActualCounts snap = (s, d)"
    unfolding m(2) s_def d_def by metis
  let ?m = "m\<lparr>mh_NodeClassifier := svc\<rparr>"
  have fresh: "IsFresh (Some snap) (clk 3) DefaultPodListMaxAge"
    using assms(8) by (simp add: IsFresh_def fresh_reading_def sn)
  obtain c m' where cap: "observed_capacity ?e ?w snap a ?m = (c, m')" by fastforce
  have b: "0 \<le> s" "0 \<le> d" "s \<le> int (length pods)" "d \<le> int (length pods)"
    by (simp_all add: s_def d_def pods_of_kind_def)
  have pd: "pending_of ?w ?m = pending" using m(5) by (simp add: pending_of_def)
  note ch = observed_capacity_chosen [OF counts b assms(3) Observe_ref [OF o] _ cap, unfolded pd, OF assms(6)]
  have m': "mh_Observer m' = mh_Observer m" "mh_NodeClassifier m' = svc"
      "mh_NodeClassifierConfig m' = mh_NodeClassifierConfig m"
    using arg_cong [OF ch [THEN conjunct2, THEN conjunct2], where f = mh_Observer]
      arg_cong [OF ch [THEN conjunct2, THEN conjunct2], where f = mh_NodeClassifier]
      arg_cong [OF ch [THEN conjunct2, THEN conjunct2], where f = mh_NodeClassifierConfig] by simp_all
  have "determineTargetCapacityType ?e p config m = (Inr c, m')"
    using o fresh sn(2) m(3) ok_owner [OF assms(1,7)] ok_replicas [OF assms(1)] cap assms(4)
    by (simp add: determineTargetCapacityType_def determine_observed_def admission_at_def Let_def)
  moreover have "burst_ready fl cfg labels (reserved c pending) m'"
    using ch m svc m' by (simp add: burst_ready_def getCapacityTypeLabelConfig_def)
  ultimately show ?thesis using ch by auto
qed

lemma burst_admission:
  assumes "ok fl as_sel matches config n" "\<forall>p \<in> set pods. running cfg fl matches p" "in_i32 (int (length pods))"
    and "AllocateReplicaDistribution (int n) (AllocationPolicy config) = Inr a"
    and "burst_ready fl cfg (labelKey, spotValue, onDemandValue) pending m" "pending_bounded (int (length pods)) pending"
    and "created fl p" "fresh_reading clk"
    and "Handle (admission_at (view fl pods) as_sel clk) (creation p) m = ((resp, mets), m')"
  defines "c \<equiv> chosen a (int (length (pods_of_kind cfg fl NodeTypeSpot pods)))
      (int (length (pods_of_kind cfg fl NodeTypeOnDemand pods))) pending"
  shows "admitted_selector resp p = pinned p labelKey (if c = capacityTypeSpot then spotValue else onDemandValue) \<and>
    burst_ready fl cfg (labelKey, spotValue, onDemandValue) (reserved c pending) m'"
proof -
  let ?e = "admission_at (view fl pods) as_sel clk"
  obtain m1 where d: "determineTargetCapacityType ?e p config m = (Inr c, m1)"
      and r: "burst_ready fl cfg (labelKey, spotValue, onDemandValue) (reserved c pending) m1"
    using burst_choice [OF assms(1-8)] unfolding c_def by blast
  have lab: "getCapacityTypeLabelConfig m1 = (labelKey, spotValue, onDemandValue)"
    using r by (simp add: burst_ready_def)
  obtain kind name where "getWorkloadConfigForPod (we_api ?e 0) p = Some (config, kind, name)"
    using ok_config [OF assms(1,7), of pods] by (auto simp: admission_at_def)
  from mutatePod_patches [OF _ this d, of "creation p", unfolded lab fst_conv snd_conv] obtain mets1 where
    "mutatePod ?e (creation p) m = ((Patched ''applied Spotalis mutations''
       (nodeSelectorPatches p labelKey (if Inr c = Inr capacityTypeSpot then spotValue else onDemandValue)), mets1), m1)"
    by (auto simp: creation_def)
  with assms(9) have "resp = Patched ''applied Spotalis mutations''
       (nodeSelectorPatches p labelKey (if c = capacityTypeSpot then spotValue else onDemandValue))" "m' = m1"
    by (auto simp: Handle_def creation_def)
  with r show ?thesis
    by (simp add: admitted_selector_def nodeSelectorPatches_apply pinned_def)
qed

lemma admit_burst_untracked:
  assumes "ok fl as_sel matches config n" "\<forall>p \<in> set pods. running cfg fl matches p" "in_i32 (int (length pods))"
    and "AllocateReplicaDistribution (int n) (AllocationPolicy config) = Inr a"
    and "burst_ready fl cfg (labelKey, spotValue, onDemandValue) None m"
    and "\<forall>(p, clk) \<in> set rs. created fl p \<and> fresh_reading clk"
  defines "c \<equiv> chosen a (int (length (pods_of_kind cfg fl NodeTypeSpot pods)))
      (int (length (pods_of_kind cfg fl NodeTypeOnDemand pods))) None"
  shows "admit_burst (view fl pods) as_sel rs m =
    map (\<lambda>(p, clk). pinned p labelKey (if c = capacityTypeSpot then spotValue else onDemandValue)) rs"
  using assms(5,6)
proof (induction rs arbitrary: m)
  case (Cons r rs)
  obtain p clk where r: "r = (p, clk)" by fastforce
  obtain resp mets m' where h: "Handle (admission_at (view fl pods) as_sel clk) (creation p) m = ((resp, mets), m')"
    by (metis prod.collapse)
  have "created fl p" "fresh_reading clk" "pending_bounded (int (length pods)) None"
    using Cons.prems(2) r by (simp_all add: pending_bounded_def)
  note adm = burst_admission [OF assms(1-4) Cons.prems(1) this(3,1,2) h, folded c_def]
  have "burst_ready fl cfg (labelKey, spotValue, onDemandValue) None m'" using adm by (simp add: reserved_def)
  with Cons.IH Cons.prems(2) adm h show ?case by (simp add: r)
qed simp

lemma admit_burst_tracked:
  fixes pods :: "pod list" and a :: ReplicaAllocation
  assumes "ok fl as_sel matches config n" "\<forall>p \<in> set pods. running cfg fl matches p"
    and "AllocateReplicaDistribution (int n) (AllocationPolicy config) = Inr a"
  defines "s \<equiv> int (length (pods_of_kind cfg fl NodeTypeSpot pods))"
    and "d \<equiv> int (length (pods_of_kind cfg fl NodeTypeOnDemand pods))"
  defines "missingOnDemand \<equiv> nat (al_TargetOnDemand a - d)" and "missingSpot \<equiv> nat (al_TargetSpot a - s)"
  assumes "burst_ready fl cfg (labelKey, spotValue, onDemandValue)
      (Some (burst_spot s d (al_TargetSpot a) (al_TargetOnDemand a) i, int i - burst_spot s d (al_TargetSpot a) (al_TargetOnDemand a) i)) m"
    and "\<forall>(p, clk) \<in> set rs. created fl p \<and> fresh_reading clk" and "in_i32 (int (length pods + (i + length rs)))"
  shows "admit_burst (view fl pods) as_sel rs m =
    map2 (\<lambda>j (p, clk). pinned p labelKey (if missingOnDemand \<le> j \<and> j < missingOnDemand + missingSpot then spotValue else onDemandValue))
      [i..<i + length rs] rs"
  using assms(8-)
proof (induction rs arbitrary: m i)
  case (Cons r rs)
  let ?bs = "\<lambda>i. burst_spot s d (al_TargetSpot a) (al_TargetOnDemand a) i"
  let ?pending = "\<lambda>i. Some (?bs i, int i - ?bs i)"
  obtain p clk where r: "r = (p, clk)" by fastforce
  obtain resp mets m' where h: "Handle (admission_at (view fl pods) as_sel clk) (creation p) m = ((resp, mets), m')"
    by (metis prod.collapse)
  have i: "in_i32 (int (length pods))" using Cons.prems(3) by (auto simp: in_i32_def)
  have "0 \<le> ?bs i" "?bs i \<le> int i" by (rule burst_spot_bounds)+
  with Cons.prems(3) have b: "pending_bounded (int (length pods)) (?pending i)"
    by (auto simp: pending_bounded_def in_i32_def)
  have p: "created fl p" "fresh_reading clk" using Cons.prems(2) r by simp_all
  note adm = burst_admission [OF assms(1,2) i assms(3) Cons.prems(1) b p h, folded s_def d_def]
  have c: "chosen a s d (?pending i) = capacityTypeSpot \<longleftrightarrow> missingOnDemand \<le> i \<and> i < missingOnDemand + missingSpot"
    by (auto simp: chosen_def burst_spot_def missingOnDemand_def missingSpot_def min_def max_def)
  have "reserved (chosen a s d (?pending i)) (?pending i) = ?pending (Suc i)"
    using burst_spot_step [of s d "al_TargetSpot a" "al_TargetOnDemand a" i] by (auto simp: reserved_def chosen_def)
  with adm have ready: "burst_ready fl cfg (labelKey, spotValue, onDemandValue) (?pending (Suc i)) m'" by simp
  have len: "in_i32 (int (length pods + (Suc i + length rs)))" using Cons.prems(3) by (simp add: add.assoc)
  have up: "[i..<i + length (r # rs)] = i # [Suc i..<Suc i + length rs]"
    by (subst upt_conv_Cons) simp_all
  from Cons.IH [OF ready _ len] Cons.prems(2) adm h c show ?case
    unfolding up by (simp add: r del: upt_Suc)
qed simp

end

section \<open>Properties\<close>

text \<open>C18: The operator builds its webhook handler without an admission tracker, so the handler it
  registers forgets what it admitted: however many pods of a Deployment are created before the
  first of them shows up, each is decided from the pods that run, and all of them get the
  answer of the first one, spot if the on-demand target is met and the spot target is not, else
  on-demand. The same handler with a new tracker sends exactly the missing on-demand pods to
  on-demand, then exactly the missing spot pods to spot, and what is beyond both to on-demand.\<close>

theorem registered_handler_forgets:
  assumes "NewOperator e config = Inr o1" and "(path, h) \<in> set (o_hooks o1)"
    and "fleet_ok fl as_sel matches wc n" and "\<forall>p \<in> set pods. running operator_classifier_config fl matches p"
    and "AllocateReplicaDistribution (int n) (AllocationPolicy wc) = Inr a"
    and "\<forall>(p, clk) \<in> set rs. created_by fl p \<and> fresh_reading clk" and "in_i32 (int (length pods + length rs))"
  defines "running_pods \<equiv> \<lambda>t. int (length (pods_of_kind operator_classifier_config fl t pods))"
  defines "missingOnDemand \<equiv> nat (al_TargetOnDemand a - running_pods NodeTypeOnDemand)"
    and "missingSpot \<equiv> nat (al_TargetSpot a - running_pods NodeTypeSpot)"
  shows "admit_burst (cluster_view fl pods) as_sel rs h =
      map (\<lambda>(p, clk). pinned p CapacityTypeLabel (if missingOnDemand = 0 \<and> 0 < missingSpot then ''spot'' else ''on-demand'')) rs \<and>
    admit_burst (cluster_view fl pods) as_sel rs (h\<lparr>mh_AdmissionTracker := Some (NewAdmissionStateTracker ttl)\<rparr>) =
      map2 (\<lambda>j (p, clk). pinned p CapacityTypeLabel
          (if missingOnDemand \<le> j \<and> j < missingOnDemand + missingSpot then ''spot'' else ''on-demand''))
        [0..<length rs] rs"
proof -
  let ?tracked = "h\<lparr>mh_AdmissionTracker := Some (NewAdmissionStateTracker ttl)\<rparr>"
  have h: "h = operator_handler"
    using NewOperator_result(1) [OF assms(1) refl] assms(2) by (auto simp: runs_as_def split: if_splits)
  have lab: "getCapacityTypeLabelConfig h = (CapacityTypeLabel, ''spot'', ''on-demand'')"
    using registered_handler_ready(2) by (simp add: h capacity_labels_def)
  have "handler_ready fl operator_classifier_config h" unfolding h by (rule registered_handler_ready)
  with lab have plain: "deployments.burst_ready fl operator_classifier_config (CapacityTypeLabel, ''spot'', ''on-demand'') None h"
    by (simp add: deployments.burst_ready_def handler_ready_def pending_of_def)
  let ?s = "running_pods NodeTypeSpot" and ?d = "running_pods NodeTypeOnDemand"
  have "burst_spot ?s ?d (al_TargetSpot a) (al_TargetOnDemand a) 0 = 0" by (simp add: burst_spot_def)
  moreover have "GetPendingCounts k g (NewAdmissionStateTracker ttl) = (0, 0)" for k g
    by (simp add: GetPendingCounts_def NewAdmissionStateTracker_def)
  ultimately have tracked: "deployments.burst_ready fl operator_classifier_config (CapacityTypeLabel, ''spot'', ''on-demand'')
      (Some (burst_spot ?s ?d (al_TargetSpot a) (al_TargetOnDemand a) 0,
        int 0 - burst_spot ?s ?d (al_TargetSpot a) (al_TargetOnDemand a) 0)) ?tracked"
    using plain by (simp add: deployments.burst_ready_def pending_of_def getCapacityTypeLabelConfig_def)
  have i: "in_i32 (int (length pods))" "in_i32 (int (length pods + (0 + length rs)))"
    using assms(7) by (auto simp: in_i32_def)
  have "chosen a ?s ?d None = capacityTypeSpot \<longleftrightarrow> missingOnDemand = 0 \<and> 0 < missingSpot"
    by (auto simp: chosen_def missingOnDemand_def missingSpot_def)
  with deployments.admit_burst_untracked [OF assms(3,4) i(1) assms(5) plain assms(6)]
    deployments.admit_burst_tracked [OF assms(3,4,5) tracked [unfolded running_pods_def] assms(6) i(2)]
  show ?thesis by (simp add: running_pods_def missingOnDemand_def missingSpot_def)
qed

text \<open>The two pods of a new Deployment that should have one of each kind.\<close>

theorem registered_handler_forgets_witness:
  "\<exists>o1 h. NewOperator quiet_env (Some (operator_config_of Consolidated_Config.DefaultConfig)) = Inr o1 \<and>
     (''/mutate'', h) \<in> set (o_hooks o1) \<and>
     (let rs = [(lw_Template sample_world 0, \<lambda>_. Minute), (lw_Template sample_world 1, \<lambda>_. Minute)];
          places = \<lambda>h. map (\<lambda>selector. map_lookup selector CapacityTypeLabel) (admit_burst (cluster_view sample_fleet []) match_labels rs h)
      in places h = [Some ''on-demand'', Some ''on-demand''] \<and>
         places (h\<lparr>mh_AdmissionTracker := Some (NewAdmissionStateTracker 0)\<rparr>) = [Some ''on-demand'', Some ''spot''])"
proof -
  let ?rs = "[(lw_Template sample_world 0, \<lambda>_. Minute), (lw_Template sample_world 1, \<lambda>_. Minute)]"
  obtain o1 where new: "NewOperator quiet_env (Some (operator_config_of Consolidated_Config.DefaultConfig)) = Inr o1"
    using NewOperator_quiet by blast
  have h: "(''/mutate'', operator_handler) \<in> set (o_hooks o1)"
    using NewOperator_result(1) [OF new refl]
    by (simp add: runs_as_def quiet_env_def configFromEnv_def operator_config_of_def DefaultConfig_def)
  have created: "\<forall>(p, clk) \<in> set ?rs. created_by sample_fleet p \<and> fresh_reading clk"
    by (simp add: created_by_def sample_fleet_defs fresh_reading_def time_sub_def DefaultPodListMaxAge_def duration_units)
  obtain a where a: "AllocateReplicaDistribution (int 2) (AllocationPolicy sample_config) = Inr a"
      "al_TargetOnDemand a = 1" "al_TargetSpot a = 1"
  proof -
    have "map_sum (\<lambda>_. ()) (\<lambda>a. (al_TargetOnDemand a, al_TargetSpot a))
        (AllocateReplicaDistribution (int 2) (AllocationPolicy sample_config)) = Inr (1, 1)" by code_simp
    then show thesis using that by (cases "AllocateReplicaDistribution (int 2) (AllocationPolicy sample_config)") auto
  qed
  have empty: "\<forall>p \<in> set []. running operator_classifier_config sample_fleet (\<lambda>_. True) p"
    "in_i32 (int (length [] + length ?rs))" by (simp_all add: in_i32_def)
  note run = registered_handler_forgets [OF new h sample_fleet_ok empty(1) a(1) created empty(2), of 0]
  have "map_lookup (pinned p CapacityTypeLabel v) CapacityTypeLabel = Some v" for p v
    by (simp add: pinned_def map_lookup_def)
  with run show ?thesis using new h a(2,3)
    by (intro exI [of _ o1] exI [of _ operator_handler]) (simp add: Let_def pods_of_kind_def upt_rec)
qed

end
