(* ===== verification/Admission_Concurrency.thy ===== *)
theory Admission_Concurrency
  imports Mutate
begin

text \<open>
  Admissions of one workload that overlap (\<^verbatim>\<open>determineTargetCapacityType\<close> of
  \<^verbatim>\<open>pkg/webhook/mutate.go\<close> on the tracker of
  \<^verbatim>\<open>pkg/webhook/admission_state.go\<close>). Every lock of the tracker is held for one
  operation, so requests interleave between the view of the pods, the metadata, the decision
  and the record; pods appear later, or never, and disappear; the tracker is cleaned up in
  the background and used by other workloads. \<open>adm_step\<close> is one step of that system.

  The three ways in which the code decides are compared: the observed path with a tracker
  reserves while it decides, the listed path counts the pending pods first and records its
  choice later, and the path the operator installs has no tracker.
\<close>

datatype adm_path = Reserving | Counting | Unaware

text \<open>
  The load: the workload with its generation and target, and two delays. A pod is counted at
  most \<open>ld_Appear\<close> after its admission, a request decides at most
  \<open>ld_Answer\<close> after its view of the pods.
\<close>

record adm_load =
  ld_Path :: adm_path
  ld_Key :: string
  ld_Generation :: int
  ld_Allocation :: ReplicaAllocation
  ld_Appear :: duration
  ld_Answer :: duration

text \<open>
  \<open>sy_Spot\<close> and \<open>sy_OnDemand\<close> are the pods a view counts, \<open>sy_Creating\<close> the admitted pods
  that are not counted yet, \<open>sy_Views\<close> the requests that have seen the pods and
  \<open>sy_Decided\<close> those of the listed path that have chosen and not recorded it.
\<close>

record adm_system =
  sy_Tracker :: AdmissionStateTracker
  sy_Now :: time
  sy_Spot :: int
  sy_OnDemand :: int
  sy_Creating :: "(time \<times> string) list"
  sy_Views :: "(time \<times> int \<times> int) list"
  sy_Decided :: "string list"

definition in_time :: "adm_load \<Rightarrow> time \<Rightarrow> adm_system \<Rightarrow> bool" where
  "in_time L t s \<longleftrightarrow> sy_Now s \<le> t \<and>
     (\<forall>x \<in> set (sy_Creating s). t \<le> fst x + ld_Appear L) \<and> (\<forall>v \<in> set (sy_Views s). t \<le> fst v + ld_Answer L)"

definition admit :: "time \<times> int \<times> int \<Rightarrow> string \<Rightarrow> AdmissionStateTracker \<Rightarrow> adm_system \<Rightarrow> adm_system" where
  "admit v c t s = s\<lparr>sy_Tracker := t, sy_Views := remove1 v (sy_Views s), sy_Creating := (sy_Now s, c) # sy_Creating s\<rparr>"

inductive adm_step :: "adm_load \<Rightarrow> adm_system \<Rightarrow> adm_system \<Rightarrow> bool" for L where
  as_tick: "in_time L t s \<Longrightarrow> adm_step L s (s\<lparr>sy_Now := t\<rparr>)"
| as_observe: "adm_step L s (s\<lparr>sy_Views := (sy_Now s, sy_Spot s, sy_OnDemand s) # sy_Views s\<rparr>)"
| as_abandon: "adm_step L s (s\<lparr>sy_Views := remove1 v (sy_Views s)\<rparr>)"
| as_metadata: "ld_Path L \<noteq> Unaware \<Longrightarrow>
    adm_step L s (s\<lparr>sy_Tracker := UpdatePodListMetadata (sy_Now s) (ld_Key L) rv (ld_Generation L) (sy_Tracker s)\<rparr>)"
| as_reserve: "ld_Path L = Reserving \<Longrightarrow> (u, vs, vd) \<in> set (sy_Views s) \<Longrightarrow>
    SelectAndReserve (sy_Now s) (ld_Key L) (ld_Generation L) vs vd (al_TargetSpot (ld_Allocation L))
      (al_TargetOnDemand (ld_Allocation L)) (sy_Tracker s) = (c, t) \<Longrightarrow>
    adm_step L s (admit (u, vs, vd) c t s)"
| as_unaware: "ld_Path L = Unaware \<Longrightarrow> (u, vs, vd) \<in> set (sy_Views s) \<Longrightarrow>
    adm_step L s (admit (u, vs, vd) (effective_choice vs vd (ld_Allocation L)) (sy_Tracker s) s)"
| as_count: "ld_Path L = Counting \<Longrightarrow> (u, vs, vd) \<in> set (sy_Views s) \<Longrightarrow>
    GetPendingCounts (ld_Key L) (ld_Generation L) (sy_Tracker s) = (ps, pd) \<Longrightarrow>
    adm_step L s (s\<lparr>sy_Views := remove1 (u, vs, vd) (sy_Views s),
      sy_Decided := effective_choice (i64 (vs + ps)) (i64 (vd + pd)) (ld_Allocation L) # sy_Decided s\<rparr>)"
| as_record: "ld_Path L = Counting \<Longrightarrow> c \<in> set (sy_Decided s) \<Longrightarrow>
    adm_step L s (s\<lparr>sy_Tracker := IncrementPending (sy_Now s) (ld_Key L) c (ld_Generation L) (sy_Tracker s),
      sy_Decided := remove1 c (sy_Decided s), sy_Creating := (sy_Now s, c) # sy_Creating s\<rparr>)"
| as_spot: "(u, capacityTypeSpot) \<in> set (sy_Creating s) \<Longrightarrow>
    adm_step L s (s\<lparr>sy_Creating := remove1 (u, capacityTypeSpot) (sy_Creating s), sy_Spot := sy_Spot s + 1\<rparr>)"
| as_onDemand: "(u, capacityTypeOnDemand) \<in> set (sy_Creating s) \<Longrightarrow>
    adm_step L s (s\<lparr>sy_Creating := remove1 (u, capacityTypeOnDemand) (sy_Creating s), sy_OnDemand := sy_OnDemand s + 1\<rparr>)"
| as_lost: "adm_step L s (s\<lparr>sy_Creating := remove1 x (sy_Creating s)\<rparr>)"
| as_spot_gone: "0 < sy_Spot s \<Longrightarrow> adm_step L s (s\<lparr>sy_Spot := sy_Spot s - 1\<rparr>)"
| as_onDemand_changes: "0 \<le> n \<Longrightarrow> adm_step L s (s\<lparr>sy_OnDemand := n\<rparr>)"
| as_cleanup: "adm_step L s (s\<lparr>sy_Tracker := cleanup (sy_Now s) (sy_Tracker s)\<rparr>)"
| as_elsewhere: "as_pending t (ld_Key L) = as_pending (sy_Tracker s) (ld_Key L) \<Longrightarrow> as_ttl t = as_ttl (sy_Tracker s) \<Longrightarrow>
    adm_step L s (s\<lparr>sy_Tracker := t\<rparr>)"

abbreviation adm_run :: "adm_load \<Rightarrow> adm_system \<Rightarrow> adm_system \<Rightarrow> bool" where
  "adm_run L \<equiv> (adm_step L)\<^sup>*\<^sup>*"

definition spots_creating :: "adm_system \<Rightarrow> int" where
  "spots_creating s = int (length (filter (\<lambda>x. snd x = capacityTypeSpot) (sy_Creating s)))"

text \<open>Where the requests start: nothing under way, and no reservation that has run over.\<close>

definition adm_start :: "adm_load \<Rightarrow> adm_system \<Rightarrow> bool" where
  "adm_start L s \<longleftrightarrow> sy_Creating s = [] \<and> sy_Views s = [] \<and> sy_Decided s = [] \<and>
     0 \<le> sy_Spot s \<and> in_i32 (sy_Spot s) \<and> 0 \<le> sy_OnDemand s \<and>
     0 \<le> fst (GetPendingCounts (ld_Key L) (ld_Generation L) (sy_Tracker s)) \<and>
     in_i32 (fst (GetPendingCounts (ld_Key L) (ld_Generation L) (sy_Tracker s)))"

text \<open>The tracker keeps an entry longer than an admission can be under way.\<close>

definition ttl_covers :: "adm_load \<Rightarrow> adm_system \<Rightarrow> bool" where
  "ttl_covers L s \<longleftrightarrow> 0 \<le> ld_Appear L \<and> 0 \<le> ld_Answer L \<and>
     ld_Appear L + ld_Answer L \<le> as_ttl (sy_Tracker s) \<and> as_ttl (sy_Tracker s) < 9223372036854775807"

section \<open>Reservations\<close>

abbreviation pending_spot :: "adm_load \<Rightarrow> AdmissionStateTracker \<Rightarrow> int" where
  "pending_spot L t \<equiv> fst (GetPendingCounts (ld_Key L) (ld_Generation L) t)"

definition last_update :: "adm_load \<Rightarrow> AdmissionStateTracker \<Rightarrow> time option" where
  "last_update L t = map_option pa_LastUpdated (as_pending t (ld_Key L))"

text \<open>
  The invariant, with the spot pods that exist or are being created on the left: they are
  covered by the spot pods of any view and the pending ones; an entry that may be cleaned up
  has no pod left under way, and what was seen since includes them all.
\<close>

definition covered :: "adm_load \<Rightarrow> int \<Rightarrow> adm_system \<Rightarrow> bool" where
  "covered L B s \<longleftrightarrow>
     0 \<le> sy_Spot s \<and> sy_Spot s + spots_creating s \<le> B \<and>
     (\<forall>x \<in> set (sy_Creating s). fst x \<le> sy_Now s) \<and>
     0 \<le> pending_spot L (sy_Tracker s) \<and> in_i32 (pending_spot L (sy_Tracker s)) \<and>
     spots_creating s \<le> pending_spot L (sy_Tracker s) \<and>
     (\<forall>(u, vs, vd) \<in> set (sy_Views s). u \<le> sy_Now s \<and> 0 \<le> vs \<and> in_i32 vs \<and>
        sy_Spot s + spots_creating s \<le> vs + pending_spot L (sy_Tracker s)) \<and>
     in_time L (sy_Now s) s"

definition dated :: "adm_load \<Rightarrow> adm_system \<Rightarrow> bool" where
  "dated L s \<longleftrightarrow>
     (\<forall>l. last_update L (sy_Tracker s) = Some l \<longrightarrow>
        (\<forall>(u, c) \<in> set (sy_Creating s). c = capacityTypeSpot \<longrightarrow> u \<le> l) \<and>
        (\<forall>(u, vs, vd) \<in> set (sy_Views s). l + ld_Appear L < u \<longrightarrow> sy_Spot s + spots_creating s \<le> vs))"

lemma spots_creating_bounds: "0 \<le> spots_creating s"
  by (simp add: spots_creating_def)

lemma spots_remove1:
  "length (filter P (remove1 x xs)) = (if x \<in> set xs \<and> P x then length (filter P xs) - 1 else length (filter P xs))"
  by (simp add: filter_remove1 length_remove1)

lemma spots_remove1_le: "length (filter P (remove1 x xs)) \<le> length (filter P xs)"
  by (simp add: spots_remove1)

lemma spots_present: "x \<in> set xs \<Longrightarrow> P x \<Longrightarrow> 0 < length (filter P xs)"
  by (induction xs) auto

lemma no_spots_creating: "spots_creating s \<le> 0 \<longleftrightarrow> (\<forall>x \<in> set (sy_Creating s). snd x \<noteq> capacityTypeSpot)"
  by (auto simp: spots_creating_def filter_empty_conv)

text \<open>Steps that leave the tracker and the clock alone and only let pods and requests go.\<close>

lemma kept_when_fewer:
  assumes "covered L B s" "dated L s"
    and "sy_Tracker s' = sy_Tracker s" "sy_Now s' = sy_Now s"
    and "set (sy_Views s') \<subseteq> set (sy_Views s)" "set (sy_Creating s') \<subseteq> set (sy_Creating s)"
    and "0 \<le> sy_Spot s'" "sy_Spot s' + spots_creating s' \<le> sy_Spot s + spots_creating s"
    and "spots_creating s' \<le> spots_creating s"
  shows "covered L B s' \<and> dated L s'"
proof
  show "covered L B s'"
    using assms(1,3-9) unfolding covered_def in_time_def
    by (fastforce split: prod.splits)
  show "dated L s'"
    using assms(2,3,5,6,8) unfolding dated_def by (fastforce split: prod.splits)
qed

lemma kept_by_observe:
  assumes "covered L B s" "dated L s" "0 \<le> ld_Appear L" "0 \<le> ld_Answer L" "in_i32 B"
  defines "s' \<equiv> s\<lparr>sy_Views := (sy_Now s, sy_Spot s, sy_OnDemand s) # sy_Views s\<rparr>"
  shows "covered L B s' \<and> dated L s'"
proof
  have sc: "spots_creating s' = spots_creating s" by (simp add: s'_def spots_creating_def)
  have "in_i32 (sy_Spot s)"
    using assms(1,5) spots_creating_bounds [of s] by (auto simp: covered_def in_i32_def)
  then show "covered L B s'"
    using assms(1,4) by (auto simp: covered_def in_time_def sc) (auto simp: s'_def)
  have "sy_Spot s + spots_creating s \<le> sy_Spot s"
    if l: "last_update L (sy_Tracker s) = Some l" "l + ld_Appear L < sy_Now s" for l
  proof -
    have "snd x \<noteq> capacityTypeSpot" if x: "x \<in> set (sy_Creating s)" for x
    proof
      assume "snd x = capacityTypeSpot"
      then have "fst x \<le> l" using assms(2) l(1) x unfolding dated_def by fastforce
      moreover have "sy_Now s \<le> fst x + ld_Appear L"
        using assms(1) x by (auto simp: covered_def in_time_def)
      ultimately show False using l(2) by linarith
    qed
    with no_spots_creating [of s] show ?thesis by auto
  qed
  then show "dated L s'"
    using assms(2) by (auto simp: dated_def sc) (auto simp: s'_def)
qed

lemma kept_by_tick:
  assumes "covered L B s" "dated L s" "in_time L t s"
  shows "covered L B (s\<lparr>sy_Now := t\<rparr>) \<and> dated L (s\<lparr>sy_Now := t\<rparr>)"
proof -
  have "spots_creating (s\<lparr>sy_Now := t\<rparr>) = spots_creating s" by (simp add: spots_creating_def)
  with assms show ?thesis
    by (auto simp: covered_def dated_def in_time_def)
qed

lemma last_update_simps:
  "last_update L (UpdatePodListMetadata now (ld_Key L) rv g t) = Some now"
  "last_update L (IncrementPending now (ld_Key L) c g t) = Some now"
  by (simp_all add: last_update_def UpdatePodListMetadata_def IncrementPending_def Let_def increment_simps)

lemma pending_untouched:
  "as_pending t' (ld_Key L) = as_pending t (ld_Key L) \<Longrightarrow>
    GetPendingCounts (ld_Key L) g t' = GetPendingCounts (ld_Key L) g t \<and> last_update L t' = last_update L t"
  by (simp add: GetPendingCounts_def last_update_def)

text \<open>Steps on the tracker: the pending spot pods stay, and the entry is new or as it was.\<close>

lemma kept_by_tracker:
  assumes "covered L B s" "dated L s" "0 \<le> ld_Appear L"
    and "pending_spot L t = pending_spot L (sy_Tracker s)"
    and "last_update L t = Some (sy_Now s) \<or> last_update L t = last_update L (sy_Tracker s)"
  shows "covered L B (s\<lparr>sy_Tracker := t\<rparr>) \<and> dated L (s\<lparr>sy_Tracker := t\<rparr>)"
proof -
  have sc: "spots_creating (s\<lparr>sy_Tracker := t\<rparr>) = spots_creating s" by (simp add: spots_creating_def)
  have "dated L (s\<lparr>sy_Tracker := t\<rparr>)" using assms(5)
  proof
    assume "last_update L t = Some (sy_Now s)"
    with assms(1,3) show ?thesis by (fastforce simp: dated_def covered_def)
  qed (use assms(2) in \<open>simp add: dated_def sc\<close>)
  moreover have "covered L B (s\<lparr>sy_Tracker := t\<rparr>)"
    using assms(1) by (simp add: covered_def in_time_def sc assms(4))
  ultimately show ?thesis by blast
qed

text \<open>The clean-up drops the entry only when it covers nothing any more.\<close>

lemma dropped_entry_unused:
  assumes "covered L B s" "dated L s" "last_update L (sy_Tracker s) = Some l"
    and "ld_Appear L + ld_Answer L < sy_Now s - l" "0 \<le> ld_Answer L"
  shows "spots_creating s \<le> 0" and "(u, vs, vd) \<in> set (sy_Views s) \<Longrightarrow> sy_Spot s + spots_creating s \<le> vs"
proof -
  have "snd x \<noteq> capacityTypeSpot" if x: "x \<in> set (sy_Creating s)" for x
  proof
    assume "snd x = capacityTypeSpot"
    then have "fst x \<le> l" using assms(2,3) x unfolding dated_def by fastforce
    moreover have "sy_Now s \<le> fst x + ld_Appear L"
      using assms(1) x by (auto simp: covered_def in_time_def)
    ultimately show False using assms(4,5) by linarith
  qed
  then show "spots_creating s \<le> 0" by (simp add: no_spots_creating)
next
  assume v: "(u, vs, vd) \<in> set (sy_Views s)"
  then have "sy_Now s \<le> u + ld_Answer L"
    using assms(1) unfolding covered_def in_time_def by fastforce
  with assms(4) have "l + ld_Appear L < u" by linarith
  with v assms(2,3) show "sy_Spot s + spots_creating s \<le> vs" unfolding dated_def by fastforce
qed

lemma kept_by_cleanup:
  assumes "covered L B s" "dated L s" "ttl_covers L s"
  defines "t \<equiv> cleanup (sy_Now s) (sy_Tracker s)"
  shows "covered L B (s\<lparr>sy_Tracker := t\<rparr>) \<and> dated L (s\<lparr>sy_Tracker := t\<rparr>)"
proof (cases "as_pending t (ld_Key L) = as_pending (sy_Tracker s) (ld_Key L)")
  case True
  with assms(1-3) show ?thesis
    by (intro kept_by_tracker) (simp_all add: pending_untouched [OF True] ttl_covers_def)
next
  case False
  have sc: "spots_creating (s\<lparr>sy_Tracker := t\<rparr>) = spots_creating s" by (simp add: spots_creating_def)
  obtain p where p: "as_pending (sy_Tracker s) (ld_Key L) = Some p" "as_pending t (ld_Key L) = None"
    and late: "time_sub (sy_Now s) (pa_LastUpdated p) > as_ttl (sy_Tracker s)"
    using False unfolding t_def cleanup_def by (auto split: option.splits if_splits)
  have l: "last_update L (sy_Tracker s) = Some (pa_LastUpdated p)" by (simp add: last_update_def p(1))
  have "ld_Appear L + ld_Answer L < sy_Now s - pa_LastUpdated p"
    using late assms(3) by (auto simp: ttl_covers_def time_sub_def)
  moreover have "0 \<le> ld_Answer L" using assms(3) by (simp add: ttl_covers_def)
  ultimately have unused: "spots_creating s \<le> 0"
    "\<forall>(u, vs, vd) \<in> set (sy_Views s). sy_Spot s + spots_creating s \<le> vs"
    using dropped_entry_unused [OF assms(1,2) l] by auto
  have n: "pending_spot L t = 0" "last_update L t = None"
    by (simp_all add: GetPendingCounts_def last_update_def p(2))
  have "covered L B (s\<lparr>sy_Tracker := t\<rparr>)"
    using assms(1) unused unfolding covered_def in_time_def sc by (simp add: n in_i32_def) fast
  moreover have "dated L (s\<lparr>sy_Tracker := t\<rparr>)" by (simp add: dated_def n)
  ultimately show ?thesis by blast
qed

lemma reserved_spot:
  assumes "SelectAndReserve now (ld_Key L) (ld_Generation L) vs vd S D t = (c, t')"
    and "0 \<le> vs" "in_i32 vs" "0 \<le> pending_spot L t" "in_i32 (pending_spot L t)" "in_i32 S"
  shows "pending_spot L t' = pending_spot L t + (if c = capacityTypeSpot then 1 else 0)"
    and "c = capacityTypeSpot \<Longrightarrow> vs + pending_spot L t < S"
    and "c = capacityTypeSpot \<or> c = capacityTypeOnDemand" and "last_update L t' = Some now"
    and "in_i32 (pending_spot L t')" and "as_ttl t' = as_ttl t"
proof -
  obtain ps pd where p: "GetPendingCounts (ld_Key L) (ld_Generation L) t = (ps, pd)" by fastforce
  have c: "c = (if D \<le> i64 (vd + pd) \<and> i64 (vs + ps) < S then capacityTypeSpot else capacityTypeOnDemand)"
    and t': "t' = IncrementPending now (ld_Key L) c (ld_Generation L) t"
    using assms(1) SelectAndReserve_choice [OF p, of now vs vd S D] SelectAndReserve_pair
    by (metis fst_conv, metis fst_conv snd_conv)
  have i: "i64 (vs + ps) = vs + ps" using assms(2-5) p by (auto intro!: i64_id simp: in_i64_def in_i32_def)
  show spot: "vs + pending_spot L t < S" if "c = capacityTypeSpot"
    using that c i p by (simp split: if_splits)
  show ps': "pending_spot L t' = pending_spot L t + (if c = capacityTypeSpot then 1 else 0)"
    using spot assms(2,4,6) p by (auto simp: t' GetPendingCounts_increment in_i32_def intro!: i32_id)
  show "in_i32 (pending_spot L t')" using spot assms(2,4-6) by (auto simp: ps' in_i32_def)
  show "c = capacityTypeSpot \<or> c = capacityTypeOnDemand" by (simp add: c)
  show "last_update L t' = Some now" by (simp add: t' last_update_simps)
  show "as_ttl t' = as_ttl t" by (simp add: t' IncrementPending_def)
qed

lemma spots_creating_admit:
  "spots_creating (admit v c t s) = spots_creating s + (if c = capacityTypeSpot then 1 else 0)"
  by (simp add: spots_creating_def admit_def)

lemma kept_by_reserve:
  assumes "covered L B s" "0 \<le> ld_Appear L" "(u, vs, vd) \<in> set (sy_Views s)"
    and "SelectAndReserve (sy_Now s) (ld_Key L) (ld_Generation L) vs vd S D (sy_Tracker s) = (c, t)"
    and "in_i32 S" "S \<le> B"
  shows "covered L B (admit (u, vs, vd) c t s) \<and> dated L (admit (u, vs, vd) c t s)"
proof
  let ?s = "admit (u, vs, vd) c t s"
  have v: "0 \<le> vs" "in_i32 vs" "sy_Spot s + spots_creating s \<le> vs + pending_spot L (sy_Tracker s)"
    and ps: "0 \<le> pending_spot L (sy_Tracker s)" "in_i32 (pending_spot L (sy_Tracker s))"
    using assms(1,3) by (auto simp: covered_def)
  note r = reserved_spot [OF assms(4) v(1,2) ps assms(5)]
  have views: "set (sy_Views ?s) \<subseteq> set (sy_Views s)" "sy_Creating ?s = (sy_Now s, c) # sy_Creating s"
    "sy_Spot ?s = sy_Spot s" "sy_Now ?s = sy_Now s" "sy_Tracker ?s = t"
    by (simp_all add: admit_def set_remove1_subset)
  have "\<forall>(u, vs, vd) \<in> set (sy_Views ?s). u \<le> sy_Now s \<and> 0 \<le> vs \<and> in_i32 vs \<and>
      sy_Spot s + spots_creating ?s \<le> vs + pending_spot L t"
    using assms(1) views(1) unfolding covered_def spots_creating_admit r(1) by fastforce
  moreover have "sy_Spot s + spots_creating ?s \<le> B"
    using assms(1,6) v(3) r(2) by (auto simp: covered_def spots_creating_admit)
  moreover have "in_time L (sy_Now s) ?s"
    using assms(1,2) views by (auto simp: covered_def in_time_def)
  ultimately show "covered L B ?s"
    using assms(1) r(5) unfolding covered_def views by (auto simp: spots_creating_admit r(1))
  show "dated L ?s"
    using assms(1,2) views(1) unfolding dated_def views r(4) covered_def by fastforce
qed

lemma adm_step_ttl: "adm_step L s s' \<Longrightarrow> as_ttl (sy_Tracker s') = as_ttl (sy_Tracker s)"
proof (induction rule: adm_step.induct)
  case (as_reserve u vs vd s c t)
  then show ?case
    using SelectAndReserve_increment [of "sy_Now s" "ld_Key L" "ld_Generation L" vs vd]
    by (auto simp: admit_def IncrementPending_def dest!: arg_cong [where f = snd])
qed (simp_all add: admit_def UpdatePodListMetadata_def IncrementPending_def cleanup_def Let_def)

lemma covered_step:
  assumes "adm_step L s s'" "ld_Path L = Reserving" "covered L B s" "dated L s" "ttl_covers L s"
    and "in_i32 B" "in_i32 (al_TargetSpot (ld_Allocation L))" "al_TargetSpot (ld_Allocation L) \<le> B"
  shows "covered L B s' \<and> dated L s'"
proof -
  note fewer = kept_when_fewer [OF assms(3,4)]
  have A: "0 \<le> ld_Appear L" "0 \<le> ld_Answer L" using assms(5) by (simp_all add: ttl_covers_def)
  have spot: "0 \<le> sy_Spot s" using assms(3) by (simp add: covered_def)
  have le: "spots_creating (s\<lparr>sy_Creating := remove1 x (sy_Creating s)\<rparr>) \<le> spots_creating s" for x
    by (simp add: spots_creating_def spots_remove1_le)
  from assms(1) show ?thesis
  proof cases
    case as_tick
    with kept_by_tick assms(3,4) show ?thesis by blast
  next
    case as_observe
    with kept_by_observe [OF assms(3,4) A assms(6)] show ?thesis by simp
  next
    case as_abandon
    then show ?thesis by (intro fewer) (auto simp: spots_creating_def spot set_remove1_subset)
  next
    case as_metadata
    then show ?thesis
      using kept_by_tracker [OF assms(3,4) A(1)] by (simp add: GetPendingCounts_metadata last_update_simps)
  next
    case as_reserve
    with kept_by_reserve [OF assms(3) A(1) _ _ assms(7,8)] show ?thesis by blast
  next
    case (as_spot u)
    then have n: "0 < length (filter (\<lambda>x. snd x = capacityTypeSpot) (sy_Creating s))"
      by (intro spots_present) auto
    with as_spot(2) have "spots_creating s' = spots_creating s - 1"
      unfolding as_spot(1) spots_creating_def by (simp add: spots_remove1 del: length_greater_0_conv)
    with as_spot show ?thesis by (intro fewer) (simp_all add: spot set_remove1_subset)
  next
    case (as_onDemand u)
    then show ?thesis
      by (intro fewer) (auto simp: spots_creating_def spots_remove1 spot set_remove1_subset)
  next
    case (as_lost x)
    then show ?thesis
      using le by (intro fewer) (auto simp: spot set_remove1_subset)
  next
    case as_cleanup
    with kept_by_cleanup [OF assms(3-5)] show ?thesis by simp
  next
    case as_elsewhere
    with kept_by_tracker [OF assms(3,4) A(1)] pending_untouched show ?thesis by metis
  next
    case as_spot_gone
    then show ?thesis by (intro fewer) (auto simp: spots_creating_def)
  next
    case as_onDemand_changes
    then show ?thesis by (intro fewer) (auto simp: spots_creating_def spot)
  qed (use assms(2) in simp_all)
qed

lemma start_covered:
  assumes "adm_start L s" "sy_Spot s \<le> B" shows "covered L B s \<and> dated L s"
  using assms by (auto simp: adm_start_def covered_def dated_def in_time_def spots_creating_def)

lemma run_covered:
  assumes "adm_run L s0 s" "ld_Path L = Reserving" "adm_start L s0" "ttl_covers L s0"
    and "in_i32 (al_TargetSpot (ld_Allocation L))"
  shows "covered L (max (al_TargetSpot (ld_Allocation L)) (sy_Spot s0)) s"
proof -
  let ?B = "max (al_TargetSpot (ld_Allocation L)) (sy_Spot s0)"
  have "covered L ?B s \<and> dated L s \<and> ttl_covers L s" using assms(1)
  proof (induction rule: rtranclp_induct)
    case base
    then show ?case using start_covered [OF assms(3), of ?B] assms(4) by simp
  next
    case (step s s')
    have "in_i32 ?B" using assms(3,5) by (simp add: adm_start_def max_def)
    with covered_step [OF step.hyps(2) assms(2), of ?B] step.IH assms(5) adm_step_ttl [OF step.hyps(2)]
    show ?case by (simp add: ttl_covers_def)
  qed
  then show ?thesis by blast
qed

section \<open>The handler as steps of this system\<close>

text \<open>
  A request of the handler, after its view of the pods, is two steps and the time between
  them: with a tracker the metadata and the reservation, without one the choice alone.
\<close>

lemma handler_takes_steps:
  assumes "ActualCounts snapshot = (vs, vd)" "(u, vs, vd) \<in> set (sy_Views s)"
    and "ld_Key L = WorkloadKeyForUID (ref_UID (sn_WorkloadRef snapshot))"
    and "ld_Generation L = snd (snd (snd (workload_meta w)))"
    and "mh_AdmissionTracker m = (if ld_Path L = Unaware then None else Some (sy_Tracker s))" "ld_Path L \<noteq> Counting"
    and "we_clk e 4 = sy_Now s" "in_time L (we_clk e 5) s"
    and "observed_capacity e w snapshot (ld_Allocation L) m = (c, m')"
  shows "\<exists>t. adm_run L s (admit (u, vs, vd) c t (s\<lparr>sy_Now := we_clk e 5\<rparr>)) \<and>
    mh_AdmissionTracker m' = (if ld_Path L = Unaware then None else Some t)"
proof (cases "ld_Path L = Unaware")
  case True
  let ?s = "s\<lparr>sy_Now := we_clk e 5\<rparr>"
  have c: "c = effective_choice vs vd (ld_Allocation L)" "m' = m"
    using observed_capacity_untracked [of m snapshot vs vd e w "ld_Allocation L"] assms(1,5,9) True by simp_all
  have "adm_step L s ?s" using assms(8) by (rule as_tick)
  moreover have "adm_step L ?s (admit (u, vs, vd) c (sy_Tracker s) ?s)"
    using as_unaware [OF True, of u vs vd ?s] assms(2) by (simp add: c)
  ultimately have "adm_run L s (admit (u, vs, vd) c (sy_Tracker s) ?s)"
    by (metis rtranclp.rtrancl_into_rtrancl rtranclp.rtrancl_refl)
  with True assms(5) show ?thesis by (auto simp: c(2))
next
  case False
  then have r: "ld_Path L = Reserving" using assms(6) by (cases "ld_Path L") auto
  define t1 where "t1 = UpdatePodListMetadata (sy_Now s) (ld_Key L) (sn_PodResourceVersion snapshot) (ld_Generation L) (sy_Tracker s)"
  let ?s1 = "s\<lparr>sy_Tracker := t1\<rparr>" and ?s2 = "s\<lparr>sy_Tracker := t1, sy_Now := we_clk e 5\<rparr>"
  obtain t where sel: "SelectAndReserve (we_clk e 5) (ld_Key L) (ld_Generation L) vs vd (al_TargetSpot (ld_Allocation L))
      (al_TargetOnDemand (ld_Allocation L)) t1 = (c, t)" and m': "mh_AdmissionTracker m' = Some t"
    using assms(1,3,4,5,7,9) False
    by (auto simp: observed_capacity_def Let_def t1_def split: prod.splits)
  have "adm_step L s ?s1" unfolding t1_def by (rule as_metadata [OF False])
  moreover have "adm_step L ?s1 ?s2"
    using as_tick [of L "we_clk e 5" ?s1] assms(8) by (simp add: in_time_def)
  moreover have "adm_step L ?s2 (admit (u, vs, vd) c t ?s2)"
    using as_reserve [OF r, of u vs vd ?s2 c t] assms(2) sel by simp
  moreover have "admit (u, vs, vd) c t ?s2 = admit (u, vs, vd) c t (s\<lparr>sy_Now := we_clk e 5\<rparr>)"
    by (simp add: admit_def)
  ultimately have "adm_run L s (admit (u, vs, vd) c t (s\<lparr>sy_Now := we_clk e 5\<rparr>))"
    by (metis rtranclp.rtrancl_into_rtrancl rtranclp.rtrancl_refl)
  with m' False show ?thesis by auto
qed

section \<open>Deciding and recording apart\<close>

lemma step_run: "adm_step L a b \<Longrightarrow> adm_run L b c \<Longrightarrow> adm_run L a c"
  by (rule converse_rtranclp_into_rtranclp)

lemma observe_many:
  "adm_run L s (s\<lparr>sy_Views := replicate k (sy_Now s, sy_Spot s, sy_OnDemand s) @ sy_Views s\<rparr>)"
proof (induction k)
  case (Suc k)
  show ?case
    by (rule rtranclp.rtrancl_into_rtrancl [OF Suc])
      (use as_observe [of L "s\<lparr>sy_Views := replicate k (sy_Now s, sy_Spot s, sy_OnDemand s) @ sy_Views s\<rparr>"] in simp)
qed simp

lemma unaware_many:
  assumes "ld_Path L = Unaware" "effective_choice vs vd (ld_Allocation L) = c"
  shows "sy_Views s = replicate k (u, vs, vd) \<Longrightarrow>
    adm_run L s (s\<lparr>sy_Views := [], sy_Creating := replicate k (sy_Now s, c) @ sy_Creating s\<rparr>)"
proof (induction k arbitrary: s)
  case 0
  then have "s = s\<lparr>sy_Views := [], sy_Creating := replicate 0 (sy_Now s, c) @ sy_Creating s\<rparr>" by simp
  then show ?case by (metis rtranclp.rtrancl_refl)
next
  case (Suc k)
  let ?s = "admit (u, vs, vd) c (sy_Tracker s) s"
  have "adm_step L s ?s" using as_unaware [OF assms(1), of u vs vd s] Suc.prems assms(2) by simp
  moreover have "adm_run L ?s (?s\<lparr>sy_Views := [], sy_Creating := replicate k (sy_Now ?s, c) @ sy_Creating ?s\<rparr>)"
    using Suc.prems by (intro Suc.IH) (simp add: admit_def)
  ultimately show ?case using step_run by (fastforce simp: admit_def replicate_append_same [symmetric])
qed

lemma count_many:
  assumes "ld_Path L = Counting" "GetPendingCounts (ld_Key L) (ld_Generation L) (sy_Tracker s) = (ps, pd)"
    and "effective_choice (i64 (vs + ps)) (i64 (vd + pd)) (ld_Allocation L) = c"
  shows "sy_Views s = replicate k (u, vs, vd) \<Longrightarrow>
    adm_run L s (s\<lparr>sy_Views := [], sy_Decided := replicate k c @ sy_Decided s\<rparr>)"
  using assms(2)
proof (induction k arbitrary: s)
  case 0
  then have "s = s\<lparr>sy_Views := [], sy_Decided := replicate 0 c @ sy_Decided s\<rparr>" by simp
  then show ?case by (metis rtranclp.rtrancl_refl)
next
  case (Suc k)
  let ?s = "s\<lparr>sy_Views := replicate k (u, vs, vd), sy_Decided := c # sy_Decided s\<rparr>"
  have "adm_step L s ?s"
    using as_count [OF assms(1), of u vs vd s ps pd] Suc.prems assms(3) by simp
  moreover have "adm_run L ?s (?s\<lparr>sy_Views := [], sy_Decided := replicate k c @ sy_Decided ?s\<rparr>)"
    using Suc.prems by (intro Suc.IH) simp_all
  ultimately show ?case using step_run by (fastforce simp: replicate_append_same [symmetric])
qed

lemma record_many:
  assumes "ld_Path L = Counting"
  shows "sy_Decided s = replicate k c \<Longrightarrow>
    \<exists>t. adm_run L s (s\<lparr>sy_Tracker := t, sy_Decided := [], sy_Creating := replicate k (sy_Now s, c) @ sy_Creating s\<rparr>)"
proof (induction k arbitrary: s)
  case 0
  then have "s = s\<lparr>sy_Tracker := sy_Tracker s, sy_Decided := [], sy_Creating := replicate 0 (sy_Now s, c) @ sy_Creating s\<rparr>" by simp
  then show ?case by (metis rtranclp.rtrancl_refl)
next
  case (Suc k)
  let ?s = "s\<lparr>sy_Tracker := IncrementPending (sy_Now s) (ld_Key L) c (ld_Generation L) (sy_Tracker s),
    sy_Decided := replicate k c, sy_Creating := (sy_Now s, c) # sy_Creating s\<rparr>"
  have "adm_step L s ?s" using as_record [OF assms, of c s] Suc.prems by simp
  moreover obtain t where "adm_run L ?s (?s\<lparr>sy_Tracker := t, sy_Decided := [],
      sy_Creating := replicate k (sy_Now ?s, c) @ sy_Creating ?s\<rparr>)"
    using Suc.IH [of ?s] by auto
  ultimately show ?case using step_run by (fastforce simp: replicate_append_same [symmetric])
qed

lemma spots_appear:
  "sy_Creating s = replicate k (u, capacityTypeSpot) \<Longrightarrow>
    adm_run L s (s\<lparr>sy_Creating := [], sy_Spot := sy_Spot s + int k\<rparr>)"
proof (induction k arbitrary: s)
  case 0
  then have "s = s\<lparr>sy_Creating := [], sy_Spot := sy_Spot s + int 0\<rparr>" by simp
  then show ?case by (metis rtranclp.rtrancl_refl)
next
  case (Suc k)
  let ?s = "s\<lparr>sy_Creating := replicate k (u, capacityTypeSpot), sy_Spot := sy_Spot s + 1\<rparr>"
  have "adm_step L s ?s" using as_spot [of u s L] Suc.prems by simp
  moreover have "adm_run L ?s (?s\<lparr>sy_Creating := [], sy_Spot := sy_Spot ?s + int k\<rparr>)"
    by (rule Suc.IH) simp
  ultimately show ?case using step_run by (fastforce simp: algebra_simps)
qed

lemma requests_admit:
  assumes "ld_Path L \<noteq> Reserving" and "sy_Views s1 = replicate k (u, vs, vd)"
    and "sy_Creating s1 = []" "sy_Decided s1 = []"
    and "GetPendingCounts (ld_Key L) (ld_Generation L) (sy_Tracker s1) = (0, 0)"
    and "effective_choice vs vd (ld_Allocation L) = c" "in_i32 vs" "in_i32 vd"
  shows "\<exists>t. adm_run L s1 (s1\<lparr>sy_Tracker := t, sy_Views := [], sy_Creating := replicate k (sy_Now s1, c)\<rparr>)"
proof (cases "ld_Path L")
  case Unaware
  with unaware_many [OF Unaware assms(6,2)] assms(3) show ?thesis
    by (intro exI [of _ "sy_Tracker s1"]) simp
next
  case Counting
  let ?s = "s1\<lparr>sy_Views := [], sy_Decided := replicate k c\<rparr>"
  have "i64 (vs + 0) = vs" "i64 (vd + 0) = vd"
    using assms(7,8) by (simp_all add: i64_id in_i32_in_i64)
  then have "adm_run L s1 ?s"
    using count_many [OF Counting assms(5) _ assms(2), of c] assms(4,6) by simp
  moreover obtain t where "adm_run L ?s (?s\<lparr>sy_Tracker := t, sy_Decided := [],
      sy_Creating := replicate k (sy_Now ?s, c) @ sy_Creating ?s\<rparr>)"
    using record_many [OF Counting, of ?s k] by auto
  moreover have "?s\<lparr>sy_Tracker := t, sy_Decided := [], sy_Creating := replicate k (sy_Now ?s, c) @ sy_Creating ?s\<rparr> =
      s1\<lparr>sy_Tracker := t, sy_Views := [], sy_Creating := replicate k (sy_Now s1, c)\<rparr>"
    using assms(3,4) by simp
  ultimately show ?thesis by (metis rtranclp_trans)
qed (use assms(1) in simp)

text \<open>A workload that should have two pods on spot and one on-demand, and has the latter.\<close>

definition sample_load :: "adm_path \<Rightarrow> adm_load" where
  "sample_load path = \<lparr>ld_Path = path, ld_Key = ''uid/u1'', ld_Generation = 1,
     ld_Allocation = \<lparr>al_TotalReplicas = 3, al_EffectiveOnDemandFloor = 1, al_TargetOnDemand = 1, al_TargetSpot = 2\<rparr>,
     ld_Appear = 20 * Second, ld_Answer = 5 * Second\<rparr>"

definition sample_system :: adm_system where
  "sample_system = \<lparr>sy_Tracker = NewAdmissionStateTracker 0, sy_Now = 7, sy_Spot = 0, sy_OnDemand = 1,
     sy_Creating = [], sy_Views = [], sy_Decided = []\<rparr>"

lemma sample_facts:
  "adm_start (sample_load path) sample_system" "ttl_covers (sample_load path) sample_system"
  "GetPendingCounts (ld_Key (sample_load path)) (ld_Generation (sample_load path)) (sy_Tracker sample_system) = (0, 0)"
  "al_TargetSpot (ld_Allocation (sample_load path)) = 2" "al_TargetOnDemand (ld_Allocation (sample_load path)) = 1"
  "sy_Spot sample_system = 0" "sy_OnDemand sample_system = 1" "ld_Path (sample_load path) = path"
  by (simp_all add: adm_start_def ttl_covers_def sample_load_def sample_system_def GetPendingCounts_def
      NewAdmissionStateTracker_def DefaultAdmissionTTL_def Second_def in_i32_def)

text \<open>Three requests that share one view: the third finds the spot target reserved.\<close>

definition reserve_view :: "adm_load \<Rightarrow> time \<times> int \<times> int \<Rightarrow> adm_system \<Rightarrow> adm_system" where
  "reserve_view L v s = (case v of (u, vs, vd) \<Rightarrow>
     case SelectAndReserve (sy_Now s) (ld_Key L) (ld_Generation L) vs vd (al_TargetSpot (ld_Allocation L))
       (al_TargetOnDemand (ld_Allocation L)) (sy_Tracker s) of (c, t) \<Rightarrow> admit v c t s)"

lemma reserve_view_step:
  "ld_Path L = Reserving \<Longrightarrow> v \<in> set (sy_Views s) \<Longrightarrow> adm_step L s (reserve_view L v s)"
  by (cases v) (auto simp: reserve_view_def split: prod.split intro: as_reserve)

definition sample_end :: adm_system where
  "sample_end = (reserve_view (sample_load Reserving) (7, 0, 1) ^^ 3)
     (sample_system\<lparr>sy_Views := replicate 3 (7, 0, 1)\<rparr>)"

lemma sample_end_choices: "map snd (sy_Creating sample_end) = [''on-demand'', ''spot'', ''spot'']"
  by code_simp

lemma sample_end_reached: "adm_run (sample_load Reserving) sample_system sample_end"
proof -
  let ?L = "sample_load Reserving" and ?v = "(7, 0, 1) :: time \<times> int \<times> int"
  let ?s = "\<lambda>k. (reserve_view ?L ?v ^^ k) (sample_system\<lparr>sy_Views := replicate 3 ?v\<rparr>)"
  have "adm_run ?L sample_system (?s 0)"
    using observe_many [of ?L sample_system 3] by (simp add: sample_system_def)
  moreover have "?v \<in> set (sy_Views (?s 0))" "?v \<in> set (sy_Views (?s (Suc 0)))" "?v \<in> set (sy_Views (?s (Suc (Suc 0))))"
    by code_simp+
  then have "adm_step ?L (?s 0) (?s (Suc 0))" "adm_step ?L (?s (Suc 0)) (?s (Suc (Suc 0)))"
    "adm_step ?L (?s (Suc (Suc 0))) (?s (Suc (Suc (Suc 0))))"
    using reserve_view_step [of ?L ?v] sample_facts(8) by simp_all
  ultimately show ?thesis
    unfolding sample_end_def numeral_3_eq_3 by (meson rtranclp.rtrancl_into_rtrancl)
qed

section \<open>Properties\<close>

text \<open>C16: With a tracker that reserves while it decides, overlapping admissions of a workload never
  send more pods to spot than the target, however views, reservations, the creation, loss and
  removal of pods, the clean-up and the use of the tracker by other workloads interleave, as
  long as the tracker keeps an entry as long as an admission can be under way. So when the
  workload has as many pods as it should, the on-demand floor is met.\<close>

theorem reservations_never_overshoot:
  assumes "adm_run L s0 s" and "ld_Path L = Reserving" and "adm_start L s0" and "ttl_covers L s0"
    and "in_i32 (al_TargetSpot (ld_Allocation L))"
  shows "sy_Spot s + spots_creating s \<le> max (al_TargetSpot (ld_Allocation L)) (sy_Spot s0) \<and>
    (sy_Spot s0 \<le> al_TargetSpot (ld_Allocation L) \<longrightarrow>
     sy_Spot s + sy_OnDemand s = al_TargetSpot (ld_Allocation L) + al_TargetOnDemand (ld_Allocation L) \<longrightarrow>
       al_TargetOnDemand (ld_Allocation L) \<le> sy_OnDemand s)"
proof -
  have "sy_Spot s + spots_creating s \<le> max (al_TargetSpot (ld_Allocation L)) (sy_Spot s0)"
    using run_covered [OF assms] by (simp add: covered_def)
  with spots_creating_bounds [of s] show ?thesis by auto
qed

text \<open>Three overlapping requests for three pods: two go to spot.\<close>

theorem reservations_never_overshoot_witness:
  "adm_run (sample_load Reserving) sample_system sample_end \<and> spots_creating sample_end = 2 \<and>
   sy_Spot sample_end + spots_creating sample_end \<le> 2"
proof -
  have "spots_creating sample_end = 2" by code_simp
  moreover have "in_i32 (al_TargetSpot (ld_Allocation (sample_load Reserving)))"
    by (simp add: sample_facts(4) in_i32_def)
  from reservations_never_overshoot [OF sample_end_reached sample_facts(8,1,2) this]
  have "sy_Spot sample_end + spots_creating sample_end \<le> 2" by (simp add: sample_facts(4,6))
  ultimately show ?thesis using sample_end_reached by simp
qed

text \<open>C17: Neither of the other two ways bounds the spot pods. Without a tracker, which is how the
  operator installs the handler, and on the listed path, which reads the pending pods in one
  locked step and records its choice in another, a workload that lacks a single spot pod can
  get any number of them from requests that overlap, at one instant and with every pod
  appearing at once.\<close>

theorem unreserved_overshoots:
  assumes "ld_Path L \<noteq> Reserving" and "adm_start L s0"
    and "GetPendingCounts (ld_Key L) (ld_Generation L) (sy_Tracker s0) = (0, 0)"
    and "al_TargetOnDemand (ld_Allocation L) \<le> sy_OnDemand s0" and "in_i32 (sy_OnDemand s0)"
    and "sy_Spot s0 < al_TargetSpot (ld_Allocation L)"
  shows "\<exists>s. adm_run L s0 s \<and> sy_Now s = sy_Now s0 \<and> sy_Spot s = sy_Spot s0 + int k"
proof -
  let ?v = "(sy_Now s0, sy_Spot s0, sy_OnDemand s0)"
  define s1 where "s1 = s0\<lparr>sy_Views := replicate k ?v\<rparr>"
  have start: "sy_Creating s0 = []" "sy_Views s0 = []" "sy_Decided s0 = []" "in_i32 (sy_Spot s0)"
    using assms(2) by (simp_all add: adm_start_def)
  have c: "effective_choice (sy_Spot s0) (sy_OnDemand s0) (ld_Allocation L) = capacityTypeSpot"
    using assms(4,6) by (simp add: effective_choice_spot)
  have "adm_run L s0 s1" using observe_many [of L s0 k] start by (simp add: s1_def)
  moreover obtain t where "adm_run L s1 (s1\<lparr>sy_Tracker := t, sy_Views := [],
      sy_Creating := replicate k (sy_Now s1, capacityTypeSpot)\<rparr>)" (is "adm_run L s1 ?s2")
    using requests_admit [OF assms(1) _ _ _ _ c, of s1 k "sy_Now s0"] assms(3,5) start by (auto simp: s1_def)
  moreover have "adm_run L ?s2 (?s2\<lparr>sy_Creating := [], sy_Spot := sy_Spot s0 + int k\<rparr>)"
    using spots_appear [of ?s2 k "sy_Now s1" L] by (simp add: s1_def)
  ultimately have "adm_run L s0 (?s2\<lparr>sy_Creating := [], sy_Spot := sy_Spot s0 + int k\<rparr>)"
    by (meson rtranclp_trans)
  then show ?thesis by (intro exI conjI) (assumption, simp_all add: s1_def)
qed

text \<open>Two spot pods are missing, and seven are created.\<close>

theorem unreserved_overshoots_witness:
  "\<exists>s. adm_run (sample_load Unaware) sample_system s \<and> sy_Now s = 7 \<and> sy_Spot s = 7"
proof -
  have "\<exists>s. adm_run (sample_load Unaware) sample_system s \<and> sy_Now s = sy_Now sample_system \<and>
      sy_Spot s = sy_Spot sample_system + int 7"
    by (rule unreserved_overshoots) (simp_all add: sample_facts in_i32_def)
  then show ?thesis by (simp add: sample_system_def)
qed

end
