(* ===== verification/Configuration_Clone.thy ===== *)
theory Configuration_Clone
  imports Controller_Configuration "HOL-Library.AList" "HOL-Library.Multiset"
begin

text \<open>
  \<^verbatim>\<open>ControllerConfiguration.Clone\<close> of \<^verbatim>\<open>pkg/apis/controller_config.go\<close>, on a store.

  Everywhere else a configuration is a value. What the deep copy is for shows only where the label
  maps, the feature gates and the selector are objects that several configurations may share, so here
  they are: a configuration holds their addresses. An address is a number below \<open>st_free\<close>; \<open>None\<close>
  is nil. \<open>view\<close> reads the value of the other theories back.
\<close>

section \<open>Configurations that share objects\<close>

record config_cell =
  cc_ResyncPeriod :: duration
  cc_Workers :: int
  cc_NamespaceSelector :: "nat option"
  cc_LeaderElection :: api_LeaderElectionConfig
  cc_SpotLabels :: "nat option"
  cc_OnDemandLabels :: "nat option"
  cc_RefreshInterval :: duration
  cc_MetricsAddr :: string
  cc_HealthAddr :: string
  cc_WebhookPort :: int
  cc_MaxConcurrentReconciles :: int
  cc_DryRun :: bool
  cc_FeatureGates :: "nat option"

record config_store =
  st_configs :: "nat \<Rightarrow> config_cell"
  st_labels :: "nat \<Rightarrow> (string \<times> string) list"
  st_gates :: "nat \<Rightarrow> (string \<times> bool) list"
  st_selectors :: "nat \<Rightarrow> label_selector"
  st_free :: nat

definition view :: "config_store \<Rightarrow> nat \<Rightarrow> ControllerConfiguration" where
  "view h c =
     (let x = st_configs h c
      in \<lparr>acc_ResyncPeriod = cc_ResyncPeriod x, acc_Workers = cc_Workers x,
          acc_NamespaceSelector = map_option (st_selectors h) (cc_NamespaceSelector x),
          acc_LeaderElection = cc_LeaderElection x,
          acc_NodeLabels =
            \<lparr>nl_SpotLabels = map_option (st_labels h) (cc_SpotLabels x),
             nl_OnDemandLabels = map_option (st_labels h) (cc_OnDemandLabels x),
             nl_RefreshInterval = cc_RefreshInterval x\<rparr>,
          acc_MetricsAddr = cc_MetricsAddr x, acc_HealthAddr = cc_HealthAddr x, acc_WebhookPort = cc_WebhookPort x,
          acc_MaxConcurrentReconciles = cc_MaxConcurrentReconciles x, acc_DryRun = cc_DryRun x,
          acc_FeatureGates = map_option (map_of \<circ> st_gates h) (cc_FeatureGates x)\<rparr>)"

definition put_label :: "nat \<Rightarrow> string \<Rightarrow> string \<Rightarrow> config_store \<Rightarrow> config_store" where
  "put_label a k v h = h\<lparr>st_labels := (st_labels h)(a := AList.update k v (st_labels h a))\<rparr>"

definition put_gate :: "nat \<Rightarrow> string \<Rightarrow> bool \<Rightarrow> config_store \<Rightarrow> config_store" where
  "put_gate a k v h = h\<lparr>st_gates := (st_gates h)(a := AList.update k v (st_gates h a))\<rparr>"

definition make_labels :: "config_store \<Rightarrow> nat \<times> config_store" where
  "make_labels h = (st_free h, h\<lparr>st_labels := (st_labels h)(st_free h := []), st_free := Suc (st_free h)\<rparr>)"

definition make_gates :: "config_store \<Rightarrow> nat \<times> config_store" where
  "make_gates h = (st_free h, h\<lparr>st_gates := (st_gates h)(st_free h := []), st_free := Suc (st_free h)\<rparr>)"

definition new_selector :: "label_selector \<Rightarrow> config_store \<Rightarrow> nat \<times> config_store" where
  "new_selector s h = (st_free h, h\<lparr>st_selectors := (st_selectors h)(st_free h := s), st_free := Suc (st_free h)\<rparr>)"

definition new_config :: "config_cell \<Rightarrow> config_store \<Rightarrow> nat \<times> config_store" where
  "new_config x h = (st_free h, h\<lparr>st_configs := (st_configs h)(st_free h := x), st_free := Suc (st_free h)\<rparr>)"

section \<open>The deep copy\<close>

text \<open>
  What Go and the library contribute: the order in which a \<^verbatim>\<open>range\<close> visits the entries
  of a map, and the content of the selector that \<^verbatim>\<open>LabelSelector.DeepCopy\<close> allocates. Each
  entry is visited once, and the copy of a selector has its content.
\<close>

record copying =
  cp_labels :: "(string \<times> string) list \<Rightarrow> (string \<times> string) list"
  cp_gates :: "(string \<times> bool) list \<Rightarrow> (string \<times> bool) list"
  cp_selector :: "label_selector \<Rightarrow> label_selector"

definition go_copying :: "copying \<Rightarrow> bool" where
  "go_copying lib \<longleftrightarrow>
     (\<forall>xs. mset (cp_labels lib xs) = mset xs) \<and> (\<forall>xs. mset (cp_gates lib xs) = mset xs) \<and>
     (\<forall>s. cp_selector lib s = s)"

definition copy_selector :: "copying \<Rightarrow> nat option \<Rightarrow> config_store \<Rightarrow> nat option \<times> config_store" where
  "copy_selector lib p h =
     (case p of
        None \<Rightarrow> (None, h)
      | Some a \<Rightarrow> (let (b, h) = new_selector (cp_selector lib (st_selectors h a)) h in (Some b, h)))"

definition copy_labels :: "copying \<Rightarrow> nat option \<Rightarrow> config_store \<Rightarrow> nat option \<times> config_store" where
  "copy_labels lib p h =
     (case p of
        None \<Rightarrow> (None, h)
      | Some a \<Rightarrow>
          (let (b, h) = make_labels h
           in (Some b, fold (\<lambda>(k, v). put_label b k v) (cp_labels lib (st_labels h a)) h)))"

definition copy_gates :: "copying \<Rightarrow> nat option \<Rightarrow> config_store \<Rightarrow> nat option \<times> config_store" where
  "copy_gates lib p h =
     (case p of
        None \<Rightarrow> (None, h)
      | Some a \<Rightarrow>
          (let (b, h) = make_gates h
           in (Some b, fold (\<lambda>(k, v). put_gate b k v) (cp_gates lib (st_gates h a)) h)))"

text \<open>\<open>clone := *c\<close> copies the fields, addresses included; the rest replaces the addresses.\<close>

definition Clone :: "copying \<Rightarrow> nat \<Rightarrow> config_store \<Rightarrow> nat \<times> config_store" where
  "Clone lib c h =
     (let x = st_configs h c;
          (sel, h) = copy_selector lib (cc_NamespaceSelector x) h;
          (spot, h) = copy_labels lib (cc_SpotLabels x) h;
          (onDemand, h) = copy_labels lib (cc_OnDemandLabels x) h;
          (gates, h) = copy_gates lib (cc_FeatureGates x) h
      in new_config (x\<lparr>cc_NamespaceSelector := sel, cc_SpotLabels := spot, cc_OnDemandLabels := onDemand,
                       cc_FeatureGates := gates\<rparr>) h)"

section \<open>Writing through a configuration\<close>

text \<open>
  What a holder of a configuration can do to it: assign to fields that are no references, switch a
  feature gate (which makes the map when it is nil), write an entry of a label map, overwrite the
  selector. Writing an entry of a nil map or through a nil selector panics: \<open>None\<close>.
\<close>

datatype config_write =
    Assign "config_cell \<Rightarrow> config_cell"
  | SetFeature string bool
  | PutSpotLabel string string
  | PutOnDemandLabel string string
  | OverwriteSelector label_selector

definition write_feature :: "nat \<Rightarrow> string \<Rightarrow> bool \<Rightarrow> config_store \<Rightarrow> config_store" where
  "write_feature c feature b h =
     (case cc_FeatureGates (st_configs h c) of
        Some a \<Rightarrow> put_gate a feature b h
      | None \<Rightarrow>
          (let (a, h) = make_gates h;
               h = h\<lparr>st_configs := (st_configs h)(c := (st_configs h c)\<lparr>cc_FeatureGates := Some a\<rparr>)\<rparr>
           in put_gate a feature b h))"

fun write_config :: "nat \<Rightarrow> config_write \<Rightarrow> config_store \<Rightarrow> config_store option" where
  "write_config c (Assign f) h =
     (let x = st_configs h c
      in Some (h\<lparr>st_configs := (st_configs h)(c :=
           (f x)\<lparr>cc_NamespaceSelector := cc_NamespaceSelector x, cc_SpotLabels := cc_SpotLabels x,
                 cc_OnDemandLabels := cc_OnDemandLabels x, cc_FeatureGates := cc_FeatureGates x\<rparr>)\<rparr>))"
| "write_config c (SetFeature feature b) h = Some (write_feature c feature b h)"
| "write_config c (PutSpotLabel k v) h = map_option (\<lambda>a. put_label a k v h) (cc_SpotLabels (st_configs h c))"
| "write_config c (PutOnDemandLabel k v) h = map_option (\<lambda>a. put_label a k v h) (cc_OnDemandLabels (st_configs h c))"
| "write_config c (OverwriteSelector s) h =
     map_option (\<lambda>a. h\<lparr>st_selectors := (st_selectors h)(a := s)\<rparr>) (cc_NamespaceSelector (st_configs h c))"

fun run_writes :: "nat \<Rightarrow> config_write list \<Rightarrow> config_store \<Rightarrow> config_store option" where
  "run_writes c [] h = Some h"
| "run_writes c (w # ws) h = (case write_config c w h of None \<Rightarrow> None | Some h' \<Rightarrow> run_writes c ws h')"

section \<open>Separate configurations\<close>

definition refs :: "config_cell \<Rightarrow> nat set" where
  "refs x = set_option (cc_NamespaceSelector x) \<union> set_option (cc_SpotLabels x) \<union>
            set_option (cc_OnDemandLabels x) \<union> set_option (cc_FeatureGates x)"

definition placed :: "config_store \<Rightarrow> nat \<Rightarrow> bool" where
  "placed h c \<longleftrightarrow> c < st_free h \<and> (\<forall>a\<in>refs (st_configs h c). a < st_free h)"

text \<open>Two configurations are apart when they are two, and share no object.\<close>

definition apart :: "config_store \<Rightarrow> nat \<Rightarrow> nat \<Rightarrow> bool" where
  "apart h c d \<longleftrightarrow> c \<noteq> d \<and> placed h c \<and> placed h d \<and> refs (st_configs h c) \<inter> refs (st_configs h d) = {}"

lemma apart_sym: "apart h c d \<Longrightarrow> apart h d c"
  by (auto simp: apart_def)

text \<open>A configuration reads the same in a store that differs in other objects only.\<close>

definition agree :: "nat set \<Rightarrow> config_store \<Rightarrow> config_store \<Rightarrow> bool" where
  "agree A h h' \<longleftrightarrow>
     st_free h \<le> st_free h' \<and>
     (\<forall>a\<in>A. st_labels h' a = st_labels h a \<and> st_gates h' a = st_gates h a \<and> st_selectors h' a = st_selectors h a)"

lemma agree_refl [simp]: "agree A h h"
  by (simp add: agree_def)

lemma agree_trans: "agree A h h' \<Longrightarrow> agree A h' h'' \<Longrightarrow> agree A h h''"
  by (auto simp: agree_def)

lemma agree_mono: "agree B h h' \<Longrightarrow> A \<subseteq> B \<Longrightarrow> agree A h h'"
  by (auto simp: agree_def)

lemma view_cong:
  assumes "agree (refs x) h h'" and "st_configs h c = x" and "st_configs h' c' = x"
  shows "view h' c' = view h c"
proof -
  have "map_option (st_selectors h') (cc_NamespaceSelector x) = map_option (st_selectors h) (cc_NamespaceSelector x)"
    "map_option (st_labels h') (cc_SpotLabels x) = map_option (st_labels h) (cc_SpotLabels x)"
    "map_option (st_labels h') (cc_OnDemandLabels x) = map_option (st_labels h) (cc_OnDemandLabels x)"
    "map_option (map_of \<circ> st_gates h') (cc_FeatureGates x) = map_option (map_of \<circ> st_gates h) (cc_FeatureGates x)"
    using assms(1) by (auto simp: agree_def refs_def intro!: option.map_cong)
  with assms(2,3) show ?thesis by (simp add: view_def Let_def)
qed

lemma write_keeps_apart:
  assumes "apart h c d" and "write_config c w h = Some h'"
  shows "apart h' c d \<and> agree (refs (st_configs h d)) h h' \<and> st_configs h' d = st_configs h d"
proof (cases w)
  case (Assign f)
  let ?x = "st_configs h c"
  let ?y = "(f ?x)\<lparr>cc_NamespaceSelector := cc_NamespaceSelector ?x, cc_SpotLabels := cc_SpotLabels ?x,
                 cc_OnDemandLabels := cc_OnDemandLabels ?x, cc_FeatureGates := cc_FeatureGates ?x\<rparr>"
  have y: "refs ?y = refs ?x" by (simp add: refs_def)
  from Assign assms(2) have "h' = h\<lparr>st_configs := (st_configs h)(c := ?y)\<rparr>" by (simp add: Let_def)
  with assms(1) y show ?thesis by (simp add: apart_def placed_def agree_def)
next
  case (SetFeature feature b)
  with assms show ?thesis
  proof (cases "cc_FeatureGates (st_configs h c)")
    case None
    with assms SetFeature show ?thesis
      by (simp add: write_feature_def make_gates_def put_gate_def apart_def placed_def agree_def refs_def)
        (fastforce)
  next
    case (Some a)
    with assms SetFeature show ?thesis
      by (auto simp: write_feature_def put_gate_def apart_def placed_def agree_def refs_def)
  qed
qed (use assms in \<open>auto simp: put_label_def apart_def placed_def agree_def refs_def\<close>)

lemma writes_keep_apart:
  "apart h c d \<Longrightarrow> run_writes c ws h = Some h' \<Longrightarrow>
   apart h' c d \<and> agree (refs (st_configs h d)) h h' \<and> st_configs h' d = st_configs h d"
proof (induction ws arbitrary: h)
  case (Cons w ws)
  then obtain g where g: "write_config c w h = Some g" "run_writes c ws g = Some h'" by (auto split: option.splits)
  from write_keeps_apart [OF Cons.prems(1) g(1)] Cons.IH [OF _ g(2)] show ?case by (auto intro: agree_trans)
qed simp

text \<open>Writing through one of two configurations that are apart leaves the other as it reads.\<close>

lemma writes_frame:
  assumes "apart h c d" and "run_writes c ws h = Some h'"
  shows "view h' d = view h d"
  using writes_keep_apart [OF assms] by (intro view_cong) auto

text \<open>On the value, switching a gate is what the other theories model.\<close>

lemma write_feature_view:
  assumes "placed h c"
  shows "view (write_feature c feature b h) c = set_feature feature b (view h c)"
  using assms
  by (cases "cc_FeatureGates (st_configs h c)")
    (auto simp: write_feature_def make_gates_def put_gate_def view_def Let_def set_feature_def update_conv'
      placed_def refs_def intro!: option.map_cong0)

section \<open>The copy is deep\<close>

lemma update_new: "k \<notin> fst ` set ys \<Longrightarrow> AList.update k v ys = ys @ [(k, v)]"
  by (induction ys) auto

lemma fold_update_distinct:
  "distinct (map fst (ys @ xs)) \<Longrightarrow> fold (\<lambda>(k, v). AList.update k v) xs ys = ys @ xs"
  by (induction xs arbitrary: ys) (auto simp: update_new)

lemma fold_put_label:
  "fold (\<lambda>(k, v). put_label b k v) xs h =
     h\<lparr>st_labels := (st_labels h)(b := fold (\<lambda>(k, v). AList.update k v) xs (st_labels h b))\<rparr>"
  by (induction xs arbitrary: h) (auto simp: put_label_def)

lemma fold_put_gate:
  "fold (\<lambda>(k, v). put_gate b k v) xs h =
     h\<lparr>st_gates := (st_gates h)(b := fold (\<lambda>(k, v). AList.update k v) xs (st_gates h b))\<rparr>"
  by (induction xs arbitrary: h) (auto simp: put_gate_def)

text \<open>A Go map has each key once.\<close>

definition go_maps :: "config_store \<Rightarrow> bool" where
  "go_maps h \<longleftrightarrow> (\<forall>a. distinct (map fst (st_labels h a)) \<and> distinct (map fst (st_gates h a)))"

lemma permuted_keys: "mset ys = mset xs \<Longrightarrow> distinct (map fst xs) \<Longrightarrow> distinct (map fst ys)"
  by (metis mset_map mset_eq_imp_distinct_iff)

lemma copied_labels: "go_copying lib \<Longrightarrow> go_maps h \<Longrightarrow>
  fold (\<lambda>(k, v). AList.update k v) (cp_labels lib (st_labels h a)) [] = cp_labels lib (st_labels h a)"
  using permuted_keys [of "cp_labels lib (st_labels h a)" "st_labels h a"]
  by (intro fold_update_distinct [of "[]", simplified]) (simp add: go_copying_def go_maps_def)

lemma copied_gates: "go_copying lib \<Longrightarrow> go_maps h \<Longrightarrow>
  fold (\<lambda>(k, v). AList.update k v) (cp_gates lib (st_gates h a)) [] = cp_gates lib (st_gates h a)"
  using permuted_keys [of "cp_gates lib (st_gates h a)" "st_gates h a"]
  by (intro fold_update_distinct [of "[]", simplified]) (simp add: go_copying_def go_maps_def)

text \<open>
  What the three copying steps share: they extend the store by objects of their own, and touch no
  other object and no configuration.
\<close>

definition extends :: "config_store \<Rightarrow> config_store \<Rightarrow> bool" where
  "extends h h' \<longleftrightarrow> agree {a. a < st_free h} h h' \<and> st_configs h' = st_configs h \<and> (go_maps h \<longrightarrow> go_maps h')"

definition fresh :: "config_store \<Rightarrow> config_store \<Rightarrow> nat option \<Rightarrow> bool" where
  "fresh h h' q \<longleftrightarrow> (\<forall>b\<in>set_option q. st_free h \<le> b \<and> b < st_free h')"

lemma extends_refl: "extends h h"
  by (simp add: extends_def)

lemma extends_trans: "extends h h' \<Longrightarrow> extends h' h'' \<Longrightarrow> extends h h''"
  by (auto simp: extends_def agree_def)

lemma copy_selector_extends:
  assumes "go_copying lib" and "copy_selector lib p h = (q, h')"
  shows "extends h h' \<and> fresh h h' q \<and> map_option (st_selectors h') q = map_option (st_selectors h) p"
  using assms
  by (auto simp: copy_selector_def new_selector_def extends_def agree_def fresh_def go_copying_def go_maps_def split: option.splits)

lemma go_maps_make: "go_maps h \<Longrightarrow> go_maps (snd (make_labels h))" "go_maps h \<Longrightarrow> go_maps (snd (make_gates h))"
  by (auto simp: go_maps_def make_labels_def make_gates_def)

lemma copy_labels_extends:
  assumes "go_copying lib" and "go_maps h" and "\<forall>a\<in>set_option p. a < st_free h" and "copy_labels lib p h = (q, h')"
  shows "extends h h' \<and> fresh h h' q \<and> map_option (st_labels h') q = map_option (cp_labels lib \<circ> st_labels h) p"
proof (cases p)
  case None
  with assms show ?thesis by (simp add: copy_labels_def extends_def fresh_def)
next
  case (Some a)
  with assms(3) have "a \<noteq> st_free h" by simp
  with Some assms(1,2,4) show ?thesis
    using permuted_keys [of "cp_labels lib (st_labels h a)" "st_labels h a"]
    by (auto simp: copy_labels_def make_labels_def fold_put_label copied_labels extends_def agree_def fresh_def
        go_maps_def go_copying_def)
qed

lemma copy_gates_extends:
  assumes "go_copying lib" and "go_maps h" and "\<forall>a\<in>set_option p. a < st_free h" and "copy_gates lib p h = (q, h')"
  shows "extends h h' \<and> fresh h h' q \<and> map_option (st_gates h') q = map_option (cp_gates lib \<circ> st_gates h) p"
proof (cases p)
  case None
  with assms show ?thesis by (simp add: copy_gates_def extends_def fresh_def)
next
  case (Some a)
  with assms(3) have "a \<noteq> st_free h" by simp
  with Some assms(1,2,4) show ?thesis
    using permuted_keys [of "cp_gates lib (st_gates h a)" "st_gates h a"]
    by (auto simp: copy_gates_def make_gates_def fold_put_gate copied_gates extends_def agree_def fresh_def
        go_maps_def go_copying_def)
qed

text \<open>The clone reads as the original, its label maps in the order in which they were visited.\<close>

definition revisit :: "copying \<Rightarrow> ControllerConfiguration \<Rightarrow> ControllerConfiguration" where
  "revisit lib v =
     v\<lparr>acc_NodeLabels := (acc_NodeLabels v)\<lparr>nl_SpotLabels := map_option (cp_labels lib) (nl_SpotLabels (acc_NodeLabels v)),
                                           nl_OnDemandLabels := map_option (cp_labels lib) (nl_OnDemandLabels (acc_NodeLabels v))\<rparr>\<rparr>"

lemma extends_deref:
  assumes "extends h h'" and "\<forall>a\<in>set_option p. a < st_free h"
  shows "map_option (st_labels h') p = map_option (st_labels h) p"
    and "map_option (st_gates h') p = map_option (st_gates h) p"
    and "map_option (st_selectors h') p = map_option (st_selectors h) p"
  using assms by (auto simp: extends_def agree_def intro!: option.map_cong0)

lemma gates_revisited:
  assumes "go_copying lib" and "go_maps h"
  shows "map_of (cp_gates lib (st_gates h a)) = map_of (st_gates h a)"
proof (rule map_of_inject_set [THEN iffD2])
  show "distinct (map fst (st_gates h a))" using assms(2) by (simp add: go_maps_def)
  then show "distinct (map fst (cp_gates lib (st_gates h a)))"
    using assms(1) permuted_keys [of "cp_gates lib (st_gates h a)" "st_gates h a"] by (simp add: go_copying_def)
  show "set (cp_gates lib (st_gates h a)) = set (st_gates h a)"
    using assms(1) by (metis go_copying_def set_mset_mset)
qed

lemma fresh_later: "fresh h1 h2 q \<Longrightarrow> extends h h1 \<Longrightarrow> extends h2 h3 \<Longrightarrow> fresh h h3 q"
  by (auto simp: fresh_def extends_def agree_def)

lemma fresh_allocated: "fresh h h' q \<Longrightarrow> \<forall>a\<in>set_option q. a < st_free h'"
  by (simp add: fresh_def)

lemma still_allocated: "extends h h' \<Longrightarrow> \<forall>a\<in>set_option p. a < st_free h \<Longrightarrow> \<forall>a\<in>set_option p. a < st_free h'"
  by (auto simp: extends_def agree_def)

text \<open>The four steps of a clone, seen from the store before it and the store after it.\<close>

lemma clone_steps:
  assumes lib: "go_copying lib" and maps: "go_maps h" and c: "placed h c" and clone: "Clone lib c h = (d, h')"
  obtains sel spot onDemand gates h4 where
    "new_config ((st_configs h c)\<lparr>cc_NamespaceSelector := sel, cc_SpotLabels := spot, cc_OnDemandLabels := onDemand,
                                  cc_FeatureGates := gates\<rparr>) h4 = (d, h')"
    "extends h h4" "fresh h h4 sel" "fresh h h4 spot" "fresh h h4 onDemand" "fresh h h4 gates"
    "map_option (st_selectors h4) sel = map_option (st_selectors h) (cc_NamespaceSelector (st_configs h c))"
    "map_option (st_labels h4) spot = map_option (cp_labels lib \<circ> st_labels h) (cc_SpotLabels (st_configs h c))"
    "map_option (st_labels h4) onDemand = map_option (cp_labels lib \<circ> st_labels h) (cc_OnDemandLabels (st_configs h c))"
    "map_option (st_gates h4) gates = map_option (cp_gates lib \<circ> st_gates h) (cc_FeatureGates (st_configs h c))"
proof -
  let ?x = "st_configs h c"
  obtain sel h1 where 1: "copy_selector lib (cc_NamespaceSelector ?x) h = (sel, h1)" by fastforce
  obtain spot h2 where 2: "copy_labels lib (cc_SpotLabels ?x) h1 = (spot, h2)" by fastforce
  obtain onDemand h3 where 3: "copy_labels lib (cc_OnDemandLabels ?x) h2 = (onDemand, h3)" by fastforce
  obtain gates h4 where 4: "copy_gates lib (cc_FeatureGates ?x) h3 = (gates, h4)" by fastforce
  have p: "\<forall>a\<in>set_option (cc_SpotLabels ?x). a < st_free h" "\<forall>a\<in>set_option (cc_OnDemandLabels ?x). a < st_free h"
    "\<forall>a\<in>set_option (cc_FeatureGates ?x). a < st_free h"
    using c by (auto simp: placed_def refs_def)
  note e1 = copy_selector_extends [OF lib 1]
  then have m1: "go_maps h1" and x1: "extends h h1" using maps by (auto simp: extends_def)
  note e2 = copy_labels_extends [OF lib m1 still_allocated [OF x1 p(1)] 2]
  then have m2: "go_maps h2" and x2: "extends h h2" using m1 x1 extends_trans by (auto simp: extends_def [of h1])
  note e3 = copy_labels_extends [OF lib m2 still_allocated [OF x2 p(2)] 3]
  then have m3: "go_maps h3" and x3: "extends h h3" using m2 x2 extends_trans by (auto simp: extends_def [of h2])
  note e4 = copy_gates_extends [OF lib m3 still_allocated [OF x3 p(3)] 4]
  have x: "extends h3 h4" using e4 by blast
  then have x': "extends h2 h4" using e3 extends_trans by blast
  then have x'': "extends h1 h4" using e2 extends_trans by blast
  show thesis
  proof
    show "new_config (?x\<lparr>cc_NamespaceSelector := sel, cc_SpotLabels := spot, cc_OnDemandLabels := onDemand,
                        cc_FeatureGates := gates\<rparr>) h4 = (d, h')"
      using clone by (simp add: Clone_def 1 2 3 4)
    show "fresh h h4 sel" "fresh h h4 spot" "fresh h h4 onDemand" "fresh h h4 gates"
      using fresh_later [OF _ extends_refl x''] fresh_later [OF _ x1 x'] fresh_later [OF _ x2 x]
        fresh_later [OF _ x3 extends_refl] e1 e2 e3 e4 by blast+
    show "extends h h4" by (rule extends_trans [OF x3 x])
    show "map_option (st_selectors h4) sel = map_option (st_selectors h) (cc_NamespaceSelector ?x)"
      using extends_deref(3) [OF x'' fresh_allocated, of h sel] e1 by simp
    show "map_option (st_labels h4) spot = map_option (cp_labels lib \<circ> st_labels h) (cc_SpotLabels ?x)"
      using extends_deref(1) [OF x' fresh_allocated, of h1 spot] extends_deref(1) [OF x1 p(1)] e2 by (simp flip: option.map_comp)
    show "map_option (st_labels h4) onDemand = map_option (cp_labels lib \<circ> st_labels h) (cc_OnDemandLabels ?x)"
      using extends_deref(1) [OF x fresh_allocated, of h2 onDemand] extends_deref(1) [OF x2 p(2)] e3 by (simp flip: option.map_comp)
    show "map_option (st_gates h4) gates = map_option (cp_gates lib \<circ> st_gates h) (cc_FeatureGates ?x)"
      using extends_deref(2) [OF x3 p(3)] e4 by (simp flip: option.map_comp)
  qed
qed

lemma clone_spec:
  assumes lib: "go_copying lib" and maps: "go_maps h" and c: "placed h c" and clone: "Clone lib c h = (d, h')"
  shows "apart h' c d \<and> view h' c = view h c \<and> view h' d = revisit lib (view h c)"
proof -
  obtain sel spot onDemand gates h4 where
    new: "new_config ((st_configs h c)\<lparr>cc_NamespaceSelector := sel, cc_SpotLabels := spot, cc_OnDemandLabels := onDemand,
                                      cc_FeatureGates := gates\<rparr>) h4 = (d, h')"
    and x: "extends h h4" and fr: "fresh h h4 sel" "fresh h h4 spot" "fresh h h4 onDemand" "fresh h h4 gates"
    and eq: "map_option (st_selectors h4) sel = map_option (st_selectors h) (cc_NamespaceSelector (st_configs h c))"
      "map_option (st_labels h4) spot = map_option (cp_labels lib \<circ> st_labels h) (cc_SpotLabels (st_configs h c))"
      "map_option (st_labels h4) onDemand = map_option (cp_labels lib \<circ> st_labels h) (cc_OnDemandLabels (st_configs h c))"
    and gates: "map_option (st_gates h4) gates = map_option (cp_gates lib \<circ> st_gates h) (cc_FeatureGates (st_configs h c))"
    by (rule clone_steps [OF assms])
  let ?y = "(st_configs h c)\<lparr>cc_NamespaceSelector := sel, cc_SpotLabels := spot, cc_OnDemandLabels := onDemand,
                             cc_FeatureGates := gates\<rparr>"
  from new x have h': "d = st_free h4" "st_configs h' = (st_configs h)(d := ?y)" "st_free h' = Suc (st_free h4)"
    "st_labels h' = st_labels h4" "st_gates h' = st_gates h4" "st_selectors h' = st_selectors h4"
    by (auto simp: new_config_def extends_def)
  have free: "st_free h \<le> st_free h4" using x by (simp add: extends_def agree_def)
  have "\<forall>a\<in>refs ?y. st_free h \<le> a \<and> a < st_free h4" using fr by (auto simp: refs_def fresh_def)
  then have apart: "apart h' c d" using c free by (fastforce simp: apart_def placed_def h')
  have "agree (refs (st_configs h c)) h h'" using x c by (auto simp: extends_def agree_def placed_def h')
  then have orig: "view h' c = view h c" using apart by (intro view_cong) (auto simp: h' apart_def)
  have "map_option (map_of \<circ> st_gates h4) gates = map_option (map_of \<circ> st_gates h) (cc_FeatureGates (st_configs h c))"
    using arg_cong [OF gates, of "map_option map_of"] gates_revisited [OF lib maps] by (simp add: option.map_comp comp_def)
  with eq orig apart show ?thesis
    by (simp add: view_def Let_def h' revisit_def option.map_comp)
qed

text \<open>
  The clone has the content of the original, its label maps in the order of one iteration, and from
  then on the two live apart: whatever is written through one of them, gates made on demand and
  entries of shared-looking maps included, the other reads as before.
\<close>

theorem clone_is_deep:
  assumes "go_copying lib" and "go_maps h" and "placed h c" and "Clone lib c h = (d, h')"
  shows "view h' d = revisit lib (view h c) \<and> view h' c = view h c \<and>
    (\<forall>ws h''. run_writes d ws h' = Some h'' \<longrightarrow> view h'' c = view h c) \<and>
    (\<forall>ws h''. run_writes c ws h' = Some h'' \<longrightarrow> view h'' d = view h' d)"
proof -
  note spec = clone_spec [OF assms]
  from spec have a: "apart h' c d" by blast
  from spec writes_frame [OF a] writes_frame [OF apart_sym [OF a]] show ?thesis by simp
qed

text \<open>The order of a label map is not seen: a clone validates as its original does, with the same effect.\<close>

lemma label_count_revisit: "go_copying lib \<Longrightarrow> label_count (map_option (cp_labels lib) m) = label_count m"
  by (auto simp: label_count_def go_copying_def intro: mset_eq_length split: option.split)

lemma nl_Validate_revisit:
  assumes "go_copying lib"
  shows "nl_Validate (acc_NodeLabels (revisit lib v)) =
    map_prod id (\<lambda>n. acc_NodeLabels (revisit lib (v\<lparr>acc_NodeLabels := n\<rparr>))) (nl_Validate (acc_NodeLabels v))"
  by (simp add: nl_Validate_def revisit_def Let_def label_count_revisit [OF assms])

lemma revisit_fields:
  "acc_ResyncPeriod (revisit lib v) = acc_ResyncPeriod v" "acc_Workers (revisit lib v) = acc_Workers v"
  "acc_LeaderElection (revisit lib v) = acc_LeaderElection v"
  "acc_MaxConcurrentReconciles (revisit lib v) = acc_MaxConcurrentReconciles v"
  "(revisit lib v)\<lparr>acc_MaxConcurrentReconciles := k\<rparr> = revisit lib (v\<lparr>acc_MaxConcurrentReconciles := k\<rparr>)"
  "(revisit lib v)\<lparr>acc_NodeLabels := acc_NodeLabels (revisit lib (u\<lparr>acc_NodeLabels := n\<rparr>))\<rparr> = revisit lib (v\<lparr>acc_NodeLabels := n\<rparr>)"
  by (simp_all add: revisit_def)

lemma clone_validates_alike:
  assumes "go_copying lib"
  shows "acc_Validate (revisit lib v) = map_prod id (revisit lib) (acc_Validate v)"
proof -
  let ?d = "if acc_MaxConcurrentReconciles v \<le> 0 then v\<lparr>acc_MaxConcurrentReconciles := i64 (acc_Workers v * 2)\<rparr> else v"
  obtain err n where n: "nl_Validate (acc_NodeLabels ?d) = (err, n)" by fastforce
  show ?thesis
    using nl_Validate_revisit [OF assms, of ?d] n
    by (cases "ale_Validate (acc_LeaderElection v)"; cases "acc_MaxConcurrentReconciles v \<le> 0")
      (simp_all add: acc_Validate_def revisit_fields)
qed

text \<open>
  Without the deep copy the two share: after \<open>clone := *c\<close> alone, a gate that is enabled on
  the copy is enabled on the original.
\<close>

definition shallow_clone :: "nat \<Rightarrow> config_store \<Rightarrow> nat \<times> config_store" where
  "shallow_clone c h = new_config (st_configs h c) h"

definition sample_cell :: config_cell where
  "sample_cell =
     \<lparr>cc_ResyncPeriod = 30 * Second, cc_Workers = 5, cc_NamespaceSelector = Some 0,
      cc_LeaderElection = acc_LeaderElection DefaultControllerConfiguration, cc_SpotLabels = Some 1,
      cc_OnDemandLabels = Some 1, cc_RefreshInterval = 5 * Minute, cc_MetricsAddr = '':8080'', cc_HealthAddr = '':8081'',
      cc_WebhookPort = 9443, cc_MaxConcurrentReconciles = 10, cc_DryRun = False, cc_FeatureGates = Some 2\<rparr>"

text \<open>The two label maps of the sample are one object.\<close>

definition sample_store :: config_store where
  "sample_store =
     \<lparr>st_configs = (\<lambda>_. sample_cell),
      st_labels = (\<lambda>a. if a = 1 then [(''pool'', ''spot''), (''zone'', ''a'')] else []),
      st_gates = (\<lambda>a. if a = 2 then [(''fast'', False)] else []),
      st_selectors = (\<lambda>_. \<lparr>ls_MatchLabels = [(''team'', ''x'')], ls_MatchExpressions = []\<rparr>), st_free = 4\<rparr>"

definition sample_copying :: copying where
  "sample_copying = \<lparr>cp_labels = rev, cp_gates = rev, cp_selector = id\<rparr>"

lemma shallow_copy_leaks:
  "case shallow_clone 3 sample_store of (d, h) \<Rightarrow>
     \<not> IsFeatureEnabled ''fast'' (view h 3) \<and>
     (case run_writes d [SetFeature ''fast'' True] h of None \<Rightarrow> False | Some h' \<Rightarrow> IsFeatureEnabled ''fast'' (view h' 3))"
  by (simp add: shallow_clone_def new_config_def sample_store_def sample_cell_def write_feature_def put_gate_def
      view_def Let_def IsFeatureEnabled_def)

lemma clone_is_deep_witness:
  "case Clone sample_copying 3 sample_store of (d, h) \<Rightarrow>
     nl_SpotLabels (acc_NodeLabels (view h d)) = Some [(''zone'', ''a''), (''pool'', ''spot'')] \<and>
     (case run_writes d [PutSpotLabel ''pool'' ''other'', SetFeature ''fast'' True] h of
        None \<Rightarrow> False
      | Some h' \<Rightarrow> view h' 3 = view sample_store 3 \<and> IsFeatureEnabled ''fast'' (view h' d) \<and>
          nl_OnDemandLabels (acc_NodeLabels (view h' d)) = nl_OnDemandLabels (acc_NodeLabels (view h d)))"
proof -
  obtain d h where c: "Clone sample_copying 3 sample_store = (d, h)" by fastforce
  have lib: "go_copying sample_copying" by (simp add: go_copying_def sample_copying_def)
  have maps: "go_maps sample_store" by (simp add: go_maps_def sample_store_def)
  have placed: "placed sample_store 3" by (auto simp: placed_def sample_store_def refs_def sample_cell_def)
  note deep = clone_is_deep [OF lib maps placed c]
  have w: "case run_writes d [PutSpotLabel ''pool'' ''other'', SetFeature ''fast'' True] h of
      None \<Rightarrow> False
    | Some h' \<Rightarrow> IsFeatureEnabled ''fast'' (view h' d) \<and>
        nl_OnDemandLabels (acc_NodeLabels (view h' d)) = nl_OnDemandLabels (acc_NodeLabels (view h d))"
    using c
    by (auto simp: Clone_def copy_selector_def copy_labels_def copy_gates_def new_selector_def make_labels_def
        make_gates_def new_config_def sample_store_def sample_cell_def sample_copying_def put_label_def put_gate_def
        write_feature_def view_def Let_def IsFeatureEnabled_def)
  moreover have "nl_SpotLabels (acc_NodeLabels (view h d)) = Some [(''zone'', ''a''), (''pool'', ''spot'')]"
    using deep by (simp add: revisit_def view_def sample_store_def sample_cell_def sample_copying_def)
  ultimately show ?thesis
    using c deep by (simp del: run_writes.simps split: option.splits)
qed

end
