(* ===== verification/Spec2Isabelle.thy ===== *)
theory Spec2Isabelle
  imports Replica_State Disruption_Policy Node_Classification Rebalancing_Loop StatefulSet_Controller
    Namespace_Refresh Rate_Limiter Shutdown Runtime_State Kubernetes_Access Process_Entry Webhook_Server
    Admission_Controller Metrics_Collection Admission_Burst Admission_Concurrency Configuration_Clone
begin

text \<open>
  Spotalis is a Kubernetes controller with an admission webhook. It keeps the pods of
  workloads that opted in on the mix of spot and on-demand nodes their annotations ask for:
  the webhook pins each new pod to one kind of node, the controllers evict pods that are of
  the wrong kind, one at a time, and Kubernetes replaces them.

  \<^bold>\<open>Theories, from the data to the interaction.\<close>

  \<^item> \<^verbatim>\<open>Spotalis_Prelude\<close>: Go integers of 32 and 64 bits (\<open>i32\<close>,
    \<open>i64\<close> wrap), truncating division, saturating time differences, strings and decimal
    numbers, list lemmas. Times and durations are nanoseconds; the zero time is 0.
  \<^item> \<^verbatim>\<open>Policy\<close> (\<^verbatim>\<open>pkg/apis/policy.go\<close>): the allocation engine. It
    returns the greatest spot count that the floor and the percentage admit; the locale
    \<open>allocator\<close> states what its clients need and is interpreted on the engine.
  \<^item> \<^verbatim>\<open>Workload_Configuration\<close> and \<^verbatim>\<open>Annotation_Parser\<close>
    (\<^verbatim>\<open>pkg/apis/configuration.go\<close>,
    \<^verbatim>\<open>internal/annotations/parser.go\<close>): configurations, their annotations, the
    two parsers and the validation, with the round trip and the agreement of the three.
  \<^item> \<^verbatim>\<open>Replica_State\<close> (\<^verbatim>\<open>pkg/apis/replica_state.go\<close>): desired
    distribution, drift, next action, and the convergence of repeated actions.
  \<^item> \<^verbatim>\<open>Go_Duration\<close> and \<^verbatim>\<open>Disruption_Window\<close>
    (\<^verbatim>\<open>time.ParseDuration\<close>,
    \<^verbatim>\<open>internal/annotations/disruption_window.go\<close>): a window is open exactly for
    its duration after an occurrence of its schedule, and the three levels of configuration.
    The cron library is the parameter \<open>parse\<close>; \<open>cron_schedule\<close> is its documented law.
  \<^item> \<^verbatim>\<open>Kube_Objects\<close>: the objects, errors and the client of the Kubernetes API.
    The API server is not part of the program: \<open>k8s_client\<close> is a parameter everywhere.
  \<^item> \<^verbatim>\<open>Disruption_Policy\<close>, \<^verbatim>\<open>Eviction\<close>
    (\<^verbatim>\<open>pkg/apis/disruption_policy.go\<close>,
    \<^verbatim>\<open>pkg/controllers/eviction.go\<close>): budgets, the pre-check and the eviction call.
  \<^item> \<^verbatim>\<open>Node_Classification\<close>, \<^verbatim>\<open>Node_Classifier\<close>
    (\<^verbatim>\<open>pkg/apis/node_classification.go\<close>,
    \<^verbatim>\<open>internal/config/node_classifier.go\<close>): what kind of node a node is; the caches
    are refined to the history of node events and to the classification by labels.
  \<^item> \<^verbatim>\<open>Observation\<close> (\<^verbatim>\<open>pkg/observation/workload.go\<close>): the snapshot of a
    workload's pods. It states what it needs of a classifier as the locale
    \<open>node_classifier\<close>, which \<^verbatim>\<open>Node_Classifier\<close> interprets.
  \<^item> \<^verbatim>\<open>Namespace_Filter\<close> (\<^verbatim>\<open>pkg/controllers/namespace_filter.go\<close>): which
    namespaces are managed; the cache is an instance of the locale \<open>decision_cache\<close>.
    \<^verbatim>\<open>Namespace_Refresh\<close>: the goroutine that empties the cache, interleaved with
    the queries and the callers of its shutdown.
  \<^item> \<^verbatim>\<open>Admission_State\<close>, \<^verbatim>\<open>Mutate\<close>
    (\<^verbatim>\<open>pkg/webhook/admission_state.go\<close>, \<^verbatim>\<open>mutate.go\<close>): the webhook, its
    reservations, its choice with and without an observer, and its patches.
  \<^item> \<^verbatim>\<open>Controller_Common\<close>, \<^verbatim>\<open>Deployment_Controller\<close>,
    \<^verbatim>\<open>StatefulSet_Controller\<close>
    (\<^verbatim>\<open>pkg/controllers/deployment_controller.go\<close>,
    \<^verbatim>\<open>statefulset_controller.go\<close>): one reconciliation with every early return.
    The locale \<open>workload_controller\<close> is the contract of a controller (at most one
    eviction, none in the cooldown, how the deletion time changes); both controllers
    interpret it and inherit the bound on the rate of evictions. The locale
    \<open>slice_sort\<close> is the contract of the runtime's sort.
    \<^verbatim>\<open>Eviction_Exactness\<close>: the guards of the handlers are not only necessary for an
    eviction but together sufficient, and determine the pod.
  \<^item> \<^verbatim>\<open>Admission_Concurrency\<close>: overlapping admissions of one workload as a step
    relation over the tracker, with explicit time for the requests and the pods under way. A
    reservation covers a pod until it is counted, so the spot target is never exceeded; the
    other two ways of deciding have no such bound.
  \<^item> \<^verbatim>\<open>Rebalancing_Loop\<close>: controller and webhook together reach the target, on the
    counts. \<^verbatim>\<open>Fleet\<close>: the cluster a loop runs on (a namespace, nodes, the pods of one
    workload) for any kind of workload; the locale \<open>fleet_kind\<close> is what the handlers see of a
    kind, and its lemmas say what they observe and what the webhook chooses for a new pod.
    \<^verbatim>\<open>Closed_Loop\<close> and \<^verbatim>\<open>StatefulSet_Loop\<close> interpret it for the two kinds
    and run the handlers as they are, over pods that are evicted or rolled out, created anew,
    admitted, bound and run. A round of the Deployment handlers is shown to be a round of the
    counting model; a StatefulSet restarts all its pods at its first rebalancing and none
    after it. \<^verbatim>\<open>Operator_Loop\<close>: what \<open>NewOperator\<close> registers meets the
    conditions of both loops. \<^verbatim>\<open>Admission_Burst\<close>: pods created before any of them
    shows up, on the registered handler, which has no admission tracker, and on one that has.

  \<^bold>\<open>The process around them.\<close>

  \<^item> \<^verbatim>\<open>Loader_Config\<close>, \<^verbatim>\<open>Loader_Environment\<close>
    (\<^verbatim>\<open>internal/config/loader.go\<close>) and \<^verbatim>\<open>Consolidated_Config\<close>
    (\<^verbatim>\<open>pkg/config\<close>): the two loaders with their defaults, their validation and
    every variable they read. The first visits its variables in the random order of a Go map;
    the result does not depend on it.
  \<^item> \<^verbatim>\<open>Controller_Configuration\<close>, \<^verbatim>\<open>Runtime_State\<close>
    (\<^verbatim>\<open>pkg/apis/controller_config.go\<close>, \<^verbatim>\<open>runtime_state.go\<close>): the
    validated settings of a controller, its namespace list and its limiter of API calls.
    \<^verbatim>\<open>Configuration_Clone\<close>: the deep copy of the settings on a store of objects
    that configurations may share; writing through one of the two never shows in the other.
  \<^item> \<^verbatim>\<open>Leadership\<close> (\<^verbatim>\<open>pkg/apis/leadership_state.go\<close>,
    \<^verbatim>\<open>pkg/operator/leader_election.go\<close>): the lease, and the callbacks of the elector
    as a step relation over one run, in which the callback that starts the leading is a
    goroutine of its own.
  \<^item> \<^verbatim>\<open>Health\<close> (\<^verbatim>\<open>internal/server/health.go\<close>) and
    \<^verbatim>\<open>Shutdown\<close> (\<^verbatim>\<open>pkg/operator/shutdown.go\<close>): the probes, and the
    phases of a shutdown with explicit time; the wait for another leader is a loop over the
    ticks of its timer and is proved to end.
  \<^item> \<^verbatim>\<open>Circuit_Breaker\<close>, \<^verbatim>\<open>Rate_Limiter\<close>
    (\<^verbatim>\<open>pkg/utils/rate_limiter.go\<close>): the breaker refines an automaton that counts
    consecutive failures; a step relation that separates its two locks shows the race between
    them. The token bucket of the library is a parameter.
  \<^item> \<^verbatim>\<open>Kubernetes_Access\<close> (\<^verbatim>\<open>pkg/operator/kubernetes.go\<close>),
    \<^verbatim>\<open>Admission_Controller\<close> (\<^verbatim>\<open>pkg/webhook/admission.go\<close>),
    \<^verbatim>\<open>Webhook_Server\<close> (\<^verbatim>\<open>internal/server/webhook.go\<close>): the objects and
    registrations the operator writes to the cluster, TLS, and the HTTP endpoints. The API is a
    parameter over an abstract cluster, its documented laws are hypotheses.
  \<^item> \<^verbatim>\<open>Controller_Manager\<close> (\<^verbatim>\<open>pkg/controllers/manager.go\<close>),
    \<^verbatim>\<open>Operator_Wiring\<close> (\<^verbatim>\<open>pkg/operator/operator.go\<close>) and
    \<^verbatim>\<open>Service_Registry\<close> (\<^verbatim>\<open>pkg/di\<close>): how the parts are built and
    registered. \<open>runs_as\<close> is what an operator registered; it depends on eight settings of the
    configuration only, and the reconcilers in it are those of the controller theories.
  \<^item> \<^verbatim>\<open>Process_Entry\<close> (\<^verbatim>\<open>cmd/controller/main.go\<close>): what the process
    prints, logs and exits with.
  \<^item> \<^verbatim>\<open>Structured_Logging\<close>, \<^verbatim>\<open>Controller_Logging\<close>
    (\<^verbatim>\<open>pkg/utils/logging.go\<close>, \<^verbatim>\<open>pkg/logging/logger.go\<close>,
    \<^verbatim>\<open>pkg/controllers/logging.go\<close>): the loggers as values; the locale
    \<open>structured_logger\<close> is what they rely on, and is interpreted on the handlers of
    \<^verbatim>\<open>log/slog\<close>. The log lines in the middle of a reconciliation are not part of the
    model of the reconciliation.
  \<^item> \<^verbatim>\<open>Metrics_Collection\<close> (\<^verbatim>\<open>pkg/metrics/collector.go\<close>,
    \<^verbatim>\<open>internal/server/metrics.go\<close>): the metrics as a fold over the effects of the
    controllers.

  \<^bold>\<open>Conventions.\<close> A Go struct is a record whose fields carry a short prefix, a nil
  pointer is \<open>None\<close>, an error is \<open>Inl\<close>, and a method that changes its receiver returns the
  new receiver. A function that reads the clock or calls the API more than once takes an
  environment that answers each read by its position, so nothing is assumed about two
  reads in one call: the cluster may change between them. Locks make each operation of the
  shared state one step. A Go map that is iterated is a list in one iteration order, one that
  is only looked up a partial function. The loops of the modelled code run over finite lists
  and need no fuel, but for the wait of the shutdown, whose measure is the number of ticks left.

  \<^bold>\<open>What the properties show.\<close> Safety: a pod is evicted only when every guard of the
  handler holds, it is in excess of a target that keeps the on-demand floor, and evictions of
  one workload are a cooldown apart; a pod is sent to spot only when the floor is met and the
  percentage leaves room. Progress: the loop of evictions and admissions brings a Deployment to
  its target in as many rounds as pods are misplaced, and a StatefulSet in one, at the price of
  a restart of every pod; a shutdown returns, in order and in time. The rest
  are the contracts these rest on, and theorems that pin down where the code departs from its
  comments and documents: which settings have no effect, which metrics stay zero, which
  interleaving undoes a lock.

  \<^bold>\<open>Not modelled.\<close> The log lines a handler writes along its way, the Prometheus format, the
  routing of HTTP requests, the resolution of dependencies by the container, the parsing of
  flags, and the watch machinery of controller-runtime. The run of the elector, the token buckets, YAML, cron,
  certificates, label selectors with expressions and regular expressions are library code:
  parameters. A \<^verbatim>\<open>float64\<close> is a rational where one occurs.
\<close>

end
